(* ===== verification/Prelude.thy ===== *)
theory Prelude
  imports Main
begin

text \<open>
  Shared vocabulary of the development: Python exceptions as values, the bind of the
  resulting sum type, the list idioms the components have in common (collecting reason
  codes with conditional appends, \<^verbatim>\<open>dict.fromkeys\<close> de-duplication,
  \<^verbatim>\<open>itertools.pairwise\<close>, Python slices), and the generic facts about them
  that later proofs pick up through the simplifier.
\<close>

named_theorems checks "definitions of validators and gates, for unfolding"
named_theorems frames "facts that a state field is left unchanged"


subsection \<open>Exceptions as values\<close>

text \<open>
  Every exception the modelled code raises, or lets a library call raise, is a value.
  \<open>ValidationError\<close> is pydantic's refusal to construct a contract,
  \<open>ConflictError\<close> stands for the four conflict errors of the append-only stores,
  \<open>Mt5CallFailed\<close> for \<^verbatim>\<open>Mt5CallFailedError\<close>; the next nine are the errors of the
  agent gateway. \<open>Crashed\<close> is no exception of the
  code: it is the death of the process, which no handler catches.
\<close>

datatype py_exn =
    ValueError
  | AssertionError
  | TypeError
  | KeyError
  | IndexError
  | ValidationError
  | InvalidOperation
  | DivisionByZero
  | OSError
  | RuntimeError
  | ConflictError
  | Mt5CallFailed
  | UnknownAgentError
  | AgentNotActiveError
  | AuthenticationError
  | ImpersonationError
  | AssignmentConflictError
  | ContextConflictError
  | UnknownFeatureSnapshotError
  | DecisionConflictError
  | EventConflictError
  | Crashed

definition bindE :: "py_exn + 'a \<Rightarrow> ('a \<Rightarrow> py_exn + 'b) \<Rightarrow> py_exn + 'b" where
  "bindE m f = (case m of Inl e \<Rightarrow> Inl e | Inr x \<Rightarrow> f x)"

definition mapE :: "('a \<Rightarrow> 'b) \<Rightarrow> py_exn + 'a \<Rightarrow> py_exn + 'b" where
  "mapE f m = bindE m (\<lambda>x. Inr (f x))"

definition guardE :: "bool \<Rightarrow> py_exn \<Rightarrow> py_exn + unit" where
  "guardE ok e = (if ok then Inr () else Inl e)"

lemma bindE_Inr [simp]: "bindE (Inr x) f = f x"
  and bindE_Inl [simp]: "bindE (Inl e) f = Inl e"
  by (simp_all add: bindE_def)

lemma mapE_Inr [simp]: "mapE f (Inr x) = Inr (f x)"
  and mapE_Inl [simp]: "mapE f (Inl e) = Inl e"
  by (simp_all add: mapE_def)

lemma guardE_True [simp]: "guardE True e = Inr ()"
  and guardE_False [simp]: "guardE False e = Inl e"
  by (simp_all add: guardE_def)

lemma bindE_eq_Inr: "bindE m f = Inr y \<longleftrightarrow> (\<exists>x. m = Inr x \<and> f x = Inr y)"
  by (cases m) auto

lemma bindE_eq_Inl: "bindE m f = Inl e \<longleftrightarrow> m = Inl e \<or> (\<exists>x. m = Inr x \<and> f x = Inl e)"
  by (cases m) auto

lemma mapE_eq_Inr: "mapE f m = Inr y \<longleftrightarrow> (\<exists>x. m = Inr x \<and> y = f x)"
  by (cases m) auto

lemma guardE_eq_Inr [simp]: "guardE ok e = Inr u \<longleftrightarrow> ok"
  by (simp add: guardE_def)

lemma bindE_guardE: "bindE (guardE ok e) f = (if ok then f () else Inl e)"
  by (simp add: guardE_def)

lemmas resultE = bindE_eq_Inr bindE_eq_Inl mapE_eq_Inr

text \<open>A comprehension whose body may raise: the first exception ends it.\<close>

fun traverseE :: "('a \<Rightarrow> py_exn + 'b) \<Rightarrow> 'a list \<Rightarrow> py_exn + 'b list" where
  "traverseE f [] = Inr []"
| "traverseE f (x # xs) = bindE (f x) (\<lambda>y. bindE (traverseE f xs) (\<lambda>ys. Inr (y # ys)))"

lemma traverseE_all_Inr:
  "(\<And>x. x \<in> set xs \<Longrightarrow> f x = Inr (g x)) \<Longrightarrow> traverseE f xs = Inr (map g xs)"
  by (induction xs) simp_all

lemma traverseE_map: "traverseE f (map g xs) = traverseE (f \<circ> g) xs"
  by (induction xs) simp_all

lemma traverseE_length: "traverseE f xs = Inr ys \<Longrightarrow> length ys = length xs"
  by (induction xs arbitrary: ys) (auto simp: bindE_eq_Inr)


subsection \<open>Collecting reasons\<close>

text \<open>
  \<^verbatim>\<open>if cond: reasons.append(code)\<close> contributes \<open>reason_if cond code\<close> to the list.
\<close>

definition reason_if :: "bool \<Rightarrow> 'a \<Rightarrow> 'a list" where
  "reason_if b x = (if b then [x] else [])"

lemma reason_if_True [simp]: "reason_if True x = [x]"
  and reason_if_False [simp]: "reason_if False x = []"
  by (simp_all add: reason_if_def)

lemma set_reason_if [simp]: "set (reason_if b x) = (if b then {x} else {})"
  by (cases b) simp_all

lemma reason_if_eq_Nil [simp]: "reason_if b x = [] \<longleftrightarrow> \<not> b"
  and Nil_eq_reason_if [simp]: "[] = reason_if b x \<longleftrightarrow> \<not> b"
  by (cases b; simp)+

text \<open>\<^verbatim>\<open>tuple(dict.fromkeys(xs))\<close>: first occurrences, in order.\<close>

fun dedup :: "'a list \<Rightarrow> 'a list" where
  "dedup [] = []"
| "dedup (x # xs) = x # filter (\<lambda>y. y \<noteq> x) (dedup xs)"

lemma set_dedup [simp]: "set (dedup xs) = set xs"
  by (induction xs) auto

lemma distinct_dedup [simp]: "distinct (dedup xs)"
  by (induction xs) auto

lemma dedup_eq_Nil [simp]: "dedup xs = [] \<longleftrightarrow> xs = []"
  by (cases xs) auto

lemma dedup_distinct: "distinct xs \<Longrightarrow> dedup xs = xs"
  by (induction xs) (auto simp: filter_id_conv)


subsection \<open>Sequences\<close>

fun pairwise :: "'a list \<Rightarrow> ('a \<times> 'a) list" where
  "pairwise (x # y # zs) = (x, y) # pairwise (y # zs)"
| "pairwise _ = []"

lemma length_pairwise [simp]: "length (pairwise xs) = length xs - 1"
  by (induction xs rule: pairwise.induct) auto

lemma pairwise_nth:
  "Suc i < length xs \<Longrightarrow> pairwise xs ! i = (xs ! i, xs ! Suc i)"
proof (induction xs arbitrary: i rule: pairwise.induct)
  case (1 x y zs)
  then show ?case by (cases i) auto
qed auto

text \<open>\<^verbatim>\<open>xs[-k:]\<close> for a positive \<open>k\<close>: the last \<open>k\<close> elements, all of them when there are fewer.\<close>

definition last_n :: "nat \<Rightarrow> 'a list \<Rightarrow> 'a list" where
  "last_n k xs = drop (length xs - k) xs"

lemma length_last_n [simp]: "length (last_n k xs) = min k (length xs)"
  by (simp add: last_n_def)

lemma set_last_n_subset: "set (last_n k xs) \<subseteq> set xs"
  by (simp add: last_n_def set_drop_subset)

text \<open>\<^verbatim>\<open>xs[-1] if xs else None\<close>.\<close>

definition last_opt :: "'a list \<Rightarrow> 'a option" where
  "last_opt xs = (if xs = [] then None else Some (last xs))"

lemma last_opt_simps [simp]: "last_opt [] = None" "last_opt (xs @ [x]) = Some x"
  by (simp_all add: last_opt_def)

lemma last_opt_Some: "last_opt xs = Some x \<Longrightarrow> x \<in> set xs"
  by (auto simp: last_opt_def split: if_splits)

lemma last_opt_None [simp]: "last_opt xs = None \<longleftrightarrow> xs = []"
  by (simp add: last_opt_def)

text \<open>\<^verbatim>\<open>next((x for x in xs if p(x)), None)\<close>, and an early return from a loop.\<close>

fun find_first :: "('a \<Rightarrow> bool) \<Rightarrow> 'a list \<Rightarrow> 'a option" where
  "find_first p [] = None"
| "find_first p (x # xs) = (if p x then Some x else find_first p xs)"

lemma find_first_Some: "find_first p xs = Some x \<Longrightarrow> x \<in> set xs \<and> p x"
  by (induction xs) (auto split: if_splits)

lemma find_first_None [simp]: "find_first p xs = None \<longleftrightarrow> (\<forall>x \<in> set xs. \<not> p x)"
  by (induction xs) auto

lemma find_first_nth:
  assumes "find_first p xs = Some x"
  shows "\<exists>i < length xs. xs ! i = x \<and> p x \<and> (\<forall>j < i. \<not> p (xs ! j))"
  using assms
proof (induction xs)
  case (Cons y ys)
  show ?case
  proof (cases "p y")
    case True
    with Cons.prems show ?thesis by (intro exI [of _ 0]) auto
  next
    case False
    with Cons obtain i where "i < length ys" "ys ! i = x" "p x" "\<forall>j < i. \<not> p (ys ! j)"
      by auto
    with False show ?thesis
      by (intro exI [of _ "Suc i"]) (auto simp: less_Suc_eq_0_disj nth_Cons')
  qed
qed simp


subsection \<open>Strings\<close>

definition is_space :: "char \<Rightarrow> bool" where
  "is_space c =
     (let n = of_char c :: nat in (9 \<le> n \<and> n \<le> 13) \<or> (28 \<le> n \<and> n \<le> 32) \<or> n = 133 \<or> n = 160)"

definition py_strip :: "string \<Rightarrow> string" where
  "py_strip s = rev (dropWhile is_space (rev (dropWhile is_space s)))"

definition blank :: "string \<Rightarrow> bool" where
  \<comment> \<open>\<^verbatim>\<open>not s.strip()\<close>\<close>
  "blank s \<longleftrightarrow> py_strip s = []"

lemma blank_iff: "blank s \<longleftrightarrow> list_all is_space s"
  by (auto simp: blank_def py_strip_def list_all_iff dropWhile_eq_Nil_conv dest: set_dropWhileD)
     (metis dropWhile_eq_Nil_conv hd_dropWhile hd_in_set rev_is_Nil_conv set_rev)

definition text_ok :: "nat \<Rightarrow> nat \<Rightarrow> string \<Rightarrow> bool" where
  \<comment> \<open>\<^verbatim>\<open>Field(min_length=lo, max_length=hi)\<close> on an already stripped string\<close>
  "text_ok lo hi s \<longleftrightarrow> lo \<le> length s \<and> length s \<le> hi"

definition opt_ok :: "('a \<Rightarrow> bool) \<Rightarrow> 'a option \<Rightarrow> bool" where
  "opt_ok p x = (case x of None \<Rightarrow> True | Some v \<Rightarrow> p v)"

lemma opt_ok_simps [simp]: "opt_ok p None" "opt_ok p (Some v) = p v"
  by (simp_all add: opt_ok_def)

text \<open>Constructing a pydantic contract: the value, or a \<open>ValidationError\<close>.\<close>

definition contract :: "('a \<Rightarrow> bool) \<Rightarrow> 'a \<Rightarrow> py_exn + 'a" where
  "contract valid x = (if valid x then Inr x else Inl ValidationError)"

lemma contract_eq_Inr [simp]: "contract valid x = Inr y \<longleftrightarrow> valid x \<and> y = x"
  by (auto simp: contract_def)

lemma contract_eq_Inl: "contract valid x = Inl e \<longleftrightarrow> \<not> valid x \<and> e = ValidationError"
  by (auto simp: contract_def)

end
