(* ===== verification/Pynum.thy ===== *)
theory Pynum
  imports Prelude Complex_Main
begin

text \<open>
  Python's numbers as the code uses them: \<^verbatim>\<open>decimal.Decimal\<close> under the default
  context (28 significant digits, half-even) and binary64 \<^verbatim>\<open>float\<close>, both over
  exact rationals with the rounding of every operation written out, then
  \<^verbatim>\<open>domain/money.py\<close> and \<^verbatim>\<open>domain/timeutils.py\<close>. The exponent limits
  of the two formats and the non-finite values, which pydantic refuses, are left out.
\<close>


subsection \<open>Rounding to an integer\<close>

definition round_half_even :: "rat \<Rightarrow> int" where
  "round_half_even q =
     (let f = \<lfloor>q\<rfloor>; r = q - of_int f in
      if r < 1/2 then f
      else if 1/2 < r then f + 1
      else if even f then f else f + 1)"

definition round_half_up :: "rat \<Rightarrow> int" where
  \<comment> \<open>\<^verbatim>\<open>ROUND_HALF_UP\<close>: to nearest, ties away from zero\<close>
  "round_half_up q = (if 0 \<le> q then \<lfloor>q + 1/2\<rfloor> else - \<lfloor>- q + 1/2\<rfloor>)"

definition round_down :: "rat \<Rightarrow> int" where
  \<comment> \<open>\<^verbatim>\<open>ROUND_DOWN\<close> and \<^verbatim>\<open>int()\<close>: toward zero\<close>
  "round_down q = (if 0 \<le> q then \<lfloor>q\<rfloor> else \<lceil>q\<rceil>)"

definition round_up :: "rat \<Rightarrow> int" where
  \<comment> \<open>\<^verbatim>\<open>ROUND_UP\<close>: away from zero\<close>
  "round_up q = (if 0 \<le> q then \<lceil>q\<rceil> else \<lfloor>q\<rfloor>)"

lemma round_half_even_of_int [simp]: "round_half_even (of_int z) = z"
  by (simp add: round_half_even_def)

lemma round_half_even_error: "\<bar>of_int (round_half_even q) - q\<bar> \<le> 1/2"
proof -
  have "of_int \<lfloor>q\<rfloor> \<le> q" and "q < of_int \<lfloor>q\<rfloor> + 1" by linarith+
  then show ?thesis by (auto simp: round_half_even_def Let_def abs_le_iff)
qed

lemma round_half_even_near:
  "of_int (round_half_even q) - 1/2 \<le> q" "q \<le> of_int (round_half_even q) + 1/2"
  using round_half_even_error [of q] by linarith+

lemma round_half_even_mono:
  assumes "x \<le> y" shows "round_half_even x \<le> round_half_even y"
proof (cases "\<lfloor>x\<rfloor> = \<lfloor>y\<rfloor>")
  case True
  with assms show ?thesis by (auto simp: round_half_even_def Let_def)
next
  case False
  with assms have lt: "\<lfloor>x\<rfloor> + 1 \<le> \<lfloor>y\<rfloor>" by (meson floor_mono le_less zless_imp_add1_zle)
  have "round_half_even x \<le> \<lfloor>x\<rfloor> + 1" "\<lfloor>y\<rfloor> \<le> round_half_even y"
    by (auto simp: round_half_even_def Let_def)
  with lt show ?thesis by linarith
qed

lemma round_half_even_minus: "round_half_even (- q) = - round_half_even q"
proof (cases "q = of_int \<lfloor>q\<rfloor>")
  case True
  then obtain z where "q = of_int z" by blast
  then show ?thesis
    using round_half_even_of_int [of "- z"] by (simp del: round_half_even_of_int) simp
next
  case False
  define f where "f = \<lfloor>q\<rfloor>"
  from False have "\<lceil>q\<rceil> = f + 1" by (simp add: ceiling_altdef f_def)
  then have neg: "\<lfloor>- q\<rfloor> = - f - 1" by (simp add: ceiling_def)
  consider "q - of_int f < 1/2" | "1/2 < q - of_int f" | "q = of_int f + 1/2" by linarith
  then show ?thesis
    unfolding round_half_even_def Let_def neg f_def [symmetric]
    by cases (simp_all add: algebra_simps)
qed

lemma round_down_bounds: "0 \<le> q \<Longrightarrow> 0 \<le> round_down q \<and> of_int (round_down q) \<le> q"
  by (simp add: round_down_def)

lemma round_down_gt: "0 \<le> q \<Longrightarrow> q - 1 < of_int (round_down q)"
  by (simp add: round_down_def) linarith

lemma round_down_mono: "x \<le> y \<Longrightarrow> round_down x \<le> round_down y"
  by (auto simp: round_down_def floor_mono ceiling_mono)
     (meson ceiling_le_zero le_less_linear less_imp_le order_trans zero_le_floor)

lemma round_up_bounds: "0 \<le> q \<Longrightarrow> q \<le> of_int (round_up q)"
  by (simp add: round_up_def)

lemma round_of_int [simp]:
  "round_half_up (of_int z) = z" "round_down (of_int z) = z" "round_up (of_int z) = z"
proof -
  have "\<lfloor>(of_int z :: rat) + 1/2\<rfloor> = z" "\<lfloor>- (of_int z :: rat) + 1/2\<rfloor> = - z"
    by (simp_all add: floor_eq_iff)
  then show "round_half_up (of_int z) = z" by (simp add: round_half_up_def)
qed (simp_all add: round_down_def round_up_def)

lemma round_half_up_mono: assumes "x \<le> y" shows "round_half_up x \<le> round_half_up y"
proof -
  have "\<lfloor>x + 1/2\<rfloor> \<le> \<lfloor>y + 1/2\<rfloor>" "\<lfloor>- y + 1/2\<rfloor> \<le> \<lfloor>- x + 1/2\<rfloor>"
    using assms by (auto intro!: floor_mono)
  moreover have "0 \<le> \<lfloor>y + 1/2\<rfloor>" if "0 \<le> y" using that by simp
  moreover have "0 \<le> \<lfloor>- x + 1/2\<rfloor>" if "\<not> 0 \<le> x" using that by simp
  ultimately show ?thesis using assms unfolding round_half_up_def
    by (cases "0 \<le> x"; cases "0 \<le> y"; simp only: if_True if_False simp_thms; linarith)
qed

lemma round_half_up_nonneg: "0 \<le> x \<Longrightarrow> 0 \<le> round_half_up x"
  by (simp add: round_half_up_def)


subsection \<open>Rounding to a number of significant digits\<close>

fun ndigits :: "nat \<Rightarrow> nat \<Rightarrow> nat" where
  "ndigits b n = (if b \<le> 1 \<or> n = 0 then 0 else Suc (ndigits b (n div b)))"

declare ndigits.simps [simp del]

lemma ndigits_bounds:
  "2 \<le> b \<Longrightarrow> 0 < n \<Longrightarrow> b ^ (ndigits b n - 1) \<le> n \<and> n < b ^ ndigits b n \<and> 1 \<le> ndigits b n"
proof (induction b n rule: ndigits.induct)
  case (1 b n)
  have unf: "ndigits b n = Suc (ndigits b (n div b))" using "1.prems" by (simp add: ndigits.simps)
  show ?case
  proof (cases "n div b = 0")
    case True
    with "1.prems" have "ndigits b (n div b) = 0" and "n < b"
      by (simp_all add: ndigits.simps [of b 0] div_eq_0_iff)
    with unf "1.prems" show ?thesis by simp
  next
    case False
    with "1" have ih: "b ^ (ndigits b (n div b) - 1) \<le> n div b"
      "n div b < b ^ ndigits b (n div b)" "1 \<le> ndigits b (n div b)" by auto
    obtain m where m: "ndigits b (n div b) = Suc m" using ih(3) by (cases "ndigits b (n div b)") auto
    have "b * b ^ m \<le> b * (n div b)" using ih(1) m by simp
    also have "\<dots> \<le> n" by (simp add: mult.commute)
    finally have lo: "b ^ ndigits b (n div b) \<le> n" by (simp add: m)
    have "n div b + 1 \<le> b ^ ndigits b (n div b)" using ih(2) by simp
    then have "b * (n div b + 1) \<le> b * b ^ ndigits b (n div b)" by (rule mult_le_mono2)
    moreover have "n < b * (n div b + 1)"
      using "1.prems" by (metis Suc_eq_plus1 dividend_less_times_div mult.commute mult_Suc_right
          add.commute le0 less_le_trans zero_less_numeral)
    ultimately have hi: "n < b ^ Suc (ndigits b (n div b))" by simp
    from lo hi unf show ?thesis by simp
  qed
qed

definition adjusted :: "nat \<Rightarrow> rat \<Rightarrow> int" where
  \<comment> \<open>the exponent of the leading digit in base \<open>b\<close>\<close>
  "adjusted b x =
     (let (n, d) = quotient_of \<bar>x\<bar>;
          k = int (ndigits b (nat n)) - int (ndigits b (nat d))
      in if of_nat b powi k \<le> \<bar>x\<bar> then k else k - 1)"

definition round_sig :: "nat \<Rightarrow> nat \<Rightarrow> rat \<Rightarrow> rat" where
  "round_sig b p x =
     (if x = 0 then 0
      else let u = of_nat b powi (adjusted b x - (int p - 1))
           in of_int (round_half_even (x / u)) * u)"

locale sig_rounding =
  fixes b p :: nat
  assumes base: "2 \<le> b" and prec: "1 \<le> p"
begin

lemma powi_pos [simp]: "0 < (of_nat b :: rat) powi e"
  using base by (simp add: zero_less_power_int)

lemma powi_mono: "d \<le> e \<Longrightarrow> (of_nat b :: rat) powi d \<le> of_nat b powi e"
  using base by (simp add: power_int_increasing)

lemma powi_less_iff: "(of_nat b :: rat) powi d < of_nat b powi e \<longleftrightarrow> d < e"
  using base by (metis less_le_not_le linorder_not_le nle_le of_nat_1 of_nat_le_iff
      powi_mono power_int_strict_increasing of_nat_less_iff one_less_numeral_iff
      order_less_le_trans semiring_norm(76))

lemma powi_plus: "(of_nat b :: rat) powi (d + e) = of_nat b powi d * of_nat b powi e"
  using base by (simp add: power_int_add)

lemma powi_minus: "(of_nat b :: rat) powi (d - e) = of_nat b powi d / of_nat b powi e"
  using base by (simp add: power_int_diff)

lemma powi_pred: "1 \<le> n \<Longrightarrow> (of_nat b :: rat) powi (int n - 1) = of_nat b ^ (n - 1)"
  by (cases n) simp_all

lemma adjusted_bounds:
  assumes "x \<noteq> 0"
  shows "of_nat b powi adjusted b x \<le> \<bar>x\<bar>" and "\<bar>x\<bar> < of_nat b powi (adjusted b x + 1)"
proof -
  obtain n d where q: "quotient_of \<bar>x\<bar> = (n, d)" by fastforce
  then have d: "0 < d" and x: "\<bar>x\<bar> = of_int n / of_int d"
    by (auto simp: quotient_of_denom_pos quotient_of_div)
  with assms have n: "0 < n" by (metis abs_le_zero_iff divide_eq_0_iff linorder_not_less
        of_int_pos of_int_le_0_iff divide_le_0_iff not_less_iff_gr_or_eq)
  define N where "N = ndigits b (nat n)"
  define D where "D = ndigits b (nat d)"
  define k where "k = int N - int D"
  let ?B = "of_nat b :: rat"
  have nb: "b ^ (N - 1) \<le> nat n" "nat n < b ^ N" "1 \<le> N"
    and db: "b ^ (D - 1) \<le> nat d" "nat d < b ^ D" "1 \<le> D"
    using ndigits_bounds [of b "nat n"] ndigits_bounds [of b "nat d"] base n d
    by (auto simp: N_def D_def)
  have n': "?B powi (int N - 1) \<le> of_int n" "of_int n < ?B powi int N"
  proof -
    have "of_nat (b ^ (N - 1)) \<le> (of_nat (nat n) :: rat)" "(of_nat (nat n) :: rat) < of_nat (b ^ N)"
      using nb by (simp_all only: of_nat_le_iff of_nat_less_iff)
    with n nb(3) show "?B powi (int N - 1) \<le> of_int n" "of_int n < ?B powi int N"
      by (simp_all add: powi_pred)
  qed
  have d': "?B powi (int D - 1) \<le> of_int d" "of_int d < ?B powi int D"
  proof -
    have "of_nat (b ^ (D - 1)) \<le> (of_nat (nat d) :: rat)" "(of_nat (nat d) :: rat) < of_nat (b ^ D)"
      using db by (simp_all only: of_nat_le_iff of_nat_less_iff)
    with d db(3) show "?B powi (int D - 1) \<le> of_int d" "of_int d < ?B powi int D"
      by (simp_all add: powi_pred)
  qed
  have "\<bar>x\<bar> < ?B powi int N / ?B powi (int D - 1)"
    unfolding x using n' d' n d by (intro frac_less) (auto intro: order_less_imp_le)
  moreover have "k + 1 = int N - (int D - 1)" by (simp add: k_def)
  ultimately have hi: "\<bar>x\<bar> < ?B powi (k + 1)" by (simp only: powi_minus)
  have "?B powi (int N - 1) / ?B powi int D \<le> \<bar>x\<bar>"
    unfolding x using n' d' n d by (intro frac_le) (auto intro: order_less_imp_le)
  moreover have "k - 1 = int N - 1 - int D" by (simp add: k_def)
  ultimately have lo: "?B powi (k - 1) \<le> \<bar>x\<bar>" by (simp only: powi_minus)
  have "adjusted b x = (if ?B powi k \<le> \<bar>x\<bar> then k else k - 1)"
    by (simp add: adjusted_def q k_def N_def D_def Let_def)
  with hi lo show "?B powi adjusted b x \<le> \<bar>x\<bar>" "\<bar>x\<bar> < ?B powi (adjusted b x + 1)"
    by auto
qed

lemma adjusted_unique:
  assumes "of_nat b powi a \<le> \<bar>x\<bar>" "\<bar>x\<bar> < of_nat b powi (a + 1)"
  shows "adjusted b x = a"
proof -
  have "0 < \<bar>x\<bar>" using assms(1) powi_pos [of a] by linarith
  then have "x \<noteq> 0" by simp
  note * = adjusted_bounds [OF this]
  have "of_nat b powi adjusted b x < (of_nat b powi (a + 1) :: rat)"
    and "of_nat b powi a < (of_nat b powi (adjusted b x + 1) :: rat)"
    using * assms by linarith+
  then show ?thesis by (simp add: powi_less_iff)
qed

lemma adjusted_mono:
  assumes "x \<noteq> 0" "\<bar>x\<bar> \<le> \<bar>y\<bar>" shows "adjusted b x \<le> adjusted b y"
proof -
  have "y \<noteq> 0" using assms by auto
  then have "of_nat b powi adjusted b x < (of_nat b powi (adjusted b y + 1) :: rat)"
    using adjusted_bounds [OF assms(1)] adjusted_bounds [of y] assms(2) by linarith
  then show ?thesis by (simp add: powi_less_iff)
qed

lemma adjusted_minus [simp]: "adjusted b (- x) = adjusted b x"
  by (simp add: adjusted_def)

definition ulp :: "rat \<Rightarrow> rat" where
  "ulp x = of_nat b powi (adjusted b x - (int p - 1))"

lemma ulp_pos [simp]: "0 < ulp x"
  by (simp add: ulp_def)

lemma ulp_neq_0 [simp]: "ulp x \<noteq> 0"
  using ulp_pos [of x] by linarith

lemma ulp_minus [simp]: "ulp (- x) = ulp x"
  by (simp add: ulp_def)

lemma round_sig_nz: "x \<noteq> 0 \<Longrightarrow> round_sig b p x = of_int (round_half_even (x / ulp x)) * ulp x"
  by (simp add: round_sig_def ulp_def Let_def)

lemma round_sig_zero [simp]: "round_sig b p 0 = 0"
  by (simp add: round_sig_def)

lemma round_sig_minus [simp]: "round_sig b p (- x) = - round_sig b p x"
proof (cases "x = 0")
  case False
  then show ?thesis by (simp add: round_sig_nz round_half_even_minus)
qed simp

lemma scaled_exact:
  assumes x: "x = of_int c * of_nat b powi e" and e: "adjusted b x - (int p - 1) \<le> e"
  shows "round_sig b p x = x"
proof (cases "x = 0")
  case False
  define n where "n = nat (e - (adjusted b x - (int p - 1)))"
  have "of_nat b powi e = ulp x * of_int (int b ^ n)"
    using e by (simp add: ulp_def n_def powi_plus [symmetric] flip: power_int_of_nat)
  then have *: "x = of_int (c * int b ^ n) * ulp x" using x by (simp add: mult_ac)
  then have "x / ulp x = of_int (c * int b ^ n)" by (metis ulp_neq_0 nonzero_mult_div_cancel_right)
  then have "round_half_even (x / ulp x) = c * int b ^ n" by (simp only: round_half_even_of_int)
  with False * show ?thesis by (simp add: round_sig_nz)
qed simp

lemma round_sig_exact_less:
  assumes x: "x = of_int c * of_nat b powi e" and c: "\<bar>c\<bar> < int b ^ p"
  shows "round_sig b p x = x"
proof (cases "x = 0")
  case False
  have "(of_nat b :: rat) powi adjusted b x \<le> \<bar>of_int c\<bar> * of_nat b powi e"
    using adjusted_bounds [OF False] x by (simp add: abs_mult)
  also have "\<dots> < of_int (int b ^ p) * of_nat b powi e"
    using c by (intro mult_strict_right_mono) (simp_all only: of_int_less_iff of_int_abs [symmetric] powi_pos)
  also have "\<dots> = of_nat b powi (int p + e)" by (simp add: powi_plus)
  finally have "adjusted b x < int p + e" by (simp only: powi_less_iff)
  then show ?thesis by (intro scaled_exact [OF x]) simp
qed simp

lemma round_sig_powi [simp]: "round_sig b p (of_nat b powi e) = of_nat b powi e"
  using prec base by (intro round_sig_exact_less [of _ 1 e]) (auto intro: one_less_power)

lemma round_sig_bounds:
  assumes "0 < x"
  shows "of_nat b powi adjusted b x \<le> round_sig b p x"
    and "round_sig b p x \<le> of_nat b powi (adjusted b x + 1)"
proof -
  let ?r = "\<lambda>x. of_int (round_half_even (x / ulp x)) * ulp x"
  have pw: "of_nat b powi (adjusted b x + k) = of_int (int b ^ nat (int p - 1 + k)) * ulp x"
    if "0 \<le> k" for k
    using that prec by (simp add: ulp_def powi_plus [symmetric] add.commute flip: power_int_of_nat)
  have "of_int (int b ^ nat (int p - 1)) \<le> x / ulp x" "x / ulp x \<le> of_int (int b ^ nat (int p))"
    using adjusted_bounds [of x] assms pw [of 0] pw [of 1] by (simp_all add: le_divide_eq divide_le_eq)
  then have "int b ^ nat (int p - 1) \<le> round_half_even (x / ulp x)"
    "round_half_even (x / ulp x) \<le> int b ^ nat (int p)"
    using round_half_even_mono by (metis round_half_even_of_int)+
  then have "of_int (int b ^ nat (int p - 1)) * ulp x \<le> ?r x"
    "?r x \<le> of_int (int b ^ nat (int p)) * ulp x"
    by (simp_all only: mult_right_mono of_int_le_iff order_less_imp_le [OF ulp_pos])
  with assms pw [of 0] pw [of 1] show
    "of_nat b powi adjusted b x \<le> round_sig b p x"
    "round_sig b p x \<le> of_nat b powi (adjusted b x + 1)"
    by (simp_all add: round_sig_nz)
qed

lemma round_sig_pos: "0 < x \<Longrightarrow> 0 < round_sig b p x"
  using round_sig_bounds(1) powi_pos by (meson less_le_trans)

lemma round_sig_mono_pos:
  assumes "0 < x" "x \<le> y" shows "round_sig b p x \<le> round_sig b p y"
proof (cases "adjusted b x = adjusted b y")
  case True
  then have u: "ulp x = ulp y" by (simp add: ulp_def)
  have "x / ulp y \<le> y / ulp y" using assms by (simp add: divide_right_mono order_less_imp_le)
  then have "round_half_even (x / ulp y) \<le> round_half_even (y / ulp y)" by (rule round_half_even_mono)
  with assms show ?thesis by (simp add: round_sig_nz u mult_right_mono order_less_imp_le)
next
  case False
  with assms adjusted_mono [of x y] have "adjusted b x + 1 \<le> adjusted b y" by auto
  then have "(of_nat b :: rat) powi (adjusted b x + 1) \<le> of_nat b powi adjusted b y" by (rule powi_mono)
  with assms round_sig_bounds(2) [of x] round_sig_bounds(1) [of y] show ?thesis by simp
qed

lemma round_sig_mono: assumes "x \<le> y" shows "round_sig b p x \<le> round_sig b p y"
proof -
  have pos: "0 \<le> round_sig b p z" if "0 \<le> z" for z
    using that round_sig_pos [of z] by (cases "z = 0") auto
  consider "0 < x" | "x \<le> 0" "0 \<le> y" | "y < 0" by linarith
  then show ?thesis
  proof cases
    case 1 with assms show ?thesis by (rule round_sig_mono_pos [rotated]) 
  next
    case 2 then show ?thesis using pos [of y] pos [of "- x"] by simp
  next
    case 3 then show ?thesis using assms round_sig_mono_pos [of "- y" "- x"] by simp
  qed
qed

lemma round_sig_nonneg [simp]: "0 \<le> x \<Longrightarrow> 0 \<le> round_sig b p x"
  using round_sig_mono [of 0 x] by simp

lemma round_sig_neg: "x < 0 \<Longrightarrow> round_sig b p x < 0"
  using round_sig_pos [of "- x"] by simp

lemma round_sig_pos_iff [simp]: "0 < round_sig b p x \<longleftrightarrow> 0 < x"
  using round_sig_pos [of x] round_sig_neg [of x] round_sig_zero
  by (metis less_irrefl less_asym linorder_neqE)

lemma round_sig_neg_iff [simp]: "round_sig b p x < 0 \<longleftrightarrow> x < 0"
  using round_sig_pos_iff [of "- x"] by simp

lemma round_sig_eq_0 [simp]: "round_sig b p x = 0 \<longleftrightarrow> x = 0"
  using round_sig_pos [of x] round_sig_neg [of x] round_sig_zero
  by (metis less_irrefl linorder_neqE)

lemma round_sig_error: "\<bar>round_sig b p x - x\<bar> \<le> ulp x / 2"
proof (cases "x = 0")
  case False
  define r where "r = (of_int (round_half_even (x / ulp x)) :: rat)"
  have "round_sig b p x - x = (r - x / ulp x) * ulp x"
    using False by (simp add: round_sig_nz r_def left_diff_distrib)
  then have "\<bar>round_sig b p x - x\<bar> = \<bar>r - x / ulp x\<bar> * ulp x"
    using ulp_pos [of x] by (simp only: abs_mult abs_of_pos)
  also have "\<dots> \<le> 1/2 * ulp x"
    unfolding r_def by (intro mult_right_mono round_half_even_error order_less_imp_le ulp_pos)
  finally show ?thesis by simp
next
  case True
  then show ?thesis using ulp_pos [of 0] by (simp add: order_less_imp_le)
qed

lemma round_sig_relative_error:
  "\<bar>round_sig b p x - x\<bar> \<le> \<bar>x\<bar> * of_nat b powi (1 - int p) / 2"
proof (cases "x = 0")
  case False
  have "ulp x = of_nat b powi adjusted b x * of_nat b powi (1 - int p)"
    unfolding ulp_def by (simp add: powi_plus [symmetric] diff_diff_eq2 add_diff_eq)
  also have "\<dots> \<le> \<bar>x\<bar> * of_nat b powi (1 - int p)"
    using adjusted_bounds(1) [OF False] by (intro mult_right_mono) (simp_all add: zero_le_power_int)
  finally show ?thesis using round_sig_error [of x] by simp
qed simp

lemma round_sig_idem [simp]: "round_sig b p (round_sig b p x) = round_sig b p x"
proof (cases "x = 0")
  case False
  define c where "c = round_half_even (x / ulp x)"
  have r: "round_sig b p x = of_int c * ulp x" using False by (simp add: round_sig_nz c_def)
  have "\<bar>x / ulp x\<bar> \<le> of_int (int b ^ p)"
  proof -
    have "\<bar>x\<bar> \<le> of_nat b powi (adjusted b x + 1)" using adjusted_bounds [OF False] by linarith
    also have "of_nat b powi (adjusted b x + 1) = of_int (int b ^ p) * ulp x"
      by (simp add: ulp_def powi_plus [symmetric] flip: power_int_of_nat)
    finally show ?thesis using ulp_pos [of x] by (simp add: abs_divide divide_le_eq abs_of_pos)
  qed
  then have "x / ulp x \<le> of_int (int b ^ p)" "of_int (- (int b ^ p)) \<le> x / ulp x"
    unfolding abs_le_iff of_int_minus by linarith+
  then have "c \<le> int b ^ p" "- (int b ^ p) \<le> c"
    unfolding c_def by (metis round_half_even_mono round_half_even_of_int)+
  then have c: "\<bar>c\<bar> \<le> int b ^ p" by linarith
  show ?thesis
  proof (cases "\<bar>c\<bar> = int b ^ p")
    case True
    then have "c = int b ^ p \<or> c = - (int b ^ p)" by linarith
    moreover have "of_int (int b ^ p) * ulp x = of_nat b powi (adjusted b x + 1)"
      by (simp add: ulp_def powi_plus [symmetric] flip: power_int_of_nat)
    ultimately have "round_sig b p x = of_nat b powi (adjusted b x + 1)
      \<or> round_sig b p x = - (of_nat b powi (adjusted b x + 1))"
      unfolding r by (metis mult_minus_left of_int_minus)
    then show ?thesis by (metis round_sig_minus round_sig_powi)
  next
    case False
    with c have "\<bar>c\<bar> < int b ^ p" by simp
    with r show ?thesis unfolding ulp_def by (metis round_sig_exact_less)
  qed
qed simp

end

interpretation dec28: sig_rounding 10 28
  by unfold_locales simp_all

interpretation bin64: sig_rounding 2 53
  by unfold_locales simp_all


subsection \<open>Decimal arithmetic in the default context\<close>

type_synonym decimal = rat

abbreviation rnd :: "rat \<Rightarrow> decimal" where
  "rnd \<equiv> round_sig 10 28"

definition dadd :: "decimal \<Rightarrow> decimal \<Rightarrow> decimal" where "dadd a b = rnd (a + b)"
definition dsub :: "decimal \<Rightarrow> decimal \<Rightarrow> decimal" where "dsub a b = rnd (a - b)"
definition dmul :: "decimal \<Rightarrow> decimal \<Rightarrow> decimal" where "dmul a b = rnd (a * b)"
definition ddiv :: "decimal \<Rightarrow> decimal \<Rightarrow> decimal" where "ddiv a b = rnd (a / b)"
definition dabs :: "decimal \<Rightarrow> decimal" where "dabs a = rnd \<bar>a\<bar>"

definition dsum :: "decimal list \<Rightarrow> decimal" where
  \<comment> \<open>\<^verbatim>\<open>sum(values, ZERO)\<close>\<close>
  "dsum xs = foldl dadd 0 xs"

lemmas decimal_ops = dadd_def dsub_def dmul_def ddiv_def dabs_def

text \<open>
  A value with at most ten decimals and eighteen digits before the point is kept by every
  operation; the premise of this rewrite is decided on closed terms, which is how concrete
  decimal arithmetic is evaluated.
\<close>

lemma rnd_exact:
  assumes "of_int \<lfloor>x * 10 ^ 10\<rfloor> = x * 10 ^ 10" and "\<bar>x * 10 ^ 10\<bar> < 10 ^ 28"
  shows "rnd x = x"
proof (rule dec28.round_sig_exact_less)
  show "x = of_int \<lfloor>x * 10 ^ 10\<rfloor> * of_nat 10 powi (- 10)"
    unfolding assms(1) by (simp add: power_int_minus)
  have "of_int \<bar>\<lfloor>x * 10 ^ 10\<rfloor>\<bar> = \<bar>x * 10 ^ 10\<bar>" using assms(1) by (metis of_int_abs)
  with assms(2) have "(of_int \<bar>\<lfloor>x * 10 ^ 10\<rfloor>\<bar> :: rat) < of_int (10 ^ 28)" by simp
  then show "\<bar>\<lfloor>x * 10 ^ 10\<rfloor>\<bar> < int 10 ^ 28" by (simp only: of_int_less_iff) simp
qed

lemma decimal_sign [simp]:
  "0 < dadd a b \<longleftrightarrow> 0 < a + b" "0 < dsub a b \<longleftrightarrow> b < a" "0 < dabs a \<longleftrightarrow> a \<noteq> 0"
  "dsub a b < 0 \<longleftrightarrow> a < b" "dsub a b = 0 \<longleftrightarrow> a = b"
  "0 < dmul a b \<longleftrightarrow> 0 < a * b" "0 < ddiv a b \<longleftrightarrow> 0 < a / b"
  by (simp_all add: decimal_ops)

lemma decimal_nonneg:
  "0 \<le> a \<Longrightarrow> 0 \<le> b \<Longrightarrow> 0 \<le> dadd a b" "b \<le> a \<Longrightarrow> 0 \<le> dsub a b"
  "0 \<le> a \<Longrightarrow> 0 \<le> b \<Longrightarrow> 0 \<le> dmul a b" "0 \<le> a \<Longrightarrow> 0 \<le> b \<Longrightarrow> 0 \<le> ddiv a b" "0 \<le> dabs c"
  by (simp_all add: decimal_ops)

lemma decimal_mono:
  "a \<le> a' \<Longrightarrow> b \<le> b' \<Longrightarrow> dadd a b \<le> dadd a' b'"
  "a \<le> a' \<Longrightarrow> b' \<le> b \<Longrightarrow> dsub a b \<le> dsub a' b'"
  "0 \<le> a \<Longrightarrow> a \<le> a' \<Longrightarrow> 0 \<le> b \<Longrightarrow> b \<le> b' \<Longrightarrow> dmul a b \<le> dmul a' b'"
  "a \<le> a' \<Longrightarrow> 0 < b \<Longrightarrow> ddiv a b \<le> ddiv a' b"
  unfolding decimal_ops
  by (rule dec28.round_sig_mono; simp add: add_mono diff_mono mult_mono divide_right_mono)+

lemma decimal_id [simp]: "rnd a = a \<Longrightarrow> dadd a 0 = a" "rnd a = a \<Longrightarrow> dadd 0 a = a"
  "rnd a = a \<Longrightarrow> dsub a 0 = a"
  by (simp_all add: decimal_ops)

lemma dsum_nonneg: "(\<And>x. x \<in> set xs \<Longrightarrow> 0 \<le> x) \<Longrightarrow> 0 \<le> dsum xs"
proof -
  have "0 \<le> a \<Longrightarrow> (\<And>x. x \<in> set xs \<Longrightarrow> 0 \<le> x) \<Longrightarrow> 0 \<le> foldl dadd a xs" for a
    by (induction xs arbitrary: a) (auto intro: decimal_nonneg)
  then show "(\<And>x. x \<in> set xs \<Longrightarrow> 0 \<le> x) \<Longrightarrow> 0 \<le> dsum xs" by (simp add: dsum_def)
qed


subsection \<open>Prices (\<^verbatim>\<open>domain/money.py\<close>)\<close>

datatype rounding = ROUND_HALF_EVEN | ROUND_HALF_UP | ROUND_DOWN | ROUND_UP

fun round_mode :: "rounding \<Rightarrow> rat \<Rightarrow> int" where
  "round_mode ROUND_HALF_EVEN q = round_half_even q"
| "round_mode ROUND_HALF_UP q = round_half_up q"
| "round_mode ROUND_DOWN q = round_down q"
| "round_mode ROUND_UP q = round_up q"

definition quantize :: "decimal \<Rightarrow> decimal \<Rightarrow> rounding \<Rightarrow> py_exn + decimal" where
  \<comment> \<open>\<^verbatim>\<open>x.quantize(t, rounding)\<close>: a coefficient beyond the precision is refused\<close>
  "quantize x t m =
     (let c = round_mode m (x / t)
      in if 10 ^ 28 \<le> \<bar>c\<bar> then Inl InvalidOperation else Inr (of_int c * t))"

definition tick_size_for_digits :: "int \<Rightarrow> py_exn + decimal" where
  "tick_size_for_digits digits =
     (if digits < 0 then Inl ValueError else Inr (10 powi (- digits)))"

definition quantize_price :: "decimal \<Rightarrow> int \<Rightarrow> rounding \<Rightarrow> py_exn + decimal" where
  "quantize_price price digits m =
     bindE (tick_size_for_digits digits) (\<lambda>t. quantize price t m)"

definition price_to_points :: "decimal \<Rightarrow> decimal \<Rightarrow> py_exn + int" where
  "price_to_points distance point =
     (if point \<le> 0 then Inl ValueError
      else mapE round_down (quantize (ddiv distance point) 1 ROUND_HALF_UP))"

definition points_to_price :: "int \<Rightarrow> decimal \<Rightarrow> py_exn + decimal" where
  "points_to_price points point =
     (if point \<le> 0 then Inl ValueError else Inr (dmul (of_int points) point))"

text \<open>
  The rounding directions the strategies rely on: a value quantised downwards never
  exceeds the original, one quantised upwards is never below it.
\<close>

lemma quantize_price_down:
  "quantize_price x d ROUND_DOWN = Inr y \<Longrightarrow> 0 \<le> x \<Longrightarrow> 0 \<le> y \<and> y \<le> x"
  using round_down_bounds [of "x / 10 powi (- d)"]
  by (auto simp: quantize_price_def tick_size_for_digits_def quantize_def Let_def pos_le_divide_eq
      zero_less_power_int split: if_splits)

lemma quantize_price_up:
  "quantize_price x d ROUND_UP = Inr y \<Longrightarrow> 0 \<le> x \<Longrightarrow> x \<le> y"
  using round_up_bounds [of "x / 10 powi (- d)"]
  by (auto simp: quantize_price_def tick_size_for_digits_def quantize_def Let_def pos_divide_le_eq
      zero_less_power_int split: if_splits)

lemma quantize_price_down_neg:
  "quantize_price x d ROUND_DOWN = Inr y \<Longrightarrow> x \<le> 0 \<Longrightarrow> y \<le> 0"
  using round_down_mono [of "x / 10 powi (- d)" 0] round_of_int(2) [of 0]
  by (auto simp: quantize_price_def tick_size_for_digits_def quantize_def Let_def
      mult_nonpos_nonneg zero_le_power_int divide_nonpos_nonneg split: if_splits)

text \<open>Quantising in the chosen direction keeps a level on its side of the unrounded one.\<close>

lemma quantized_below: "quantize_price x d ROUND_DOWN = Inr y \<Longrightarrow> 0 < y \<Longrightarrow> y \<le> x"
  using quantize_price_down [of x d y] quantize_price_down_neg [of x d y] by (cases "0 \<le> x") auto

lemma quantized_above: "quantize_price x d ROUND_UP = Inr y \<Longrightarrow> 0 < y \<Longrightarrow> x \<le> y"
  using quantize_price_up [of x d y] by (cases "0 \<le> x") auto

lemma quantize_price_rnd: "quantize_price x d m = Inr y \<Longrightarrow> rnd y = y"
  by (auto simp: quantize_price_def tick_size_for_digits_def quantize_def Let_def split: if_splits
      intro!: dec28.round_sig_exact_less)

lemma price_to_points_nonneg: "price_to_points x p = Inr n \<Longrightarrow> 0 \<le> x \<Longrightarrow> 0 \<le> n"
  by (auto simp: price_to_points_def quantize_def Let_def mapE_eq_Inr round_half_up_nonneg
      ddiv_def split: if_splits)

lemma price_to_points_mono:
  "price_to_points x p = Inr m \<Longrightarrow> price_to_points y p = Inr n \<Longrightarrow> x \<le> y \<Longrightarrow> m \<le> n"
  by (auto simp: price_to_points_def quantize_def Let_def mapE_eq_Inr decimal_mono
      intro!: round_half_up_mono split: if_splits)

text \<open>
  \<^verbatim>\<open>points_to_price\<close> is inverse to \<^verbatim>\<open>price_to_points\<close> as long as the product
  fits the 28 digits of the context.
\<close>

lemma points_roundtrip:
  assumes "point = of_int c * 10 powi e" "0 < c" "\<bar>n * c\<bar> < 10 ^ 28"
  shows "bindE (points_to_price n point) (\<lambda>d. price_to_points d point) = Inr n"
proof -
  have pos: "0 < point" using assms by (simp add: zero_less_power_int)
  have "rnd (of_int n * point) = of_int n * point"
    using assms by (intro dec28.round_sig_exact_less [of _ "n * c" e]) simp_all
  moreover have n: "\<bar>n\<bar> < 10 ^ 28"
  proof -
    have "\<bar>n\<bar> * 1 \<le> \<bar>n\<bar> * c" using assms(2) by (intro mult_left_mono) auto
    with assms show ?thesis by (simp add: abs_mult)
  qed
  moreover have "rnd (of_int n) = of_int n"
    using n by (intro dec28.round_sig_exact_less [of _ n 0]) simp_all
  ultimately show ?thesis using pos
    by (simp add: points_to_price_def price_to_points_def dmul_def ddiv_def quantize_def Let_def)
qed


subsection \<open>Binary floats and clock ages (\<^verbatim>\<open>domain/timeutils.py\<close>)\<close>

type_synonym utc = int \<comment> \<open>a UTC instant in microseconds since the epoch, datetime's resolution\<close>

abbreviation fl :: "rat \<Rightarrow> rat" where
  "fl \<equiv> round_sig 2 53"

definition total_seconds :: "int \<Rightarrow> rat" where
  "total_seconds us = fl (of_int us / 10 ^ 6)"

definition total_ms :: "int \<Rightarrow> rat" where
  \<comment> \<open>\<^verbatim>\<open>delta.total_seconds() * 1000\<close>, a float\<close>
  "total_ms us = fl (total_seconds us * 1000)"

definition age_ms :: "utc \<Rightarrow> utc \<Rightarrow> int" where
  "age_ms event_time now = round_down (total_ms (now - event_time))"

lemma total_ms_mono: "d \<le> d' \<Longrightarrow> total_ms d \<le> total_ms d'"
  by (auto simp: total_ms_def total_seconds_def divide_right_mono intro!: bin64.round_sig_mono)

lemma age_ms_mono: "now \<le> now' \<Longrightarrow> age_ms t now \<le> age_ms t now'"
  by (simp add: age_ms_def round_down_mono total_ms_mono)

lemma age_ms_self [simp]: "age_ms t t = 0"
  using round_of_int(2) [of 0] by (simp add: age_ms_def total_ms_def total_seconds_def)

lemma age_ms_past: "t \<le> now \<Longrightarrow> 0 \<le> age_ms t now"
  using age_ms_mono [of t now t] by simp

text \<open>
  The float detour loses at most one millisecond: an event two milliseconds past a limit
  always reads as past it, for every limit up to \<open>2 ^ 50\<close> milliseconds.
\<close>

lemma fl_lower: "0 \<le> x \<Longrightarrow> x * (1 - 1 / 2 ^ 53) \<le> fl x"
proof -
  assume "0 \<le> x"
  have "(of_nat 2 :: rat) powi (1 - int 53) / 2 = 1 / 2 ^ 53" by (simp add: power_int_minus)
  with bin64.round_sig_relative_error [of x] \<open>0 \<le> x\<close> have "\<bar>fl x - x\<bar> \<le> x * (1 / 2 ^ 53)"
    by (metis abs_of_nonneg times_divide_eq_right)
  then have "x - fl x \<le> x * (1 / 2 ^ 53)" by linarith
  then show ?thesis unfolding right_diff_distrib by linarith
qed

lemma total_ms_lower:
  assumes "0 \<le> m" "m < 2 ^ 50" shows "of_int (m + 1) \<le> total_ms ((m + 2) * 1000)"
proof -
  let ?k = "of_int (m + 2) :: rat" and ?r = "1 - 1 / 2 ^ 53 :: rat"
  have k: "0 \<le> ?k" "?k \<le> 2 ^ 51"
  proof -
    have "m + 2 \<le> 2 ^ 51" using assms by simp
    then have "?k \<le> of_int (2 ^ 51)" by (simp only: of_int_le_iff)
    then show "?k \<le> 2 ^ 51" by simp
  qed (use assms in simp)
  have "of_int ((m + 2) * 1000) / 10 ^ 6 = ?k / 1000" by simp
  then have "?k / 1000 * ?r \<le> total_seconds ((m + 2) * 1000)"
    unfolding total_seconds_def using k by (simp only:) (intro fl_lower; simp)
  then have "(?k / 1000 * ?r) * 1000 * ?r \<le> total_seconds ((m + 2) * 1000) * 1000 * ?r"
    by (intro mult_right_mono) auto
  also have "\<dots> \<le> total_ms ((m + 2) * 1000)"
    unfolding total_ms_def using k by (intro fl_lower) (simp add: total_seconds_def)
  finally have lo: "?k * (?r * ?r) \<le> total_ms ((m + 2) * 1000)" by (simp add: mult_ac)
  have "1 - ?r * ?r \<le> 1 / 2 ^ 52" by simp
  then have "?k * (1 - ?r * ?r) \<le> 2 ^ 51 * (1 / 2 ^ 52)" by (intro mult_mono) (use k in auto)
  with lo show ?thesis by (simp add: right_diff_distrib)
qed

lemma age_ms_limit:
  assumes "0 \<le> m" "m < 2 ^ 50" "(m + 2) * 1000 \<le> now - t"
  shows "m < age_ms t now"
proof -
  have "of_int (m + 1) \<le> total_ms (now - t)"
    using total_ms_lower [OF assms(1,2)] total_ms_mono [OF assms(3)] by (rule order_trans)
  then have "round_down (of_int (m + 1)) \<le> age_ms t now"
    unfolding age_ms_def by (rule round_down_mono)
  then show ?thesis by (simp only: round_of_int)
qed

lemma fl_eval:
  assumes "2 powi a \<le> x" "x < 2 powi (a + 1)"
  shows "fl x = of_int (round_half_even (x / 2 powi (a - 52))) * 2 powi (a - 52)"
proof -
  have "(0::rat) < 2 powi a" by (rule zero_less_power_int) simp
  with assms have "0 < x" by linarith
  with assms have "adjusted 2 x = a" by (intro bin64.adjusted_unique) simp_all
  with \<open>0 < x\<close> show ?thesis by (simp add: round_sig_def Let_def)
qed

end
