(* ===== verification/Hashing.thy ===== *)
theory Hashing
  imports Pynum "HOL-Library.Multiset" "HOL-Library.List_Lexorder" "HOL-Library.Char_ord"
begin

unbundle bit_operations_syntax

text \<open>
  Canonical serialisation and fingerprints (\<^verbatim>\<open>domain/hashing.py\<close>). The text
  renderings and digests of the standard library (\<^verbatim>\<open>format(d, "f")\<close>,
  \<^verbatim>\<open>isoformat\<close>, \<^verbatim>\<open>fromisoformat\<close> of an aware time, \<^verbatim>\<open>repr\<close> of a float, \<^verbatim>\<open>json.dumps\<close> followed by
  SHA-256, \<^verbatim>\<open>uuid5\<close>, \<^verbatim>\<open>str\<close> and \<^verbatim>\<open>Decimal\<close> of a decimal, pydantic's JSON rendering of
  a time, \<^verbatim>\<open>int\<close> of a string) are the fields of a \<open>stdlib\<close> record that every
  definition using them takes as an argument; no theorem assumes anything of them that it
  does not state.
\<close>

datatype json =
    JNull
  | JBool bool
  | JInt int
  | JFloat rat
  | JStr string
  | JArr "json list"
  | JObj "(string \<times> json) list"

record stdlib =
  dec_format :: "decimal \<Rightarrow> string"
  iso_format :: "utc \<Rightarrow> string"
  iso_parse :: "string \<Rightarrow> utc option"
  float_repr :: "rat \<Rightarrow> string"
  sha256_json :: "json \<Rightarrow> string"
  json_text :: "json \<Rightarrow> string"
  uuid5_url :: "string \<Rightarrow> string"
  uuid5_dns :: "string \<Rightarrow> string"
  dec_text :: "decimal \<Rightarrow> string"
  dec_of_text :: "string \<Rightarrow> decimal option"
  time_json :: "utc \<Rightarrow> string"
  time_of_json :: "string \<Rightarrow> utc option"
  date_iso :: "int \<Rightarrow> string"
  int_of_text :: "string \<Rightarrow> int option"

type_synonym uuid = string

text \<open>The dynamically typed values \<^verbatim>\<open>_canonical\<close> distinguishes.\<close>

datatype pyval =
    PNone
  | PBool bool
  | PInt int
  | PStr string
  | PDec decimal
  | PFloat rat
  | PEnum string
  | PNaive int
  | PTime utc
  | PUuid uuid
  | PList "pyval list"
  | PDict "(string \<times> pyval) list"
  | POther

definition mapE_snd :: "('a \<Rightarrow> py_exn + 'b) \<Rightarrow> 'k \<times> 'a \<Rightarrow> py_exn + 'k \<times> 'b" where
  "mapE_snd f kv = mapE (Pair (fst kv)) (f (snd kv))"

lemma mapE_snd_cong [fundef_cong]:
  "kv = kv' \<Longrightarrow> f (snd kv') = g (snd kv') \<Longrightarrow> mapE_snd f kv = mapE_snd g kv'"
  by (simp add: mapE_snd_def)

lemma traverseE_cong [fundef_cong]:
  "xs = ys \<Longrightarrow> (\<And>x. x \<in> set ys \<Longrightarrow> f x = g x) \<Longrightarrow> traverseE f xs = traverseE g ys"
  by (induction ys arbitrary: xs) auto

lemma traverseE_mapE_snd:
  "traverseE (mapE_snd f) kvs = Inr r \<Longrightarrow> map fst r = map fst kvs"
  by (induction kvs arbitrary: r) (auto simp: bindE_eq_Inr mapE_snd_def mapE_eq_Inr)

lemma size_snd_mem: "kv \<in> set kvs \<Longrightarrow> size (snd kv) < Suc (size_list (size_prod (\<lambda>_. 0) size) kvs)"
  by (induction kvs) (auto simp: size_list_conv_sum_list)

function canonical :: "stdlib \<Rightarrow> pyval \<Rightarrow> py_exn + json" where
  "canonical sl PNone = Inr JNull"
| "canonical sl (PBool b) = Inr (JBool b)"
| "canonical sl (PInt i) = Inr (JInt i)"
| "canonical sl (PStr s) = Inr (JStr s)"
| "canonical sl (PDec d) = Inr (JStr (dec_format sl (rnd d)))"
| "canonical sl (PFloat f) = Inl TypeError"
| "canonical sl (PEnum v) = Inr (JStr v)"
| "canonical sl (PNaive t) = Inl TypeError"
| "canonical sl (PTime t) = Inr (JStr (iso_format sl t))"
| "canonical sl (PUuid u) = Inr (JStr u)"
| "canonical sl (PList vs) = mapE JArr (traverseE (canonical sl) vs)"
| "canonical sl (PDict kvs) =
     mapE JObj (traverseE (mapE_snd (canonical sl)) (sort_key fst kvs))"
| "canonical sl POther = Inl TypeError"
  by pat_completeness auto
termination
proof (relation "measure (\<lambda>(sl, v). size v)", goal_cases)
  case (2 sl vs x)
  then show ?case by (induction vs) auto
next
  case (3 sl kvs kv)
  then show ?case using size_snd_mem [of kv kvs] by simp
qed simp

definition fingerprint :: "stdlib \<Rightarrow> (string \<times> pyval) list \<Rightarrow> py_exn + string" where
  "fingerprint sl payload = mapE (sha256_json sl) (canonical sl (PDict payload))"

fun hex_digit :: "char \<Rightarrow> int option" where
  "hex_digit c =
     (let n = of_char c :: int in
      if 48 \<le> n \<and> n \<le> 57 then Some (n - 48)
      else if 97 \<le> n \<and> n \<le> 102 then Some (n - 87)
      else if 65 \<le> n \<and> n \<le> 70 then Some (n - 55)
      else None)"

fun parse_hex :: "int \<Rightarrow> string \<Rightarrow> py_exn + int" where
  "parse_hex acc [] = Inr acc"
| "parse_hex acc (c # cs) =
     (case hex_digit c of None \<Rightarrow> Inl ValueError | Some d \<Rightarrow> parse_hex (16 * acc + d) cs)"

definition int_base16 :: "string \<Rightarrow> py_exn + int" where
  "int_base16 s = (if s = [] then Inl ValueError else parse_hex 0 s)"

definition mt5_magic_number :: "stdlib \<Rightarrow> uuid \<Rightarrow> py_exn + int" where
  "mt5_magic_number sl order_request_id =
     bindE (fingerprint sl [(''order_request_id'', PStr order_request_id)]) (\<lambda>h.
     bindE (int_base16 (take 8 h)) (\<lambda>n. Inr (n AND 0x7FFFFFFF)))"


subsection \<open>Facts\<close>

text \<open>Values with no float, naive datetime or foreign object in them encode.\<close>

fun encodable :: "pyval \<Rightarrow> bool" where
  "encodable (PFloat f) = False"
| "encodable (PNaive t) = False"
| "encodable POther = False"
| "encodable (PList vs) = list_all encodable vs"
| "encodable (PDict kvs) = list_all (\<lambda>kv. encodable (snd kv)) kvs"
| "encodable v = True"

lemma traverseE_Inr_iff: "(\<exists>ys. traverseE f xs = Inr ys) \<longleftrightarrow> (\<forall>x \<in> set xs. \<exists>y. f x = Inr y)"
  by (induction xs) (auto simp: bindE_eq_Inr)

lemma mapE_Inr_iff: "(\<exists>y. mapE f m = Inr y) \<longleftrightarrow> (\<exists>x. m = Inr x)"
  by (cases m) auto

lemma canonical_total: "(\<exists>j. canonical sl v = Inr j) \<longleftrightarrow> encodable v"
proof (induction v rule: encodable.induct)
  case (4 vs)
  then show ?case by (auto simp: mapE_Inr_iff traverseE_Inr_iff list_all_iff)
next
  case (5 kvs)
  then have *: "(\<exists>y. mapE_snd (canonical sl) kv = Inr y) \<longleftrightarrow> encodable (snd kv)" if "kv \<in> set kvs" for kv
    using that unfolding mapE_snd_def mapE_Inr_iff by blast
  show ?case unfolding canonical.simps mapE_Inr_iff traverseE_Inr_iff
    using * by (simp add: list_all_iff)
qed simp_all

lemma fingerprint_total:
  "list_all (\<lambda>kv. encodable (snd kv)) payload \<Longrightarrow> \<exists>h. fingerprint sl payload = Inr h"
  using canonical_total [of sl "PDict payload"] by (auto simp: fingerprint_def)

lemma canonical_permutation:
  assumes "mset kvs = mset kvs'" "distinct (map fst kvs)"
  shows "canonical sl (PDict kvs) = canonical sl (PDict kvs')"
proof -
  have "inj_on fst (set kvs)" using assms(2) by (simp add: distinct_map)
  then have "sort_key fst kvs = sort_key fst kvs'"
    using assms(1) by (intro sort_key_inj_key_eq) (simp_all add: sorted_sort_key)
  then show ?thesis by simp
qed

lemma hex_digit_nonneg: "hex_digit c = Some d \<Longrightarrow> 0 \<le> d"
  by (auto simp: Let_def split: if_splits)

declare hex_digit.simps [simp del]

lemma parse_hex_nonneg: "parse_hex acc s = Inr n \<Longrightarrow> 0 \<le> acc \<Longrightarrow> 0 \<le> n"
  by (induction s arbitrary: acc) (auto split: option.splits dest: hex_digit_nonneg)

lemma magic_in_range: "mt5_magic_number sl r = Inr n \<Longrightarrow> 0 \<le> n \<and> n < 2 ^ 31"
proof -
  assume "mt5_magic_number sl r = Inr n"
  then obtain m where m: "n = m AND 0x7FFFFFFF" by (auto simp: mt5_magic_number_def bindE_eq_Inr)
  have "m AND 0x7FFFFFFF \<le> 0x7FFFFFFF" by (rule AND_upper2) simp
  with m show ?thesis by simp
qed

text \<open>A standard library for the concrete inputs of the development.\<close>

definition sample_stdlib :: stdlib where
  "sample_stdlib =
     \<lparr>dec_format = (\<lambda>d. ''1''), iso_format = (\<lambda>t. ''1970-01-01T00:00:00+00:00''),
      iso_parse = (\<lambda>s. if s = ''1970-01-01T00:00:00+00:00'' then Some 0 else None),
      float_repr = (\<lambda>f. ''0.0''), sha256_json = (\<lambda>j. ''e3b0c44298fc1c149afbf4c8996fb924''),
      json_text = (\<lambda>j. ''{}''),
      uuid5_url = (\<lambda>s. s), uuid5_dns = (\<lambda>s. s), dec_text = (\<lambda>d. ''1''), dec_of_text = (\<lambda>s. if s = ''1'' then Some 1 else None),
      time_json = (\<lambda>t. ''1970-01-01T00:00:00Z''),
      time_of_json = (\<lambda>s. if s = ''1970-01-01T00:00:00Z'' then Some 0 else None),
      date_iso = (\<lambda>d. ''1970-01-01''), int_of_text = (\<lambda>s. None)\<rparr>"

end
