(* ===== verification/Enums.thy ===== *)
theory Enums
  imports Prelude
begin

text \<open>
  The closed vocabularies of \<^verbatim>\<open>domain/enums.py\<close>, one datatype per
  \<^verbatim>\<open>StrEnum\<close> with the source's members. A member name that several enums share
  carries the initials of its own (\<open>KS_UNKNOWN\<close>, \<open>RS_UNKNOWN\<close>, \<open>OS_FILLED\<close>).
  The persisted vocabularies also have their string values and the parsing of a stored
  value, with the round trip the journal depends on.
\<close>

datatype environment =
    BACKTEST | REPLAY | PAPER | SHADOW | LIVE

datatype side =
    BUY | SELL | FLAT

datatype entry_type =
    MARKET | LIMIT | STOP

datatype asset_class =
    FX | CRYPTO | METAL

datatype data_quality =
    GOOD | STALE | GAPPED | DQ_OUT_OF_ORDER | SUSPECT

datatype bar_origin =
    BROKER | AGGREGATED_FROM_TICKS | SYNTHETIC

datatype stream_anomaly =
    GAP | SA_OUT_OF_ORDER | DUPLICATE | CROSSED_QUOTE | STALLED

datatype session_state =
    OPEN | SS_CLOSED | PRE_OPEN | POST_CLOSE | HOLIDAY | SS_UNKNOWN

datatype regime =
    TREND | RANGE | HIGH_VOLATILITY | LOW_VOLATILITY | RG_UNKNOWN

datatype risk_verdict =
    PASS | BLOCK | RV_HALT

datatype supervisor_verdict =
    APPROVE | VETO | SV_HALT

datatype (plugins only: size) reason_code =
    STALE_MARKET_DATA | SPREAD_TOO_WIDE | DAILY_LOSS_LIMIT | OPEN_RISK_LIMIT
   | RISK_PER_TRADE_LIMIT | INVALID_STOP | SYMBOL_NOT_ALLOWED | MARKET_DISABLED
   | RECONCILIATION_MISMATCH | SUPERVISOR_VETO | ACCOUNT_NOT_CONNECTED | WRONG_ACCOUNT
   | LIVE_ACCOUNT_IN_PAPER_MODE | EXPERT_TRADING_DISABLED | INVALID_QUOTE
   | VOLUME_OUT_OF_RANGE | VOLUME_STEP_INVALID | STOP_DISTANCE_VIOLATION | MAX_OPEN_POSITIONS
   | SYMBOL_EXPOSURE_EXISTS | MAX_DRAWDOWN | SESSION_BLACKOUT | OVERNIGHT_EXPOSURE
   | INTENT_EXPIRED | DUPLICATE_INTENT | ORDER_FREQUENCY_LIMIT | SYSTEM_HALTED
   | RECONCILIATION_UNKNOWN | INCIDENT_STATE_UNKNOWN | SAFETY_STATE_UNKNOWN
   | DECISION_STATE_UNKNOWN | RISK_LEDGER_LOCK_UNAVAILABLE | OPEN_RISK_UNKNOWN
   | FLATTEN_STATE_UNKNOWN | FLATTEN_CLOSE_FAILED | PROTECTIVE_STOP_MISSING
   | PROTECTIVE_STOP_MISMATCH | SUBMISSION_INTEGRITY_AMBIGUOUS | UNKNOWN_REGIME
   | CONFIDENCE_OUT_OF_RANGE | STRATEGY_NOT_ENABLED | MODEL_VERSION_NOT_ALLOWED
   | SIGNAL_FREQUENCY_ANOMALY | CRITICAL_DRIFT | ACTIVE_INCIDENT | EXCESSIVE_SLIPPAGE
   | REPEATED_ORDER_REJECTION | MT5_CONNECTION_FAILURE | CORRUPTED_VERSION_REFERENCE
   | EXECUTION_TIME_RISK_BLOCK | DECISION_PREDATES_EXECUTION_ACTIVATION
   | STRATEGY_VERSION_NOT_CURRENT | LIVE_EXECUTION_NOT_PERMITTED | RISK_POLICY_NOT_APPROVED
   | EXECUTION_NOT_EXPLICITLY_ENABLED | ALGOTRADING_DISABLED | FEEDBACK_2_0_NOT_APPROVED
   | CANARY_PERMIT_CAPSULE_MISMATCH | CANARY_PERMIT_NOT_FOUND | CANARY_PERMIT_EXPIRED
   | CANARY_PERMIT_ALREADY_CONSUMED | CANARY_PERMIT_ACCOUNT_MISMATCH
   | CANARY_PERMIT_SERVER_MISMATCH | CANARY_PERMIT_SYMBOL_MISMATCH
   | CANARY_PERMIT_ENTRY_TYPE_MISMATCH | CANARY_PERMIT_AGENT_MISMATCH
   | CANARY_PERMIT_ASSIGNMENT_MISMATCH | CANARY_PERMIT_STRATEGY_ARTIFACT_MISMATCH
   | CANARY_PERMIT_RISK_FRACTION_EXCEEDED | POSITION_BOOK_INCOMPLETE | FLATTEN_NOT_REQUIRED
   | FLATTEN_SUBMISSION_NOT_ENABLED | MANUAL_HALT

datatype order_state =
    CREATED | RISK_APPROVED | SUPERVISOR_APPROVED | OS_ORDER_CHECKED | OS_SUBMITTED
   | ACKNOWLEDGED | PARTIALLY_FILLED | OS_FILLED | OS_REJECTED | OS_RECONCILED | OS_CLOSED
   | CANCELLED | OS_UNKNOWN

datatype kill_switch_state =
    RUNNING | HALTED | KS_UNKNOWN

datatype reconciliation_status =
    MATCHED | MISMATCHED | RS_UNKNOWN

datatype incident_status =
    CLEAR | ACTIVE | IS_UNKNOWN

datatype incident_severity =
    SEV_0 | SEV_1 | SEV_2 | SEV_3

datatype execution_event_type =
    REQUEST_CLAIMED | INELIGIBLE | GATE_CLOSED | RECONCILIATION_BLOCKED | FINAL_RISK_PASSED
   | FINAL_RISK_BLOCKED | EV_ORDER_CHECKED | ORDER_CHECK_REJECTED | SUBMISSION_GATE_PASSED
   | SUBMISSION_GATE_BLOCKED | SUBMISSION_STARTED | AMBIGUOUS_OUTCOME_RESOLVED | EV_RECONCILED
   | EV_SUBMITTED | BROKER_ACK | EV_FILLED | EV_CLOSED | EV_REJECTED | CANARY_PERMIT_BLOCKED

datatype flatten_event_type =
    FLATTEN_REQUEST_CLAIMED | FLATTEN_GATE_BLOCKED | FLATTEN_GATE_PASSED
   | FLATTEN_SUBMISSION_STARTED | FLATTEN_OUTCOME_RESOLVED

datatype snapshot_completeness =
    COMPLETE | FAILED | SC_UNKNOWN


subsection \<open>Persisted values\<close>

primrec kill_switch_state_value :: "kill_switch_state \<Rightarrow> string" where
  "kill_switch_state_value RUNNING = ''RUNNING''"
| "kill_switch_state_value HALTED = ''HALTED''"
| "kill_switch_state_value KS_UNKNOWN = ''UNKNOWN''"

definition all_kill_switch_states :: "kill_switch_state list" where
  "all_kill_switch_states =
    [RUNNING, HALTED, KS_UNKNOWN]"

definition kill_switch_state_of_value :: "string \<Rightarrow> kill_switch_state option" where
  "kill_switch_state_of_value s = find_first (\<lambda>c. kill_switch_state_value c = s) all_kill_switch_states"

lemma kill_switch_state_of_value_value [simp]: "kill_switch_state_of_value (kill_switch_state_value c) = Some c"
  by (cases c) (simp_all add: kill_switch_state_of_value_def all_kill_switch_states_def)

lemma kill_switch_state_value_inj [simp]: "kill_switch_state_value c = kill_switch_state_value d \<longleftrightarrow> c = d"
  by (metis kill_switch_state_of_value_value option.inject)

primrec reason_value :: "reason_code \<Rightarrow> string" where
  "reason_value STALE_MARKET_DATA = ''STALE_MARKET_DATA''"
| "reason_value SPREAD_TOO_WIDE = ''SPREAD_TOO_WIDE''"
| "reason_value DAILY_LOSS_LIMIT = ''DAILY_LOSS_LIMIT''"
| "reason_value OPEN_RISK_LIMIT = ''OPEN_RISK_LIMIT''"
| "reason_value RISK_PER_TRADE_LIMIT = ''RISK_PER_TRADE_LIMIT''"
| "reason_value INVALID_STOP = ''INVALID_STOP''"
| "reason_value SYMBOL_NOT_ALLOWED = ''SYMBOL_NOT_ALLOWED''"
| "reason_value MARKET_DISABLED = ''MARKET_DISABLED''"
| "reason_value RECONCILIATION_MISMATCH = ''RECONCILIATION_MISMATCH''"
| "reason_value SUPERVISOR_VETO = ''SUPERVISOR_VETO''"
| "reason_value ACCOUNT_NOT_CONNECTED = ''ACCOUNT_NOT_CONNECTED''"
| "reason_value WRONG_ACCOUNT = ''WRONG_ACCOUNT''"
| "reason_value LIVE_ACCOUNT_IN_PAPER_MODE = ''LIVE_ACCOUNT_IN_PAPER_MODE''"
| "reason_value EXPERT_TRADING_DISABLED = ''EXPERT_TRADING_DISABLED''"
| "reason_value INVALID_QUOTE = ''INVALID_QUOTE''"
| "reason_value VOLUME_OUT_OF_RANGE = ''VOLUME_OUT_OF_RANGE''"
| "reason_value VOLUME_STEP_INVALID = ''VOLUME_STEP_INVALID''"
| "reason_value STOP_DISTANCE_VIOLATION = ''STOP_DISTANCE_VIOLATION''"
| "reason_value MAX_OPEN_POSITIONS = ''MAX_OPEN_POSITIONS''"
| "reason_value SYMBOL_EXPOSURE_EXISTS = ''SYMBOL_EXPOSURE_EXISTS''"
| "reason_value MAX_DRAWDOWN = ''MAX_DRAWDOWN''"
| "reason_value SESSION_BLACKOUT = ''SESSION_BLACKOUT''"
| "reason_value OVERNIGHT_EXPOSURE = ''OVERNIGHT_EXPOSURE''"
| "reason_value INTENT_EXPIRED = ''INTENT_EXPIRED''"
| "reason_value DUPLICATE_INTENT = ''DUPLICATE_INTENT''"
| "reason_value ORDER_FREQUENCY_LIMIT = ''ORDER_FREQUENCY_LIMIT''"
| "reason_value SYSTEM_HALTED = ''SYSTEM_HALTED''"
| "reason_value RECONCILIATION_UNKNOWN = ''RECONCILIATION_UNKNOWN''"
| "reason_value INCIDENT_STATE_UNKNOWN = ''INCIDENT_STATE_UNKNOWN''"
| "reason_value SAFETY_STATE_UNKNOWN = ''SAFETY_STATE_UNKNOWN''"
| "reason_value DECISION_STATE_UNKNOWN = ''DECISION_STATE_UNKNOWN''"
| "reason_value RISK_LEDGER_LOCK_UNAVAILABLE = ''RISK_LEDGER_LOCK_UNAVAILABLE''"
| "reason_value OPEN_RISK_UNKNOWN = ''OPEN_RISK_UNKNOWN''"
| "reason_value FLATTEN_STATE_UNKNOWN = ''FLATTEN_STATE_UNKNOWN''"
| "reason_value FLATTEN_CLOSE_FAILED = ''FLATTEN_CLOSE_FAILED''"
| "reason_value PROTECTIVE_STOP_MISSING = ''PROTECTIVE_STOP_MISSING''"
| "reason_value PROTECTIVE_STOP_MISMATCH = ''PROTECTIVE_STOP_MISMATCH''"
| "reason_value SUBMISSION_INTEGRITY_AMBIGUOUS = ''SUBMISSION_INTEGRITY_AMBIGUOUS''"
| "reason_value UNKNOWN_REGIME = ''UNKNOWN_REGIME''"
| "reason_value CONFIDENCE_OUT_OF_RANGE = ''CONFIDENCE_OUT_OF_RANGE''"
| "reason_value STRATEGY_NOT_ENABLED = ''STRATEGY_NOT_ENABLED''"
| "reason_value MODEL_VERSION_NOT_ALLOWED = ''MODEL_VERSION_NOT_ALLOWED''"
| "reason_value SIGNAL_FREQUENCY_ANOMALY = ''SIGNAL_FREQUENCY_ANOMALY''"
| "reason_value CRITICAL_DRIFT = ''CRITICAL_DRIFT''"
| "reason_value ACTIVE_INCIDENT = ''ACTIVE_INCIDENT''"
| "reason_value EXCESSIVE_SLIPPAGE = ''EXCESSIVE_SLIPPAGE''"
| "reason_value REPEATED_ORDER_REJECTION = ''REPEATED_ORDER_REJECTION''"
| "reason_value MT5_CONNECTION_FAILURE = ''MT5_CONNECTION_FAILURE''"
| "reason_value CORRUPTED_VERSION_REFERENCE = ''CORRUPTED_VERSION_REFERENCE''"
| "reason_value EXECUTION_TIME_RISK_BLOCK = ''EXECUTION_TIME_RISK_BLOCK''"
| "reason_value DECISION_PREDATES_EXECUTION_ACTIVATION = ''DECISION_PREDATES_EXECUTION_ACTIVATION''"
| "reason_value STRATEGY_VERSION_NOT_CURRENT = ''STRATEGY_VERSION_NOT_CURRENT''"
| "reason_value LIVE_EXECUTION_NOT_PERMITTED = ''LIVE_EXECUTION_NOT_PERMITTED''"
| "reason_value RISK_POLICY_NOT_APPROVED = ''RISK_POLICY_NOT_APPROVED''"
| "reason_value EXECUTION_NOT_EXPLICITLY_ENABLED = ''EXECUTION_NOT_EXPLICITLY_ENABLED''"
| "reason_value ALGOTRADING_DISABLED = ''ALGOTRADING_DISABLED''"
| "reason_value FEEDBACK_2_0_NOT_APPROVED = ''FEEDBACK_2_0_NOT_APPROVED''"
| "reason_value CANARY_PERMIT_CAPSULE_MISMATCH = ''CANARY_PERMIT_CAPSULE_MISMATCH''"
| "reason_value CANARY_PERMIT_NOT_FOUND = ''CANARY_PERMIT_NOT_FOUND''"
| "reason_value CANARY_PERMIT_EXPIRED = ''CANARY_PERMIT_EXPIRED''"
| "reason_value CANARY_PERMIT_ALREADY_CONSUMED = ''CANARY_PERMIT_ALREADY_CONSUMED''"
| "reason_value CANARY_PERMIT_ACCOUNT_MISMATCH = ''CANARY_PERMIT_ACCOUNT_MISMATCH''"
| "reason_value CANARY_PERMIT_SERVER_MISMATCH = ''CANARY_PERMIT_SERVER_MISMATCH''"
| "reason_value CANARY_PERMIT_SYMBOL_MISMATCH = ''CANARY_PERMIT_SYMBOL_MISMATCH''"
| "reason_value CANARY_PERMIT_ENTRY_TYPE_MISMATCH = ''CANARY_PERMIT_ENTRY_TYPE_MISMATCH''"
| "reason_value CANARY_PERMIT_AGENT_MISMATCH = ''CANARY_PERMIT_AGENT_MISMATCH''"
| "reason_value CANARY_PERMIT_ASSIGNMENT_MISMATCH = ''CANARY_PERMIT_ASSIGNMENT_MISMATCH''"
| "reason_value CANARY_PERMIT_STRATEGY_ARTIFACT_MISMATCH = ''CANARY_PERMIT_STRATEGY_ARTIFACT_MISMATCH''"
| "reason_value CANARY_PERMIT_RISK_FRACTION_EXCEEDED = ''CANARY_PERMIT_RISK_FRACTION_EXCEEDED''"
| "reason_value POSITION_BOOK_INCOMPLETE = ''POSITION_BOOK_INCOMPLETE''"
| "reason_value FLATTEN_NOT_REQUIRED = ''FLATTEN_NOT_REQUIRED''"
| "reason_value FLATTEN_SUBMISSION_NOT_ENABLED = ''FLATTEN_SUBMISSION_NOT_ENABLED''"
| "reason_value MANUAL_HALT = ''MANUAL_HALT''"

definition all_reasons :: "reason_code list" where
  "all_reasons =
    [STALE_MARKET_DATA, SPREAD_TOO_WIDE, DAILY_LOSS_LIMIT, OPEN_RISK_LIMIT, RISK_PER_TRADE_LIMIT
     , INVALID_STOP, SYMBOL_NOT_ALLOWED, MARKET_DISABLED, RECONCILIATION_MISMATCH
     , SUPERVISOR_VETO, ACCOUNT_NOT_CONNECTED, WRONG_ACCOUNT, LIVE_ACCOUNT_IN_PAPER_MODE
     , EXPERT_TRADING_DISABLED, INVALID_QUOTE, VOLUME_OUT_OF_RANGE, VOLUME_STEP_INVALID
     , STOP_DISTANCE_VIOLATION, MAX_OPEN_POSITIONS, SYMBOL_EXPOSURE_EXISTS, MAX_DRAWDOWN
     , SESSION_BLACKOUT, OVERNIGHT_EXPOSURE, INTENT_EXPIRED, DUPLICATE_INTENT
     , ORDER_FREQUENCY_LIMIT, SYSTEM_HALTED, RECONCILIATION_UNKNOWN, INCIDENT_STATE_UNKNOWN
     , SAFETY_STATE_UNKNOWN, DECISION_STATE_UNKNOWN, RISK_LEDGER_LOCK_UNAVAILABLE
     , OPEN_RISK_UNKNOWN, FLATTEN_STATE_UNKNOWN, FLATTEN_CLOSE_FAILED, PROTECTIVE_STOP_MISSING
     , PROTECTIVE_STOP_MISMATCH, SUBMISSION_INTEGRITY_AMBIGUOUS, UNKNOWN_REGIME
     , CONFIDENCE_OUT_OF_RANGE, STRATEGY_NOT_ENABLED, MODEL_VERSION_NOT_ALLOWED
     , SIGNAL_FREQUENCY_ANOMALY, CRITICAL_DRIFT, ACTIVE_INCIDENT, EXCESSIVE_SLIPPAGE
     , REPEATED_ORDER_REJECTION, MT5_CONNECTION_FAILURE, CORRUPTED_VERSION_REFERENCE
     , EXECUTION_TIME_RISK_BLOCK, DECISION_PREDATES_EXECUTION_ACTIVATION
     , STRATEGY_VERSION_NOT_CURRENT, LIVE_EXECUTION_NOT_PERMITTED, RISK_POLICY_NOT_APPROVED
     , EXECUTION_NOT_EXPLICITLY_ENABLED, ALGOTRADING_DISABLED, FEEDBACK_2_0_NOT_APPROVED
     , CANARY_PERMIT_CAPSULE_MISMATCH, CANARY_PERMIT_NOT_FOUND, CANARY_PERMIT_EXPIRED
     , CANARY_PERMIT_ALREADY_CONSUMED, CANARY_PERMIT_ACCOUNT_MISMATCH
     , CANARY_PERMIT_SERVER_MISMATCH, CANARY_PERMIT_SYMBOL_MISMATCH
     , CANARY_PERMIT_ENTRY_TYPE_MISMATCH, CANARY_PERMIT_AGENT_MISMATCH
     , CANARY_PERMIT_ASSIGNMENT_MISMATCH, CANARY_PERMIT_STRATEGY_ARTIFACT_MISMATCH
     , CANARY_PERMIT_RISK_FRACTION_EXCEEDED, POSITION_BOOK_INCOMPLETE, FLATTEN_NOT_REQUIRED
     , FLATTEN_SUBMISSION_NOT_ENABLED, MANUAL_HALT]"

definition reason_of_value :: "string \<Rightarrow> reason_code option" where
  "reason_of_value s = find_first (\<lambda>c. reason_value c = s) all_reasons"

lemma reason_of_value_value [simp]: "reason_of_value (reason_value c) = Some c"
  by (cases c) (simp_all add: reason_of_value_def all_reasons_def)

lemma reason_value_inj [simp]: "reason_value c = reason_value d \<longleftrightarrow> c = d"
  by (metis reason_of_value_value option.inject)

primrec execution_event_value :: "execution_event_type \<Rightarrow> string" where
  "execution_event_value REQUEST_CLAIMED = ''REQUEST_CLAIMED''"
| "execution_event_value INELIGIBLE = ''INELIGIBLE''"
| "execution_event_value GATE_CLOSED = ''GATE_CLOSED''"
| "execution_event_value RECONCILIATION_BLOCKED = ''RECONCILIATION_BLOCKED''"
| "execution_event_value FINAL_RISK_PASSED = ''FINAL_RISK_PASSED''"
| "execution_event_value FINAL_RISK_BLOCKED = ''FINAL_RISK_BLOCKED''"
| "execution_event_value EV_ORDER_CHECKED = ''ORDER_CHECKED''"
| "execution_event_value ORDER_CHECK_REJECTED = ''ORDER_CHECK_REJECTED''"
| "execution_event_value SUBMISSION_GATE_PASSED = ''SUBMISSION_GATE_PASSED''"
| "execution_event_value SUBMISSION_GATE_BLOCKED = ''SUBMISSION_GATE_BLOCKED''"
| "execution_event_value SUBMISSION_STARTED = ''SUBMISSION_STARTED''"
| "execution_event_value AMBIGUOUS_OUTCOME_RESOLVED = ''AMBIGUOUS_OUTCOME_RESOLVED''"
| "execution_event_value EV_RECONCILED = ''RECONCILED''"
| "execution_event_value EV_SUBMITTED = ''SUBMITTED''"
| "execution_event_value BROKER_ACK = ''BROKER_ACK''"
| "execution_event_value EV_FILLED = ''FILLED''"
| "execution_event_value EV_CLOSED = ''CLOSED''"
| "execution_event_value EV_REJECTED = ''REJECTED''"
| "execution_event_value CANARY_PERMIT_BLOCKED = ''CANARY_PERMIT_BLOCKED''"

definition all_execution_events :: "execution_event_type list" where
  "all_execution_events =
    [REQUEST_CLAIMED, INELIGIBLE, GATE_CLOSED, RECONCILIATION_BLOCKED, FINAL_RISK_PASSED
     , FINAL_RISK_BLOCKED, EV_ORDER_CHECKED, ORDER_CHECK_REJECTED, SUBMISSION_GATE_PASSED
     , SUBMISSION_GATE_BLOCKED, SUBMISSION_STARTED, AMBIGUOUS_OUTCOME_RESOLVED, EV_RECONCILED
     , EV_SUBMITTED, BROKER_ACK, EV_FILLED, EV_CLOSED, EV_REJECTED, CANARY_PERMIT_BLOCKED]"

definition execution_event_of_value :: "string \<Rightarrow> execution_event_type option" where
  "execution_event_of_value s = find_first (\<lambda>c. execution_event_value c = s) all_execution_events"

lemma execution_event_of_value_value [simp]: "execution_event_of_value (execution_event_value c) = Some c"
  by (cases c) (simp_all add: execution_event_of_value_def all_execution_events_def)

lemma execution_event_value_inj [simp]: "execution_event_value c = execution_event_value d \<longleftrightarrow> c = d"
  by (metis execution_event_of_value_value option.inject)


subsection \<open>Named sets of members\<close>

definition TRADEABLE_DATA_QUALITY :: "data_quality set" where
  "TRADEABLE_DATA_QUALITY = {GOOD}"

definition DIRECTIONAL_SIDES :: "side set" where
  "DIRECTIONAL_SIDES = {BUY, SELL}"

lemma TRADEABLE_DATA_QUALITY_iff [simp]: "q \<in> TRADEABLE_DATA_QUALITY \<longleftrightarrow> q = GOOD"
  by (simp add: TRADEABLE_DATA_QUALITY_def)

lemma DIRECTIONAL_SIDES_iff [simp]: "s \<in> DIRECTIONAL_SIDES \<longleftrightarrow> s \<noteq> FLAT"
  by (cases s) (simp_all add: DIRECTIONAL_SIDES_def)

end
