(* ===== verification/Models.thy ===== *)
theory Models
  imports Hashing Enums
begin

text \<open>
  The contracts of \<^verbatim>\<open>domain/models.py\<close>. Each pydantic model is a record with the
  source's fields; its field constraints and \<^verbatim>\<open>model_validator\<close>s are one
  predicate, and constructing it is \<open>contract\<close> of that predicate, so an invalid
  construction is the \<open>ValidationError\<close> the code would raise. Strings are taken after
  pydantic's whitespace stripping. Computed fields are definitions.
\<close>

abbreviation symbol_ok :: "string \<Rightarrow> bool" where "symbol_ok \<equiv> text_ok 1 64"
abbreviation version_tag_ok :: "string \<Rightarrow> bool" where "version_tag_ok \<equiv> text_ok 1 128"
abbreviation positive :: "decimal \<Rightarrow> bool" where "positive d \<equiv> 0 < d"
abbreviation risk_fraction_ok :: "decimal \<Rightarrow> bool" where "risk_fraction_ok f \<equiv> 0 < f \<and> f \<le> 1"


subsection \<open>Market data\<close>

record bar =
  open_time :: utc
  b_open :: decimal
  b_high :: decimal
  b_low :: decimal
  b_close :: decimal
  b_tick_volume :: int
  b_real_volume :: "int option"
  b_spread_points :: "int option"

definition bar_valid :: "bar \<Rightarrow> bool" where [checks]:
  "bar_valid b \<longleftrightarrow>
     0 < b_open b \<and> 0 < b_high b \<and> 0 < b_low b \<and> 0 < b_close b \<and>
     0 \<le> b_tick_volume b \<and> opt_ok (\<lambda>v. 0 \<le> v) (b_real_volume b) \<and>
     opt_ok (\<lambda>v. 0 \<le> v) (b_spread_points b) \<and>
     \<not> b_high b < b_low b \<and>
     \<not> b_high b < max (b_open b) (b_close b) \<and>
     \<not> min (b_open b) (b_close b) < b_low b"

record instrument_spec =
  spec_canonical_symbol :: string
  spec_broker_symbol :: string
  currency_base :: string
  currency_profit :: string
  contract_size :: decimal
  digits :: int
  point :: decimal
  tick_size :: decimal
  tick_value :: decimal
  volume_min :: decimal
  volume_max :: decimal
  volume_step :: decimal
  stops_level :: int
  freeze_level :: int
  filling_modes :: "string list"
  trade_mode :: string
  captured_at :: utc

definition instrument_spec_valid :: "instrument_spec \<Rightarrow> bool" where [checks]:
  "instrument_spec_valid s \<longleftrightarrow>
     symbol_ok (spec_canonical_symbol s) \<and> symbol_ok (spec_broker_symbol s) \<and>
     text_ok 3 8 (currency_base s) \<and> text_ok 3 8 (currency_profit s) \<and>
     0 < contract_size s \<and> 0 \<le> digits s \<and> digits s \<le> 12 \<and>
     0 < point s \<and> 0 < tick_size s \<and> 0 < tick_value s \<and>
     0 < volume_min s \<and> 0 < volume_max s \<and> 0 < volume_step s \<and>
     0 \<le> stops_level s \<and> 0 \<le> freeze_level s \<and>
     \<not> volume_max s < volume_min s \<and> \<not> volume_max s < volume_step s"

definition spec_version_payload :: "instrument_spec \<Rightarrow> (string \<times> pyval) list" where
  "spec_version_payload s =
     [(''broker_symbol'', PStr (spec_broker_symbol s)),
      (''currency_base'', PStr (currency_base s)),
      (''currency_profit'', PStr (currency_profit s)),
      (''contract_size'', PDec (contract_size s)),
      (''digits'', PInt (digits s)),
      (''point'', PDec (point s)),
      (''tick_size'', PDec (tick_size s)),
      (''volume_min'', PDec (volume_min s)),
      (''volume_max'', PDec (volume_max s)),
      (''volume_step'', PDec (volume_step s)),
      (''stops_level'', PInt (stops_level s)),
      (''freeze_level'', PInt (freeze_level s)),
      (''filling_modes'', PList (map PStr (sort (filling_modes s)))),
      (''trade_mode'', PStr (trade_mode s))]"

definition spec_version :: "stdlib \<Rightarrow> instrument_spec \<Rightarrow> py_exn + string" where
  "spec_version sl s = fingerprint sl (spec_version_payload s)"

record market_tick =
  mt_tick_id :: uuid
  mt_source :: string
  mt_canonical_symbol :: string
  mt_broker_symbol :: string
  mt_event_time :: utc
  mt_received_time :: utc
  mt_bid :: decimal
  mt_ask :: decimal
  mt_last :: "decimal option"
  mt_volume :: "int option"
  mt_flags :: "int option"
  mt_data_quality :: data_quality
  mt_anomalies :: "stream_anomaly list"

definition market_tick_valid :: "market_tick \<Rightarrow> bool" where [checks]:
  "market_tick_valid t \<longleftrightarrow>
     version_tag_ok (mt_source t) \<and> symbol_ok (mt_canonical_symbol t) \<and>
     symbol_ok (mt_broker_symbol t) \<and> 0 < mt_bid t \<and> 0 < mt_ask t \<and>
     opt_ok positive (mt_last t) \<and> opt_ok (\<lambda>v. 0 \<le> v) (mt_volume t) \<and>
     opt_ok (\<lambda>v. 0 \<le> v) (mt_flags t)"

definition tick_spread :: "market_tick \<Rightarrow> decimal" where
  "tick_spread t = dsub (mt_ask t) (mt_bid t)"

definition tick_ingest_latency_ms :: "market_tick \<Rightarrow> int" where
  "tick_ingest_latency_ms t = round_down (total_ms (mt_received_time t - mt_event_time t))"

record market_bar =
  mb_bar_id :: uuid
  mb_source :: string
  mb_canonical_symbol :: string
  mb_broker_symbol :: string
  mb_timeframe :: string
  mb_bar :: bar
  mb_origin :: bar_origin
  mb_pipeline_version :: "string option"
  mb_tick_count :: "int option"
  mb_received_time :: utc
  mb_data_quality :: data_quality
  mb_anomalies :: "stream_anomaly list"

definition market_bar_valid :: "market_bar \<Rightarrow> bool" where [checks]:
  "market_bar_valid b \<longleftrightarrow>
     version_tag_ok (mb_source b) \<and> symbol_ok (mb_canonical_symbol b) \<and>
     symbol_ok (mb_broker_symbol b) \<and> text_ok 1 16 (mb_timeframe b) \<and> bar_valid (mb_bar b) \<and>
     opt_ok version_tag_ok (mb_pipeline_version b) \<and> opt_ok (\<lambda>v. 0 \<le> v) (mb_tick_count b) \<and>
     \<not> (mb_origin b = AGGREGATED_FROM_TICKS \<and> mb_pipeline_version b = None) \<and>
     \<not> (mb_origin b \<noteq> AGGREGATED_FROM_TICKS \<and> mb_tick_count b \<noteq> None)"

record market_snapshot =
  ms_snapshot_id :: uuid
  ms_symbol :: string
  ms_event_time :: utc
  ms_received_time :: utc
  ms_bid :: decimal
  ms_ask :: decimal
  ms_spread_points :: int
  ms_timeframe :: string
  ms_bars :: "bar list"
  ms_session_state :: session_state
  ms_symbol_spec_version :: string
  ms_data_quality :: data_quality

definition market_snapshot_valid :: "market_snapshot \<Rightarrow> bool" where [checks]:
  "market_snapshot_valid s \<longleftrightarrow>
     symbol_ok (ms_symbol s) \<and> 0 < ms_bid s \<and> 0 < ms_ask s \<and> 0 \<le> ms_spread_points s \<and>
     text_ok 1 16 (ms_timeframe s) \<and> list_all bar_valid (ms_bars s) \<and>
     version_tag_ok (ms_symbol_spec_version s) \<and> \<not> ms_ask s < ms_bid s"

definition snapshot_mid :: "market_snapshot \<Rightarrow> decimal" where
  "snapshot_mid s = ddiv (dadd (ms_bid s) (ms_ask s)) 2"

definition snapshot_ingest_latency_ms :: "market_snapshot \<Rightarrow> int" where
  "snapshot_ingest_latency_ms s = round_down (total_ms (ms_received_time s - ms_event_time s))"


subsection \<open>Trading Agent output\<close>

record trade_intent =
  ti_intent_id :: uuid
  ti_strategy_id :: string
  ti_strategy_version :: string
  ti_model_version :: "string option"
  ti_symbol :: string
  ti_side :: side
  ti_created_at :: utc
  ti_expires_at :: utc
  ti_entry_type :: entry_type
  ti_reference_price :: decimal
  ti_stop_loss_price :: "decimal option"
  ti_take_profit_price :: "decimal option"
  ti_confidence :: rat
  ti_reason_codes :: "string list"
  ti_requested_risk_fraction :: "decimal option"
  ti_feature_snapshot_id :: uuid

definition check_lifetime :: "trade_intent \<Rightarrow> bool" where [checks]:
  "check_lifetime i \<longleftrightarrow> \<not> ti_expires_at i \<le> ti_created_at i"

definition check_directional_requirements :: "trade_intent \<Rightarrow> bool" where [checks]:
  "check_directional_requirements i \<longleftrightarrow>
     (if ti_side i \<in> DIRECTIONAL_SIDES
      then ti_stop_loss_price i \<noteq> None \<and> ti_requested_risk_fraction i \<noteq> None \<and>
           ti_reason_codes i \<noteq> []
      else ti_stop_loss_price i = None \<and> ti_take_profit_price i = None \<and>
           ti_requested_risk_fraction i = None)"

definition check_stop_direction :: "trade_intent \<Rightarrow> bool" where [checks]:
  "check_stop_direction i \<longleftrightarrow>
     (case ti_side i of
        BUY \<Rightarrow> opt_ok (\<lambda>sl. \<not> ti_reference_price i \<le> sl) (ti_stop_loss_price i) \<and>
               opt_ok (\<lambda>tp. \<not> tp \<le> ti_reference_price i) (ti_take_profit_price i)
      | SELL \<Rightarrow> opt_ok (\<lambda>sl. \<not> sl \<le> ti_reference_price i) (ti_stop_loss_price i) \<and>
               opt_ok (\<lambda>tp. \<not> ti_reference_price i \<le> tp) (ti_take_profit_price i)
      | FLAT \<Rightarrow> True)"

definition trade_intent_valid :: "trade_intent \<Rightarrow> bool" where [checks]:
  "trade_intent_valid i \<longleftrightarrow>
     version_tag_ok (ti_strategy_id i) \<and> version_tag_ok (ti_strategy_version i) \<and>
     opt_ok version_tag_ok (ti_model_version i) \<and> symbol_ok (ti_symbol i) \<and>
     0 < ti_reference_price i \<and> opt_ok positive (ti_stop_loss_price i) \<and>
     opt_ok positive (ti_take_profit_price i) \<and>
     0 \<le> ti_confidence i \<and> ti_confidence i \<le> 1 \<and>
     opt_ok risk_fraction_ok (ti_requested_risk_fraction i) \<and>
     check_lifetime i \<and> check_directional_requirements i \<and> check_stop_direction i"

fun side_value :: "side \<Rightarrow> string" where
  "side_value BUY = ''BUY''" | "side_value SELL = ''SELL''" | "side_value FLAT = ''FLAT''"

fun entry_type_value :: "entry_type \<Rightarrow> string" where
  "entry_type_value MARKET = ''MARKET''"
| "entry_type_value LIMIT = ''LIMIT''"
| "entry_type_value STOP = ''STOP''"

definition opt_val :: "('a \<Rightarrow> pyval) \<Rightarrow> 'a option \<Rightarrow> pyval" where
  "opt_val f x = (case x of None \<Rightarrow> PNone | Some v \<Rightarrow> f v)"

definition decision_payload :: "stdlib \<Rightarrow> trade_intent \<Rightarrow> (string \<times> pyval) list" where
  "decision_payload sl i =
     [(''strategy_id'', PStr (ti_strategy_id i)),
      (''strategy_version'', PStr (ti_strategy_version i)),
      (''model_version'', opt_val PStr (ti_model_version i)),
      (''symbol'', PStr (ti_symbol i)),
      (''side'', PEnum (side_value (ti_side i))),
      (''created_at_utc'', PTime (ti_created_at i)),
      (''expires_at_utc'', PTime (ti_expires_at i)),
      (''entry_type'', PEnum (entry_type_value (ti_entry_type i))),
      (''reference_price'', PDec (ti_reference_price i)),
      (''stop_loss_price'', opt_val PDec (ti_stop_loss_price i)),
      (''take_profit_price'', opt_val PDec (ti_take_profit_price i)),
      (''confidence'', PStr (float_repr sl (ti_confidence i))),
      (''reason_codes'', PList (map PStr (ti_reason_codes i))),
      (''requested_risk_fraction'', opt_val PDec (ti_requested_risk_fraction i)),
      (''feature_snapshot_id'', PUuid (ti_feature_snapshot_id i))]"

definition decision_hash :: "stdlib \<Rightarrow> trade_intent \<Rightarrow> string" where
  "decision_hash sl i = projr (fingerprint sl (decision_payload sl i))"

definition is_expired :: "trade_intent \<Rightarrow> utc \<Rightarrow> bool" where
  "is_expired i at_time \<longleftrightarrow> ti_expires_at i \<le> at_time"

text \<open>The digest never raises: the payload holds no float, naive datetime or foreign object.\<close>

lemma decision_payload_encodable:
  "list_all (\<lambda>kv. encodable (snd kv)) (decision_payload sl i)"
  by (simp add: decision_payload_def opt_val_def list_all_iff split: option.splits)

lemma decision_hash_total: "fingerprint sl (decision_payload sl i) = Inr (decision_hash sl i)"
  using fingerprint_total [OF decision_payload_encodable, of sl sl i] by (auto simp: decision_hash_def)

lemma decision_hash_ignores_id: "decision_hash sl (i\<lparr>ti_intent_id := u\<rparr>) = decision_hash sl i"
  by (simp add: decision_hash_def decision_payload_def)

lemma directional_intent:
  assumes "trade_intent_valid i" "ti_side i \<noteq> FLAT"
  obtains stop f where "ti_stop_loss_price i = Some stop" "ti_requested_risk_fraction i = Some f"
    "0 < stop" "0 < f" "f \<le> 1" "stop \<noteq> ti_reference_price i"
    "ti_side i = BUY \<Longrightarrow> stop < ti_reference_price i"
    "ti_side i = SELL \<Longrightarrow> ti_reference_price i < stop"
proof -
  from assms obtain stop f where sf: "ti_stop_loss_price i = Some stop"
      "ti_requested_risk_fraction i = Some f"
    by (auto simp: trade_intent_valid_def check_directional_requirements_def)
  with assms have "0 < stop" "0 < f" "f \<le> 1" "ti_side i = BUY \<Longrightarrow> stop < ti_reference_price i"
      "ti_side i = SELL \<Longrightarrow> ti_reference_price i < stop"
    by (auto simp: trade_intent_valid_def check_stop_direction_def)
  moreover have "ti_side i = BUY \<or> ti_side i = SELL" using assms(2) by (cases "ti_side i") auto
  ultimately show thesis using sf that by force
qed

lemma flat_intent:
  "trade_intent_valid i \<Longrightarrow> ti_side i = FLAT \<Longrightarrow>
     ti_stop_loss_price i = None \<and> ti_take_profit_price i = None \<and> ti_requested_risk_fraction i = None"
  by (simp add: trade_intent_valid_def check_directional_requirements_def)


subsection \<open>Control plane decisions\<close>

record risk_decision =
  rd_decision_id :: uuid
  rd_intent_id :: uuid
  rd_verdict :: risk_verdict
  rd_reason_codes :: "reason_code list"
  rd_decided_at :: utc
  rd_risk_config_version :: string
  rd_approved_volume :: "decimal option"
  rd_account_equity :: "decimal option"
  rd_stop_distance_points :: "int option"
  rd_risk_amount :: "decimal option"

definition risk_decision_valid :: "risk_decision \<Rightarrow> bool" where [checks]:
  "risk_decision_valid d \<longleftrightarrow>
     version_tag_ok (rd_risk_config_version d) \<and> opt_ok positive (rd_approved_volume d) \<and>
     opt_ok (\<lambda>n. 0 < n) (rd_stop_distance_points d) \<and>
     (if rd_verdict d = PASS
      then rd_approved_volume d \<noteq> None \<and> rd_stop_distance_points d \<noteq> None
      else rd_approved_volume d = None \<and> rd_reason_codes d \<noteq> [])"

record supervisor_decision =
  sd_decision_id :: uuid
  sd_intent_id :: uuid
  sd_verdict :: supervisor_verdict
  sd_reason_codes :: "reason_code list"
  sd_decided_at :: utc
  sd_policy_version :: string
  sd_statistical_monitor_version :: "string option"
  sd_observed_regime :: regime
  sd_notes :: "string option"
  sd_uncalibrated_checks :: "string list"

definition supervisor_decision_valid :: "supervisor_decision \<Rightarrow> bool" where [checks]:
  "supervisor_decision_valid d \<longleftrightarrow>
     version_tag_ok (sd_policy_version d) \<and> opt_ok version_tag_ok (sd_statistical_monitor_version d) \<and>
     opt_ok (text_ok 0 2000) (sd_notes d) \<and> list_all version_tag_ok (sd_uncalibrated_checks d) \<and>
     \<not> (sd_verdict d \<noteq> APPROVE \<and> sd_reason_codes d = [])"


subsection \<open>Execution\<close>

record approved_order =
  ao_order_request_id :: uuid
  ao_intent_id :: uuid
  ao_intent_risk_decision_id :: uuid
  ao_final_risk_decision_id :: "uuid option"
  ao_supervisor_decision_id :: uuid
  ao_broker_symbol :: string
  ao_side :: side
  ao_entry_type :: entry_type
  ao_volume :: decimal
  ao_price :: "decimal option"
  ao_stop_loss_price :: decimal
  ao_take_profit_price :: "decimal option"
  ao_max_slippage_points :: int
  ao_created_at :: utc
  ao_expires_at :: utc
  ao_environment :: environment

definition approved_order_valid :: "approved_order \<Rightarrow> bool" where [checks]:
  "approved_order_valid o' \<longleftrightarrow>
     symbol_ok (ao_broker_symbol o') \<and> 0 < ao_volume o' \<and> opt_ok positive (ao_price o') \<and>
     0 < ao_stop_loss_price o' \<and> opt_ok positive (ao_take_profit_price o') \<and>
     0 \<le> ao_max_slippage_points o' \<and>
     ao_side o' \<noteq> FLAT \<and>
     \<not> (ao_entry_type o' \<noteq> MARKET \<and> ao_price o' = None) \<and>
     \<not> ao_expires_at o' \<le> ao_created_at o'"

definition order_magic_number :: "stdlib \<Rightarrow> approved_order \<Rightarrow> py_exn + int" where
  "order_magic_number sl o' = mt5_magic_number sl (ao_order_request_id o')"

record execution_result =
  er_execution_id :: uuid
  er_order_request_id :: uuid
  er_intent_id :: "uuid option"
  er_state :: order_state
  er_mt5_order_ticket :: "int option"
  er_mt5_deal_ticket :: "int option"
  er_mt5_position_ticket :: "int option"
  er_retcode :: "int option"
  er_retcode_comment :: "string option"
  er_requested_price :: "decimal option"
  er_executed_price :: "decimal option"
  er_requested_volume :: "decimal option"
  er_executed_volume :: "decimal option"
  er_slippage_points :: "int option"
  er_submitted_at :: "utc option"
  er_broker_time :: "utc option"
  er_completed_at :: "utc option"
  er_latency_ms :: "int option"
  er_order_check_payload :: "json option"
  er_order_send_payload :: "json option"
  er_request_payload :: "json option"
  er_error_detail :: "string option"

definition execution_result_valid :: "execution_result \<Rightarrow> bool" where [checks]:
  "execution_result_valid r \<longleftrightarrow>
     opt_ok (text_ok 0 512) (er_retcode_comment r) \<and>
     opt_ok positive (er_requested_price r) \<and> opt_ok positive (er_executed_price r) \<and>
     opt_ok positive (er_requested_volume r) \<and> opt_ok (\<lambda>v. 0 \<le> v) (er_executed_volume r) \<and>
     opt_ok (\<lambda>n. 0 \<le> n) (er_latency_ms r) \<and> opt_ok (text_ok 0 2000) (er_error_detail r)"

record flatten_instruction =
  fi_flatten_request_id :: uuid
  fi_ticket :: int
  fi_broker_symbol :: string
  fi_position_side :: side
  fi_close_side :: side
  fi_volume :: decimal
  fi_open_price :: decimal
  fi_opened_at :: utc
  fi_magic :: "int option"
  fi_crossed_weekly_close :: bool
  fi_observed_at :: utc

definition flatten_instruction_valid :: "flatten_instruction \<Rightarrow> bool" where [checks]:
  "flatten_instruction_valid f \<longleftrightarrow>
     symbol_ok (fi_broker_symbol f) \<and> 0 < fi_volume f \<and> 0 < fi_open_price f \<and>
     fi_position_side f \<noteq> FLAT \<and>
     fi_close_side f = (if fi_position_side f = BUY then SELL else BUY)"

record flatten_plan =
  fp_flatten_request_id :: uuid
  fp_environment :: environment
  fp_canonical_symbol :: string
  fp_trading_day :: int
  fp_session_close :: utc
  fp_flatten_deadline :: utc
  fp_past_deadline :: bool
  fp_crossed_weekly_close :: bool
  fp_observed_at :: utc
  fp_broker_state_snapshot_id :: uuid
  fp_instructions :: "flatten_instruction list"

definition flatten_plan_valid :: "flatten_plan \<Rightarrow> bool" where [checks]:
  "flatten_plan_valid p \<longleftrightarrow>
     symbol_ok (fp_canonical_symbol p) \<and> list_all flatten_instruction_valid (fp_instructions p) \<and>
     fp_instructions p \<noteq> [] \<and> (fp_past_deadline p \<or> fp_crossed_weekly_close p)"


subsection \<open>Broker state\<close>

record account_state =
  as_login :: int
  as_server :: string
  as_currency :: string
  as_is_demo :: bool
  as_trade_allowed :: bool
  as_expert_allowed :: bool
  as_connected :: bool
  as_balance :: decimal
  as_equity :: decimal
  as_margin :: decimal
  as_margin_free :: decimal
  as_margin_level :: "decimal option"
  as_leverage :: int
  as_observed_at :: utc

definition account_state_valid :: "account_state \<Rightarrow> bool" where [checks]:
  "account_state_valid a \<longleftrightarrow>
     text_ok 1 128 (as_server a) \<and> text_ok 3 8 (as_currency a) \<and> 0 \<le> as_margin a \<and>
     0 < as_leverage a"

definition login_hash :: "stdlib \<Rightarrow> account_state \<Rightarrow> py_exn + string" where
  "login_hash sl a =
     mapE (take 16) (fingerprint sl [(''login'', PInt (as_login a)), (''server'', PStr (as_server a))])"

record position_state =
  ps_ticket :: int
  ps_broker_symbol :: string
  ps_side :: side
  ps_volume :: decimal
  ps_open_price :: decimal
  ps_current_price :: "decimal option"
  ps_stop_loss_price :: "decimal option"
  ps_take_profit_price :: "decimal option"
  ps_opened_at :: utc
  ps_profit :: decimal
  ps_swap :: decimal
  ps_magic :: "int option"
  ps_observed_at :: utc

definition position_state_valid :: "position_state \<Rightarrow> bool" where [checks]:
  "position_state_valid p \<longleftrightarrow>
     symbol_ok (ps_broker_symbol p) \<and> 0 < ps_volume p \<and> 0 < ps_open_price p \<and>
     opt_ok positive (ps_current_price p) \<and> opt_ok positive (ps_stop_loss_price p) \<and>
     opt_ok positive (ps_take_profit_price p) \<and> ps_side p \<noteq> FLAT"

record broker_account_snapshot =
  bas_snapshot_id :: uuid
  bas_observed_at :: utc
  bas_recorded_at :: utc
  bas_environment :: environment
  bas_server :: string
  bas_account_ref :: string
  bas_currency :: string
  bas_leverage :: int
  bas_margin_mode :: "string option"
  bas_balance :: decimal
  bas_equity :: decimal
  bas_profit :: decimal
  bas_margin :: decimal
  bas_margin_free :: decimal
  bas_margin_level :: "decimal option"
  bas_account_trade_allowed :: bool
  bas_terminal_trade_allowed :: "bool option"
  bas_position_set_state :: snapshot_completeness
  bas_pending_order_set_state :: snapshot_completeness

definition broker_account_snapshot_valid :: "broker_account_snapshot \<Rightarrow> bool" where [checks]:
  "broker_account_snapshot_valid s \<longleftrightarrow>
     text_ok 1 128 (bas_server s) \<and> text_ok 3 8 (bas_currency s) \<and> 0 < bas_leverage s \<and>
     0 \<le> bas_margin s"

record broker_position_snapshot =
  bps_snapshot_id :: uuid
  bps_observed_at :: utc
  bps_ticket :: int
  bps_canonical_symbol :: string
  bps_broker_symbol :: string
  bps_side :: side
  bps_volume :: decimal
  bps_opened_at :: utc
  bps_open_price :: decimal
  bps_current_price :: "decimal option"
  bps_stop_loss_price :: "decimal option"
  bps_take_profit_price :: "decimal option"
  bps_profit :: decimal
  bps_swap :: decimal
  bps_magic :: "int option"
  bps_comment :: "string option"

definition broker_position_snapshot_valid :: "broker_position_snapshot \<Rightarrow> bool" where [checks]:
  "broker_position_snapshot_valid p \<longleftrightarrow>
     symbol_ok (bps_broker_symbol p) \<and> 0 < bps_volume p \<and> 0 < bps_open_price p \<and>
     opt_ok positive (bps_current_price p) \<and> opt_ok positive (bps_stop_loss_price p) \<and>
     opt_ok positive (bps_take_profit_price p) \<and> opt_ok (text_ok 0 256) (bps_comment p) \<and>
     bps_side p \<noteq> FLAT"

record broker_pending_order_snapshot =
  bos_snapshot_id :: uuid
  bos_observed_at :: utc
  bos_order_id :: int
  bos_canonical_symbol :: string
  bos_broker_symbol :: string
  bos_order_type :: string
  bos_state :: string
  bos_volume :: decimal
  bos_price :: decimal
  bos_stop_loss_price :: "decimal option"
  bos_take_profit_price :: "decimal option"
  bos_expires_at :: "utc option"
  bos_magic :: "int option"

record incident =
  inc_incident_id :: uuid
  inc_severity :: incident_severity
  inc_component :: string
  inc_summary :: string
  inc_opened_at :: utc
  inc_closed_at :: "utc option"
  inc_reason_codes :: "reason_code list"
  inc_correlation_id :: "uuid option"
  inc_root_cause :: "string option"
  inc_corrective_action :: "string option"
  inc_regression_test :: "string option"

definition incident_valid :: "incident \<Rightarrow> bool" where [checks]:
  "incident_valid i \<longleftrightarrow>
     text_ok 1 64 (inc_component i) \<and> text_ok 1 512 (inc_summary i) \<and>
     opt_ok (text_ok 0 4000) (inc_root_cause i) \<and> opt_ok (text_ok 0 4000) (inc_corrective_action i) \<and>
     opt_ok (text_ok 0 512) (inc_regression_test i) \<and>
     opt_ok (\<lambda>c. \<not> c < inc_opened_at i \<and> inc_root_cause i \<noteq> None) (inc_closed_at i)"

definition is_open :: "incident \<Rightarrow> bool" where
  "is_open i \<longleftrightarrow> inc_closed_at i = None"

definition blocks_promotion :: "incident \<Rightarrow> bool" where
  "blocks_promotion i \<longleftrightarrow>
     (if inc_severity i = SEV_0 then True else inc_severity i = SEV_1 \<and> is_open i)"


subsection \<open>Audit and canary permits\<close>

record decision_capsule =
  dc_capsule_id :: uuid
  dc_occurred_at :: utc
  dc_correlation_id :: uuid
  dc_canonical_symbol :: string
  dc_broker_symbol :: string
  dc_market_snapshot_id :: uuid
  dc_feature_set_version :: string
  dc_feature_values_hash :: string
  dc_strategy_version :: string
  dc_model_version :: "string option"
  dc_model_output :: "json option"
  dc_trade_intent :: "trade_intent option"
  dc_risk_config_version :: string
  dc_risk_decision :: "risk_decision option"
  dc_supervisor_decision :: "supervisor_decision option"
  dc_execution_result :: "execution_result option"
  dc_position_state_before :: "position_state list"
  dc_position_state_after :: "position_state list"
  dc_code_commit :: string
  dc_environment :: environment

fun environment_value :: "environment \<Rightarrow> string" where
  "environment_value BACKTEST = ''backtest''"
| "environment_value REPLAY = ''replay''"
| "environment_value PAPER = ''paper''"
| "environment_value SHADOW = ''shadow''"
| "environment_value LIVE = ''live''"

definition provenance_fingerprint :: "stdlib \<Rightarrow> decision_capsule \<Rightarrow> py_exn + string" where
  "provenance_fingerprint sl c = fingerprint sl
     [(''market_snapshot_id'', PUuid (dc_market_snapshot_id c)),
      (''feature_set_version'', PStr (dc_feature_set_version c)),
      (''feature_values_hash'', PStr (dc_feature_values_hash c)),
      (''strategy_version'', PStr (dc_strategy_version c)),
      (''model_version'', opt_val PStr (dc_model_version c)),
      (''risk_config_version'', PStr (dc_risk_config_version c)),
      (''code_commit'', PStr (dc_code_commit c)),
      (''environment'', PEnum (environment_value (dc_environment c))),
      (''decision_hash'', opt_val (\<lambda>i. PStr (decision_hash sl i)) (dc_trade_intent c))]"

record canary_permit =
  cp_permit_id :: uuid
  cp_approved_account_ref :: string
  cp_expected_server :: string
  cp_canonical_symbol :: string
  cp_entry_type :: entry_type
  cp_agent_id :: "uuid option"
  cp_assignment_id :: "uuid option"
  cp_strategy_artifact_hash :: "string option"
  cp_max_requested_risk_fraction :: decimal
  cp_issued_by :: string
  cp_reason :: string
  cp_issued_at :: utc
  cp_valid_until :: utc

abbreviation hours_us :: "int \<Rightarrow> int" where
  "hours_us h \<equiv> h * 3600000000"

definition canary_permit_valid :: "canary_permit \<Rightarrow> bool" where [checks]:
  "canary_permit_valid p \<longleftrightarrow>
     text_ok 1 128 (cp_expected_server p) \<and> opt_ok version_tag_ok (cp_strategy_artifact_hash p) \<and>
     risk_fraction_ok (cp_max_requested_risk_fraction p) \<and>
     text_ok 1 128 (cp_issued_by p) \<and> text_ok 1 2000 (cp_reason p) \<and>
     cp_canonical_symbol p = ''EUR/USD'' \<and> cp_entry_type p \<in> {MARKET, LIMIT} \<and>
     \<not> ((cp_agent_id p \<noteq> None \<or> cp_assignment_id p \<noteq> None \<or> cp_strategy_artifact_hash p \<noteq> None) \<and>
        \<not> (cp_agent_id p \<noteq> None \<and> cp_assignment_id p \<noteq> None \<and> cp_strategy_artifact_hash p \<noteq> None)) \<and>
     \<not> cp_valid_until p \<le> cp_issued_at p \<and>
     \<not> hours_us 24 < cp_valid_until p - cp_issued_at p"

end
