(* ===== verification/Agent.thy ===== *)
theory Agent
  imports Models
begin

text \<open>
  The strategy interface (\<^verbatim>\<open>trading_agent/base.py\<close>): what a strategy may read, what it
  returns, and the contract the rest of the system relies on, as the locale \<open>strategy\<close>.
  The evidence a strategy returns is its own type, the parameter of \<open>strategy_outcome\<close>.
\<close>

record agent_context =
  ac_open_position_sides :: "side list"
  ac_requested_risk_fraction :: decimal
  ac_min_stop_distance_points :: int

definition AgentContext :: agent_context where
  \<comment> \<open>the dataclass defaults\<close>
  "AgentContext =
     \<lparr>ac_open_position_sides = [], ac_requested_risk_fraction = 1 / 200,
      ac_min_stop_distance_points = 0\<rparr>"

record strategy_decision =
  sn_side :: side
  sn_confidence :: rat
  sn_reason_codes :: "string list"
  sn_intent :: "trade_intent option"

record 'f strategy_outcome =
  so_decision :: strategy_decision
  so_features :: "'f option"

definition is_warming_up :: "'f strategy_outcome \<Rightarrow> bool" where
  "is_warming_up outcome \<longleftrightarrow> so_features outcome = None"

text \<open>\<^verbatim>\<open>StrategyDecision(side=FLAT, confidence=0.0, reason_codes=(reason,), intent=None)\<close>.\<close>

definition flat_decision :: "string \<Rightarrow> strategy_decision" where
  "flat_decision reason =
     \<lparr>sn_side = FLAT, sn_confidence = 0, sn_reason_codes = [reason], sn_intent = None\<rparr>"

definition warming_up :: "'f strategy_outcome" where
  "warming_up = \<lparr>so_decision = flat_decision ''warming_up'', so_features = None\<rparr>"

fun regime_value :: "regime \<Rightarrow> string" where
  "regime_value TREND = ''TREND''"
| "regime_value RANGE = ''RANGE''"
| "regime_value HIGH_VOLATILITY = ''HIGH_VOLATILITY''"
| "regime_value LOW_VOLATILITY = ''LOW_VOLATILITY''"
| "regime_value RG_UNKNOWN = ''UNKNOWN''"

text \<open>\<^verbatim>\<open>str.lower\<close>, on the ASCII letters the enumeration values consist of.\<close>

definition lower_char :: "char \<Rightarrow> char" where
  "lower_char c =
     (let n = of_char c :: nat in if 65 \<le> n \<and> n \<le> 90 then char_of (n + 32) else c)"

definition lower :: "string \<Rightarrow> string" where
  "lower s = map lower_char s"

lemma flat_decision_simps [simp]:
  "sn_side (flat_decision r) = FLAT" "sn_intent (flat_decision r) = None"
  "sn_confidence (flat_decision r) = 0" "sn_reason_codes (flat_decision r) = [r]"
  by (simp_all add: flat_decision_def)

lemma warming_up_simps [simp]:
  "so_features warming_up = None" "sn_intent (so_decision warming_up) = None"
  by (simp_all add: warming_up_def)


subsection \<open>The contract\<close>

text \<open>What a proposal owes the window it was made in and the context it was given.\<close>

definition proposal_ok ::
  "market_snapshot \<Rightarrow> agent_context \<Rightarrow> strategy_decision \<Rightarrow> trade_intent \<Rightarrow> bool" where
  "proposal_ok snap ctx d i \<longleftrightarrow>
     trade_intent_valid i \<and> ti_side i \<noteq> FLAT \<and> sn_side d = ti_side i \<and>
     ti_side i \<notin> set (ac_open_position_sides ctx) \<and> ti_symbol i = ms_symbol snap \<and>
     ti_created_at i = ms_event_time snap \<and>
     ti_reference_price i = (if ti_side i = BUY then ms_ask snap else ms_bid snap) \<and>
     ti_requested_risk_fraction i = Some (ac_requested_risk_fraction ctx) \<and>
     ti_confidence i = sn_confidence d \<and> ti_reason_codes i = sn_reason_codes d"

locale strategy =
  fixes run :: "market_snapshot \<Rightarrow> bar list \<Rightarrow> instrument_spec \<Rightarrow> agent_context \<Rightarrow>
      py_exn + 'f strategy_outcome"
    and minimum_bars :: nat
  assumes too_short: "length bars < minimum_bars \<Longrightarrow> run snap bars spec ctx = Inr warming_up"
    and proposes: "run snap bars spec ctx = Inr out \<Longrightarrow> sn_intent (so_decision out) = Some i \<Longrightarrow>
      so_features out \<noteq> None \<and> proposal_ok snap ctx (so_decision out) i"
begin

lemma needs_history:
  assumes "run snap bars spec ctx = Inr out" "sn_intent (so_decision out) = Some i"
  shows "minimum_bars \<le> length bars"
proof (rule ccontr)
  assume "\<not> minimum_bars \<le> length bars"
  with too_short [of bars snap spec ctx] assms show False by simp
qed

lemma both_sides_held:
  assumes "run snap bars spec ctx = Inr out" "{BUY, SELL} \<subseteq> set (ac_open_position_sides ctx)"
  shows "sn_intent (so_decision out) = None"
proof (rule ccontr)
  assume "sn_intent (so_decision out) \<noteq> None"
  with proposes [OF assms(1)] obtain i :: trade_intent where "ti_side i \<noteq> FLAT" "ti_side i \<notin> set (ac_open_position_sides ctx)"
    by (auto simp: proposal_ok_def)
  with assms(2) show False by (cases "ti_side i") auto
qed

lemma protected:
  assumes "run snap bars spec ctx = Inr out" "sn_intent (so_decision out) = Some i"
  obtains stop where "ti_stop_loss_price i = Some stop"
    "ti_side i = BUY \<Longrightarrow> stop < ms_ask snap" "ti_side i = SELL \<Longrightarrow> ms_bid snap < stop"
proof -
  have "proposal_ok snap ctx (so_decision out) i" using proposes [OF assms] by simp
  then have v: "trade_intent_valid i" "ti_side i \<noteq> FLAT"
      "ti_reference_price i = (if ti_side i = BUY then ms_ask snap else ms_bid snap)"
    by (auto simp: proposal_ok_def)
  with directional_intent [OF v(1,2)] that show thesis by fastforce
qed

end

end
