(* ===== verification/Sizing.thy ===== *)
theory Sizing
  imports Models
begin

text \<open>
  Position sizing (\<^verbatim>\<open>risk/sizing.py\<close>) and measured open risk
  (\<^verbatim>\<open>risk/portfolio_risk.py\<close>). Division by zero is the exception decimal raises;
  an \<^verbatim>\<open>InstrumentSpec\<close> that passed its validators never reaches it.
\<close>

subsection \<open>Sizing\<close>

definition ddivE :: "decimal \<Rightarrow> decimal \<Rightarrow> py_exn + decimal" where
  "ddivE a b =
     (if b = 0 then Inl (if a = 0 then InvalidOperation else DivisionByZero) else Inr (ddiv a b))"

lemma ddivE_simp [simp]: "b \<noteq> 0 \<Longrightarrow> ddivE a b = Inr (ddiv a b)"
  by (simp add: ddivE_def)

record sizing_result =
  sz_volume :: "decimal option"
  sz_risk_amount :: decimal
  sz_loss_per_lot :: decimal
  sz_rejection :: "string option"

definition is_tradeable :: "sizing_result \<Rightarrow> bool" where
  "is_tradeable r \<longleftrightarrow> sz_volume r \<noteq> None"

definition loss_per_lot :: "decimal \<Rightarrow> instrument_spec \<Rightarrow> py_exn + decimal" where
  "loss_per_lot stop_distance_price spec =
     (if stop_distance_price \<le> 0 then Inl ValueError
      else if tick_size spec \<le> 0 then Inl ValueError
      else Inr (dmul (ddiv stop_distance_price (tick_size spec)) (tick_value spec)))"

definition normalise_volume :: "decimal \<Rightarrow> instrument_spec \<Rightarrow> py_exn + decimal" where
  "normalise_volume volume spec =
     bindE (ddivE volume (volume_step spec)) (\<lambda>q.
       let steps = of_int (round_down q);
           snapped = dmul steps (volume_step spec)
       in Inr (min snapped (volume_max spec)))"

definition no_volume :: "decimal \<Rightarrow> decimal \<Rightarrow> string \<Rightarrow> sizing_result" where
  "no_volume risk per_lot why =
     \<lparr>sz_volume = None, sz_risk_amount = risk, sz_loss_per_lot = per_lot, sz_rejection = Some why\<rparr>"

definition size_position ::
  "decimal \<Rightarrow> decimal \<Rightarrow> decimal \<Rightarrow> instrument_spec \<Rightarrow> py_exn + sizing_result" where
  "size_position equity risk_fraction stop_distance_price spec =
     (if equity \<le> 0 then Inr (no_volume 0 0 ''non_positive_equity'')
      else
        let risk_amount = dmul equity risk_fraction in
        bindE (loss_per_lot stop_distance_price spec) (\<lambda>per_lot.
        if per_lot \<le> 0 then Inr (no_volume risk_amount per_lot ''degenerate_loss_per_lot'')
        else
          bindE (ddivE risk_amount per_lot) (\<lambda>raw_volume.
          bindE (normalise_volume raw_volume spec) (\<lambda>volume.
          if volume < volume_min spec
          then Inr (no_volume risk_amount per_lot ''risk_budget_below_broker_minimum'')
          else if volume \<le> 0
          then Inr (no_volume risk_amount per_lot ''volume_rounds_to_zero'')
          else Inr \<lparr>sz_volume = Some volume, sz_risk_amount = risk_amount,
                    sz_loss_per_lot = per_lot, sz_rejection = None\<rparr>))))"

definition realised_risk :: "decimal \<Rightarrow> decimal \<Rightarrow> instrument_spec \<Rightarrow> py_exn + decimal" where
  "realised_risk volume stop_distance_price spec =
     mapE (dmul volume) (loss_per_lot stop_distance_price spec)"

lemma rnd_upper: "0 \<le> x \<Longrightarrow> rnd x \<le> x * (1 + 1 / 10 ^ 27)"
proof -
  assume x: "0 \<le> x"
  have "\<bar>rnd x - x\<bar> \<le> \<bar>x\<bar> * ((of_nat 10 :: rat) powi (1 - int 28)) / 2"
    by (rule dec28.round_sig_relative_error)
  then have 1: "\<bar>rnd x - x\<bar> \<le> x * (1 / 10 ^ 27) / 2" using x by (simp add: power_int_minus)
  have 2: "0 \<le> x * (1 / 10 ^ 27)" using x by simp
  have "rnd x \<le> x + y" if "\<bar>rnd x - x\<bar> \<le> y / 2" "0 \<le> y" for y using that by linarith
  from this [OF 1 2] show ?thesis by (simp only: distrib_left mult_1_right)
qed

lemma loss_per_lot_pos:
  assumes "instrument_spec_valid spec" "0 < d"
  obtains l where "loss_per_lot d spec = Inr l" "0 < l"
  using that assms by (simp add: loss_per_lot_def instrument_spec_valid_def)

lemma loss_per_lot_Inr_pos:
  "instrument_spec_valid spec \<Longrightarrow> loss_per_lot d spec = Inr l \<Longrightarrow> 0 < d \<and> 0 < l"
  by (auto simp: loss_per_lot_def instrument_spec_valid_def not_le split: if_splits)

lemma loss_per_lot_mono:
  assumes "instrument_spec_valid spec" "loss_per_lot d spec = Inr l" "loss_per_lot d' spec = Inr l'" "d \<le> d'"
  shows "l \<le> l'"
  using assms by (auto simp: loss_per_lot_def instrument_spec_valid_def not_le
      intro!: decimal_mono decimal_nonneg split: if_splits)

definition whole_steps :: "instrument_spec \<Rightarrow> decimal \<Rightarrow> bool" where
  "whole_steps spec v \<longleftrightarrow> v = volume_max spec \<or> (\<exists>n. v = dmul (of_int n) (volume_step spec))"

lemma normalise_volume_bounds:
  assumes "instrument_spec_valid spec" "normalise_volume v spec = Inr w" "0 \<le> v"
  shows "0 \<le> w" "w \<le> volume_max spec" "w \<le> v * (1 + 1 / 10 ^ 27) ^ 2" "whole_steps spec w"
proof -
  let ?e = "1 + 1 / 10 ^ 27 :: rat" and ?s = "volume_step spec"
  have s: "0 < ?s" "0 < volume_max spec" using assms(1) by (auto simp: instrument_spec_valid_def)
  define n where "n = round_down (ddiv v ?s)"
  have w: "w = min (dmul (of_int n) ?s) (volume_max spec)"
    using assms(2) s by (simp add: normalise_volume_def n_def Let_def)
  have q: "0 \<le> ddiv v ?s" using assms(3) s by (simp add: decimal_nonneg)
  note n = round_down_bounds [OF q, folded n_def]
  show "w \<le> volume_max spec" "whole_steps spec w" using w by (auto simp: whole_steps_def min_def)
  show "0 \<le> w" using w n s by (simp add: decimal_nonneg)
  have "dmul (of_int n) ?s \<le> of_int n * ?s * ?e"
    using n s unfolding dmul_def by (intro rnd_upper) simp
  also have "\<dots> \<le> (v / ?s * ?e) * ?s * ?e"
  proof (intro mult_right_mono)
    have "ddiv v ?s \<le> v / ?s * ?e" unfolding ddiv_def using assms(3) s by (intro rnd_upper) simp
    with n show "of_int n \<le> v / ?s * ?e" by linarith
  qed (use s in auto)
  also have "\<dots> = v * ?e ^ 2" using s by (simp add: power2_eq_square)
  finally show "w \<le> v * ?e ^ 2" using w by simp
qed

lemma size_position_cases:
  assumes "instrument_spec_valid spec" "0 < d" "size_position eq f d spec = Inr r" "sz_volume r = Some v"
  obtains l raw where "0 < eq" "loss_per_lot d spec = Inr l" "0 < l" "raw = ddiv (dmul eq f) l"
    "normalise_volume raw spec = Inr v" "volume_min spec \<le> v" "0 < v"
    "sz_risk_amount r = dmul eq f" "sz_loss_per_lot r = l" "sz_rejection r = None"
proof -
  obtain l where l: "loss_per_lot d spec = Inr l" "0 < l" by (rule loss_per_lot_pos [OF assms(1,2)])
  show thesis
    by (rule that [of l "ddiv (dmul eq f) l"])
       (use assms(3,4) l in \<open>auto simp: size_position_def Let_def no_volume_def bindE_eq_Inr not_less not_le
          split: if_splits\<close>)
qed

lemma size_position_total:
  assumes "instrument_spec_valid spec" "0 < d"
  shows "\<exists>r. size_position eq f d spec = Inr r \<and> (sz_volume r = None \<longleftrightarrow> sz_rejection r \<noteq> None)"
proof -
  obtain l where l: "loss_per_lot d spec = Inr l" "0 < l" by (rule loss_per_lot_pos [OF assms])
  moreover have "volume_step spec \<noteq> 0" using assms(1) by (auto simp: instrument_spec_valid_def)
  ultimately show ?thesis
    by (simp add: size_position_def normalise_volume_def no_volume_def Let_def)
qed

lemma four_roundings: "l \<noteq> 0 \<Longrightarrow> (q / l * e) * e ^ 2 * l * e = q * (e :: rat) ^ 4"
  by (simp add: power4_eq_xxxx power2_eq_square)

text \<open>
  A size that the engine returns is a broker-legal volume (within the broker's minimum
  and maximum and a whole number of volume steps unless clamped to the maximum), and the
  account-currency loss it carries at the stop is at most the authorised budget, up to four
  roundings in the twenty-eighth digit.
\<close>

theorem size_position_safe:
  assumes spec: "instrument_spec_valid spec" and d: "0 < d" and f: "0 \<le> f"
    and r: "size_position equity f d spec = Inr r" "sz_volume r = Some v"
  shows "volume_min spec \<le> v \<and> v \<le> volume_max spec \<and> whole_steps spec v \<and>
         (\<exists>q. realised_risk v d spec = Inr q \<and> 0 < q \<and>
              q \<le> sz_risk_amount r * (1 + 1 / 10 ^ 27) ^ 4)"
proof -
  let ?e = "1 + 1 / 10 ^ 27 :: rat"
  obtain l raw where eq: "0 < equity" and l: "loss_per_lot d spec = Inr l" "0 < l"
      and raw: "raw = ddiv (dmul equity f) l" "normalise_volume raw spec = Inr v"
      and v: "volume_min spec \<le> v" "0 < v" and amt: "sz_risk_amount r = dmul equity f"
    by (rule size_position_cases [OF spec d r])
  have budget: "0 \<le> dmul equity f" using eq f by (simp add: decimal_nonneg)
  have raw0: "0 \<le> raw" using budget l raw by (simp add: decimal_nonneg)
  note n = normalise_volume_bounds [OF spec raw(2) raw0]
  have "dmul v l \<le> v * l * ?e" unfolding dmul_def using v l by (intro rnd_upper) simp
  also have "\<dots> \<le> (raw * ?e ^ 2) * l * ?e" using n l by (intro mult_right_mono) auto
  also have "\<dots> \<le> (dmul equity f / l * ?e) * ?e ^ 2 * l * ?e"
  proof (intro mult_right_mono)
    show "raw \<le> dmul equity f / l * ?e"
      unfolding raw(1) ddiv_def using budget l by (intro rnd_upper) simp
  qed (use l in auto)
  also have "\<dots> = dmul equity f * ?e ^ 4" by (rule four_roundings) (use l in simp)
  finally have "dmul v l \<le> sz_risk_amount r * ?e ^ 4" by (simp add: amt)
  moreover have "0 < dmul v l" using v l by simp
  ultimately show ?thesis using n v l by (simp add: realised_risk_def)
qed

text \<open>A EUR/USD specification with realistic broker values, for worked examples.\<close>

definition eurusd :: instrument_spec where
  "eurusd =
     \<lparr>spec_canonical_symbol = ''EUR/USD'', spec_broker_symbol = ''EURUSD'',
      currency_base = ''EUR'', currency_profit = ''USD'', contract_size = 100000, digits = 5,
      point = 1 / 100000, tick_size = 1 / 100000, tick_value = 1, volume_min = 1 / 100,
      volume_max = 100, volume_step = 1 / 100, stops_level = 0, freeze_level = 0,
      filling_modes = [''IOC''], trade_mode = ''FULL'', captured_at = 0\<rparr>"

lemma eurusd_valid [simp]: "instrument_spec_valid eurusd"
  by (simp add: eurusd_def instrument_spec_valid_def text_ok_def)

lemma eurusd_fields [simp]:
  "point eurusd = 1 / 100000" "tick_size eurusd = 1 / 100000" "tick_value eurusd = 1"
  "volume_min eurusd = 1 / 100" "volume_max eurusd = 100" "volume_step eurusd = 1 / 100"
  "stops_level eurusd = 0" "digits eurusd = 5" "spec_broker_symbol eurusd = ''EURUSD''"
  by (simp_all add: eurusd_def)

lemmas decimal_eval = decimal_ops rnd_exact round_down_def

lemma size_position_example:
  "size_position 10000 (1 / 200) (1 / 500) eurusd =
     Inr \<lparr>sz_volume = Some (1 / 4), sz_risk_amount = 50, sz_loss_per_lot = 200, sz_rejection = None\<rparr>"
proof -
  have eval: "dmul 10000 (1 / 200) = 50" "ddiv 50 200 = 1 / 4" "dmul 25 (1 / 100) = 1 / 4"
    "dmul (ddiv (1 / 500) (1 / 100000)) 1 = 200" "ddiv (1 / 4) (1 / 100) = 25" "round_down 25 = 25"
    by (simp_all add: decimal_ops rnd_exact round_down_def)
  show ?thesis by (simp add: size_position_def loss_per_lot_def normalise_volume_def eval)
qed

lemma size_position_safe_witness:
  "volume_min eurusd \<le> 1 / 4 \<and> 1 / 4 \<le> volume_max eurusd \<and> whole_steps eurusd (1 / 4) \<and>
   (\<exists>q. realised_risk (1 / 4) (1 / 500) eurusd = Inr q \<and> 0 < q \<and> q \<le> 50 * (1 + 1 / 10 ^ 27) ^ 4)"
  using size_position_safe [OF eurusd_valid _ _ size_position_example, of "1 / 4"] by simp


subsection \<open>Measured open risk\<close>

record untrusted_position =
  up_ticket :: int
  up_broker_symbol :: string
  up_reason :: string

record open_risk_assessment =
  ora_fraction :: "decimal option"
  ora_risk_amount :: "decimal option"
  ora_valued_tickets :: "int list"
  ora_untrusted :: "untrusted_position list"
  ora_detail :: "string option"

definition is_established :: "open_risk_assessment \<Rightarrow> bool" where
  "is_established a \<longleftrightarrow> ora_fraction a \<noteq> None"

definition NO_PROTECTIVE_STOP :: string where "NO_PROTECTIVE_STOP = ''no_protective_stop''"
definition NO_INSTRUMENT_SPEC :: string where "NO_INSTRUMENT_SPEC = ''no_instrument_spec''"

definition adverse_distance :: "position_state \<Rightarrow> py_exn + decimal" where
  "adverse_distance position =
     (case ps_stop_loss_price position of
        None \<Rightarrow> Inl AssertionError
      | Some stop \<Rightarrow>
          Inr (if ps_side position = BUY then dsub (ps_open_price position) stop
               else dsub stop (ps_open_price position)))"

text \<open>One pass over the book: the running total, the valued tickets, the untrusted positions.\<close>

type_synonym risk_scan = "decimal \<times> int list \<times> untrusted_position list"

definition assess_step ::
  "(string \<rightharpoonup> instrument_spec) \<Rightarrow> risk_scan \<Rightarrow> position_state \<Rightarrow> py_exn + risk_scan" where
  "assess_step specs acc position =
     (case acc of (risk, valued, untrusted) \<Rightarrow>
        let untrust = (\<lambda>why. (risk, valued, untrusted @
              [\<lparr>up_ticket = ps_ticket position, up_broker_symbol = ps_broker_symbol position,
                up_reason = why\<rparr>]))
        in case specs (ps_broker_symbol position) of
             None \<Rightarrow> Inr (untrust NO_INSTRUMENT_SPEC)
           | Some spec \<Rightarrow>
               if ps_stop_loss_price position = None then Inr (untrust NO_PROTECTIVE_STOP)
               else bindE (adverse_distance position) (\<lambda>adverse.
                 bindE (if 0 < adverse
                        then mapE (dadd risk) (realised_risk (ps_volume position) adverse spec)
                        else Inr risk) (\<lambda>risk'.
                 Inr (risk', valued @ [ps_ticket position], untrusted))))"

fun assess_scan ::
  "(string \<rightharpoonup> instrument_spec) \<Rightarrow> risk_scan \<Rightarrow> position_state list \<Rightarrow> py_exn + risk_scan" where
  "assess_scan specs acc [] = Inr acc"
| "assess_scan specs acc (position # rest) =
     bindE (assess_step specs acc position) (\<lambda>acc'. assess_scan specs acc' rest)"

definition assess_open_risk ::
  "position_state list \<Rightarrow> (string \<rightharpoonup> instrument_spec) \<Rightarrow> decimal \<Rightarrow> py_exn + open_risk_assessment" where
  "assess_open_risk positions specs equity =
     (if positions = []
      then Inr \<lparr>ora_fraction = Some 0, ora_risk_amount = Some 0, ora_valued_tickets = [],
                ora_untrusted = [], ora_detail = None\<rparr>
      else if equity \<le> 0
      then Inr \<lparr>ora_fraction = None, ora_risk_amount = None, ora_valued_tickets = [],
                ora_untrusted = [], ora_detail = Some ''non_positive_equity''\<rparr>
      else bindE (assess_scan specs (0, [], []) positions) (\<lambda>(risk, valued, untrusted).
        if untrusted \<noteq> []
        then Inr \<lparr>ora_fraction = None, ora_risk_amount = None, ora_valued_tickets = valued,
                  ora_untrusted = untrusted, ora_detail = Some ''untrusted_position_geometry''\<rparr>
        else bindE (ddivE risk equity) (\<lambda>fraction.
          Inr \<lparr>ora_fraction = Some fraction, ora_risk_amount = Some risk,
               ora_valued_tickets = valued, ora_untrusted = [], ora_detail = None\<rparr>)))"

text \<open>
  The reading of the loop: a position is trusted when its instrument is known and it has a
  stop, and a trusted position contributes its realised risk when the stop is on the losing
  side and nothing otherwise.
\<close>

definition trusted :: "(string \<rightharpoonup> instrument_spec) \<Rightarrow> position_state \<Rightarrow> bool" where
  "trusted specs p \<longleftrightarrow> specs (ps_broker_symbol p) \<noteq> None \<and> ps_stop_loss_price p \<noteq> None"

definition position_risk :: "(string \<rightharpoonup> instrument_spec) \<Rightarrow> position_state \<Rightarrow> decimal" where
  "position_risk specs p =
     (case (specs (ps_broker_symbol p), adverse_distance p) of
        (Some spec, Inr adverse) \<Rightarrow>
          (if 0 < adverse then projr (realised_risk (ps_volume p) adverse spec) else 0)
      | _ \<Rightarrow> 0)"

definition specs_valid :: "(string \<rightharpoonup> instrument_spec) \<Rightarrow> bool" where
  "specs_valid specs \<longleftrightarrow> (\<forall>spec \<in> ran specs. instrument_spec_valid spec)"

lemma specs_validD: "specs_valid specs \<Longrightarrow> specs b = Some spec \<Longrightarrow> instrument_spec_valid spec"
  by (auto simp: specs_valid_def ran_def)

definition add_risk :: "(string \<rightharpoonup> instrument_spec) \<Rightarrow> decimal \<Rightarrow> position_state \<Rightarrow> decimal" where
  "add_risk specs risk p = (if position_risk specs p = 0 then risk else dadd risk (position_risk specs p))"

lemma realised_risk_pos:
  assumes "instrument_spec_valid spec" "0 < v" "0 < d"
  obtains q where "realised_risk v d spec = Inr q" "0 < q" "rnd q = q"
  using loss_per_lot_pos [OF assms(1,3)] assms(2) that
  by (metis dec28.round_sig_idem dmul_def decimal_sign(6) mapE_Inr realised_risk_def mult_pos_pos)

lemma position_risk_nonneg:
  assumes "specs_valid specs" "position_state_valid p"
  shows "0 \<le> position_risk specs p \<and> rnd (position_risk specs p) = position_risk specs p"
proof -
  have "0 < ps_volume p" using assms(2) by (simp add: position_state_valid_def)
  then show ?thesis
    using realised_risk_pos [OF specs_validD [OF assms(1)]]
    by (auto simp: position_risk_def split: option.splits sum.splits)
       (metis less_imp_le sum.sel(2))+
qed

lemma assess_step_trusted:
  assumes "specs_valid specs" "position_state_valid p" "trusted specs p"
  shows "assess_step specs (risk, v, u) p = Inr (add_risk specs risk p, v @ [ps_ticket p], u)"
proof -
  obtain spec stop where p: "specs (ps_broker_symbol p) = Some spec" "ps_stop_loss_price p = Some stop"
    using assms(3) by (auto simp: trusted_def)
  obtain adv where adv: "adverse_distance p = Inr adv" using p by (simp add: adverse_distance_def)
  have vol: "0 < ps_volume p" using assms(2) by (simp add: position_state_valid_def)
  show ?thesis
  proof (cases "0 < adv")
    case True
    then obtain q where "realised_risk (ps_volume p) adv spec = Inr q" "0 < q"
      using realised_risk_pos [OF specs_validD [OF assms(1) p(1)] vol] by blast
    with p adv True show ?thesis
      by (simp add: assess_step_def Let_def add_risk_def position_risk_def)
  next
    case False
    with p adv show ?thesis
      by (simp add: assess_step_def Let_def add_risk_def position_risk_def)
  qed
qed

lemma assess_step_untrusted:
  "\<not> trusted specs p \<Longrightarrow> \<exists>x. assess_step specs (risk, v, u) p = Inr (risk, v, u @ [x])"
  by (auto simp: trusted_def assess_step_def Let_def split: option.splits)

lemma assess_scan_result:
  assumes "specs_valid specs" "list_all position_state_valid ps"
  shows "\<exists>u'. assess_scan specs (risk, v, u) ps =
           Inr (foldl (add_risk specs) risk (filter (trusted specs) ps),
                v @ map ps_ticket (filter (trusted specs) ps), u @ u') \<and>
           length u' = length (filter (\<lambda>p. \<not> trusted specs p) ps)"
  using assms(2)
proof (induction ps arbitrary: risk v u)
  case (Cons p ps)
  show ?case
  proof (cases "trusted specs p")
    case True
    then have "assess_step specs (risk, v, u) p = Inr (add_risk specs risk p, v @ [ps_ticket p], u)"
      using Cons.prems by (intro assess_step_trusted [OF assms(1)]) auto
    with True Cons.IH [of "add_risk specs risk p" "v @ [ps_ticket p]" u] Cons.prems
    show ?thesis by simp
  next
    case False
    from assess_step_untrusted [OF this] obtain x
      where "assess_step specs (risk, v, u) p = Inr (risk, v, u @ [x])" by blast
    moreover obtain u' where "assess_scan specs (risk, v, u @ [x]) ps =
           Inr (foldl (add_risk specs) risk (filter (trusted specs) ps),
                v @ map ps_ticket (filter (trusted specs) ps), (u @ [x]) @ u')"
        "length u' = length (filter (\<lambda>p. \<not> trusted specs p) ps)"
      using Cons.IH [of risk v "u @ [x]"] Cons.prems by auto
    ultimately show ?thesis using False by (intro exI [of _ "x # u'"]) simp
  qed
qed simp

text \<open>
  Measured open risk fails closed and never raises: on validated positions and
  specifications it always returns, and it establishes a figure exactly when the book is
  flat, or when equity is positive and every single position has a known instrument and a
  protective stop. Otherwise the figure is withheld, and the figure and the amount are
  withheld together.
\<close>

theorem assess_open_risk_fail_closed:
  assumes "specs_valid specs" "list_all position_state_valid positions"
  shows "\<exists>a. assess_open_risk positions specs equity = Inr a \<and>
           (is_established a \<longleftrightarrow>
              positions = [] \<or> (0 < equity \<and> (\<forall>p \<in> set positions. trusted specs p))) \<and>
           (ora_fraction a = None \<longleftrightarrow> ora_risk_amount a = None) \<and>
           (is_established a \<longrightarrow> ora_valued_tickets a = map ps_ticket positions)"
proof -
  obtain u where scan: "assess_scan specs (0, [], []) positions =
           Inr (foldl (add_risk specs) 0 (filter (trusted specs) positions),
                map ps_ticket (filter (trusted specs) positions), u)"
      and u: "length u = length (filter (\<lambda>p. \<not> trusted specs p) positions)"
    using assess_scan_result [OF assms, of 0 "[]" "[]"] by auto
  have "u = [] \<longleftrightarrow> (\<forall>p \<in> set positions. trusted specs p)"
    using u by (metis (no_types, lifting) filter_empty_conv length_0_conv)
  moreover have "filter (trusted specs) positions = positions" if "\<forall>p \<in> set positions. trusted specs p"
    using that by (simp add: filter_id_conv)
  ultimately show ?thesis
    using scan by (auto simp: assess_open_risk_def is_established_def)
qed

definition long_position :: "decimal option \<Rightarrow> position_state" where
  "long_position stop =
     \<lparr>ps_ticket = 7, ps_broker_symbol = ''EURUSD'', ps_side = BUY, ps_volume = 1 / 4,
      ps_open_price = 11 / 10, ps_current_price = None, ps_stop_loss_price = stop,
      ps_take_profit_price = None, ps_opened_at = 0, ps_profit = 0, ps_swap = 0, ps_magic = None,
      ps_observed_at = 0\<rparr>"

lemma long_position_valid [simp]: "position_state_valid (long_position None)"
  "position_state_valid (long_position (Some (549 / 500)))"
  by (simp_all add: long_position_def position_state_valid_def text_ok_def)

lemma long_position_fields [simp]:
  "ps_broker_symbol (long_position x) = ''EURUSD''" "ps_stop_loss_price (long_position x) = x"
  "ps_side (long_position x) = BUY" "ps_open_price (long_position x) = 11 / 10"
  "ps_volume (long_position x) = 1 / 4" "ps_ticket (long_position x) = 7"
  by (simp_all add: long_position_def)

abbreviation eurusd_book :: "string \<rightharpoonup> instrument_spec" where
  "eurusd_book \<equiv> [''EURUSD'' \<mapsto> eurusd]"

lemma eurusd_book_valid [simp]: "specs_valid eurusd_book"
  by (simp add: specs_valid_def)

lemma assess_open_risk_fail_closed_witness:
  "\<exists>a. assess_open_risk [long_position None] eurusd_book 10000 = Inr a \<and> \<not> is_established a"
  using assess_open_risk_fail_closed [OF eurusd_book_valid, of "[long_position None]" 10000]
  by (auto simp: trusted_def)

lemma foldl_add_risk:
  assumes "specs_valid specs" "list_all position_state_valid ps" "0 \<le> r" "rnd r = r"
  shows "r \<le> foldl (add_risk specs) r ps \<and> rnd (foldl (add_risk specs) r ps) = foldl (add_risk specs) r ps"
  using assms(2-4)
proof (induction ps arbitrary: r)
  case (Cons p ps)
  have n: "0 \<le> position_risk specs p" using position_risk_nonneg [OF assms(1)] Cons.prems by simp
  then have "r \<le> add_risk specs r p"
    using decimal_mono(1) [of r r 0 "position_risk specs p"] Cons.prems(3) by (simp add: add_risk_def)
  moreover have "rnd (add_risk specs r p) = add_risk specs r p"
    using Cons.prems(3) by (simp add: add_risk_def dadd_def)
  ultimately show ?case using Cons.IH [of "add_risk specs r p"] Cons.prems by force
qed simp

lemma add_risk_covers:
  assumes "specs_valid specs" "position_state_valid p" "0 \<le> r"
  shows "position_risk specs p \<le> add_risk specs r p"
  using position_risk_nonneg [OF assms(1,2)] assms(3)
    decimal_mono(1) [of 0 r "position_risk specs p" "position_risk specs p"]
  by (auto simp: add_risk_def)

text \<open>
  The measured figure covers the book: when open risk is established, the amount is
  non-negative, the fraction is that amount over equity, and no single position loses more
  at its stop than the amount, whatever the roundings of the running sum. A winning
  position's stop beyond break-even never lowers it.
\<close>

theorem assess_open_risk_covers:
  assumes "specs_valid specs" "list_all position_state_valid positions"
    and "assess_open_risk positions specs equity = Inr a" "is_established a"
    and "p \<in> set positions" "specs (ps_broker_symbol p) = Some spec"
    and "adverse_distance p = Inr d" "0 < d"
  shows "\<exists>amount q. ora_risk_amount a = Some amount \<and> ora_fraction a = Some (ddiv amount equity) \<and>
           realised_risk (ps_volume p) d spec = Inr q \<and> 0 < q \<and> q \<le> amount"
proof -
  have ps: "positions \<noteq> []" using assms(5) by auto
  have tr: "filter (trusted specs) positions = positions"
    using assess_open_risk_fail_closed [OF assms(1,2), of equity] assms(3,4) ps
    by (auto simp: filter_id_conv)
  obtain ls rs where split: "positions = ls @ p # rs" using assms(5) split_list by metis
  have valid: "list_all position_state_valid ls" "position_state_valid p" "list_all position_state_valid rs"
    using assms(2) split by auto
  let ?L = "foldl (add_risk specs) 0 ls" and ?T = "foldl (add_risk specs) 0 positions"
  have L: "0 \<le> ?L" "rnd ?L = ?L" using foldl_add_risk [OF assms(1) valid(1), of 0] by auto
  have a0: "add_risk specs ?L p \<ge> position_risk specs p" by (rule add_risk_covers [OF assms(1) valid(2) L(1)])
  have "0 \<le> add_risk specs ?L p" "rnd (add_risk specs ?L p) = add_risk specs ?L p"
    using a0 position_risk_nonneg [OF assms(1) valid(2)] L(2) by (auto simp: add_risk_def dadd_def)
  then have T: "position_risk specs p \<le> ?T"
    using foldl_add_risk [OF assms(1) valid(3), of "add_risk specs ?L p"] a0 split by auto
  obtain q where q: "realised_risk (ps_volume p) d spec = Inr q" "0 < q"
    using realised_risk_pos [OF specs_validD [OF assms(1,6)] _ assms(8)] valid(2)
    by (metis position_state_valid_def)
  then have "position_risk specs p = q" using assms(6-8) by (simp add: position_risk_def)
  moreover obtain u where "assess_scan specs (0, [], []) positions = Inr (?T, map ps_ticket positions, u)"
    using assess_scan_result [OF assms(1,2), of 0 "[]" "[]"] tr by auto
  ultimately show ?thesis
    using assms(3,4) ps q T
    by (auto simp: assess_open_risk_def is_established_def split: if_splits)
qed

lemma assess_open_risk_covers_witness:
  "\<exists>a amount q. assess_open_risk [long_position (Some (549 / 500))] eurusd_book 10000 = Inr a \<and>
     ora_risk_amount a = Some amount \<and> ora_fraction a = Some (ddiv amount 10000) \<and>
     realised_risk (1 / 4) (1 / 500) eurusd = Inr q \<and> 0 < q \<and> q \<le> amount"
proof -
  let ?p = "long_position (Some (549 / 500))"
  have d: "dsub (11 / 10) (549 / 500) = 1 / 500" by (simp add: dsub_def rnd_exact)
  obtain a where a: "assess_open_risk [?p] eurusd_book 10000 = Inr a" "is_established a"
    using assess_open_risk_fail_closed [OF eurusd_book_valid, of "[?p]" 10000]
    by (auto simp: trusted_def)
  have "\<exists>amount q. ora_risk_amount a = Some amount \<and> ora_fraction a = Some (ddiv amount 10000) \<and>
      realised_risk (ps_volume ?p) (1 / 500) eurusd = Inr q \<and> 0 < q \<and> q \<le> amount"
    by (rule assess_open_risk_covers [OF eurusd_book_valid _ a])
       (simp_all add: d adverse_distance_def)
  with a(1) show ?thesis by auto
qed

end
