(* ===== verification/Structure.thy ===== *)
theory Structure
  imports Sizing
begin

text \<open>
  Market structure, liquidity and imbalance, the causal primitives of the entry model
  (\<^verbatim>\<open>trading_agent/structure.py\<close>, \<^verbatim>\<open>liquidity.py\<close>,
  \<^verbatim>\<open>imbalance.py\<close>). Bars are a list, oldest first; indices into it are naturals.
\<close>

subsection \<open>Swings\<close>

datatype structure_state = BULLISH | BEARISH | UNCLEAR
datatype range_position = PREMIUM | DISCOUNT | EQUILIBRIUM

record swing_point =
  sw_index :: nat
  sw_time :: utc
  sw_price :: decimal
  sw_is_high :: bool

definition is_swing_high :: "bar list \<Rightarrow> nat \<Rightarrow> nat \<Rightarrow> bool" where
  "is_swing_high bars s i \<longleftrightarrow>
     list_all (\<lambda>j. b_high (bars ! j) < b_high (bars ! i)) (filter (\<lambda>j. j \<noteq> i) [i - s..<i + s + 1])"

definition is_swing_low :: "bar list \<Rightarrow> nat \<Rightarrow> nat \<Rightarrow> bool" where
  "is_swing_low bars s i \<longleftrightarrow>
     list_all (\<lambda>j. b_low (bars ! i) < b_low (bars ! j)) (filter (\<lambda>j. j \<noteq> i) [i - s..<i + s + 1])"

definition swing_high_at :: "bar list \<Rightarrow> nat \<Rightarrow> swing_point" where
  "swing_high_at bars i =
     \<lparr>sw_index = i, sw_time = open_time (bars ! i), sw_price = b_high (bars ! i), sw_is_high = True\<rparr>"

definition swing_low_at :: "bar list \<Rightarrow> nat \<Rightarrow> swing_point" where
  "swing_low_at bars i =
     \<lparr>sw_index = i, sw_time = open_time (bars ! i), sw_price = b_low (bars ! i), sw_is_high = False\<rparr>"

definition find_swings :: "bar list \<Rightarrow> int \<Rightarrow> py_exn + swing_point list \<times> swing_point list" where
  "find_swings bars strength =
     (if strength < 1 then Inl ValueError
      else let s = nat strength in
        if length bars < 2 * s + 1 then Inr ([], [])
        else Inr (map (swing_high_at bars) (filter (is_swing_high bars s) [s..<length bars - s]),
                  map (swing_low_at bars) (filter (is_swing_low bars s) [s..<length bars - s])))"

definition classify_state :: "swing_point list \<Rightarrow> swing_point list \<Rightarrow> structure_state" where
  "classify_state highs lows =
     (if length highs < 2 \<or> length lows < 2 then UNCLEAR
      else
        let h1 = sw_price (last highs); h2 = sw_price (highs ! (length highs - 2));
            l1 = sw_price (last lows); l2 = sw_price (lows ! (length lows - 2))
        in if h2 < h1 \<and> l2 < l1 then BULLISH
           else if h1 < h2 \<and> l1 < l2 then BEARISH
           else UNCLEAR)"

text \<open>Swings confirmed before the bar at an index: the \<open>strength\<close> bars after them have printed.\<close>

definition confirmed_before :: "int \<Rightarrow> nat \<Rightarrow> swing_point list \<Rightarrow> swing_point list" where
  "confirmed_before strength index swings =
     filter (\<lambda>sw. int (sw_index sw) + strength < int index) swings"

definition breaks_at :: "bar list \<Rightarrow> swing_point list \<Rightarrow> int \<Rightarrow> bool \<Rightarrow> nat \<Rightarrow> bool" where
  "breaks_at bars swings strength upward index =
     (case last_opt (confirmed_before strength index swings) of
        None \<Rightarrow> False
      | Some sw \<Rightarrow> (upward \<and> sw_price sw < b_close (bars ! index)) \<or>
                  (\<not> upward \<and> b_close (bars ! index) < sw_price sw))"

definition find_break ::
  "bar list \<Rightarrow> swing_point list \<Rightarrow> int \<Rightarrow> int \<Rightarrow> bool \<Rightarrow> nat option" where
  "find_break bars swings lookback strength upward =
     (if lookback \<le> 0 \<or> swings = [] then None
      else let window_start = nat (max 0 (int (length bars) - lookback))
           in find_first (breaks_at bars swings strength upward) (rev [window_start..<length bars]))"

definition state_before ::
  "swing_point list \<Rightarrow> swing_point list \<Rightarrow> nat option \<Rightarrow> int \<Rightarrow> structure_state" where
  "state_before highs lows index strength =
     (case index of
        None \<Rightarrow> UNCLEAR
      | Some i \<Rightarrow> classify_state (confirmed_before strength i highs) (confirmed_before strength i lows))"

record dealing_range =
  dr_low :: decimal
  dr_high :: decimal
  dr_low_time :: utc
  dr_high_time :: utc

definition equilibrium :: "dealing_range \<Rightarrow> decimal" where
  "equilibrium r = ddiv (dadd (dr_low r) (dr_high r)) 2"

definition range_size :: "dealing_range \<Rightarrow> decimal" where
  "range_size r = dsub (dr_high r) (dr_low r)"

definition position_of :: "dealing_range \<Rightarrow> decimal \<Rightarrow> decimal \<Rightarrow> range_position" where
  "position_of r price tolerance =
     (if range_size r \<le> 0 then EQUILIBRIUM
      else let band = dmul (range_size r) tolerance in
        if dadd (equilibrium r) band < price then PREMIUM
        else if price < dsub (equilibrium r) band then DISCOUNT
        else EQUILIBRIUM)"

definition retracement_of :: "dealing_range \<Rightarrow> decimal \<Rightarrow> decimal" where
  "retracement_of r price =
     (if range_size r \<le> 0 then 0 else ddiv (dsub (dr_high r) price) (range_size r))"

record structure_read =
  st_state :: structure_state
  st_swing_highs :: "swing_point list"
  st_swing_lows :: "swing_point list"
  st_dealing_range :: "dealing_range option"
  st_last_swing_high :: "swing_point option"
  st_last_swing_low :: "swing_point option"
  st_broke_structure_up :: bool
  st_broke_structure_down :: bool
  st_shifted_up :: bool
  st_shifted_down :: bool

definition has_shift :: "structure_read \<Rightarrow> bool" where
  "has_shift s \<longleftrightarrow> st_shifted_up s \<or> st_shifted_down s"

definition read_structure :: "bar list \<Rightarrow> int \<Rightarrow> int \<Rightarrow> py_exn + structure_read" where
  "read_structure bars strength shift_lookback =
     mapE (\<lambda>(highs, lows).
       let last_high = last_opt highs; last_low = last_opt lows;
           range = (case (last_high, last_low) of
             (Some h, Some l) \<Rightarrow>
               (if sw_price l < sw_price h
                then Some \<lparr>dr_low = sw_price l, dr_high = sw_price h, dr_low_time = sw_time l,
                           dr_high_time = sw_time h\<rparr>
                else None)
           | _ \<Rightarrow> None);
           break_up = find_break bars highs shift_lookback strength True;
           break_down = find_break bars lows shift_lookback strength False;
           up_prior = state_before highs lows break_up strength;
           down_prior = state_before highs lows break_down strength
       in \<lparr>st_state = classify_state highs lows, st_swing_highs = highs, st_swing_lows = lows,
           st_dealing_range = range, st_last_swing_high = last_high, st_last_swing_low = last_low,
           st_broke_structure_up = (break_up \<noteq> None \<and> up_prior = BULLISH),
           st_broke_structure_down = (break_down \<noteq> None \<and> down_prior = BEARISH),
           st_shifted_up = (break_up \<noteq> None \<and> up_prior \<noteq> BULLISH),
           st_shifted_down = (break_down \<noteq> None \<and> down_prior \<noteq> BEARISH)\<rparr>)
     (find_swings bars strength)"


subsection \<open>Liquidity\<close>

record liquidity_pool =
  lp_price :: decimal
  lp_time :: utc
  lp_is_buy_side :: bool
  lp_touch_count :: nat

record liquidity_sweep =
  ls_direction :: side
  ls_swept_level :: decimal
  ls_extreme :: decimal
  ls_bar_index :: nat
  ls_time :: utc
  ls_closed_back_inside :: bool

definition penetration :: "liquidity_sweep \<Rightarrow> decimal" where
  "penetration s = dabs (dsub (ls_extreme s) (ls_swept_level s))"

text \<open>\<^verbatim>\<open>max(xs, key=f)\<close> on a non-empty list: the first maximal element.\<close>

fun first_max :: "('a \<Rightarrow> 'k :: linorder) \<Rightarrow> 'a \<Rightarrow> 'a list \<Rightarrow> 'a" where
  "first_max f x [] = x"
| "first_max f x (y # ys) = first_max f (if f x < f y then y else x) ys"

definition pool_from :: "swing_point list \<Rightarrow> bool \<Rightarrow> liquidity_pool" where
  "pool_from bucket is_buy_side =
     \<lparr>lp_price = (if is_buy_side then Max (set (map sw_price bucket)) else Min (set (map sw_price bucket))),
      lp_time = sw_time (first_max sw_time (hd bucket) (tl bucket)),
      lp_is_buy_side = is_buy_side, lp_touch_count = length bucket\<rparr>"

fun group_swings ::
  "decimal \<Rightarrow> bool \<Rightarrow> liquidity_pool list \<Rightarrow> swing_point list \<Rightarrow> swing_point list \<Rightarrow> liquidity_pool list" where
  "group_swings tol buy pools bucket [] = pools @ [pool_from bucket buy]"
| "group_swings tol buy pools bucket (sw # rest) =
     (if dabs (dsub (sw_price sw) (sw_price (last bucket))) \<le> tol
      then group_swings tol buy pools (bucket @ [sw]) rest
      else group_swings tol buy (pools @ [pool_from bucket buy]) [sw] rest)"

definition find_liquidity_pools :: "swing_point list \<Rightarrow> bool \<Rightarrow> decimal \<Rightarrow> liquidity_pool list" where
  "find_liquidity_pools swings is_buy_side equality_tolerance =
     (case sort_key sw_price swings of
        [] \<Rightarrow> []
      | first # rest \<Rightarrow> sort_key lp_time (group_swings equality_tolerance is_buy_side [] [first] rest))"

definition touches :: "liquidity_pool \<Rightarrow> bar \<Rightarrow> bool" where
  "touches pool b \<longleftrightarrow> \<not> open_time b \<le> lp_time pool \<and>
     (lp_is_buy_side pool \<and> lp_price pool < b_high b \<or> \<not> lp_is_buy_side pool \<and> b_low b < lp_price pool)"

definition first_touch_index :: "bar list \<Rightarrow> liquidity_pool \<Rightarrow> nat" where
  "first_touch_index bars pool = length (takeWhile (\<lambda>b. \<not> touches pool b) bars)"

definition sweep_candidate :: "bar list \<Rightarrow> nat \<Rightarrow> liquidity_pool \<Rightarrow> liquidity_sweep option" where
  "sweep_candidate bars index pool =
     (let b = bars ! index in
      if open_time b \<le> lp_time pool then None
      else if first_touch_index bars pool < index then None
      else if lp_is_buy_side pool
      then (if b_high b \<le> lp_price pool then None
            else Some \<lparr>ls_direction = SELL, ls_swept_level = lp_price pool, ls_extreme = b_high b,
                       ls_bar_index = index, ls_time = open_time b,
                       ls_closed_back_inside = (b_close b < lp_price pool)\<rparr>)
      else (if lp_price pool \<le> b_low b then None
            else Some \<lparr>ls_direction = BUY, ls_swept_level = lp_price pool, ls_extreme = b_low b,
                       ls_bar_index = index, ls_time = open_time b,
                       ls_closed_back_inside = (lp_price pool < b_close b)\<rparr>))"

definition sweep_step ::
  "bar list \<Rightarrow> decimal \<Rightarrow> bool \<Rightarrow> liquidity_sweep option \<Rightarrow> nat \<times> liquidity_pool \<Rightarrow> liquidity_sweep option" where
  "sweep_step bars min_penetration require_close best ip =
     (case sweep_candidate bars (fst ip) (snd ip) of
        None \<Rightarrow> best
      | Some candidate \<Rightarrow>
          if require_close \<and> \<not> ls_closed_back_inside candidate then best
          else if penetration candidate < min_penetration then best
          else (case best of
                  None \<Rightarrow> Some candidate
                | Some b \<Rightarrow> if penetration b < penetration candidate then Some candidate else best))"

definition sweep_pairs :: "bar list \<Rightarrow> liquidity_pool list \<Rightarrow> int \<Rightarrow> (nat \<times> liquidity_pool) list" where
  "sweep_pairs bars pools lookback =
     concat (map (\<lambda>i. map (Pair i) pools) [nat (max 0 (int (length bars) - lookback))..<length bars])"

definition detect_sweep ::
  "bar list \<Rightarrow> liquidity_pool list \<Rightarrow> int \<Rightarrow> decimal \<Rightarrow> bool \<Rightarrow> liquidity_sweep option" where
  "detect_sweep bars pools lookback min_penetration require_close =
     (if bars = [] \<or> pools = [] then None
      else foldl (sweep_step bars min_penetration require_close) None (sweep_pairs bars pools lookback))"

definition nearest_target :: "liquidity_pool list \<Rightarrow> decimal \<Rightarrow> side \<Rightarrow> decimal option" where
  "nearest_target pools from_price direction =
     (if direction = BUY
      then (let above = filter (\<lambda>p. from_price < p) (map lp_price pools)
            in if above = [] then None else Some (Min (set above)))
      else (let below = filter (\<lambda>p. p < from_price) (map lp_price pools)
            in if below = [] then None else Some (Max (set below))))"


subsection \<open>Imbalance\<close>

record fair_value_gap =
  fv_direction :: side
  fv_lower :: decimal
  fv_upper :: decimal
  fv_created_index :: nat
  fv_created_at :: utc
  fv_displacement_ratio :: decimal

definition gap_contains :: "fair_value_gap \<Rightarrow> decimal \<Rightarrow> bool" where
  "gap_contains g price \<longleftrightarrow> fv_lower g \<le> price \<and> price \<le> fv_upper g"

definition is_mitigated_by :: "fair_value_gap \<Rightarrow> bar list \<Rightarrow> bool" where
  "is_mitigated_by g bars =
     list_ex (\<lambda>b. fv_direction g = BUY \<and> b_low b \<le> fv_lower g \<or>
                  fv_direction g = SELL \<and> fv_upper g \<le> b_high b) bars"

record order_block =
  ob_direction :: side
  ob_low :: decimal
  ob_high :: decimal
  ob_index :: nat
  ob_time :: utc

definition true_range :: "bar \<times> bar \<Rightarrow> decimal" where
  "true_range pc = (case pc of (previous, current) \<Rightarrow>
     max (max (dsub (b_high current) (b_low current))
              (dabs (dsub (b_high current) (b_close previous))))
         (dabs (dsub (b_low current) (b_close previous))))"

definition average_true_range :: "bar list \<Rightarrow> nat \<Rightarrow> decimal" where
  "average_true_range bars period =
     (if length bars < period + 1 then 0
      else let ranges = map true_range (pairwise (last_n (period + 1) bars))
           in ddiv (dsum ranges) (of_nat (length ranges)))"

definition gap_at :: "bar list \<Rightarrow> decimal \<Rightarrow> decimal \<Rightarrow> nat \<Rightarrow> fair_value_gap option" where
  "gap_at bars atr min_ratio i =
     (let first = bars ! (i - 2); middle = bars ! (i - 1); third = bars ! i;
          ratio = ddiv (dsub (b_high middle) (b_low middle)) atr
      in if ratio < min_ratio then None
         else if b_high first < b_low third
         then Some \<lparr>fv_direction = BUY, fv_lower = b_high first, fv_upper = b_low third,
                    fv_created_index = i, fv_created_at = open_time third, fv_displacement_ratio = ratio\<rparr>
         else if b_high third < b_low first
         then Some \<lparr>fv_direction = SELL, fv_lower = b_high third, fv_upper = b_low first,
                    fv_created_index = i, fv_created_at = open_time third, fv_displacement_ratio = ratio\<rparr>
         else None)"

definition find_fair_value_gaps ::
  "bar list \<Rightarrow> decimal \<Rightarrow> nat \<Rightarrow> int \<Rightarrow> bool \<Rightarrow> fair_value_gap list" where
  "find_fair_value_gaps bars min_ratio atr_period max_age_bars include_mitigated =
     (let atr = average_true_range bars atr_period in
      if atr \<le> 0 \<or> length bars < 3 then []
      else filter (\<lambda>g. include_mitigated \<or> \<not> is_mitigated_by g (drop (fv_created_index g + 1) bars))
             (List.map_filter (gap_at bars atr min_ratio)
                [nat (max 2 (int (length bars) - max_age_bars))..<length bars]))"

definition find_order_block :: "bar list \<Rightarrow> nat \<Rightarrow> side \<Rightarrow> nat \<Rightarrow> order_block option" where
  "find_order_block bars displacement_index direction max_lookback =
     (if \<not> displacement_index < length bars then None
      else map_option (\<lambda>i. \<lparr>ob_direction = direction, ob_low = b_low (bars ! i), ob_high = b_high (bars ! i),
                            ob_index = i, ob_time = open_time (bars ! i)\<rparr>)
        (find_first (\<lambda>i. direction = BUY \<and> b_close (bars ! i) < b_open (bars ! i) \<or>
                         direction = SELL \<and> b_open (bars ! i) < b_close (bars ! i))
           (rev [displacement_index - max_lookback..<displacement_index])))"


subsection \<open>Causality\<close>

lemma swing_append:
  assumes "i + s < length bars"
  shows "is_swing_high (bars @ later) s i = is_swing_high bars s i"
    "is_swing_low (bars @ later) s i = is_swing_low bars s i"
    "swing_high_at (bars @ later) i = swing_high_at bars i" "swing_low_at (bars @ later) i = swing_low_at bars i"
proof -
  have *: "(bars @ later) ! j = bars ! j" if "j < i + s + 1" for j
    using that assms by (simp add: nth_append)
  then show "is_swing_high (bars @ later) s i = is_swing_high bars s i"
    "is_swing_low (bars @ later) s i = is_swing_low bars s i"
    "swing_high_at (bars @ later) i = swing_high_at bars i" "swing_low_at (bars @ later) i = swing_low_at bars i"
    by (auto simp: is_swing_high_def is_swing_low_def swing_high_at_def swing_low_at_def list_all_iff)
qed

lemma map_filter_prefix:
  assumes "\<And>i. i < n \<Longrightarrow> P i = Q i" "\<And>i. i < n \<Longrightarrow> f i = g i" "n \<le> m"
  shows "\<exists>zs. map g (filter Q [k..<m]) = map f (filter P [k..<n]) @ zs"
proof (cases "k \<le> n")
  case True
  then have split: "[k..<m] = [k..<n] @ [n..<m]" using assms(3) by (metis le_add_diff_inverse upt_add_eq_append)
  have "map g (filter Q [k..<n]) = map f (filter P [k..<n])"
    using assms(1,2) by (auto intro!: map_cong filter_cong)
  then show ?thesis unfolding split by simp
next
  case False
  then show ?thesis by simp
qed

text \<open>
  Swings never repaint: whatever bars arrive later, every swing high and swing low found
  before is found again, unchanged and in the same order, with the new ones after it.
\<close>

theorem swings_never_repaint:
  assumes "find_swings bars strength = Inr (highs, lows)"
  shows "\<exists>highs' lows'. find_swings (bars @ later) strength = Inr (highs @ highs', lows @ lows')"
proof -
  define s where "s = nat strength"
  have s: "\<not> strength < 1" using assms by (auto simp: find_swings_def split: if_splits)
  show ?thesis
  proof (cases "length bars < 2 * s + 1")
    case True
    with assms s have "highs = []" "lows = []" by (auto simp: find_swings_def s_def Let_def)
    with s show ?thesis by (simp add: find_swings_def Let_def)
  next
    case False
    let ?n = "length bars - s" and ?m = "length (bars @ later) - s"
    have eq: "is_swing_high bars s i = is_swing_high (bars @ later) s i"
      "is_swing_low bars s i = is_swing_low (bars @ later) s i"
      "swing_high_at bars i = swing_high_at (bars @ later) i" "swing_low_at bars i = swing_low_at (bars @ later) i"
      if "i < ?n" for i
      using swing_append [of i s bars later] that by auto
    have "\<exists>hs. map (swing_high_at (bars @ later)) (filter (is_swing_high (bars @ later) s) [s..<?m]) =
        map (swing_high_at bars) (filter (is_swing_high bars s) [s..<?n]) @ hs"
      by (rule map_filter_prefix) (simp_all add: eq)
    moreover have "\<exists>ls. map (swing_low_at (bars @ later)) (filter (is_swing_low (bars @ later) s) [s..<?m]) =
        map (swing_low_at bars) (filter (is_swing_low bars s) [s..<?n]) @ ls"
      by (rule map_filter_prefix) (simp_all add: eq)
    ultimately show ?thesis
      using assms s False by (fastforce simp: find_swings_def s_def [symmetric] Let_def)
  qed
qed

definition tick_bar :: "utc \<Rightarrow> decimal \<Rightarrow> decimal \<Rightarrow> bar" where
  "tick_bar t lo hi =
     \<lparr>open_time = t, b_open = lo, b_high = hi, b_low = lo, b_close = hi, b_tick_volume = 1,
      b_real_volume = None, b_spread_points = None\<rparr>"

lemma swings_never_repaint_witness:
  "\<exists>hs ls. find_swings ([tick_bar 0 1 2, tick_bar 1 2 3, tick_bar 2 1 2] @ [tick_bar 3 5 6]) 1 =
     Inr (swing_high_at [tick_bar 0 1 2, tick_bar 1 2 3, tick_bar 2 1 2] 1 # hs, ls)"
proof -
  let ?bars = "[tick_bar 0 1 2, tick_bar 1 2 3, tick_bar 2 1 2]"
  have "find_swings ?bars 1 = Inr ([swing_high_at ?bars 1], [])"
    by (simp add: find_swings_def Let_def is_swing_high_def is_swing_low_def tick_bar_def upt_rec)
  from swings_never_repaint [OF this, of "[tick_bar 3 5 6]"] show ?thesis by auto
qed


subsection \<open>Pools and sweeps\<close>

lemma group_swings_count:
  "sum_list (map lp_touch_count (group_swings tol buy pools bucket sws)) =
     sum_list (map lp_touch_count pools) + length bucket + length sws"
  by (induction tol buy pools bucket sws rule: group_swings.induct) (simp_all add: pool_from_def)

lemma sum_list_sort_key: "sum_list (map f (sort_key k xs)) = (sum_list (map f xs) :: nat)"
  by (metis mset_map mset_sort sum_mset_sum_list)

lemma pool_from_price: "bucket \<noteq> [] \<Longrightarrow> lp_price (pool_from bucket buy) \<in> sw_price ` set bucket"
  using Max_in [of "sw_price ` set bucket"] Min_in [of "sw_price ` set bucket"] by (auto simp: pool_from_def)

lemma group_swings_price:
  "bucket \<noteq> [] \<Longrightarrow> p \<in> set (group_swings tol buy pools bucket sws) \<Longrightarrow>
     p \<in> set pools \<or> (lp_is_buy_side p = buy \<and> lp_price p \<in> sw_price ` (set bucket \<union> set sws))"
proof (induction tol buy pools bucket sws rule: group_swings.induct)
  case (1 tol buy pools bucket)
  then have "lp_price (pool_from bucket buy) \<in> sw_price ` set bucket" by (intro pool_from_price)
  with 1 show ?case by (auto simp: pool_from_def)
next
  case (2 tol buy pools bucket sw rest)
  then have mm: "lp_price (pool_from bucket buy) \<in> sw_price ` set bucket" by (intro pool_from_price)
  show ?case
  proof (cases "dabs (dsub (sw_price sw) (sw_price (last bucket))) \<le> tol")
    case True
    with "2.prems" "2.IH"(1) show ?thesis by auto
  next
    case False
    with "2.prems" "2.IH"(2) mm show ?thesis by (auto simp: pool_from_def)
  qed
qed

text \<open>
  Grouping swings into pools loses none and invents none: the touch counts add up to the
  number of swings, and every pool sits at the price of one of them, on the side asked for.
\<close>

theorem pools_conserve_swings:
  "sum_list (map lp_touch_count (find_liquidity_pools swings buy tol)) = length swings \<and>
   (\<forall>p \<in> set (find_liquidity_pools swings buy tol). lp_is_buy_side p = buy \<and> lp_price p \<in> sw_price ` set swings)"
proof (cases "sort_key sw_price swings")
  case Nil
  then have "swings = []" by (metis length_0_conv length_sort)
  with Nil show ?thesis by (simp add: find_liquidity_pools_def)
next
  case (Cons f rest)
  then have len: "length swings = Suc (length rest)" and set: "set swings = insert f (set rest)"
    by (metis length_Cons length_sort) (metis Cons list.simps(15) set_sort)
  show ?thesis
    using group_swings_price [of "[f]" _ tol buy "[]" rest]
    by (auto simp: find_liquidity_pools_def Cons sum_list_sort_key group_swings_count len set)
qed

lemma pools_conserve_swings_witness:
  "\<forall>p \<in> set (find_liquidity_pools [swing_high_at [tick_bar 0 1 2] 0] True (1 / 5000)). lp_price p = 2"
  using pools_conserve_swings [of "[swing_high_at [tick_bar 0 1 2] 0]" True "1 / 5000"]
  by (simp add: swing_high_at_def tick_bar_def)

lemma sweep_fold:
  assumes "foldl (sweep_step bars mp rc) best ips = Some s"
  shows "(best = Some s \<or> (\<exists>ip \<in> set ips. sweep_candidate bars (fst ip) (snd ip) = Some s \<and>
            (rc \<longrightarrow> ls_closed_back_inside s) \<and> mp \<le> penetration s)) \<and>
         (\<forall>b. best = Some b \<longrightarrow> penetration b \<le> penetration s) \<and>
         (\<forall>ip \<in> set ips. \<forall>c. sweep_candidate bars (fst ip) (snd ip) = Some c \<longrightarrow>
            (rc \<longrightarrow> ls_closed_back_inside c) \<longrightarrow> mp \<le> penetration c \<longrightarrow> penetration c \<le> penetration s)"
  using assms
proof (induction ips arbitrary: best)
  case (Cons ip ips)
  let ?b = "sweep_step bars mp rc best ip"
  note IH = Cons.IH [of ?b, OF Cons.prems [unfolded foldl.simps]]
  have step: "?b = best \<or> (\<exists>c. ?b = Some c \<and> sweep_candidate bars (fst ip) (snd ip) = Some c \<and>
      (rc \<longrightarrow> ls_closed_back_inside c) \<and> mp \<le> penetration c)"
    by (auto simp: sweep_step_def not_less split: option.split)
  have mono: "\<exists>b'. ?b = Some b' \<and> penetration b \<le> penetration b'" if "best = Some b" for b
    using that by (auto simp: sweep_step_def not_less split: option.split)
  have cand: "\<exists>b'. ?b = Some b' \<and> penetration c \<le> penetration b'"
    if "sweep_candidate bars (fst ip) (snd ip) = Some c" "rc \<longrightarrow> ls_closed_back_inside c" "mp \<le> penetration c" for c
    using that by (auto simp: sweep_step_def not_less split: option.split)
  from IH step have 1: "best = Some s \<or> (\<exists>ip' \<in> set (ip # ips). sweep_candidate bars (fst ip') (snd ip') = Some s \<and>
            (rc \<longrightarrow> ls_closed_back_inside s) \<and> mp \<le> penetration s)" by auto
  have 2: "penetration b \<le> penetration s" if "best = Some b" for b
    using mono [OF that] IH by (meson order_trans)
  have 3: "penetration c \<le> penetration s"
    if "ip' \<in> set (ip # ips)" "sweep_candidate bars (fst ip') (snd ip') = Some c" "rc \<longrightarrow> ls_closed_back_inside c"
      "mp \<le> penetration c" for ip' c
  proof (cases "ip' = ip")
    case True
    with cand that IH show ?thesis by (meson order_trans)
  next
    case False
    with that IH show ?thesis by auto
  qed
  from 1 2 3 show ?case by blast
qed simp

lemma sweep_pairs_iff:
  "(i, p) \<in> set (sweep_pairs bars pools lookback) \<longleftrightarrow>
     p \<in> set pools \<and> int (length bars) - lookback \<le> int i \<and> i < length bars"
  by (auto simp: sweep_pairs_def)

lemma untouched_before:
  "\<not> first_touch_index bars pool < i \<Longrightarrow> j < i \<Longrightarrow> j < length bars \<Longrightarrow> \<not> touches pool (bars ! j)"
  unfolding first_touch_index_def
  by (metis not_less nth_mem order_less_le_trans set_takeWhileD takeWhile_nth)

text \<open>
  What a detected sweep is: a bar inside the lookback window that traded through the
  level of a pool formed before it, no earlier bar after the pool having traded through it,
  and, when asked for, closed back on the original side; its direction opposes the side
  taken, it reaches at least the minimum depth, and no other qualifying bar and pool in the
  window reaches deeper.
\<close>

theorem detect_sweep_sound:
  assumes "detect_sweep bars pools lookback mp rc = Some s"
  shows "(\<exists>pool \<in> set pools. ls_bar_index s < length bars \<and>
            int (length bars) - lookback \<le> int (ls_bar_index s) \<and>
            touches pool (bars ! ls_bar_index s) \<and>
            (\<forall>j < ls_bar_index s. \<not> touches pool (bars ! j)) \<and>
            ls_swept_level s = lp_price pool \<and> ls_direction s = (if lp_is_buy_side pool then SELL else BUY) \<and>
            (rc \<longrightarrow> (if lp_is_buy_side pool then b_close (bars ! ls_bar_index s) < lp_price pool
                    else lp_price pool < b_close (bars ! ls_bar_index s)))) \<and>
         mp \<le> penetration s \<and>
         (\<forall>i pool c. pool \<in> set pools \<and> i < length bars \<and> int (length bars) - lookback \<le> int i \<and>
            sweep_candidate bars i pool = Some c \<and> (rc \<longrightarrow> ls_closed_back_inside c) \<and> mp \<le> penetration c \<longrightarrow>
            penetration c \<le> penetration s)"
proof -
  have "foldl (sweep_step bars mp rc) None (sweep_pairs bars pools lookback) = Some s"
    using assms by (auto simp: detect_sweep_def split: if_splits)
  note f = sweep_fold [OF this]
  then obtain i pool where ip: "(i, pool) \<in> set (sweep_pairs bars pools lookback)"
      "sweep_candidate bars i pool = Some s" "rc \<longrightarrow> ls_closed_back_inside s" "mp \<le> penetration s"
    by auto
  have i: "pool \<in> set pools" "i < length bars" "int (length bars) - lookback \<le> int i"
    using ip(1) by (auto simp: sweep_pairs_iff)
  have idx: "ls_bar_index s = i" and ft: "\<not> first_touch_index bars pool < i"
    using ip(2) by (auto simp: sweep_candidate_def Let_def split: if_splits)
  have body: "touches pool (bars ! i)" "ls_swept_level s = lp_price pool"
    "ls_direction s = (if lp_is_buy_side pool then SELL else BUY)"
    "rc \<longrightarrow> (if lp_is_buy_side pool then b_close (bars ! i) < lp_price pool else lp_price pool < b_close (bars ! i))"
    using ip(2,3) by (auto simp: sweep_candidate_def touches_def Let_def split: if_splits)
  have "\<forall>j < i. \<not> touches pool (bars ! j)" using untouched_before [OF ft] i(2) by auto
  then have "\<exists>pool \<in> set pools. ls_bar_index s < length bars \<and>
            int (length bars) - lookback \<le> int (ls_bar_index s) \<and>
            touches pool (bars ! ls_bar_index s) \<and>
            (\<forall>j < ls_bar_index s. \<not> touches pool (bars ! j)) \<and>
            ls_swept_level s = lp_price pool \<and> ls_direction s = (if lp_is_buy_side pool then SELL else BUY) \<and>
            (rc \<longrightarrow> (if lp_is_buy_side pool then b_close (bars ! ls_bar_index s) < lp_price pool
                    else lp_price pool < b_close (bars ! ls_bar_index s)))"
    unfolding idx using i body by (intro bexI [of _ pool] conjI) assumption+
  moreover have "penetration c \<le> penetration s"
    if "pool \<in> set pools \<and> i < length bars \<and> int (length bars) - lookback \<le> int i \<and>
        sweep_candidate bars i pool = Some c \<and> (rc \<longrightarrow> ls_closed_back_inside c) \<and> mp \<le> penetration c" for i pool c
  proof -
    from that have "(i, pool) \<in> set (sweep_pairs bars pools lookback)" by (simp add: sweep_pairs_iff)
    with f that show ?thesis by fastforce
  qed
  ultimately show ?thesis using ip(4) by blast
qed

text \<open>A bar through a pool's level closing back under it, after a quiet one.\<close>

definition sample_pool :: liquidity_pool where
  "sample_pool = \<lparr>lp_price = 2, lp_time = 0, lp_is_buy_side = True, lp_touch_count = 1\<rparr>"

lemma detect_sweep_sound_witness:
  "\<exists>s. detect_sweep [tick_bar 1 1 2, (tick_bar 2 1 3)\<lparr>b_close := 1\<rparr>] [sample_pool] 2 1 True = Some s \<and>
     1 \<le> penetration s \<and> ls_bar_index s < 2"
proof -
  let ?bars = "[tick_bar 1 1 2, (tick_bar 2 1 3)\<lparr>b_close := 1\<rparr>]"
  have "detect_sweep ?bars [sample_pool] 2 1 True =
      Some \<lparr>ls_direction = SELL, ls_swept_level = 2, ls_extreme = 3, ls_bar_index = 1, ls_time = 2,
             ls_closed_back_inside = True\<rparr>"
    by (simp add: detect_sweep_def sweep_pairs_def sweep_step_def sweep_candidate_def first_touch_index_def
        touches_def sample_pool_def tick_bar_def upt_rec penetration_def decimal_eval)
  from this detect_sweep_sound [OF this] show ?thesis by simp
qed


subsection \<open>Gaps\<close>

lemma gap_at_sound:
  assumes "gap_at bars atr ratio i = Some g"
  shows "fv_created_index g = i \<and> fv_lower g < fv_upper g \<and> ratio \<le> fv_displacement_ratio g \<and>
    (if fv_direction g = BUY
     then fv_lower g = b_high (bars ! (i - 2)) \<and> fv_upper g = b_low (bars ! i)
     else fv_lower g = b_high (bars ! i) \<and> fv_upper g = b_low (bars ! (i - 2)))"
  using assms by (auto simp: gap_at_def Let_def split: if_splits)

text \<open>
  What a reported gap is: three bars inside the age window whose outer two leave a real
  interval between them on the gap's side, whose middle bar is at least the required multiple
  of the average true range, and which, unless mitigated gaps are asked for, no later bar has
  traded back through; what arrives later can only remove it by mitigation or age.
\<close>

theorem fair_value_gap_sound:
  assumes "g \<in> set (find_fair_value_gaps bars min_ratio atr_period max_age mitigated)"
  shows "0 < average_true_range bars atr_period \<and>
    2 \<le> fv_created_index g \<and> fv_created_index g < length bars \<and>
    int (length bars) - max_age \<le> int (fv_created_index g) \<and>
    fv_lower g < fv_upper g \<and> min_ratio \<le> fv_displacement_ratio g \<and>
    (if fv_direction g = BUY
     then fv_lower g = b_high (bars ! (fv_created_index g - 2)) \<and> fv_upper g = b_low (bars ! fv_created_index g)
     else fv_lower g = b_high (bars ! fv_created_index g) \<and> fv_upper g = b_low (bars ! (fv_created_index g - 2))) \<and>
    (\<not> mitigated \<longrightarrow> (\<forall>k. fv_created_index g < k \<and> k < length bars \<longrightarrow>
       (if fv_direction g = BUY then fv_lower g < b_low (bars ! k) else b_high (bars ! k) < fv_upper g)))"
proof -
  from assms have atr: "0 < average_true_range bars atr_period"
    and mit: "mitigated \<or> \<not> is_mitigated_by g (drop (fv_created_index g + 1) bars)"
    by (auto simp: find_fair_value_gaps_def Let_def split: if_splits)
  from assms obtain i where i: "gap_at bars (average_true_range bars atr_period) min_ratio i = Some g"
      "i < length bars" "2 \<le> i" "int (length bars) - max_age \<le> int i"
    by (auto simp: find_fair_value_gaps_def Let_def map_filter_def split: if_splits)
  note sound = gap_at_sound [OF i(1)]
  have dir: "fv_direction g \<noteq> FLAT" using i(1) by (auto simp: gap_at_def Let_def split: if_splits)
  have "if fv_direction g = BUY then fv_lower g < b_low (bars ! k) else b_high (bars ! k) < fv_upper g"
    if "\<not> mitigated" "fv_created_index g < k" "k < length bars" for k
  proof -
    have "drop (fv_created_index g + 1) bars ! (k - (fv_created_index g + 1)) = bars ! k"
      using that by (simp add: nth_drop)
    then have "bars ! k \<in> set (drop (fv_created_index g + 1) bars)"
      using that nth_mem [of "k - (fv_created_index g + 1)" "drop (fv_created_index g + 1) bars"] by simp
    with mit that(1) dir show ?thesis
      by (cases "fv_direction g") (auto simp: is_mitigated_by_def list_ex_iff not_le)
  qed
  with atr sound i show ?thesis by auto
qed

lemma fair_value_gap_sound_witness:
  "\<exists>g \<in> set (find_fair_value_gaps [tick_bar 0 1 2, tick_bar 1 2 4, tick_bar 2 3 4] 1 1 10 False).
     fv_direction g = BUY \<and> fv_lower g = 2 \<and> fv_upper g = 3 \<and> fv_lower g < fv_upper g"
proof -
  let ?bars = "[tick_bar 0 1 2, tick_bar 1 2 4, tick_bar 2 3 4]"
  let ?g = "\<lparr>fv_direction = BUY, fv_lower = 2, fv_upper = 3, fv_created_index = 2, fv_created_at = 2,
              fv_displacement_ratio = 2\<rparr>"
  have "average_true_range ?bars 1 = 1"
    by (simp add: average_true_range_def true_range_def tick_bar_def decimal_eval last_n_def dsum_def)
  then have g: "?g \<in> set (find_fair_value_gaps ?bars 1 1 10 False)"
    by (simp add: find_fair_value_gaps_def gap_at_def tick_bar_def decimal_eval upt_rec map_filter_def
        is_mitigated_by_def)
  show ?thesis
    using fair_value_gap_sound [OF g] g by (intro bexI [of _ ?g]) simp_all
qed

end
