(* ===== verification/Sessions.thy ===== *)
theory Sessions
  imports Models
begin

text \<open>
  The trading week (\<^verbatim>\<open>trading_agent/sessions.py\<close>), asset-class calendars
  (\<^verbatim>\<open>risk/calendars.py\<close>) and the weekly session policy
  (\<^verbatim>\<open>risk/trading_window.py\<close>).

  A UTC instant and a naive local time are microseconds since the epoch; a date is a day
  number. \<^verbatim>\<open>ZoneInfo("America/New_York")\<close> is data of the time zone database: the
  parameter \<open>dst\<close> says, for each week counted from Sunday 07:00 UTC, whether daylight
  saving is in force during it. The clock change itself is the zone's rule, at 02:00 local
  time on a Sunday: in the hour from 06:00 to 07:00 UTC of a Sunday the zone is on summer
  time only if it is before and after. Reading a local time back follows
  \<^verbatim>\<open>fold=0\<close>.
\<close>

abbreviation US_HOUR :: int where "US_HOUR \<equiv> 3600000000"
abbreviation US_DAY :: int where "US_DAY \<equiv> 86400000000"
abbreviation US_WEEK :: int where "US_WEEK \<equiv> 604800000000"

type_synonym zone_data = "int \<Rightarrow> bool"


subsection \<open>Dates and the New York clock\<close>

definition local_date :: "int \<Rightarrow> int" where
  "local_date w = w div US_DAY"

definition local_time :: "int \<Rightarrow> int" where
  "local_time w = w mod US_DAY"

definition local_hour :: "int \<Rightarrow> int" where
  "local_hour w = local_time w div US_HOUR"

definition weekday :: "int \<Rightarrow> int" where
  \<comment> \<open>\<^verbatim>\<open>date.weekday()\<close>, Monday 0; day 0 is Thursday 1 January 1970\<close>
  "weekday d = (d + 3) mod 7"

definition tz_week :: "utc \<Rightarrow> int" where
  \<comment> \<open>weeks from Sunday 4 January 1970, 07:00 UTC\<close>
  "tz_week t = (t - 3 * US_DAY - 7 * US_HOUR) div US_WEEK"

definition ny_offset :: "zone_data \<Rightarrow> utc \<Rightarrow> int" where
  "ny_offset dst t =
     (if dst (tz_week t) \<and> dst (tz_week (t + US_HOUR)) then - 4 * US_HOUR else - 5 * US_HOUR)"

definition to_new_york :: "zone_data \<Rightarrow> utc \<Rightarrow> int" where
  "to_new_york dst t = t + ny_offset dst t"

definition from_new_york :: "zone_data \<Rightarrow> int \<Rightarrow> utc" where
  "from_new_york dst w =
     (if ny_offset dst (w + 4 * US_HOUR) = - 4 * US_HOUR then w + 4 * US_HOUR else w + 5 * US_HOUR)"

definition london_week :: "utc \<Rightarrow> int" where
  \<comment> \<open>weeks from Sunday, 01:00 UTC, when London changes its clocks\<close>
  "london_week t = (t - 3 * US_DAY - US_HOUR) div US_WEEK"

definition to_london :: "zone_data \<Rightarrow> utc \<Rightarrow> int" where
  "to_london dst t = t + (if dst (london_week t) then US_HOUR else 0)"


subsection \<open>Killzones\<close>

datatype killzone = ASIAN_RANGE | LONDON_OPEN | NEW_YORK_AM | LONDON_CLOSE | KZ_NONE

record killzone_window =
  kw_zone :: killzone
  kw_start :: int
  kw_end :: int

definition kw_contains :: "killzone_window \<Rightarrow> int \<Rightarrow> bool" where
  "kw_contains w t \<longleftrightarrow> kw_start w \<le> t \<and> t < kw_end w"

definition clock :: "int \<Rightarrow> int \<Rightarrow> int \<Rightarrow> int" where
  "clock h m s = ((h * 60 + m) * 60 + s) * 1000000"

definition DEFAULT_WINDOWS :: "killzone_window list" where
  "DEFAULT_WINDOWS =
     [\<lparr>kw_zone = ASIAN_RANGE, kw_start = clock 20 0 0, kw_end = clock 23 59 59\<rparr>,
      \<lparr>kw_zone = ASIAN_RANGE, kw_start = clock 0 0 0, kw_end = clock 2 0 0\<rparr>,
      \<lparr>kw_zone = LONDON_OPEN, kw_start = clock 2 0 0, kw_end = clock 5 0 0\<rparr>,
      \<lparr>kw_zone = NEW_YORK_AM, kw_start = clock 7 0 0, kw_end = clock 10 0 0\<rparr>,
      \<lparr>kw_zone = LONDON_CLOSE, kw_start = clock 10 0 0, kw_end = clock 12 0 0\<rparr>]"

definition TRADING_KILLZONES :: "killzone set" where
  "TRADING_KILLZONES = {LONDON_OPEN, NEW_YORK_AM}"

definition killzone_at_windows :: "killzone_window list \<Rightarrow> int \<Rightarrow> killzone" where
  "killzone_at_windows windows t =
     (case find_first (\<lambda>w. kw_contains w t) windows of None \<Rightarrow> KZ_NONE | Some w \<Rightarrow> kw_zone w)"

definition killzone_at :: "zone_data \<Rightarrow> utc \<Rightarrow> killzone" where
  "killzone_at dst moment = killzone_at_windows DEFAULT_WINDOWS (local_time (to_new_york dst moment))"


subsection \<open>The trading week\<close>

definition WEEK_OPEN_HOUR_ET :: int where "WEEK_OPEN_HOUR_ET = 17"
definition WEEK_CLOSE_HOUR_ET :: int where "WEEK_CLOSE_HOUR_ET = 17"

definition is_market_open :: "zone_data \<Rightarrow> utc \<Rightarrow> bool" where
  "is_market_open dst moment =
     (let l = to_new_york dst moment;
          wd = weekday (local_date l);
          saturday = (wd = 5);
          after_friday_close = (wd = 4 \<and> WEEK_CLOSE_HOUR_ET \<le> local_hour l);
          before_sunday_open = (wd = 6 \<and> local_hour l < WEEK_OPEN_HOUR_ET)
      in \<not> (saturday \<or> after_friday_close \<or> before_sunday_open))"

definition trading_day :: "zone_data \<Rightarrow> utc \<Rightarrow> int" where
  "trading_day dst moment =
     (let l = to_new_york dst moment in
      if \<not> is_market_open dst moment
      then local_date (l + ((7 - weekday (local_date l)) mod 7) * US_DAY)
      else if WEEK_CLOSE_HOUR_ET \<le> local_hour l then local_date (l + US_DAY)
      else local_date l)"

definition weekly_close :: "zone_data \<Rightarrow> utc \<Rightarrow> utc" where
  "weekly_close dst moment =
     (let day = trading_day dst moment;
          monday = day - weekday day;
          friday = monday + 4
      in from_new_york dst (friday * US_DAY + clock WEEK_CLOSE_HOUR_ET 0 0))"

definition london_local_hour :: "zone_data \<Rightarrow> utc \<Rightarrow> int" where
  "london_local_hour dst moment = local_hour (to_london dst moment)"

definition new_york_local_hour :: "zone_data \<Rightarrow> utc \<Rightarrow> int" where
  "new_york_local_hour dst moment = local_hour (to_new_york dst moment)"


subsection \<open>The Friday closes\<close>

text \<open>
  Every weekly close is one of the instants \<open>friday_close dst k\<close>, 17:00 New York time on
  the \<open>k\<close>-th Friday. The lemmas place an instant and its local reading in the same gap
  between two consecutive closes, whatever the daylight-saving data says.
\<close>

definition friday_wall :: "int \<Rightarrow> int" where
  "friday_wall k = (7 * k + 1) * US_DAY + 17 * US_HOUR"

definition friday_close :: "zone_data \<Rightarrow> int \<Rightarrow> utc" where
  "friday_close dst k = from_new_york dst (friday_wall k)"

lemma tz_week_bounds:
  "tz_week t * US_WEEK + 3 * US_DAY + 7 * US_HOUR \<le> t"
  "t < (tz_week t + 1) * US_WEEK + 3 * US_DAY + 7 * US_HOUR"
proof -
  let ?s = "t - 3 * US_DAY - 7 * US_HOUR"
  have "tz_week t * US_WEEK + ?s mod US_WEEK = ?s" unfolding tz_week_def by (rule div_mult_mod_eq)
  moreover have "0 \<le> ?s mod US_WEEK" "?s mod US_WEEK < US_WEEK" by simp_all
  ultimately have "tz_week t * US_WEEK \<le> ?s" "?s < tz_week t * US_WEEK + US_WEEK" by linarith+
  then show "tz_week t * US_WEEK + 3 * US_DAY + 7 * US_HOUR \<le> t"
    "t < (tz_week t + 1) * US_WEEK + 3 * US_DAY + 7 * US_HOUR" by (simp_all add: algebra_simps)
qed

lemma tz_week_unique:
  assumes "k * US_WEEK + 3 * US_DAY + 7 * US_HOUR \<le> t"
    and "t < (k + 1) * US_WEEK + 3 * US_DAY + 7 * US_HOUR"
  shows "tz_week t = k"
proof -
  have "k * US_WEEK < (tz_week t + 1) * US_WEEK" "tz_week t * US_WEEK < (k + 1) * US_WEEK"
    using assms tz_week_bounds [of t] by linarith+
  then have "k < tz_week t + 1" "tz_week t < k + 1" by simp_all
  then show ?thesis by linarith
qed

lemma ny_offset_cases: "ny_offset dst t = - 4 * US_HOUR \<or> ny_offset dst t = - 5 * US_HOUR"
  by (simp add: ny_offset_def)

lemma ny_offset_inside_week:
  assumes "k * US_WEEK + 3 * US_DAY + 7 * US_HOUR \<le> t"
    and "t < (k + 1) * US_WEEK + 3 * US_DAY + 6 * US_HOUR"
  shows "ny_offset dst t = (if dst k then - 4 * US_HOUR else - 5 * US_HOUR)"
proof -
  have "tz_week t = k" "tz_week (t + US_HOUR) = k"
    using assms by (intro tz_week_unique; linarith)+
  then show ?thesis by (simp add: ny_offset_def)
qed

lemma friday_close_eq:
  "friday_close dst k = friday_wall k + (if dst (k - 1) then 4 * US_HOUR else 5 * US_HOUR)"
proof -
  have "ny_offset dst (friday_wall k + 4 * US_HOUR) = (if dst (k - 1) then - 4 * US_HOUR else - 5 * US_HOUR)"
    by (rule ny_offset_inside_week) (simp_all add: friday_wall_def algebra_simps)
  then show ?thesis by (simp add: friday_close_def from_new_york_def)
qed

lemma friday_close_strict_mono: "k < j \<Longrightarrow> friday_close dst k < friday_close dst j"
proof -
  assume "k < j"
  then have "friday_wall k + US_WEEK \<le> friday_wall j" by (simp add: friday_wall_def)
  then show ?thesis by (simp add: friday_close_eq split: if_splits)
qed

lemma friday_close_inj [simp]: "friday_close dst k = friday_close dst j \<longleftrightarrow> k = j"
  using friday_close_strict_mono [of k j dst] friday_close_strict_mono [of j k dst]
  by (cases k j rule: linorder_cases) auto

lemma friday_close_le_iff [simp]: "friday_close dst k \<le> friday_close dst j \<longleftrightarrow> k \<le> j"
  using friday_close_strict_mono [of k j dst] friday_close_strict_mono [of j k dst]
  by (cases k j rule: linorder_cases) auto

lemma friday_close_less_iff [simp]: "friday_close dst k < friday_close dst j \<longleftrightarrow> k < j"
  by (simp add: less_le)

lemma before_friday_iff: "to_new_york dst t < friday_wall k \<longleftrightarrow> t < friday_close dst k"
proof -
  let ?lo = "(k - 1) * US_WEEK + 3 * US_DAY + 7 * US_HOUR"
  consider "t < ?lo" | "?lo \<le> t" "t < ?lo + US_WEEK - US_HOUR" | "?lo + US_WEEK - US_HOUR \<le> t"
    by linarith
  then show ?thesis
  proof cases
    case 1
    then show ?thesis using ny_offset_cases [of dst t]
      by (auto simp: to_new_york_def friday_close_eq friday_wall_def)
  next
    case 2
    then have "ny_offset dst t = (if dst (k - 1) then - 4 * US_HOUR else - 5 * US_HOUR)"
      by (intro ny_offset_inside_week) (simp_all add: algebra_simps)
    then show ?thesis by (auto simp: to_new_york_def friday_close_eq)
  next
    case 3
    then show ?thesis using ny_offset_cases [of dst t]
      by (auto simp: to_new_york_def friday_close_eq friday_wall_def)
  qed
qed

lemma date_split:
  "w = local_date w * US_DAY + local_time w" "0 \<le> local_time w" "local_time w < US_DAY"
  by (simp_all add: local_date_def local_time_def)

lemma weekday_split:
  "d + 3 = 7 * ((d + 3) div 7) + weekday d" "0 \<le> weekday d" "weekday d < 7"
  by (simp_all add: weekday_def)

lemma local_hour_ge: "17 \<le> local_hour w \<longleftrightarrow> 17 * US_HOUR \<le> local_time w"
  unfolding local_hour_def by linarith

text \<open>
  The day the week belongs to, as a function of the New York clock alone: before the
  Friday close it is the calendar day, or the next one from 17:00; from the close to
  Sunday 17:00 it is the coming Monday.
\<close>

definition wall_trading_day :: "int \<Rightarrow> int" where
  "wall_trading_day l =
     (let d = local_date l; wd = weekday d; late = 17 \<le> local_hour l in
      if wd = 5 then d + 2
      else if wd = 6 then d + 1
      else if wd = 4 \<and> late then d + 3
      else if late then d + 1
      else d)"

lemma local_date_shift: "local_date (w + n * US_DAY) = local_date w + n"
  by (simp add: local_date_def)

lemma trading_day_wall: "trading_day dst t = wall_trading_day (to_new_york dst t)"
proof -
  have "0 \<le> weekday (local_date (to_new_york dst t))" "weekday (local_date (to_new_york dst t)) < 7"
    by (simp_all add: weekday_def)
  then show ?thesis
    using local_date_shift [of "to_new_york dst t" 1] local_date_shift [of "to_new_york dst t" 2]
      local_date_shift [of "to_new_york dst t" 3]
    by (auto simp: trading_day_def is_market_open_def wall_trading_day_def Let_def
        WEEK_CLOSE_HOUR_ET_def WEEK_OPEN_HOUR_ET_def local_date_shift)
qed

lemma weekday_plus: "weekday (d + n) = (weekday d + n) mod 7"
proof -
  have "((d + 3) mod 7 + n) mod 7 = (d + 3 + n) mod 7" by (rule mod_add_left_eq)
  then show ?thesis by (simp add: weekday_def add_ac)
qed

lemma weekday_shift:
  "0 \<le> weekday d + n \<Longrightarrow> weekday d + n < 7 \<Longrightarrow> weekday (d + n) = weekday d + n"
  "7 \<le> weekday d + n \<Longrightarrow> weekday d + n < 14 \<Longrightarrow> weekday (d + n) = weekday d + n - 7"
proof -
  have "(weekday d + n) mod 7 = weekday d + n - 7" if "7 \<le> weekday d + n" "weekday d + n < 14"
  proof -
    have "(weekday d + n - 7) mod 7 = (weekday d + n) mod 7"
      by (rule minus_mod_self2)
    moreover have "(weekday d + n - 7) mod 7 = weekday d + n - 7"
      using that by (intro mod_pos_pos_trivial) linarith+
    ultimately show ?thesis by simp
  qed
  then show "7 \<le> weekday d + n \<Longrightarrow> weekday d + n < 14 \<Longrightarrow> weekday (d + n) = weekday d + n - 7"
    by (simp add: weekday_plus)
qed (simp add: weekday_plus)

lemma wall_trading_day_weekday: "0 \<le> weekday (wall_trading_day l) \<and> weekday (wall_trading_day l) \<le> 4"
  using weekday_split(2,3) [of "local_date l"]
  by (auto simp: wall_trading_day_def Let_def weekday_shift)

text \<open>The week index of a local time: the next Friday close is \<open>friday_wall\<close> of it.\<close>

lemma wall_week:
  obtains k where "wall_trading_day l - weekday (wall_trading_day l) + 4 = 7 * k + 1"
    "friday_wall (k - 1) \<le> l" "l < friday_wall k"
proof -
  define d where "d = local_date l"
  define q where "q = (d + 3) div 7"
  define wd where "wd = weekday d"
  define tm where "tm = local_time l"
  have d: "d + 3 = 7 * q + wd" "0 \<le> wd" "wd < 7"
    using weekday_split [of d] by (simp_all add: q_def wd_def)
  have l: "l = d * US_DAY + tm" "0 \<le> tm" "tm < US_DAY"
    using date_split [of l] by (simp_all add: d_def tm_def)
  have late: "17 \<le> local_hour l \<longleftrightarrow> 17 * US_HOUR \<le> tm"
    using local_hour_ge [of l] by (simp add: tm_def)
  consider "wd = 4 \<and> 17 * US_HOUR \<le> tm \<or> wd = 5 \<or> wd = 6" |
    "wd \<le> 4" "\<not> (wd = 4 \<and> 17 * US_HOUR \<le> tm)" using d by linarith
  then show thesis
  proof cases
    case 1
    then have td: "wall_trading_day l = d + (7 - wd)"
      by (auto simp: wall_trading_day_def Let_def late simp flip: d_def wd_def)
    have "weekday (d + (7 - wd)) = 0"
      using weekday_shift(2) [of d "7 - wd"] d by (simp flip: wd_def)
    with td d have "wall_trading_day l - weekday (wall_trading_day l) + 4 = 7 * (q + 1) + 1" by simp
    moreover have "friday_wall (q + 1 - 1) \<le> l" "l < friday_wall (q + 1)"
      using 1 d l by (auto simp: friday_wall_def)
    ultimately show thesis by (rule that)
  next
    case 2
    then have td: "wall_trading_day l = d + (if 17 * US_HOUR \<le> tm then 1 else 0)"
      using d by (auto simp: wall_trading_day_def Let_def late simp flip: d_def wd_def)
    have "weekday (wall_trading_day l) = wd + (if 17 * US_HOUR \<le> tm then 1 else 0)"
      using 2 d weekday_shift(1) [of d 1] unfolding td by (auto simp flip: wd_def)
    with td d have "wall_trading_day l - weekday (wall_trading_day l) + 4 = 7 * q + 1" by simp
    moreover have "friday_wall (q - 1) \<le> l" "l < friday_wall q"
      using 2 d l by (auto simp: friday_wall_def)
    ultimately show thesis by (rule that)
  qed
qed

text \<open>
  The weekly close of an instant is the first Friday close after it.
\<close>

lemma weekly_close_gap:
  obtains k where "weekly_close dst t = friday_close dst k"
    "friday_close dst (k - 1) \<le> t" "t < friday_close dst k"
proof -
  obtain k where k: "wall_trading_day (to_new_york dst t)
        - weekday (wall_trading_day (to_new_york dst t)) + 4 = 7 * k + 1"
      "friday_wall (k - 1) \<le> to_new_york dst t" "to_new_york dst t < friday_wall k"
    by (rule wall_week)
  have "weekly_close dst t = friday_close dst k"
    unfolding weekly_close_def Let_def trading_day_wall k(1)
    by (simp add: friday_close_def friday_wall_def clock_def WEEK_CLOSE_HOUR_ET_def)
  moreover have "friday_close dst (k - 1) \<le> t" "t < friday_close dst k"
    using k(2,3) before_friday_iff [of dst t "k - 1"] before_friday_iff [of dst t k] by auto
  ultimately show thesis by (rule that)
qed

lemma weekly_close_eq_iff:
  "weekly_close dst t = friday_close dst k \<longleftrightarrow> friday_close dst (k - 1) \<le> t \<and> t < friday_close dst k"
proof -
  obtain j where j: "weekly_close dst t = friday_close dst j"
      "friday_close dst (j - 1) \<le> t" "t < friday_close dst j" by (rule weekly_close_gap)
  have "k = j" if "friday_close dst (k - 1) \<le> t" "t < friday_close dst k"
  proof -
    have "friday_close dst (k - 1) < friday_close dst j" "friday_close dst (j - 1) < friday_close dst k"
      using that j by linarith+
    then show ?thesis by simp
  qed
  with j show ?thesis by auto
qed

lemma weekly_close_after: "t < weekly_close dst t"
  by (rule weekly_close_gap [of dst t]) simp

lemma weekly_close_mono: assumes "t \<le> u" shows "weekly_close dst t \<le> weekly_close dst u"
proof -
  obtain j k where j: "weekly_close dst t = friday_close dst j" "friday_close dst (j - 1) \<le> t"
      and k: "weekly_close dst u = friday_close dst k" "u < friday_close dst k"
    using weekly_close_gap by metis
  then have "friday_close dst (j - 1) < friday_close dst k" using assms by linarith
  then have "j \<le> k" by simp
  with j k show ?thesis by simp
qed

end
