(* ===== verification/Ict.thy ===== *)
theory Ict
  imports Agent Structure Sessions
begin

text \<open>
  The ICT entry model (\<^verbatim>\<open>trading_agent/ict.py\<close>). \<^verbatim>\<open>_evaluate\<close> is the
  composition of three stages in the order of the source (session, sweep and shift; imbalance
  and location; stop and target), each stopping with a reason and the log of the conditions
  checked so far. The parameter \<open>dst\<close> is the time zone data of the killzones, \<open>dec_str\<close>
  is \<^verbatim>\<open>str\<close> of a decimal.
\<close>

subsection \<open>Configuration and evidence\<close>

definition ICT_ID :: string where "ICT_ID = ''ict_v1''"
definition ICT_VERSION :: string where "ICT_VERSION = ''1.0.0''"
definition ICT_FEATURE_SET_VERSION :: string where "ICT_FEATURE_SET_VERSION = ''ict-features-v1''"
definition ICT_MINIMUM_BARS :: nat where "ICT_MINIMUM_BARS = 120"

record ict_conditions =
  require_market_open :: bool
  require_killzone :: bool
  require_liquidity_sweep :: bool
  require_structure_shift :: bool
  require_fair_value_gap :: bool
  require_price_in_zone :: bool
  require_order_block :: bool
  require_discount_premium :: bool
  require_optimal_trade_entry :: bool
  require_liquidity_target :: bool

definition IctConditions :: ict_conditions where
  "IctConditions =
     \<lparr>require_market_open = True, require_killzone = True, require_liquidity_sweep = True,
      require_structure_shift = True, require_fair_value_gap = True, require_price_in_zone = True,
      require_order_block = False, require_discount_premium = True, require_optimal_trade_entry = True,
      require_liquidity_target = False\<rparr>"

record ict_config =
  ic_conditions :: ict_conditions
  ic_swing_strength :: int
  ic_sweep_lookback_bars :: int
  ic_structure_lookback_bars :: int
  ic_min_displacement_ratio :: decimal
  ic_fvg_max_age_bars :: int
  ic_ote_low :: decimal
  ic_ote_high :: decimal
  ic_equilibrium_tolerance :: decimal
  ic_stop_buffer_atr :: decimal
  ic_fallback_reward_multiple :: decimal
  ic_min_reward_multiple :: decimal
  ic_intent_lifetime_seconds :: int
  ic_tradeable_killzones :: "killzone set"

definition IctConfig :: ict_config where
  "IctConfig =
     \<lparr>ic_conditions = IctConditions, ic_swing_strength = 2, ic_sweep_lookback_bars = 24,
      ic_structure_lookback_bars = 24, ic_min_displacement_ratio = 3 / 2, ic_fvg_max_age_bars = 30,
      ic_ote_low = 31 / 50, ic_ote_high = 79 / 100, ic_equilibrium_tolerance = 1 / 50,
      ic_stop_buffer_atr = 1 / 4, ic_fallback_reward_multiple = 2, ic_min_reward_multiple = 3 / 2,
      ic_intent_lifetime_seconds = 300, ic_tradeable_killzones = TRADING_KILLZONES\<rparr>"

record ict_feature_snapshot =
  if_feature_snapshot_id :: uuid
  if_feature_set_version :: string
  if_symbol :: string
  if_computed_at :: utc
  if_bars_used :: nat
  if_killzone :: killzone
  if_market_open :: bool
  if_structure_state :: structure_state
  if_range_position :: range_position
  if_retracement :: decimal
  if_atr :: decimal
  if_swept_level :: "decimal option"
  if_sweep_direction :: "side option"
  if_shifted_up :: bool
  if_shifted_down :: bool
  if_fvg_lower :: "decimal option"
  if_fvg_upper :: "decimal option"
  if_displacement_ratio :: "decimal option"
  if_order_block_low :: "decimal option"
  if_order_block_high :: "decimal option"
  if_liquidity_target :: "decimal option"
  if_conditions_met :: "string list"
  if_conditions_failed :: "string list"

definition ict_features_valid :: "ict_feature_snapshot \<Rightarrow> bool" where [checks]:
  "ict_features_valid f \<longleftrightarrow> version_tag_ok (if_feature_set_version f) \<and> symbol_ok (if_symbol f)"

fun killzone_value :: "killzone \<Rightarrow> string" where
  "killzone_value ASIAN_RANGE = ''ASIAN_RANGE''"
| "killzone_value LONDON_OPEN = ''LONDON_OPEN''"
| "killzone_value NEW_YORK_AM = ''NEW_YORK_AM''"
| "killzone_value LONDON_CLOSE = ''LONDON_CLOSE''"
| "killzone_value KZ_NONE = ''NONE''"

fun structure_state_value :: "structure_state \<Rightarrow> string" where
  "structure_state_value BULLISH = ''BULLISH''"
| "structure_state_value BEARISH = ''BEARISH''"
| "structure_state_value UNCLEAR = ''UNCLEAR''"

fun range_position_value :: "range_position \<Rightarrow> string" where
  "range_position_value PREMIUM = ''PREMIUM''"
| "range_position_value DISCOUNT = ''DISCOUNT''"
| "range_position_value EQUILIBRIUM = ''EQUILIBRIUM''"

definition ict_feature_values_hash :: "stdlib \<Rightarrow> ict_feature_snapshot \<Rightarrow> py_exn + string" where
  "ict_feature_values_hash sl f = fingerprint sl
     [(''feature_set_version'', PStr (if_feature_set_version f)),
      (''killzone'', PEnum (killzone_value (if_killzone f))),
      (''structure_state'', PEnum (structure_state_value (if_structure_state f))),
      (''range_position'', PEnum (range_position_value (if_range_position f))),
      (''retracement'', PDec (if_retracement f)),
      (''atr'', PDec (if_atr f)),
      (''swept_level'', opt_val PDec (if_swept_level f)),
      (''sweep_direction'', opt_val (\<lambda>s. PEnum (side_value s)) (if_sweep_direction f)),
      (''shifted_up'', PBool (if_shifted_up f)),
      (''shifted_down'', PBool (if_shifted_down f)),
      (''fvg_lower'', opt_val PDec (if_fvg_lower f)),
      (''fvg_upper'', opt_val PDec (if_fvg_upper f)),
      (''displacement_ratio'', opt_val PDec (if_displacement_ratio f)),
      (''conditions_met'', PList (map PStr (if_conditions_met f))),
      (''conditions_failed'', PList (map PStr (if_conditions_failed f)))]"

definition ict_regime :: "ict_feature_snapshot \<Rightarrow> regime" where
  "ict_regime f =
     (if if_shifted_up f \<or> if_shifted_down f then TREND
      else if if_structure_state f \<in> {BULLISH, BEARISH} then TREND
      else RG_UNKNOWN)"


subsection \<open>Conditions checked in order\<close>

record evaluation =
  ev_met :: "string list"
  ev_failed :: "string list"

definition check :: "string \<Rightarrow> bool \<Rightarrow> bool \<Rightarrow> evaluation \<Rightarrow> bool \<times> evaluation" where
  "check name passed required ev =
     (if passed then (True, ev\<lparr>ev_met := ev_met ev @ [name]\<rparr>)
      else (\<not> required, ev\<lparr>ev_failed := ev_failed ev @ [name]\<rparr>))"

text \<open>
  A stage ends early (\<open>Stop\<close>: the reason of \<^verbatim>\<open>no_trade\<close> and the log so far) or
  hands its findings on with the log.
\<close>

datatype 'a stage = Stop string evaluation | Go 'a evaluation

text \<open>\<^verbatim>\<open>if not evaluation.check(name, passed, required=...): return no_trade(reason)\<close>.\<close>

definition demand :: "string \<Rightarrow> bool \<Rightarrow> bool \<Rightarrow> string \<Rightarrow> evaluation \<Rightarrow> (evaluation \<Rightarrow> 'a stage) \<Rightarrow> 'a stage" where
  "demand name passed required reason ev k =
     (case check name passed required ev of (go, ev') \<Rightarrow> if go then k ev' else Stop reason ev')"

record market_read =
  mr_atr :: decimal
  mr_killzone :: killzone
  mr_market_open :: bool
  mr_structure :: structure_read

definition read_market ::
  "zone_data \<Rightarrow> bar list \<Rightarrow> utc \<Rightarrow> ict_config \<Rightarrow> py_exn + market_read" where
  "read_market dst bars now config =
     mapE (\<lambda>st. \<lparr>mr_atr = average_true_range bars 14, mr_killzone = killzone_at dst now,
                  mr_market_open = is_market_open dst now, mr_structure = st\<rparr>)
       (read_structure bars (ic_swing_strength config) (ic_structure_lookback_bars config))"

definition buy_side_pools :: "structure_read \<Rightarrow> liquidity_pool list" where
  "buy_side_pools st = find_liquidity_pools (st_swing_highs st) True (1 / 5000)"

definition sell_side_pools :: "structure_read \<Rightarrow> liquidity_pool list" where
  "sell_side_pools st = find_liquidity_pools (st_swing_lows st) False (1 / 5000)"

definition shift_agrees :: "structure_read \<Rightarrow> side \<Rightarrow> bool" where
  "shift_agrees st direction = (if direction = BUY then st_shifted_up st else st_shifted_down st)"

text \<open>Session, sweep and structure shift: the sweep the setup rests on.\<close>

definition find_setup ::
  "market_read \<Rightarrow> bar list \<Rightarrow> agent_context \<Rightarrow> ict_config \<Rightarrow> liquidity_sweep stage" where
  "find_setup mr bars ctx config =
     (let c = ic_conditions config; st = mr_structure mr in
      demand ''market_open'' (mr_market_open mr) (require_market_open c) ''market_closed''
        \<lparr>ev_met = [], ev_failed = []\<rparr> (\<lambda>ev.
      demand ''killzone'' (mr_killzone mr \<in> ic_tradeable_killzones config) (require_killzone c)
        (''outside_killzone:'' @ lower (killzone_value (mr_killzone mr))) ev (\<lambda>ev.
      if mr_atr mr \<le> 0 then Stop ''atr_unavailable'' ev
      else let sweep = detect_sweep bars (buy_side_pools st @ sell_side_pools st)
                         (ic_sweep_lookback_bars config) 0 True in
      demand ''liquidity_sweep'' (sweep \<noteq> None) (require_liquidity_sweep c) ''no_liquidity_sweep'' ev (\<lambda>ev.
      case sweep of
        None \<Rightarrow> Stop ''no_direction'' ev
      | Some s \<Rightarrow>
          if ls_direction s \<in> set (ac_open_position_sides ctx) then Stop ''already_positioned'' ev
          else demand ''structure_shift'' (shift_agrees st (ls_direction s)) (require_structure_shift c)
                 ''no_structure_shift'' ev (\<lambda>ev. Go s ev)))))"

definition impulse_leg :: "bar list \<Rightarrow> liquidity_sweep \<Rightarrow> side \<Rightarrow> dealing_range option" where
  "impulse_leg bars sweep direction =
     (let leg = drop (ls_bar_index sweep) bars in
      if leg = [] then None
      else let (lo, hi, lo_time, hi_time) =
          (if direction = BUY
           then (ls_extreme sweep, Max (set (map b_high leg)), ls_time sweep, open_time (last leg))
           else (Min (set (map b_low leg)), ls_extreme sweep, open_time (last leg), ls_time sweep))
        in if hi \<le> lo then None
           else Some \<lparr>dr_low = lo, dr_high = hi, dr_low_time = lo_time, dr_high_time = hi_time\<rparr>)"

record location =
  lo_entry :: decimal
  lo_gap :: "fair_value_gap option"
  lo_order_block :: "order_block option"
  lo_position :: range_position
  lo_retracement :: decimal

definition entry_price :: "market_snapshot \<Rightarrow> side \<Rightarrow> decimal" where
  "entry_price snap direction = (if direction = BUY then ms_ask snap else ms_bid snap)"

definition aligned_gap :: "bar list \<Rightarrow> side \<Rightarrow> ict_config \<Rightarrow> fair_value_gap option" where
  "aligned_gap bars direction config =
     last_opt (filter (\<lambda>g. fv_direction g = direction)
       (find_fair_value_gaps bars (ic_min_displacement_ratio config) 14 (ic_fvg_max_age_bars config) False))"

definition in_ote :: "side \<Rightarrow> decimal \<Rightarrow> ict_config \<Rightarrow> bool" where
  "in_ote direction retracement config =
     (if direction = SELL
      then ic_ote_low config \<le> dsub 1 retracement \<and> dsub 1 retracement \<le> ic_ote_high config
      else ic_ote_low config \<le> retracement \<and> retracement \<le> ic_ote_high config)"

text \<open>Imbalance, entry trigger and location.\<close>

definition find_entry ::
  "market_snapshot \<Rightarrow> bar list \<Rightarrow> ict_config \<Rightarrow> liquidity_sweep \<Rightarrow> evaluation \<Rightarrow> location stage" where
  "find_entry snap bars config sweep ev =
     (let c = ic_conditions config; direction = ls_direction sweep; gap = aligned_gap bars direction config in
      demand ''fair_value_gap'' (gap \<noteq> None) (require_fair_value_gap c) ''no_fair_value_gap'' ev (\<lambda>ev.
      let entry = entry_price snap direction;
          in_zone = (case gap of None \<Rightarrow> False | Some g \<Rightarrow> gap_contains g entry) in
      demand ''price_in_zone'' in_zone (require_price_in_zone c) ''price_not_in_zone'' ev (\<lambda>ev.
      let ob = (case gap of None \<Rightarrow> None | Some g \<Rightarrow> find_order_block bars (fv_created_index g) direction 10) in
      demand ''order_block'' (ob \<noteq> None) (require_order_block c) ''no_order_block'' ev (\<lambda>ev.
      case impulse_leg bars sweep direction of
        None \<Rightarrow> Stop ''no_dealing_range'' ev
      | Some r \<Rightarrow>
          let position = position_of r entry (ic_equilibrium_tolerance config);
              retracement = retracement_of r entry;
              wants = (if direction = BUY then DISCOUNT else PREMIUM) in
          demand ''discount_premium'' (position = wants) (require_discount_premium c)
            (''wrong_range_half:'' @ lower (range_position_value position)) ev (\<lambda>ev.
          demand ''optimal_trade_entry'' (in_ote direction retracement config) (require_optimal_trade_entry c)
            ''outside_ote'' ev (\<lambda>ev.
          Go \<lparr>lo_entry = entry, lo_gap = gap, lo_order_block = ob, lo_position = position,
              lo_retracement = retracement\<rparr> ev))))))"

record price_plan =
  pp_stop :: decimal
  pp_target :: decimal

text \<open>
  The stop beyond the swept extreme, widened to the policy floor when it is closer than
  that, as \<^verbatim>\<open>(stop, stop_distance)\<close>.
\<close>

definition policy_floor :: "instrument_spec \<Rightarrow> agent_context \<Rightarrow> decimal" where
  "policy_floor spec ctx =
     dmul (point spec) (of_int (max (ac_min_stop_distance_points ctx) (stops_level spec)))"

definition ict_stop ::
  "decimal \<Rightarrow> instrument_spec \<Rightarrow> agent_context \<Rightarrow> ict_config \<Rightarrow> liquidity_sweep \<Rightarrow> decimal \<Rightarrow>
   py_exn + decimal \<times> decimal" where
  "ict_stop atr spec ctx config sweep entry =
     (let direction = ls_direction sweep; buffer_distance = dmul atr (ic_stop_buffer_atr config) in
      bindE (if direction = BUY
             then quantize_price (dsub (ls_extreme sweep) buffer_distance) (digits spec) ROUND_DOWN
             else quantize_price (dadd (ls_extreme sweep) buffer_distance) (digits spec) ROUND_UP) (\<lambda>stop.
      let stop_dist = dabs (dsub entry stop); floor_dist = policy_floor spec ctx in
      if stop_dist < floor_dist
      then bindE (if direction = BUY
                  then quantize_price (dsub entry floor_dist) (digits spec) ROUND_DOWN
                  else quantize_price (dadd entry floor_dist) (digits spec) ROUND_UP) (\<lambda>wider.
           Inr (wider, dabs (dsub entry wider)))
      else Inr (stop, stop_dist)))"

text \<open>The nearest opposing pool, dropped when its reward is below the minimum.\<close>

definition liquidity_target ::
  "structure_read \<Rightarrow> side \<Rightarrow> decimal \<Rightarrow> decimal \<Rightarrow> ict_config \<Rightarrow> decimal option" where
  "liquidity_target st direction entry stop_dist config =
     (case nearest_target (if direction = BUY then buy_side_pools st else sell_side_pools st) entry direction of
        None \<Rightarrow> None
      | Some level \<Rightarrow>
          if ddiv (dabs (dsub level entry)) stop_dist < ic_min_reward_multiple config then None else Some level)"

definition plan_prices ::
  "market_read \<Rightarrow> instrument_spec \<Rightarrow> agent_context \<Rightarrow> ict_config \<Rightarrow> liquidity_sweep \<Rightarrow> location \<Rightarrow>
   evaluation \<Rightarrow> py_exn + price_plan stage" where
  "plan_prices mr spec ctx config sweep loc ev =
     (let direction = ls_direction sweep; entry = lo_entry loc in
      bindE (ict_stop (mr_atr mr) spec ctx config sweep entry) (\<lambda>(stop, stop_dist).
      if stop_dist \<le> 0 then Inr (Stop ''degenerate_stop'' ev)
      else let level = liquidity_target (mr_structure mr) direction entry stop_dist config in
      case check ''liquidity_target'' (level \<noteq> None) (require_liquidity_target (ic_conditions config)) ev of
        (False, ev') \<Rightarrow> Inr (Stop ''no_liquidity_target'' ev')
      | (True, ev') \<Rightarrow>
          let distance = dmul stop_dist (ic_fallback_reward_multiple config);
              target_level =
                (case level of
                   Some l \<Rightarrow> l
                 | None \<Rightarrow> if direction = BUY then dadd entry distance else dsub entry distance)
          in bindE (quantize_price target_level (digits spec)
                      (if direction = BUY then ROUND_UP else ROUND_DOWN)) (\<lambda>target.
             if target \<le> 0 \<or> stop \<le> 0 then Inr (Stop ''degenerate_price_levels'' ev')
             else Inr (Go \<lparr>pp_stop = stop, pp_target = target\<rparr> ev'))))"


subsection \<open>The decision and its evidence\<close>

definition ict_feature_id :: "stdlib \<Rightarrow> market_snapshot \<Rightarrow> uuid" where
  "ict_feature_id sl snap =
     uuid5_url sl (''crumblr:ict-features:'' @ ms_symbol snap @ '':'' @ iso_format sl (ms_event_time snap))"

definition ict_intent_id :: "stdlib \<Rightarrow> ict_feature_snapshot \<Rightarrow> uuid" where
  "ict_intent_id sl features =
     uuid5_url sl (''crumblr:intent:'' @ ICT_ID @ '':'' @ ICT_VERSION @ '':'' @ if_feature_snapshot_id features)"

definition base_features ::
  "stdlib \<Rightarrow> market_snapshot \<Rightarrow> bar list \<Rightarrow> market_read \<Rightarrow> evaluation \<Rightarrow> ict_feature_snapshot" where
  "base_features sl snap bars mr ev =
     \<lparr>if_feature_snapshot_id = ict_feature_id sl snap, if_feature_set_version = ICT_FEATURE_SET_VERSION,
      if_symbol = ms_symbol snap, if_computed_at = ms_event_time snap, if_bars_used = length bars,
      if_killzone = mr_killzone mr, if_market_open = mr_market_open mr,
      if_structure_state = st_state (mr_structure mr), if_range_position = EQUILIBRIUM,
      if_retracement = 0, if_atr = mr_atr mr, if_swept_level = None, if_sweep_direction = None,
      if_shifted_up = st_shifted_up (mr_structure mr), if_shifted_down = st_shifted_down (mr_structure mr),
      if_fvg_lower = None, if_fvg_upper = None, if_displacement_ratio = None,
      if_order_block_low = None, if_order_block_high = None, if_liquidity_target = None,
      if_conditions_met = ev_met ev, if_conditions_failed = ev_failed ev\<rparr>"

definition no_trade ::
  "stdlib \<Rightarrow> market_snapshot \<Rightarrow> bar list \<Rightarrow> market_read \<Rightarrow> string \<Rightarrow> evaluation \<Rightarrow>
   py_exn + strategy_decision \<times> ict_feature_snapshot" where
  "no_trade sl snap bars mr reason ev =
     mapE (Pair (flat_decision reason)) (contract ict_features_valid (base_features sl snap bars mr ev))"

definition round4 :: "rat \<Rightarrow> rat" where
  \<comment> \<open>\<^verbatim>\<open>round(x, 4)\<close> of a float\<close>
  "round4 x = fl (of_int (round_half_even (x * 10 ^ 4)) / 10 ^ 4)"

definition ict_confidence :: "nat \<Rightarrow> fair_value_gap option \<Rightarrow> rat" where
  "ict_confidence conditions_met gap =
     (let base = min (fl (of_nat conditions_met / 8)) 1;
          boosted = (case gap of
                       None \<Rightarrow> base
                     | Some g \<Rightarrow> if 5 / 2 < fv_displacement_ratio g then min (fl (base + fl (1 / 10))) 1 else base)
      in round4 boosted)"

definition full_features ::
  "stdlib \<Rightarrow> market_snapshot \<Rightarrow> bar list \<Rightarrow> market_read \<Rightarrow> liquidity_sweep \<Rightarrow> location \<Rightarrow> price_plan \<Rightarrow>
   evaluation \<Rightarrow> ict_feature_snapshot" where
  "full_features sl snap bars mr sweep loc plan ev =
     (base_features sl snap bars mr ev)
       \<lparr>if_range_position := lo_position loc, if_retracement := lo_retracement loc,
        if_swept_level := Some (ls_swept_level sweep), if_sweep_direction := Some (ls_direction sweep),
        if_fvg_lower := map_option fv_lower (lo_gap loc), if_fvg_upper := map_option fv_upper (lo_gap loc),
        if_displacement_ratio := map_option fv_displacement_ratio (lo_gap loc),
        if_order_block_low := map_option ob_low (lo_order_block loc),
        if_order_block_high := map_option ob_high (lo_order_block loc),
        if_liquidity_target := Some (pp_target plan)\<rparr>"

definition propose ::
  "stdlib \<Rightarrow> (decimal \<Rightarrow> string) \<Rightarrow> market_snapshot \<Rightarrow> bar list \<Rightarrow> agent_context \<Rightarrow> ict_config \<Rightarrow>
   market_read \<Rightarrow> liquidity_sweep \<Rightarrow> location \<Rightarrow> price_plan \<Rightarrow> evaluation \<Rightarrow>
   py_exn + strategy_decision \<times> ict_feature_snapshot" where
  "propose sl dec_str snap bars ctx config mr sweep loc plan ev =
     bindE (contract ict_features_valid (full_features sl snap bars mr sweep loc plan ev)) (\<lambda>features.
     bindE (quantize (lo_retracement loc) (1 / 100) ROUND_HALF_EVEN) (\<lambda>shown.
     let reason_codes =
           [''killzone:'' @ lower (killzone_value (mr_killzone mr)),
            ''swept:'' @ dec_str (ls_swept_level sweep),
            ''structure:'' @ lower (structure_state_value (st_state (mr_structure mr))),
            ''range:'' @ lower (range_position_value (lo_position loc)),
            ''retracement:'' @ dec_str shown]
     in bindE (contract trade_intent_valid
          \<lparr>ti_intent_id = ict_intent_id sl features, ti_strategy_id = ICT_ID,
           ti_strategy_version = ICT_VERSION, ti_model_version = None, ti_symbol = ms_symbol snap,
           ti_side = ls_direction sweep, ti_created_at = ms_event_time snap,
           ti_expires_at = ms_event_time snap + ic_intent_lifetime_seconds config * 1000000,
           ti_entry_type = MARKET, ti_reference_price = lo_entry loc,
           ti_stop_loss_price = Some (pp_stop plan), ti_take_profit_price = Some (pp_target plan),
           ti_confidence = ict_confidence (length (ev_met ev)) (lo_gap loc), ti_reason_codes = reason_codes,
           ti_requested_risk_fraction = Some (ac_requested_risk_fraction ctx),
           ti_feature_snapshot_id = if_feature_snapshot_id features\<rparr>) (\<lambda>intent.
        Inr (\<lparr>sn_side = ls_direction sweep, sn_confidence = ti_confidence intent,
              sn_reason_codes = reason_codes, sn_intent = Some intent\<rparr>, features))))"

definition ict_run ::
  "stdlib \<Rightarrow> (decimal \<Rightarrow> string) \<Rightarrow> zone_data \<Rightarrow> ict_config \<Rightarrow> market_snapshot \<Rightarrow> bar list \<Rightarrow>
   instrument_spec \<Rightarrow> agent_context \<Rightarrow> py_exn + strategy_decision \<times> ict_feature_snapshot" where
  "ict_run sl dec_str dst config snap bars spec ctx =
     bindE (read_market dst bars (ms_event_time snap) config) (\<lambda>mr.
     case find_setup mr bars ctx config of
       Stop reason ev \<Rightarrow> no_trade sl snap bars mr reason ev
     | Go sweep ev \<Rightarrow>
     case find_entry snap bars config sweep ev of
       Stop reason ev \<Rightarrow> no_trade sl snap bars mr reason ev
     | Go loc ev \<Rightarrow>
     bindE (plan_prices mr spec ctx config sweep loc ev) (\<lambda>plan.
     case plan of
       Stop reason ev \<Rightarrow> no_trade sl snap bars mr reason ev
     | Go plan ev \<Rightarrow> propose sl dec_str snap bars ctx config mr sweep loc plan ev))"

definition ict_evaluate ::
  "stdlib \<Rightarrow> (decimal \<Rightarrow> string) \<Rightarrow> zone_data \<Rightarrow> ict_config \<Rightarrow> market_snapshot \<Rightarrow> bar list \<Rightarrow>
   instrument_spec \<Rightarrow> agent_context \<Rightarrow> py_exn + ict_feature_snapshot strategy_outcome" where
  "ict_evaluate sl dec_str dst config snap bars spec ctx =
     (if length bars < ICT_MINIMUM_BARS then Inr warming_up
      else mapE (\<lambda>(decision, features). \<lparr>so_decision = decision, so_features = Some features\<rparr>)
             (ict_run sl dec_str dst config snap bars spec ctx))"


subsection \<open>What a stage hands on\<close>

text \<open>The log of a condition, whatever it decided.\<close>

definition logged :: "string \<Rightarrow> bool \<Rightarrow> evaluation \<Rightarrow> evaluation" where
  "logged name passed ev =
     (if passed then ev\<lparr>ev_met := ev_met ev @ [name]\<rparr> else ev\<lparr>ev_failed := ev_failed ev @ [name]\<rparr>)"

lemma check_logged: "check name passed required ev = ((passed \<or> \<not> required), logged name passed ev)"
  by (simp add: check_def logged_def)

lemma demand_Go:
  "demand name passed required reason ev k = Go x ev' \<longleftrightarrow>
     (required \<longrightarrow> passed) \<and> k (logged name passed ev) = Go x ev'"
  by (auto simp: demand_def check_logged)

lemma find_setup_Go:
  assumes "find_setup mr bars ctx config = Go s ev"
  shows "(require_market_open (ic_conditions config) \<longrightarrow> mr_market_open mr) \<and>
    (require_killzone (ic_conditions config) \<longrightarrow> mr_killzone mr \<in> ic_tradeable_killzones config) \<and>
    0 < mr_atr mr \<and>
    detect_sweep bars (buy_side_pools (mr_structure mr) @ sell_side_pools (mr_structure mr))
      (ic_sweep_lookback_bars config) 0 True = Some s \<and>
    ls_direction s \<notin> set (ac_open_position_sides ctx) \<and>
    (require_structure_shift (ic_conditions config) \<longrightarrow> shift_agrees (mr_structure mr) (ls_direction s))"
  using assms by (auto simp: find_setup_def Let_def demand_Go not_le split: if_splits option.splits)

lemma find_entry_Go:
  assumes "find_entry snap bars config s ev = Go loc ev'"
  shows "lo_entry loc = entry_price snap (ls_direction s) \<and>
    lo_gap loc = aligned_gap bars (ls_direction s) config \<and>
    (require_fair_value_gap (ic_conditions config) \<longrightarrow> lo_gap loc \<noteq> None) \<and>
    (require_price_in_zone (ic_conditions config) \<longrightarrow>
       (\<exists>g. lo_gap loc = Some g \<and> gap_contains g (lo_entry loc))) \<and>
    (require_order_block (ic_conditions config) \<longrightarrow> lo_order_block loc \<noteq> None) \<and>
    (\<exists>r. impulse_leg bars s (ls_direction s) = Some r \<and>
       lo_position loc = position_of r (lo_entry loc) (ic_equilibrium_tolerance config) \<and>
       lo_retracement loc = retracement_of r (lo_entry loc) \<and>
       (require_discount_premium (ic_conditions config) \<longrightarrow>
          lo_position loc = (if ls_direction s = BUY then DISCOUNT else PREMIUM)) \<and>
       (require_optimal_trade_entry (ic_conditions config) \<longrightarrow>
          in_ote (ls_direction s) (lo_retracement loc) config))"
proof (cases "impulse_leg bars s (ls_direction s)")
  case None
  with assms show ?thesis by (simp add: find_entry_def Let_def demand_Go)
next
  case (Some r)
  have zone: "(case gap of None \<Rightarrow> False | Some g \<Rightarrow> P g) \<longleftrightarrow> (\<exists>g. gap = Some g \<and> P g)"
    for gap :: "fair_value_gap option" and P by (cases gap) auto
  from assms Some show ?thesis
    by (simp only: find_entry_def Let_def demand_Go zone option.case stage.inject) force
qed

lemma policy_floor_rnd: "rnd (policy_floor spec ctx) = policy_floor spec ctx"
  by (simp add: policy_floor_def dmul_def)

lemma rnd_abs: "rnd \<bar>x\<bar> = \<bar>rnd x\<bar>"
  by (cases "0 \<le> x") (simp_all add: abs_if)

lemma closer_than:
  assumes "dabs (dsub a b) < c" "rnd c = c" shows "\<bar>a - b\<bar> < c"
proof (rule ccontr)
  assume "\<not> \<bar>a - b\<bar> < c"
  then have "rnd c \<le> rnd \<bar>a - b\<bar>" by (intro dec28.round_sig_mono) simp
  then show False using assms by (simp add: dabs_def dsub_def rnd_abs)
qed

lemma ict_stop_placed:
  assumes "ict_stop atr spec ctx config s entry = Inr (stop, away)" "0 < stop"
  shows "away = dabs (dsub entry stop) \<and>
    (if ls_direction s = BUY
     then stop \<le> dsub (ls_extreme s) (dmul atr (ic_stop_buffer_atr config)) \<and>
       (policy_floor spec ctx \<le> away \<or> stop \<le> dsub entry (policy_floor spec ctx))
     else dadd (ls_extreme s) (dmul atr (ic_stop_buffer_atr config)) \<le> stop \<and>
       (policy_floor spec ctx \<le> away \<or> dadd entry (policy_floor spec ctx) \<le> stop))"
proof (cases "ls_direction s = BUY")
  case True
  let ?raw = "dsub (ls_extreme s) (dmul atr (ic_stop_buffer_atr config))"
  from assms True obtain first where first: "quantize_price ?raw (digits spec) ROUND_DOWN = Inr first"
    and out: "if dabs (dsub entry first) < policy_floor spec ctx
      then quantize_price (dsub entry (policy_floor spec ctx)) (digits spec) ROUND_DOWN = Inr stop \<and>
        away = dabs (dsub entry stop)
      else stop = first \<and> away = dabs (dsub entry first)"
    by (auto simp: ict_stop_def Let_def bindE_eq_Inr split: if_splits)
  show ?thesis
  proof (cases "dabs (dsub entry first) < policy_floor spec ctx")
    case near: True
    with out have w: "stop \<le> dsub entry (policy_floor spec ctx)" "away = dabs (dsub entry stop)"
      using quantized_below assms(2) by auto
    from closer_than [OF near policy_floor_rnd] have "entry - policy_floor spec ctx \<le> first" by linarith
    then have "dsub entry (policy_floor spec ctx) \<le> rnd first"
      unfolding dsub_def by (rule dec28.round_sig_mono)
    with w have le: "stop \<le> first" by (simp add: quantize_price_rnd [OF first])
    with first assms(2) have "first \<le> ?raw" by (intro quantized_below) auto
    with w le True show ?thesis by simp
  next
    case False
    with out first assms(2) True show ?thesis by (auto intro: quantized_below)
  qed
next
  case False
  let ?raw = "dadd (ls_extreme s) (dmul atr (ic_stop_buffer_atr config))"
  from assms False obtain first where first: "quantize_price ?raw (digits spec) ROUND_UP = Inr first"
    and out: "if dabs (dsub entry first) < policy_floor spec ctx
      then quantize_price (dadd entry (policy_floor spec ctx)) (digits spec) ROUND_UP = Inr stop \<and>
        away = dabs (dsub entry stop)
      else stop = first \<and> away = dabs (dsub entry first)"
    by (auto simp: ict_stop_def Let_def bindE_eq_Inr split: if_splits)
  show ?thesis
  proof (cases "dabs (dsub entry first) < policy_floor spec ctx")
    case near: True
    with out have w: "dadd entry (policy_floor spec ctx) \<le> stop" "away = dabs (dsub entry stop)"
      using quantized_above assms(2) by auto
    from closer_than [OF near policy_floor_rnd] have "first \<le> entry + policy_floor spec ctx" by linarith
    then have "rnd first \<le> dadd entry (policy_floor spec ctx)"
      unfolding dadd_def by (rule dec28.round_sig_mono)
    with w have le: "first \<le> stop" by (simp add: quantize_price_rnd [OF first])
    have "?raw \<le> stop"
    proof (cases "0 \<le> ?raw")
      case True
      with quantize_price_up [OF first] le show ?thesis by simp
    qed (use assms(2) in simp)
    with w False show ?thesis by simp
  next
    case far: False
    with out first assms(2) False show ?thesis by (auto intro: quantized_above)
  qed
qed


definition target_level :: "side \<Rightarrow> decimal \<Rightarrow> decimal \<Rightarrow> ict_config \<Rightarrow> decimal option \<Rightarrow> decimal" where
  "target_level direction entry away config level =
     (case level of
        Some l \<Rightarrow> l
      | None \<Rightarrow> if direction = BUY then dadd entry (dmul away (ic_fallback_reward_multiple config))
               else dsub entry (dmul away (ic_fallback_reward_multiple config)))"

lemma plan_prices_Go:
  assumes "plan_prices mr spec ctx config s loc ev = Inr (Go plan ev')"
  shows "\<exists>away. ict_stop (mr_atr mr) spec ctx config s (lo_entry loc) = Inr (pp_stop plan, away) \<and>
    0 < away \<and> 0 < pp_stop plan \<and> 0 < pp_target plan \<and>
    (require_liquidity_target (ic_conditions config) \<longrightarrow>
       liquidity_target (mr_structure mr) (ls_direction s) (lo_entry loc) away config \<noteq> None) \<and>
    quantize_price (target_level (ls_direction s) (lo_entry loc) away config
        (liquidity_target (mr_structure mr) (ls_direction s) (lo_entry loc) away config))
      (digits spec) (if ls_direction s = BUY then ROUND_UP else ROUND_DOWN) = Inr (pp_target plan)"
proof -
  from assms obtain stop away where st: "ict_stop (mr_atr mr) spec ctx config s (lo_entry loc) = Inr (stop, away)"
    by (auto simp: plan_prices_def Let_def bindE_eq_Inr)
  let ?level = "liquidity_target (mr_structure mr) (ls_direction s) (lo_entry loc) away config"
  from assms st show ?thesis
    by (cases "?level = None \<longrightarrow> \<not> require_liquidity_target (ic_conditions config)")
      (auto simp: plan_prices_def Let_def bindE_eq_Inr check_logged target_level_def not_le split: if_splits)
qed

lemma ict_run_intent:
  assumes "ict_run sl dec_str dst config snap bars spec ctx = Inr (d, f)" "sn_intent d = Some i"
  obtains mr s ev loc ev' plan ev'' where
    "read_market dst bars (ms_event_time snap) config = Inr mr"
    "find_setup mr bars ctx config = Go s ev" "find_entry snap bars config s ev = Go loc ev'"
    "plan_prices mr spec ctx config s loc ev' = Inr (Go plan ev'')"
    "propose sl dec_str snap bars ctx config mr s loc plan ev'' = Inr (d, f)"
proof -
  from assms obtain mr where mr: "read_market dst bars (ms_event_time snap) config = Inr mr"
    by (auto simp: ict_run_def bindE_eq_Inr)
  have flat: "no_trade sl snap bars mr reason ev \<noteq> Inr (d, f)" for reason ev
    using assms(2) by (auto simp: no_trade_def mapE_eq_Inr)
  from assms(1) mr flat obtain s ev where s: "find_setup mr bars ctx config = Go s ev"
    by (cases "find_setup mr bars ctx config") (auto simp: ict_run_def)
  from assms(1) mr flat s obtain loc ev' where l: "find_entry snap bars config s ev = Go loc ev'"
    by (cases "find_entry snap bars config s ev") (auto simp: ict_run_def)
  from assms(1) mr s l obtain x where x: "plan_prices mr spec ctx config s loc ev' = Inr x"
    by (auto simp: ict_run_def bindE_eq_Inr)
  from assms(1) mr flat s l x obtain plan ev'' where p: "plan_prices mr spec ctx config s loc ev' = Inr (Go plan ev'')"
      "propose sl dec_str snap bars ctx config mr s loc plan ev'' = Inr (d, f)"
    by (cases x) (auto simp: ict_run_def)
  from mr s l p show thesis by (rule that)
qed

lemma propose_ok:
  assumes "propose sl dec_str snap bars ctx config mr s loc plan ev = Inr (d, f)" "sn_intent d = Some i"
    and "lo_entry loc = entry_price snap (ls_direction s)"
    and "ls_direction s \<notin> set (ac_open_position_sides ctx)" "ls_direction s \<noteq> FLAT"
  shows "proposal_ok snap ctx d i \<and> ti_side i = ls_direction s \<and> ti_reference_price i = lo_entry loc \<and>
    ti_stop_loss_price i = Some (pp_stop plan) \<and> ti_take_profit_price i = Some (pp_target plan) \<and>
    f = full_features sl snap bars mr s loc plan ev"
  using assms by (auto simp: propose_def Let_def bindE_eq_Inr proposal_ok_def entry_price_def)

lemma sweep_directed: assumes "detect_sweep bars pools lookback mp rc = Some s" shows "ls_direction s \<noteq> FLAT"
proof -
  have "foldl (sweep_step bars mp rc) None (sweep_pairs bars pools lookback) = Some s"
    using assms by (simp add: detect_sweep_def split: if_splits)
  from sweep_fold [OF this] obtain ip where "sweep_candidate bars (fst ip) (snd ip) = Some s" by blast
  then show ?thesis by (auto simp: sweep_candidate_def Let_def split: if_splits)
qed

interpretation ict: strategy "ict_evaluate sl dec_str dst config" ICT_MINIMUM_BARS
  for sl dec_str dst config
proof
  fix snap bars spec ctx out i
  assume "ict_evaluate sl dec_str dst config snap bars spec ctx = Inr out" "sn_intent (so_decision out) = Some i"
  then obtain d f where run: "ict_run sl dec_str dst config snap bars spec ctx = Inr (d, f)" "sn_intent d = Some i"
      "out = \<lparr>so_decision = d, so_features = Some f\<rparr>"
    by (auto simp: ict_evaluate_def mapE_eq_Inr split: if_splits)
  show "so_features out \<noteq> None \<and> proposal_ok snap ctx (so_decision out) i"
  proof (rule ict_run_intent [OF run(1,2)])
    fix mr s ev loc ev' plan ev''
    assume s: "find_setup mr bars ctx config = Go s ev" and l: "find_entry snap bars config s ev = Go loc ev'"
      and p: "propose sl dec_str snap bars ctx config mr s loc plan ev'' = Inr (d, f)"
    have "proposal_ok snap ctx d i"
      using propose_ok [OF p run(2)] find_setup_Go [OF s] find_entry_Go [OF l] sweep_directed by blast
    with run(3) show ?thesis by simp
  qed
qed (simp add: ict_evaluate_def)


end
