(* ===== verification/Ict_Example.thy ===== *)
theory Ict_Example
  imports Ict
begin

text \<open>
  A complete setup of the ICT model, stage by stage: a swing low at 92 is swept to 90, the next
  two candles displace through the swing high at 100 and leave a gap between 94 and 98, and the
  ask is back at 96 in the London open. It is the input the model's statement is instantiated at.
\<close>

definition candle :: "utc \<Rightarrow> decimal \<Rightarrow> decimal \<Rightarrow> decimal \<Rightarrow> decimal \<Rightarrow> bar" where
  "candle t op hi lo cl =
     \<lparr>open_time = t, b_open = op, b_high = hi, b_low = lo, b_close = cl, b_tick_volume = 1,
      b_real_volume = None, b_spread_points = None\<rparr>"

definition setup_bars :: "bar list" where
  "setup_bars =
     [candle 0 95 97 94 95, candle 1 95 97 94 95, candle 2 95 97 94 95, candle 3 95 97 94 95,
      candle 4 95 97 94 95, candle 5 95 97 94 95, candle 6 95 97 94 95, candle 7 95 97 94 95,
      candle 8 95 100 94 95, candle 9 95 97 94 95, candle 10 95 97 92 95, candle 11 95 97 94 95,
      candle 12 94 94 90 93, candle 13 93 108 93 107, candle 14 107 110 98 101]"

lemma candle_simps [simp]:
  "open_time (candle t op hi lo cl) = t" "b_open (candle t op hi lo cl) = op" "b_high (candle t op hi lo cl) = hi"
  "b_low (candle t op hi lo cl) = lo" "b_close (candle t op hi lo cl) = cl"
  by (simp_all add: candle_def)

definition setup_high :: swing_point where
  "setup_high = \<lparr>sw_index = 8, sw_time = 8, sw_price = 100, sw_is_high = True\<rparr>"
definition setup_low :: swing_point where
  "setup_low = \<lparr>sw_index = 10, sw_time = 10, sw_price = 92, sw_is_high = False\<rparr>"
definition swept_low :: swing_point where
  "swept_low = \<lparr>sw_index = 12, sw_time = 12, sw_price = 90, sw_is_high = False\<rparr>"

lemma setup_nth [simp]:
  "setup_bars ! 0 = candle 0 95 97 94 95" "setup_bars ! 1 = candle 1 95 97 94 95"
  "setup_bars ! 2 = candle 2 95 97 94 95" "setup_bars ! 3 = candle 3 95 97 94 95"
  "setup_bars ! 4 = candle 4 95 97 94 95" "setup_bars ! 5 = candle 5 95 97 94 95"
  "setup_bars ! 6 = candle 6 95 97 94 95" "setup_bars ! 7 = candle 7 95 97 94 95"
  "setup_bars ! 8 = candle 8 95 100 94 95" "setup_bars ! 9 = candle 9 95 97 94 95"
  "setup_bars ! 10 = candle 10 95 97 92 95" "setup_bars ! 11 = candle 11 95 97 94 95"
  "setup_bars ! 12 = candle 12 94 94 90 93" "setup_bars ! 13 = candle 13 93 108 93 107"
  "setup_bars ! 14 = candle 14 107 110 98 101" "setup_bars ! Suc 0 = candle 1 95 97 94 95"
  by (simp_all add: setup_bars_def)

lemma setup_length [simp]: "length setup_bars = 15"
  by (simp add: setup_bars_def)

lemma swing_1:
  "0 < i \<Longrightarrow> is_swing_high bars 1 i \<longleftrightarrow>
     b_high (bars ! (i - 1)) < b_high (bars ! i) \<and> b_high (bars ! (i + 1)) < b_high (bars ! i)"
  "0 < i \<Longrightarrow> is_swing_low bars 1 i \<longleftrightarrow>
     b_low (bars ! i) < b_low (bars ! (i - 1)) \<and> b_low (bars ! i) < b_low (bars ! (i + 1))"
proof -
  have "filter (\<lambda>j. j \<noteq> i) [i - 1..<i + 1 + 1] = [i - 1, i + 1]" if "0 < i"
    using that by (cases i) (simp_all add: upt_rec)
  then show "0 < i \<Longrightarrow> is_swing_high bars 1 i \<longleftrightarrow>
      b_high (bars ! (i - 1)) < b_high (bars ! i) \<and> b_high (bars ! (i + 1)) < b_high (bars ! i)"
    "0 < i \<Longrightarrow> is_swing_low bars 1 i \<longleftrightarrow>
      b_low (bars ! i) < b_low (bars ! (i - 1)) \<and> b_low (bars ! i) < b_low (bars ! (i + 1))"
    unfolding is_swing_high_def is_swing_low_def by auto
qed

lemma windows:
  "[Suc 0..<14] = [1, 2, 3, 4, 5, 6, 7, 8, 9, 10, 11, 12, 13]"
  "[0..<15] = [0, 1, 2, 3, 4, 5, 6, 7, 8, 9, 10, 11, 12, 13, 14]"
  "[2..<15] = [2, 3, 4, 5, 6, 7, 8, 9, 10, 11, 12, 13, 14]"
  by (simp_all add: upt_rec)

lemma setup_swings: "find_swings setup_bars 1 = Inr ([setup_high], [setup_low, swept_low])"
proof -
  have w: "[1..<15 - 1] = [1, 2, 3, 4, 5, 6, 7, 8, 9, 10, 11, 12, 13 :: nat]" by (simp add: upt_rec)
  have "filter (is_swing_high setup_bars 1) [1..<15 - 1] = [8]" "filter (is_swing_low setup_bars 1) [1..<15 - 1] = [10, 12]"
    unfolding w by (simp_all add: swing_1 del: One_nat_def)
  moreover have "nat 1 = 1" by simp
  ultimately show ?thesis
    by (simp add: find_swings_def Let_def swing_high_at_def swing_low_at_def setup_high_def setup_low_def
        swept_low_def del: One_nat_def nat_1)
qed

lemma true_range_candle:
  "true_range (candle t op hi lo cl, candle t' op' hi' lo' cl') =
     max (max (dsub hi' lo') (dabs (dsub hi' cl))) (dabs (dsub lo' cl))"
  by (simp add: true_range_def)

lemma setup_ranges: "map true_range (pairwise setup_bars) = [3, 3, 3, 3, 3, 3, 3, 6, 3, 5, 3, 5, 15, 12]"
  unfolding setup_bars_def pairwise.simps list.map true_range_candle by (simp add: decimal_eval)

lemma setup_atr: "average_true_range setup_bars 14 = 5"
proof -
  have "last_n 15 setup_bars = setup_bars" by (simp add: last_n_def)
  moreover have "dsum [3, 3, 3, 3, 3, 3, 3, 6, 3, 5, 3, 5, 15, 12] = 70"
    unfolding dsum_def foldl.simps dadd_def by (simp add: rnd_exact)
  ultimately show ?thesis by (simp add: average_true_range_def setup_ranges ddiv_def rnd_exact)
qed

definition setup_structure :: structure_read where
  "setup_structure =
     \<lparr>st_state = UNCLEAR, st_swing_highs = [setup_high], st_swing_lows = [setup_low, swept_low],
      st_dealing_range = Some \<lparr>dr_low = 90, dr_high = 100, dr_low_time = 12, dr_high_time = 8\<rparr>,
      st_last_swing_high = Some setup_high, st_last_swing_low = Some swept_low,
      st_broke_structure_up = False, st_broke_structure_down = False,
      st_shifted_up = True, st_shifted_down = False\<rparr>"

lemma setup_read: "read_structure setup_bars 1 24 = Inr setup_structure"
  by (simp add: read_structure_def setup_swings setup_structure_def Let_def last_opt_def find_break_def
      breaks_at_def confirmed_before_def state_before_def classify_state_def windows
      setup_high_def setup_low_def swept_low_def)

definition setup_sweep :: liquidity_sweep where
  "setup_sweep = \<lparr>ls_direction = BUY, ls_swept_level = 92, ls_extreme = 90, ls_bar_index = 12, ls_time = 12,
                  ls_closed_back_inside = True\<rparr>"

lemma setup_pools:
  "buy_side_pools setup_structure = [\<lparr>lp_price = 100, lp_time = 8, lp_is_buy_side = True, lp_touch_count = 1\<rparr>]"
  "sell_side_pools setup_structure =
     [\<lparr>lp_price = 92, lp_time = 10, lp_is_buy_side = False, lp_touch_count = 1\<rparr>,
      \<lparr>lp_price = 90, lp_time = 12, lp_is_buy_side = False, lp_touch_count = 1\<rparr>]"
  by (simp_all add: buy_side_pools_def sell_side_pools_def setup_structure_def find_liquidity_pools_def pool_from_def
      setup_high_def setup_low_def swept_low_def decimal_eval)

lemma setup_sweep:
  "detect_sweep setup_bars (buy_side_pools setup_structure @ sell_side_pools setup_structure) 24 0 True = Some setup_sweep"
  unfolding setup_pools
  by (simp add: detect_sweep_def sweep_pairs_def sweep_step_def sweep_candidate_def first_touch_index_def
        touches_def setup_bars_def setup_sweep_def upt_rec penetration_def decimal_eval)

definition setup_gap :: fair_value_gap where
  "setup_gap = \<lparr>fv_direction = BUY, fv_lower = 94, fv_upper = 98, fv_created_index = 14, fv_created_at = 14,
                fv_displacement_ratio = 3\<rparr>"

lemma setup_gap: "find_fair_value_gaps setup_bars (3 / 2) 14 30 False = [setup_gap]"
  unfolding find_fair_value_gaps_def setup_atr
  by (simp add: gap_at_def windows decimal_eval map_filter_simps is_mitigated_by_def setup_gap_def Let_def)

definition setup_config :: ict_config where
  "setup_config = IctConfig\<lparr>ic_swing_strength := 1\<rparr>"

definition setup_quote :: market_snapshot where
  "setup_quote =
     \<lparr>ms_snapshot_id = ''s1'', ms_symbol = ''EUR/USD'', ms_event_time = 28800000000,
      ms_received_time = 28800000000, ms_bid = 9599 / 100, ms_ask = 96, ms_spread_points = 1000,
      ms_timeframe = ''M5'', ms_bars = [], ms_session_state = OPEN, ms_symbol_spec_version = ''v1'',
      ms_data_quality = GOOD\<rparr>"

lemma setup_fields [simp]:
  "ic_conditions setup_config = IctConditions" "ic_swing_strength setup_config = 1"
  "ic_sweep_lookback_bars setup_config = 24" "ic_structure_lookback_bars setup_config = 24"
  "ic_min_displacement_ratio setup_config = 3 / 2" "ic_fvg_max_age_bars setup_config = 30"
  "ic_ote_low setup_config = 31 / 50" "ic_ote_high setup_config = 79 / 100"
  "ic_equilibrium_tolerance setup_config = 1 / 50" "ic_stop_buffer_atr setup_config = 1 / 4"
  "ic_fallback_reward_multiple setup_config = 2" "ic_min_reward_multiple setup_config = 3 / 2"
  "ic_intent_lifetime_seconds setup_config = 300" "ic_tradeable_killzones setup_config = TRADING_KILLZONES"
  "ms_ask setup_quote = 96" "ms_event_time setup_quote = 28800000000" "ms_symbol setup_quote = ''EUR/USD''"
  "ac_open_position_sides AgentContext = []" "ac_requested_risk_fraction AgentContext = 1 / 200"
  "ac_min_stop_distance_points AgentContext = 0"
  by (simp_all add: setup_config_def IctConfig_def setup_quote_def AgentContext_def)

abbreviation no_dst :: zone_data where "no_dst \<equiv> \<lambda>w. False"

definition setup_market :: market_read where
  "setup_market =
     \<lparr>mr_atr = 5, mr_killzone = LONDON_OPEN, mr_market_open = True, mr_structure = setup_structure\<rparr>"

lemma setup_market: "read_market no_dst setup_bars 28800000000 setup_config = Inr setup_market"
  by (simp add: read_market_def setup_read setup_atr setup_market_def killzone_at_def killzone_at_windows_def
      DEFAULT_WINDOWS_def kw_contains_def clock_def to_new_york_def ny_offset_def local_time_def local_date_def
      is_market_open_def weekday_def Let_def)

definition setup_log :: evaluation where
  "setup_log = \<lparr>ev_met = [''market_open'', ''killzone'', ''liquidity_sweep'', ''structure_shift''], ev_failed = []\<rparr>"

lemma setup_found: "find_setup setup_market setup_bars AgentContext setup_config = Go setup_sweep setup_log"
  by (simp add: find_setup_def Let_def demand_def check_def setup_market_def setup_sweep TRADING_KILLZONES_def
      shift_agrees_def setup_log_def) (simp add: setup_sweep_def setup_structure_def)

definition setup_location :: location where
  "setup_location =
     \<lparr>lo_entry = 96, lo_gap = Some setup_gap,
      lo_order_block = Some \<lparr>ob_direction = BUY, ob_low = 90, ob_high = 94, ob_index = 12, ob_time = 12\<rparr>,
      lo_position = DISCOUNT, lo_retracement = 7 / 10\<rparr>"

lemma setup_leg:
  "impulse_leg setup_bars setup_sweep BUY =
     Some \<lparr>dr_low = 90, dr_high = 110, dr_low_time = 12, dr_high_time = 14\<rparr>"
  by (simp add: impulse_leg_def setup_bars_def setup_sweep_def)

lemma setup_block:
  "find_order_block setup_bars 14 BUY 10 =
     Some \<lparr>ob_direction = BUY, ob_low = 90, ob_high = 94, ob_index = 12, ob_time = 12\<rparr>"
proof -
  have w: "[4..<14] = [4, 5, 6, 7, 8, 9, 10, 11, 12, 13 :: nat]" by (simp add: upt_rec)
  show ?thesis by (simp add: find_order_block_def w)
qed

lemma setup_entry:
  "\<exists>log. find_entry setup_quote setup_bars setup_config setup_sweep setup_log = Go setup_location log"
proof -
  have d: "ls_direction setup_sweep = BUY" by (simp add: setup_sweep_def)
  have g: "fv_direction setup_gap = BUY" "fv_created_index setup_gap = 14" "gap_contains setup_gap 96"
    by (simp_all add: setup_gap_def gap_contains_def)
  show ?thesis
    by (simp add: find_entry_def Let_def demand_Go d last_opt_def aligned_gap_def setup_gap g entry_price_def setup_block setup_leg
        position_of_def retracement_of_def range_size_def equilibrium_def decimal_eval in_ote_def setup_location_def)
qed

lemma setup_plan:
  "\<exists>log'. plan_prices setup_market eurusd AgentContext setup_config setup_sweep setup_location ev =
     Inr (Go \<lparr>pp_stop = 355 / 4, pp_target = 221 / 2\<rparr> log')"
proof -
  have d: "ls_direction setup_sweep = BUY" "ls_extreme setup_sweep = 90" "lo_entry setup_location = 96"
      "mr_atr setup_market = 5" "mr_structure setup_market = setup_structure"
    by (simp_all add: setup_sweep_def setup_location_def setup_market_def)
  have s: "ict_stop 5 eurusd AgentContext setup_config setup_sweep 96 = Inr (355 / 4, 29 / 4)"
    by (simp add: ict_stop_def Let_def d policy_floor_def decimal_eval quantize_price_def tick_size_for_digits_def
        quantize_def power_int_minus)
  have t: "liquidity_target setup_structure BUY 96 (29 / 4) setup_config = None"
  proof -
    have "ddiv (dabs (dsub 100 96)) (29 / 4) \<le> rnd 1"
      unfolding ddiv_def by (rule dec28.round_sig_mono) (simp add: decimal_eval)
    then have "ddiv (dabs (dsub 100 96)) (29 / 4) < 3 / 2" by (simp add: rnd_exact)
    then show ?thesis by (simp add: liquidity_target_def nearest_target_def setup_pools)
  qed
  show ?thesis
    by (simp add: plan_prices_def Let_def d s t check_def IctConditions_def decimal_eval quantize_price_def
        tick_size_for_digits_def quantize_def power_int_minus round_up_def)
qed

lemma ict_confidence_range: "0 \<le> ict_confidence n gap \<and> ict_confidence n gap \<le> 1"
proof -
  have one: "fl 1 = 1" using bin64.round_sig_powi [of 0] by simp
  have r: "0 \<le> round4 x \<and> round4 x \<le> 1" if "0 \<le> x" "x \<le> 1" for x
  proof -
    have "round_half_even (of_int 0) \<le> round_half_even (x * 10 ^ 4)"
      "round_half_even (x * 10 ^ 4) \<le> round_half_even (of_int 10000)"
      using that by (intro round_half_even_mono; simp)+
    then have "0 \<le> round_half_even (x * 10 ^ 4)" "round_half_even (x * 10 ^ 4) \<le> 10000"
      by (simp_all only: round_half_even_of_int)
    then have "0 \<le> of_int (round_half_even (x * 10 ^ 4)) / (10 ^ 4 :: rat)"
      "of_int (round_half_even (x * 10 ^ 4)) / (10 ^ 4 :: rat) \<le> 1"
      by simp_all
    then have "fl 0 \<le> round4 x" "round4 x \<le> fl 1" unfolding round4_def by (intro bin64.round_sig_mono; simp)+
    with one show ?thesis by simp
  qed
  have "0 \<le> fl (of_nat n / 8)" "0 \<le> fl (1 / 10)" by simp_all
  then show ?thesis unfolding ict_confidence_def Let_def by (intro r) (auto split: option.splits)
qed

lemma setup_proposal:
  "\<exists>d f i. propose sl (\<lambda>x. ''92'') setup_quote setup_bars AgentContext setup_config setup_market setup_sweep
      setup_location \<lparr>pp_stop = 355 / 4, pp_target = 221 / 2\<rparr> ev = Inr (d, f) \<and> sn_intent d = Some i"
proof -
  have d: "ls_direction setup_sweep = BUY" "lo_entry setup_location = 96" "lo_retracement setup_location = 7 / 10"
    by (simp_all add: setup_sweep_def setup_location_def)
  have q: "quantize (7 / 10) (1 / 100) ROUND_HALF_EVEN = Inr (7 / 10)"
    using round_half_even_of_int [of 70] by (simp add: quantize_def Let_def)
  have f: "ict_features_valid (full_features sl setup_quote setup_bars setup_market setup_sweep setup_location p ev)" for p
    by (simp add: ict_features_valid_def full_features_def base_features_def text_ok_def ICT_FEATURE_SET_VERSION_def)
  show ?thesis
    using ict_confidence_range
    by (simp add: propose_def Let_def f q d contract_def trade_intent_valid_def check_lifetime_def
        check_directional_requirements_def DIRECTIONAL_SIDES_def check_stop_direction_def text_ok_def
        ICT_ID_def ICT_VERSION_def)
qed


end
