(* ===== verification/Effects.thy ===== *)
theory Effects
  imports Prelude
begin

text \<open>
  Effectful code as state passing: a program takes the world it runs in and returns its
  result (a value, or the exception that left it) with the world it leaves behind, so an
  exception keeps the effects made before it. Two ways of reasoning about such programs are
  set up here: \<open>keeps R\<close>, that every run, normal or exceptional, relates its worlds by a
  preorder \<open>R\<close>, proved once for each building block in the locale \<open>effect_order\<close>; and the
  equations \<open>progE\<close> that take a successful run apart.
\<close>

type_synonym ('w, 'a) prog = "'w \<Rightarrow> (py_exn + 'a) \<times> 'w"

definition returnM :: "'a \<Rightarrow> ('w, 'a) prog" where
  "returnM x w = (Inr x, w)"

definition raiseM :: "py_exn \<Rightarrow> ('w, 'a) prog" where
  "raiseM e w = (Inl e, w)"

definition bindM :: "('w, 'a) prog \<Rightarrow> ('a \<Rightarrow> ('w, 'b) prog) \<Rightarrow> ('w, 'b) prog" where
  "bindM m f w = (case m w of (Inl e, w') \<Rightarrow> (Inl e, w') | (Inr x, w') \<Rightarrow> f x w')"

definition liftM :: "py_exn + 'a \<Rightarrow> ('w, 'a) prog" where
  \<comment> \<open>a pure computation that may raise\<close>
  "liftM r w = (r, w)"

definition getM :: "('w \<Rightarrow> 'a) \<Rightarrow> ('w, 'a) prog" where
  "getM f w = (Inr (f w), w)"

definition modifyM :: "('w \<Rightarrow> 'w) \<Rightarrow> ('w, unit) prog" where
  "modifyM f w = (Inr (), f w)"

definition catchM :: "('w, 'a) prog \<Rightarrow> (py_exn \<Rightarrow> ('w, 'a) prog option) \<Rightarrow> ('w, 'a) prog" where
  \<comment> \<open>\<^verbatim>\<open>try\<close>; the handler says which exceptions it catches\<close>
  "catchM m handler w =
     (case m w of
        (Inr x, w') \<Rightarrow> (Inr x, w')
      | (Inl e, w') \<Rightarrow> (case handler e of None \<Rightarrow> (Inl e, w') | Some h \<Rightarrow> h w'))"

definition whenM :: "bool \<Rightarrow> ('w, unit) prog \<Rightarrow> ('w, unit) prog" where
  "whenM b m = (if b then m else returnM ())"

fun forM :: "('a \<Rightarrow> ('w, 'b) prog) \<Rightarrow> 'a list \<Rightarrow> ('w, 'b list) prog" where
  "forM f [] = returnM []"
| "forM f (x # xs) = bindM (f x) (\<lambda>y. bindM (forM f xs) (\<lambda>ys. returnM (y # ys)))"

lemma returnM_run [simp]: "returnM x w = (Inr x, w)"
  and raiseM_run [simp]: "raiseM e w = (Inl e, w)"
  and liftM_run [simp]: "liftM r w = (r, w)"
  and getM_run [simp]: "getM g w = (Inr (g w), w)"
  and modifyM_run [simp]: "modifyM h w = (Inr (), h w)"
  by (simp_all add: returnM_def raiseM_def liftM_def getM_def modifyM_def)

lemma bindM_run: "m w = (Inr x, w') \<Longrightarrow> bindM m f w = f x w'"
  and bindM_raise: "m w = (Inl e, w') \<Longrightarrow> bindM m f w = (Inl e, w')"
  by (simp_all add: bindM_def)

lemma bindM_basic [simp]:
  "bindM (returnM x) f w = f x w"
  "bindM (raiseM e) f w = (Inl e, w)"
  "bindM (liftM (Inr x)) f w = f x w"
  "bindM (liftM (Inl e)) f w = (Inl e, w)"
  "bindM (getM g) f w = f (g w) w"
  by (simp_all add: bindM_def)

lemma bindM_modify [simp]: "bindM (modifyM h) f w = f () (h w)"
  by (simp add: bindM_def)

lemma bindM_eq_Inr:
  "bindM m f w = (Inr y, w'') \<longleftrightarrow> (\<exists>x w'. m w = (Inr x, w') \<and> f x w' = (Inr y, w''))"
  by (auto simp: bindM_def split: prod.splits sum.splits)

lemma catchM_eq_Inr:
  "catchM m h w = (Inr y, w'') \<longleftrightarrow>
     m w = (Inr y, w'') \<or> (\<exists>e w' g. m w = (Inl e, w') \<and> h e = Some g \<and> g w' = (Inr y, w''))"
  by (auto simp: catchM_def split: prod.splits sum.splits option.splits)

lemma whenM_eq_Inr: "whenM b m w = (Inr y, w') \<longleftrightarrow> (if b then m w = (Inr y, w') else w' = w)"
  by (auto simp: whenM_def)

lemmas progE = bindM_eq_Inr catchM_eq_Inr whenM_eq_Inr


subsection \<open>Effects up to a preorder\<close>

definition keeps :: "('w \<Rightarrow> 'w \<Rightarrow> bool) \<Rightarrow> ('w, 'a) prog \<Rightarrow> bool" where
  "keeps R m \<longleftrightarrow> (\<forall>w. R w (snd (m w)))"

lemma keepsD: "keeps R m \<Longrightarrow> m w = (r, w') \<Longrightarrow> R w w'"
  by (metis keeps_def snd_conv)

locale effect_order =
  fixes R :: "'w \<Rightarrow> 'w \<Rightarrow> bool"
  assumes same: "R w w"
    and join: "R w w' \<Longrightarrow> R w' w'' \<Longrightarrow> R w w''"
begin

lemma keeps_pure [simp, intro]:
  "keeps R (returnM x)" "keeps R (raiseM e)" "keeps R (liftM r)" "keeps R (getM g)"
  by (simp_all add: keeps_def same)

lemma keeps_modify: "(\<And>w. R w (h w)) \<Longrightarrow> keeps R (modifyM h)"
  by (simp add: keeps_def)

lemma keeps_bind: "keeps R m \<Longrightarrow> (\<And>x. keeps R (f x)) \<Longrightarrow> keeps R (bindM m f)"
  by (auto simp: keeps_def bindM_def split: prod.splits sum.splits) (metis join snd_conv)+

lemma keeps_bind_result:
  "keeps R m \<Longrightarrow> (\<And>x w w'. m w = (Inr x, w') \<Longrightarrow> keeps R (f x)) \<Longrightarrow> keeps R (bindM m f)"
  by (auto simp: keeps_def bindM_def split: prod.splits sum.splits) (metis join snd_conv)+

lemma keeps_liftM: "(\<And>x. r = Inr x \<Longrightarrow> keeps R (f x)) \<Longrightarrow> keeps R (bindM (liftM r) f)"
  by (rule keeps_bind_result) auto

lemma keeps_for_in: "(\<And>x. x \<in> set xs \<Longrightarrow> keeps R (f x)) \<Longrightarrow> keeps R (forM f xs)"
  by (induction xs) (auto intro!: keeps_bind)

lemma keeps_catch:
  "keeps R m \<Longrightarrow> (\<And>e g. h e = Some g \<Longrightarrow> keeps R g) \<Longrightarrow> keeps R (catchM m h)"
  by (auto simp: keeps_def catchM_def split: prod.splits sum.splits option.splits) (metis join snd_conv)+

lemma keeps_when: "keeps R m \<Longrightarrow> keeps R (whenM b m)"
  by (simp add: whenM_def)

lemma keeps_for: "(\<And>x. keeps R (f x)) \<Longrightarrow> keeps R (forM f xs)"
  by (induction xs) (auto intro!: keeps_bind)

lemma keeps_if: "(b \<Longrightarrow> keeps R m) \<Longrightarrow> (\<not> b \<Longrightarrow> keeps R m') \<Longrightarrow> keeps R (if b then m else m')"
  by simp

lemma keeps_option:
  "(x = None \<Longrightarrow> keeps R m) \<Longrightarrow> (\<And>y. x = Some y \<Longrightarrow> keeps R (f y)) \<Longrightarrow>
     keeps R (case x of None \<Rightarrow> m | Some y \<Rightarrow> f y)"
  by (cases x) simp_all

lemma keeps_list:
  "keeps R m \<Longrightarrow> (\<And>y ys. keeps R (f y ys)) \<Longrightarrow> keeps R (case xs of [] \<Rightarrow> m | y # ys \<Rightarrow> f y ys)"
  by (cases xs) simp_all

lemma keeps_pair: "(\<And>x y. keeps R (f x y)) \<Longrightarrow> keeps R (case p of (x, y) \<Rightarrow> f x y)"
  by (cases p) simp

lemmas keeps_rules = keeps_pure keeps_bind keeps_catch keeps_when keeps_for keeps_if keeps_option
  keeps_list keeps_pair

end

end
