(* ===== verification/Ledger.thy ===== *)
theory Ledger
  imports Models
begin

text \<open>
  The durable stores behind the execution tier: immutable requests and append-only events
  of executions (\<^verbatim>\<open>persistence/execution.py\<close>) and flattens
  (\<^verbatim>\<open>persistence/flatten.py\<close>), and the one-shot canary permits
  (\<^verbatim>\<open>persistence/canary_permit.py\<close>). A table is the list of its rows in the order of
  the \<^verbatim>\<open>sequence\<close> column. All six tables are written by one idiom, \<open>insert_once\<close>:
  \<^verbatim>\<open>INSERT ... ON CONFLICT DO NOTHING\<close>, then a comparison with the row that won;
  what this guarantees is the locale \<open>append_only\<close>, interpreted on each table.
\<close>

subsection \<open>Insert, or compare with the row that is there\<close>

definition insert_once ::
  "('r \<Rightarrow> 'k) \<Rightarrow> ('r \<Rightarrow> 'r \<Rightarrow> py_exn + bool) \<Rightarrow> 'r \<Rightarrow> 'r list \<Rightarrow> py_exn + bool \<times> 'r list" where
  \<comment> \<open>the flag says whether this call's insert is the one that won\<close>
  "insert_once key same row rows =
     (case find_first (\<lambda>r. key r = key row) rows of
        None \<Rightarrow> Inr (True, rows @ [row])
      | Some old \<Rightarrow>
          bindE (same row old) (\<lambda>ok. if ok then Inr (False, rows) else Inl ConflictError))"

locale append_only =
  fixes key :: "'r \<Rightarrow> 'k"
    and put :: "'r \<Rightarrow> 'r list \<Rightarrow> py_exn + bool \<times> 'r list"
  assumes put_new: "key row \<notin> key ` set rows \<Longrightarrow> put row rows = Inr (True, rows @ [row])"
    and put_old: "key row \<in> key ` set rows \<Longrightarrow> put row rows = Inr (won, rows') \<Longrightarrow> \<not> won \<and> rows' = rows"
begin

definition table_ok :: "'r list \<Rightarrow> bool" where
  "table_ok rows \<longleftrightarrow> distinct (map key rows)"

lemma put_cases:
  assumes "put row rows = Inr (won, rows')"
  shows "(won \<and> key row \<notin> key ` set rows \<and> rows' = rows @ [row]) \<or>
         (\<not> won \<and> key row \<in> key ` set rows \<and> rows' = rows)"
  using assms put_new put_old by (cases "key row \<in> key ` set rows") fastforce+

lemma put_ok: "put row rows = Inr (won, rows') \<Longrightarrow> table_ok rows \<Longrightarrow> table_ok rows'"
  by (auto simp: table_ok_def dest: put_cases)

lemma put_present: "put row rows = Inr (won, rows') \<Longrightarrow> key row \<in> key ` set rows'"
  by (auto dest: put_cases)

lemma put_extends: "put row rows = Inr (won, rows') \<Longrightarrow> \<exists>new. rows' = rows @ new"
  by (auto dest: put_cases)

lemma put_again: "put row rows = Inr (won, rows') \<Longrightarrow> put row' rows' = Inr (won', rows'') \<Longrightarrow>
    key row' = key row \<Longrightarrow> \<not> won' \<and> rows'' = rows'"
  using put_present put_old by metis

text \<open>Attempts, whichever of them raise.\<close>

definition attempt :: "'r \<Rightarrow> 'r list \<Rightarrow> 'r list" where
  "attempt row rows = (case put row rows of Inl e \<Rightarrow> rows | Inr res \<Rightarrow> snd res)"

lemma attempt_step: "table_ok rows \<Longrightarrow> table_ok (attempt row rows) \<and> (\<exists>new. attempt row rows = rows @ new)"
  by (auto simp: attempt_def put_ok put_extends split: sum.splits)

lemma attempts:
  assumes "table_ok rows"
  shows "table_ok (fold attempt attempted rows) \<and> (\<exists>new. fold attempt attempted rows = rows @ new)"
  using assms
proof (induction attempted arbitrary: rows)
  case (Cons row more)
  from attempt_step [OF Cons.prems, of row] obtain new where
    "table_ok (attempt row rows)" "attempt row rows = rows @ new" by blast
  with Cons.IH [of "attempt row rows"] show ?case by auto
qed simp

end

lemma find_key_None: "find_first (\<lambda>r. key r = k) rows = None \<longleftrightarrow> k \<notin> key ` set rows"
  by auto

lemma insert_once_new: "key row \<notin> key ` set rows \<Longrightarrow> insert_once key same row rows = Inr (True, rows @ [row])"
  by (simp add: insert_once_def find_key_None [symmetric] del: find_first_None)

lemma insert_once_old:
  "key row \<in> key ` set rows \<Longrightarrow> insert_once key same row rows = Inr (won, rows') \<Longrightarrow> \<not> won \<and> rows' = rows"
  by (cases "find_first (\<lambda>r. key r = key row) rows")
     (auto simp: insert_once_def bindE_eq_Inr find_key_None simp del: find_first_None split: if_splits)

lemma insert_once_append_only: "append_only key (insert_once key same)"
  by unfold_locales (erule insert_once_new, erule (1) insert_once_old)


subsection \<open>Execution requests\<close>

record execution_request =
  xr_order_request_id :: uuid
  xr_capsule_id :: uuid
  xr_intent_id :: uuid
  xr_fingerprint :: string
  xr_claimed_by :: string
  xr_claimed_at :: utc

definition claim_request ::
  "execution_request \<Rightarrow> execution_request list \<Rightarrow> py_exn + bool \<times> execution_request list" where
  "claim_request =
     insert_once xr_order_request_id (\<lambda>row old. Inr (xr_fingerprint old = xr_fingerprint row))"

definition request_of :: "execution_request list \<Rightarrow> uuid \<Rightarrow> execution_request option" where
  "request_of rows rid = find_first (\<lambda>r. xr_order_request_id r = rid) rows"

definition count_claimed :: "execution_request list \<Rightarrow> nat" where
  "count_claimed rows = length rows"

definition capsule_id_for :: "execution_request list \<Rightarrow> uuid \<Rightarrow> uuid option" where
  "capsule_id_for rows rid = map_option xr_capsule_id (request_of rows rid)"

definition order_request_id_for_intent :: "execution_request list \<Rightarrow> uuid \<Rightarrow> py_exn + uuid option" where
  \<comment> \<open>\<^verbatim>\<open>scalar_one_or_none\<close> raises when several requests carry the intent\<close>
  "order_request_id_for_intent rows intent =
     (case filter (\<lambda>r. xr_intent_id r = intent) rows of
        [] \<Rightarrow> Inr None
      | [r] \<Rightarrow> Inr (Some (xr_order_request_id r))
      | _ \<Rightarrow> Inl RuntimeError)"

interpretation request_table: append_only xr_order_request_id claim_request
  unfolding claim_request_def by (rule insert_once_append_only)


subsection \<open>Events\<close>

type_synonym payload = "(string \<times> json) list"

record 'e event_record =
  ev_event_id :: uuid
  ev_request_id :: uuid
  ev_event_type :: 'e
  ev_occurred_at :: utc
  ev_reason_codes :: "reason_code list"
  ev_detail :: "string option"
  ev_payload :: "payload option"

type_synonym execution_event_record = "execution_event_type event_record"
type_synonym flatten_event_record = "flatten_event_type event_record"

fun json_pyval :: "json \<Rightarrow> pyval" where
  "json_pyval JNull = PNone"
| "json_pyval (JBool b) = PBool b"
| "json_pyval (JInt i) = PInt i"
| "json_pyval (JFloat f) = PFloat f"
| "json_pyval (JStr s) = PStr s"
| "json_pyval (JArr xs) = PList (map json_pyval xs)"
| "json_pyval (JObj kvs) = PDict (map (\<lambda>kv. (fst kv, json_pyval (snd kv))) kvs)"

definition event_content :: "'e event_record \<Rightarrow> (string \<times> pyval) list" where
  "event_content row =
     [(''reason_codes'', PList (map (\<lambda>c. PStr (reason_value c)) (ev_reason_codes row))),
      (''detail'', opt_val PStr (ev_detail row)),
      (''payload'', opt_val (json_pyval \<circ> JObj) (ev_payload row))]"

definition same_content :: "stdlib \<Rightarrow> 'e event_record \<Rightarrow> 'e event_record \<Rightarrow> py_exn + bool" where
  "same_content sl row old =
     bindE (fingerprint sl (event_content row)) (\<lambda>new_fingerprint.
     mapE (\<lambda>existing. new_fingerprint = existing) (fingerprint sl (event_content old)))"

definition append_event ::
  "stdlib \<Rightarrow> 'e event_record \<Rightarrow> 'e event_record list \<Rightarrow> py_exn + bool \<times> 'e event_record list" where
  "append_event sl = insert_once ev_event_id (same_content sl)"

definition event_id_for :: "stdlib \<Rightarrow> uuid \<Rightarrow> execution_event_type \<Rightarrow> uuid" where
  "event_id_for sl rid t =
     uuid5_url sl (''crumblr:execution_event:'' @ rid @ '':'' @ execution_event_value t)"

definition execution_event ::
  "stdlib \<Rightarrow> uuid \<Rightarrow> execution_event_type \<Rightarrow> utc \<Rightarrow> reason_code list \<Rightarrow> string option \<Rightarrow> payload option \<Rightarrow>
     execution_event_record" where
  "execution_event sl rid t occ reasons detail payload =
     \<lparr>ev_event_id = event_id_for sl rid t, ev_request_id = rid, ev_event_type = t, ev_occurred_at = occ,
      ev_reason_codes = reasons, ev_detail = detail, ev_payload = payload\<rparr>"

definition events_for :: "'e event_record list \<Rightarrow> uuid \<Rightarrow> 'e event_record list" where
  "events_for rows rid = filter (\<lambda>r. ev_request_id r = rid) rows"

definition counts_by_type :: "execution_event_record list \<Rightarrow> execution_event_type \<Rightarrow> nat" where
  "counts_by_type rows t = length (filter (\<lambda>r. ev_event_type r = t) rows)"

definition latest_event :: "execution_event_record list \<Rightarrow> execution_event_record option" where
  "latest_event rows = last_opt rows"

interpretation event_table: append_only ev_event_id "append_event sl" for sl
  unfolding append_event_def by (rule insert_once_append_only)

text \<open>The join from an event through its request to the recorded decision.\<close>

definition in_market ::
  "execution_request list \<Rightarrow> decision_capsule list \<Rightarrow> environment option \<Rightarrow> string option \<Rightarrow> uuid \<Rightarrow> bool" where
  "in_market requests capsules env symbol rid =
     (case request_of requests rid of
        None \<Rightarrow> False
      | Some rq \<Rightarrow>
          (case find_first (\<lambda>c. dc_capsule_id c = xr_capsule_id rq) capsules of
             None \<Rightarrow> False
           | Some c \<Rightarrow> opt_ok (\<lambda>e. dc_environment c = e) env \<and>
                       opt_ok (\<lambda>s. dc_canonical_symbol c = s) symbol))"

definition market_events ::
  "execution_request list \<Rightarrow> decision_capsule list \<Rightarrow> environment option \<Rightarrow> string option \<Rightarrow>
     execution_event_record list \<Rightarrow> execution_event_record list" where
  "market_events requests capsules env symbol rows =
     (if env = None \<and> symbol = None then rows
      else filter (\<lambda>r. in_market requests capsules env symbol (ev_request_id r)) rows)"

definition count_events_since ::
  "execution_event_type \<Rightarrow> utc \<Rightarrow> execution_event_record list \<Rightarrow> nat" where
  "count_events_since t since rows =
     length (filter (\<lambda>r. ev_event_type r = t \<and> since \<le> ev_occurred_at r) rows)"

definition request_ids_with_event ::
  "execution_event_type \<Rightarrow> utc option \<Rightarrow> execution_event_record list \<Rightarrow> uuid list" where
  "request_ids_with_event t since rows =
     dedup (map ev_request_id
       (filter (\<lambda>r. ev_event_type r = t \<and> opt_ok (\<lambda>s. s \<le> ev_occurred_at r) since) rows))"


subsection \<open>Flatten occurrences\<close>

record flatten_request =
  fr_flatten_request_id :: uuid
  fr_environment :: environment
  fr_canonical_symbol :: string
  fr_trading_day :: int
  fr_session_close :: utc
  fr_flatten_deadline :: utc
  fr_fingerprint :: string
  fr_claimed_by :: string
  fr_claimed_at :: utc

definition flatten_request_id_for :: "stdlib \<Rightarrow> environment \<Rightarrow> string \<Rightarrow> int \<Rightarrow> uuid" where
  "flatten_request_id_for sl env symbol day =
     uuid5_url sl (''crumblr:flatten:'' @ environment_value env @ '':'' @ symbol @ '':'' @ date_iso sl day)"

primrec flatten_event_value :: "flatten_event_type \<Rightarrow> string" where
  "flatten_event_value FLATTEN_REQUEST_CLAIMED = ''FLATTEN_REQUEST_CLAIMED''"
| "flatten_event_value FLATTEN_GATE_BLOCKED = ''FLATTEN_GATE_BLOCKED''"
| "flatten_event_value FLATTEN_GATE_PASSED = ''FLATTEN_GATE_PASSED''"
| "flatten_event_value FLATTEN_SUBMISSION_STARTED = ''FLATTEN_SUBMISSION_STARTED''"
| "flatten_event_value FLATTEN_OUTCOME_RESOLVED = ''FLATTEN_OUTCOME_RESOLVED''"

definition flatten_event_id_for :: "stdlib \<Rightarrow> uuid \<Rightarrow> flatten_event_type \<Rightarrow> uuid" where
  "flatten_event_id_for sl rid t =
     uuid5_url sl (''crumblr:flatten_event:'' @ rid @ '':'' @ flatten_event_value t)"

definition flatten_event ::
  "stdlib \<Rightarrow> uuid \<Rightarrow> flatten_event_type \<Rightarrow> utc \<Rightarrow> reason_code list \<Rightarrow> string option \<Rightarrow> payload option \<Rightarrow>
     flatten_event_record" where
  "flatten_event sl rid t occ reasons detail payload =
     \<lparr>ev_event_id = flatten_event_id_for sl rid t, ev_request_id = rid, ev_event_type = t,
      ev_occurred_at = occ, ev_reason_codes = reasons, ev_detail = detail, ev_payload = payload\<rparr>"

definition claim_flatten ::
  "flatten_request \<Rightarrow> flatten_request list \<Rightarrow> py_exn + bool \<times> flatten_request list" where
  "claim_flatten =
     insert_once fr_flatten_request_id (\<lambda>row old. Inr (fr_fingerprint old = fr_fingerprint row))"

interpretation flatten_table: append_only fr_flatten_request_id claim_flatten
  unfolding claim_flatten_def by (rule insert_once_append_only)

definition occurrence_histories ::
  "flatten_request list \<Rightarrow> environment \<Rightarrow> string \<Rightarrow> flatten_event_record list \<Rightarrow>
     (uuid \<times> flatten_event_record list) list" where
  "occurrence_histories requests env symbol rows =
     (let occurrence = (\<lambda>rid. find_first (\<lambda>q. fr_flatten_request_id q = rid \<and> fr_environment q = env \<and>
                                              fr_canonical_symbol q = symbol) requests);
          scoped = filter (\<lambda>r. occurrence (ev_request_id r) \<noteq> None) rows;
          ordered = sort_key (\<lambda>r. case occurrence (ev_request_id r) of
                                    None \<Rightarrow> 0 | Some q \<Rightarrow> fr_trading_day q) scoped
      in map (\<lambda>rid. (rid, filter (\<lambda>r. ev_request_id r = rid) ordered)) (dedup (map ev_request_id ordered)))"


subsection \<open>Canary permits\<close>

record canary_permit_consumption =
  cc_permit_id :: uuid
  cc_order_request_id :: uuid
  cc_consumed_at :: utc

datatype consume_outcome = CONSUMED | ALREADY_CONSUMED | EXPIRED | NOT_FOUND

record consume_result =
  cr_outcome :: consume_outcome
  cr_consumption :: "canary_permit_consumption option"

definition issue_permit :: "canary_permit \<Rightarrow> canary_permit list \<Rightarrow> py_exn + bool \<times> canary_permit list" where
  "issue_permit = insert_once cp_permit_id (\<lambda>row old. Inr True)"

definition permit_for :: "canary_permit list \<Rightarrow> uuid \<Rightarrow> canary_permit option" where
  "permit_for permits pid = find_first (\<lambda>p. cp_permit_id p = pid) permits"

definition consumption_for ::
  "canary_permit_consumption list \<Rightarrow> uuid \<Rightarrow> canary_permit_consumption option" where
  "consumption_for rows pid = find_first (\<lambda>c. cc_permit_id c = pid) rows"

definition put_consumption ::
  "canary_permit_consumption \<Rightarrow> canary_permit_consumption list \<Rightarrow>
     py_exn + bool \<times> canary_permit_consumption list" where
  "put_consumption = insert_once cc_permit_id (\<lambda>row old. Inr True)"

definition consume_permit ::
  "canary_permit list \<Rightarrow> uuid \<Rightarrow> uuid \<Rightarrow> utc \<Rightarrow> canary_permit_consumption list \<Rightarrow>
     py_exn + consume_result \<times> canary_permit_consumption list" where
  "consume_permit permits pid rid now rows =
     (case permit_for permits pid of
        None \<Rightarrow> Inr (\<lparr>cr_outcome = NOT_FOUND, cr_consumption = None\<rparr>, rows)
      | Some permit \<Rightarrow>
          if cp_valid_until permit < now
          then Inr (\<lparr>cr_outcome = EXPIRED, cr_consumption = None\<rparr>, rows)
          else
            let row = \<lparr>cc_permit_id = pid, cc_order_request_id = rid, cc_consumed_at = now\<rparr> in
            bindE (put_consumption row rows) (\<lambda>(won, rows').
            if won then Inr (\<lparr>cr_outcome = CONSUMED, cr_consumption = Some row\<rparr>, rows')
            else Inr (\<lparr>cr_outcome = ALREADY_CONSUMED, cr_consumption = consumption_for rows pid\<rparr>, rows')))"

interpretation permit_table: append_only cp_permit_id issue_permit
  unfolding issue_permit_def by (rule insert_once_append_only)

interpretation consumption_table: append_only cc_permit_id put_consumption
  unfolding put_consumption_def by (rule insert_once_append_only)


subsection \<open>What the stores guarantee\<close>

fun append_attempts ::
  "stdlib \<Rightarrow> 'e event_record list \<Rightarrow> 'e event_record list \<Rightarrow> 'e event_record list" where
  "append_attempts sl [] rows = rows"
| "append_attempts sl (row # later) rows =
     append_attempts sl later (case append_event sl row rows of Inl e \<Rightarrow> rows | Inr res \<Rightarrow> snd res)"

lemma append_attempts_fold: "append_attempts sl attempted rows = fold (event_table.attempt sl) attempted rows"
  by (induction attempted arbitrary: rows) (simp_all add: event_table.attempt_def)

text \<open>
  The event log is append-once. Whatever sequence of appends is attempted, raising or
  not, from a log with one row per event identity: the log still has one row per identity,
  every earlier row is still there, unchanged and in its place, and a further append under
  a recorded identity either leaves the log alone or raises.
\<close>
theorem event_log_append_once:
  assumes "distinct (map ev_event_id rows)"
  shows "distinct (map ev_event_id (append_attempts sl attempted rows)) \<and>
    (\<exists>new. append_attempts sl attempted rows = rows @ new) \<and>
    (\<forall>old \<in> set rows. \<forall>row. ev_event_id row = ev_event_id old \<longrightarrow>
       (case append_event sl row (append_attempts sl attempted rows) of
          Inl e \<Rightarrow> True
        | Inr (won, rows') \<Rightarrow> \<not> won \<and> rows' = append_attempts sl attempted rows))"
proof -
  obtain new where run: "append_attempts sl attempted rows = rows @ new"
      "distinct (map ev_event_id (append_attempts sl attempted rows))"
    using event_table.attempts [of rows sl attempted] assms
    by (auto simp: append_attempts_fold event_table.table_ok_def)
  have "\<not> won \<and> rows' = rows @ new"
    if "old \<in> set rows" "ev_event_id row = ev_event_id old" "append_event sl row (rows @ new) = Inr (won, rows')"
    for old row won rows'
    using event_table.put_old [OF _ that(3)] that(1,2) by force
  then show ?thesis using run by (auto split: sum.splits)
qed

lemma same_content_refl:
  "opt_ok (\<lambda>p. encodable (json_pyval (JObj p))) (ev_payload row) \<Longrightarrow> same_content sl row row = Inr True"
  using fingerprint_total [of "event_content row" sl]
  by (auto simp: same_content_def event_content_def opt_val_def list_all_iff split: option.splits)

definition started_event :: "uuid \<Rightarrow> string option \<Rightarrow> execution_event_record" where
  "started_event rid detail =
     execution_event sample_stdlib rid SUBMISSION_STARTED 0 [] detail (Some [(''volume'', JStr ''0.10'')])"

theorem event_log_append_once_witness:
  "append_attempts sample_stdlib [started_event ''b'' None, started_event ''a'' None]
     [started_event ''a'' None] = [started_event ''a'' None, started_event ''b'' None] \<and>
   distinct (map ev_event_id (append_attempts sample_stdlib
     [started_event ''b'' None, started_event ''a'' None] [started_event ''a'' None]))"
proof
  show "distinct (map ev_event_id (append_attempts sample_stdlib
     [started_event ''b'' None, started_event ''a'' None] [started_event ''a'' None]))"
    by (rule event_log_append_once [THEN conjunct1]) simp
  show "append_attempts sample_stdlib [started_event ''b'' None, started_event ''a'' None]
     [started_event ''a'' None] = [started_event ''a'' None, started_event ''b'' None]"
    by (simp add: append_event_def insert_once_def same_content_refl started_event_def execution_event_def
        event_id_for_def sample_stdlib_def)
qed

text \<open>Attempts to consume permits, in whatever order the database serialises them.\<close>

fun consume_attempts ::
  "canary_permit list \<Rightarrow> (uuid \<times> uuid \<times> utc) list \<Rightarrow> canary_permit_consumption list \<Rightarrow>
     (uuid \<times> consume_outcome) list" where
  "consume_attempts permits [] rows = []"
| "consume_attempts permits ((pid, rid, now) # later) rows =
     (case consume_permit permits pid rid now rows of
        Inl e \<Rightarrow> consume_attempts permits later rows
      | Inr (res, rows') \<Rightarrow> (pid, cr_outcome res) # consume_attempts permits later rows')"

lemma consume_permit_CONSUMED:
  assumes "consume_permit permits pid rid now rows = Inr (res, rows')" "cr_outcome res = CONSUMED"
  shows "pid \<notin> cc_permit_id ` set rows \<and>
    rows' = rows @ [\<lparr>cc_permit_id = pid, cc_order_request_id = rid, cc_consumed_at = now\<rparr>] \<and>
    (\<exists>permit. permit_for permits pid = Some permit \<and> now \<le> cp_valid_until permit)"
  using assms consumption_table.put_cases
  by (auto simp: consume_permit_def Let_def bindE_eq_Inr split: option.splits if_splits) fastforce+

lemma consume_permit_other:
  assumes "consume_permit permits pid rid now rows = Inr (res, rows')" "cr_outcome res \<noteq> CONSUMED"
  shows "rows' = rows"
  using assms consumption_table.put_cases
  by (auto simp: consume_permit_def Let_def bindE_eq_Inr split: option.splits if_splits)

text \<open>
  A canary permit is spent at most once, and only while it is issued and valid: over any
  sequence of consumption attempts by any requests, a permit already consumed is never
  consumed again, and any other permit is consumed by at most one of them.
\<close>
theorem permit_consumed_once:
  "length (filter (\<lambda>a. a = (pid, CONSUMED)) (consume_attempts permits attempts rows)) \<le>
     (if pid \<notin> cc_permit_id ` set rows \<and> permit_for permits pid \<noteq> None \<and>
         list_ex (\<lambda>(p, r, now). p = pid \<and> now \<le> cp_valid_until (the (permit_for permits pid))) attempts
      then 1 else 0)"
proof (induction permits attempts rows rule: consume_attempts.induct)
  case (2 permits p rid now later rows)
  show ?case
  proof (cases "consume_permit permits p rid now rows")
    case (Inl e)
    then show ?thesis using "2.IH"(1) by (auto split: if_splits)
  next
    case (Inr r)
    obtain res rows' where pair: "(res, rows') = r" by (metis surj_pair)
    note r = Inr [folded pair]
    note IH = "2.IH"(2) [OF Inr pair] and C = consume_permit_CONSUMED [OF r] and N = consume_permit_other [OF r]
    show ?thesis
    proof (cases "p = pid \<and> cr_outcome res = CONSUMED")
      case True
      with C have "pid \<notin> cc_permit_id ` set rows" "pid \<in> cc_permit_id ` set rows'"
          "\<exists>permit. permit_for permits pid = Some permit \<and> now \<le> cp_valid_until permit"
        by auto
      then show ?thesis using IH r True by auto
    next
      case False
      have "pid \<in> cc_permit_id ` set rows \<Longrightarrow> pid \<in> cc_permit_id ` set rows'"
        using C N by (cases "cr_outcome res = CONSUMED") auto
      then show ?thesis using IH r False by (auto split: if_splits)
    qed
  qed
qed simp

end
