(* ===== verification/KillSwitch.thy ===== *)
theory KillSwitch
  imports Models
begin

text \<open>
  The durable halt: the recorded safety state and its stores
  (\<^verbatim>\<open>risk/safety_state.py\<close>), the kill switch
  (\<^verbatim>\<open>risk/kill_switch.py\<close>) and the operator controls
  (\<^verbatim>\<open>risk/operator_controls.py\<close>).

  An operation that changes state takes the state it works on and returns its result (a
  value or the exception it raises) with the state it leaves behind. The
  \<^verbatim>\<open>SafetyStateStore\<close> protocol is the record \<open>store_ops\<close>; what an
  implementation promises is the locale \<open>safety_store\<close>, interpreted on the file store and
  on the in-memory store. The clock is an argument.
\<close>

subsection \<open>The recorded safety state\<close>

definition SCHEMA_VERSION :: int where "SCHEMA_VERSION = 1"

text \<open>
  \<^verbatim>\<open>tripped_by\<close> and \<^verbatim>\<open>detail\<close> are read back from the file unchecked, so they
  hold whatever JSON value stood there; \<open>JNull\<close> is Python's \<^verbatim>\<open>None\<close>.
\<close>

record safety_state =
  ss_state :: kill_switch_state
  ss_reason_codes :: "reason_code list"
  ss_recorded_at :: utc
  ss_tripped_by :: json
  ss_detail :: json
  ss_schema_version :: int

definition permits_new_orders :: "safety_state \<Rightarrow> bool" where
  "permits_new_orders s \<longleftrightarrow> ss_state s = RUNNING"

definition to_payload :: "stdlib \<Rightarrow> safety_state \<Rightarrow> json" where
  "to_payload sl s = JObj
     [(''schema_version'', JInt (ss_schema_version s)),
      (''state'', JStr (kill_switch_state_value (ss_state s))),
      (''reason_codes'', JArr (map (\<lambda>c. JStr (reason_value c)) (ss_reason_codes s))),
      (''recorded_at_utc'', JStr (iso_format sl (ss_recorded_at s))),
      (''tripped_by'', ss_tripped_by s),
      (''detail'', ss_detail s)]"

definition unknown_state :: "utc \<Rightarrow> string \<Rightarrow> safety_state" where
  \<comment> \<open>the detail texts are kept without the parts interpolated into them\<close>
  "unknown_state now detail =
     \<lparr>ss_state = KS_UNKNOWN, ss_reason_codes = [SAFETY_STATE_UNKNOWN], ss_recorded_at = now,
      ss_tripped_by = JStr ''startup_guard'', ss_detail = JStr detail,
      ss_schema_version = SCHEMA_VERSION\<rparr>"

text \<open>What reading the file can give: it is missing, unreadable, not UTF-8, not JSON, or a document.\<close>

datatype file_content = Absent | Unreadable | NotUtf8 | NotJson | Document json

definition json_is_one :: "json \<Rightarrow> bool" where
  \<comment> \<open>\<^verbatim>\<open>value == 1\<close>, which Python's \<^verbatim>\<open>True\<close> and \<^verbatim>\<open>1.0\<close> satisfy as well\<close>
  "json_is_one j \<longleftrightarrow> j = JInt 1 \<or> j = JFloat 1 \<or> j = JBool True"

definition py_get :: "(string \<times> json) list \<Rightarrow> string \<Rightarrow> json" where
  "py_get kvs k = (case map_of kvs k of None \<Rightarrow> JNull | Some v \<Rightarrow> v)"

definition py_index :: "(string \<times> json) list \<Rightarrow> string \<Rightarrow> py_exn + json" where
  "py_index kvs k = (case map_of kvs k of None \<Rightarrow> Inl KeyError | Some v \<Rightarrow> Inr v)"

definition read_state :: "json \<Rightarrow> py_exn + kill_switch_state" where
  "read_state j =
     (case j of JStr s \<Rightarrow> (case kill_switch_state_of_value s of None \<Rightarrow> Inl ValueError | Some x \<Rightarrow> Inr x)
              | _ \<Rightarrow> Inl ValueError)"

definition read_reason :: "json \<Rightarrow> py_exn + reason_code" where
  "read_reason j =
     (case j of JStr s \<Rightarrow> (case reason_of_value s of None \<Rightarrow> Inl ValueError | Some x \<Rightarrow> Inr x)
              | _ \<Rightarrow> Inl ValueError)"

definition json_iter :: "json \<Rightarrow> py_exn + json list" where
  \<comment> \<open>iterating a list, the characters of a string, or the keys of an object\<close>
  "json_iter j =
     (case j of JArr xs \<Rightarrow> Inr xs
              | JStr s \<Rightarrow> Inr (map (\<lambda>c. JStr [c]) s)
              | JObj kvs \<Rightarrow> Inr (map (\<lambda>kv. JStr (fst kv)) kvs)
              | _ \<Rightarrow> Inl TypeError)"

definition parse_time :: "stdlib \<Rightarrow> json \<Rightarrow> py_exn + utc" where
  "parse_time sl j =
     (case j of JStr s \<Rightarrow> (case iso_parse sl s of None \<Rightarrow> Inl ValueError | Some t \<Rightarrow> Inr t)
              | _ \<Rightarrow> Inl TypeError)"

definition decode_state :: "stdlib \<Rightarrow> (string \<times> json) list \<Rightarrow> py_exn + safety_state" where
  "decode_state sl payload =
     bindE (bindE (py_index payload ''state'') read_state) (\<lambda>st.
     bindE (bindE (py_index payload ''reason_codes'') json_iter) (\<lambda>codes.
     bindE (traverseE read_reason codes) (\<lambda>reasons.
     bindE (bindE (py_index payload ''recorded_at_utc'') (parse_time sl)) (\<lambda>t.
     Inr \<lparr>ss_state = st, ss_reason_codes = reasons, ss_recorded_at = t,
          ss_tripped_by = py_get payload ''tripped_by'', ss_detail = py_get payload ''detail'',
          ss_schema_version = SCHEMA_VERSION\<rparr>))))"

definition load_file :: "stdlib \<Rightarrow> utc \<Rightarrow> file_content \<Rightarrow> py_exn + safety_state" where
  \<comment> \<open>\<^verbatim>\<open>UnicodeDecodeError\<close> is a \<^verbatim>\<open>ValueError\<close> that no clause of \<^verbatim>\<open>load\<close> catches\<close>
  "load_file sl now content =
     (case content of
        Absent \<Rightarrow> Inr (unknown_state now ''no safety state recorded'')
      | Unreadable \<Rightarrow> Inr (unknown_state now ''safety state is unreadable'')
      | NotUtf8 \<Rightarrow> Inl ValueError
      | NotJson \<Rightarrow> Inr (unknown_state now ''safety state is unreadable'')
      | Document j \<Rightarrow>
          (case j of
             JObj payload \<Rightarrow>
               if \<not> json_is_one (py_get payload ''schema_version'')
               then Inr (unknown_state now ''safety state schema is not the expected'')
               else (case decode_state sl payload of
                       Inl e \<Rightarrow> Inr (unknown_state now ''safety state is malformed'')
                     | Inr s \<Rightarrow> Inr s)
           | _ \<Rightarrow> Inr (unknown_state now ''safety state is not an object'')))"


subsection \<open>Stores\<close>

record 's store_ops =
  st_load :: "utc \<Rightarrow> 's \<Rightarrow> py_exn + safety_state"
  st_save :: "safety_state \<Rightarrow> 's \<Rightarrow> (py_exn + unit) \<times> 's"

text \<open>
  The file store on a directory holding the record and perhaps a temporary file. A save is
  a script of file-system calls; \<open>fs_fault\<close> is the call the environment lets fail next.
\<close>

record file_system =
  fs_record :: file_content
  fs_temp :: "file_content option"
  fs_fault :: "nat option"

datatype io_call = MkTemp | WriteTemp json | SyncTemp | ReplaceRecord

fun io_apply :: "io_call \<Rightarrow> file_system \<Rightarrow> file_system" where
  "io_apply MkTemp fs = fs\<lparr>fs_temp := Some NotJson\<rparr>"
| "io_apply (WriteTemp j) fs = fs\<lparr>fs_temp := Some (Document j)\<rparr>"
| "io_apply SyncTemp fs = fs"
| "io_apply ReplaceRecord fs =
     fs\<lparr>fs_record := (case fs_temp fs of None \<Rightarrow> fs_record fs | Some c \<Rightarrow> c), fs_temp := None\<rparr>"

definition save_script :: "stdlib \<Rightarrow> safety_state \<Rightarrow> io_call list" where
  "save_script sl s = [MkTemp, WriteTemp (to_payload sl s), SyncTemp, ReplaceRecord]"

definition after_calls :: "nat \<Rightarrow> stdlib \<Rightarrow> safety_state \<Rightarrow> file_system \<Rightarrow> file_system" where
  \<comment> \<open>the directory when the process dies after the first \<open>k\<close> calls of a save\<close>
  "after_calls k sl s fs = fold io_apply (take k (save_script sl s)) fs"

definition save_file :: "stdlib \<Rightarrow> safety_state \<Rightarrow> file_system \<Rightarrow> (py_exn + unit) \<times> file_system" where
  "save_file sl s fs =
     (case fs_fault fs of
        Some k \<Rightarrow> if k < length (save_script sl s)
                  then (Inl OSError, (after_calls k sl s fs)\<lparr>fs_temp := None\<rparr>)
                  else (Inr (), after_calls 4 sl s fs)
      | None \<Rightarrow> (Inr (), after_calls 4 sl s fs))"

definition FileSafetyStateStore :: "stdlib \<Rightarrow> file_system store_ops" where
  "FileSafetyStateStore sl =
     \<lparr>st_load = (\<lambda>now fs. load_file sl now (fs_record fs)), st_save = save_file sl\<rparr>"

definition InMemorySafetyStateStore :: "safety_state option store_ops" where
  "InMemorySafetyStateStore =
     \<lparr>st_load = (\<lambda>now s. case s of None \<Rightarrow> Inr (unknown_state now ''no safety state recorded in memory'')
                                 | Some x \<Rightarrow> Inr x),
      st_save = (\<lambda>x s. (Inr (), Some x))\<rparr>"


subsection \<open>The kill switch\<close>

record halt_record =
  hr_occurred_at :: utc
  hr_reason_codes :: "reason_code list"
  hr_tripped_by :: json
  hr_detail :: json

record kill_switch =
  ks_state :: kill_switch_state
  ks_history :: "halt_record list"
  ks_startup_detail :: json

definition new_kill_switch :: kill_switch where
  "new_kill_switch = \<lparr>ks_state = RUNNING, ks_history = [], ks_startup_detail = JNull\<rparr>"

fun json_truthy :: "json \<Rightarrow> bool" where
  "json_truthy JNull = False"
| "json_truthy (JBool b) = b"
| "json_truthy (JInt i) = (i \<noteq> 0)"
| "json_truthy (JFloat f) = (f \<noteq> 0)"
| "json_truthy (JStr s) = (s \<noteq> [])"
| "json_truthy (JArr xs) = (xs \<noteq> [])"
| "json_truthy (JObj kvs) = (kvs \<noteq> [])"

definition startup_from :: "safety_state \<Rightarrow> kill_switch" where
  "startup_from recorded =
     (if permits_new_orders recorded then new_kill_switch
      else \<lparr>ks_state = (if ss_state recorded = HALTED then HALTED else KS_UNKNOWN),
            ks_history = [\<lparr>hr_occurred_at = ss_recorded_at recorded,
                           hr_reason_codes = (if ss_reason_codes recorded = []
                                              then [SAFETY_STATE_UNKNOWN] else ss_reason_codes recorded),
                           hr_tripped_by = (if json_truthy (ss_tripped_by recorded)
                                            then ss_tripped_by recorded else JStr ''startup_guard''),
                           hr_detail = ss_detail recorded\<rparr>],
            ks_startup_detail = ss_detail recorded\<rparr>)"

definition on_startup :: "'s store_ops \<Rightarrow> utc \<Rightarrow> 's \<Rightarrow> py_exn + kill_switch" where
  "on_startup ops now store = mapE startup_from (st_load ops now store)"

definition is_halted :: "kill_switch \<Rightarrow> bool" where
  "is_halted sw \<longleftrightarrow> ks_state sw \<noteq> RUNNING"

definition active_reasons :: "kill_switch \<Rightarrow> reason_code list" where
  "active_reasons sw =
     (if ks_history sw \<noteq> [] \<and> is_halted sw then hr_reason_codes (last (ks_history sw)) else [])"

definition halted_state :: "reason_code list \<Rightarrow> string \<Rightarrow> utc \<Rightarrow> json \<Rightarrow> safety_state" where
  "halted_state reasons tripped_by occ detail =
     \<lparr>ss_state = HALTED, ss_reason_codes = reasons, ss_recorded_at = occ,
      ss_tripped_by = JStr tripped_by, ss_detail = detail, ss_schema_version = SCHEMA_VERSION\<rparr>"

definition trip ::
  "'s store_ops \<Rightarrow> reason_code list \<Rightarrow> string \<Rightarrow> utc \<Rightarrow> json \<Rightarrow> kill_switch \<times> 's \<Rightarrow>
     (py_exn + halt_record) \<times> (kill_switch \<times> 's)" where
  "trip ops reasons tripped_by occ detail st =
     (case st of (sw, store) \<Rightarrow>
        if reasons = [] then (Inl ValueError, st)
        else
          let rec = \<lparr>hr_occurred_at = occ, hr_reason_codes = reasons, hr_tripped_by = JStr tripped_by,
                     hr_detail = detail\<rparr>
          in case st_save ops (halted_state reasons tripped_by occ detail) store of
               (Inl e, store') \<Rightarrow> (Inl e, sw, store')
             | (Inr u, store') \<Rightarrow>
                 (Inr rec, sw\<lparr>ks_history := ks_history sw @ [rec], ks_state := HALTED\<rparr>, store'))"

definition running_state :: "string \<Rightarrow> string \<Rightarrow> utc \<Rightarrow> safety_state" where
  "running_state operator note now =
     \<lparr>ss_state = RUNNING, ss_reason_codes = [], ss_recorded_at = now, ss_tripped_by = JStr operator,
      ss_detail = JStr (''reset by '' @ operator @ '': '' @ note), ss_schema_version = SCHEMA_VERSION\<rparr>"

definition reset ::
  "'s store_ops \<Rightarrow> string \<Rightarrow> string \<Rightarrow> utc \<Rightarrow> kill_switch \<times> 's \<Rightarrow> (py_exn + unit) \<times> (kill_switch \<times> 's)" where
  "reset ops operator note now st =
     (case st of (sw, store) \<Rightarrow>
        if blank operator then (Inl ValueError, st)
        else if blank note then (Inl ValueError, st)
        else case st_save ops (running_state operator note now) store of
               (Inl e, store') \<Rightarrow> (Inl e, sw, store')
             | (Inr u, store') \<Rightarrow>
                 (Inr (), sw\<lparr>ks_state := RUNNING, ks_startup_detail := JNull\<rparr>, store'))"

text \<open>
  A process and its store over time. Any component may trip, an operator may reset, the
  process may restart, and the environment may touch the store without changing what it
  holds.
\<close>

datatype ks_label = KTrip | KReset string string | KRestart | KEnvironment

inductive ks_step :: "'s store_ops \<Rightarrow> kill_switch \<times> 's \<Rightarrow> ks_label \<Rightarrow> kill_switch \<times> 's \<Rightarrow> bool"
  for ops where
  ks_trip: "trip ops reasons who occ detail st = (r, st') \<Longrightarrow> ks_step ops st KTrip st'"
| ks_reset: "reset ops operator note now st = (r, st') \<Longrightarrow> ks_step ops st (KReset operator note) st'"
| ks_restart: "on_startup ops now store = Inr sw' \<Longrightarrow> ks_step ops (sw, store) KRestart (sw', store)"
| ks_environment: "(\<And>now. st_load ops now store' = st_load ops now store) \<Longrightarrow>
     ks_step ops (sw, store) KEnvironment (sw, store')"

inductive ks_run :: "'s store_ops \<Rightarrow> kill_switch \<times> 's \<Rightarrow> ks_label list \<Rightarrow> kill_switch \<times> 's \<Rightarrow> bool"
  for ops where
  ks_done: "ks_run ops st [] st"
| ks_more: "ks_step ops st l st' \<Longrightarrow> ks_run ops st' ls st'' \<Longrightarrow> ks_run ops st (l # ls) st''"

definition operator_reset :: "ks_label \<Rightarrow> bool" where
  "operator_reset l \<longleftrightarrow> (\<exists>op note. l = KReset op note \<and> \<not> blank op \<and> \<not> blank note)"

inductive_simps ks_run_Cons: "ks_run ops st (l # ls) st''"
inductive_simps ks_run_Nil: "ks_run ops st [] st'"


subsection \<open>What a store promises, and what the kill switch makes of it\<close>

locale safety_store =
  fixes ops :: "'s store_ops"
  assumes save_ok: "st_save ops x s = (Inr u, s') \<Longrightarrow>
      \<exists>y. st_load ops now s' = Inr y \<and> (permits_new_orders y \<longrightarrow> permits_new_orders x)"
    and save_raises: "st_save ops x s = (Inl e, s') \<Longrightarrow> st_load ops now s' = st_load ops now s"
begin

definition durably_halted :: "kill_switch \<times> 's \<Rightarrow> bool" where
  "durably_halted st \<longleftrightarrow> is_halted (fst st) \<and>
     (\<forall>now. \<exists>y. st_load ops now (snd st) = Inr y \<and> \<not> permits_new_orders y)"

lemma startup_halted: "\<not> permits_new_orders y \<Longrightarrow> is_halted (startup_from y)"
  by (auto simp: startup_from_def is_halted_def permits_new_orders_def)

lemma trip_durable: "trip ops reasons who occ detail st = (Inr r, st') \<Longrightarrow> durably_halted st'"
  using save_ok
  by (auto simp: trip_def Let_def durably_halted_def is_halted_def halted_state_def permits_new_orders_def
      split: prod.splits if_splits sum.splits) fastforce

lemma failed_trip_keeps:
  "trip ops reasons who occ detail st = (Inl e, st') \<Longrightarrow> durably_halted st \<Longrightarrow> durably_halted st'"
  using save_raises
  by (auto simp: trip_def Let_def durably_halted_def split: prod.splits if_splits sum.splits)

lemma reset_needs_operator:
  "reset ops op note now st = (r, st') \<Longrightarrow> blank op \<or> blank note \<Longrightarrow> r = Inl ValueError \<and> st' = st"
  by (auto simp: reset_def split: prod.splits if_splits)

lemma step_keeps_halt:
  assumes "ks_step ops st l st'" "\<not> operator_reset l" "durably_halted st"
  shows "durably_halted st'"
  using assms(1)
proof (cases rule: ks_step.cases)
  case (ks_trip reasons who occ detail r)
  with trip_durable failed_trip_keeps assms(3) show ?thesis by (cases r) blast+
next
  case (ks_reset operator incident now r)
  with assms(2,3) reset_needs_operator show ?thesis by (metis operator_reset_def)
next
  case (ks_restart now store sw' sw)
  with assms(3) startup_halted show ?thesis
    by (auto simp: durably_halted_def on_startup_def mapE_eq_Inr) (metis sum.inject(2))
next
  case (ks_environment store' store sw)
  with assms(3) show ?thesis by (simp add: durably_halted_def)
qed

lemma run_keeps_halt:
  "ks_run ops st ls st' \<Longrightarrow> list_all (\<lambda>l. \<not> operator_reset l) ls \<Longrightarrow> durably_halted st \<Longrightarrow> durably_halted st'"
  by (induction rule: ks_run.induct) (auto dest: step_keeps_halt)

lemma halt_survives:
  assumes "trip ops reasons who occ detail st = (Inr r, st')" "ks_run ops st' ls (sw, store)"
    and "list_all (\<lambda>l. \<not> operator_reset l) ls"
  shows "is_halted sw \<and> (\<forall>now. \<exists>sw'. on_startup ops now store = Inr sw' \<and> is_halted sw')"
proof -
  have "durably_halted (sw, store)" using run_keeps_halt [OF assms(2,3) trip_durable [OF assms(1)]] .
  then show ?thesis
    by (auto simp: durably_halted_def on_startup_def mapE_eq_Inr) (metis startup_halted)
qed

end


subsection \<open>The two stores keep the promise\<close>

lemma traverse_reasons: "traverseE read_reason (map (\<lambda>c. JStr (reason_value c)) cs) = Inr cs"
  by (induction cs) (simp_all add: read_reason_def)

lemma decode_payload:
  "to_payload sl x = JObj kvs \<Longrightarrow>
     decode_state sl kvs =
       (case iso_parse sl (iso_format sl (ss_recorded_at x)) of
          None \<Rightarrow> Inl ValueError
        | Some t \<Rightarrow> Inr (x\<lparr>ss_recorded_at := t, ss_schema_version := SCHEMA_VERSION\<rparr>))"
  unfolding to_payload_def json.inject
  by (drule sym, cases x)
     (simp add: decode_state_def py_index_def py_get_def read_state_def parse_time_def
        json_iter_def traverse_reasons split: option.split)

lemma load_saved:
  "load_file sl now (Document (to_payload sl x)) =
     (if ss_schema_version x \<noteq> 1
      then Inr (unknown_state now ''safety state schema is not the expected'')
      else case iso_parse sl (iso_format sl (ss_recorded_at x)) of
          None \<Rightarrow> Inr (unknown_state now ''safety state is malformed'')
        | Some t \<Rightarrow> Inr (x\<lparr>ss_recorded_at := t, ss_schema_version := SCHEMA_VERSION\<rparr>))"
proof -
  obtain kvs where kvs: "to_payload sl x = JObj kvs" by (simp add: to_payload_def)
  then have "py_get kvs ''schema_version'' = JInt (ss_schema_version x)"
    by (auto simp: to_payload_def py_get_def)
  with kvs decode_payload [OF kvs] show ?thesis
    by (simp add: load_file_def json_is_one_def split: option.splits)
qed

lemma unknown_refuses [simp]: "\<not> permits_new_orders (unknown_state now d)"
  by (simp add: unknown_state_def permits_new_orders_def)

lemma after_calls_record:
  "k < 4 \<Longrightarrow> fs_record (after_calls k sl x fs) = fs_record fs"
  "fs_record (after_calls 4 sl x fs) = Document (to_payload sl x)"
  by (auto simp: after_calls_def save_script_def less_Suc_eq numeral_eq_Suc)

interpretation file_store: safety_store "FileSafetyStateStore sl" for sl
proof (unfold_locales, goal_cases)
  case (1 x s u s' now)
  then have "fs_record s' = Document (to_payload sl x)"
    by (auto simp: FileSafetyStateStore_def save_file_def after_calls_record split: option.splits if_splits)
  then show ?case
    by (auto simp: FileSafetyStateStore_def load_saved permits_new_orders_def unknown_state_def
        split: option.splits)
next
  case (2 x s e s' now)
  then have "fs_record s' = fs_record s"
    by (auto simp: FileSafetyStateStore_def save_file_def after_calls_record save_script_def
        split: option.splits if_splits)
  then show ?case by (simp add: FileSafetyStateStore_def)
qed

interpretation memory_store: safety_store InMemorySafetyStateStore
  by unfold_locales (auto simp: InMemorySafetyStateStore_def)

text \<open>
  C10. A halt survives: once a trip has returned, then after any sequence of further trips
  (successful or failing), restarts, resets that lack an operator or an incident note, and
  events that leave the record as it is, the switch is halted, and a process that starts
  from the file finds it halted. Only a reset naming an operator and an incident note ends it.
\<close>

theorem halt_survives_restart:
  assumes "trip (FileSafetyStateStore sl) reasons who occ detail st = (Inr r, st')"
    and "ks_run (FileSafetyStateStore sl) st' ls (sw, fs)"
    and "list_all (\<lambda>l. \<not> operator_reset l) ls"
  shows "is_halted sw \<and>
         (\<forall>now. \<exists>sw'. on_startup (FileSafetyStateStore sl) now fs = Inr sw' \<and> is_halted sw')"
  using file_store.halt_survives [OF assms] .

definition empty_directory :: file_system where
  "empty_directory = \<lparr>fs_record = Absent, fs_temp = None, fs_fault = None\<rparr>"

lemma halt_survives_restart_witness:
  "\<exists>st' sw. snd (trip (FileSafetyStateStore sample_stdlib) [MANUAL_HALT] ''ops'' 0 JNull
              (new_kill_switch, empty_directory)) = st' \<and>
      ks_run (FileSafetyStateStore sample_stdlib) st' [KReset [] ''done'', KRestart] (sw, snd st') \<and>
      is_halted sw"
proof -
  let ?ops = "FileSafetyStateStore sample_stdlib"
  obtain r st' where t: "trip ?ops [MANUAL_HALT] ''ops'' 0 JNull (new_kill_switch, empty_directory)
      = (Inr r, st')"
    by (simp add: trip_def FileSafetyStateStore_def save_file_def empty_directory_def Let_def)
  have dur: "file_store.durably_halted sample_stdlib st'" by (rule file_store.trip_durable [OF t])
  then obtain y where y: "st_load ?ops 0 (snd st') = Inr y"
    unfolding file_store.durably_halted_def by blast
  have b: "blank []" by (simp add: blank_iff)
  have "ks_step ?ops st' (KReset [] ''done'') st'"
    by (rule ks_reset [of _ _ _ 0 _ "Inl ValueError"]) (simp add: reset_def b split: prod.split)
  moreover have "ks_step ?ops st' KRestart (startup_from y, snd st')"
    using ks_restart [of ?ops 0 "snd st'" "startup_from y" "fst st'"] y by (simp add: on_startup_def)
  ultimately have run: "ks_run ?ops st' [KReset [] ''done'', KRestart] (startup_from y, snd st')"
    by (meson ks_done ks_more)
  have "is_halted (startup_from y)"
    using halt_survives_restart [OF t run] b by (auto simp: operator_reset_def)
  with run t show ?thesis by auto
qed

text \<open>
  C35. A crash cannot corrupt the record: whichever call of a save the process dies after,
  the record file holds either exactly what it held before or exactly the new state, and a
  file-system call that fails leaves the old record and no temporary file behind.
\<close>

theorem save_is_atomic:
  "fs_record (after_calls k sl x fs) \<in> {fs_record fs, Document (to_payload sl x)} \<and>
   (case save_file sl x fs of
      (Inr u, fs') \<Rightarrow> fs_record fs' = Document (to_payload sl x)
    | (Inl e, fs') \<Rightarrow> fs_record fs' = fs_record fs \<and> fs_temp fs' = None)"
proof -
  have "after_calls k sl x fs = after_calls 4 sl x fs" if "4 \<le> k"
    using that by (simp add: after_calls_def save_script_def)
  then show ?thesis
    by (cases "k < 4") (auto simp: save_file_def after_calls_record save_script_def split: option.splits)
qed

text \<open>
  C38. The file store reads back what was written: every halt the kill switch records comes
  back field by field, provided \<^verbatim>\<open>fromisoformat\<close> inverts \<^verbatim>\<open>isoformat\<close> on
  its time.
\<close>

theorem safety_state_roundtrip:
  assumes "iso_parse sl (iso_format sl (ss_recorded_at x)) = Some (ss_recorded_at x)"
    and "ss_schema_version x = SCHEMA_VERSION"
  shows "load_file sl now (Document (to_payload sl x)) = Inr x"
  using assms by (simp add: load_saved SCHEMA_VERSION_def)

lemma safety_state_roundtrip_witness:
  "load_file sample_stdlib 5 (Document (to_payload sample_stdlib
      (halted_state [MANUAL_HALT, MAX_DRAWDOWN] ''ops'' 0 JNull))) =
    Inr (halted_state [MANUAL_HALT, MAX_DRAWDOWN] ''ops'' 0 JNull)"
  by (rule safety_state_roundtrip) (simp_all add: sample_stdlib_def halted_state_def)

text \<open>
  C26. Everything that is not a readable, well-formed record of this schema saying RUNNING
  starts the system closed: if a start from the file leaves new orders enabled, the file held
  a JSON object whose state is the string RUNNING.
\<close>

theorem startup_fails_closed:
  assumes "on_startup (FileSafetyStateStore sl) now fs = Inr sw" "\<not> is_halted sw"
  shows "\<exists>payload. fs_record fs = Document (JObj payload) \<and>
           json_is_one (py_get payload ''schema_version'') \<and>
           map_of payload ''state'' = Some (JStr ''RUNNING'')"
proof -
  obtain y where y: "load_file sl now (fs_record fs) = Inr y" "permits_new_orders y"
    using assms file_store.startup_halted
    by (fastforce simp: on_startup_def mapE_eq_Inr FileSafetyStateStore_def)
  then obtain payload where p: "fs_record fs = Document (JObj payload)"
      "json_is_one (py_get payload ''schema_version'')" "decode_state sl payload = Inr y"
    by (auto simp: load_file_def split: file_content.splits json.splits if_splits sum.splits)
  obtain v where v: "map_of payload ''state'' = Some (JStr v)" "kill_switch_state_of_value v = Some (ss_state y)"
    using p(3) by (auto simp: decode_state_def bindE_eq_Inr py_index_def read_state_def
        split: option.splits json.splits)
  have "v = ''RUNNING''"
    using v(2) y(2)
    by (auto simp: kill_switch_state_of_value_def permits_new_orders_def dest!: find_first_Some)
  with p v show ?thesis by blast
qed

lemma startup_fails_closed_witness:
  "\<exists>payload. Document (to_payload sample_stdlib (running_state ''a'' ''b'' 0)) = Document (JObj payload) \<and>
     map_of payload ''state'' = Some (JStr ''RUNNING'')"
proof -
  let ?x = "running_state ''a'' ''b'' 0"
  let ?fs = "empty_directory\<lparr>fs_record := Document (to_payload sample_stdlib ?x)\<rparr>"
  have "load_file sample_stdlib 0 (fs_record ?fs) = Inr ?x"
    by (simp add: load_saved running_state_def sample_stdlib_def SCHEMA_VERSION_def)
  then have "on_startup (FileSafetyStateStore sample_stdlib) 0 ?fs = Inr new_kill_switch"
    by (simp add: on_startup_def FileSafetyStateStore_def startup_from_def permits_new_orders_def
        running_state_def)
  from startup_fails_closed [OF this] show ?thesis by (auto simp: is_halted_def new_kill_switch_def)
qed

text \<open>
  The one record that escapes the guard: bytes that are not UTF-8 make the load raise
  instead of answering UNKNOWN, so the start raises as well.
\<close>

theorem corrupt_bytes_raise:
  "on_startup (FileSafetyStateStore sl) now (fs\<lparr>fs_record := NotUtf8\<rparr>) = Inl ValueError"
  by (simp add: on_startup_def FileSafetyStateStore_def load_file_def)


subsection \<open>Operator controls\<close>

datatype operator_action = HALT_NEW_ORDERS | CANCEL_PENDING_ORDERS | FLATTEN_POSITIONS | RESET_HALT

record operator_action_record =
  oa_action :: operator_action
  oa_operator :: string
  oa_reason :: string
  oa_occurred_at :: utc
  oa_affected_tickets :: "int list"
  oa_detail :: "string option"

text \<open>The two calls of the broker port the controls make; the broker behind it is a parameter.\<close>

record 'b broker_ops =
  br_cancel_pending_orders :: "'b \<Rightarrow> (py_exn + int list) \<times> 'b"
  br_close_all_positions :: "string \<Rightarrow> 'b \<Rightarrow> (py_exn + int list) \<times> 'b"

record ('s, 'b) operator_controls =
  oc_switch :: "kill_switch \<times> 's"
  oc_broker :: 'b
  oc_log :: "operator_action_record list"

definition require_authorisation :: "string \<Rightarrow> string \<Rightarrow> bool" where
  "require_authorisation operator reason \<longleftrightarrow> \<not> blank operator \<and> \<not> blank reason"

definition oc_record ::
  "operator_action \<Rightarrow> string \<Rightarrow> string \<Rightarrow> utc \<Rightarrow> int list \<Rightarrow> ('s, 'b) operator_controls \<Rightarrow>
     (py_exn + operator_action_record) \<times> ('s, 'b) operator_controls" where
  "oc_record action operator reason now tickets oc =
     (let rec = \<lparr>oa_action = action, oa_operator = operator, oa_reason = reason, oa_occurred_at = now,
                 oa_affected_tickets = tickets, oa_detail = None\<rparr>
      in (Inr rec, oc\<lparr>oc_log := oc_log oc @ [rec]\<rparr>))"

definition halt_new_orders ::
  "'s store_ops \<Rightarrow> string \<Rightarrow> string \<Rightarrow> utc \<Rightarrow> ('s, 'b) operator_controls \<Rightarrow>
     (py_exn + operator_action_record) \<times> ('s, 'b) operator_controls" where
  "halt_new_orders ops operator reason now oc =
     (if \<not> require_authorisation operator reason then (Inl ValueError, oc)
      else case trip ops [MANUAL_HALT] operator now (JStr reason) (oc_switch oc) of
        (Inl e, sw) \<Rightarrow> (Inl e, oc\<lparr>oc_switch := sw\<rparr>)
      | (Inr r, sw) \<Rightarrow> oc_record HALT_NEW_ORDERS operator reason now [] (oc\<lparr>oc_switch := sw\<rparr>))"

definition cancel_pending_orders ::
  "'b broker_ops \<Rightarrow> string \<Rightarrow> string \<Rightarrow> utc \<Rightarrow> ('s, 'b) operator_controls \<Rightarrow>
     (py_exn + operator_action_record) \<times> ('s, 'b) operator_controls" where
  "cancel_pending_orders br operator reason now oc =
     (if \<not> require_authorisation operator reason then (Inl ValueError, oc)
      else case br_cancel_pending_orders br (oc_broker oc) of
        (Inl e, b) \<Rightarrow> (Inl e, oc\<lparr>oc_broker := b\<rparr>)
      | (Inr tickets, b) \<Rightarrow>
          oc_record CANCEL_PENDING_ORDERS operator reason now tickets (oc\<lparr>oc_broker := b\<rparr>))"

definition flatten_positions ::
  "'b broker_ops \<Rightarrow> string \<Rightarrow> string \<Rightarrow> utc \<Rightarrow> ('s, 'b) operator_controls \<Rightarrow>
     (py_exn + operator_action_record) \<times> ('s, 'b) operator_controls" where
  "flatten_positions br operator reason now oc =
     (if \<not> require_authorisation operator reason then (Inl ValueError, oc)
      else case br_close_all_positions br (''operator flatten: '' @ reason) (oc_broker oc) of
        (Inl e, b) \<Rightarrow> (Inl e, oc\<lparr>oc_broker := b\<rparr>)
      | (Inr tickets, b) \<Rightarrow>
          oc_record FLATTEN_POSITIONS operator reason now tickets (oc\<lparr>oc_broker := b\<rparr>))"

definition reset_halt ::
  "'s store_ops \<Rightarrow> string \<Rightarrow> string \<Rightarrow> utc \<Rightarrow> ('s, 'b) operator_controls \<Rightarrow>
     (py_exn + operator_action_record) \<times> ('s, 'b) operator_controls" where
  "reset_halt ops operator incident_note now oc =
     (if \<not> require_authorisation operator incident_note then (Inl ValueError, oc)
      else case reset ops operator incident_note now (oc_switch oc) of
        (Inl e, sw) \<Rightarrow> (Inl e, oc\<lparr>oc_switch := sw\<rparr>)
      | (Inr r, sw) \<Rightarrow> oc_record RESET_HALT operator incident_note now [] (oc\<lparr>oc_switch := sw\<rparr>))"

lemma halt_new_orders_frame [frames]:
  "oc_broker (snd (halt_new_orders ops op why now oc)) = oc_broker oc"
  by (simp add: halt_new_orders_def oc_record_def Let_def split: prod.split sum.split)

lemma cancel_frame [frames]:
  "oc_switch (snd (cancel_pending_orders br op why now oc)) = oc_switch oc"
  by (simp add: cancel_pending_orders_def oc_record_def Let_def split: prod.split sum.split)

lemma flatten_frame [frames]:
  "oc_switch (snd (flatten_positions br op why now oc)) = oc_switch oc"
  by (simp add: flatten_positions_def oc_record_def Let_def split: prod.split sum.split)

lemma reset_halt_frame [frames]:
  "oc_broker (snd (reset_halt ops op why now oc)) = oc_broker oc"
  by (simp add: reset_halt_def oc_record_def Let_def split: prod.split sum.split)

text \<open>
  The operator controls are not wired to each other: stopping new orders and clearing a
  halt never touch the broker, cancelling and flattening never touch the kill switch or its
  record, whatever the broker and the store do; and every one of them refuses, changing
  nothing, when the operator or the reason is blank.
\<close>

theorem operator_controls_separate:
  "oc_broker (snd (halt_new_orders ops op why now oc)) = oc_broker oc \<and>
   oc_broker (snd (reset_halt ops op why now oc)) = oc_broker oc \<and>
   oc_switch (snd (cancel_pending_orders br op why now oc)) = oc_switch oc \<and>
   oc_switch (snd (flatten_positions br op why now oc)) = oc_switch oc \<and>
   (blank op \<or> blank why \<longrightarrow>
      halt_new_orders ops op why now oc = (Inl ValueError, oc) \<and>
      reset_halt ops op why now oc = (Inl ValueError, oc) \<and>
      cancel_pending_orders br op why now oc = (Inl ValueError, oc) \<and>
      flatten_positions br op why now oc = (Inl ValueError, oc))"
  by (simp add: frames)
     (auto simp: halt_new_orders_def reset_halt_def cancel_pending_orders_def flatten_positions_def
        require_authorisation_def)

lemma operator_controls_separate_witness:
  "flatten_positions \<lparr>br_cancel_pending_orders = (\<lambda>b. (Inr [], b)), br_close_all_positions = (\<lambda>r b. (Inr [b], 0))\<rparr>
      [] ''x'' 0 \<lparr>oc_switch = (new_kill_switch, None :: safety_state option), oc_broker = 3, oc_log = []\<rparr> =
    (Inl ValueError, \<lparr>oc_switch = (new_kill_switch, None), oc_broker = 3 :: int, oc_log = []\<rparr>)"
  using operator_controls_separate [of InMemorySafetyStateStore "[]" "''x''" 0
      "\<lparr>oc_switch = (new_kill_switch, None), oc_broker = 3 :: int, oc_log = []\<rparr>"
      "\<lparr>br_cancel_pending_orders = (\<lambda>b. (Inr [], b)), br_close_all_positions = (\<lambda>r b. (Inr [b], 0))\<rparr>"]
  by (simp add: blank_iff)


subsection \<open>The equity ledger\<close>

record equity_ledger =
  el_starting_equity :: decimal
  el_peak_equity :: decimal
  el_current_equity :: decimal
  el_session_start_equity :: decimal
  el_max_drawdown_fraction :: decimal
  el_max_session_loss_fraction :: decimal

definition EquityLedger :: "decimal \<Rightarrow> py_exn + equity_ledger" where
  "EquityLedger starting_equity =
     (if starting_equity \<le> 0 then Inl ValueError
      else Inr \<lparr>el_starting_equity = starting_equity, el_peak_equity = starting_equity,
                el_current_equity = starting_equity, el_session_start_equity = starting_equity,
                el_max_drawdown_fraction = 0, el_max_session_loss_fraction = 0\<rparr>)"

definition session_loss_fraction :: "equity_ledger \<Rightarrow> decimal" where
  "session_loss_fraction l =
     (if el_session_start_equity l \<le> 0 then 0
      else max 0 (ddiv (dsub (el_session_start_equity l) (el_current_equity l))
                       (el_session_start_equity l)))"

definition drawdown_fraction :: "equity_ledger \<Rightarrow> decimal" where
  "drawdown_fraction l =
     (if el_peak_equity l \<le> 0 then 0
      else max 0 (ddiv (dsub (el_peak_equity l) (el_current_equity l)) (el_peak_equity l)))"

definition ledger_update :: "equity_ledger \<Rightarrow> decimal \<Rightarrow> equity_ledger" where
  "ledger_update l equity =
     (let l1 = l\<lparr>el_current_equity := equity\<rparr>;
          l2 = l1\<lparr>el_peak_equity := max (el_peak_equity l1) equity\<rparr>;
          l3 = l2\<lparr>el_max_drawdown_fraction := max (el_max_drawdown_fraction l2) (drawdown_fraction l2)\<rparr>
      in l3\<lparr>el_max_session_loss_fraction :=
              max (el_max_session_loss_fraction l3) (session_loss_fraction l3)\<rparr>)"

definition start_new_session :: "equity_ledger \<Rightarrow> equity_ledger" where
  "start_new_session l = l\<lparr>el_session_start_equity := el_current_equity l\<rparr>"

definition resumed ::
  "decimal \<Rightarrow> decimal \<Rightarrow> decimal \<Rightarrow> decimal \<Rightarrow> decimal \<Rightarrow> decimal \<Rightarrow> py_exn + equity_ledger" where
  "resumed starting_equity session_start_equity current_equity peak_equity mdd msl =
     mapE (\<lambda>l. ledger_update
             (l\<lparr>el_session_start_equity := session_start_equity, el_peak_equity := peak_equity,
                el_max_drawdown_fraction := mdd, el_max_session_loss_fraction := msl\<rparr>) current_equity)
       (EquityLedger starting_equity)"

text \<open>The ledger's invariant: its maxima and its peak bound what it reads now.\<close>

definition ledger_ok :: "equity_ledger \<Rightarrow> bool" where
  "ledger_ok l \<longleftrightarrow> el_current_equity l \<le> el_peak_equity l \<and> 0 < el_starting_equity l \<and>
     drawdown_fraction l \<le> el_max_drawdown_fraction l \<and>
     session_loss_fraction l \<le> el_max_session_loss_fraction l"

definition worse_or_equal :: "equity_ledger \<Rightarrow> equity_ledger \<Rightarrow> bool" where
  "worse_or_equal l l' \<longleftrightarrow> el_peak_equity l \<le> el_peak_equity l' \<and>
     el_max_drawdown_fraction l \<le> el_max_drawdown_fraction l' \<and>
     el_max_session_loss_fraction l \<le> el_max_session_loss_fraction l'"

lemma fractions_frame [simp]:
  "drawdown_fraction (l\<lparr>el_max_drawdown_fraction := x\<rparr>) = drawdown_fraction l"
  "drawdown_fraction (l\<lparr>el_max_session_loss_fraction := x\<rparr>) = drawdown_fraction l"
  "session_loss_fraction (l\<lparr>el_max_drawdown_fraction := x\<rparr>) = session_loss_fraction l"
  "session_loss_fraction (l\<lparr>el_max_session_loss_fraction := x\<rparr>) = session_loss_fraction l"
  "session_loss_fraction (l\<lparr>el_peak_equity := x\<rparr>) = session_loss_fraction l"
  "drawdown_fraction (l\<lparr>el_session_start_equity := x\<rparr>) = drawdown_fraction l"
  by (simp_all add: drawdown_fraction_def session_loss_fraction_def)

lemma EquityLedger_ok: "EquityLedger e = Inr l \<Longrightarrow> ledger_ok l"
  by (auto simp: EquityLedger_def ledger_ok_def drawdown_fraction_def session_loss_fraction_def
      dsub_def ddiv_def split: if_splits)

lemma update_ok: "0 < el_starting_equity l \<Longrightarrow> ledger_ok (ledger_update l e)"
  by (simp add: ledger_update_def ledger_ok_def Let_def)

lemma update_worse: "worse_or_equal l (ledger_update l e)"
  by (simp add: ledger_update_def worse_or_equal_def Let_def)

lemma update_fields [simp]:
  "el_starting_equity (ledger_update l e) = el_starting_equity l"
  "el_current_equity (ledger_update l e) = e"
  "el_session_start_equity (ledger_update l e) = el_session_start_equity l"
  "el_peak_equity (ledger_update l e) = max (el_peak_equity l) e"
  by (simp_all add: ledger_update_def Let_def)

lemma update_nonneg_maxima:
  "0 \<le> el_max_drawdown_fraction (ledger_update l e)" "0 \<le> el_max_session_loss_fraction (ledger_update l e)"
  by (simp_all add: ledger_update_def Let_def drawdown_fraction_def session_loss_fraction_def le_max_iff_disj)

lemma new_session_ok: "ledger_ok l \<Longrightarrow> 0 \<le> el_max_session_loss_fraction l \<Longrightarrow> ledger_ok (start_new_session l)"
proof -
  have "session_loss_fraction (start_new_session l) = 0"
    by (simp add: start_new_session_def session_loss_fraction_def dsub_def ddiv_def)
  moreover have "drawdown_fraction (start_new_session l) = drawdown_fraction l"
    by (simp add: start_new_session_def)
  ultimately show "ledger_ok l \<Longrightarrow> 0 \<le> el_max_session_loss_fraction l \<Longrightarrow> ?thesis"
    by (simp add: ledger_ok_def) (simp add: start_new_session_def)
qed

datatype ledger_event = Reading decimal | NewSession

fun ledger_apply :: "equity_ledger \<Rightarrow> ledger_event \<Rightarrow> equity_ledger" where
  "ledger_apply l (Reading e) = ledger_update l e"
| "ledger_apply l NewSession = start_new_session l"

lemma ledger_history:
  assumes "ledger_ok l" "0 \<le> el_max_session_loss_fraction l"
  shows "ledger_ok (foldl ledger_apply l evs) \<and> worse_or_equal l (foldl ledger_apply l evs) \<and>
         0 \<le> el_max_session_loss_fraction (foldl ledger_apply l evs)"
  using assms
proof (induction evs arbitrary: l)
  case (Cons ev evs)
  have "ledger_ok (ledger_apply l ev) \<and> worse_or_equal l (ledger_apply l ev) \<and>
        0 \<le> el_max_session_loss_fraction (ledger_apply l ev)"
  proof (cases ev)
    case (Reading e)
    with Cons.prems update_ok update_worse update_nonneg_maxima show ?thesis by (simp add: ledger_ok_def)
  next
    case NewSession
    with Cons.prems new_session_ok show ?thesis by (simp add: worse_or_equal_def start_new_session_def)
  qed
  with Cons.IH [of "ledger_apply l ev"] show ?case by (auto simp: worse_or_equal_def)
qed (simp add: worse_or_equal_def)

text \<open>
  The ledger never forgives: from a fresh ledger, after any sequence of equity readings
  and session rolls, the peak bounds the current equity, the recorded worst drawdown and
  worst session loss bound the ones it reads now, and any further reading or roll can only
  widen them.
\<close>

theorem ledger_never_forgives:
  assumes "EquityLedger e = Inr l"
  shows "ledger_ok (foldl ledger_apply l evs) \<and>
         worse_or_equal (foldl ledger_apply l evs) (foldl ledger_apply l (evs @ later))"
proof -
  have "0 \<le> el_max_session_loss_fraction l" using assms by (auto simp: EquityLedger_def split: if_splits)
  with ledger_history [OF EquityLedger_ok [OF assms]] ledger_history show ?thesis by simp
qed

lemma ledger_never_forgives_witness:
  "\<exists>l. EquityLedger 1000 = Inr l \<and> ledger_ok (foldl ledger_apply l [Reading 900, NewSession, Reading 950])"
proof -
  obtain l where l: "EquityLedger 1000 = Inr l" by (simp add: EquityLedger_def)
  with ledger_never_forgives [OF l, of "[Reading 900, NewSession, Reading 950]"] show ?thesis by blast
qed

end
