(* ===== verification/Exposure.thy ===== *)
theory Exposure
  imports Ledger KillSwitch
begin

text \<open>
  What the platform's own durable history says it should hold at the broker
  (\<^verbatim>\<open>application/expected_state.py\<close>), and what a broker response durably means
  (\<^verbatim>\<open>application/execution_outcome.py\<close>). Payloads are the JSON objects the event rows
  carry; reasons are values of a datatype with the interpolated parts as arguments.
\<close>

subsection \<open>Reading JSON payloads back\<close>

definition json_int :: "stdlib \<Rightarrow> json \<Rightarrow> py_exn + int" where
  \<comment> \<open>\<^verbatim>\<open>int(value)\<close>\<close>
  "json_int sl j =
     (case j of
        JInt i \<Rightarrow> Inr i
      | JBool b \<Rightarrow> Inr (of_bool b)
      | JFloat f \<Rightarrow> Inr (round_down f)
      | JStr s \<Rightarrow> (case int_of_text sl s of None \<Rightarrow> Inl ValueError | Some i \<Rightarrow> Inr i)
      | _ \<Rightarrow> Inl TypeError)"

definition json_decimal :: "stdlib \<Rightarrow> json \<Rightarrow> py_exn + decimal" where
  \<comment> \<open>\<^verbatim>\<open>Decimal(str(value))\<close>\<close>
  "json_decimal sl j =
     (case j of
        JStr s \<Rightarrow> (case dec_of_text sl s of None \<Rightarrow> Inl InvalidOperation | Some d \<Rightarrow> Inr d)
      | JInt i \<Rightarrow> Inr (of_int i)
      | JFloat f \<Rightarrow> (case dec_of_text sl (float_repr sl f) of None \<Rightarrow> Inl InvalidOperation | Some d \<Rightarrow> Inr d)
      | _ \<Rightarrow> Inl InvalidOperation)"

definition json_entry_type :: "json \<Rightarrow> py_exn + entry_type" where
  "json_entry_type j =
     (case j of
        JStr s \<Rightarrow> (case find_first (\<lambda>t. entry_type_value t = s) [MARKET, LIMIT, STOP] of
                     None \<Rightarrow> Inl ValueError | Some t \<Rightarrow> Inr t)
      | _ \<Rightarrow> Inl ValueError)"

definition get_list :: "payload \<Rightarrow> string \<Rightarrow> py_exn + json list" where
  \<comment> \<open>iterating \<^verbatim>\<open>payload.get(key, [])\<close>\<close>
  "get_list kvs k = (case map_of kvs k of None \<Rightarrow> Inr [] | Some v \<Rightarrow> json_iter v)"

definition ticket_list :: "stdlib \<Rightarrow> (string \<times> json) list \<Rightarrow> string \<Rightarrow> py_exn + int list" where
  "ticket_list sl kvs k = bindE (get_list kvs k) (traverseE (json_int sl))"


subsection \<open>Deriving the expected exposure\<close>

datatype exposure = EXP_NONE | DETERMINED | UNDETERMINED | NOT_EXPOSURE_RELEVANT

fun EXPOSURE_BY_EVENT :: "execution_event_type \<Rightarrow> exposure" where
  "EXPOSURE_BY_EVENT SUBMISSION_STARTED = UNDETERMINED"
| "EXPOSURE_BY_EVENT AMBIGUOUS_OUTCOME_RESOLVED = DETERMINED"
| "EXPOSURE_BY_EVENT EV_RECONCILED = NOT_EXPOSURE_RELEVANT"
| "EXPOSURE_BY_EVENT EV_SUBMITTED = UNDETERMINED"
| "EXPOSURE_BY_EVENT BROKER_ACK = UNDETERMINED"
| "EXPOSURE_BY_EVENT EV_FILLED = UNDETERMINED"
| "EXPOSURE_BY_EVENT EV_CLOSED = UNDETERMINED"
| "EXPOSURE_BY_EVENT EV_REJECTED = DETERMINED"
| "EXPOSURE_BY_EVENT _ = EXP_NONE"

datatype exposure_reason =
    StuckAtStarted uuid
  | RestingOrder uuid
  | IntegrityAmbiguity uuid json
  | MalformedOutcome uuid
  | PendingNotAttributable uuid entry_type
  | FlattenUnconfirmed uuid "int list"

record derived_exposure =
  de_position_tickets :: "int set"
  de_pending_order_ids :: "int set"
  de_undetermined_reasons :: "exposure_reason list"
  de_tickets_by_request :: "uuid \<rightharpoonup> int set"
  de_determined_requests :: "uuid set"
  de_stop_loss_by_request :: "uuid \<rightharpoonup> decimal"

definition empty_exposure :: derived_exposure where
  "empty_exposure =
     \<lparr>de_position_tickets = {}, de_pending_order_ids = {}, de_undetermined_reasons = [],
      de_tickets_by_request = Map.empty, de_determined_requests = {}, de_stop_loss_by_request = Map.empty\<rparr>"

definition last_exposure_relevant ::
  "execution_event_record list \<Rightarrow> (execution_event_type \<times> payload option) option" where
  "last_exposure_relevant events =
     map_option (\<lambda>e. (ev_event_type e, ev_payload e))
       (find_first (\<lambda>e. EXPOSURE_BY_EVENT (ev_event_type e) \<noteq> NOT_EXPOSURE_RELEVANT) (rev events))"

fun started_value :: "(json \<Rightarrow> py_exn + 'a) \<Rightarrow> string \<Rightarrow> execution_event_record list \<Rightarrow> py_exn + 'a option" where
  \<comment> \<open>the loop \<open>entry_type_of\<close> and \<open>stop_loss_price_of\<close> share\<close>
  "started_value read key [] = Inr None"
| "started_value read key (e # events) =
     (case ev_payload e of
        Some (kv # kvs) \<Rightarrow>
          if ev_event_type e = SUBMISSION_STARTED \<and> py_get (kv # kvs) key \<noteq> JNull
          then mapE Some (read (py_get (kv # kvs) key)) else started_value read key events
      | _ \<Rightarrow> started_value read key events)"

definition entry_type_of :: "execution_event_record list \<Rightarrow> py_exn + entry_type option" where
  "entry_type_of = started_value json_entry_type ''entry_type''"

definition stop_loss_price_of :: "stdlib \<Rightarrow> execution_event_record list \<Rightarrow> py_exn + decimal option" where
  "stop_loss_price_of sl = started_value (json_decimal sl) ''stop_loss_price''"

definition undetermined :: "exposure_reason \<Rightarrow> derived_exposure \<Rightarrow> derived_exposure" where
  "undetermined r acc = acc\<lparr>de_undetermined_reasons := de_undetermined_reasons acc @ [r]\<rparr>"

definition determined :: "uuid \<Rightarrow> int set \<Rightarrow> derived_exposure \<Rightarrow> derived_exposure" where
  "determined rid tickets acc =
     acc\<lparr>de_determined_requests := insert rid (de_determined_requests acc),
         de_tickets_by_request := (de_tickets_by_request acc)(rid \<mapsto> tickets),
         de_position_tickets := de_position_tickets acc \<union> tickets\<rparr>"

definition resolved_outcome ::
  "stdlib \<Rightarrow> uuid \<Rightarrow> execution_event_record list \<Rightarrow> payload option \<Rightarrow> derived_exposure \<Rightarrow>
     py_exn + derived_exposure" where
  "resolved_outcome sl rid events payload acc =
     (case payload of
        None \<Rightarrow> Inr (undetermined (MalformedOutcome rid) acc)
      | Some kvs \<Rightarrow>
          if json_truthy (py_get kvs ''integrity_ambiguity'')
          then Inr (undetermined (IntegrityAmbiguity rid (py_get kvs ''matching_position_count'')) acc)
          else (case map_of kvs ''submitted'' of
            None \<Rightarrow> Inr (undetermined (MalformedOutcome rid) acc)
          | Some submitted \<Rightarrow>
              if \<not> json_truthy submitted then Inr (determined rid {} acc)
              else
                bindE (ticket_list sl kvs ''matching_tickets'') (\<lambda>tickets.
                let acc1 = determined rid (set tickets) acc in
                bindE (stop_loss_price_of sl events) (\<lambda>stop.
                let acc2 = (case stop of
                      None \<Rightarrow> acc1
                    | Some s \<Rightarrow> acc1\<lparr>de_stop_loss_by_request := (de_stop_loss_by_request acc1)(rid \<mapsto> s)\<rparr>) in
                bindE (entry_type_of events) (\<lambda>entry.
                Inr (case entry of
                       None \<Rightarrow> acc2
                     | Some t \<Rightarrow> if t \<noteq> MARKET then undetermined (PendingNotAttributable rid t) acc2
                                 else acc2))))))"

definition derive_step ::
  "stdlib \<Rightarrow> derived_exposure \<Rightarrow> uuid \<times> execution_event_record list \<Rightarrow> py_exn + derived_exposure" where
  "derive_step sl acc history =
     (case history of (rid, events) \<Rightarrow>
        (case last_exposure_relevant events of
           None \<Rightarrow> Inr acc
         | Some (t, payload) \<Rightarrow>
             if t = SUBMISSION_STARTED then Inr (undetermined (StuckAtStarted rid) acc)
             else if t = EV_SUBMITTED then Inr (undetermined (RestingOrder rid) acc)
             else if t = EV_REJECTED then Inr (determined rid {} acc)
             else if t = AMBIGUOUS_OUTCOME_RESOLVED then resolved_outcome sl rid events payload acc
             else Inr acc))"

fun derive_all ::
  "stdlib \<Rightarrow> derived_exposure \<Rightarrow> (uuid \<times> execution_event_record list) list \<Rightarrow> py_exn + derived_exposure" where
  "derive_all sl acc [] = Inr acc"
| "derive_all sl acc (h # hs) = bindE (derive_step sl acc h) (\<lambda>acc'. derive_all sl acc' hs)"

definition flatten_payload :: "flatten_event_type \<Rightarrow> flatten_event_record list \<Rightarrow> payload option" where
  \<comment> \<open>the payload of the last event of a type, as the loop over a history leaves it\<close>
  "flatten_payload t events =
     foldl (\<lambda>p e. if ev_event_type e = t then ev_payload e else p) None events"

definition instruction_ticket :: "stdlib \<Rightarrow> json \<Rightarrow> py_exn + int" where
  "instruction_ticket sl target =
     (case target of JObj kvs \<Rightarrow> bindE (py_index kvs ''ticket'') (json_int sl) | _ \<Rightarrow> Inl TypeError)"

fun flatten_removed_and_undetermined ::
  "stdlib \<Rightarrow> (uuid \<times> flatten_event_record list) list \<Rightarrow> py_exn + int set \<times> exposure_reason list" where
  "flatten_removed_and_undetermined sl [] = Inr ({}, [])"
| "flatten_removed_and_undetermined sl ((rid, events) # later) =
     bindE
       (case (flatten_payload FLATTEN_SUBMISSION_STARTED events, flatten_payload FLATTEN_OUTCOME_RESOLVED events) of
          (None, _) \<Rightarrow> Inr ({}, [])
        | (Some commitment, Some resolved) \<Rightarrow>
            mapE (\<lambda>ts. (set ts, [])) (ticket_list sl resolved ''closed_tickets'')
        | (Some commitment, None) \<Rightarrow>
            mapE (\<lambda>ts. ({}, if ts \<noteq> [] then [FlattenUnconfirmed rid ts] else []))
              (bindE (get_list commitment ''instructions'') (traverseE (instruction_ticket sl))))
       (\<lambda>(closed, reasons). mapE (\<lambda>(closed', reasons'). (closed \<union> closed', reasons @ reasons'))
          (flatten_removed_and_undetermined sl later))"

definition derive_expected_exposure ::
  "stdlib \<Rightarrow> (uuid \<times> execution_event_record list) list \<Rightarrow> (uuid \<times> flatten_event_record list) list \<Rightarrow>
     py_exn + derived_exposure" where
  "derive_expected_exposure sl histories flattens =
     bindE (derive_all sl empty_exposure histories) (\<lambda>acc.
     mapE (\<lambda>(closed, reasons).
        acc\<lparr>de_position_tickets := de_position_tickets acc - closed,
            de_tickets_by_request := (\<lambda>rid. map_option (\<lambda>ts. ts - closed) (de_tickets_by_request acc rid)),
            de_undetermined_reasons := de_undetermined_reasons acc @ reasons\<rparr>)
       (flatten_removed_and_undetermined sl flattens))"


subsection \<open>Outcomes of a real submission\<close>

fun order_state_value :: "order_state \<Rightarrow> string" where
  "order_state_value CREATED = ''CREATED''"
| "order_state_value RISK_APPROVED = ''RISK_APPROVED''"
| "order_state_value SUPERVISOR_APPROVED = ''SUPERVISOR_APPROVED''"
| "order_state_value OS_ORDER_CHECKED = ''ORDER_CHECKED''"
| "order_state_value OS_SUBMITTED = ''SUBMITTED''"
| "order_state_value ACKNOWLEDGED = ''ACKNOWLEDGED''"
| "order_state_value PARTIALLY_FILLED = ''PARTIALLY_FILLED''"
| "order_state_value OS_FILLED = ''FILLED''"
| "order_state_value OS_REJECTED = ''REJECTED''"
| "order_state_value OS_RECONCILED = ''RECONCILED''"
| "order_state_value OS_CLOSED = ''CLOSED''"
| "order_state_value CANCELLED = ''CANCELLED''"
| "order_state_value OS_UNKNOWN = ''UNKNOWN''"

definition json_opt :: "('a \<Rightarrow> json) \<Rightarrow> 'a option \<Rightarrow> json" where
  "json_opt f x = (case x of None \<Rightarrow> JNull | Some v \<Rightarrow> f v)"

definition json_dec :: "stdlib \<Rightarrow> decimal \<Rightarrow> json" where
  "json_dec sl d = JStr (dec_text sl d)"

definition truthy_dec :: "stdlib \<Rightarrow> decimal option \<Rightarrow> json" where
  \<comment> \<open>\<^verbatim>\<open>str(x) if x else None\<close>\<close>
  "truthy_dec sl x = (case x of None \<Rightarrow> JNull | Some d \<Rightarrow> if d = 0 then JNull else json_dec sl d)"

definition outcome_payload :: "stdlib \<Rightarrow> execution_result \<Rightarrow> payload" where
  "outcome_payload sl r =
     [(''execution_id'', JStr (er_execution_id r)),
      (''state'', JStr (order_state_value (er_state r))),
      (''mt5_order_ticket'', json_opt JInt (er_mt5_order_ticket r)),
      (''mt5_deal_ticket'', json_opt JInt (er_mt5_deal_ticket r)),
      (''retcode'', json_opt JInt (er_retcode r)),
      (''retcode_comment'', json_opt JStr (er_retcode_comment r)),
      (''requested_volume'', truthy_dec sl (er_requested_volume r)),
      (''executed_volume'', truthy_dec sl (er_executed_volume r)),
      (''requested_price'', truthy_dec sl (er_requested_price r)),
      (''executed_price'', truthy_dec sl (er_executed_price r))]"

definition normalize_execution_result ::
  "stdlib \<Rightarrow> execution_result \<Rightarrow> py_exn + execution_event_type \<times> payload" where
  "normalize_execution_result sl r =
     (case er_state r of
        OS_FILLED \<Rightarrow> Inr (EV_FILLED, outcome_payload sl r)
      | PARTIALLY_FILLED \<Rightarrow> Inr (EV_FILLED, outcome_payload sl r)
      | OS_REJECTED \<Rightarrow> Inr (EV_REJECTED, outcome_payload sl r)
      | OS_SUBMITTED \<Rightarrow> Inr (EV_SUBMITTED, outcome_payload sl r)
      | _ \<Rightarrow> Inl ValueError)"

definition close_result_fully_closed :: "execution_result \<Rightarrow> bool" where
  "close_result_fully_closed r \<longleftrightarrow> er_state r = OS_FILLED"


subsection \<open>Serialised orders\<close>

definition order_dump :: "stdlib \<Rightarrow> approved_order \<Rightarrow> py_exn + payload" where
  \<comment> \<open>\<^verbatim>\<open>order.model_dump(mode="json")\<close>, the computed \<^verbatim>\<open>magic_number\<close> included\<close>
  "order_dump sl ord = mapE (\<lambda>magic.
     [(''order_request_id'', JStr (ao_order_request_id ord)),
      (''intent_id'', JStr (ao_intent_id ord)),
      (''intent_risk_decision_id'', JStr (ao_intent_risk_decision_id ord)),
      (''final_risk_decision_id'', json_opt JStr (ao_final_risk_decision_id ord)),
      (''supervisor_decision_id'', JStr (ao_supervisor_decision_id ord)),
      (''broker_symbol'', JStr (ao_broker_symbol ord)),
      (''side'', JStr (side_value (ao_side ord))),
      (''entry_type'', JStr (entry_type_value (ao_entry_type ord))),
      (''volume'', json_dec sl (ao_volume ord)),
      (''price'', json_opt (json_dec sl) (ao_price ord)),
      (''stop_loss_price'', json_dec sl (ao_stop_loss_price ord)),
      (''take_profit_price'', json_opt (json_dec sl) (ao_take_profit_price ord)),
      (''max_slippage_points'', JInt (ao_max_slippage_points ord)),
      (''created_at_utc'', JStr (time_json sl (ao_created_at ord))),
      (''expires_at_utc'', JStr (time_json sl (ao_expires_at ord))),
      (''environment'', JStr (environment_value (ao_environment ord))),
      (''magic_number'', JInt magic)]) (order_magic_number sl ord)"


subsection \<open>What the derivation promises\<close>

definition resolved_tickets :: "stdlib \<Rightarrow> execution_event_record list \<Rightarrow> int set" where
  \<comment> \<open>the tickets a history's last word attributes to its request\<close>
  "resolved_tickets sl events =
     (case last_exposure_relevant events of
        Some (t, Some kvs) \<Rightarrow>
          if t = AMBIGUOUS_OUTCOME_RESOLVED \<and> \<not> json_truthy (py_get kvs ''integrity_ambiguity'') \<and> json_truthy (py_get kvs ''submitted'')
          then (case ticket_list sl kvs ''matching_tickets'' of Inl e \<Rightarrow> {} | Inr ts \<Rightarrow> set ts) else {}
      | _ \<Rightarrow> {})"

definition unresolved :: "execution_event_record list \<Rightarrow> bool" where
  \<comment> \<open>the last word is a commitment, a resting order, or an outcome naming no single answer\<close>
  "unresolved events \<longleftrightarrow>
     (case last_exposure_relevant events of
        Some (t, payload) \<Rightarrow>
          t \<in> {SUBMISSION_STARTED, EV_SUBMITTED} \<or>
          t = AMBIGUOUS_OUTCOME_RESOLVED \<and>
            (case payload of None \<Rightarrow> True
             | Some kvs \<Rightarrow> json_truthy (py_get kvs ''integrity_ambiguity'') \<or> map_of kvs ''submitted'' = None)
      | None \<Rightarrow> False)"

lemma determined_fields [simp]:
  "de_position_tickets (determined rid ts acc) = de_position_tickets acc \<union> ts"
  "de_undetermined_reasons (determined rid ts acc) = de_undetermined_reasons acc"
  "de_position_tickets (undetermined r acc) = de_position_tickets acc"
  "de_undetermined_reasons (undetermined r acc) = de_undetermined_reasons acc @ [r]"
  by (simp_all add: determined_def undetermined_def)

lemma derive_step_result:
  assumes "derive_step sl acc (rid, events) = Inr acc'"
  shows "de_position_tickets acc' = de_position_tickets acc \<union> resolved_tickets sl events \<and>
    (\<exists>new. de_undetermined_reasons acc' = de_undetermined_reasons acc @ new \<and> (unresolved events \<longrightarrow> new \<noteq> []))"
proof (cases "last_exposure_relevant events")
  case None
  with assms show ?thesis by (simp add: derive_step_def resolved_tickets_def unresolved_def)
next
  case (Some tp)
  obtain t payload where tp: "tp = (t, payload)" by (cases tp)
  consider "t = AMBIGUOUS_OUTCOME_RESOLVED" | "t \<in> {SUBMISSION_STARTED, EV_SUBMITTED}"
    | "t \<notin> {AMBIGUOUS_OUTCOME_RESOLVED, SUBMISSION_STARTED, EV_SUBMITTED}" by blast
  then show ?thesis
  proof cases
    case 1
    show ?thesis
    proof (cases payload)
      case None
      with assms Some tp 1 show ?thesis
        by (simp add: derive_step_def resolved_outcome_def resolved_tickets_def unresolved_def) fastforce
    next
      case (Some kvs)
      have r: "resolved_outcome sl rid events (Some kvs) acc = Inr acc'"
        using assms Some \<open>last_exposure_relevant events = _\<close> tp 1 by (simp add: derive_step_def)
      have u: "unresolved events \<longleftrightarrow> json_truthy (py_get kvs ''integrity_ambiguity'') \<or> map_of kvs ''submitted'' = None"
        using Some \<open>last_exposure_relevant events = _\<close> tp 1 by (simp add: unresolved_def)
      have t: "resolved_tickets sl events =
          (if \<not> json_truthy (py_get kvs ''integrity_ambiguity'') \<and> json_truthy (py_get kvs ''submitted'')
           then case ticket_list sl kvs ''matching_tickets'' of Inl e \<Rightarrow> {} | Inr ts \<Rightarrow> set ts else {})"
        using Some \<open>last_exposure_relevant events = _\<close> tp 1 by (simp add: resolved_tickets_def)
      show ?thesis using r unfolding u t
        by (auto simp: resolved_outcome_def py_get_def Let_def bindE_eq_Inr split: option.splits if_splits)
    qed
  next
    case 2
    with assms Some tp show ?thesis
      by (auto simp: derive_step_def resolved_tickets_def unresolved_def split: option.splits)
  next
    case 3
    with assms Some tp show ?thesis
      by (auto simp: derive_step_def resolved_tickets_def unresolved_def split: option.splits if_splits)
  qed
qed

lemma derive_all_result:
  assumes "derive_all sl acc histories = Inr acc'"
  shows "de_position_tickets acc' = de_position_tickets acc \<union> (\<Union>(rid, events) \<in> set histories. resolved_tickets sl events)
    \<and> (\<exists>new. de_undetermined_reasons acc' = de_undetermined_reasons acc @ new \<and>
           ((\<exists>(rid, events) \<in> set histories. unresolved events) \<longrightarrow> new \<noteq> []))"
  using assms
proof (induction histories arbitrary: acc)
  case (Cons h hs)
  obtain rid events where h: "h = (rid, events)" by (cases h)
  from Cons.prems obtain mid where m: "derive_step sl acc (rid, events) = Inr mid" "derive_all sl mid hs = Inr acc'"
    by (auto simp: h bindE_eq_Inr)
  from derive_step_result [OF m(1)] Cons.IH [OF m(2)] show ?case by (auto simp: h)
qed simp

definition flatten_closed :: "stdlib \<Rightarrow> flatten_event_record list \<Rightarrow> int set" where
  \<comment> \<open>what a resolved flatten durably closed; a commitment alone closes nothing\<close>
  "flatten_closed sl events =
     (case (flatten_payload FLATTEN_SUBMISSION_STARTED events, flatten_payload FLATTEN_OUTCOME_RESOLVED events) of
        (Some c, Some r) \<Rightarrow> (case ticket_list sl r ''closed_tickets'' of Inl e \<Rightarrow> {} | Inr ts \<Rightarrow> set ts)
      | _ \<Rightarrow> {})"

definition flatten_pending :: "flatten_event_record list \<Rightarrow> bool" where
  "flatten_pending events \<longleftrightarrow>
     (case (flatten_payload FLATTEN_SUBMISSION_STARTED events, flatten_payload FLATTEN_OUTCOME_RESOLVED events) of
        (Some c, None) \<Rightarrow> get_list c ''instructions'' \<noteq> Inr []
      | _ \<Rightarrow> False)"

lemma flatten_removed_result:
  assumes "flatten_removed_and_undetermined sl flattens = Inr (gone, reasons)"
  shows "gone = (\<Union>(rid, events) \<in> set flattens. flatten_closed sl events) \<and>
    ((\<exists>(rid, events) \<in> set flattens. flatten_pending events) \<longrightarrow> reasons \<noteq> [])"
  using assms
proof (induction flattens arbitrary: gone reasons)
  case (Cons h later)
  obtain rid events where h: "h = (rid, events)" by (cases h)
  let ?first = "case (flatten_payload FLATTEN_SUBMISSION_STARTED events,
                      flatten_payload FLATTEN_OUTCOME_RESOLVED events) of
          (None, _) \<Rightarrow> Inr ({}, [])
        | (Some commitment, Some resolved) \<Rightarrow>
            mapE (\<lambda>ts. (set ts, [])) (ticket_list sl resolved ''closed_tickets'')
        | (Some commitment, None) \<Rightarrow>
            mapE (\<lambda>ts. ({}, if ts \<noteq> [] then [FlattenUnconfirmed rid ts] else []))
              (bindE (get_list commitment ''instructions'') (traverseE (instruction_ticket sl)))"
  from Cons.prems obtain c1 r1 c2 r2 where
      rest: "flatten_removed_and_undetermined sl later = Inr (c2, r2)"
      and cr: "gone = c1 \<union> c2" "reasons = r1 @ r2" and first: "?first = Inr (c1, r1)"
    by (auto simp: h bindE_eq_Inr mapE_eq_Inr)
  have here: "c1 = flatten_closed sl events" "flatten_pending events \<longrightarrow> r1 \<noteq> []"
    using first by (auto simp: flatten_closed_def flatten_pending_def bindE_eq_Inr mapE_eq_Inr
        dest: traverseE_length split: option.splits if_splits)
  from Cons.IH [OF rest] here show ?case by (auto simp: h cr)
qed simp


definition outcome_event :: "uuid \<Rightarrow> execution_event_type \<Rightarrow> payload option \<Rightarrow> execution_event_record" where
  "outcome_event rid t payload = execution_event sample_stdlib rid t 0 [] None payload"

definition resolved_history :: "uuid \<times> execution_event_record list" where
  "resolved_history =
     (''a'', [outcome_event ''a'' SUBMISSION_STARTED (Some [(''entry_type'', JStr ''MARKET''), (''stop_loss_price'', JStr ''1'')]),
             outcome_event ''a'' AMBIGUOUS_OUTCOME_RESOLVED
               (Some [(''submitted'', JBool True), (''matching_tickets'', JArr [JInt 7, JInt 8])])])"

definition closing_history :: "uuid \<times> flatten_event_record list" where
  "closing_history =
     (''f'', [flatten_event sample_stdlib ''f'' FLATTEN_SUBMISSION_STARTED 0 [] None
               (Some [(''instructions'', JArr [JObj [(''ticket'', JInt 8)]])]),
             flatten_event sample_stdlib ''f'' FLATTEN_OUTCOME_RESOLVED 0 [] None
               (Some [(''closed_tickets'', JArr [JInt 8])])])"

lemmas history_defs = resolved_history_def closing_history_def outcome_event_def execution_event_def
  flatten_event_def last_exposure_relevant_def flatten_payload_def ticket_list_def get_list_def py_get_def
  py_index_def json_iter_def json_int_def

lemma resolved_example:
  "\<exists>e. derive_expected_exposure sample_stdlib [resolved_history] [closing_history] = Inr e"
  by (simp add: derive_expected_exposure_def derive_step_def resolved_outcome_def stop_loss_price_of_def
      entry_type_of_def json_decimal_def json_entry_type_def entry_type_value.simps sample_stdlib_def
      history_defs Let_def)


text \<open>
  A filled, acknowledged or closed request disappears from the expectation. The table
  declares these three last events \<open>UNDETERMINED\<close>, to fail closed; the derivation has no
  branch for them, so a request whose history ends there contributes no ticket and no
  undetermined reason, and the book expected for it alone is the flat one.
\<close>
theorem filled_request_is_forgotten:
  assumes "events \<noteq> []" "ev_event_type (last events) \<in> {EV_FILLED, BROKER_ACK, EV_CLOSED}"
  shows "EXPOSURE_BY_EVENT (ev_event_type (last events)) = UNDETERMINED \<and>
    derive_expected_exposure sl [(rid, events)] [] = Inr empty_exposure"
proof -
  obtain pre e where ev: "events = pre @ [e]" using assms(1) by (cases events rule: rev_cases) auto
  with assms(2) have t: "ev_event_type e \<in> {EV_FILLED, BROKER_ACK, EV_CLOSED}" by simp
  then have u: "EXPOSURE_BY_EVENT (ev_event_type e) = UNDETERMINED" by auto
  then have "last_exposure_relevant events = Some (ev_event_type e, ev_payload e)"
    by (simp add: last_exposure_relevant_def ev)
  with t have "derive_step sl empty_exposure (rid, events) = Inr empty_exposure"
    by (auto simp: derive_step_def)
  with u show ?thesis
    by (auto simp: derive_expected_exposure_def ev empty_exposure_def)
qed

theorem filled_request_is_forgotten_witness:
  "derive_expected_exposure sample_stdlib
     [(''a'', [outcome_event ''a'' SUBMISSION_STARTED (Some [(''volume'', JStr ''1'')]),
              outcome_event ''a'' EV_FILLED (Some [(''state'', JStr ''FILLED'')])])] [] = Inr empty_exposure"
  by (rule filled_request_is_forgotten [THEN conjunct2])
     (simp_all add: outcome_event_def execution_event_def)

lemma started_value_first:
  assumes "find_first (\<lambda>e. ev_event_type e = SUBMISSION_STARTED) events = Some started"
    and "ev_payload started = Some kvs" "py_get kvs key \<noteq> JNull"
  shows "started_value read key events = mapE Some (read (py_get kvs key))"
  using assms
proof (induction events)
  case (Cons e events)
  then show ?case
    by (cases kvs) (auto simp: py_get_def split: if_splits option.splits list.splits)
qed simp

text \<open>
  The stop a position is later verified against is the stop that was committed: for a
  history whose first \<open>SUBMISSION_STARTED\<close> carries a serialised order, the intended stop and
  the entry type read back are those of the order, provided the standard library parses the
  decimals it prints.
\<close>
theorem committed_stop_roundtrip:
  assumes "order_dump sl ord = Inr kvs"
    and "find_first (\<lambda>e. ev_event_type e = SUBMISSION_STARTED) events = Some started"
    and "ev_payload started = Some kvs"
    and "dec_of_text sl (dec_text sl (ao_stop_loss_price ord)) = Some (ao_stop_loss_price ord)"
  shows "stop_loss_price_of sl events = Inr (Some (ao_stop_loss_price ord)) \<and>
    entry_type_of events = Inr (Some (ao_entry_type ord))"
proof -
  have get: "py_get kvs ''stop_loss_price'' = json_dec sl (ao_stop_loss_price ord)"
       "py_get kvs ''entry_type'' = JStr (entry_type_value (ao_entry_type ord))"
    using assms(1) by (auto simp: order_dump_def mapE_eq_Inr py_get_def)
  have "json_entry_type (JStr (entry_type_value (ao_entry_type ord))) = Inr (ao_entry_type ord)"
    by (cases "ao_entry_type ord") (simp_all add: json_entry_type_def)
  then show ?thesis
    using started_value_first [OF assms(2,3), of "''stop_loss_price''" "json_decimal sl"]
      started_value_first [OF assms(2,3), of "''entry_type''" json_entry_type] get assms(4)
    by (simp add: stop_loss_price_of_def entry_type_of_def json_decimal_def json_dec_def)
qed

definition canary_order :: approved_order where
  "canary_order =
     \<lparr>ao_order_request_id = ''a'', ao_intent_id = ''i'', ao_intent_risk_decision_id = ''r'',
      ao_final_risk_decision_id = Some ''f'', ao_supervisor_decision_id = ''s'',
      ao_broker_symbol = ''EURUSD'', ao_side = BUY, ao_entry_type = MARKET, ao_volume = 1 / 10,
      ao_price = None, ao_stop_loss_price = 1, ao_take_profit_price = None, ao_max_slippage_points = 5,
      ao_created_at = 0, ao_expires_at = 1, ao_environment = PAPER\<rparr>"

lemma sample_fingerprint:
  "list_all (\<lambda>kv. encodable (snd kv)) p \<Longrightarrow>
     fingerprint sample_stdlib p = Inr ''e3b0c44298fc1c149afbf4c8996fb924''"
  using fingerprint_total [of p sample_stdlib] by (auto simp: fingerprint_def mapE_eq_Inr sample_stdlib_def)

lemma sample_magic: "mt5_magic_number sample_stdlib r = Inr (0xe3b0c442 AND 0x7FFFFFFF)"
  by (simp add: mt5_magic_number_def sample_fingerprint int_base16_def hex_digit.simps)

lemma canary_order_dump: "\<exists>kvs. order_dump sample_stdlib canary_order = Inr kvs"
  by (simp add: order_dump_def order_magic_number_def sample_magic)

theorem committed_stop_roundtrip_witness:
  "\<exists>kvs. order_dump sample_stdlib canary_order = Inr kvs \<and>
     stop_loss_price_of sample_stdlib [outcome_event ''a'' REQUEST_CLAIMED None,
       outcome_event ''a'' SUBMISSION_STARTED (Some kvs)] = Inr (Some 1)"
proof -
  obtain kvs where kvs: "order_dump sample_stdlib canary_order = Inr kvs" using canary_order_dump by blast
  have "stop_loss_price_of sample_stdlib [outcome_event ''a'' REQUEST_CLAIMED None,
      outcome_event ''a'' SUBMISSION_STARTED (Some kvs)] = Inr (Some (ao_stop_loss_price canary_order))"
    by (rule committed_stop_roundtrip [where started = "outcome_event ''a'' SUBMISSION_STARTED (Some kvs)",
          OF kvs, THEN conjunct1])
       (simp_all add: outcome_event_def execution_event_def canary_order_def sample_stdlib_def)
  with kvs show ?thesis by (auto simp: canary_order_def)
qed

end
