(* ===== verification/TradingWindow.thy ===== *)
theory TradingWindow
  imports Sessions
begin

text \<open>
  Asset-class calendars (\<^verbatim>\<open>risk/calendars.py\<close>) and the weekly session policy
  (\<^verbatim>\<open>risk/trading_window.py\<close>). The \<^verbatim>\<open>TradingCalendar\<close> protocol is the
  record \<open>calendar\<close> of its four members; the laws its implementations keep are the locale
  \<open>weekly_calendar\<close>, interpreted on the FX week and on the always-open market.
\<close>

subsection \<open>Calendars\<close>

record calendar =
  cal_is_market_open :: "utc \<Rightarrow> bool"
  cal_trading_day :: "utc \<Rightarrow> int"
  cal_weekly_close :: "utc \<Rightarrow> utc option"
  cal_session_policy_approved :: bool

definition FxWeekdayCalendar :: "zone_data \<Rightarrow> calendar" where
  "FxWeekdayCalendar dst =
     \<lparr>cal_is_market_open = is_market_open dst,
      cal_trading_day = trading_day dst,
      cal_weekly_close = (\<lambda>moment. Some (weekly_close dst moment)),
      cal_session_policy_approved = True\<rparr>"

definition AlwaysOpenCalendar :: "bool \<Rightarrow> calendar" where
  "AlwaysOpenCalendar approved =
     \<lparr>cal_is_market_open = (\<lambda>moment. True),
      cal_trading_day = local_date,
      cal_weekly_close = (\<lambda>moment. None),
      cal_session_policy_approved = approved\<rparr>"

definition calendar_for :: "zone_data \<Rightarrow> asset_class \<Rightarrow> bool \<Rightarrow> calendar" where
  \<comment> \<open>the three asset classes are all there is, so the final \<^verbatim>\<open>raise\<close> is unreachable\<close>
  "calendar_for dst ac approved =
     (case ac of FX \<Rightarrow> FxWeekdayCalendar dst
               | METAL \<Rightarrow> FxWeekdayCalendar dst
               | CRYPTO \<Rightarrow> AlwaysOpenCalendar approved)"


subsection \<open>Phases and the intraday policy\<close>

datatype session_phase = PH_OPEN | NO_NEW_ENTRIES | FLATTEN_REQUIRED | PH_CLOSED

definition permits_new_entries :: "session_phase \<Rightarrow> bool" where
  "permits_new_entries ph \<longleftrightarrow> ph = PH_OPEN"

record intraday_policy =
  ip_enabled :: bool
  ip_last_entry_offset :: int
  ip_flatten_offset :: int

definition intraday_policy_ok :: "intraday_policy \<Rightarrow> bool" where [checks]:
  "intraday_policy_ok p \<longleftrightarrow>
     \<not> ip_last_entry_offset p < ip_flatten_offset p \<and>
     \<not> (ip_flatten_offset p < 0 \<or> ip_last_entry_offset p < 0)"

definition intraday_policy :: "bool \<Rightarrow> int \<Rightarrow> int \<Rightarrow> py_exn + intraday_policy" where
  "intraday_policy en le_off fl_off =
     (let p = \<lparr>ip_enabled = en, ip_last_entry_offset = le_off, ip_flatten_offset = fl_off\<rparr>
      in if intraday_policy_ok p then Inr p else Inl ValueError)"

definition intraday_disabled :: intraday_policy where
  "intraday_disabled = \<lparr>ip_enabled = False, ip_last_entry_offset = 0, ip_flatten_offset = 0\<rparr>"

definition phase_at :: "calendar \<Rightarrow> intraday_policy \<Rightarrow> utc \<Rightarrow> session_phase" where
  "phase_at cal policy moment =
     (if \<not> cal_is_market_open cal moment then PH_CLOSED
      else case cal_weekly_close cal moment of
        None \<Rightarrow> if cal_session_policy_approved cal then PH_OPEN else PH_CLOSED
      | Some close \<Rightarrow>
          if \<not> ip_enabled policy then PH_OPEN
          else if close - ip_flatten_offset policy \<le> moment then FLATTEN_REQUIRED
          else if close - ip_last_entry_offset policy \<le> moment then NO_NEW_ENTRIES
          else PH_OPEN)"

definition permits_new_entry :: "calendar \<Rightarrow> intraday_policy \<Rightarrow> utc \<Rightarrow> bool" where
  "permits_new_entry cal policy moment = permits_new_entries (phase_at cal policy moment)"

definition requires_flat :: "calendar \<Rightarrow> intraday_policy \<Rightarrow> utc \<Rightarrow> bool" where
  "requires_flat cal policy moment =
     (if \<not> ip_enabled policy then False
      else phase_at cal policy moment \<in> {FLATTEN_REQUIRED, PH_CLOSED})"

definition has_crossed_weekly_close :: "calendar \<Rightarrow> utc \<Rightarrow> utc \<Rightarrow> bool" where
  "has_crossed_weekly_close cal opened_at moment \<longleftrightarrow>
     cal_weekly_close cal opened_at \<noteq> cal_weekly_close cal moment"

definition time_until_weekly_close :: "calendar \<Rightarrow> utc \<Rightarrow> int option" where
  "time_until_weekly_close cal moment =
     map_option (\<lambda>close. close - moment) (cal_weekly_close cal moment)"


subsection \<open>What a calendar promises\<close>

text \<open>
  A calendar either has weekly closes at every moment or at none; the close lies strictly
  after the moment it is asked for and stays the same until it is reached. The session
  policy's guarantees follow from these three laws alone.
\<close>

locale weekly_calendar =
  fixes cal :: calendar
  assumes close_after: "cal_weekly_close cal t = Some c \<Longrightarrow> t < c"
    and close_uniform: "cal_weekly_close cal t = None \<Longrightarrow> cal_weekly_close cal u = None"
    and close_stable: "cal_weekly_close cal t = Some c \<Longrightarrow> t \<le> u \<Longrightarrow> u < c \<Longrightarrow>
                         cal_weekly_close cal u = Some c"
begin

lemma close_exists: "cal_weekly_close cal t = Some c \<Longrightarrow> \<exists>d. cal_weekly_close cal u = Some d"
  using close_uniform [where t = u and u = t] by (cases "cal_weekly_close cal u") auto

lemma close_mono:
  assumes "cal_weekly_close cal t = Some c" "cal_weekly_close cal u = Some d" "t \<le> u"
  shows "c \<le> d"
proof (cases "u < c")
  case True
  with assms close_stable have "cal_weekly_close cal u = Some c" by blast
  with assms show ?thesis by simp
next
  case False
  with close_after [OF assms(2)] show ?thesis by simp
qed

lemma crossed_iff:
  assumes "cal_weekly_close cal t = Some c" "t \<le> u"
  shows "has_crossed_weekly_close cal t u \<longleftrightarrow> c \<le> u"
proof -
  obtain d where d: "cal_weekly_close cal u = Some d" using close_exists assms(1) by blast
  show ?thesis
    using close_stable [OF assms] close_after [OF d] d assms(1)
    by (cases "u < c") (auto simp: has_crossed_weekly_close_def)
qed

lemma crossed_persists:
  assumes "has_crossed_weekly_close cal t u" "t \<le> u" "u \<le> v"
  shows "has_crossed_weekly_close cal t v"
proof (cases "cal_weekly_close cal t")
  case None
  with assms(1) close_uniform show ?thesis by (simp add: has_crossed_weekly_close_def)
next
  case (Some c)
  with crossed_iff assms show ?thesis by (meson order_trans)
qed

lemma entry_before_deadline:
  assumes "permits_new_entry cal p t" "ip_enabled p" "cal_weekly_close cal t = Some c"
    and "intraday_policy_ok p"
  shows "cal_is_market_open cal t" "t < c - ip_last_entry_offset p" "t < c - ip_flatten_offset p"
  using assms
  by (auto simp: permits_new_entry_def permits_new_entries_def phase_at_def intraday_policy_ok_def
           split: if_splits)

lemma entry_excludes_flat: "permits_new_entry cal p t \<Longrightarrow> \<not> requires_flat cal p t"
  by (auto simp: permits_new_entry_def permits_new_entries_def requires_flat_def)

lemma requires_flat_until_close:
  assumes "requires_flat cal p t" "cal_is_market_open cal t" "cal_weekly_close cal t = Some c"
    and "t \<le> u" "u < c"
  shows "requires_flat cal p u"
  using assms close_stable [of t c u]
  by (auto simp: requires_flat_def phase_at_def split: if_splits option.splits)

lemma remaining_positive: "time_until_weekly_close cal t = Some d \<Longrightarrow> 0 < d"
  using close_after by (auto simp: time_until_weekly_close_def)

end

lemma fx_weekly_close [simp]: "cal_weekly_close (FxWeekdayCalendar dst) t = Some (weekly_close dst t)"
  and fx_open [simp]: "cal_is_market_open (FxWeekdayCalendar dst) = is_market_open dst"
  and fx_trading_day [simp]: "cal_trading_day (FxWeekdayCalendar dst) = trading_day dst"
  and fx_approved [simp]: "cal_session_policy_approved (FxWeekdayCalendar dst)"
  by (simp_all add: FxWeekdayCalendar_def)

lemma always_weekly_close [simp]: "cal_weekly_close (AlwaysOpenCalendar a) t = None"
  and always_open [simp]: "cal_is_market_open (AlwaysOpenCalendar a) t"
  and always_approved [simp]: "cal_session_policy_approved (AlwaysOpenCalendar a) = a"
  by (simp_all add: AlwaysOpenCalendar_def)

lemma weekly_close_stable:
  assumes "t \<le> u" "u < weekly_close dst t"
  shows "weekly_close dst u = weekly_close dst t"
proof -
  obtain k where k: "weekly_close dst t = friday_close dst k"
    using weekly_close_gap by blast
  then have "friday_close dst (k - 1) \<le> t" by (simp add: weekly_close_eq_iff)
  with assms k have "weekly_close dst u = friday_close dst k" by (simp add: weekly_close_eq_iff)
  with k show ?thesis by simp
qed

interpretation fx: weekly_calendar "FxWeekdayCalendar dst" for dst
  by unfold_locales (auto simp: weekly_close_after weekly_close_stable)

interpretation always: weekly_calendar "AlwaysOpenCalendar a" for a
  by unfold_locales auto

lemma phase_always_open: "phase_at (AlwaysOpenCalendar a) p t = (if a then PH_OPEN else PH_CLOSED)"
  by (simp add: phase_at_def)


subsection \<open>The session policy on the real calendars\<close>

text \<open>
  On the FX week, a position opened at one moment and still there at a later one has
  crossed the weekly close exactly when some Friday 17:00 New York close lies in between:
  weekday rollovers never count, weekends always do, in every daylight-saving regime.
\<close>

theorem crossed_weekly_close_iff:
  assumes "opened \<le> t"
  shows "has_crossed_weekly_close (FxWeekdayCalendar dst) opened t \<longleftrightarrow>
           (\<exists>k. opened < friday_close dst k \<and> friday_close dst k \<le> t)"
proof -
  obtain k where k: "weekly_close dst opened = friday_close dst k"
      and gap: "friday_close dst (k - 1) \<le> opened" "opened < friday_close dst k"
    using weekly_close_gap by blast
  have "has_crossed_weekly_close (FxWeekdayCalendar dst) opened t \<longleftrightarrow> friday_close dst k \<le> t"
    by (rule fx.crossed_iff) (simp_all add: k assms)
  moreover have "friday_close dst k \<le> friday_close dst j" if "opened < friday_close dst j" for j
  proof -
    have "friday_close dst (k - 1) < friday_close dst j" using gap(1) that by linarith
    then show ?thesis by simp
  qed
  ultimately show ?thesis using gap(2) by (meson order_trans)
qed

lemma friday_close_winter: "friday_close (\<lambda>_. False) k = friday_wall k + 5 * US_HOUR"
  by (simp add: friday_close_def from_new_york_def ny_offset_def)

lemma crossed_weekly_close_iff_witness:
  "has_crossed_weekly_close (FxWeekdayCalendar (\<lambda>_. False)) 0 US_WEEK \<and>
   \<not> has_crossed_weekly_close (FxWeekdayCalendar (\<lambda>_. False)) 0 US_DAY"
proof
  show "has_crossed_weekly_close (FxWeekdayCalendar (\<lambda>_. False)) 0 US_WEEK"
    by (subst crossed_weekly_close_iff)
       (auto simp: friday_close_winter friday_wall_def intro!: exI [of _ 0])
  show "\<not> has_crossed_weekly_close (FxWeekdayCalendar (\<lambda>_. False)) 0 US_DAY"
  proof -
    have "\<not> (0 < friday_wall k + 5 * US_HOUR \<and> friday_wall k + 5 * US_HOUR \<le> US_DAY)" for k
      by (cases "0 \<le> k") (auto simp: friday_wall_def)
    then show ?thesis by (subst crossed_weekly_close_iff) (auto simp: friday_close_winter)
  qed
qed

text \<open>
  Who may open a position, exactly: on currencies and metals only while the New York
  week is open and, under an enabled policy, strictly before the last-entry deadline
  measured back from that week's close; on a continuous market only with the owner's
  explicit session approval, whatever the intraday policy says. A moment that permits an
  entry never already requires the book to be flat.
\<close>

theorem permits_new_entry_iff:
  assumes "intraday_policy_ok p"
  shows "(permits_new_entry (calendar_for dst ac approved) p t \<longleftrightarrow>
            (if ac = CRYPTO then approved
             else is_market_open dst t \<and>
                  (ip_enabled p \<longrightarrow> t < weekly_close dst t - ip_last_entry_offset p))) \<and>
         \<not> (permits_new_entry (calendar_for dst ac approved) p t \<and>
             requires_flat (calendar_for dst ac approved) p t)"
proof -
  have "\<not> (permits_new_entry c p t \<and> requires_flat c p t)" for c
    by (auto simp: permits_new_entry_def permits_new_entries_def requires_flat_def)
  then show ?thesis
    using assms
    by (cases ac)
       (auto simp: calendar_for_def permits_new_entry_def permits_new_entries_def phase_at_def
          intraday_policy_ok_def)
qed

definition owner_policy :: intraday_policy where
  "owner_policy = \<lparr>ip_enabled = True, ip_last_entry_offset = US_HOUR, ip_flatten_offset = 900000000\<rparr>"

lemma owner_policy_ok [simp]: "intraday_policy_ok owner_policy"
  by (simp add: owner_policy_def intraday_policy_ok_def)

lemma permits_new_entry_iff_witness:
  "intraday_policy_ok owner_policy \<and> permits_new_entry (calendar_for (\<lambda>_. False) CRYPTO True) owner_policy 0 \<and>
   \<not> permits_new_entry (calendar_for (\<lambda>_. False) CRYPTO False) owner_policy 0"
  using permits_new_entry_iff [OF owner_policy_ok] by simp

end
