(* ===== verification/Config.thy ===== *)
theory Config
  imports TradingWindow "HOL-Library.AList" "HOL-Library.Sublist"
begin

text \<open>
  The platform configuration (\<^verbatim>\<open>config.py\<close>): its sections with their validators,
  the per-market merge of overrides, the version hash an owner approves, the merge of the
  YAML documents and the refusal of credentials in them. Reading the YAML files is not
  modelled: a document arrives as the mapping it parses to, with string keys.
\<close>

subsection \<open>Sections\<close>

record risk_config =
  rc_max_risk_per_trade :: decimal
  rc_max_open_risk :: decimal
  rc_max_daily_loss :: decimal
  rc_max_drawdown :: decimal
  rc_max_orders_per_hour :: int
  rc_max_open_positions :: int
  rc_min_stop_distance_points :: int
  rc_approved_config_version :: "string option"

definition check_budget_ordering :: "risk_config \<Rightarrow> bool" where [checks]:
  "check_budget_ordering c \<longleftrightarrow>
     \<not> rc_max_open_risk c < rc_max_risk_per_trade c \<and> \<not> rc_max_drawdown c < rc_max_daily_loss c"

definition risk_config_valid :: "risk_config \<Rightarrow> bool" where [checks]:
  "risk_config_valid c \<longleftrightarrow>
     risk_fraction_ok (rc_max_risk_per_trade c) \<and> risk_fraction_ok (rc_max_open_risk c) \<and>
     risk_fraction_ok (rc_max_daily_loss c) \<and> risk_fraction_ok (rc_max_drawdown c) \<and>
     0 \<le> rc_max_orders_per_hour c \<and> 0 \<le> rc_max_open_positions c \<and>
     0 \<le> rc_min_stop_distance_points c \<and>
     opt_ok (text_ok 1 128) (rc_approved_config_version c) \<and> check_budget_ordering c"

record risk_overrides =
  ro_max_risk_per_trade :: "decimal option"
  ro_max_open_risk :: "decimal option"
  ro_max_daily_loss :: "decimal option"
  ro_max_drawdown :: "decimal option"
  ro_max_orders_per_hour :: "int option"
  ro_max_open_positions :: "int option"
  ro_min_stop_distance_points :: "int option"

definition risk_overrides_valid :: "risk_overrides \<Rightarrow> bool" where [checks]:
  "risk_overrides_valid r \<longleftrightarrow>
     opt_ok (\<lambda>f. risk_fraction_ok f) (ro_max_risk_per_trade r) \<and>
     opt_ok (\<lambda>f. risk_fraction_ok f) (ro_max_open_risk r) \<and>
     opt_ok (\<lambda>f. risk_fraction_ok f) (ro_max_daily_loss r) \<and>
     opt_ok (\<lambda>f. risk_fraction_ok f) (ro_max_drawdown r) \<and>
     opt_ok (\<lambda>n. 0 \<le> n) (ro_max_orders_per_hour r) \<and> opt_ok (\<lambda>n. 0 \<le> n) (ro_max_open_positions r) \<and>
     opt_ok (\<lambda>n. 0 \<le> n) (ro_min_stop_distance_points r)"

record execution_config =
  ec_max_spread_points :: int
  ec_max_market_data_age_ms :: int
  ec_order_timeout_ms :: int
  ec_max_slippage_points :: int
  ec_submission_enabled :: bool
  ec_feedback_2_0_approved :: bool
  ec_flatten_submission_enabled :: bool
  ec_approved_canary_account_ref :: "string option"

definition execution_config_valid :: "execution_config \<Rightarrow> bool" where [checks]:
  "execution_config_valid c \<longleftrightarrow>
     0 < ec_max_spread_points c \<and> 0 < ec_max_market_data_age_ms c \<and> 0 < ec_order_timeout_ms c \<and>
     0 \<le> ec_max_slippage_points c"

record execution_overrides =
  eo_max_spread_points :: "int option"
  eo_max_market_data_age_ms :: "int option"
  eo_order_timeout_ms :: "int option"
  eo_max_slippage_points :: "int option"

definition execution_overrides_valid :: "execution_overrides \<Rightarrow> bool" where [checks]:
  "execution_overrides_valid e \<longleftrightarrow>
     opt_ok (\<lambda>n. 0 < n) (eo_max_spread_points e) \<and> opt_ok (\<lambda>n. 0 < n) (eo_max_market_data_age_ms e) \<and>
     opt_ok (\<lambda>n. 0 < n) (eo_order_timeout_ms e) \<and> opt_ok (\<lambda>n. 0 \<le> n) (eo_max_slippage_points e)"

record market_config =
  mc_canonical_symbol :: string
  mc_enabled :: bool
  mc_asset_class :: asset_class
  mc_broker_symbol :: string
  mc_expected_spec_version :: "string option"
  mc_session_policy_approved :: bool
  mc_risk_overrides :: "risk_overrides option"
  mc_execution_overrides :: "execution_overrides option"

definition market_config_valid :: "market_config \<Rightarrow> bool" where [checks]:
  "market_config_valid m \<longleftrightarrow>
     symbol_ok (mc_canonical_symbol m) \<and> text_ok 1 32 (mc_broker_symbol m) \<and>
     opt_ok (text_ok 1 128) (mc_expected_spec_version m) \<and>
     opt_ok risk_overrides_valid (mc_risk_overrides m) \<and>
     opt_ok execution_overrides_valid (mc_execution_overrides m)"

record trading_agent_config =
  ta_strategy_id :: string
  ta_strategy_version :: string
  ta_model_version :: "string option"

record supervisor_config =
  sc_enabled :: bool
  sc_veto_on_unknown_regime :: bool
  sc_halt_on_reconciliation_mismatch :: bool
  sc_policy_version :: string
  sc_max_intents_per_hour :: "int option"

definition supervisor_config_valid :: "supervisor_config \<Rightarrow> bool" where [checks]:
  "supervisor_config_valid c \<longleftrightarrow>
     version_tag_ok (sc_policy_version c) \<and> opt_ok (\<lambda>n. 1 \<le> n) (sc_max_intents_per_hour c)"

record intraday_config =
  ic_enabled :: bool
  ic_last_entry_minutes_before_close :: int
  ic_flatten_minutes_before_close :: int

definition intraday_config_valid :: "intraday_config \<Rightarrow> bool" where [checks]:
  "intraday_config_valid c \<longleftrightarrow>
     0 \<le> ic_last_entry_minutes_before_close c \<and> 0 \<le> ic_flatten_minutes_before_close c \<and>
     \<not> ic_last_entry_minutes_before_close c < ic_flatten_minutes_before_close c"

abbreviation minutes_us :: "int \<Rightarrow> int" where "minutes_us m \<equiv> m * 60000000"

definition policy_from_config :: "intraday_config \<Rightarrow> py_exn + intraday_policy" where
  "policy_from_config c =
     intraday_policy (ic_enabled c) (minutes_us (ic_last_entry_minutes_before_close c))
       (minutes_us (ic_flatten_minutes_before_close c))"

lemma policy_from_config_valid:
  assumes "intraday_config_valid c"
  obtains p where "policy_from_config c = Inr p" "intraday_policy_ok p"
    "ip_flatten_offset p \<le> ip_last_entry_offset p" "ip_enabled p = ic_enabled c"
  using assms that
  by (simp add: policy_from_config_def intraday_policy_def intraday_config_valid_def intraday_policy_ok_def Let_def)

record account_guard_config =
  ag_expected_server :: string
  ag_expected_login :: "int option"
  ag_require_demo_account :: bool
  ag_expected_currency :: "string option"
  ag_expected_leverage :: "int option"
  ag_broker_account_ref :: "string option"

definition account_guard_config_valid :: "account_guard_config \<Rightarrow> bool" where [checks]:
  "account_guard_config_valid g \<longleftrightarrow>
     text_ok 1 128 (ag_expected_server g) \<and> opt_ok (text_ok 3 8) (ag_expected_currency g) \<and>
     opt_ok (\<lambda>n. 0 < n) (ag_expected_leverage g) \<and> opt_ok (text_ok 1 128) (ag_broker_account_ref g)"


subsection \<open>The platform\<close>

record platform_config =
  pc_environment :: environment
  pc_markets :: "market_config list"
  pc_risk :: risk_config
  pc_execution :: execution_config
  pc_trading_agent :: trading_agent_config
  pc_supervisor :: supervisor_config
  pc_account_guard :: account_guard_config
  pc_intraday :: intraday_config
  pc_live_trading_acknowledged :: bool

definition DEMO_ONLY_ENVIRONMENTS :: "environment set" where
  "DEMO_ONLY_ENVIRONMENTS = {PAPER, SHADOW}"

definition check_markets :: "platform_config \<Rightarrow> bool" where [checks]:
  "check_markets c \<longleftrightarrow> pc_markets c \<noteq> [] \<and> distinct (map mc_canonical_symbol (pc_markets c))"

definition check_environment_guardrails :: "platform_config \<Rightarrow> bool" where [checks]:
  "check_environment_guardrails c \<longleftrightarrow>
     \<not> (pc_environment c \<in> DEMO_ONLY_ENVIRONMENTS \<and> \<not> ag_require_demo_account (pc_account_guard c)) \<and>
     \<not> (pc_environment c = LIVE \<and> \<not> pc_live_trading_acknowledged c)"

definition platform_config_valid :: "platform_config \<Rightarrow> bool" where [checks]:
  "platform_config_valid c \<longleftrightarrow>
     list_all market_config_valid (pc_markets c) \<and> risk_config_valid (pc_risk c) \<and>
     execution_config_valid (pc_execution c) \<and>
     version_tag_ok (ta_strategy_id (pc_trading_agent c)) \<and>
     version_tag_ok (ta_strategy_version (pc_trading_agent c)) \<and>
     opt_ok version_tag_ok (ta_model_version (pc_trading_agent c)) \<and>
     supervisor_config_valid (pc_supervisor c) \<and> account_guard_config_valid (pc_account_guard c) \<and>
     intraday_config_valid (pc_intraday c) \<and> check_markets c \<and> check_environment_guardrails c"

definition enabled_symbols :: "platform_config \<Rightarrow> string list" where
  "enabled_symbols c = map mc_canonical_symbol (filter mc_enabled (pc_markets c))"

definition market_for :: "platform_config \<Rightarrow> string \<Rightarrow> market_config option" where
  "market_for c symbol = find_first (\<lambda>m. mc_canonical_symbol m = symbol) (pc_markets c)"

definition override :: "'a \<Rightarrow> 'a option \<Rightarrow> 'a" where
  "override base v = (case v of None \<Rightarrow> base | Some x \<Rightarrow> x)"

lemma override_simps [simp]: "override b None = b" "override b (Some x) = x"
  by (simp_all add: override_def)

definition merge_risk :: "risk_config \<Rightarrow> risk_overrides \<Rightarrow> risk_config" where
  "merge_risk r v =
     r\<lparr>rc_max_risk_per_trade := override (rc_max_risk_per_trade r) (ro_max_risk_per_trade v),
       rc_max_open_risk := override (rc_max_open_risk r) (ro_max_open_risk v),
       rc_max_daily_loss := override (rc_max_daily_loss r) (ro_max_daily_loss v),
       rc_max_drawdown := override (rc_max_drawdown r) (ro_max_drawdown v),
       rc_max_orders_per_hour := override (rc_max_orders_per_hour r) (ro_max_orders_per_hour v),
       rc_max_open_positions := override (rc_max_open_positions r) (ro_max_open_positions v),
       rc_min_stop_distance_points :=
         override (rc_min_stop_distance_points r) (ro_min_stop_distance_points v)\<rparr>"

definition risk_for :: "platform_config \<Rightarrow> string \<Rightarrow> py_exn + risk_config" where
  "risk_for c symbol =
     (case (case market_for c symbol of None \<Rightarrow> None | Some m \<Rightarrow> mc_risk_overrides m) of
        None \<Rightarrow> Inr (pc_risk c)
      | Some v \<Rightarrow> contract risk_config_valid (merge_risk (pc_risk c) v))"

definition merge_execution :: "execution_config \<Rightarrow> execution_overrides \<Rightarrow> execution_config" where
  "merge_execution e v =
     e\<lparr>ec_max_spread_points := override (ec_max_spread_points e) (eo_max_spread_points v),
       ec_max_market_data_age_ms :=
         override (ec_max_market_data_age_ms e) (eo_max_market_data_age_ms v),
       ec_order_timeout_ms := override (ec_order_timeout_ms e) (eo_order_timeout_ms v),
       ec_max_slippage_points := override (ec_max_slippage_points e) (eo_max_slippage_points v)\<rparr>"

definition execution_for :: "platform_config \<Rightarrow> string \<Rightarrow> py_exn + execution_config" where
  "execution_for c symbol =
     (case (case market_for c symbol of None \<Rightarrow> None | Some m \<Rightarrow> mc_execution_overrides m) of
        None \<Rightarrow> Inr (pc_execution c)
      | Some v \<Rightarrow> contract execution_config_valid (merge_execution (pc_execution c) v))"

lemma market_for_valid:
  "platform_config_valid c \<Longrightarrow> market_for c s = Some m \<Longrightarrow> market_config_valid m \<and> m \<in> set (pc_markets c)"
  by (auto simp: market_for_def platform_config_valid_def list_all_iff dest!: find_first_Some)

text \<open>
  A market cannot opt itself into trading: in a validated configuration the effective
  execution settings of every symbol always exist and are valid, each numeric limit is the
  market's override or else the platform's, and the four submission approvals are exactly
  the platform's whatever the market overrides.
\<close>

theorem execution_for_governance:
  assumes "platform_config_valid c"
  shows "\<exists>e. execution_for c symbol = Inr e \<and> execution_config_valid e \<and>
           ec_submission_enabled e = ec_submission_enabled (pc_execution c) \<and>
           ec_feedback_2_0_approved e = ec_feedback_2_0_approved (pc_execution c) \<and>
           ec_flatten_submission_enabled e = ec_flatten_submission_enabled (pc_execution c) \<and>
           ec_approved_canary_account_ref e = ec_approved_canary_account_ref (pc_execution c) \<and>
           (\<forall>m v. market_for c symbol = Some m \<and> mc_execution_overrides m = Some v \<longrightarrow>
              ec_max_spread_points e = override (ec_max_spread_points (pc_execution c)) (eo_max_spread_points v))"
proof (cases "case market_for c symbol of None \<Rightarrow> None | Some m \<Rightarrow> mc_execution_overrides m")
  case None
  with assms show ?thesis
    by (auto simp: execution_for_def platform_config_valid_def split: option.splits)
next
  case (Some v)
  then obtain m where m: "market_for c symbol = Some m" "mc_execution_overrides m = Some v"
    by (auto split: option.splits)
  then have v: "execution_overrides_valid v"
    using market_for_valid [OF assms m(1)] by (simp add: market_config_valid_def)
  have "execution_config_valid (pc_execution c)" using assms by (simp add: platform_config_valid_def)
  with v have "execution_config_valid (merge_execution (pc_execution c) v)"
    by (auto simp: execution_config_valid_def execution_overrides_valid_def merge_execution_def
        override_def opt_ok_def split: option.splits)
  with m show ?thesis by (auto simp: execution_for_def contract_def) (auto simp: merge_execution_def)
qed

text \<open>
  The budget ordering survives every override: the effective risk settings of a symbol
  are either refused with a validation error, or are valid, with one trade's risk within the
  portfolio's and the daily limit within the drawdown limit, and they always carry the
  platform's own approval of the risk policy.
\<close>

theorem risk_for_ordered:
  assumes "platform_config_valid c"
  shows "risk_for c symbol = Inl ValidationError \<or>
         (\<exists>r. risk_for c symbol = Inr r \<and> risk_config_valid r \<and>
            rc_max_risk_per_trade r \<le> rc_max_open_risk r \<and> rc_max_daily_loss r \<le> rc_max_drawdown r \<and>
            rc_approved_config_version r = rc_approved_config_version (pc_risk c) \<and>
            (market_for c symbol = None \<longrightarrow> r = pc_risk c))"
proof -
  have base: "risk_config_valid (pc_risk c)" using assms by (simp add: platform_config_valid_def)
  have ord: "rc_max_risk_per_trade r \<le> rc_max_open_risk r \<and> rc_max_daily_loss r \<le> rc_max_drawdown r"
    if "risk_config_valid r" for r
    using that by (simp add: risk_config_valid_def check_budget_ordering_def not_less)
  have merged: "rc_approved_config_version (merge_risk r v) = rc_approved_config_version r" for r v
    by (simp add: merge_risk_def)
  show ?thesis
    using base ord merged by (auto simp: risk_for_def contract_def split: option.split)
qed


subsection \<open>Versions\<close>

text \<open>
  The payload an owner's approval is bound to. \<open>dec_str\<close> is \<^verbatim>\<open>str\<close> of a decimal;
  a decimal is its value here, so two spellings of one number are one.
\<close>

definition risk_payload :: "(decimal \<Rightarrow> string) \<Rightarrow> risk_config \<Rightarrow> pyval" where
  "risk_payload dec_str r = PDict
     [(''max_risk_per_trade'', PStr (dec_str (rc_max_risk_per_trade r))),
      (''max_open_risk'', PStr (dec_str (rc_max_open_risk r))),
      (''max_daily_loss'', PStr (dec_str (rc_max_daily_loss r))),
      (''max_drawdown'', PStr (dec_str (rc_max_drawdown r))),
      (''max_orders_per_hour'', PInt (rc_max_orders_per_hour r)),
      (''max_open_positions'', PInt (rc_max_open_positions r)),
      (''min_stop_distance_points'', PInt (rc_min_stop_distance_points r))]"

definition risk_overrides_payload :: "(decimal \<Rightarrow> string) \<Rightarrow> risk_overrides \<Rightarrow> pyval" where
  "risk_overrides_payload dec_str r = PDict
     [(''max_risk_per_trade'', opt_val (PStr \<circ> dec_str) (ro_max_risk_per_trade r)),
      (''max_open_risk'', opt_val (PStr \<circ> dec_str) (ro_max_open_risk r)),
      (''max_daily_loss'', opt_val (PStr \<circ> dec_str) (ro_max_daily_loss r)),
      (''max_drawdown'', opt_val (PStr \<circ> dec_str) (ro_max_drawdown r)),
      (''max_orders_per_hour'', opt_val PInt (ro_max_orders_per_hour r)),
      (''max_open_positions'', opt_val PInt (ro_max_open_positions r)),
      (''min_stop_distance_points'', opt_val PInt (ro_min_stop_distance_points r))]"

definition execution_payload :: "execution_config \<Rightarrow> pyval" where
  "execution_payload e = PDict
     [(''max_spread_points'', PInt (ec_max_spread_points e)),
      (''max_market_data_age_ms'', PInt (ec_max_market_data_age_ms e)),
      (''order_timeout_ms'', PInt (ec_order_timeout_ms e)),
      (''max_slippage_points'', PInt (ec_max_slippage_points e))]"

definition execution_overrides_payload :: "execution_overrides \<Rightarrow> pyval" where
  "execution_overrides_payload e = PDict
     [(''max_spread_points'', opt_val PInt (eo_max_spread_points e)),
      (''max_market_data_age_ms'', opt_val PInt (eo_max_market_data_age_ms e)),
      (''order_timeout_ms'', opt_val PInt (eo_order_timeout_ms e)),
      (''max_slippage_points'', opt_val PInt (eo_max_slippage_points e))]"

fun asset_class_value :: "asset_class \<Rightarrow> string" where
  "asset_class_value FX = ''FX''"
| "asset_class_value CRYPTO = ''CRYPTO''"
| "asset_class_value METAL = ''METAL''"

definition market_payload :: "(decimal \<Rightarrow> string) \<Rightarrow> market_config \<Rightarrow> pyval" where
  "market_payload dec_str m = PDict
     [(''canonical_symbol'', PStr (mc_canonical_symbol m)),
      (''enabled'', PBool (mc_enabled m)),
      (''asset_class'', PStr (asset_class_value (mc_asset_class m))),
      (''broker_symbol'', PStr (mc_broker_symbol m)),
      (''expected_spec_version'', opt_val PStr (mc_expected_spec_version m)),
      (''session_policy_approved'', PBool (mc_session_policy_approved m)),
      (''risk_overrides'', opt_val (risk_overrides_payload dec_str) (mc_risk_overrides m)),
      (''execution_overrides'', opt_val execution_overrides_payload (mc_execution_overrides m))]"

definition config_payload :: "(decimal \<Rightarrow> string) \<Rightarrow> platform_config \<Rightarrow> (string \<times> pyval) list" where
  "config_payload dec_str c =
     [(''environment'', PStr (environment_value (pc_environment c))),
      (''markets'', PList (map (market_payload dec_str) (pc_markets c))),
      (''risk'', risk_payload dec_str (pc_risk c)),
      (''execution'', execution_payload (pc_execution c)),
      (''trading_agent'', PDict
         [(''strategy_id'', PStr (ta_strategy_id (pc_trading_agent c))),
          (''strategy_version'', PStr (ta_strategy_version (pc_trading_agent c))),
          (''model_version'', opt_val PStr (ta_model_version (pc_trading_agent c)))]),
      (''supervisor'', PDict
         [(''enabled'', PBool (sc_enabled (pc_supervisor c))),
          (''veto_on_unknown_regime'', PBool (sc_veto_on_unknown_regime (pc_supervisor c))),
          (''halt_on_reconciliation_mismatch'',
             PBool (sc_halt_on_reconciliation_mismatch (pc_supervisor c))),
          (''policy_version'', PStr (sc_policy_version (pc_supervisor c))),
          (''max_intents_per_hour'', opt_val PInt (sc_max_intents_per_hour (pc_supervisor c)))]),
      (''account_guard'', PDict
         [(''expected_server'', PStr (ag_expected_server (pc_account_guard c))),
          (''expected_login'', opt_val PInt (ag_expected_login (pc_account_guard c))),
          (''require_demo_account'', PBool (ag_require_demo_account (pc_account_guard c))),
          (''expected_currency'', opt_val PStr (ag_expected_currency (pc_account_guard c))),
          (''expected_leverage'', opt_val PInt (ag_expected_leverage (pc_account_guard c))),
          (''broker_account_ref'', opt_val PStr (ag_broker_account_ref (pc_account_guard c)))]),
      (''intraday'', PDict
         [(''enabled'', PBool (ic_enabled (pc_intraday c))),
          (''last_entry_minutes_before_close'', PInt (ic_last_entry_minutes_before_close (pc_intraday c))),
          (''flatten_minutes_before_close'', PInt (ic_flatten_minutes_before_close (pc_intraday c)))]),
      (''live_trading_acknowledged'', PBool (pc_live_trading_acknowledged c))]"

definition config_version :: "stdlib \<Rightarrow> (decimal \<Rightarrow> string) \<Rightarrow> platform_config \<Rightarrow> py_exn + string" where
  "config_version sl dec_str c = fingerprint sl (config_payload dec_str c)"

definition without_governance :: "platform_config \<Rightarrow> platform_config" where
  \<comment> \<open>the configuration with the five approval fields blanked\<close>
  "without_governance c =
     c\<lparr>pc_risk := (pc_risk c)\<lparr>rc_approved_config_version := None\<rparr>,
       pc_execution := (pc_execution c)\<lparr>ec_submission_enabled := False, ec_feedback_2_0_approved := False,
         ec_flatten_submission_enabled := False, ec_approved_canary_account_ref := None\<rparr>\<rparr>"

lemma opt_val_inj:
  assumes "\<And>a b. f a = f b \<longleftrightarrow> a = b" "\<And>a. f a \<noteq> PNone"
  shows "opt_val f x = opt_val f y \<longleftrightarrow> x = y"
  using assms by (cases x; cases y) (auto simp: opt_val_def dest: sym)

lemma opt_val_basic [simp]:
  "opt_val PStr x = opt_val PStr y \<longleftrightarrow> x = y" "opt_val PInt i = opt_val PInt j \<longleftrightarrow> i = j"
  "inj dec_str \<Longrightarrow> opt_val (PStr \<circ> dec_str) d = opt_val (PStr \<circ> dec_str) d' \<longleftrightarrow> d = d'"
  by (auto intro!: opt_val_inj simp: inj_eq)

lemma enum_value_inj [simp]:
  "asset_class_value a = asset_class_value b \<longleftrightarrow> a = b"
  "environment_value e = environment_value e' \<longleftrightarrow> e = e'"
  by (cases a; cases b; simp) (cases e; cases e'; simp)

lemma risk_overrides_payload_inj:
  "inj dec_str \<Longrightarrow> risk_overrides_payload dec_str r = risk_overrides_payload dec_str r' \<longleftrightarrow> r = r'"
  by (cases r; cases r') (simp add: risk_overrides_payload_def)

lemma execution_overrides_payload_inj:
  "execution_overrides_payload e = execution_overrides_payload e' \<longleftrightarrow> e = e'"
  by (cases e; cases e') (simp add: execution_overrides_payload_def)

lemma market_payload_inj:
  assumes "inj dec_str"
  shows "market_payload dec_str m = market_payload dec_str m' \<longleftrightarrow> m = m'"
proof -
  have "opt_val (risk_overrides_payload dec_str) x = opt_val (risk_overrides_payload dec_str) y \<longleftrightarrow> x = y" for x y
    by (rule opt_val_inj) (simp_all add: risk_overrides_payload_inj [OF assms], simp add: risk_overrides_payload_def)
  moreover have "opt_val execution_overrides_payload x = opt_val execution_overrides_payload y \<longleftrightarrow> x = y" for x y
    by (rule opt_val_inj) (simp_all add: execution_overrides_payload_inj, simp add: execution_overrides_payload_def)
  ultimately show ?thesis by (cases m; cases m') (simp add: market_payload_def)
qed

text \<open>
  The version an owner approves is exactly the substance of the configuration: when
  decimals print injectively, two configurations have the same hashed payload if and only
  if they agree in everything but the five approval fields, so writing an approval never
  changes the version it approves, and no other change escapes it.
\<close>

theorem config_version_substance:
  assumes "inj dec_str"
  shows "(config_payload dec_str c = config_payload dec_str c' \<longleftrightarrow> without_governance c = without_governance c') \<and>
         config_version sl dec_str (without_governance c) = config_version sl dec_str c"
proof -
  have markets: "map (market_payload dec_str) ms = map (market_payload dec_str) ms' \<longleftrightarrow> ms = ms'" for ms ms'
    by (rule inj_map_eq_map) (auto simp: inj_def market_payload_inj [OF assms])
  have risk: "risk_payload dec_str r = risk_payload dec_str r' \<longleftrightarrow>
      r\<lparr>rc_approved_config_version := None\<rparr> = r'\<lparr>rc_approved_config_version := None\<rparr>" for r r'
    by (cases r; cases r') (simp add: risk_payload_def inj_eq [OF assms])
  have exec: "execution_payload e = execution_payload e' \<longleftrightarrow>
      e\<lparr>ec_submission_enabled := False, ec_feedback_2_0_approved := False,
        ec_flatten_submission_enabled := False, ec_approved_canary_account_ref := None\<rparr> =
      e'\<lparr>ec_submission_enabled := False, ec_feedback_2_0_approved := False,
        ec_flatten_submission_enabled := False, ec_approved_canary_account_ref := None\<rparr>" for e e'
    by (cases e; cases e') (simp add: execution_payload_def)
  have parts: "t = t' \<longleftrightarrow> ta_strategy_id t = ta_strategy_id t' \<and> ta_strategy_version t = ta_strategy_version t' \<and>
      ta_model_version t = ta_model_version t'" for t t' :: trading_agent_config by (cases t; cases t') simp
  have sup: "u = u' \<longleftrightarrow> sc_enabled u = sc_enabled u' \<and> sc_veto_on_unknown_regime u = sc_veto_on_unknown_regime u' \<and>
      sc_halt_on_reconciliation_mismatch u = sc_halt_on_reconciliation_mismatch u' \<and>
      sc_policy_version u = sc_policy_version u' \<and> sc_max_intents_per_hour u = sc_max_intents_per_hour u'"
    for u u' :: supervisor_config by (cases u; cases u') simp
  have guard: "g = g' \<longleftrightarrow> ag_expected_server g = ag_expected_server g' \<and> ag_expected_login g = ag_expected_login g' \<and>
      ag_require_demo_account g = ag_require_demo_account g' \<and> ag_expected_currency g = ag_expected_currency g' \<and>
      ag_expected_leverage g = ag_expected_leverage g' \<and> ag_broker_account_ref g = ag_broker_account_ref g'"
    for g g' :: account_guard_config by (cases g; cases g') simp
  have intra: "i = i' \<longleftrightarrow> ic_enabled i = ic_enabled i' \<and>
      ic_last_entry_minutes_before_close i = ic_last_entry_minutes_before_close i' \<and>
      ic_flatten_minutes_before_close i = ic_flatten_minutes_before_close i'"
    for i i' :: intraday_config by (cases i; cases i') simp
  have "config_payload dec_str c = config_payload dec_str c' \<longleftrightarrow> without_governance c = without_governance c'"
    by (cases c; cases c')
       (simp add: config_payload_def without_governance_def markets risk exec parts sup guard intra conj_ac)
  moreover have "config_payload dec_str (without_governance c) = config_payload dec_str c"
    by (simp add: config_payload_def without_governance_def risk_payload_def execution_payload_def)
  ultimately show ?thesis by (simp add: config_version_def)
qed

text \<open>A sample platform and an injective printing of decimals, for the worked examples.\<close>

definition unary_str :: "decimal \<Rightarrow> string" where
  "unary_str d = (case quotient_of d of (n, k) \<Rightarrow>
     replicate (nat n) CHR ''p'' @ replicate (nat (- n)) CHR ''m'' @ replicate (nat k) CHR ''q'')"

lemma count_list_replicate: "count_list (replicate n x) y = (if x = y then n else 0)"
  by (induction n) auto

lemma unary_str_inj: "inj unary_str"
proof (rule injI)
  fix x y assume eq: "unary_str x = unary_str y"
  obtain n k n' k' where q: "quotient_of x = (n, k)" "quotient_of y = (n', k')" by fastforce
  have "0 < k" "0 < k'" using q quotient_of_denom_pos by blast+
  moreover have "count_list (unary_str x) c = count_list (unary_str y) c" for c using eq by simp
  from this [of "CHR ''p''"] this [of "CHR ''m''"] this [of "CHR ''q''"]
  have "nat n = nat n'" "nat (- n) = nat (- n')" "nat k = nat k'"
    by (simp_all add: unary_str_def q count_list_replicate)
  ultimately have "n = n'" "k = k'" by linarith+
  with q show "x = y" by (simp add: quotient_of_inject)
qed

definition paper_risk :: risk_config where
  "paper_risk =
     \<lparr>rc_max_risk_per_trade = 1 / 200, rc_max_open_risk = 1 / 50, rc_max_daily_loss = 1 / 50,
      rc_max_drawdown = 1 / 10, rc_max_orders_per_hour = 4, rc_max_open_positions = 2,
      rc_min_stop_distance_points = 50, rc_approved_config_version = None\<rparr>"

definition paper_execution :: execution_config where
  "paper_execution =
     \<lparr>ec_max_spread_points = 20, ec_max_market_data_age_ms = 2000, ec_order_timeout_ms = 5000,
      ec_max_slippage_points = 10, ec_submission_enabled = False, ec_feedback_2_0_approved = False,
      ec_flatten_submission_enabled = False, ec_approved_canary_account_ref = None\<rparr>"

definition btc_market :: market_config where
  "btc_market =
     \<lparr>mc_canonical_symbol = ''BTC/USD'', mc_enabled = True, mc_asset_class = CRYPTO,
      mc_broker_symbol = ''BTCUSD'', mc_expected_spec_version = None, mc_session_policy_approved = True,
      mc_risk_overrides = Some
        \<lparr>ro_max_risk_per_trade = Some (1 / 40), ro_max_open_risk = None, ro_max_daily_loss = None,
         ro_max_drawdown = None, ro_max_orders_per_hour = None, ro_max_open_positions = None,
         ro_min_stop_distance_points = None\<rparr>,
      mc_execution_overrides = Some
        \<lparr>eo_max_spread_points = Some 5000, eo_max_market_data_age_ms = None,
         eo_order_timeout_ms = None, eo_max_slippage_points = None\<rparr>\<rparr>"

definition paper_config :: platform_config where
  "paper_config =
     \<lparr>pc_environment = PAPER, pc_markets = [btc_market], pc_risk = paper_risk,
      pc_execution = paper_execution,
      pc_trading_agent = \<lparr>ta_strategy_id = ''baseline'', ta_strategy_version = ''1'', ta_model_version = None\<rparr>,
      pc_supervisor = \<lparr>sc_enabled = True, sc_veto_on_unknown_regime = True,
        sc_halt_on_reconciliation_mismatch = True, sc_policy_version = ''1'', sc_max_intents_per_hour = None\<rparr>,
      pc_account_guard = \<lparr>ag_expected_server = ''demo'', ag_expected_login = None,
        ag_require_demo_account = True, ag_expected_currency = None, ag_expected_leverage = None,
        ag_broker_account_ref = None\<rparr>,
      pc_intraday = \<lparr>ic_enabled = True, ic_last_entry_minutes_before_close = 60,
        ic_flatten_minutes_before_close = 15\<rparr>,
      pc_live_trading_acknowledged = False\<rparr>"

lemma paper_config_valid [simp]: "platform_config_valid paper_config"
  by (simp add: paper_config_def btc_market_def paper_risk_def paper_execution_def checks text_ok_def
      DEMO_ONLY_ENVIRONMENTS_def)

lemma execution_for_governance_witness:
  "\<exists>e. execution_for paper_config ''BTC/USD'' = Inr e \<and> \<not> ec_submission_enabled e \<and>
       ec_max_spread_points e = 5000"
proof -
  have m: "market_for paper_config ''BTC/USD'' = Some btc_market"
    by (simp add: market_for_def paper_config_def btc_market_def)
  obtain v where v: "mc_execution_overrides btc_market = Some v" "eo_max_spread_points v = Some 5000"
    by (simp add: btc_market_def)
  show ?thesis
    using execution_for_governance [OF paper_config_valid, of "''BTC/USD''"] m v
    by (auto simp: paper_config_def paper_execution_def)
qed

lemma risk_for_ordered_witness:
  "risk_for paper_config ''BTC/USD'' = Inl ValidationError \<and>
   (\<exists>r. risk_for paper_config ''EUR/USD'' = Inr r \<and> rc_max_daily_loss r \<le> rc_max_drawdown r)"
proof
  have "\<not> risk_config_valid r" if "risk_for paper_config ''BTC/USD'' = Inr r" for r
    using that by (auto simp: risk_for_def market_for_def paper_config_def btc_market_def merge_risk_def
        paper_risk_def checks)
  then show "risk_for paper_config ''BTC/USD'' = Inl ValidationError"
    using risk_for_ordered [OF paper_config_valid, of "''BTC/USD''"] by auto
  have "risk_for paper_config ''EUR/USD'' = Inr (pc_risk paper_config)"
    by (simp add: risk_for_def market_for_def paper_config_def btc_market_def)
  then show "\<exists>r. risk_for paper_config ''EUR/USD'' = Inr r \<and> rc_max_daily_loss r \<le> rc_max_drawdown r"
    using risk_for_ordered [OF paper_config_valid, of "''EUR/USD''"] by auto
qed

lemma config_version_substance_witness:
  "config_version sample_stdlib unary_str (without_governance paper_config) =
     config_version sample_stdlib unary_str paper_config \<and>
   config_payload unary_str paper_config \<noteq>
     config_payload unary_str (paper_config\<lparr>pc_live_trading_acknowledged := True\<rparr>)"
  using config_version_substance [OF unary_str_inj, of paper_config
      "paper_config\<lparr>pc_live_trading_acknowledged := True\<rparr>"]
  by (simp add: without_governance_def paper_config_def)


subsection \<open>Documents\<close>

function deep_merge :: "(string \<times> json) list \<Rightarrow> (string \<times> json) list \<Rightarrow> (string \<times> json) list" where
  "deep_merge merged [] = merged"
| "deep_merge merged ((key, overlay_value) # overlay) =
     deep_merge
       (AList.update key
          (case overlay_value of
             JObj o' \<Rightarrow> (case map_of merged key of Some (JObj b) \<Rightarrow> JObj (deep_merge b o') | _ \<Rightarrow> overlay_value)
           | _ \<Rightarrow> overlay_value) merged)
       overlay"
  by pat_completeness auto
termination by (relation "measure (\<lambda>(_, overlay). size_list (size_prod (\<lambda>_. 0) size) overlay)") auto

definition SECRET_KEY_MARKERS :: "string list" where
  "SECRET_KEY_MARKERS = [''password'', ''secret'', ''token'', ''api_key'', ''apikey'', ''credential'']"

definition lower_char :: "char \<Rightarrow> char" where
  "lower_char c = (let n = of_char c :: nat in if 65 \<le> n \<and> n \<le> 90 then char_of (n + 32) else c)"

definition looks_secret :: "string \<Rightarrow> bool" where
  "looks_secret key \<longleftrightarrow> list_ex (\<lambda>marker. sublist marker (map lower_char key)) SECRET_KEY_MARKERS"

fun secret_free :: "json \<Rightarrow> bool" where
  "secret_free (JObj kvs) = list_all (\<lambda>kv. \<not> looks_secret (fst kv) \<and> secret_free (snd kv)) kvs"
| "secret_free (JArr xs) = list_all secret_free xs"
| "secret_free _ = True"

definition assert_no_secrets :: "json \<Rightarrow> py_exn + unit" where
  "assert_no_secrets data = guardE (secret_free data) ValueError"

definition load_config ::
  "(json \<Rightarrow> py_exn + platform_config) \<Rightarrow> environment \<Rightarrow> bool option \<Rightarrow> bool \<Rightarrow>
     (string \<times> json) list \<Rightarrow> (string \<times> json) list \<Rightarrow> py_exn + platform_config" where
  \<comment> \<open>\<open>validate\<close> is \<^verbatim>\<open>PlatformConfig.model_validate\<close>; \<open>env_var\<close> says whether
     \<^verbatim>\<open>CRUMBLR_ALLOW_LIVE\<close> is 1; \<^verbatim>\<open>PermissionError\<close> is an \<open>OSError\<close>\<close>
  "load_config validate environment allow_live env_var base overlay =
     (if environment = LIVE \<and> \<not> (case allow_live of Some a \<Rightarrow> a | None \<Rightarrow> env_var) then Inl OSError
      else
        let merged = deep_merge base overlay in
        bindE (assert_no_secrets (JObj merged)) (\<lambda>_.
          validate (JObj (AList.update ''environment'' (JStr (environment_value environment)) merged))))"

lemma deep_merge_other: "k \<notin> fst ` set overlay \<Longrightarrow> map_of (deep_merge merged overlay) k = map_of merged k"
  by (induction merged overlay rule: deep_merge.induct) (auto simp: update_conv)

lemma deep_merge_scalar:
  assumes "distinct (map fst overlay)" "map_of overlay k = Some v" "\<And>o'. v \<noteq> JObj o'"
  shows "map_of (deep_merge merged overlay) k = Some v"
  using assms
proof (induction merged overlay rule: deep_merge.induct)
  case (2 merged key ov overlay)
  show ?case
  proof (cases "k = key")
    case True
    have "k \<notin> fst ` set overlay" "ov = v" using True "2.prems" by auto
    then show ?thesis using True "2.prems" by (auto simp: deep_merge_other update_conv split: json.splits)
  next
    case False
    with 2 show ?thesis by simp
  qed
qed simp

lemma deep_merge_object:
  assumes "distinct (map fst overlay)" "map_of overlay k = Some (JObj o')" "map_of merged k = Some (JObj b)"
  shows "map_of (deep_merge merged overlay) k = Some (JObj (deep_merge b o'))"
  using assms
proof (induction merged overlay arbitrary: b rule: deep_merge.induct)
  case (2 merged key ov overlay)
  show ?case
  proof (cases "k = key")
    case True
    have "k \<notin> fst ` set overlay" "ov = JObj o'" using True "2.prems" by auto
    then show ?thesis using True "2.prems" by (simp add: deep_merge_other update_conv)
  next
    case False
    with 2 show ?thesis by (simp add: update_conv)
  qed
qed simp

text \<open>
  Merging an environment's document over the base follows Python's mapping merge: a key
  only the base has keeps its value, a key the overlay gives a non-mapping replaces the
  base's value, and two mappings under one key merge in turn.
\<close>

theorem deep_merge_spec:
  assumes "distinct (map fst overlay)"
  shows "map_of (deep_merge base overlay) k =
           (case map_of overlay k of
              None \<Rightarrow> map_of base k
            | Some (JObj o') \<Rightarrow>
                (case map_of base k of Some (JObj b) \<Rightarrow> Some (JObj (deep_merge b o')) | _ \<Rightarrow> Some (JObj o'))
            | Some v \<Rightarrow> Some v)"
proof (cases "map_of overlay k")
  case None
  then have "k \<notin> fst ` set overlay" by (simp add: map_of_eq_None_iff)
  with None show ?thesis by (simp add: deep_merge_other)
next
  case (Some v)
  show ?thesis
  proof (cases "\<exists>o'. v = JObj o'")
    case False
    with deep_merge_scalar [OF assms Some] Some show ?thesis by (auto split: json.splits)
  next
    case True
    then obtain o' where v: "v = JObj o'" by blast
    show ?thesis
    proof (cases "\<exists>b. map_of base k = Some (JObj b)")
      case True
      with deep_merge_object [OF assms] Some v show ?thesis by auto
    next
      case False
      then have "map_of (deep_merge base overlay) k = Some (JObj o')"
        using assms Some v
      proof (induction base overlay rule: deep_merge.induct)
        case (2 merged key ov overlay)
        show ?case
        proof (cases "k = key")
          case True
          have "k \<notin> fst ` set overlay" "ov = JObj o'" using True "2.prems" by auto
          then show ?thesis using True "2.prems"
            by (auto simp: deep_merge_other update_conv split: option.splits json.splits)
        next
          case False
          with 2 show ?thesis by (simp add: update_conv)
        qed
      qed simp
      with Some v False show ?thesis by (auto split: option.splits json.splits)
    qed
  qed
qed

lemma deep_merge_spec_witness:
  "map_of (deep_merge [(''risk'', JObj [(''a'', JInt 1), (''b'', JInt 2)])]
                      [(''risk'', JObj [(''b'', JInt 3)]), (''x'', JNull)]) ''risk'' =
     Some (JObj (deep_merge [(''a'', JInt 1), (''b'', JInt 2)] [(''b'', JInt 3)]))"
  using deep_merge_spec [of "[(''risk'', JObj [(''b'', JInt 3)]), (''x'', JNull)]"
      "[(''risk'', JObj [(''a'', JInt 1), (''b'', JInt 2)])]" "''risk''"] by simp

text \<open>
  C36. What loading guarantees, given that pydantic returns only configurations its
  validators accept, with the document's own environment: the configuration is for the
  environment asked for; a live one needs both the explicit permission and the recorded
  acknowledgement; paper and shadow always require a demo account; and no key anywhere in
  the merged documents looks like a credential.
\<close>

theorem load_config_guards:
  assumes "\<And>j d. validate j = Inr d \<Longrightarrow> platform_config_valid d \<and>
             (\<forall>kvs. j = JObj kvs \<longrightarrow>
                map_of kvs ''environment'' = Some (JStr (environment_value (pc_environment d))))"
    and "load_config validate environment allow_live env_var base overlay = Inr c"
  shows "pc_environment c = environment \<and> platform_config_valid c \<and>
         (environment = LIVE \<longrightarrow>
            (allow_live = Some True \<or> allow_live = None \<and> env_var) \<and> pc_live_trading_acknowledged c) \<and>
         (environment \<in> {PAPER, SHADOW} \<longrightarrow> ag_require_demo_account (pc_account_guard c)) \<and>
         secret_free (JObj (deep_merge base overlay))"
proof -
  let ?doc = "AList.update ''environment'' (JStr (environment_value environment)) (deep_merge base overlay)"
  have l: "validate (JObj ?doc) = Inr c" "secret_free (JObj (deep_merge base overlay))"
    "\<not> (environment = LIVE \<and> \<not> (case allow_live of Some a \<Rightarrow> a | None \<Rightarrow> env_var))"
    using assms(2) unfolding load_config_def Let_def assert_no_secrets_def bindE_guardE
    by (metis Inl_Inr_False)+
  then have v: "platform_config_valid c" "environment_value (pc_environment c) = environment_value environment"
    using assms(1) [OF l(1)] by (auto simp: update_conv)
  then have env: "pc_environment c = environment" by simp
  from v(1) have "check_environment_guardrails c" by (simp add: platform_config_valid_def)
  with env v l(2,3) show ?thesis
    by (auto simp: check_environment_guardrails_def DEMO_ONLY_ENVIRONMENTS_def split: option.splits)
qed

lemma load_config_guards_witness:
  "\<exists>c. load_config (\<lambda>j. if j = JObj [(''environment'', JStr ''paper'')] then Inr paper_config else Inl ValidationError)
         PAPER None False [] [] = Inr c \<and> ag_require_demo_account (pc_account_guard c)"
proof -
  let ?v = "\<lambda>j. if j = JObj [(''environment'', JStr ''paper'')] then Inr paper_config else Inl ValidationError"
  have l: "load_config ?v PAPER None False [] [] = Inr paper_config"
    by (simp add: load_config_def assert_no_secrets_def)
  have env: "pc_environment paper_config = PAPER" by (simp add: paper_config_def)
  have v: "platform_config_valid d \<and> (\<forall>kvs. j = JObj kvs \<longrightarrow>
      map_of kvs ''environment'' = Some (JStr (environment_value (pc_environment d))))"
    if "?v j = Inr d" for j d
    using that env by (auto split: if_splits)
  have "ag_require_demo_account (pc_account_guard paper_config)"
    using load_config_guards [OF v l] env by simp
  with l show ?thesis by auto
qed

end
