(* ===== verification/Reconciliation.thy ===== *)
theory Reconciliation
  imports Exposure Config Sizing
begin

text \<open>
  Broker truth against platform expectation: the recorded broker-state observations
  (\<^verbatim>\<open>application/broker_state.py\<close>, \<^verbatim>\<open>persistence/broker_state.py\<close>), the
  expected state and its comparison with the latest observation, and the verification of
  protective stops (\<^verbatim>\<open>application/reconciliation.py\<close>). The reason texts are values of
  a datatype; only their interpolated parts are kept.
\<close>

subsection \<open>Observations\<close>

record account_extras =
  ax_profit :: decimal
  ax_margin_mode :: "string option"

record pending_order_state =
  po_order_id :: int
  po_broker_symbol :: string
  po_order_type :: string
  po_state :: string
  po_volume :: decimal
  po_price :: decimal
  po_stop_loss_price :: "decimal option"
  po_take_profit_price :: "decimal option"
  po_expires_at :: "utc option"
  po_magic :: "int option"
  po_observed_at :: utc

record observation =
  ob_account :: broker_account_snapshot
  ob_positions :: "broker_position_snapshot list"
  ob_pending_orders :: "broker_pending_order_snapshot list"
  ob_account_state :: account_state
  ob_position_states :: "position_state list"

definition account_snapshot ::
  "stdlib \<Rightarrow> uuid \<Rightarrow> utc \<Rightarrow> utc \<Rightarrow> environment \<Rightarrow> account_state \<Rightarrow> account_extras \<Rightarrow> bool option \<Rightarrow>
     snapshot_completeness \<Rightarrow> snapshot_completeness \<Rightarrow> py_exn + broker_account_snapshot" where
  "account_snapshot sl sid observed recorded env acct extras terminal pos_state ord_state =
     bindE (login_hash sl acct) (\<lambda>acct_ref.
     contract broker_account_snapshot_valid
       \<lparr>bas_snapshot_id = sid, bas_observed_at = observed, bas_recorded_at = recorded,
        bas_environment = env, bas_server = as_server acct, bas_account_ref = acct_ref,
        bas_currency = as_currency acct, bas_leverage = as_leverage acct,
        bas_margin_mode = ax_margin_mode extras, bas_balance = as_balance acct,
        bas_equity = as_equity acct, bas_profit = ax_profit extras, bas_margin = as_margin acct,
        bas_margin_free = as_margin_free acct, bas_margin_level = as_margin_level acct,
        bas_account_trade_allowed = as_trade_allowed acct, bas_terminal_trade_allowed = terminal,
        bas_position_set_state = pos_state, bas_pending_order_set_state = ord_state\<rparr>)"

definition position_snapshot :: "uuid \<Rightarrow> utc \<Rightarrow> string \<Rightarrow> position_state \<Rightarrow> broker_position_snapshot" where
  "position_snapshot sid observed symbol p =
     \<lparr>bps_snapshot_id = sid, bps_observed_at = observed, bps_ticket = ps_ticket p,
      bps_canonical_symbol = symbol, bps_broker_symbol = ps_broker_symbol p, bps_side = ps_side p,
      bps_volume = ps_volume p, bps_opened_at = ps_opened_at p, bps_open_price = ps_open_price p,
      bps_current_price = ps_current_price p, bps_stop_loss_price = ps_stop_loss_price p,
      bps_take_profit_price = ps_take_profit_price p, bps_profit = ps_profit p, bps_swap = ps_swap p,
      bps_magic = ps_magic p, bps_comment = None\<rparr>"

definition order_snapshot :: "uuid \<Rightarrow> utc \<Rightarrow> string \<Rightarrow> pending_order_state \<Rightarrow> broker_pending_order_snapshot" where
  "order_snapshot sid observed symbol ord =
     \<lparr>bos_snapshot_id = sid, bos_observed_at = observed, bos_order_id = po_order_id ord,
      bos_canonical_symbol = symbol, bos_broker_symbol = po_broker_symbol ord,
      bos_order_type = po_order_type ord, bos_state = po_state ord, bos_volume = po_volume ord,
      bos_price = po_price ord, bos_stop_loss_price = po_stop_loss_price ord,
      bos_take_profit_price = po_take_profit_price ord, bos_expires_at = po_expires_at ord,
      bos_magic = po_magic ord\<rparr>"


subsection \<open>The store of observations\<close>

record broker_tables =
  bt_accounts :: "broker_account_snapshot list"
  bt_positions :: "broker_position_snapshot list"
  bt_pending_orders :: "broker_pending_order_snapshot list"

text \<open>
  \<^verbatim>\<open>ON CONFLICT DO NOTHING\<close> on the derived row identities, which stand for the pair
  they are derived from.
\<close>

definition insert_new :: "('r \<Rightarrow> 'k) \<Rightarrow> 'r \<Rightarrow> 'r list \<Rightarrow> 'r list" where
  "insert_new key row rows = (if key row \<in> key ` set rows then rows else rows @ [row])"

definition record_observation :: "observation \<Rightarrow> broker_tables \<Rightarrow> broker_tables" where
  "record_observation ob t =
     \<lparr>bt_accounts = insert_new bas_snapshot_id (ob_account ob) (bt_accounts t),
      bt_positions = fold (insert_new (\<lambda>p. (bps_snapshot_id p, bps_ticket p))) (ob_positions ob) (bt_positions t),
      bt_pending_orders =
        fold (insert_new (\<lambda>q. (bos_snapshot_id q, bos_order_id q))) (ob_pending_orders ob) (bt_pending_orders t)\<rparr>"

definition latest_account_snapshot :: "broker_tables \<Rightarrow> broker_account_snapshot option" where
  \<comment> \<open>the greatest \<^verbatim>\<open>(observed_at_utc, sequence)\<close>\<close>
  "latest_account_snapshot t =
     foldl (\<lambda>best s. case best of
                None \<Rightarrow> Some s
              | Some b \<Rightarrow> if bas_observed_at b \<le> bas_observed_at s then Some s else best) None (bt_accounts t)"

definition positions_for :: "broker_tables \<Rightarrow> uuid \<Rightarrow> broker_position_snapshot list" where
  "positions_for t sid = filter (\<lambda>p. bps_snapshot_id p = sid) (bt_positions t)"

definition pending_orders_for :: "broker_tables \<Rightarrow> uuid \<Rightarrow> broker_pending_order_snapshot list" where
  "pending_orders_for t sid = filter (\<lambda>q. bos_snapshot_id q = sid) (bt_pending_orders t)"


subsection \<open>Expectations\<close>

record expected_state =
  ex_server :: string
  ex_currency :: "string option"
  ex_leverage :: "int option"
  ex_canonical_symbol :: string
  ex_account_ref :: "string option"
  ex_position_tickets :: "int set"
  ex_pending_order_ids :: "int set"
  ex_spec_version :: "string option"
  ex_undetermined_reasons :: "exposure_reason list"

definition expect_flat :: "stdlib \<Rightarrow> account_guard_config \<Rightarrow> string \<Rightarrow> string option \<Rightarrow> py_exn + expected_state" where
  "expect_flat sl guard symbol spec_pin =
     bindE (case ag_expected_login guard of
              None \<Rightarrow> Inr None
            | Some login \<Rightarrow>
                mapE (\<lambda>h. Some (take 16 h))
                  (fingerprint sl [(''login'', PInt login), (''server'', PStr (ag_expected_server guard))]))
       (\<lambda>acct_ref.
     Inr \<lparr>ex_server = ag_expected_server guard, ex_currency = ag_expected_currency guard,
          ex_leverage = ag_expected_leverage guard, ex_canonical_symbol = symbol,
          ex_account_ref = acct_ref, ex_position_tickets = {}, ex_pending_order_ids = {},
          ex_spec_version = spec_pin, ex_undetermined_reasons = []\<rparr>)"

definition from_durable_exposure ::
  "stdlib \<Rightarrow> account_guard_config \<Rightarrow> derived_exposure \<Rightarrow> string \<Rightarrow> string option \<Rightarrow> py_exn + expected_state" where
  "from_durable_exposure sl guard exposure symbol spec_pin =
     mapE (\<lambda>base. base\<lparr>ex_position_tickets := de_position_tickets exposure,
                       ex_pending_order_ids := de_pending_order_ids exposure,
                       ex_undetermined_reasons := de_undetermined_reasons exposure\<rparr>)
       (expect_flat sl guard symbol spec_pin)"


subsection \<open>The comparison\<close>

datatype recon_reason =
    NoSnapshot
  | SnapshotTooOld int
  | PositionSetNotComplete snapshot_completeness
  | PendingSetNotComplete snapshot_completeness
  | ExpectationUndetermined "exposure_reason list"
  | NoSpecBaseline string
  | NoSpecObserved string
  | ServerDiffers string
  | AccountDiffers
  | CurrencyDiffers string
  | LeverageDiffers int
  | UnexpectedPosition int
  | MissingPosition int
  | PositionSymbolDiffers int
  | UnexpectedPendingOrder int
  | MissingPendingOrder int
  | PendingOrderSymbolDiffers int
  | SpecDiffers string string

record recon_result =
  rr_status :: reconciliation_status
  rr_reasons :: "recon_reason list"
  rr_checked_at :: utc
  rr_snapshot_id :: "uuid option"

definition DEFAULT_MAX_SNAPSHOT_AGE :: int where
  "DEFAULT_MAX_SNAPSHOT_AGE = 5 * 60000000"

definition recon_unknown :: "recon_reason \<Rightarrow> utc \<Rightarrow> uuid option \<Rightarrow> recon_result" where
  "recon_unknown reason now sid =
     \<lparr>rr_status = RS_UNKNOWN, rr_reasons = [reason], rr_checked_at = now, rr_snapshot_id = sid\<rparr>"

definition account_mismatches :: "broker_account_snapshot \<Rightarrow> expected_state \<Rightarrow> recon_reason list" where
  "account_mismatches s ex =
     reason_if (bas_server s \<noteq> ex_server ex) (ServerDiffers (bas_server s)) @
     reason_if (ex_account_ref ex \<notin> {None, Some (bas_account_ref s)}) AccountDiffers @
     reason_if (ex_currency ex \<notin> {None, Some (bas_currency s)}) (CurrencyDiffers (bas_currency s)) @
     reason_if (ex_leverage ex \<notin> {None, Some (bas_leverage s)}) (LeverageDiffers (bas_leverage s))"

definition set_mismatches :: "(int \<Rightarrow> recon_reason) \<Rightarrow> (int \<Rightarrow> recon_reason) \<Rightarrow> int set \<Rightarrow> int set \<Rightarrow> recon_reason list" where
  "set_mismatches unexpected missing observed expected =
     map unexpected (sorted_list_of_set (observed - expected)) @
     map missing (sorted_list_of_set (expected - observed))"

definition position_mismatches :: "broker_position_snapshot list \<Rightarrow> expected_state \<Rightarrow> recon_reason list" where
  "position_mismatches ps ex =
     set_mismatches UnexpectedPosition MissingPosition (set (map bps_ticket ps)) (ex_position_tickets ex) @
     concat (map (\<lambda>p. reason_if (bps_canonical_symbol p \<noteq> ex_canonical_symbol ex)
                        (PositionSymbolDiffers (bps_ticket p))) ps)"

definition pending_order_mismatches :: "broker_pending_order_snapshot list \<Rightarrow> expected_state \<Rightarrow> recon_reason list" where
  "pending_order_mismatches qs ex =
     set_mismatches UnexpectedPendingOrder MissingPendingOrder (set (map bos_order_id qs)) (ex_pending_order_ids ex) @
     concat (map (\<lambda>q. reason_if (bos_canonical_symbol q \<noteq> ex_canonical_symbol ex)
                        (PendingOrderSymbolDiffers (bos_order_id q))) qs)"

definition instrument_spec_mismatches :: "string \<Rightarrow> string \<Rightarrow> recon_reason list" where
  "instrument_spec_mismatches pinned current = reason_if (pinned \<noteq> current) (SpecDiffers (take 12 pinned) (take 12 current))"

definition recon_mismatches ::
  "broker_tables \<Rightarrow> broker_account_snapshot \<Rightarrow> expected_state \<Rightarrow> string \<Rightarrow> string \<Rightarrow> recon_reason list" where
  "recon_mismatches t s ex pinned current =
     account_mismatches s ex @ position_mismatches (positions_for t (bas_snapshot_id s)) ex @
     pending_order_mismatches (pending_orders_for t (bas_snapshot_id s)) ex @
     instrument_spec_mismatches pinned current"

definition reconcile ::
  "stdlib \<Rightarrow> broker_tables \<Rightarrow> expected_state \<Rightarrow> instrument_spec option \<Rightarrow> utc \<Rightarrow> int \<Rightarrow> py_exn + recon_result" where
  "reconcile sl t ex latest_spec now max_age =
     (case latest_account_snapshot t of
        None \<Rightarrow> Inr (recon_unknown NoSnapshot now None)
      | Some s \<Rightarrow>
          let unknown = (\<lambda>r. Inr (recon_unknown r now (Some (bas_snapshot_id s)))) in
          if max_age < now - bas_observed_at s then unknown (SnapshotTooOld (now - bas_observed_at s))
          else if bas_position_set_state s \<noteq> COMPLETE
          then unknown (PositionSetNotComplete (bas_position_set_state s))
          else if bas_pending_order_set_state s \<noteq> COMPLETE
          then unknown (PendingSetNotComplete (bas_pending_order_set_state s))
          else if ex_undetermined_reasons ex \<noteq> []
          then unknown (ExpectationUndetermined (ex_undetermined_reasons ex))
          else (case ex_spec_version ex of
            None \<Rightarrow> unknown (NoSpecBaseline (ex_canonical_symbol ex))
          | Some pinned \<Rightarrow>
              (case latest_spec of
                 None \<Rightarrow> unknown (NoSpecObserved (ex_canonical_symbol ex))
               | Some spec \<Rightarrow>
                   bindE (spec_version sl spec) (\<lambda>current.
                   let mismatches = recon_mismatches t s ex pinned current in
                   Inr \<lparr>rr_status = (if mismatches \<noteq> [] then MISMATCHED else MATCHED),
                        rr_reasons = mismatches, rr_checked_at = now,
                        rr_snapshot_id = Some (bas_snapshot_id s)\<rparr>))))"


subsection \<open>Protective stops\<close>

record protective_stop_issue =
  psi_ticket :: int
  psi_reason :: reason_code
  psi_expected :: "decimal option"
  psi_observed :: "decimal option"

definition position_by_ticket :: "position_state list \<Rightarrow> int \<Rightarrow> py_exn + position_state" where
  \<comment> \<open>the dictionary comprehension keeps the last position of a ticket\<close>
  "position_by_ticket ps ticket =
     (case find_first (\<lambda>p. ps_ticket p = ticket) (rev ps) of None \<Rightarrow> Inl KeyError | Some p \<Rightarrow> Inr p)"

definition stop_issue ::
  "position_state list \<Rightarrow> decimal option \<Rightarrow> int \<Rightarrow> py_exn + protective_stop_issue list" where
  "stop_issue ps expected ticket =
     mapE (\<lambda>p. let observed = ps_stop_loss_price p in
        if expected = None \<or> observed = None
        then [\<lparr>psi_ticket = ticket, psi_reason = PROTECTIVE_STOP_MISSING, psi_expected = expected,
               psi_observed = observed\<rparr>]
        else if observed \<noteq> expected
        then [\<lparr>psi_ticket = ticket, psi_reason = PROTECTIVE_STOP_MISMATCH, psi_expected = expected,
               psi_observed = observed\<rparr>]
        else []) (position_by_ticket ps ticket)"

definition verify_protective_stops ::
  "position_state list \<Rightarrow> int set \<Rightarrow> decimal option \<Rightarrow> py_exn + protective_stop_issue list" where
  "verify_protective_stops ps attributed expected =
     mapE concat (traverseE (stop_issue ps expected) (sorted_list_of_set attributed))"


subsection \<open>What a match means\<close>

lemma spec_version_total: "\<exists>v. spec_version sl spec = Inr v"
  unfolding spec_version_def by (rule fingerprint_total) (simp add: spec_version_payload_def list_all_iff)

lemma expect_flat_total: "\<exists>ex. expect_flat sl guard symbol pin = Inr ex"
proof (cases "ag_expected_login guard")
  case (Some login)
  then show ?thesis
    using fingerprint_total [of "[(''login'', PInt login), (''server'', PStr (ag_expected_server guard))]" sl]
    by (auto simp: expect_flat_def)
qed (simp add: expect_flat_def)

lemma empty_exposure_is_flat:
  "from_durable_exposure sl guard empty_exposure symbol pin = expect_flat sl guard symbol pin"
  by (cases "expect_flat sl guard symbol pin")
     (auto simp: from_durable_exposure_def empty_exposure_def expect_flat_def bindE_eq_Inr)

definition agrees ::
  "stdlib \<Rightarrow> broker_tables \<Rightarrow> expected_state \<Rightarrow> instrument_spec option \<Rightarrow> utc \<Rightarrow> int \<Rightarrow> bool" where
  \<comment> \<open>the specification of a match: a fresh, complete observation equal to a determined expectation\<close>
  "agrees sl t ex latest_spec now max_age \<longleftrightarrow>
     (\<exists>s spec v. latest_account_snapshot t = Some s \<and> now - bas_observed_at s \<le> max_age \<and>
        bas_position_set_state s = COMPLETE \<and> bas_pending_order_set_state s = COMPLETE \<and>
        ex_undetermined_reasons ex = [] \<and>
        latest_spec = Some spec \<and> spec_version sl spec = Inr v \<and> ex_spec_version ex = Some v \<and>
        bas_server s = ex_server ex \<and> ex_account_ref ex \<in> {None, Some (bas_account_ref s)} \<and>
        ex_currency ex \<in> {None, Some (bas_currency s)} \<and> ex_leverage ex \<in> {None, Some (bas_leverage s)} \<and>
        bps_ticket ` set (positions_for t (bas_snapshot_id s)) = ex_position_tickets ex \<and>
        bos_order_id ` set (pending_orders_for t (bas_snapshot_id s)) = ex_pending_order_ids ex \<and>
        (\<forall>p \<in> set (positions_for t (bas_snapshot_id s)). bps_canonical_symbol p = ex_canonical_symbol ex) \<and>
        (\<forall>q \<in> set (pending_orders_for t (bas_snapshot_id s)). bos_canonical_symbol q = ex_canonical_symbol ex))"

lemma set_mismatches_Nil:
  "finite A \<Longrightarrow> finite B \<Longrightarrow> set_mismatches u m A B = [] \<longleftrightarrow> A = B"
  by (auto simp: set_mismatches_def)

lemma recon_mismatches_Nil:
  assumes "finite (ex_position_tickets ex)" "finite (ex_pending_order_ids ex)"
  shows "recon_mismatches t s ex pinned current = [] \<longleftrightarrow>
    bas_server s = ex_server ex \<and> ex_account_ref ex \<in> {None, Some (bas_account_ref s)} \<and>
    ex_currency ex \<in> {None, Some (bas_currency s)} \<and> ex_leverage ex \<in> {None, Some (bas_leverage s)} \<and>
    bps_ticket ` set (positions_for t (bas_snapshot_id s)) = ex_position_tickets ex \<and>
    bos_order_id ` set (pending_orders_for t (bas_snapshot_id s)) = ex_pending_order_ids ex \<and>
    (\<forall>p \<in> set (positions_for t (bas_snapshot_id s)). bps_canonical_symbol p = ex_canonical_symbol ex) \<and>
    (\<forall>q \<in> set (pending_orders_for t (bas_snapshot_id s)). bos_canonical_symbol q = ex_canonical_symbol ex) \<and>
    pinned = current"
  by (simp add: recon_mismatches_def account_mismatches_def position_mismatches_def
      pending_order_mismatches_def instrument_spec_mismatches_def set_mismatches_Nil assms) blast

text \<open>
  C15. Reconciliation always answers, and answers \<open>MATCHED\<close> exactly when the latest
  observation is recent enough, both of its collections were read completely, the
  expectation is fully determined, an approved instrument baseline is pinned and equals the
  observed one, and account, positions, pending orders and their symbols are all as
  expected. Everything missing or unreadable is \<open>UNKNOWN\<close>, never a match.
\<close>
theorem reconcile_matched_iff:
  assumes "finite (ex_position_tickets ex)" "finite (ex_pending_order_ids ex)"
  shows "\<exists>r. reconcile sl t ex latest_spec now max_age = Inr r \<and>
    (rr_status r = MATCHED \<longleftrightarrow> agrees sl t ex latest_spec now max_age) \<and>
    (rr_status r = RS_UNKNOWN \<longleftrightarrow>
      \<not> (\<exists>s. latest_account_snapshot t = Some s \<and> now - bas_observed_at s \<le> max_age \<and>
            bas_position_set_state s = COMPLETE \<and> bas_pending_order_set_state s = COMPLETE) \<or>
      ex_undetermined_reasons ex \<noteq> [] \<or> ex_spec_version ex = None \<or> latest_spec = None)"
proof (cases "\<exists>s spec pinned. latest_account_snapshot t = Some s \<and> now - bas_observed_at s \<le> max_age \<and>
    bas_position_set_state s = COMPLETE \<and> bas_pending_order_set_state s = COMPLETE \<and>
    ex_undetermined_reasons ex = [] \<and> ex_spec_version ex = Some pinned \<and> latest_spec = Some spec")
  case True
  then obtain s spec pinned where s: "latest_account_snapshot t = Some s" "now - bas_observed_at s \<le> max_age"
    "bas_position_set_state s = COMPLETE" "bas_pending_order_set_state s = COMPLETE"
    "ex_undetermined_reasons ex = []" "ex_spec_version ex = Some pinned" "latest_spec = Some spec" by blast
  obtain v where v: "spec_version sl spec = Inr v" using spec_version_total by blast
  have r: "reconcile sl t ex latest_spec now max_age =
      Inr \<lparr>rr_status = (if recon_mismatches t s ex pinned v \<noteq> [] then MISMATCHED else MATCHED),
           rr_reasons = recon_mismatches t s ex pinned v, rr_checked_at = now,
           rr_snapshot_id = Some (bas_snapshot_id s)\<rparr>"
    using s v by (simp add: reconcile_def Let_def)
  have "agrees sl t ex latest_spec now max_age \<longleftrightarrow> recon_mismatches t s ex pinned v = []"
    unfolding recon_mismatches_Nil [OF assms] agrees_def using s v by auto
  then show ?thesis unfolding r using s by auto
next
  case False
  then have "\<exists>reason sid. reconcile sl t ex latest_spec now max_age = Inr (recon_unknown reason now sid)"
    by (auto simp: reconcile_def Let_def split: option.splits)
  moreover have "\<not> agrees sl t ex latest_spec now max_age" using False by (auto simp: agrees_def)
  moreover have "\<not> (\<exists>s. latest_account_snapshot t = Some s \<and> now - bas_observed_at s \<le> max_age \<and>
            bas_position_set_state s = COMPLETE \<and> bas_pending_order_set_state s = COMPLETE) \<or>
      ex_undetermined_reasons ex \<noteq> [] \<or> ex_spec_version ex = None \<or> latest_spec = None"
    using False by (cases "ex_spec_version ex"; cases latest_spec) blast+
  ultimately show ?thesis by (auto simp: recon_unknown_def)
qed

text \<open>
  Stop verification misses nothing: over tickets that are all open it always answers,
  it reports no issue exactly when the intended stop is known and the broker shows that very
  stop on every attributed position, and it reports only the two protective-stop reasons.
\<close>
theorem protective_stops_verified:
  assumes "finite attributed" "attributed \<subseteq> ps_ticket ` set ps"
  shows "\<exists>issues. verify_protective_stops ps attributed expected = Inr issues \<and>
    (issues = [] \<longleftrightarrow> (\<forall>t \<in> attributed. expected \<noteq> None \<and>
       (\<exists>p. position_by_ticket ps t = Inr p \<and> p \<in> set ps \<and> ps_ticket p = t \<and> ps_stop_loss_price p = expected))) \<and>
    psi_reason ` set issues \<subseteq> {PROTECTIVE_STOP_MISSING, PROTECTIVE_STOP_MISMATCH} \<and>
    psi_ticket ` set issues \<subseteq> attributed"
proof -
  define pos_of where "pos_of t = projr (position_by_ticket ps t)" for t
  have pos: "position_by_ticket ps t = Inr (pos_of t)" "pos_of t \<in> set ps" "ps_ticket (pos_of t) = t" if "t \<in> attributed" for t
  proof -
    from that assms(2) have "find_first (\<lambda>p. ps_ticket p = t) (rev ps) \<noteq> None" by auto
    then obtain p where p: "find_first (\<lambda>p. ps_ticket p = t) (rev ps) = Some p" by blast
    then have "pos_of t = p" by (simp add: pos_of_def position_by_ticket_def)
    with find_first_Some [OF p] p show "position_by_ticket ps t = Inr (pos_of t)" "pos_of t \<in> set ps" "ps_ticket (pos_of t) = t"
      by (auto simp: position_by_ticket_def)
  qed
  define issue where "issue t =
      (if expected = None \<or> ps_stop_loss_price (pos_of t) = None
       then [\<lparr>psi_ticket = t, psi_reason = PROTECTIVE_STOP_MISSING, psi_expected = expected,
              psi_observed = ps_stop_loss_price (pos_of t)\<rparr>]
       else if ps_stop_loss_price (pos_of t) \<noteq> expected
       then [\<lparr>psi_ticket = t, psi_reason = PROTECTIVE_STOP_MISMATCH, psi_expected = expected,
              psi_observed = ps_stop_loss_price (pos_of t)\<rparr>] else [])" for t
  have set_att: "set (sorted_list_of_set attributed) = attributed" using assms(1) by simp
  have "verify_protective_stops ps attributed expected = Inr (concat (map issue (sorted_list_of_set attributed)))"
    unfolding verify_protective_stops_def
    by (subst traverseE_all_Inr [of _ _ issue]) (auto simp: set_att stop_issue_def pos issue_def Let_def)
  moreover have nil: "issue t = [] \<longleftrightarrow> expected \<noteq> None \<and> ps_stop_loss_price (pos_of t) = expected" for t
    by (auto simp: issue_def)
  have "concat (map issue (sorted_list_of_set attributed)) = [] \<longleftrightarrow>
      (\<forall>t \<in> attributed. expected \<noteq> None \<and> ps_stop_loss_price (pos_of t) = expected)"
    by (simp add: nil set_att)
  then have "concat (map issue (sorted_list_of_set attributed)) = [] \<longleftrightarrow>
      (\<forall>t \<in> attributed. expected \<noteq> None \<and>
       (\<exists>p. position_by_ticket ps t = Inr p \<and> p \<in> set ps \<and> ps_ticket p = t \<and> ps_stop_loss_price p = expected))"
    using pos by simp
  moreover have "psi_reason ` set (concat (map issue (sorted_list_of_set attributed))) \<subseteq>
        {PROTECTIVE_STOP_MISSING, PROTECTIVE_STOP_MISMATCH}"
      "psi_ticket ` set (concat (map issue (sorted_list_of_set attributed))) \<subseteq> attributed"
    by (auto simp: set_att issue_def split: if_splits)
  ultimately show ?thesis by blast
qed

definition flat_snapshot :: broker_account_snapshot where
  "flat_snapshot =
     \<lparr>bas_snapshot_id = ''n'', bas_observed_at = 0, bas_recorded_at = 0, bas_environment = PAPER,
      bas_server = ''demo'', bas_account_ref = ''e3b0c44298fc1c14'', bas_currency = ''EUR'',
      bas_leverage = 30, bas_margin_mode = None, bas_balance = 10000, bas_equity = 10000, bas_profit = 0,
      bas_margin = 0, bas_margin_free = 10000, bas_margin_level = None, bas_account_trade_allowed = True,
      bas_terminal_trade_allowed = Some True, bas_position_set_state = COMPLETE,
      bas_pending_order_set_state = COMPLETE\<rparr>"

definition demo_guard :: account_guard_config where
  "demo_guard = \<lparr>ag_expected_server = ''demo'', ag_expected_login = Some 1, ag_require_demo_account = True,
     ag_expected_currency = Some ''EUR'', ag_expected_leverage = Some 30, ag_broker_account_ref = None\<rparr>"

definition flat_tables :: broker_tables where
  "flat_tables = \<lparr>bt_accounts = [flat_snapshot], bt_positions = [], bt_pending_orders = []\<rparr>"

definition flat_expectation :: expected_state where
  "flat_expectation =
     \<lparr>ex_server = ''demo'', ex_currency = Some ''EUR'', ex_leverage = Some 30,
      ex_canonical_symbol = ''EUR/USD'', ex_account_ref = Some ''e3b0c44298fc1c14'',
      ex_position_tickets = {}, ex_pending_order_ids = {},
      ex_spec_version = Some ''e3b0c44298fc1c149afbf4c8996fb924'', ex_undetermined_reasons = []\<rparr>"

lemma flat_expectation_flat:
  "expect_flat sample_stdlib demo_guard ''EUR/USD'' (Some ''e3b0c44298fc1c149afbf4c8996fb924'') =
     Inr flat_expectation"
  by (simp add: expect_flat_def demo_guard_def flat_expectation_def sample_fingerprint)

lemma sample_spec_version: "spec_version sample_stdlib s = Inr ''e3b0c44298fc1c149afbf4c8996fb924''"
  by (simp add: spec_version_def sample_fingerprint spec_version_payload_def list_all_iff)

theorem reconcile_matched_iff_witness:
  "\<exists>r. reconcile sample_stdlib flat_tables flat_expectation (Some eurusd) 60000000 DEFAULT_MAX_SNAPSHOT_AGE = Inr r \<and>
     rr_status r = MATCHED"
proof -
  have "agrees sample_stdlib flat_tables flat_expectation (Some eurusd) 60000000 DEFAULT_MAX_SNAPSHOT_AGE"
    by (simp add: agrees_def sample_spec_version flat_tables_def flat_expectation_def flat_snapshot_def
        latest_account_snapshot_def positions_for_def pending_orders_for_def DEFAULT_MAX_SNAPSHOT_AGE_def)
  then show ?thesis
    using reconcile_matched_iff [of flat_expectation sample_stdlib flat_tables "Some eurusd" 60000000
        DEFAULT_MAX_SNAPSHOT_AGE]
    by (auto simp: flat_expectation_def)
qed

theorem protective_stops_verified_witness:
  "\<exists>issues. verify_protective_stops [long_position (Some (27 / 25))] {ps_ticket (long_position None)} (Some (27 / 25)) = Inr issues \<and>
     psi_ticket ` set issues \<subseteq> {ps_ticket (long_position None)}"
  using protective_stops_verified [of "{ps_ticket (long_position None)}" "[long_position (Some (27 / 25))]" "Some (27 / 25)"]
  by (auto simp: long_position_def)

end
