(* ===== verification/RiskSession.thy ===== *)
theory RiskSession
  imports KillSwitch
begin

text \<open>
  The durable risk session (\<^verbatim>\<open>risk/session.py\<close>): what the risk engine remembers of
  its budget, the per-symbol in-memory store, and the recovery of a ledger from a record
  after a restart. A record that does not permit recovery still yields a ledger, with the
  reasons to halt; the interpolated parts of the detail texts are left out.
\<close>

definition SESSION_SCHEMA_VERSION :: int where "SESSION_SCHEMA_VERSION = 1"

record risk_session_state =
  rss_canonical_symbol :: string
  rss_trading_day :: int
  rss_session_start_equity :: decimal
  rss_current_equity :: decimal
  rss_peak_equity :: decimal
  rss_realized_pnl :: decimal
  rss_max_drawdown_fraction :: decimal
  rss_max_session_loss_fraction :: decimal
  rss_open_risk_fraction :: "decimal option"
  rss_open_position_count :: int
  rss_recorded_at :: utc
  rss_schema_version :: int

record session_record =
  sr_state :: "risk_session_state option"
  sr_unreadable :: "string option"

definition is_known :: "session_record \<Rightarrow> bool" where
  "is_known r \<longleftrightarrow> sr_unreadable r = None"

record memory_sessions =
  im_states :: "string \<rightharpoonup> risk_session_state"
  im_saves :: nat

definition in_memory_sessions :: "risk_session_state option \<Rightarrow> memory_sessions" where
  "in_memory_sessions initial =
     \<lparr>im_states = (case initial of None \<Rightarrow> Map.empty | Some s \<Rightarrow> [rss_canonical_symbol s \<mapsto> s]), im_saves = 0\<rparr>"

definition load_latest :: "memory_sessions \<Rightarrow> string \<Rightarrow> session_record" where
  "load_latest st symbol = \<lparr>sr_state = im_states st symbol, sr_unreadable = None\<rparr>"

definition save_session :: "memory_sessions \<Rightarrow> risk_session_state \<Rightarrow> memory_sessions" where
  "save_session st s =
     st\<lparr>im_states := (im_states st)(rss_canonical_symbol s \<mapsto> s), im_saves := im_saves st + 1\<rparr>"

record session_recovery =
  rec_ledger :: equity_ledger
  rec_trading_day :: "int option"
  rec_resumed :: bool
  rec_reason_codes :: "reason_code list"
  rec_detail :: "string option"

definition must_halt :: "session_recovery \<Rightarrow> bool" where
  "must_halt r \<longleftrightarrow> rec_reason_codes r \<noteq> []"

definition halt_recovery :: "decimal \<Rightarrow> int \<Rightarrow> reason_code list \<Rightarrow> string \<Rightarrow> py_exn + session_recovery" where
  "halt_recovery live_equity market_day reasons detail =
     mapE (\<lambda>l. \<lparr>rec_ledger = l, rec_trading_day = Some market_day, rec_resumed = False,
                rec_reason_codes = reasons, rec_detail = Some detail\<rparr>) (EquityLedger live_equity)"

definition resumed_ledger :: "risk_session_state \<Rightarrow> decimal \<Rightarrow> int \<Rightarrow> py_exn + equity_ledger" where
  "resumed_ledger recorded live_equity market_day =
     (let same_session = (rss_trading_day recorded = market_day);
          session_start = (if same_session then rss_session_start_equity recorded
                           else rss_current_equity recorded);
          peak = max (rss_peak_equity recorded) live_equity
      in resumed live_equity session_start live_equity peak (rss_max_drawdown_fraction recorded)
           (if same_session then rss_max_session_loss_fraction recorded else 0))"

definition exhausted_limits :: "equity_ledger \<Rightarrow> decimal \<Rightarrow> decimal \<Rightarrow> reason_code list" where
  "exhausted_limits l max_daily_loss max_drawdown =
     reason_if (max_drawdown \<le> el_max_drawdown_fraction l) MAX_DRAWDOWN @
     reason_if (max_daily_loss \<le> el_max_session_loss_fraction l) DAILY_LOSS_LIMIT"

definition recover_session ::
  "session_record \<Rightarrow> decimal \<Rightarrow> int \<Rightarrow> int \<Rightarrow> decimal \<Rightarrow> decimal \<Rightarrow> py_exn + session_recovery" where
  "recover_session rec live_equity live_open_positions market_day max_daily_loss max_drawdown =
     (if \<not> is_known rec
      then halt_recovery live_equity market_day [SAFETY_STATE_UNKNOWN]
             ''risk-session state could not be read''
      else case sr_state rec of
        None \<Rightarrow>
          mapE (\<lambda>l. \<lparr>rec_ledger = l, rec_trading_day = Some market_day, rec_resumed = False,
                     rec_reason_codes = [], rec_detail = None\<rparr>) (EquityLedger live_equity)
      | Some recorded \<Rightarrow>
          if rss_schema_version recorded \<noteq> SESSION_SCHEMA_VERSION
          then halt_recovery live_equity market_day [SAFETY_STATE_UNKNOWN]
                 ''risk-session schema is not the expected''
          else if market_day < rss_trading_day recorded
          then halt_recovery live_equity market_day [SAFETY_STATE_UNKNOWN]
                 ''recorded trading day is after the market day''
          else if rss_open_position_count recorded \<noteq> live_open_positions
          then halt_recovery live_equity market_day [RECONCILIATION_MISMATCH]
                 ''recorded open positions differ from the account''
          else bindE (resumed_ledger recorded live_equity market_day) (\<lambda>ledger.
            let exhausted = exhausted_limits ledger max_daily_loss max_drawdown
            in if exhausted \<noteq> []
               then halt_recovery live_equity market_day exhausted
                      ''recovered risk session already exhausted an owner-policy limit''
               else Inr \<lparr>rec_ledger = ledger, rec_trading_day = Some market_day, rec_resumed = True,
                         rec_reason_codes = [], rec_detail = None\<rparr>))"

definition session_snapshot ::
  "equity_ledger \<Rightarrow> string \<Rightarrow> int \<Rightarrow> decimal \<Rightarrow> decimal option \<Rightarrow> int \<Rightarrow> utc \<Rightarrow> risk_session_state" where
  "session_snapshot ledger symbol day realized_pnl open_risk open_positions now =
     \<lparr>rss_canonical_symbol = symbol, rss_trading_day = day,
      rss_session_start_equity = el_session_start_equity ledger,
      rss_current_equity = el_current_equity ledger, rss_peak_equity = el_peak_equity ledger,
      rss_realized_pnl = realized_pnl,
      rss_max_drawdown_fraction = el_max_drawdown_fraction ledger,
      rss_max_session_loss_fraction = el_max_session_loss_fraction ledger,
      rss_open_risk_fraction = open_risk, rss_open_position_count = open_positions,
      rss_recorded_at = now, rss_schema_version = SESSION_SCHEMA_VERSION\<rparr>"


subsection \<open>Recovery\<close>

lemma EquityLedger_Inr [simp]: "(\<exists>l. EquityLedger e = Inr l) \<longleftrightarrow> 0 < e"
  by (auto simp: EquityLedger_def not_le)

lemma halt_recovery_result:
  "halt_recovery e d rs t = Inr r \<Longrightarrow> rec_reason_codes r = rs \<and> \<not> rec_resumed r \<and> 0 < e"
  by (auto simp: halt_recovery_def mapE_eq_Inr EquityLedger_def split: if_splits)

lemma resumed_ledger_result:
  assumes "resumed_ledger recorded e day = Inr l"
  shows "ledger_ok l" "el_current_equity l = e" "0 < e"
    "rss_peak_equity recorded \<le> el_peak_equity l"
    "rss_max_drawdown_fraction recorded \<le> el_max_drawdown_fraction l"
    "rss_trading_day recorded = day \<Longrightarrow>
       rss_max_session_loss_fraction recorded \<le> el_max_session_loss_fraction l \<and>
       el_session_start_equity l = rss_session_start_equity recorded"
    "rss_trading_day recorded \<noteq> day \<Longrightarrow> el_session_start_equity l = rss_current_equity recorded"
proof -
  obtain l0 where l0: "EquityLedger e = Inr l0" and l: "l = ledger_update
      (l0\<lparr>el_session_start_equity := if rss_trading_day recorded = day then rss_session_start_equity recorded
                                     else rss_current_equity recorded,
          el_peak_equity := max (rss_peak_equity recorded) e,
          el_max_drawdown_fraction := rss_max_drawdown_fraction recorded,
          el_max_session_loss_fraction := if rss_trading_day recorded = day
                                          then rss_max_session_loss_fraction recorded else 0\<rparr>) e"
    using assms by (auto simp: resumed_ledger_def resumed_def Let_def mapE_eq_Inr)
  have pos: "0 < el_starting_equity l0" "0 < e"
    using l0 by (auto simp: EquityLedger_def not_le split: if_splits)
  show "ledger_ok l" unfolding l by (rule update_ok) (simp add: pos)
  show "el_current_equity l = e" "0 < e" using pos by (simp_all add: l)
  note w = update_worse [of "l0\<lparr>el_session_start_equity := if rss_trading_day recorded = day then rss_session_start_equity recorded
                                     else rss_current_equity recorded,
          el_peak_equity := max (rss_peak_equity recorded) e,
          el_max_drawdown_fraction := rss_max_drawdown_fraction recorded,
          el_max_session_loss_fraction := if rss_trading_day recorded = day
                                          then rss_max_session_loss_fraction recorded else 0\<rparr>" e, folded l]
  show "rss_peak_equity recorded \<le> el_peak_equity l"
    "rss_max_drawdown_fraction recorded \<le> el_max_drawdown_fraction l"
    "rss_trading_day recorded = day \<Longrightarrow>
       rss_max_session_loss_fraction recorded \<le> el_max_session_loss_fraction l \<and>
       el_session_start_equity l = rss_session_start_equity recorded"
    "rss_trading_day recorded \<noteq> day \<Longrightarrow> el_session_start_equity l = rss_current_equity recorded"
    using w by (auto simp: worse_or_equal_def l)
qed

lemma recover_session_resumed:
  assumes "recover_session rec e n day mdl mdd = Inr r" "rec_resumed r"
  obtains recorded where "sr_state rec = Some recorded" "sr_unreadable rec = None"
    "rss_schema_version recorded = SESSION_SCHEMA_VERSION" "rss_trading_day recorded \<le> day"
    "rss_open_position_count recorded = n" "resumed_ledger recorded e day = Inr (rec_ledger r)"
    "exhausted_limits (rec_ledger r) mdl mdd = []" "rec_reason_codes r = []"
  using assms that
  by (auto simp: recover_session_def Let_def bindE_eq_Inr mapE_eq_Inr is_known_def not_less
      dest: halt_recovery_result split: if_splits option.splits)


text \<open>
  Recovery refuses in every other recorded case: given a record to read, a positive live
  equity either resumes it or halts with a reason, and an unreadable record, a foreign
  schema, a day from the future, a position count the account does not confirm, or a
  recovered maximum at or beyond a limit always halts. Only a store with nothing recorded
  starts fresh without a reason.
\<close>

theorem recovery_halts_iff:
  assumes "0 < e"
  shows "\<exists>r. recover_session rec e n day mdl mdd = Inr r \<and> (must_halt r \<longrightarrow> \<not> rec_resumed r) \<and>
           (\<not> must_halt r \<and> \<not> rec_resumed r \<longleftrightarrow> is_known rec \<and> sr_state rec = None) \<and>
           (must_halt r \<longleftrightarrow> \<not> is_known rec \<or>
              (\<exists>s. sr_state rec = Some s \<and>
                 (rss_schema_version s \<noteq> SESSION_SCHEMA_VERSION \<or> day < rss_trading_day s \<or>
                  rss_open_position_count s \<noteq> n \<or>
                  (\<exists>l. resumed_ledger s e day = Inr l \<and>
                     (mdd \<le> el_max_drawdown_fraction l \<or> mdl \<le> el_max_session_loss_fraction l)))))"
proof -
  obtain l0 where l0: "EquityLedger e = Inr l0" using assms EquityLedger_Inr by blast
  then have halt: "\<exists>r. halt_recovery e day rs t = Inr r \<and> rec_reason_codes r = rs \<and> \<not> rec_resumed r" for rs t
    by (simp add: halt_recovery_def)
  have res: "\<exists>l. resumed_ledger s e day = Inr l" for s
    using l0 by (simp add: resumed_ledger_def resumed_def Let_def)
  show ?thesis
  proof (cases "is_known rec")
    case False
    with halt show ?thesis by (fastforce simp: recover_session_def must_halt_def)
  next
    case known: True
    show ?thesis
    proof (cases "sr_state rec")
      case None
      with known l0 show ?thesis by (simp add: recover_session_def must_halt_def)
    next
      case (Some s)
      obtain l where l: "resumed_ledger s e day = Inr l" using res by blast
      have ex: "exhausted_limits l mdl mdd \<noteq> [] \<longleftrightarrow>
          mdd \<le> el_max_drawdown_fraction l \<or> mdl \<le> el_max_session_loss_fraction l"
        by (auto simp: exhausted_limits_def)
      let ?bad = "rss_schema_version s \<noteq> SESSION_SCHEMA_VERSION \<or> day < rss_trading_day s \<or>
                  rss_open_position_count s \<noteq> n \<or> exhausted_limits l mdl mdd \<noteq> []"
      show ?thesis
      proof (cases ?bad)
        case True
        then have "\<exists>rs t. rs \<noteq> [] \<and> recover_session rec e n day mdl mdd = halt_recovery e day rs t"
          using known Some l by (auto simp: recover_session_def Let_def)
        then obtain r where "recover_session rec e n day mdl mdd = Inr r" "must_halt r" "\<not> rec_resumed r"
          using halt unfolding must_halt_def by metis
        with True Some l ex known show ?thesis by auto
      next
        case False
        with known Some l ex show ?thesis by (simp add: recover_session_def must_halt_def)
      qed
    qed
  qed
qed

text \<open>
  An account at or below zero cannot be recovered at all: every branch builds a ledger
  from the live equity first, so recovery raises instead of returning a halt.
\<close>

theorem recovery_raises_without_equity:
  assumes "e \<le> 0"
  shows "recover_session rec e n day mdl mdd = Inl ValueError"
  using assms
  by (auto simp: recover_session_def halt_recovery_def resumed_ledger_def resumed_def EquityLedger_def Let_def
      split: option.split)

lemma recovery_raises_without_equity_witness:
  "recover_session \<lparr>sr_state = None, sr_unreadable = Some ''connection refused''\<rparr> 0 0 1 (1 / 50) (1 / 10) =
     Inl ValueError"
  by (rule recovery_raises_without_equity) simp

lemma ledger_ok_fixpoint:
  assumes "ledger_ok l"
  shows "ledger_update l (el_current_equity l) = l"
proof -
  have "max (el_peak_equity l) (el_current_equity l) = el_peak_equity l"
    "max (el_max_drawdown_fraction l) (drawdown_fraction l) = el_max_drawdown_fraction l"
    "max (el_max_session_loss_fraction l) (session_loss_fraction l) = el_max_session_loss_fraction l"
    using assms by (simp_all add: ledger_ok_def)
  then show ?thesis by (simp add: ledger_update_def Let_def)
qed

text \<open>
  Persisting and resuming is lossless within a session: a ledger saved to the store and
  recovered for the same symbol on the same trading day, with the account unchanged and
  the limits not yet reached, comes back identical but for the run's own starting equity,
  and a save for one symbol does not change what another symbol recovers.
\<close>

theorem session_roundtrip:
  assumes "ledger_ok l" "0 < el_current_equity l"
    and "el_max_drawdown_fraction l < mdd" "el_max_session_loss_fraction l < mdl"
  shows "recover_session
           (load_latest (save_session st (session_snapshot l symbol day pnl risk n now)) symbol)
           (el_current_equity l) n day mdl mdd =
         Inr \<lparr>rec_ledger = l\<lparr>el_starting_equity := el_current_equity l\<rparr>,
              rec_trading_day = Some day, rec_resumed = True, rec_reason_codes = [], rec_detail = None\<rparr> \<and>
         (other \<noteq> symbol \<longrightarrow>
            load_latest (save_session st (session_snapshot l symbol day pnl risk n now)) other =
            load_latest st other)"
proof -
  let ?s = "session_snapshot l symbol day pnl risk n now" and ?l = "l\<lparr>el_starting_equity := el_current_equity l\<rparr>"
  have "drawdown_fraction ?l = drawdown_fraction l" "session_loss_fraction ?l = session_loss_fraction l"
    by (simp_all add: drawdown_fraction_def session_loss_fraction_def)
  with assms(1,2) have ok: "ledger_ok ?l" by (simp add: ledger_ok_def)
  have peak: "max (el_peak_equity l) (el_current_equity l) = el_peak_equity l"
    using assms(1) by (simp add: ledger_ok_def)
  have "resumed_ledger ?s (el_current_equity l) day = Inr ?l"
    using assms(2) ledger_ok_fixpoint [OF ok]
    by (cases l) (use peak in \<open>simp add: resumed_ledger_def resumed_def EquityLedger_def
        session_snapshot_def Let_def\<close>)
  then show ?thesis
    using assms(3,4)
    by (simp add: recover_session_def load_latest_def save_session_def is_known_def exhausted_limits_def
        session_snapshot_def Let_def)
qed

definition fresh_ledger :: equity_ledger where
  "fresh_ledger =
     \<lparr>el_starting_equity = 1000, el_peak_equity = 1000, el_current_equity = 1000,
      el_session_start_equity = 1000, el_max_drawdown_fraction = 0, el_max_session_loss_fraction = 0\<rparr>"

definition fresh_record :: session_record where
  "fresh_record =
     \<lparr>sr_state = Some (session_snapshot fresh_ledger ''EUR/USD'' 7 0 None 0 0), sr_unreadable = None\<rparr>"

lemma fresh_ledger_ok [simp]: "ledger_ok fresh_ledger"
  by (rule EquityLedger_ok [of 1000]) (simp add: EquityLedger_def fresh_ledger_def)

lemma fresh_recovery:
  "recover_session fresh_record 1000 0 7 (1 / 50) (1 / 10) =
     Inr \<lparr>rec_ledger = fresh_ledger, rec_trading_day = Some 7, rec_resumed = True,
          rec_reason_codes = [], rec_detail = None\<rparr>"
proof -
  have "ledger_update fresh_ledger 1000 = fresh_ledger"
    using ledger_ok_fixpoint [OF fresh_ledger_ok] by (simp add: fresh_ledger_def)
  then show ?thesis
    by (simp add: recover_session_def fresh_record_def session_snapshot_def resumed_ledger_def resumed_def
        EquityLedger_def fresh_ledger_def is_known_def exhausted_limits_def Let_def)
qed


lemma recovery_halts_iff_witness:
  "\<exists>r. recover_session fresh_record 1000 1 7 (1 / 50) (1 / 10) = Inr r \<and> must_halt r"
proof -
  have "rss_open_position_count (session_snapshot fresh_ledger ''EUR/USD'' 7 0 None 0 0) \<noteq> 1"
    by (simp add: session_snapshot_def)
  then show ?thesis
    using recovery_halts_iff [of 1000 fresh_record 1 7 "1 / 50" "1 / 10"] by (auto simp: fresh_record_def)
qed

lemma session_roundtrip_witness:
  "recover_session
     (load_latest (save_session (in_memory_sessions None)
        (session_snapshot fresh_ledger ''EUR/USD'' 7 0 None 0 0)) ''EUR/USD'') 1000 0 7 (1 / 50) (1 / 10) =
   Inr \<lparr>rec_ledger = fresh_ledger, rec_trading_day = Some 7, rec_resumed = True, rec_reason_codes = [],
        rec_detail = None\<rparr>"
  using session_roundtrip [OF fresh_ledger_ok, of "1 / 10" "1 / 50" "in_memory_sessions None"
      "''EUR/USD''" 7 0 None 0 0 "[]"]
  by (simp add: fresh_ledger_def)

end
