(* ===== verification/RiskPolicy.thy ===== *)
theory RiskPolicy
  imports Sizing RiskSession Config
begin

text \<open>
  The risk gateway (\<^verbatim>\<open>risk/policies.py\<close>): the pre-trade checklist, the
  execution-time revalidation that never resizes, and the weekly exposure breach. Each
  \<^verbatim>\<open>reasons.append\<close> under a condition is one \<open>reason_if\<close>, in the code's order.
\<close>

definition HALT_REASONS :: "reason_code set" where
  "HALT_REASONS =
     {LIVE_ACCOUNT_IN_PAPER_MODE, WRONG_ACCOUNT, RECONCILIATION_MISMATCH, MAX_DRAWDOWN,
      DAILY_LOSS_LIMIT, OVERNIGHT_EXPOSURE, FLATTEN_STATE_UNKNOWN}"

record portfolio_state =
  pf_account :: account_state
  pf_open_positions :: "position_state list"
  pf_ledger :: equity_ledger
  pf_orders_in_last_hour :: int
  pf_seen_decision_hashes :: "string set"
  pf_open_risk_fraction :: "decimal option"

record risk_context =
  rx_risk :: risk_config
  rx_execution :: execution_config
  rx_allowed_symbols :: "string set"
  rx_require_demo_account :: bool
  rx_expected_server :: string
  rx_expected_login :: "int option"
  rx_risk_config_version :: string
  rx_expected_currency :: "string option"
  rx_expected_leverage :: "int option"
  rx_intraday :: intraday_policy
  rx_calendar :: calendar

definition stop_distance :: "trade_intent \<Rightarrow> py_exn + decimal" where
  "stop_distance intent =
     (case ti_stop_loss_price intent of
        None \<Rightarrow> Inl AssertionError
      | Some stop \<Rightarrow> Inr (dabs (dsub (ti_reference_price intent) stop)))"

definition overnight_breach :: "calendar \<Rightarrow> position_state list \<Rightarrow> utc \<Rightarrow> intraday_policy \<Rightarrow> bool" where
  "overnight_breach cal positions moment policy =
     (if \<not> ip_enabled policy \<or> positions = [] then False
      else if requires_flat cal policy moment then True
      else list_ex (\<lambda>p. has_crossed_weekly_close cal (ps_opened_at p) moment) positions)"

fun risk_verdict_value :: "risk_verdict \<Rightarrow> string" where
  "risk_verdict_value PASS = ''PASS''"
| "risk_verdict_value BLOCK = ''BLOCK''"
| "risk_verdict_value RV_HALT = ''HALT''"

definition decision_id :: "stdlib \<Rightarrow> trade_intent \<Rightarrow> string \<Rightarrow> uuid" where
  "decision_id sl intent discriminator =
     uuid5_url sl (''crumblr:risk:'' @ decision_hash sl intent @ '':'' @ discriminator)"

definition refusal_verdict :: "reason_code list \<Rightarrow> risk_verdict" where
  "refusal_verdict unique = (if list_ex (\<lambda>r. r \<in> HALT_REASONS) unique then RV_HALT else BLOCK)"

definition refuse ::
  "stdlib \<Rightarrow> trade_intent \<Rightarrow> reason_code list \<Rightarrow> risk_context \<Rightarrow> utc \<Rightarrow> py_exn + risk_decision" where
  "refuse sl intent reasons ctx now =
     (let unique = dedup reasons;
          verdict = refusal_verdict unique
      in contract risk_decision_valid
           \<lparr>rd_decision_id = decision_id sl intent (risk_verdict_value verdict),
            rd_intent_id = ti_intent_id intent, rd_verdict = verdict, rd_reason_codes = unique,
            rd_decided_at = now, rd_risk_config_version = rx_risk_config_version ctx,
            rd_approved_volume = None, rd_account_equity = None, rd_stop_distance_points = None,
            rd_risk_amount = None\<rparr>)"


subsection \<open>The checklist, section by section\<close>

definition account_reasons :: "portfolio_state \<Rightarrow> risk_context \<Rightarrow> kill_switch \<Rightarrow> reason_code list" where
  "account_reasons pf ctx sw =
     reason_if (is_halted sw) SYSTEM_HALTED @
     reason_if (\<not> as_connected (pf_account pf)) ACCOUNT_NOT_CONNECTED @
     reason_if (\<not> as_trade_allowed (pf_account pf)) MARKET_DISABLED @
     reason_if (\<not> as_expert_allowed (pf_account pf)) EXPERT_TRADING_DISABLED @
     reason_if (rx_require_demo_account ctx \<and> \<not> as_is_demo (pf_account pf)) LIVE_ACCOUNT_IN_PAPER_MODE @
     reason_if (as_server (pf_account pf) \<noteq> rx_expected_server ctx) WRONG_ACCOUNT @
     reason_if (rx_expected_login ctx \<notin> {None, Some (as_login (pf_account pf))}) WRONG_ACCOUNT @
     reason_if (rx_expected_currency ctx \<notin> {None, Some (as_currency (pf_account pf))}) WRONG_ACCOUNT @
     reason_if (rx_expected_leverage ctx \<notin> {None, Some (as_leverage (pf_account pf))}) WRONG_ACCOUNT"

definition market_reasons :: "trade_intent \<Rightarrow> market_snapshot \<Rightarrow> risk_context \<Rightarrow> utc \<Rightarrow> reason_code list" where
  "market_reasons intent snap ctx now =
     (let data_age = age_ms (ms_event_time snap) now in
      reason_if (ti_symbol intent \<notin> rx_allowed_symbols ctx) SYMBOL_NOT_ALLOWED @
      reason_if (ms_data_quality snap \<notin> TRADEABLE_DATA_QUALITY) STALE_MARKET_DATA @
      reason_if (ec_max_market_data_age_ms (rx_execution ctx) < data_age \<or> data_age < 0) STALE_MARKET_DATA @
      reason_if (ms_ask snap < ms_bid snap \<or> ms_bid snap \<le> 0) INVALID_QUOTE @
      reason_if (ec_max_spread_points (rx_execution ctx) < ms_spread_points snap) SPREAD_TOO_WIDE @
      reason_if (\<not> permits_new_entry (rx_calendar ctx) (rx_intraday ctx) (ms_event_time snap)) SESSION_BLACKOUT)"

definition intent_reasons :: "stdlib \<Rightarrow> trade_intent \<Rightarrow> portfolio_state \<Rightarrow> utc \<Rightarrow> reason_code list" where
  "intent_reasons sl intent pf now =
     reason_if (is_expired intent now) INTENT_EXPIRED @
     reason_if (decision_hash sl intent \<in> pf_seen_decision_hashes pf) DUPLICATE_INTENT @
     reason_if (ti_side intent = FLAT) INVALID_STOP"

definition stop_reasons :: "decimal \<Rightarrow> int \<Rightarrow> instrument_spec \<Rightarrow> risk_context \<Rightarrow> reason_code list" where
  "stop_reasons distance points spec ctx =
     (if distance \<le> 0 \<or> points < rc_min_stop_distance_points (rx_risk ctx) then [INVALID_STOP]
      else if points < stops_level spec then [STOP_DISTANCE_VIOLATION]
      else [])"

definition exposure_reasons ::
  "trade_intent \<Rightarrow> market_snapshot \<Rightarrow> portfolio_state \<Rightarrow> risk_context \<Rightarrow> reason_code list" where
  "exposure_reasons intent snap pf ctx =
     reason_if (overnight_breach (rx_calendar ctx) (pf_open_positions pf) (ms_event_time snap) (rx_intraday ctx))
       OVERNIGHT_EXPOSURE @
     reason_if (rc_max_open_positions (rx_risk ctx) \<le> int (length (pf_open_positions pf))) MAX_OPEN_POSITIONS @
     reason_if (rc_max_orders_per_hour (rx_risk ctx) \<le> pf_orders_in_last_hour pf) ORDER_FREQUENCY_LIMIT @
     (case ti_requested_risk_fraction intent of
        None \<Rightarrow> [INVALID_STOP]
      | Some requested \<Rightarrow>
          reason_if (rc_max_risk_per_trade (rx_risk ctx) < requested) RISK_PER_TRADE_LIMIT @
          (case pf_open_risk_fraction pf of
             None \<Rightarrow> [OPEN_RISK_UNKNOWN]
           | Some open_risk \<Rightarrow>
               reason_if (rc_max_open_risk (rx_risk ctx) < dadd open_risk requested) OPEN_RISK_LIMIT))"

definition loss_reasons :: "portfolio_state \<Rightarrow> risk_context \<Rightarrow> reason_code list" where
  "loss_reasons pf ctx =
     reason_if (rc_max_daily_loss (rx_risk ctx) \<le> session_loss_fraction (pf_ledger pf)) DAILY_LOSS_LIMIT @
     reason_if (rc_max_drawdown (rx_risk ctx) \<le> drawdown_fraction (pf_ledger pf)) MAX_DRAWDOWN"

definition checklist ::
  "stdlib \<Rightarrow> trade_intent \<Rightarrow> market_snapshot \<Rightarrow> instrument_spec \<Rightarrow> portfolio_state \<Rightarrow> risk_context \<Rightarrow>
     kill_switch \<Rightarrow> utc \<Rightarrow> decimal \<Rightarrow> int \<Rightarrow> reason_code list" where
  "checklist sl intent snap spec pf ctx sw now distance points =
     account_reasons pf ctx sw @ market_reasons intent snap ctx now @ intent_reasons sl intent pf now @
     stop_reasons distance points spec ctx @ exposure_reasons intent snap pf ctx @ loss_reasons pf ctx"

definition evaluate ::
  "stdlib \<Rightarrow> trade_intent \<Rightarrow> market_snapshot \<Rightarrow> instrument_spec \<Rightarrow> portfolio_state \<Rightarrow> risk_context \<Rightarrow>
     kill_switch \<Rightarrow> utc \<Rightarrow> py_exn + risk_decision" where
  "evaluate sl intent snap spec pf ctx sw now =
     bindE (stop_distance intent) (\<lambda>distance.
     bindE (price_to_points distance (point spec)) (\<lambda>points.
     let reasons = checklist sl intent snap spec pf ctx sw now distance points in
     if reasons \<noteq> [] then refuse sl intent reasons ctx now
     else case ti_requested_risk_fraction intent of
       None \<Rightarrow> Inl AssertionError
     | Some requested \<Rightarrow>
         bindE (size_position (as_equity (pf_account pf)) requested distance spec) (\<lambda>sizing.
         case sz_volume sizing of
           None \<Rightarrow> refuse sl intent [VOLUME_OUT_OF_RANGE] ctx now
         | Some volume \<Rightarrow>
             bindE (realised_risk volume distance spec) (\<lambda>carried.
             if sz_risk_amount sizing < carried then refuse sl intent [OPEN_RISK_LIMIT] ctx now
             else contract risk_decision_valid
               \<lparr>rd_decision_id = decision_id sl intent ''pass'', rd_intent_id = ti_intent_id intent,
                rd_verdict = PASS, rd_reason_codes = [], rd_decided_at = now,
                rd_risk_config_version = rx_risk_config_version ctx, rd_approved_volume = Some volume,
                rd_account_equity = Some (as_equity (pf_account pf)),
                rd_stop_distance_points = Some points, rd_risk_amount = Some carried\<rparr>))))"


subsection \<open>Execution time\<close>

definition refuse_at_execution_time ::
  "stdlib \<Rightarrow> trade_intent \<Rightarrow> reason_code list \<Rightarrow> risk_context \<Rightarrow> utc \<Rightarrow> py_exn + risk_decision" where
  "refuse_at_execution_time sl intent reasons ctx now =
     mapE (\<lambda>d. d\<lparr>rd_decision_id :=
                   decision_id sl intent (''execution-'' @ risk_verdict_value (rd_verdict d))\<rparr>)
       (refuse sl intent reasons ctx now)"

definition executable_price :: "trade_intent \<Rightarrow> market_snapshot \<Rightarrow> decimal" where
  "executable_price intent snap =
     (if ti_entry_type intent = MARKET
      then if ti_side intent = BUY then ms_ask snap else ms_bid snap
      else ti_reference_price intent)"

definition revalidate ::
  "stdlib \<Rightarrow> trade_intent \<Rightarrow> risk_decision \<Rightarrow> market_snapshot \<Rightarrow> instrument_spec \<Rightarrow> portfolio_state \<Rightarrow>
     risk_context \<Rightarrow> kill_switch \<Rightarrow> utc \<Rightarrow> py_exn + risk_decision" where
  "revalidate sl intent prior snap spec pf ctx sw now =
     (case (rd_verdict prior, rd_approved_volume prior, ti_stop_loss_price intent) of
        (PASS, Some volume, Some stop) \<Rightarrow>
          bindE (evaluate sl intent snap spec pf ctx sw now) (\<lambda>fresh.
          let distance = dabs (dsub (executable_price intent snap) stop) in
          bindE (price_to_points distance (point spec)) (\<lambda>points.
          let execution_reasons = stop_reasons distance points spec ctx in
          if rd_verdict fresh \<noteq> PASS \<or> execution_reasons \<noteq> []
          then refuse_at_execution_time sl intent
                 (rd_reason_codes fresh @ execution_reasons @ [EXECUTION_TIME_RISK_BLOCK]) ctx now
          else case ti_requested_risk_fraction intent of
            None \<Rightarrow> Inl AssertionError
          | Some requested \<Rightarrow>
              let current_budget = dmul (as_equity (pf_account pf)) requested in
              bindE (realised_risk volume distance spec) (\<lambda>carried.
              if current_budget < carried
              then refuse_at_execution_time sl intent
                     [RISK_PER_TRADE_LIMIT, EXECUTION_TIME_RISK_BLOCK] ctx now
              else contract risk_decision_valid
                \<lparr>rd_decision_id = decision_id sl intent ''execution-pass'',
                 rd_intent_id = ti_intent_id intent, rd_verdict = PASS, rd_reason_codes = [],
                 rd_decided_at = now, rd_risk_config_version = rx_risk_config_version ctx,
                 rd_approved_volume = Some volume,
                 rd_account_equity = Some (as_equity (pf_account pf)),
                 rd_stop_distance_points = Some points, rd_risk_amount = Some carried\<rparr>)))
      | _ \<Rightarrow> Inl AssertionError)"


subsection \<open>Refusals\<close>

lemmas checklist_defs = checklist_def account_reasons_def market_reasons_def intent_reasons_def
  exposure_reasons_def loss_reasons_def Let_def

lemma refuse_Inr:
  "refuse sl intent rs ctx now = Inr d \<Longrightarrow>
     rd_reason_codes d = dedup rs \<and> rd_verdict d \<noteq> PASS \<and> rd_approved_volume d = None \<and>
     (rd_verdict d = RV_HALT \<longleftrightarrow> (\<exists>r \<in> set rs. r \<in> HALT_REASONS)) \<and> rd_decided_at d = now"
  by (auto simp: refuse_def Let_def refusal_verdict_def list_ex_iff split: if_splits)

lemma refuse_total:
  "rs \<noteq> [] \<Longrightarrow> version_tag_ok (rx_risk_config_version ctx) \<Longrightarrow> \<exists>d. refuse sl intent rs ctx now = Inr d"
  by (simp add: refuse_def Let_def contract_def risk_decision_valid_def refusal_verdict_def)

text \<open>What an evaluation that returned has been through.\<close>

definition clean :: "stdlib \<Rightarrow> trade_intent \<Rightarrow> market_snapshot \<Rightarrow> instrument_spec \<Rightarrow> portfolio_state \<Rightarrow>
    risk_context \<Rightarrow> kill_switch \<Rightarrow> utc \<Rightarrow> bool" where
  "clean sl intent snap spec pf ctx sw now \<longleftrightarrow>
     (\<exists>distance points. stop_distance intent = Inr distance \<and> price_to_points distance (point spec) = Inr points \<and>
        checklist sl intent snap spec pf ctx sw now distance points = [])"

lemma evaluate_pass:
  assumes "evaluate sl intent snap spec pf ctx sw now = Inr d" "rd_verdict d = PASS"
  obtains distance points f sizing v carried where
    "stop_distance intent = Inr distance" "price_to_points distance (point spec) = Inr points"
    "checklist sl intent snap spec pf ctx sw now distance points = []"
    "ti_requested_risk_fraction intent = Some f"
    "size_position (as_equity (pf_account pf)) f distance spec = Inr sizing" "sz_volume sizing = Some v"
    "realised_risk v distance spec = Inr carried" "carried \<le> sz_risk_amount sizing"
    "risk_decision_valid d" "rd_approved_volume d = Some v" "rd_risk_amount d = Some carried"
    "rd_stop_distance_points d = Some points"
  using assms that
  by (fastforce simp: evaluate_def Let_def bindE_eq_Inr not_less dest: refuse_Inr
      split: if_splits option.splits)

lemma evaluate_refusal:
  assumes "evaluate sl intent snap spec pf ctx sw now = Inr d"
    and "stop_distance intent = Inr distance" "price_to_points distance (point spec) = Inr points"
    and "r \<in> set (checklist sl intent snap spec pf ctx sw now distance points)"
  shows "r \<in> set (rd_reason_codes d) \<and> rd_verdict d \<noteq> PASS \<and> rd_approved_volume d = None \<and>
         (r \<in> HALT_REASONS \<longrightarrow> rd_verdict d = RV_HALT)"
proof -
  have "checklist sl intent snap spec pf ctx sw now distance points \<noteq> []" using assms(4) by auto
  then have "refuse sl intent (checklist sl intent snap spec pf ctx sw now distance points) ctx now = Inr d"
    using assms(1-3) by (simp add: evaluate_def Let_def)
  from refuse_Inr [OF this] assms(4) show ?thesis by auto
qed

lemma evaluate_stop:
  assumes "evaluate sl intent snap spec pf ctx sw now = Inr d"
  obtains distance points where "stop_distance intent = Inr distance" "price_to_points distance (point spec) = Inr points"
  using assms that by (auto simp: evaluate_def bindE_eq_Inr)


subsection \<open>What the gateway guarantees\<close>


text \<open>
  C2. What the approved size means: on a validated specification and intent the volume is
  broker-legal, the stop is at least the configured and the broker's minimum distance away,
  and the loss at the stop is strictly positive and at most the authorised budget, equity
  times requested fraction, with no rounding allowance, because the engine checks the
  realised figure itself before approving.
\<close>

theorem pass_stays_in_budget:
  assumes "evaluate sl intent snap spec pf ctx sw now = Inr d" "rd_verdict d = PASS"
    and "instrument_spec_valid spec" "trade_intent_valid intent"
  shows "\<exists>v f carried points distance. rd_approved_volume d = Some v \<and>
           ti_requested_risk_fraction intent = Some f \<and> rd_risk_amount d = Some carried \<and>
           rd_stop_distance_points d = Some points \<and> stop_distance intent = Inr distance \<and>
           volume_min spec \<le> v \<and> v \<le> volume_max spec \<and> whole_steps spec v \<and>
           realised_risk v distance spec = Inr carried \<and>
           0 < carried \<and> carried \<le> dmul (as_equity (pf_account pf)) f \<and>
           rc_min_stop_distance_points (rx_risk ctx) \<le> points \<and> stops_level spec \<le> points"
proof -
  obtain distance points f sizing v carried where
    d: "stop_distance intent = Inr distance" "price_to_points distance (point spec) = Inr points"
      "checklist sl intent snap spec pf ctx sw now distance points = []" and
    f: "ti_requested_risk_fraction intent = Some f" and
    s: "size_position (as_equity (pf_account pf)) f distance spec = Inr sizing" "sz_volume sizing = Some v" and
    c: "realised_risk v distance spec = Inr carried" "carried \<le> sz_risk_amount sizing" and
    r: "rd_approved_volume d = Some v" "rd_risk_amount d = Some carried" "rd_stop_distance_points d = Some points"
    by (rule evaluate_pass [OF assms(1,2)])
  have "stop_reasons distance points spec ctx = []" using d(3) by (simp add: checklist_def)
  then have stop: "0 < distance" "rc_min_stop_distance_points (rx_risk ctx) \<le> points" "stops_level spec \<le> points"
    by (auto simp: stop_reasons_def not_less not_le split: if_splits)
  have f0: "0 \<le> f" using assms(4) f by (simp add: trade_intent_valid_def)
  obtain l raw where sz: "0 < as_equity (pf_account pf)" "loss_per_lot distance spec = Inr l" "0 < l"
      "raw = ddiv (dmul (as_equity (pf_account pf)) f) l" "normalise_volume raw spec = Inr v"
      "volume_min spec \<le> v" "0 < v" "sz_risk_amount sizing = dmul (as_equity (pf_account pf)) f"
    by (rule size_position_cases [OF assms(3) stop(1) s])
  have "0 \<le> raw" using sz f0 by (simp add: decimal_nonneg)
  note n = normalise_volume_bounds [OF assms(3) sz(5) this]
  have "0 < carried" using c(1) sz by (auto simp: realised_risk_def mapE_eq_Inr)
  with d f c r stop sz n show ?thesis by auto
qed


text \<open>
  C22. Execution time never resizes: a revalidation that returns either passes with exactly
  the volume approved before, carrying a loss within the current budget at the price it
  would execute at, or refuses with no volume and the execution-time block among its
  reasons. A pass requires that the whole checklist passed again on the fresh observations.
\<close>

theorem revalidation_never_resizes:
  assumes "revalidate sl intent prior snap spec pf ctx sw now = Inr d"
  shows "(rd_verdict d = PASS \<longrightarrow>
            rd_approved_volume d = rd_approved_volume prior \<and>
            (\<exists>fresh. evaluate sl intent snap spec pf ctx sw now = Inr fresh \<and> rd_verdict fresh = PASS) \<and>
            (\<exists>v stop f carried. rd_approved_volume prior = Some v \<and> ti_stop_loss_price intent = Some stop \<and>
               ti_requested_risk_fraction intent = Some f \<and> rd_risk_amount d = Some carried \<and>
               realised_risk v (dabs (dsub (executable_price intent snap) stop)) spec = Inr carried \<and>
               carried \<le> dmul (as_equity (pf_account pf)) f)) \<and>
         (rd_verdict d \<noteq> PASS \<longrightarrow>
            rd_approved_volume d = None \<and> EXECUTION_TIME_RISK_BLOCK \<in> set (rd_reason_codes d))"
proof -
  obtain volume stop fresh points where p: "rd_approved_volume prior = Some volume"
      "ti_stop_loss_price intent = Some stop" "evaluate sl intent snap spec pf ctx sw now = Inr fresh"
      "price_to_points (dabs (dsub (executable_price intent snap) stop)) (point spec) = Inr points"
    using assms by (auto simp: revalidate_def Let_def bindE_eq_Inr split: risk_verdict.splits option.splits)
  have ref: "rd_verdict d \<noteq> PASS \<and> rd_approved_volume d = None \<and> EXECUTION_TIME_RISK_BLOCK \<in> set (rd_reason_codes d)"
    if "refuse_at_execution_time sl intent (rs @ [EXECUTION_TIME_RISK_BLOCK]) ctx now = Inr d" for rs
    using that by (auto simp: refuse_at_execution_time_def mapE_eq_Inr dest!: refuse_Inr)
  show ?thesis
    using assms p ref [of "[RISK_PER_TRADE_LIMIT]"] ref [of "rd_reason_codes fresh @ stop_reasons _ points spec ctx"]
    by (auto simp: revalidate_def Let_def bindE_eq_Inr not_less
        split: risk_verdict.splits option.splits if_splits)
qed

text \<open>
  C37. No weekend hold goes unnoticed: on the FX week under an enabled policy, a position
  still open at any later moment is either before the flatten deadline of the week it was
  opened in, or reported as a breach, at every moment from that deadline on, through the
  weekend and into every following week.
\<close>

theorem weekend_hold_is_a_breach:
  assumes "ip_enabled policy" "p \<in> set positions" "ps_opened_at p \<le> t"
    and "weekly_close dst (ps_opened_at p) - ip_flatten_offset policy \<le> t"
  shows "overnight_breach (FxWeekdayCalendar dst) positions t policy"
proof (cases "weekly_close dst (ps_opened_at p) \<le> t")
  case True
  then have "has_crossed_weekly_close (FxWeekdayCalendar dst) (ps_opened_at p) t"
    using fx.crossed_iff [of dst "ps_opened_at p" "weekly_close dst (ps_opened_at p)" t] assms(3) by simp
  with assms(1,2) show ?thesis by (auto simp: overnight_breach_def list_ex_iff)
next
  case False
  then have "weekly_close dst t = weekly_close dst (ps_opened_at p)"
    using weekly_close_stable assms(3) by simp
  with assms have "requires_flat (FxWeekdayCalendar dst) policy t"
    by (simp add: requires_flat_def phase_at_def)
  with assms(1,2) show ?thesis by (auto simp: overnight_breach_def)
qed

text \<open>
  A validated FLAT intent can never be judged: the contract forbids it a stop, and
  measuring the stop asserts one, so the evaluation raises before it can refuse.
\<close>

theorem flat_intent_raises:
  assumes "trade_intent_valid intent" "ti_side intent = FLAT"
  shows "evaluate sl intent snap spec pf ctx sw now = Inl AssertionError"
  using flat_intent [OF assms] by (simp add: evaluate_def stop_distance_def)

text \<open>
  On a validated directional intent and specification, with a version tag, a positive
  configured or broker minimum distance, and a stop distance that fits the decimal
  context, the evaluation always returns a decision.
\<close>

theorem evaluate_total:
  assumes "trade_intent_valid intent" "ti_side intent \<noteq> FLAT" "instrument_spec_valid spec"
    and "version_tag_ok (rx_risk_config_version ctx)"
    and "0 < rc_min_stop_distance_points (rx_risk ctx) \<or> 0 < stops_level spec"
    and "stop_distance intent = Inr distance" "price_to_points distance (point spec) = Inr points"
  shows "\<exists>d. evaluate sl intent snap spec pf ctx sw now = Inr d"
proof (cases "checklist sl intent snap spec pf ctx sw now distance points = []")
  case False
  with assms refuse_total show ?thesis by (simp add: evaluate_def Let_def)
next
  case True
  obtain f where f: "ti_requested_risk_fraction intent = Some f"
    using directional_intent [OF assms(1,2)] by metis
  from True have "stop_reasons distance points spec ctx = []" by (simp add: checklist_def)
  then have stop: "0 < distance" "0 < points"
    using assms(5) by (auto simp: stop_reasons_def not_less split: if_splits)
  obtain r where r: "size_position (as_equity (pf_account pf)) f distance spec = Inr r"
    using size_position_total [OF assms(3) stop(1)] by blast
  show ?thesis
  proof (cases "sz_volume r")
    case None
    with True f r assms(4,6,7) refuse_total [of "[VOLUME_OUT_OF_RANGE]" ctx sl intent now]
    show ?thesis by (simp add: evaluate_def Let_def)
  next
    case (Some v)
    obtain l raw where l: "loss_per_lot distance spec = Inr l" "0 < v"
      by (rule size_position_cases [OF assms(3) stop(1) r Some])
    then have c: "realised_risk v distance spec = Inr (dmul v l)" by (simp add: realised_risk_def)
    show ?thesis
      using True f r Some c l stop assms(4,6,7) refuse_total [of "[OPEN_RISK_LIMIT]" ctx sl intent now]
      by (auto simp: evaluate_def Let_def contract_def risk_decision_valid_def)
  qed
qed


subsection \<open>A worked example\<close>

definition buy_intent :: trade_intent where
  "buy_intent =
     \<lparr>ti_intent_id = ''i1'', ti_strategy_id = ''baseline'', ti_strategy_version = ''1'', ti_model_version = None,
      ti_symbol = ''EUR/USD'', ti_side = BUY, ti_created_at = 0, ti_expires_at = 60000000,
      ti_entry_type = MARKET, ti_reference_price = 11 / 10, ti_stop_loss_price = Some (549 / 500),
      ti_take_profit_price = None, ti_confidence = 1 / 2, ti_reason_codes = [''breakout''],
      ti_requested_risk_fraction = Some (1 / 200), ti_feature_snapshot_id = ''f1''\<rparr>"

definition quote_at :: "decimal \<Rightarrow> decimal \<Rightarrow> market_snapshot" where
  "quote_at bid ask =
     \<lparr>ms_snapshot_id = ''s1'', ms_symbol = ''EUR/USD'', ms_event_time = 0, ms_received_time = 0, ms_bid = bid,
      ms_ask = ask, ms_spread_points = 10, ms_timeframe = ''M5'', ms_bars = [], ms_session_state = OPEN,
      ms_symbol_spec_version = ''v1'', ms_data_quality = GOOD\<rparr>"

definition demo_account :: account_state where
  "demo_account =
     \<lparr>as_login = 1, as_server = ''demo'', as_currency = ''USD'', as_is_demo = True, as_trade_allowed = True,
      as_expert_allowed = True, as_connected = True, as_balance = 10000, as_equity = 10000, as_margin = 0,
      as_margin_free = 10000, as_margin_level = None, as_leverage = 30, as_observed_at = 0\<rparr>"

definition flat_book :: portfolio_state where
  "flat_book =
     \<lparr>pf_account = demo_account, pf_open_positions = [],
      pf_ledger = fresh_ledger, pf_orders_in_last_hour = 0, pf_seen_decision_hashes = {},
      pf_open_risk_fraction = Some 0\<rparr>"

definition paper_context :: risk_context where
  "paper_context =
     \<lparr>rx_risk = paper_risk, rx_execution = paper_execution, rx_allowed_symbols = {''EUR/USD''},
      rx_require_demo_account = True, rx_expected_server = ''demo'', rx_expected_login = None,
      rx_risk_config_version = ''v1'', rx_expected_currency = None, rx_expected_leverage = None,
      rx_intraday = owner_policy, rx_calendar = AlwaysOpenCalendar True\<rparr>"

lemma buy_intent_valid [simp]: "trade_intent_valid buy_intent"
  by (simp add: buy_intent_def trade_intent_valid_def checks text_ok_def DIRECTIONAL_SIDES_def)

lemma fresh_losses [simp]: "session_loss_fraction fresh_ledger = 0" "drawdown_fraction fresh_ledger = 0"
  by (simp_all add: fresh_ledger_def session_loss_fraction_def drawdown_fraction_def dsub_def ddiv_def)

lemma points_eval:
  "dabs (dsub (11 / 10) (549 / 500)) = 1 / 500" "price_to_points (1 / 500) (1 / 100000) = Inr 200"
  "dabs (dsub (439 / 400) (549 / 500)) = 1 / 2000" "price_to_points (1 / 2000) (1 / 100000) = Inr 50"
  by (simp_all add: decimal_ops rnd_exact price_to_points_def quantize_def round_half_up_def round_down_def Let_def
      floor_eq_iff)

lemma always_open_entry [simp]: "permits_new_entry (AlwaysOpenCalendar True) p t"
  by (simp add: permits_new_entry_def permits_new_entries_def phase_always_open)

lemma buy_checklist:
  "bid \<le> ask \<Longrightarrow> 0 < bid \<Longrightarrow>
     checklist sl buy_intent (quote_at bid ask) eurusd flat_book paper_context new_kill_switch 0 (1 / 500) 200 = []"
  by (simp add: checklist_defs stop_reasons_def buy_intent_def quote_at_def flat_book_def paper_context_def
      demo_account_def paper_risk_def paper_execution_def new_kill_switch_def is_halted_def is_expired_def
      overnight_breach_def dadd_def rnd_exact)

definition buy_decision :: "stdlib \<Rightarrow> string \<Rightarrow> int \<Rightarrow> decimal \<Rightarrow> risk_decision" where
  "buy_decision sl disc points amount =
     \<lparr>rd_decision_id = decision_id sl buy_intent disc, rd_intent_id = ''i1'', rd_verdict = PASS,
      rd_reason_codes = [], rd_decided_at = 0, rd_risk_config_version = ''v1'',
      rd_approved_volume = Some (1 / 4), rd_account_equity = Some 10000,
      rd_stop_distance_points = Some points, rd_risk_amount = Some amount\<rparr>"

lemma buy_evaluates:
  assumes "bid \<le> ask" "0 < bid"
  shows "evaluate sl buy_intent (quote_at bid ask) eurusd flat_book paper_context new_kill_switch 0 =
           Inr (buy_decision sl ''pass'' 200 50)"
proof -
  have "stop_distance buy_intent = Inr (1 / 500)" by (simp add: stop_distance_def buy_intent_def points_eval)
  moreover have "realised_risk (1 / 4) (1 / 500) eurusd = Inr 50"
    by (simp add: realised_risk_def loss_per_lot_def decimal_ops rnd_exact)
  moreover have "ti_requested_risk_fraction buy_intent = Some (1 / 200)" "ti_intent_id buy_intent = ''i1''"
    by (simp_all add: buy_intent_def)
  moreover have "as_equity (pf_account flat_book) = 10000" "rx_risk_config_version paper_context = ''v1''"
    by (simp_all add: flat_book_def demo_account_def paper_context_def)
  ultimately show ?thesis
    using buy_checklist [OF assms] size_position_example
    by (simp add: evaluate_def points_eval Let_def contract_def risk_decision_valid_def text_ok_def buy_decision_def)
qed

lemmas buy_passes = buy_evaluates [of "11 / 10" "11 / 10" sample_stdlib, simplified]

lemma buy_verdict [simp]: "rd_verdict (buy_decision sl disc n a) = PASS"
  "rd_approved_volume (buy_decision sl disc n a) = Some (1 / 4)"
  "rd_risk_amount (buy_decision sl disc n a) = Some a"
  "rd_stop_distance_points (buy_decision sl disc n a) = Some n"
  by (simp_all add: buy_decision_def)


lemma pass_stays_in_budget_witness:
  "\<exists>v f carried. rd_approved_volume (buy_decision sample_stdlib ''pass'' 200 50) = Some v \<and>
     ti_requested_risk_fraction buy_intent = Some f \<and> volume_min eurusd \<le> v \<and> 0 < carried \<and>
     carried \<le> dmul (as_equity (pf_account flat_book)) f"
  using pass_stays_in_budget [OF buy_passes buy_verdict(1)
      eurusd_valid buy_intent_valid] by blast


lemma buy_revalidates:
  "revalidate sl buy_intent (buy_decision sl ''pass'' 200 50) (quote_at (439 / 400) (439 / 400)) eurusd
     flat_book paper_context new_kill_switch 0 =
   Inr (buy_decision sl ''execution-pass'' 50 (25 / 2))"
proof -
  have e: "evaluate sl buy_intent (quote_at (439 / 400) (439 / 400)) eurusd flat_book paper_context new_kill_switch 0 =
      Inr (buy_decision sl ''pass'' 200 50)" by (rule buy_evaluates) simp_all
  have x: "executable_price buy_intent (quote_at (439 / 400) (439 / 400)) = 439 / 400"
    by (simp add: executable_price_def buy_intent_def quote_at_def)
  have st: "stop_reasons (1 / 2000) 50 eurusd paper_context = []"
    by (simp add: stop_reasons_def paper_context_def paper_risk_def)
  have rr: "realised_risk (1 / 4) (1 / 2000) eurusd = Inr (25 / 2)"
    by (simp add: realised_risk_def loss_per_lot_def decimal_ops rnd_exact)
  have m: "dmul 10000 (1 / 200) = 50" by (simp add: dmul_def rnd_exact)
  have i: "ti_requested_risk_fraction buy_intent = Some (1 / 200)" "ti_intent_id buy_intent = ''i1''"
    "ti_stop_loss_price buy_intent = Some (549 / 500)"
    by (simp_all add: buy_intent_def)
  have q: "as_equity (pf_account flat_book) = 10000" "rx_risk_config_version paper_context = ''v1''"
    by (simp_all add: flat_book_def demo_account_def paper_context_def)
  show ?thesis
    by (simp add: revalidate_def e x st rr m i q points_eval(3,4) Let_def contract_def risk_decision_valid_def
        text_ok_def) (simp add: buy_decision_def)
qed

lemma revalidation_never_resizes_witness:
  "rd_approved_volume (buy_decision sample_stdlib ''execution-pass'' 50 (25 / 2)) =
     rd_approved_volume (buy_decision sample_stdlib ''pass'' 200 50)"
  using revalidation_never_resizes [OF buy_revalidates [of sample_stdlib]] by simp

text \<open>
  The execution-time check measures the stop by absolute distance only: a market BUY
  whose ask has already fallen through its protective stop is passed again at its approved
  volume, with the stop above the price it would fill at.
\<close>

theorem revalidation_accepts_breached_stop:
  "\<exists>d stop. revalidate sl buy_intent (buy_decision sl ''pass'' 200 50) (quote_at (439 / 400) (439 / 400))
              eurusd flat_book paper_context new_kill_switch 0 = Inr d \<and> rd_verdict d = PASS \<and>
            trade_intent_valid buy_intent \<and> ti_side buy_intent = BUY \<and>
            ti_stop_loss_price buy_intent = Some stop \<and>
            executable_price buy_intent (quote_at (439 / 400) (439 / 400)) < stop"
  by (rule exI, rule exI [of _ "549 / 500"], intro conjI, rule buy_revalidates, rule buy_verdict,
      rule buy_intent_valid) (simp_all add: buy_intent_def executable_price_def quote_at_def)

lemma weekend_hold_is_a_breach_witness:
  "overnight_breach (FxWeekdayCalendar (\<lambda>_. False)) [(long_position None)\<lparr>ps_opened_at := 0\<rparr>] US_WEEK owner_policy"
proof (rule weekend_hold_is_a_breach)
  have "weekly_close (\<lambda>_. False) 0 = friday_close (\<lambda>_. False) 0"
    by (rule weekly_close_eq_iff [THEN iffD2]) (simp add: friday_close_winter friday_wall_def)
  then show "weekly_close (\<lambda>_. False) (ps_opened_at (long_position None\<lparr>ps_opened_at := 0\<rparr>)) -
      ip_flatten_offset owner_policy \<le> US_WEEK"
    by (simp add: friday_close_winter friday_wall_def owner_policy_def)
qed (simp_all add: owner_policy_def)

definition flat_signal :: trade_intent where
  "flat_signal = buy_intent\<lparr>ti_side := FLAT, ti_stop_loss_price := None, ti_requested_risk_fraction := None\<rparr>"

lemma flat_intent_raises_witness:
  "evaluate sample_stdlib flat_signal (quote_at 1 1) eurusd flat_book paper_context new_kill_switch 0 = Inl AssertionError"
  by (rule flat_intent_raises)
     (simp_all add: flat_signal_def buy_intent_def trade_intent_valid_def checks text_ok_def DIRECTIONAL_SIDES_def)

lemma evaluate_total_witness:
  "\<exists>d. evaluate sample_stdlib buy_intent (quote_at 5 1) eurusd flat_book paper_context
         (new_kill_switch\<lparr>ks_state := HALTED\<rparr>) 7 = Inr d"
  by (rule evaluate_total [OF buy_intent_valid _ eurusd_valid, where distance = "1 / 500" and points = 200])
     (simp_all add: points_eval, simp_all add: buy_intent_def paper_context_def paper_risk_def text_ok_def
        stop_distance_def points_eval)

end
