(* ===== verification/Gates.thy ===== *)
theory Gates
  imports RiskPolicy
begin

text \<open>
  The pure gates in front of the execution chain: eligibility of a recorded decision
  (\<^verbatim>\<open>risk/execution_eligibility.py\<close>), the preflight gate
  (\<^verbatim>\<open>risk/execution_preflight_gate.py\<close>), the gate on a real submission
  (\<^verbatim>\<open>risk/submission_gate.py\<close>) and the gate on an automatic flatten
  (\<^verbatim>\<open>risk/flatten_gate.py\<close>). All four collect the reasons of their failing legs
  and share one decision contract; the locale \<open>gate\<close> proves what follows from that once.
\<close>

subsection \<open>The shared decision contract\<close>

record gate_decision =
  gd_open :: bool
  gd_reason_codes :: "reason_code list"

definition gate_decision_ok :: "gate_decision \<Rightarrow> bool" where [checks]:
  "gate_decision_ok g \<longleftrightarrow>
     \<not> (\<not> gd_open g \<and> gd_reason_codes g = []) \<and> \<not> (gd_open g \<and> gd_reason_codes g \<noteq> [])"

definition gate_decision :: "bool \<Rightarrow> reason_code list \<Rightarrow> py_exn + gate_decision" where
  "gate_decision is_open' reasons =
     (let g = \<lparr>gd_open = is_open', gd_reason_codes = reasons\<rparr>
      in if gate_decision_ok g then Inr g else Inl ValueError)"

definition decide_gate :: "reason_code list \<Rightarrow> py_exn + gate_decision" where
  "decide_gate reasons = (if reasons \<noteq> [] then gate_decision False reasons else gate_decision True [])"

locale gate =
  fixes legs :: "'c \<Rightarrow> reason_code list"
    and eval :: "'c \<Rightarrow> py_exn + gate_decision"
  assumes eval_legs: "eval c = decide_gate (legs c)"
begin

lemma eval_result: "eval c = Inr \<lparr>gd_open = (legs c = []), gd_reason_codes = legs c\<rparr>"
  by (simp add: eval_legs decide_gate_def gate_decision_def gate_decision_ok_def Let_def)

lemma open_iff: "(\<exists>g. eval c = Inr g \<and> gd_open g) \<longleftrightarrow> legs c = []"
  by (simp add: eval_result)

lemma closed_by: "r \<in> set (legs c) \<Longrightarrow> \<exists>g. eval c = Inr g \<and> \<not> gd_open g \<and> r \<in> set (gd_reason_codes g)"
  by (auto simp: eval_result)

end


subsection \<open>Preflight\<close>

record preflight_context =
  pg_environment :: environment
  pg_canonical_symbol :: string
  pg_allowed_symbols :: "string set"
  pg_kill_switch :: kill_switch

definition preflight_legs :: "preflight_context \<Rightarrow> reason_code list" where
  "preflight_legs c =
     reason_if (pg_environment c = LIVE) LIVE_EXECUTION_NOT_PERMITTED @
     reason_if (pg_canonical_symbol c \<notin> pg_allowed_symbols c) SYMBOL_NOT_ALLOWED @
     reason_if (is_halted (pg_kill_switch c)) SYSTEM_HALTED"

definition evaluate_preflight_gate :: "preflight_context \<Rightarrow> py_exn + gate_decision" where
  "evaluate_preflight_gate c = decide_gate (preflight_legs c)"

interpretation preflight: gate preflight_legs evaluate_preflight_gate
  by unfold_locales (simp add: evaluate_preflight_gate_def)


subsection \<open>Eligibility of a recorded decision\<close>

record eligibility_context =
  eg_capsule :: decision_capsule
  eg_activation_watermark :: "utc option"
  eg_now :: utc
  eg_current_strategy_version :: string
  eg_current_risk_config_version :: string
  eg_intraday :: intraday_policy
  eg_calendar :: calendar

definition eligibility_legs :: "eligibility_context \<Rightarrow> trade_intent \<Rightarrow> reason_code list" where
  "eligibility_legs c intent =
     reason_if (case eg_activation_watermark c of
                  None \<Rightarrow> True | Some w \<Rightarrow> dc_occurred_at (eg_capsule c) < w)
       DECISION_PREDATES_EXECUTION_ACTIVATION @
     reason_if (dc_strategy_version (eg_capsule c) \<noteq> eg_current_strategy_version c \<or>
                dc_risk_config_version (eg_capsule c) \<noteq> eg_current_risk_config_version c)
       STRATEGY_VERSION_NOT_CURRENT @
     reason_if (is_expired intent (eg_now c)) INTENT_EXPIRED @
     reason_if (\<not> permits_new_entry (eg_calendar c) (eg_intraday c) (eg_now c)) SESSION_BLACKOUT"

definition evaluate_execution_eligibility :: "eligibility_context \<Rightarrow> py_exn + gate_decision" where
  "evaluate_execution_eligibility c =
     (case (dc_trade_intent (eg_capsule c), dc_risk_decision (eg_capsule c)) of
        (Some intent, Some d) \<Rightarrow> decide_gate (eligibility_legs c intent)
      | _ \<Rightarrow> Inl ValueError)"


subsection \<open>Submission\<close>

record submission_context =
  sg_environment :: environment
  sg_account :: account_state
  sg_reconciliation_status :: reconciliation_status
  sg_fresh_tick :: "market_tick option"
  sg_max_market_data_age_ms :: int
  sg_kill_switch :: kill_switch
  sg_risk_config_version :: string
  sg_approved_risk_config_version :: "string option"
  sg_submission_enabled :: bool
  sg_terminal_trade_allowed :: bool
  sg_feedback_2_0_approved :: bool
  sg_approved_account_ref :: "string option"
  sg_now :: utc

definition tick_legs :: "submission_context \<Rightarrow> reason_code list" where
  "tick_legs c =
     (case sg_fresh_tick c of
        None \<Rightarrow> [STALE_MARKET_DATA]
      | Some tick \<Rightarrow>
          reason_if (of_int (sg_max_market_data_age_ms c) < total_ms (sg_now c - mt_event_time tick))
            STALE_MARKET_DATA @
          reason_if (mt_data_quality tick \<noteq> GOOD) INVALID_QUOTE)"

definition account_ref :: "stdlib \<Rightarrow> account_state \<Rightarrow> string" where
  "account_ref sl a = projr (login_hash sl a)"

definition submission_legs :: "stdlib \<Rightarrow> submission_context \<Rightarrow> reason_code list" where
  "submission_legs sl c =
     reason_if (sg_environment c \<notin> DEMO_ONLY_ENVIRONMENTS) LIVE_EXECUTION_NOT_PERMITTED @
     reason_if (\<not> as_is_demo (sg_account c)) LIVE_ACCOUNT_IN_PAPER_MODE @
     reason_if (\<not> as_connected (sg_account c)) ACCOUNT_NOT_CONNECTED @
     (case sg_reconciliation_status c of
        MISMATCHED \<Rightarrow> [RECONCILIATION_MISMATCH]
      | RS_UNKNOWN \<Rightarrow> [RECONCILIATION_UNKNOWN]
      | MATCHED \<Rightarrow> []) @
     tick_legs c @
     reason_if (is_halted (sg_kill_switch c)) SYSTEM_HALTED @
     reason_if (sg_approved_risk_config_version c \<noteq> Some (sg_risk_config_version c)) RISK_POLICY_NOT_APPROVED @
     reason_if (\<not> sg_submission_enabled c) EXECUTION_NOT_EXPLICITLY_ENABLED @
     reason_if (\<not> sg_terminal_trade_allowed c) ALGOTRADING_DISABLED @
     reason_if (\<not> sg_feedback_2_0_approved c) FEEDBACK_2_0_NOT_APPROVED @
     reason_if (sg_approved_account_ref c \<noteq> Some (account_ref sl (sg_account c))) WRONG_ACCOUNT"

definition evaluate_submission_gate :: "stdlib \<Rightarrow> submission_context \<Rightarrow> py_exn + gate_decision" where
  "evaluate_submission_gate sl c =
     bindE (login_hash sl (sg_account c)) (\<lambda>_. decide_gate (submission_legs sl c))"

lemma login_hash_total: "\<exists>h. login_hash sl a = Inr h"
  using fingerprint_total [of "[(''login'', PInt (as_login a)), (''server'', PStr (as_server a))]" sl]
  by (auto simp: login_hash_def)

interpretation submission: gate "submission_legs sl" "evaluate_submission_gate sl" for sl
  by unfold_locales (metis bindE_Inr evaluate_submission_gate_def login_hash_total)


subsection \<open>Flatten\<close>

definition TOLERATED_HALT_REASONS :: "reason_code set" where
  "TOLERATED_HALT_REASONS =
     {OVERNIGHT_EXPOSURE, FLATTEN_STATE_UNKNOWN, PROTECTIVE_STOP_MISSING, PROTECTIVE_STOP_MISMATCH,
      SUBMISSION_INTEGRITY_AMBIGUOUS, FLATTEN_CLOSE_FAILED}"

record flatten_context =
  fg_environment :: environment
  fg_account :: account_state
  fg_terminal_trade_allowed :: bool
  fg_position_book_complete :: bool
  fg_reconciliation_status :: reconciliation_status
  fg_kill_switch :: kill_switch
  fg_flatten_required :: bool
  fg_risk_config_version :: string
  fg_approved_risk_config_version :: "string option"
  fg_flatten_submission_enabled :: bool
  fg_feedback_2_0_approved :: bool
  fg_now :: utc

definition flatten_legs :: "flatten_context \<Rightarrow> reason_code list" where
  "flatten_legs c =
     reason_if (fg_environment c \<notin> DEMO_ONLY_ENVIRONMENTS) LIVE_EXECUTION_NOT_PERMITTED @
     reason_if (\<not> as_is_demo (fg_account c)) LIVE_ACCOUNT_IN_PAPER_MODE @
     reason_if (\<not> as_connected (fg_account c)) ACCOUNT_NOT_CONNECTED @
     reason_if (\<not> fg_terminal_trade_allowed c) ALGOTRADING_DISABLED @
     reason_if (\<not> fg_position_book_complete c) POSITION_BOOK_INCOMPLETE @
     reason_if (fg_reconciliation_status c = RS_UNKNOWN) RECONCILIATION_UNKNOWN @
     reason_if (is_halted (fg_kill_switch c) \<and>
                list_ex (\<lambda>r. r \<notin> TOLERATED_HALT_REASONS) (active_reasons (fg_kill_switch c))) SYSTEM_HALTED @
     reason_if (\<not> fg_flatten_required c) FLATTEN_NOT_REQUIRED @
     reason_if (fg_approved_risk_config_version c \<noteq> Some (fg_risk_config_version c)) RISK_POLICY_NOT_APPROVED @
     reason_if (\<not> fg_flatten_submission_enabled c) FLATTEN_SUBMISSION_NOT_ENABLED @
     reason_if (\<not> fg_feedback_2_0_approved c) FEEDBACK_2_0_NOT_APPROVED"

definition evaluate_flatten_gate :: "flatten_context \<Rightarrow> py_exn + gate_decision" where
  "evaluate_flatten_gate c = decide_gate (flatten_legs c)"

interpretation flatten: gate flatten_legs evaluate_flatten_gate
  by unfold_locales (simp add: evaluate_flatten_gate_def)


subsection \<open>What an open gate means\<close>

text \<open>
  C12. The submission gate opens exactly when all ten conditions hold together, and
  otherwise it always answers, closed, with at least one reason: a demo-only environment, a
  connected demo account that is the approved one, reconciliation matched, a fresh tick of
  good quality, a running kill switch, the approved risk policy, submission enabled, the
  terminal trading, and the feedback approval.
\<close>

theorem submission_gate_open_iff:
  "\<exists>g. evaluate_submission_gate sl c = Inr g \<and> (gd_open g \<longleftrightarrow> gd_reason_codes g = []) \<and>
     (gd_open g \<longleftrightarrow>
        sg_environment c \<in> {PAPER, SHADOW} \<and> as_is_demo (sg_account c) \<and> as_connected (sg_account c) \<and>
        login_hash sl (sg_account c) = Inr (the (sg_approved_account_ref c)) \<and> sg_approved_account_ref c \<noteq> None \<and>
        sg_reconciliation_status c = MATCHED \<and>
        (\<exists>tick. sg_fresh_tick c = Some tick \<and> mt_data_quality tick = GOOD \<and>
           total_ms (sg_now c - mt_event_time tick) \<le> of_int (sg_max_market_data_age_ms c)) \<and>
        \<not> is_halted (sg_kill_switch c) \<and>
        sg_approved_risk_config_version c = Some (sg_risk_config_version c) \<and>
        sg_submission_enabled c \<and> sg_terminal_trade_allowed c \<and> sg_feedback_2_0_approved c)"
    (is "\<exists>g. _ \<and> _ \<and> (_ \<longleftrightarrow> ?OPEN)")
proof -
  obtain h where h: "login_hash sl (sg_account c) = Inr h" using login_hash_total by blast
  have ticks: "tick_legs c = [] \<longleftrightarrow> (\<exists>tick. sg_fresh_tick c = Some tick \<and> mt_data_quality tick = GOOD \<and>
      total_ms (sg_now c - mt_event_time tick) \<le> of_int (sg_max_market_data_age_ms c))"
    by (auto simp: tick_legs_def not_less split: option.splits)
  have rec: "(case sg_reconciliation_status c of MISMATCHED \<Rightarrow> [RECONCILIATION_MISMATCH]
      | RS_UNKNOWN \<Rightarrow> [RECONCILIATION_UNKNOWN] | MATCHED \<Rightarrow> []) = [] \<longleftrightarrow> sg_reconciliation_status c = MATCHED"
    by (simp split: reconciliation_status.split)
  have legs: "submission_legs sl c = [] \<longleftrightarrow>
        sg_environment c \<in> {PAPER, SHADOW} \<and> as_is_demo (sg_account c) \<and> as_connected (sg_account c) \<and>
        sg_approved_account_ref c = Some h \<and> sg_reconciliation_status c = MATCHED \<and> tick_legs c = [] \<and>
        \<not> is_halted (sg_kill_switch c) \<and> sg_approved_risk_config_version c = Some (sg_risk_config_version c) \<and>
        sg_submission_enabled c \<and> sg_terminal_trade_allowed c \<and> sg_feedback_2_0_approved c"
    unfolding submission_legs_def append_is_Nil_conv rec
    by (simp add: DEMO_ONLY_ENVIRONMENTS_def account_ref_def h) blast
  have ref: "sg_approved_account_ref c = Some h \<longleftrightarrow>
      login_hash sl (sg_account c) = Inr (the (sg_approved_account_ref c)) \<and> sg_approved_account_ref c \<noteq> None"
    using h by auto
  have main: "submission_legs sl c = [] \<longleftrightarrow> ?OPEN"
    unfolding legs ticks ref by (rule iffI; elim conjE; intro conjI; assumption)
  show ?thesis
  proof (rule exI, intro conjI)
    show "evaluate_submission_gate sl c =
        Inr \<lparr>gd_open = (submission_legs sl c = []), gd_reason_codes = submission_legs sl c\<rparr>"
      by (rule submission.eval_result)
  qed (simp, simp only: gate_decision.select_convs main)
qed

text \<open>
  No live trading, structurally: in a live environment the preflight gate, the
  submission gate and the flatten gate all answer closed and say so, whatever every other
  signal is; and a live account closes the submission and flatten gates in any environment.
\<close>

theorem live_closes_every_gate:
  assumes "pg_environment p = LIVE" and "sg_environment s = LIVE \<or> \<not> as_is_demo (sg_account s)"
    and "fg_environment f = LIVE \<or> \<not> as_is_demo (fg_account f)"
  shows "(\<exists>g. evaluate_preflight_gate p = Inr g \<and> \<not> gd_open g \<and>
            LIVE_EXECUTION_NOT_PERMITTED \<in> set (gd_reason_codes g)) \<and>
         (\<exists>g. evaluate_submission_gate sl s = Inr g \<and> \<not> gd_open g \<and>
            set (gd_reason_codes g) \<inter> {LIVE_EXECUTION_NOT_PERMITTED, LIVE_ACCOUNT_IN_PAPER_MODE} \<noteq> {}) \<and>
         (\<exists>g. evaluate_flatten_gate f = Inr g \<and> \<not> gd_open g \<and>
            set (gd_reason_codes g) \<inter> {LIVE_EXECUTION_NOT_PERMITTED, LIVE_ACCOUNT_IN_PAPER_MODE} \<noteq> {})"
proof -
  have "LIVE_EXECUTION_NOT_PERMITTED \<in> set (preflight_legs p)" using assms(1) by (simp add: preflight_legs_def)
  moreover have "sg_environment s = LIVE \<Longrightarrow> LIVE_EXECUTION_NOT_PERMITTED \<in> set (submission_legs sl s)"
    "\<not> as_is_demo (sg_account s) \<Longrightarrow> LIVE_ACCOUNT_IN_PAPER_MODE \<in> set (submission_legs sl s)"
    "fg_environment f = LIVE \<Longrightarrow> LIVE_EXECUTION_NOT_PERMITTED \<in> set (flatten_legs f)"
    "\<not> as_is_demo (fg_account f) \<Longrightarrow> LIVE_ACCOUNT_IN_PAPER_MODE \<in> set (flatten_legs f)"
    by (simp_all add: submission_legs_def flatten_legs_def DEMO_ONLY_ENVIRONMENTS_def)
  ultimately show ?thesis
    using assms(2,3) preflight.closed_by submission.closed_by [of _ sl s] flatten.closed_by [of _ f] by blast
qed

lemma live_closes_every_gate_witness:
  "\<exists>g. evaluate_preflight_gate \<lparr>pg_environment = LIVE, pg_canonical_symbol = ''EUR/USD'',
         pg_allowed_symbols = {''EUR/USD''}, pg_kill_switch = new_kill_switch\<rparr> = Inr g \<and> \<not> gd_open g"
proof -
  let ?s = "\<lparr>sg_environment = LIVE, sg_account = demo_account, sg_reconciliation_status = MATCHED,
    sg_fresh_tick = None, sg_max_market_data_age_ms = 1, sg_kill_switch = new_kill_switch,
    sg_risk_config_version = ''v1'', sg_approved_risk_config_version = None, sg_submission_enabled = True,
    sg_terminal_trade_allowed = True, sg_feedback_2_0_approved = True, sg_approved_account_ref = None, sg_now = 0\<rparr>"
  let ?f = "\<lparr>fg_environment = LIVE, fg_account = demo_account, fg_terminal_trade_allowed = True,
    fg_position_book_complete = True, fg_reconciliation_status = MATCHED, fg_kill_switch = new_kill_switch,
    fg_flatten_required = True, fg_risk_config_version = ''v1'', fg_approved_risk_config_version = Some ''v1'',
    fg_flatten_submission_enabled = True, fg_feedback_2_0_approved = True, fg_now = 0\<rparr>"
  have "sg_environment ?s = LIVE \<or> \<not> as_is_demo (sg_account ?s)"
    "fg_environment ?f = LIVE \<or> \<not> as_is_demo (fg_account ?f)" by simp_all
  from live_closes_every_gate [OF _ this, of "\<lparr>pg_environment = LIVE, pg_canonical_symbol = ''EUR/USD'',
         pg_allowed_symbols = {''EUR/USD''}, pg_kill_switch = new_kill_switch\<rparr>" sample_stdlib]
  show ?thesis by auto
qed

lemma trip_active:
  "trip ops reasons who t d st = (Inr r, st') \<Longrightarrow>
     is_halted (fst st') \<and> active_reasons (fst st') = reasons \<and> reasons \<noteq> []"
  by (auto simp: trip_def Let_def active_reasons_def is_halted_def split: prod.splits if_splits sum.splits)

text \<open>
  When an automatic flatten may be committed while the system is halted: for a context
  whose ten other conditions hold, the gate is open exactly when the switch runs or every
  reason of the active halt is one whose safe resolution is being flat; a mismatched
  reconciliation does not close it, an unknown one always does.
\<close>

theorem flatten_gate_open_iff:
  "\<exists>g. evaluate_flatten_gate c = Inr g \<and>
     (gd_open g \<longleftrightarrow>
        fg_environment c \<in> {PAPER, SHADOW} \<and> as_is_demo (fg_account c) \<and> as_connected (fg_account c) \<and>
        fg_terminal_trade_allowed c \<and> fg_position_book_complete c \<and>
        fg_reconciliation_status c \<noteq> RS_UNKNOWN \<and>
        (is_halted (fg_kill_switch c) \<longrightarrow> set (active_reasons (fg_kill_switch c)) \<subseteq> TOLERATED_HALT_REASONS) \<and>
        fg_flatten_required c \<and> fg_approved_risk_config_version c = Some (fg_risk_config_version c) \<and>
        fg_flatten_submission_enabled c \<and> fg_feedback_2_0_approved c)" (is "\<exists>g. _ \<and> (_ \<longleftrightarrow> ?OPEN)")
proof -
  have tol: "list_ex (\<lambda>r. r \<notin> TOLERATED_HALT_REASONS) xs \<longleftrightarrow> \<not> set xs \<subseteq> TOLERATED_HALT_REASONS" for xs
    by (auto simp: list_ex_iff)
  have main: "flatten_legs c = [] \<longleftrightarrow> ?OPEN"
    unfolding flatten_legs_def append_is_Nil_conv reason_if_eq_Nil tol
    by (simp add: DEMO_ONLY_ENVIRONMENTS_def)
  show ?thesis
  proof (rule exI, intro conjI)
    show "evaluate_flatten_gate c = Inr \<lparr>gd_open = (flatten_legs c = []), gd_reason_codes = flatten_legs c\<rparr>"
      by (rule flatten.eval_result)
  qed (simp only: gate_decision.select_convs main)
qed

lemma flatten_gate_open_iff_witness:
  "\<exists>g. evaluate_flatten_gate \<lparr>fg_environment = PAPER, fg_account = demo_account, fg_terminal_trade_allowed = True,
    fg_position_book_complete = True, fg_reconciliation_status = MISMATCHED, fg_kill_switch = new_kill_switch,
    fg_flatten_required = True, fg_risk_config_version = ''v1'', fg_approved_risk_config_version = Some ''v1'',
    fg_flatten_submission_enabled = True, fg_feedback_2_0_approved = True, fg_now = 0\<rparr> = Inr g \<and> gd_open g"
  using flatten_gate_open_iff [of "\<lparr>fg_environment = PAPER, fg_account = demo_account, fg_terminal_trade_allowed = True,
    fg_position_book_complete = True, fg_reconciliation_status = MISMATCHED, fg_kill_switch = new_kill_switch,
    fg_flatten_required = True, fg_risk_config_version = ''v1'', fg_approved_risk_config_version = Some ''v1'',
    fg_flatten_submission_enabled = True, fg_feedback_2_0_approved = True, fg_now = 0\<rparr>"]
  by (simp add: demo_account_def is_halted_def new_kill_switch_def)

text \<open>
  A tolerated halt masks an untolerated one: the gate reads only the latest halt record,
  so a drawdown halt closes it, and the same switch, tripped again for overnight exposure
  with the drawdown halt still in force, opens it like a switch that was never halted.
\<close>

theorem later_halt_masks_earlier:
  assumes "trip ops [MAX_DRAWDOWN] w t d (sw, store) = (Inr r, st1)"
    and "trip ops [OVERNIGHT_EXPOSURE] w' t' d' st1 = (Inr r', st2)"
  shows "(\<exists>g. evaluate_flatten_gate (c\<lparr>fg_kill_switch := fst st1\<rparr>) = Inr g \<and> \<not> gd_open g \<and>
            SYSTEM_HALTED \<in> set (gd_reason_codes g)) \<and>
         is_halted (fst st2) \<and> MAX_DRAWDOWN \<in> (\<Union>h \<in> set (ks_history (fst st2)). set (hr_reason_codes h)) \<and>
         evaluate_flatten_gate (c\<lparr>fg_kill_switch := fst st2\<rparr>) =
         evaluate_flatten_gate (c\<lparr>fg_kill_switch := new_kill_switch\<rparr>)"
proof -
  note a1 = trip_active [OF assms(1)] and a2 = trip_active [OF assms(2)]
  have "SYSTEM_HALTED \<in> set (flatten_legs (c\<lparr>fg_kill_switch := fst st1\<rparr>))"
    using a1 by (simp add: flatten_legs_def TOLERATED_HALT_REASONS_def)
  moreover have "flatten_legs (c\<lparr>fg_kill_switch := fst st2\<rparr>) = flatten_legs (c\<lparr>fg_kill_switch := new_kill_switch\<rparr>)"
    using a2 by (simp add: flatten_legs_def TOLERATED_HALT_REASONS_def is_halted_def new_kill_switch_def)
  moreover have "MAX_DRAWDOWN \<in> (\<Union>h \<in> set (ks_history (fst st2)). set (hr_reason_codes h))"
    using assms by (auto simp: trip_def Let_def split: prod.splits if_splits sum.splits)
  ultimately show ?thesis
    using a2 flatten.closed_by by (simp add: flatten.eval_result)
qed

lemma later_halt_masks_earlier_witness:
  "\<exists>st1 st2. snd (trip InMemorySafetyStateStore [MAX_DRAWDOWN] ''risk'' 0 JNull (new_kill_switch, None)) = st1 \<and>
     snd (trip InMemorySafetyStateStore [OVERNIGHT_EXPOSURE] ''risk'' 1 JNull st1) = st2 \<and> is_halted (fst st2)"
proof -
  obtain r st1 where 1: "trip InMemorySafetyStateStore [MAX_DRAWDOWN] ''risk'' 0 JNull (new_kill_switch, None) = (Inr r, st1)"
    by (simp add: trip_def InMemorySafetyStateStore_def Let_def)
  obtain r' st2 where 2: "trip InMemorySafetyStateStore [OVERNIGHT_EXPOSURE] ''risk'' 1 JNull st1 = (Inr r', st2)"
    by (cases st1) (simp add: trip_def InMemorySafetyStateStore_def Let_def)
  show ?thesis using later_halt_masks_earlier [OF 1 2] 1 2 by auto
qed

end
