(* ===== verification/Supervisor.thy ===== *)
theory Supervisor
  imports RiskPolicy
begin

text \<open>
  The supervisor's deterministic policy layer (\<^verbatim>\<open>evaluator/pretrade.py\<close>). Of the
  feature evidence it reads only the regime, which is an argument here; a binary-float
  confidence bound is its exact value.
\<close>

definition POLICY_VERSION :: string where "POLICY_VERSION = ''supervisor-policy-v2''"
definition SIGNAL_FREQUENCY_CHECK :: string where "SIGNAL_FREQUENCY_CHECK = ''signal_frequency''"
definition CONFIDENCE_BAND_CHECK :: string where "CONFIDENCE_BAND_CHECK = ''confidence_band''"

definition KNOWN_REGIMES :: "regime set" where
  "KNOWN_REGIMES = {TREND, RANGE, HIGH_VOLATILITY, LOW_VOLATILITY}"

record supervisor_policy =
  sp_enabled :: bool
  sp_veto_on_unknown_regime :: bool
  sp_allowed_strategy_ids :: "string set"
  sp_allowed_model_versions :: "string set option"
  sp_min_confidence :: rat
  sp_max_confidence :: rat
  sp_max_intents_per_hour :: "int option"

record supervisor_context =
  sx_intents_in_last_hour :: int
  sx_incident_status :: incident_status
  sx_reconciliation_status :: reconciliation_status

definition default_supervisor_context :: supervisor_context where
  "default_supervisor_context =
     \<lparr>sx_intents_in_last_hour = 0, sx_incident_status = IS_UNKNOWN, sx_reconciliation_status = RS_UNKNOWN\<rparr>"

definition uncalibrated_checks :: "supervisor_policy \<Rightarrow> string list" where
  "uncalibrated_checks p =
     reason_if (sp_min_confidence p \<le> 0 \<and> 1 \<le> sp_max_confidence p) CONFIDENCE_BAND_CHECK @
     reason_if (sp_max_intents_per_hour p = None) SIGNAL_FREQUENCY_CHECK"

fun supervisor_verdict_value :: "supervisor_verdict \<Rightarrow> string" where
  "supervisor_verdict_value APPROVE = ''APPROVE''"
| "supervisor_verdict_value VETO = ''VETO''"
| "supervisor_verdict_value SV_HALT = ''HALT''"

definition supervisor_decision_id :: "stdlib \<Rightarrow> trade_intent \<Rightarrow> string \<Rightarrow> uuid" where
  "supervisor_decision_id sl intent discriminator =
     uuid5_url sl (''crumblr:supervisor:'' @ decision_hash sl intent @ '':'' @ discriminator)"

definition supervisor_decide ::
  "stdlib \<Rightarrow> trade_intent \<Rightarrow> supervisor_verdict \<Rightarrow> reason_code list \<Rightarrow> utc \<Rightarrow> regime \<Rightarrow> string list \<Rightarrow>
     py_exn + supervisor_decision" where
  "supervisor_decide sl intent verdict reasons now rg uncalibrated =
     contract supervisor_decision_valid
       \<lparr>sd_decision_id = supervisor_decision_id sl intent (supervisor_verdict_value verdict),
        sd_intent_id = ti_intent_id intent, sd_verdict = verdict, sd_reason_codes = reasons,
        sd_decided_at = now, sd_policy_version = POLICY_VERSION, sd_statistical_monitor_version = None,
        sd_observed_regime = rg, sd_notes = None, sd_uncalibrated_checks = uncalibrated\<rparr>"

definition supervisor_reasons ::
  "trade_intent \<Rightarrow> regime \<Rightarrow> supervisor_policy \<Rightarrow> supervisor_context \<Rightarrow> reason_code list" where
  "supervisor_reasons intent rg p ctx =
     reason_if (ti_strategy_id intent \<notin> sp_allowed_strategy_ids p) STRATEGY_NOT_ENABLED @
     (case sp_allowed_model_versions p of
        None \<Rightarrow> reason_if (ti_model_version intent \<noteq> None) MODEL_VERSION_NOT_ALLOWED
      | Some allowed \<Rightarrow> reason_if (ti_model_version intent \<notin> Some ` allowed) MODEL_VERSION_NOT_ALLOWED) @
     reason_if (rg \<notin> KNOWN_REGIMES \<and> sp_veto_on_unknown_regime p) UNKNOWN_REGIME @
     reason_if (CONFIDENCE_BAND_CHECK \<notin> set (uncalibrated_checks p) \<and>
                \<not> (sp_min_confidence p \<le> ti_confidence intent \<and> ti_confidence intent \<le> sp_max_confidence p))
       CONFIDENCE_OUT_OF_RANGE @
     reason_if (case sp_max_intents_per_hour p of
                  None \<Rightarrow> False | Some n \<Rightarrow> n < sx_intents_in_last_hour ctx) SIGNAL_FREQUENCY_ANOMALY @
     (case sx_incident_status ctx of
        ACTIVE \<Rightarrow> [ACTIVE_INCIDENT]
      | IS_UNKNOWN \<Rightarrow> [INCIDENT_STATE_UNKNOWN]
      | CLEAR \<Rightarrow> [])"

definition supervise ::
  "stdlib \<Rightarrow> trade_intent \<Rightarrow> regime \<Rightarrow> supervisor_policy \<Rightarrow> supervisor_context \<Rightarrow> utc \<Rightarrow>
     py_exn + supervisor_decision" where
  "supervise sl intent rg p ctx now =
     (case sx_reconciliation_status ctx of
        MISMATCHED \<Rightarrow> supervisor_decide sl intent SV_HALT [RECONCILIATION_MISMATCH] now rg []
      | RS_UNKNOWN \<Rightarrow> supervisor_decide sl intent SV_HALT [RECONCILIATION_UNKNOWN] now rg []
      | MATCHED \<Rightarrow>
          if \<not> sp_enabled p then supervisor_decide sl intent APPROVE [] now rg []
          else
            let absent = uncalibrated_checks p;
                reasons = supervisor_reasons intent rg p ctx
            in if reasons \<noteq> [] then supervisor_decide sl intent VETO (dedup reasons) now rg absent
               else supervisor_decide sl intent APPROVE [] now rg absent)"

lemma supervisor_decide_Inr:
  assumes "v = APPROVE \<or> rs \<noteq> []" "set un \<subseteq> {CONFIDENCE_BAND_CHECK, SIGNAL_FREQUENCY_CHECK}"
  shows "\<exists>d. supervisor_decide sl intent v rs now rg un = Inr d \<and> sd_verdict d = v \<and> sd_reason_codes d = rs \<and>
           sd_uncalibrated_checks d = un \<and> sd_observed_regime d = rg"
proof -
  have "list_all version_tag_ok un" "version_tag_ok POLICY_VERSION"
    using assms(2) by (auto simp: list_all_iff CONFIDENCE_BAND_CHECK_def SIGNAL_FREQUENCY_CHECK_def text_ok_def
        POLICY_VERSION_def)
  with assms(1) show ?thesis
    by (simp add: supervisor_decide_def contract_def supervisor_decision_valid_def)
qed

lemma uncalibrated_names: "set (uncalibrated_checks p) \<subseteq> {CONFIDENCE_BAND_CHECK, SIGNAL_FREQUENCY_CHECK}"
  by (auto simp: uncalibrated_checks_def reason_if_def)

lemma band_calibrated:
  "CONFIDENCE_BAND_CHECK \<in> set (uncalibrated_checks p) \<longleftrightarrow> sp_min_confidence p \<le> 0 \<and> 1 \<le> sp_max_confidence p"
  by (auto simp: uncalibrated_checks_def CONFIDENCE_BAND_CHECK_def SIGNAL_FREQUENCY_CHECK_def reason_if_def)

text \<open>
  C29. The supervisor always answers, and its answer is exactly determined: HALT whenever
  reconciliation is not matched, even when it is switched off; otherwise APPROVE exactly
  when it is switched off or the strategy and model are allowed, the regime is known or not
  required to be, the confidence is in the band, the rate is within the threshold where one
  is set and the incident register reads clear; otherwise VETO with reasons. Checks that
  cannot fail are named on the decision rather than counted as passed.
\<close>

theorem supervisor_verdict_iff:
  assumes "trade_intent_valid intent"
  shows "\<exists>d. supervise sl intent rg p ctx now = Inr d \<and>
    (sd_verdict d = SV_HALT \<longleftrightarrow> sx_reconciliation_status ctx \<noteq> MATCHED) \<and>
    (sd_verdict d = APPROVE \<longleftrightarrow> sx_reconciliation_status ctx = MATCHED \<and>
       (sp_enabled p \<longrightarrow>
          ti_strategy_id intent \<in> sp_allowed_strategy_ids p \<and>
          (case sp_allowed_model_versions p of None \<Rightarrow> ti_model_version intent = None
             | Some vs \<Rightarrow> (\<exists>v \<in> vs. ti_model_version intent = Some v)) \<and>
          (rg \<in> KNOWN_REGIMES \<or> \<not> sp_veto_on_unknown_regime p) \<and>
          sp_min_confidence p \<le> ti_confidence intent \<and> ti_confidence intent \<le> sp_max_confidence p \<and>
          (\<forall>n. sp_max_intents_per_hour p = Some n \<longrightarrow> sx_intents_in_last_hour ctx \<le> n) \<and>
          sx_incident_status ctx = CLEAR)) \<and>
    (sd_verdict d = APPROVE \<longleftrightarrow> sd_reason_codes d = []) \<and>
    (sp_enabled p \<and> sp_max_intents_per_hour p = None \<and> sx_reconciliation_status ctx = MATCHED \<longrightarrow>
       SIGNAL_FREQUENCY_CHECK \<in> set (sd_uncalibrated_checks d))"
    (is "\<exists>d. _ \<and> _ \<and> (_ \<longleftrightarrow> _ \<and> (_ \<longrightarrow> ?OK)) \<and> _ \<and> _")
proof -
  have conf: "0 \<le> ti_confidence intent" "ti_confidence intent \<le> 1"
    using assms by (simp_all add: trade_intent_valid_def)
  have ok: "supervisor_reasons intent rg p ctx = [] \<longleftrightarrow> ?OK"
    using conf
    by (auto simp: supervisor_reasons_def band_calibrated not_less split: option.splits incident_status.splits)
  have freq: "sp_max_intents_per_hour p = None \<Longrightarrow> SIGNAL_FREQUENCY_CHECK \<in> set (uncalibrated_checks p)"
    by (simp add: uncalibrated_checks_def)
  note halt = supervisor_decide_Inr [of SV_HALT _ "[]" sl intent now rg]
  show ?thesis
  proof (cases "sx_reconciliation_status ctx")
    case MISMATCHED
    with halt [of "[RECONCILIATION_MISMATCH]"] show ?thesis by (auto simp: supervise_def)
  next
    case RS_UNKNOWN
    with halt [of "[RECONCILIATION_UNKNOWN]"] show ?thesis by (auto simp: supervise_def)
  next
    case matched: MATCHED
    show ?thesis
    proof (cases "sp_enabled p")
      case False
      with matched supervisor_decide_Inr [of APPROVE "[]" "[]" sl intent now rg]
      show ?thesis by (auto simp: supervise_def)
    next
      case enabled: True
      show ?thesis
      proof (cases "supervisor_reasons intent rg p ctx = []")
        case True
        from supervisor_decide_Inr [of APPROVE "[]" "uncalibrated_checks p" sl intent now rg]
        obtain d where "supervise sl intent rg p ctx now = Inr d" "sd_verdict d = APPROVE" "sd_reason_codes d = []"
            "sd_uncalibrated_checks d = uncalibrated_checks p"
          using matched enabled True uncalibrated_names by (auto simp: supervise_def Let_def)
        moreover from True ok have ?OK by blast
        ultimately show ?thesis using matched freq by (intro exI [of _ d]) simp
      next
        case False
        from supervisor_decide_Inr [of VETO "dedup (supervisor_reasons intent rg p ctx)" "uncalibrated_checks p" sl intent now rg]
        obtain d where d: "supervise sl intent rg p ctx now = Inr d" "sd_verdict d = VETO" "sd_reason_codes d \<noteq> []"
            "sd_uncalibrated_checks d = uncalibrated_checks p"
          using matched enabled False uncalibrated_names by (auto simp: supervise_def Let_def)
        moreover from False ok have "\<not> ?OK" by blast
        ultimately show ?thesis using matched enabled freq
          by (intro exI [of _ d] conjI) (simp_all only: simp_thms supervisor_verdict.simps, simp_all)
      qed
    qed
  qed
qed

definition paper_policy :: supervisor_policy where
  "paper_policy =
     \<lparr>sp_enabled = True, sp_veto_on_unknown_regime = True, sp_allowed_strategy_ids = {''baseline''},
      sp_allowed_model_versions = None, sp_min_confidence = 0, sp_max_confidence = 1,
      sp_max_intents_per_hour = None\<rparr>"

lemma supervisor_verdict_iff_witness:
  "\<exists>d. supervise sample_stdlib buy_intent TREND paper_policy default_supervisor_context 0 = Inr d \<and>
       sd_verdict d = SV_HALT"
  using supervisor_verdict_iff [OF buy_intent_valid, of sample_stdlib TREND paper_policy default_supervisor_context 0]
  by (auto simp: default_supervisor_context_def)

end
