(* ===== verification/World.thy ===== *)
theory World
  imports Effects Reconciliation Gates Supervisor Agent
begin

text \<open>
  The world the execution tier runs in (\<^verbatim>\<open>application/execution.py\<close>): its database
  tables, the kill switch with its store, and a ghost record of every order handed to the
  broker and of every close. What comes from outside (clock, terminal, broker, other
  processes, faults) is a record of functions of the number of interactions made so far, so
  every statement over all of them covers every behaviour of the outside. An interaction may
  fail before it happens, a transaction also after it has committed; \<open>Crashed\<close> is the death
  of the process. A transaction whose body raises is rolled back.
\<close>

subsection \<open>State and surroundings\<close>

record 's world =
  w_capsules :: "decision_capsule list"
  w_requests :: "execution_request list"
  w_events :: "execution_event_record list"
  w_flatten_requests :: "flatten_request list"
  w_flatten_events :: "flatten_event_record list"
  w_permits :: "canary_permit list"
  w_consumptions :: "canary_permit_consumption list"
  w_broker :: broker_tables
  w_switch :: kill_switch
  w_store :: 's
  w_calls :: nat
  w_sent :: "(uuid \<times> approved_order) list"
  w_closes :: "flatten_instruction list"

record order_check =
  ok_order_request_id :: uuid
  ok_intent_id :: uuid
  ok_accepted :: bool
  ok_retcode :: "int option"
  ok_comment :: "string option"
  ok_margin_required :: "decimal option"
  ok_payload :: "payload option"

record outside =
  out_fault :: "nat \<Rightarrow> py_exn option"
  out_commit_lost :: "nat \<Rightarrow> py_exn option"
  out_now :: "nat \<Rightarrow> utc"
  out_uuid :: "nat \<Rightarrow> uuid"
  out_account :: "nat \<Rightarrow> py_exn + account_state \<times> account_extras"
  out_terminal_trade_allowed :: "nat \<Rightarrow> py_exn + bool option"
  out_positions :: "nat \<Rightarrow> py_exn + position_state list"
  out_pending_orders :: "nat \<Rightarrow> py_exn + pending_order_state list"
  out_ticks :: "nat \<Rightarrow> py_exn + market_tick list"
  out_spec :: "nat \<Rightarrow> py_exn + instrument_spec option"
  out_session :: "nat \<Rightarrow> py_exn + session_record"
  out_order_check :: "nat \<Rightarrow> approved_order \<Rightarrow> py_exn + order_check"
  out_order_send :: "nat \<Rightarrow> approved_order \<Rightarrow> py_exn + execution_result"
  out_close_position :: "nat \<Rightarrow> flatten_instruction \<Rightarrow> py_exn + execution_result"

definition ask :: "outside \<Rightarrow> (nat \<Rightarrow> py_exn + 'a) \<Rightarrow> ('s world, 'a) prog" where
  "ask out answer w =
     (let n = w_calls w; w' = w\<lparr>w_calls := n + 1\<rparr>
      in case out_fault out n of Some e \<Rightarrow> (Inl e, w') | None \<Rightarrow> (answer n, w'))"

definition clock :: "outside \<Rightarrow> ('s world, utc) prog" where
  "clock out = ask out (\<lambda>n. Inr (out_now out n))"

definition transaction :: "outside \<Rightarrow> ('s world, 'a) prog \<Rightarrow> ('s world, 'a) prog" where
  "transaction out body w =
     (let n = w_calls w; w' = w\<lparr>w_calls := n + 1\<rparr>
      in case out_fault out n of
           Some e \<Rightarrow> (Inl e, w')
         | None \<Rightarrow>
             (case body w' of
                (Inl e, _) \<Rightarrow> (Inl e, w')
              | (Inr x, w'') \<Rightarrow>
                  (case out_commit_lost out n of Some e \<Rightarrow> (Inl e, w'') | None \<Rightarrow> (Inr x, w''))))"


subsection \<open>The worker\<close>

record canary_config =
  ca_permit_id :: uuid
  ca_capsule_id :: uuid
  ca_agent_id :: "uuid option"
  ca_assignment_id :: "uuid option"
  ca_strategy_artifact_hash :: "string option"

record 's orchestrator =
  oc_stdlib :: stdlib
  oc_store :: "'s store_ops"
  oc_zone :: zone_data
  oc_config :: platform_config
  oc_symbol :: string
  oc_watermark :: "utc option"
  oc_worker :: string
  oc_strategy_version :: string
  oc_risk :: risk_config
  oc_execution :: execution_config
  oc_calendar :: calendar
  oc_close_adapter :: bool
  oc_canary :: "canary_config option"

definition new_orchestrator ::
  "stdlib \<Rightarrow> 's store_ops \<Rightarrow> zone_data \<Rightarrow> platform_config \<Rightarrow> string \<Rightarrow> utc option \<Rightarrow> string \<Rightarrow> bool \<Rightarrow>
     bool \<Rightarrow> bool \<Rightarrow> canary_config option \<Rightarrow> string option \<Rightarrow> py_exn + 's orchestrator" where
  \<comment> \<open>whether a close adapter, an entry adapter and a permit store were injected\<close>
  "new_orchestrator sl store zone config symbol watermark worker close_adapter entry_adapter permit_store
       canary strategy_version =
     (if (entry_adapter \<or> permit_store \<or> canary \<noteq> None) \<and>
         \<not> (entry_adapter \<and> permit_store \<and> canary \<noteq> None)
      then Inl ValueError
      else bindE (risk_for config symbol) (\<lambda>risk.
        bindE (execution_for config symbol) (\<lambda>execution.
        Inr \<lparr>oc_stdlib = sl, oc_store = store, oc_zone = zone, oc_config = config, oc_symbol = symbol,
             oc_watermark = watermark, oc_worker = worker,
             oc_strategy_version =
               (case strategy_version of
                  Some v \<Rightarrow> if v \<noteq> [] then v else ta_strategy_version (pc_trading_agent config)
                | None \<Rightarrow> ta_strategy_version (pc_trading_agent config)),
             oc_risk = risk, oc_execution = execution,
             oc_calendar =
               (case market_for config symbol of
                  Some m \<Rightarrow> calendar_for zone (mc_asset_class m) (mc_session_policy_approved m)
                | None \<Rightarrow> FxWeekdayCalendar zone),
             oc_close_adapter = close_adapter, oc_canary = canary\<rparr>)))"


subsection \<open>Database steps\<close>

definition put_event :: "stdlib \<Rightarrow> execution_event_record \<Rightarrow> ('s world, bool) prog" where
  "put_event sl row w =
     (case append_event sl row (w_events w) of
        Inl e \<Rightarrow> (Inl e, w)
      | Inr (won, rows) \<Rightarrow> (Inr won, w\<lparr>w_events := rows\<rparr>))"

definition put_flatten_event :: "stdlib \<Rightarrow> flatten_event_record \<Rightarrow> ('s world, bool) prog" where
  "put_flatten_event sl row w =
     (case append_event sl row (w_flatten_events w) of
        Inl e \<Rightarrow> (Inl e, w)
      | Inr (won, rows) \<Rightarrow> (Inr won, w\<lparr>w_flatten_events := rows\<rparr>))"

definition put_request :: "execution_request \<Rightarrow> ('s world, bool) prog" where
  "put_request row w =
     (case claim_request row (w_requests w) of
        Inl e \<Rightarrow> (Inl e, w)
      | Inr (won, rows) \<Rightarrow> (Inr won, w\<lparr>w_requests := rows\<rparr>))"

definition put_flatten_request :: "flatten_request \<Rightarrow> ('s world, bool) prog" where
  "put_flatten_request row w =
     (case claim_flatten row (w_flatten_requests w) of
        Inl e \<Rightarrow> (Inl e, w)
      | Inr (won, rows) \<Rightarrow> (Inr won, w\<lparr>w_flatten_requests := rows\<rparr>))"

definition consume :: "uuid \<Rightarrow> uuid \<Rightarrow> utc \<Rightarrow> ('s world, consume_result) prog" where
  "consume pid rid now w =
     (case consume_permit (w_permits w) pid rid now (w_consumptions w) of
        Inl e \<Rightarrow> (Inl e, w)
      | Inr (res, rows) \<Rightarrow> (Inr res, w\<lparr>w_consumptions := rows\<rparr>))"

definition log_event ::
  "'s orchestrator \<Rightarrow> outside \<Rightarrow> uuid \<Rightarrow> execution_event_type \<Rightarrow> utc \<Rightarrow> reason_code list \<Rightarrow> string option \<Rightarrow>
     payload option \<Rightarrow> ('s world, bool) prog" where
  "log_event oc out rid t now reasons detail payload =
     transaction out (put_event (oc_stdlib oc) (execution_event (oc_stdlib oc) rid t now reasons detail payload))"

definition log_flatten ::
  "'s orchestrator \<Rightarrow> outside \<Rightarrow> uuid \<Rightarrow> flatten_event_type \<Rightarrow> utc \<Rightarrow> reason_code list \<Rightarrow>
     payload option \<Rightarrow> ('s world, bool) prog" where
  "log_flatten oc out rid t now reasons payload =
     transaction out
       (put_flatten_event (oc_stdlib oc) (flatten_event (oc_stdlib oc) rid t now reasons None payload))"


subsection \<open>Observing the broker\<close>

definition read_or_failed ::
  "('s world, 'a list) prog \<Rightarrow> ('s world, 'a list \<times> snapshot_completeness) prog" where
  "read_or_failed m =
     catchM (bindM m (\<lambda>xs. returnM (xs, COMPLETE)))
       (\<lambda>e. if e = Mt5CallFailed then Some (returnM ([], FAILED)) else None)"

definition capture_broker_state ::
  "'s orchestrator \<Rightarrow> outside \<Rightarrow> environment \<Rightarrow> ('s world, observation) prog" where
  "capture_broker_state oc out env =
     bindM (ask out (\<lambda>n. Inr (out_uuid out n))) (\<lambda>sid.
     bindM (clock out) (\<lambda>observed.
     bindM (ask out (out_account out)) (\<lambda>(acct, extras).
     bindM (ask out (out_terminal_trade_allowed out)) (\<lambda>terminal.
     bindM (read_or_failed (ask out (out_positions out))) (\<lambda>(positions, pos_state).
     bindM (read_or_failed (ask out (out_pending_orders out))) (\<lambda>(orders, ord_state).
     bindM (clock out) (\<lambda>recorded.
     bindM (liftM (account_snapshot (oc_stdlib oc) sid observed recorded env acct extras terminal
                     pos_state ord_state)) (\<lambda>snap.
     returnM \<lparr>ob_account = snap,
              ob_positions = map (position_snapshot sid observed (oc_symbol oc)) positions,
              ob_pending_orders = map (order_snapshot sid observed (oc_symbol oc)) orders,
              ob_account_state = acct, ob_position_states = positions\<rparr>))))))))"

definition observe :: "'s orchestrator \<Rightarrow> outside \<Rightarrow> environment \<Rightarrow> ('s world, observation) prog" where
  \<comment> \<open>every capture is recorded at once\<close>
  "observe oc out env =
     bindM (capture_broker_state oc out env) (\<lambda>ob.
     bindM (transaction out (modifyM (\<lambda>w. w\<lparr>w_broker := record_observation ob (w_broker w)\<rparr>))) (\<lambda>_.
     returnM ob))"


subsection \<open>Halting\<close>

definition trip_switch ::
  "'s orchestrator \<Rightarrow> reason_code list \<Rightarrow> string \<Rightarrow> utc \<Rightarrow> json \<Rightarrow> ('s world, unit) prog" where
  "trip_switch oc reasons who now detail w =
     (case trip (oc_store oc) reasons who now detail (w_switch w, w_store w) of
        (r, (switch, store)) \<Rightarrow> (mapE (\<lambda>_. ()) r, w\<lparr>w_switch := switch, w_store := store\<rparr>))"

definition trip_unless_halted ::
  "'s orchestrator \<Rightarrow> outside \<Rightarrow> reason_code list \<Rightarrow> string \<Rightarrow> utc \<Rightarrow> json \<Rightarrow> ('s world, unit) prog" where
  "trip_unless_halted oc out reasons who now detail =
     bindM (getM w_switch) (\<lambda>switch.
     whenM (\<not> is_halted switch)
       (bindM (ask out (\<lambda>n. Inr ())) (\<lambda>_. trip_switch oc reasons who now detail)))"


subsection \<open>Construction\<close>

text \<open>
  A constructed worker is well formed: from a validated configuration the constructor
  either raises or returns a worker whose effective risk and execution settings are valid,
  whose four submission approvals and policy approval are the platform's own, whose strategy
  version is never empty unless the configuration's is, and which can submit only if an
  entry adapter, a permit store and a permit were all injected.
\<close>

theorem orchestrator_well_formed:
  assumes "platform_config_valid config"
    and "new_orchestrator sl store zone config symbol watermark worker close_adapter entry_adapter permit_store
           canary strategy_version = Inr oc"
  shows "risk_config_valid (oc_risk oc) \<and> execution_config_valid (oc_execution oc) \<and>
    rc_approved_config_version (oc_risk oc) = rc_approved_config_version (pc_risk config) \<and>
    ec_submission_enabled (oc_execution oc) = ec_submission_enabled (pc_execution config) \<and>
    ec_flatten_submission_enabled (oc_execution oc) = ec_flatten_submission_enabled (pc_execution config) \<and>
    ec_approved_canary_account_ref (oc_execution oc) = ec_approved_canary_account_ref (pc_execution config) \<and>
    oc_config oc = config \<and> oc_symbol oc = symbol \<and> oc_strategy_version oc \<noteq> [] \<and>
    (oc_canary oc = None \<and> \<not> entry_adapter \<and> \<not> permit_store \<or>
     oc_canary oc = canary \<and> canary \<noteq> None \<and> entry_adapter \<and> permit_store)"
proof -
  from assms(2) obtain risk execution where
      r: "risk_for config symbol = Inr risk" and e: "execution_for config symbol = Inr execution" and
      oc: "oc_risk oc = risk" "oc_execution oc = execution" "oc_config oc = config" "oc_symbol oc = symbol"
        "oc_canary oc = canary"
        "oc_strategy_version oc = (case strategy_version of
           Some v \<Rightarrow> if v \<noteq> [] then v else ta_strategy_version (pc_trading_agent config)
         | None \<Rightarrow> ta_strategy_version (pc_trading_agent config))" and
      all_or_none: "\<not> ((entry_adapter \<or> permit_store \<or> canary \<noteq> None) \<and>
         \<not> (entry_adapter \<and> permit_store \<and> canary \<noteq> None))"
    by (auto simp: new_orchestrator_def bindE_eq_Inr split: if_splits)
  have base: "risk_config_valid (pc_risk config)" "execution_config_valid (pc_execution config)"
    "ta_strategy_version (pc_trading_agent config) \<noteq> []"
    using assms(1) by (auto simp: platform_config_valid_def text_ok_def)
  have risk: "risk_config_valid risk \<and> rc_approved_config_version risk = rc_approved_config_version (pc_risk config)"
    using r base by (auto simp: risk_for_def contract_def merge_risk_def split: option.splits if_splits)
  have execution: "execution_config_valid execution \<and>
      ec_submission_enabled execution = ec_submission_enabled (pc_execution config) \<and>
      ec_flatten_submission_enabled execution = ec_flatten_submission_enabled (pc_execution config) \<and>
      ec_approved_canary_account_ref execution = ec_approved_canary_account_ref (pc_execution config)"
    using e base by (auto simp: execution_for_def contract_def merge_execution_def split: option.splits if_splits)
  show ?thesis
    using oc risk execution base(3) all_or_none by (auto split: option.splits)
qed

end
