(* ===== verification/Submission.thy ===== *)
theory Submission
  imports World
begin

text \<open>
  One recorded decision on its way to the broker: \<^verbatim>\<open>ExecutionOrchestrator._process\<close> and
  the methods it calls (\<^verbatim>\<open>application/execution.py\<close>). The method is cut into stages in
  the order of the source; a refusal at any stage appends exactly one event and ends the
  attempt. The \<^verbatim>\<open>detail\<close> texts keep their fixed parts.
\<close>

subsection \<open>Serialised decisions and contexts\<close>

definition reasons_json :: "reason_code list \<Rightarrow> json" where
  "reasons_json rs = JArr (map (\<lambda>c. JStr (reason_value c)) rs)"

definition risk_decision_dump :: "stdlib \<Rightarrow> risk_decision \<Rightarrow> payload" where
  "risk_decision_dump sl d =
     [(''decision_id'', JStr (rd_decision_id d)),
      (''intent_id'', JStr (rd_intent_id d)),
      (''verdict'', JStr (risk_verdict_value (rd_verdict d))),
      (''reason_codes'', reasons_json (rd_reason_codes d)),
      (''decided_at_utc'', JStr (time_json sl (rd_decided_at d))),
      (''risk_config_version'', JStr (rd_risk_config_version d)),
      (''approved_volume'', json_opt (json_dec sl) (rd_approved_volume d)),
      (''account_equity'', json_opt (json_dec sl) (rd_account_equity d)),
      (''stop_distance_points'', json_opt JInt (rd_stop_distance_points d)),
      (''risk_amount'', json_opt (json_dec sl) (rd_risk_amount d))]"

definition supervisor_decision_dump :: "stdlib \<Rightarrow> supervisor_decision \<Rightarrow> payload" where
  "supervisor_decision_dump sl d =
     [(''decision_id'', JStr (sd_decision_id d)),
      (''intent_id'', JStr (sd_intent_id d)),
      (''verdict'', JStr (supervisor_verdict_value (sd_verdict d))),
      (''reason_codes'', reasons_json (sd_reason_codes d)),
      (''decided_at_utc'', JStr (time_json sl (sd_decided_at d))),
      (''policy_version'', JStr (sd_policy_version d)),
      (''statistical_monitor_version'', json_opt JStr (sd_statistical_monitor_version d)),
      (''observed_regime'', JStr (regime_value (sd_observed_regime d))),
      (''notes'', json_opt JStr (sd_notes d)),
      (''uncalibrated_checks'', JArr (map JStr (sd_uncalibrated_checks d)))]"

definition order_check_dump :: "stdlib \<Rightarrow> order_check \<Rightarrow> payload" where
  "order_check_dump sl c =
     [(''order_request_id'', JStr (ok_order_request_id c)),
      (''intent_id'', JStr (ok_intent_id c)),
      (''accepted'', JBool (ok_accepted c)),
      (''retcode'', json_opt JInt (ok_retcode c)),
      (''comment'', json_opt JStr (ok_comment c)),
      (''margin_required'', json_opt (json_dec sl) (ok_margin_required c)),
      (''payload'', json_opt JObj (ok_payload c))]"

definition approval_chain_fingerprint ::
  "stdlib \<Rightarrow> decision_capsule \<Rightarrow> trade_intent \<Rightarrow> risk_decision \<Rightarrow> supervisor_decision \<Rightarrow> py_exn + string" where
  "approval_chain_fingerprint sl c intent prior sd =
     bindE (provenance_fingerprint sl c) (\<lambda>provenance.
     fingerprint sl
       [(''provenance_fingerprint'', PStr provenance),
        (''trade_intent_decision_hash'', PStr (decision_hash sl intent)),
        (''intent_risk_decision'', json_pyval (JObj (risk_decision_dump sl prior))),
        (''supervisor_decision'', json_pyval (JObj (supervisor_decision_dump sl sd)))])"

definition order_fingerprint ::
  "stdlib \<Rightarrow> uuid \<Rightarrow> risk_decision \<Rightarrow> payload \<Rightarrow> py_exn + string" where
  "order_fingerprint sl rid d dump =
     fingerprint sl
       [(''order_request_id'', PStr rid),
        (''final_risk_decision'', json_pyval (JObj (risk_decision_dump sl d))),
        (''approved_order'', json_pyval (JObj dump))]"

definition is_intent_time_approved :: "decision_capsule \<Rightarrow> bool" where
  "is_intent_time_approved c \<longleftrightarrow>
     (case (dc_trade_intent c, dc_risk_decision c, dc_supervisor_decision c) of
        (Some intent, Some d, Some s) \<Rightarrow> rd_verdict d = PASS \<and> sd_verdict s = APPROVE
      | _ \<Rightarrow> False)"

definition order_request_id_for :: "stdlib \<Rightarrow> trade_intent \<Rightarrow> uuid" where
  "order_request_id_for sl intent = uuid5_url sl (''crumblr:order:'' @ decision_hash sl intent)"

definition worker_config_version :: "'s orchestrator \<Rightarrow> py_exn + string" where
  "worker_config_version oc = config_version (oc_stdlib oc) (dec_text (oc_stdlib oc)) (oc_config oc)"

definition worker_risk_context :: "'s orchestrator \<Rightarrow> py_exn + risk_context" where
  "worker_risk_context oc =
     (let c = oc_config oc; g = pc_account_guard c in
      bindE (worker_config_version oc) (\<lambda>version.
      mapE (\<lambda>policy.
        \<lparr>rx_risk = oc_risk oc, rx_execution = oc_execution oc, rx_allowed_symbols = set (enabled_symbols c),
         rx_require_demo_account = ag_require_demo_account g, rx_expected_server = ag_expected_server g,
         rx_expected_login = None, rx_risk_config_version = version,
         rx_expected_currency = ag_expected_currency g, rx_expected_leverage = ag_expected_leverage g,
         rx_intraday = policy, rx_calendar = oc_calendar oc\<rparr>) (policy_from_config (pc_intraday c))))"


subsection \<open>Outcomes\<close>

record attempt_outcome =
  at_order_request_id :: uuid
  at_capsule_id :: uuid
  at_event_type :: execution_event_type
  at_reason_codes :: "reason_code list"

definition outcome :: "uuid \<Rightarrow> decision_capsule \<Rightarrow> execution_event_type \<Rightarrow> reason_code list \<Rightarrow> attempt_outcome" where
  "outcome rid c t reasons =
     \<lparr>at_order_request_id = rid, at_capsule_id = dc_capsule_id c, at_event_type = t, at_reason_codes = reasons\<rparr>"

definition refuse_attempt ::
  "'s orchestrator \<Rightarrow> outside \<Rightarrow> uuid \<Rightarrow> decision_capsule \<Rightarrow> execution_event_type \<Rightarrow> reason_code list \<Rightarrow> utc \<Rightarrow>
     string option \<Rightarrow> payload option \<Rightarrow> ('s world, attempt_outcome) prog" where
  "refuse_attempt oc out rid c t reasons now detail payload =
     bindM (log_event oc out rid t now reasons detail payload) (\<lambda>_. returnM (outcome rid c t reasons))"


subsection \<open>The real submission and its permit\<close>

definition canary_permit_scope_mismatches ::
  "stdlib \<Rightarrow> canary_permit option \<Rightarrow> account_state \<Rightarrow> string \<Rightarrow> approved_order \<Rightarrow> trade_intent \<Rightarrow>
     canary_config \<Rightarrow> utc \<Rightarrow> py_exn + reason_code list" where
  "canary_permit_scope_mismatches sl permit acct symbol ord intent cfg now =
     (case permit of
        None \<Rightarrow> Inr [CANARY_PERMIT_NOT_FOUND]
      | Some p \<Rightarrow>
          bindE (login_hash sl acct) (\<lambda>acct_ref.
          case ti_requested_risk_fraction intent of
            None \<Rightarrow> Inl AssertionError
          | Some requested \<Rightarrow> Inr
              (reason_if (cp_valid_until p < now) CANARY_PERMIT_EXPIRED @
               reason_if (cp_approved_account_ref p \<noteq> acct_ref) CANARY_PERMIT_ACCOUNT_MISMATCH @
               reason_if (cp_expected_server p \<noteq> as_server acct) CANARY_PERMIT_SERVER_MISMATCH @
               reason_if (cp_canonical_symbol p \<noteq> symbol) CANARY_PERMIT_SYMBOL_MISMATCH @
               reason_if (cp_entry_type p \<noteq> ao_entry_type ord) CANARY_PERMIT_ENTRY_TYPE_MISMATCH @
               reason_if (cp_agent_id p \<noteq> ca_agent_id cfg) CANARY_PERMIT_AGENT_MISMATCH @
               reason_if (cp_assignment_id p \<noteq> ca_assignment_id cfg) CANARY_PERMIT_ASSIGNMENT_MISMATCH @
               reason_if (cp_strategy_artifact_hash p \<noteq> ca_strategy_artifact_hash cfg)
                 CANARY_PERMIT_STRATEGY_ARTIFACT_MISMATCH @
               reason_if (cp_max_requested_risk_fraction p < requested) CANARY_PERMIT_RISK_FRACTION_EXCEEDED)))"

definition send_order ::
  "outside \<Rightarrow> uuid \<Rightarrow> approved_order \<Rightarrow> ('s world, execution_result) prog" where
  \<comment> \<open>the ghost record is written before the broker's answer is known\<close>
  "send_order out pid ord =
     bindM (ask out (\<lambda>n. Inr n)) (\<lambda>n.
     bindM (modifyM (\<lambda>w. w\<lparr>w_sent := w_sent w @ [(pid, ord)]\<rparr>)) (\<lambda>_.
     liftM (out_order_send out n ord)))"

definition commit_body ::
  "stdlib \<Rightarrow> uuid \<Rightarrow> uuid \<Rightarrow> approved_order \<Rightarrow> utc \<Rightarrow> ('s world, bool) prog" where
  \<comment> \<open>spend the permit and, if this call spent it, append \<open>SUBMISSION_STARTED\<close>\<close>
  "commit_body sl pid rid ord now =
     bindM (consume pid rid now) (\<lambda>res.
     if cr_outcome res = CONSUMED
     then bindM (liftM (order_dump sl ord)) (\<lambda>dump.
          bindM (put_event sl (execution_event sl rid SUBMISSION_STARTED now [] None (Some dump))) (\<lambda>_.
          returnM True))
     else returnM False)"

definition commit_submission ::
  "'s orchestrator \<Rightarrow> outside \<Rightarrow> uuid \<Rightarrow> uuid \<Rightarrow> approved_order \<Rightarrow> utc \<Rightarrow> ('s world, bool) prog" where
  "commit_submission oc out pid rid ord now = transaction out (commit_body (oc_stdlib oc) pid rid ord now)"

definition try_send ::
  "outside \<Rightarrow> uuid \<Rightarrow> approved_order \<Rightarrow> ('s world, execution_result option) prog" where
  "try_send out pid ord =
     catchM (bindM (send_order out pid ord) (\<lambda>r. returnM (Some r)))
       (\<lambda>e. if e = Mt5CallFailed then Some (returnM None) else None)"

definition record_answer ::
  "'s orchestrator \<Rightarrow> outside \<Rightarrow> uuid \<Rightarrow> decision_capsule \<Rightarrow> execution_result option \<Rightarrow>
     ('s world, attempt_outcome) prog" where
  "record_answer oc out rid c answer =
     (case answer of
        None \<Rightarrow> returnM (outcome rid c SUBMISSION_STARTED [])
      | Some result \<Rightarrow>
          bindM (liftM (normalize_execution_result (oc_stdlib oc) result)) (\<lambda>(t, payload).
          bindM (clock out) (\<lambda>later.
          bindM (log_event oc out rid t later [] None (Some payload)) (\<lambda>_.
          returnM (outcome rid c t [])))))"

definition submit_committed ::
  "'s orchestrator \<Rightarrow> outside \<Rightarrow> uuid \<Rightarrow> uuid \<Rightarrow> decision_capsule \<Rightarrow> approved_order \<Rightarrow> utc \<Rightarrow> bool \<Rightarrow>
     ('s world, attempt_outcome) prog" where
  "submit_committed oc out pid rid c ord now consumed =
     (if \<not> consumed
      then refuse_attempt oc out rid c CANARY_PERMIT_BLOCKED [CANARY_PERMIT_ALREADY_CONSUMED] now None None
      else bindM (try_send out pid ord) (record_answer oc out rid c))"

definition attempt_real_entry_submission ::
  "'s orchestrator \<Rightarrow> outside \<Rightarrow> canary_config \<Rightarrow> uuid \<Rightarrow> decision_capsule \<Rightarrow> approved_order \<Rightarrow> trade_intent \<Rightarrow>
     account_state \<Rightarrow> utc \<Rightarrow> ('s world, attempt_outcome) prog" where
  "attempt_real_entry_submission oc out cfg rid c ord intent acct now =
     (if dc_capsule_id c \<noteq> ca_capsule_id cfg
      then refuse_attempt oc out rid c CANARY_PERMIT_BLOCKED [CANARY_PERMIT_CAPSULE_MISMATCH] now None None
      else
        bindM (getM (\<lambda>w. permit_for (w_permits w) (ca_permit_id cfg))) (\<lambda>permit.
        bindM (liftM (canary_permit_scope_mismatches (oc_stdlib oc) permit acct (oc_symbol oc) ord intent cfg now))
          (\<lambda>mismatches.
        if mismatches \<noteq> []
        then refuse_attempt oc out rid c CANARY_PERMIT_BLOCKED mismatches now None None
        else
          bindM (commit_submission oc out (ca_permit_id cfg) rid ord now)
            (submit_committed oc out (ca_permit_id cfg) rid c ord now))))"

definition start_submission ::
  "'s orchestrator \<Rightarrow> outside \<Rightarrow> uuid \<Rightarrow> approved_order \<Rightarrow> utc \<Rightarrow> ('s world, execution_event_type) prog" where
  "start_submission oc out rid ord now =
     bindM (liftM (order_dump (oc_stdlib oc) ord)) (\<lambda>dump.
     bindM (log_event oc out rid SUBMISSION_STARTED now [] None (Some dump)) (\<lambda>_.
     returnM SUBMISSION_STARTED))"


subsection \<open>The stages of an attempt\<close>

definition snapshot_of_tick ::
  "stdlib \<Rightarrow> string \<Rightarrow> market_tick \<Rightarrow> instrument_spec \<Rightarrow> py_exn + market_snapshot" where
  "snapshot_of_tick sl symbol tick spec =
     bindE (price_to_points (dsub (mt_ask tick) (mt_bid tick)) (point spec)) (\<lambda>points.
     bindE (spec_version sl spec) (\<lambda>version.
     contract market_snapshot_valid
       \<lparr>ms_snapshot_id = uuid5_url sl (''crumblr:snapshot:'' @ symbol @ '':'' @ iso_format sl (mt_event_time tick)),
        ms_symbol = symbol, ms_event_time = mt_event_time tick, ms_received_time = mt_received_time tick,
        ms_bid = mt_bid tick, ms_ask = mt_ask tick, ms_spread_points = points, ms_timeframe = ''M5'',
        ms_bars = [], ms_session_state = OPEN, ms_symbol_spec_version = version,
        ms_data_quality = mt_data_quality tick\<rparr>))"

definition approved_order_for ::
  "uuid \<Rightarrow> decision_capsule \<Rightarrow> trade_intent \<Rightarrow> risk_decision \<Rightarrow> risk_decision \<Rightarrow> supervisor_decision \<Rightarrow>
     instrument_spec \<Rightarrow> execution_config \<Rightarrow> utc \<Rightarrow> py_exn + approved_order" where
  "approved_order_for rid c intent prior d sd spec ec now =
     (case (rd_approved_volume d, ti_stop_loss_price intent) of
        (Some volume, Some stop) \<Rightarrow>
          contract approved_order_valid
            \<lparr>ao_order_request_id = rid, ao_intent_id = ti_intent_id intent,
             ao_intent_risk_decision_id = rd_decision_id prior, ao_final_risk_decision_id = Some (rd_decision_id d),
             ao_supervisor_decision_id = sd_decision_id sd, ao_broker_symbol = spec_broker_symbol spec,
             ao_side = ti_side intent, ao_entry_type = ti_entry_type intent, ao_volume = volume,
             ao_price = None, ao_stop_loss_price = stop, ao_take_profit_price = ti_take_profit_price intent,
             ao_max_slippage_points = ec_max_slippage_points ec, ao_created_at = now,
             ao_expires_at = ti_expires_at intent, ao_environment = dc_environment c\<rparr>
      | _ \<Rightarrow> Inl AssertionError)"

definition submission_context_for ::
  "'s orchestrator \<Rightarrow> string \<Rightarrow> kill_switch \<Rightarrow> observation \<Rightarrow> market_tick \<Rightarrow> utc \<Rightarrow> submission_context" where
  "submission_context_for oc version switch ob tick now =
     \<lparr>sg_environment = pc_environment (oc_config oc), sg_account = ob_account_state ob,
      sg_reconciliation_status = MATCHED, sg_fresh_tick = Some tick,
      sg_max_market_data_age_ms = ec_max_market_data_age_ms (oc_execution oc), sg_kill_switch = switch,
      sg_risk_config_version = version,
      sg_approved_risk_config_version = rc_approved_config_version (oc_risk oc),
      sg_submission_enabled = ec_submission_enabled (oc_execution oc),
      sg_terminal_trade_allowed = (bas_terminal_trade_allowed (ob_account ob) = Some True),
      sg_feedback_2_0_approved = ec_feedback_2_0_approved (oc_execution oc),
      sg_approved_account_ref = ec_approved_canary_account_ref (oc_execution oc), sg_now = now\<rparr>"

definition submission_payload :: "stdlib \<Rightarrow> submission_context \<Rightarrow> py_exn + payload" where
  "submission_payload sl ctx =
     mapE (\<lambda>observed_ref.
       [(''environment'', JStr (environment_value (sg_environment ctx))),
        (''reconciliation_status'', JStr ''MATCHED''),
        (''max_market_data_age_ms'', JInt (sg_max_market_data_age_ms ctx)),
        (''risk_config_version'', JStr (sg_risk_config_version ctx)),
        (''approved_risk_config_version'', json_opt JStr (sg_approved_risk_config_version ctx)),
        (''submission_enabled'', JBool (sg_submission_enabled ctx)),
        (''terminal_trade_allowed'', JBool (sg_terminal_trade_allowed ctx)),
        (''feedback_2_0_approved'', JBool (sg_feedback_2_0_approved ctx)),
        (''approved_account_ref'', json_opt JStr (sg_approved_account_ref ctx)),
        (''observed_account_ref'', JStr observed_ref)]) (login_hash sl (sg_account ctx))"

definition evaluate_submission_readiness ::
  "'s orchestrator \<Rightarrow> outside \<Rightarrow> uuid \<Rightarrow> observation \<Rightarrow> market_tick \<Rightarrow> utc \<Rightarrow>
     ('s world, execution_event_type \<times> reason_code list) prog" where
  "evaluate_submission_readiness oc out rid ob tick now =
     bindM (liftM (worker_config_version oc)) (\<lambda>version.
     bindM (getM (\<lambda>w. submission_context_for oc version (w_switch w) ob tick now)) (\<lambda>ctx.
     bindM (liftM (evaluate_submission_gate (oc_stdlib oc) ctx)) (\<lambda>g.
     bindM (liftM (submission_payload (oc_stdlib oc) ctx)) (\<lambda>payload.
     let t = (if gd_open g then SUBMISSION_GATE_PASSED else SUBMISSION_GATE_BLOCKED) in
     bindM (log_event oc out rid t now (gd_reason_codes g) None (Some payload)) (\<lambda>_.
     returnM (t, gd_reason_codes g))))))"

definition submit_stage ::
  "'s orchestrator \<Rightarrow> outside \<Rightarrow> uuid \<Rightarrow> decision_capsule \<Rightarrow> trade_intent \<Rightarrow> approved_order \<Rightarrow> observation \<Rightarrow>
     market_tick \<Rightarrow> utc \<Rightarrow> ('s world, attempt_outcome) prog" where
  "submit_stage oc out rid c intent ord ob tick now =
     bindM (evaluate_submission_readiness oc out rid ob tick now) (\<lambda>(t, reasons).
     if t \<noteq> SUBMISSION_GATE_PASSED then returnM (outcome rid c t reasons)
     else case oc_canary oc of
       None \<Rightarrow> bindM (start_submission oc out rid ord now) (\<lambda>t'. returnM (outcome rid c t' []))
     | Some cfg \<Rightarrow> attempt_real_entry_submission oc out cfg rid c ord intent (ob_account_state ob) now)"

definition check_stage ::
  "'s orchestrator \<Rightarrow> outside \<Rightarrow> uuid \<Rightarrow> decision_capsule \<Rightarrow> trade_intent \<Rightarrow> risk_decision \<Rightarrow> approved_order \<Rightarrow>
     observation \<Rightarrow> market_tick \<Rightarrow> utc \<Rightarrow> ('s world, attempt_outcome) prog" where
  "check_stage oc out rid c intent d ord ob tick now =
     (let sl = oc_stdlib oc in
     bindM (liftM (order_dump sl ord)) (\<lambda>dump.
     bindM (liftM (order_fingerprint sl rid d dump)) (\<lambda>fp.
     bindM (log_event oc out rid FINAL_RISK_PASSED now [] None
              (Some [(''final_risk_decision'', JObj (risk_decision_dump sl d)), (''order_fingerprint'', JStr fp)]))
       (\<lambda>_.
     bindM (ask out (\<lambda>n. out_order_check out n ord)) (\<lambda>chk.
     let t = (if ok_accepted chk then EV_ORDER_CHECKED else ORDER_CHECK_REJECTED) in
     bindM (log_event oc out rid t now [] None (Some (order_check_dump sl chk))) (\<lambda>_.
     if \<not> ok_accepted chk then returnM (outcome rid c t [])
     else submit_stage oc out rid c intent ord ob tick now))))))"

definition final_risk_stage ::
  "'s orchestrator \<Rightarrow> outside \<Rightarrow> uuid \<Rightarrow> decision_capsule \<Rightarrow> trade_intent \<Rightarrow> risk_decision \<Rightarrow>
     supervisor_decision \<Rightarrow> risk_context \<Rightarrow> observation \<Rightarrow> instrument_spec \<Rightarrow> market_tick \<Rightarrow> market_snapshot \<Rightarrow>
     session_recovery \<Rightarrow> utc \<Rightarrow> ('s world, attempt_outcome) prog" where
  "final_risk_stage oc out rid c intent prior sd ctx ob spec tick snap recovery now =
     bindM (getM (\<lambda>w. count_events_since SUBMISSION_STARTED (now - hours_us 1)
                    (market_events (w_requests w) (w_capsules w) (Some (pc_environment (oc_config oc)))
                       (Some (oc_symbol oc)) (w_events w)))) (\<lambda>orders.
     bindM (liftM (assess_open_risk (ob_position_states ob) [spec_broker_symbol spec \<mapsto> spec]
                     (as_equity (ob_account_state ob)))) (\<lambda>open_risk.
     let portfolio = \<lparr>pf_account = ob_account_state ob, pf_open_positions = ob_position_states ob,
                      pf_ledger = rec_ledger recovery, pf_orders_in_last_hour = int orders,
                      pf_seen_decision_hashes = {}, pf_open_risk_fraction = ora_fraction open_risk\<rparr> in
     bindM (getM w_switch) (\<lambda>switch.
     bindM (liftM (revalidate (oc_stdlib oc) intent prior snap spec portfolio ctx switch now)) (\<lambda>d.
     if rd_verdict d \<noteq> PASS
     then refuse_attempt oc out rid c FINAL_RISK_BLOCKED (rd_reason_codes d) now None
            (Some (risk_decision_dump (oc_stdlib oc) d))
     else
       bindM (liftM (approved_order_for rid c intent prior d sd spec (oc_execution oc) now)) (\<lambda>ord.
       check_stage oc out rid c intent d ord ob tick now)))))"

definition recover_risk_session ::
  "'s orchestrator \<Rightarrow> outside \<Rightarrow> observation \<Rightarrow> utc \<Rightarrow> ('s world, session_recovery) prog" where
  "recover_risk_session oc out ob now =
     bindM (ask out (out_session out)) (\<lambda>rec.
     liftM (recover_session rec (as_equity (ob_account_state ob)) (int (length (ob_position_states ob)))
              (trading_day (oc_zone oc) now) (rc_max_daily_loss (oc_risk oc)) (rc_max_drawdown (oc_risk oc))))"

definition session_stage ::
  "'s orchestrator \<Rightarrow> outside \<Rightarrow> uuid \<Rightarrow> decision_capsule \<Rightarrow> trade_intent \<Rightarrow> risk_decision \<Rightarrow>
     supervisor_decision \<Rightarrow> risk_context \<Rightarrow> observation \<Rightarrow> instrument_spec \<Rightarrow> market_tick \<Rightarrow> market_snapshot \<Rightarrow>
     ('s world, attempt_outcome) prog" where
  \<comment> \<open>\<^verbatim>\<open>except Exception\<close> catches everything but the death of the process\<close>
  "session_stage oc out rid c intent prior sd ctx ob spec tick snap =
     bindM (clock out) (\<lambda>final_now.
     bindM (catchM (bindM (recover_risk_session oc out ob final_now) (\<lambda>r. returnM (Some r)))
              (\<lambda>e. if e = Crashed then None else Some (returnM None))) (\<lambda>recovered.
     case recovered of
       None \<Rightarrow>
         bindM (trip_unless_halted oc out [RISK_LEDGER_LOCK_UNAVAILABLE] ''execution_orchestrator'' final_now
                  (JStr ''risk-ledger lock unavailable'')) (\<lambda>_.
         refuse_attempt oc out rid c FINAL_RISK_BLOCKED [RISK_LEDGER_LOCK_UNAVAILABLE] final_now
           (Some ''risk-ledger lock unavailable'') None)
     | Some recovery \<Rightarrow>
         if must_halt recovery
         then bindM (trip_unless_halted oc out (rec_reason_codes recovery) ''execution_orchestrator'' final_now
                       (json_opt JStr (rec_detail recovery))) (\<lambda>_.
              refuse_attempt oc out rid c FINAL_RISK_BLOCKED (rec_reason_codes recovery) final_now
                (rec_detail recovery) None)
         else final_risk_stage oc out rid c intent prior sd ctx ob spec tick snap recovery final_now))"

definition recon_text :: "recon_result \<Rightarrow> string option" where
  \<comment> \<open>the joined reasons, whose interpolated text is not kept\<close>
  "recon_text r = (if rr_reasons r = [] then None else Some ''reconciliation reasons'')"

definition market_stage ::
  "'s orchestrator \<Rightarrow> outside \<Rightarrow> uuid \<Rightarrow> decision_capsule \<Rightarrow> trade_intent \<Rightarrow> risk_decision \<Rightarrow>
     supervisor_decision \<Rightarrow> risk_context \<Rightarrow> observation \<Rightarrow> utc \<Rightarrow> ('s world, attempt_outcome) prog" where
  "market_stage oc out rid c intent prior sd ctx ob now =
     bindM (ask out (out_spec out)) (\<lambda>latest.
     case latest of
       None \<Rightarrow> refuse_attempt oc out rid c FINAL_RISK_BLOCKED [SYMBOL_NOT_ALLOWED] now
                 (Some ''no instrument spec has been observed'') None
     | Some spec \<Rightarrow>
         bindM (ask out (out_ticks out)) (\<lambda>ticks.
         case last_opt ticks of
           None \<Rightarrow> refuse_attempt oc out rid c FINAL_RISK_BLOCKED [STALE_MARKET_DATA] now
                     (Some ''no fresh tick was available'') None
         | Some tick \<Rightarrow>
             bindM (liftM (snapshot_of_tick (oc_stdlib oc) (oc_symbol oc) tick spec)) (\<lambda>snap.
             session_stage oc out rid c intent prior sd ctx ob spec tick snap)))"

definition expectation_pin :: "'s orchestrator \<Rightarrow> string option" where
  "expectation_pin oc =
     (case market_for (oc_config oc) (oc_symbol oc) of None \<Rightarrow> None | Some m \<Rightarrow> mc_expected_spec_version m)"

definition reconcile_flat ::
  "'s orchestrator \<Rightarrow> outside \<Rightarrow> utc \<Rightarrow> ('s world, recon_result) prog" where
  \<comment> \<open>the latest recorded observation against the flat expectation\<close>
  "reconcile_flat oc out now =
     bindM (liftM (expect_flat (oc_stdlib oc) (pc_account_guard (oc_config oc)) (oc_symbol oc) (expectation_pin oc)))
       (\<lambda>ex.
     bindM (ask out (out_spec out)) (\<lambda>latest.
     bindM (getM w_broker) (\<lambda>t.
     liftM (reconcile (oc_stdlib oc) t ex latest now DEFAULT_MAX_SNAPSHOT_AGE))))"

definition observe_stage ::
  "'s orchestrator \<Rightarrow> outside \<Rightarrow> uuid \<Rightarrow> decision_capsule \<Rightarrow> trade_intent \<Rightarrow> risk_decision \<Rightarrow>
     supervisor_decision \<Rightarrow> risk_context \<Rightarrow> utc \<Rightarrow> ('s world, attempt_outcome) prog" where
  "observe_stage oc out rid c intent prior sd ctx now =
     bindM (observe oc out (dc_environment c)) (\<lambda>ob.
     bindM (reconcile_flat oc out now) (\<lambda>r.
     if rr_status r \<noteq> MATCHED
     then refuse_attempt oc out rid c RECONCILIATION_BLOCKED
            [if rr_status r = MISMATCHED then RECONCILIATION_MISMATCH else RECONCILIATION_UNKNOWN] now
            (recon_text r) None
     else market_stage oc out rid c intent prior sd ctx ob now))"

definition screen_stage ::
  "'s orchestrator \<Rightarrow> outside \<Rightarrow> uuid \<Rightarrow> decision_capsule \<Rightarrow> trade_intent \<Rightarrow> risk_decision \<Rightarrow>
     supervisor_decision \<Rightarrow> utc \<Rightarrow> ('s world, attempt_outcome) prog" where
  "screen_stage oc out rid c intent prior sd now =
     bindM (liftM (worker_risk_context oc)) (\<lambda>ctx.
     bindM (liftM (evaluate_execution_eligibility
               \<lparr>eg_capsule = c, eg_activation_watermark = oc_watermark oc, eg_now = now,
                eg_current_strategy_version = oc_strategy_version oc,
                eg_current_risk_config_version = rx_risk_config_version ctx,
                eg_intraday = rx_intraday ctx, eg_calendar = rx_calendar ctx\<rparr>)) (\<lambda>eligible.
     if \<not> gd_open eligible
     then refuse_attempt oc out rid c INELIGIBLE (gd_reason_codes eligible) now None None
     else
       bindM (getM w_switch) (\<lambda>switch.
       bindM (liftM (evaluate_preflight_gate
                 \<lparr>pg_environment = dc_environment c, pg_canonical_symbol = oc_symbol oc,
                  pg_allowed_symbols = set (enabled_symbols (oc_config oc)), pg_kill_switch = switch\<rparr>)) (\<lambda>g.
       if \<not> gd_open g
       then refuse_attempt oc out rid c GATE_CLOSED (gd_reason_codes g) now None None
       else observe_stage oc out rid c intent prior sd ctx now))))"


subsection \<open>Recovering an ambiguous submission\<close>

definition matching_positions :: "int \<Rightarrow> position_state list \<Rightarrow> position_state list" where
  "matching_positions magic = filter (\<lambda>p. ps_magic p = Some magic)"

definition matching_orders :: "int \<Rightarrow> pending_order_state list \<Rightarrow> pending_order_state list" where
  "matching_orders magic = filter (\<lambda>q. po_magic q = Some magic)"

definition integrity_payload :: "int \<Rightarrow> string \<Rightarrow> string \<Rightarrow> int list \<Rightarrow> payload" where
  "integrity_payload magic count_key tickets_key tickets =
     [(''magic_number'', JInt magic), (''integrity_ambiguity'', JBool True),
      (count_key, JInt (int (length tickets))), (tickets_key, JArr (map JInt tickets))]"

definition outcome_resolution :: "int \<Rightarrow> int list \<Rightarrow> payload" where
  "outcome_resolution magic tickets =
     [(''magic_number'', JInt magic), (''submitted'', JBool (length tickets = 1)),
      (''matching_position_count'', JInt (int (length tickets))),
      (''matching_tickets'', JArr (map JInt tickets))]"

definition trip_integrity_ambiguous :: "'s orchestrator \<Rightarrow> outside \<Rightarrow> utc \<Rightarrow> string \<Rightarrow> ('s world, unit) prog" where
  "trip_integrity_ambiguous oc out now what =
     trip_unless_halted oc out [SUBMISSION_INTEGRITY_AMBIGUOUS] ''ambiguous_recovery_driver'' now
       (JStr (what @ '' share the request's magic number''))"

definition resolve_ambiguous ::
  "'s orchestrator \<Rightarrow> outside \<Rightarrow> uuid \<Rightarrow> utc \<Rightarrow> payload \<Rightarrow> ('s world, bool) prog" where
  "resolve_ambiguous oc out rid now payload =
     log_event oc out rid AMBIGUOUS_OUTCOME_RESOLVED now [] None (Some payload)"

definition recover_ambiguous_submission ::
  "'s orchestrator \<Rightarrow> outside \<Rightarrow> uuid \<Rightarrow> decision_capsule \<Rightarrow> ('s world, attempt_outcome option) prog" where
  "recover_ambiguous_submission oc out rid c =
     (let resolved = Some (outcome rid c AMBIGUOUS_OUTCOME_RESOLVED []) in
     bindM (getM (\<lambda>w. last_opt (events_for (w_events w) rid))) (\<lambda>last_event.
     case last_event of
       None \<Rightarrow> returnM None
     | Some e \<Rightarrow>
         if ev_event_type e \<noteq> SUBMISSION_STARTED then returnM None
         else
           bindM (liftM (mt5_magic_number (oc_stdlib oc) rid)) (\<lambda>magic.
           bindM (ask out (out_positions out)) (\<lambda>all_positions.
           bindM (clock out) (\<lambda>now.
           let tickets = map ps_ticket (matching_positions magic all_positions) in
           if 1 < length tickets
           then
             bindM (resolve_ambiguous oc out rid now
                      (integrity_payload magic ''matching_position_count'' ''matching_tickets'' tickets)) (\<lambda>_.
             bindM (trip_integrity_ambiguous oc out now ''broker positions'') (\<lambda>_. returnM resolved))
           else if tickets = []
           then
             bindM (ask out (out_pending_orders out)) (\<lambda>orders.
             let order_ids = map po_order_id (matching_orders magic orders) in
             if 1 < length order_ids
             then
               bindM (resolve_ambiguous oc out rid now
                        (integrity_payload magic ''matching_pending_order_count'' ''matching_pending_order_ids''
                           order_ids)) (\<lambda>_.
               bindM (trip_integrity_ambiguous oc out now ''pending orders'') (\<lambda>_. returnM resolved))
             else if length order_ids = 1 then returnM None
             else bindM (resolve_ambiguous oc out rid now (outcome_resolution magic tickets)) (\<lambda>_. returnM resolved))
           else bindM (resolve_ambiguous oc out rid now (outcome_resolution magic tickets)) (\<lambda>_. returnM resolved))))))"


subsection \<open>One recorded decision\<close>

definition claim_stage ::
  "'s orchestrator \<Rightarrow> outside \<Rightarrow> uuid \<Rightarrow> decision_capsule \<Rightarrow> trade_intent \<Rightarrow> risk_decision \<Rightarrow>
     supervisor_decision \<Rightarrow> string \<Rightarrow> utc \<Rightarrow> ('s world, attempt_outcome option) prog" where
  \<comment> \<open>the insert that wins the claim is the right to try; everybody else may only recover\<close>
  "claim_stage oc out rid c intent prior sd fp now =
     bindM (transaction out (put_request
              \<lparr>xr_order_request_id = rid, xr_capsule_id = dc_capsule_id c,
               xr_intent_id = ti_intent_id intent, xr_fingerprint = fp,
               xr_claimed_by = oc_worker oc, xr_claimed_at = now\<rparr>)) (\<lambda>claimed.
     if \<not> claimed then recover_ambiguous_submission oc out rid c
     else
       bindM (log_event oc out rid REQUEST_CLAIMED now [] None None) (\<lambda>_.
       bindM (screen_stage oc out rid c intent prior sd now) (\<lambda>a. returnM (Some a))))"

definition process ::
  "'s orchestrator \<Rightarrow> outside \<Rightarrow> decision_capsule \<Rightarrow> utc \<Rightarrow> ('s world, attempt_outcome option) prog" where
  "process oc out c now =
     (case (dc_trade_intent c, dc_risk_decision c, dc_supervisor_decision c) of
        (Some intent, Some prior, Some sd) \<Rightarrow>
          if dc_canonical_symbol c \<noteq> oc_symbol oc \<or> ti_symbol intent \<noteq> oc_symbol oc
          then raiseM AssertionError
          else
            bindM (liftM (approval_chain_fingerprint (oc_stdlib oc) c intent prior sd)) (\<lambda>fp.
            claim_stage oc out (order_request_id_for (oc_stdlib oc) intent) c intent prior sd fp now)
      | _ \<Rightarrow> raiseM AssertionError)"

end
