(* ===== verification/Flatten_Driver.thy ===== *)
theory Flatten_Driver
  imports Submission
begin

text \<open>
  The automatic weekly flatten: the plan built from an observed book
  (\<^verbatim>\<open>application/flatten_plan.py\<close>) and the driver that commits to it on one pass and
  acts on it on a later one (\<^verbatim>\<open>flatten_once\<close> and its helpers in
  \<^verbatim>\<open>application/execution.py\<close>).
\<close>

subsection \<open>The plan\<close>

definition flatten_instruction_for ::
  "calendar \<Rightarrow> uuid \<Rightarrow> utc \<Rightarrow> position_state \<Rightarrow> py_exn + flatten_instruction" where
  "flatten_instruction_for cal frid now p =
     contract flatten_instruction_valid
       \<lparr>fi_flatten_request_id = frid, fi_ticket = ps_ticket p, fi_broker_symbol = ps_broker_symbol p,
        fi_position_side = ps_side p, fi_close_side = (if ps_side p = BUY then SELL else BUY),
        fi_volume = ps_volume p, fi_open_price = ps_open_price p, fi_opened_at = ps_opened_at p,
        fi_magic = ps_magic p, fi_crossed_weekly_close = has_crossed_weekly_close cal (ps_opened_at p) now,
        fi_observed_at = now\<rparr>"

definition build_flatten_plan ::
  "calendar \<Rightarrow> position_state list \<Rightarrow> uuid \<Rightarrow> environment \<Rightarrow> string \<Rightarrow> int \<Rightarrow> utc \<Rightarrow> utc \<Rightarrow> bool \<Rightarrow> uuid \<Rightarrow> utc \<Rightarrow>
     py_exn + flatten_plan" where
  "build_flatten_plan cal positions frid env symbol day session_close deadline past_deadline sid now =
     bindE (traverseE (flatten_instruction_for cal frid now) positions) (\<lambda>instructions.
     contract flatten_plan_valid
       \<lparr>fp_flatten_request_id = frid, fp_environment = env, fp_canonical_symbol = symbol,
        fp_trading_day = day, fp_session_close = session_close, fp_flatten_deadline = deadline,
        fp_past_deadline = past_deadline,
        fp_crossed_weekly_close = list_ex fi_crossed_weekly_close instructions, fp_observed_at = now,
        fp_broker_state_snapshot_id = sid, fp_instructions = instructions\<rparr>)"

definition instruction_dump :: "stdlib \<Rightarrow> flatten_instruction \<Rightarrow> json" where
  "instruction_dump sl i = JObj
     [(''flatten_request_id'', JStr (fi_flatten_request_id i)),
      (''ticket'', JInt (fi_ticket i)),
      (''broker_symbol'', JStr (fi_broker_symbol i)),
      (''position_side'', JStr (side_value (fi_position_side i))),
      (''close_side'', JStr (side_value (fi_close_side i))),
      (''volume'', json_dec sl (fi_volume i)),
      (''open_price'', json_dec sl (fi_open_price i)),
      (''opened_at_utc'', JStr (time_json sl (fi_opened_at i))),
      (''magic'', json_opt JInt (fi_magic i)),
      (''crossed_weekly_close'', JBool (fi_crossed_weekly_close i)),
      (''observed_at_utc'', JStr (time_json sl (fi_observed_at i)))]"

definition plan_dump :: "stdlib \<Rightarrow> flatten_plan \<Rightarrow> payload" where
  "plan_dump sl p =
     [(''flatten_request_id'', JStr (fp_flatten_request_id p)),
      (''environment'', JStr (environment_value (fp_environment p))),
      (''canonical_symbol'', JStr (fp_canonical_symbol p)),
      (''trading_day'', JStr (date_iso sl (fp_trading_day p))),
      (''session_close_utc'', JStr (time_json sl (fp_session_close p))),
      (''flatten_deadline_utc'', JStr (time_json sl (fp_flatten_deadline p))),
      (''past_deadline'', JBool (fp_past_deadline p)),
      (''crossed_weekly_close'', JBool (fp_crossed_weekly_close p)),
      (''observed_at_utc'', JStr (time_json sl (fp_observed_at p))),
      (''broker_state_snapshot_id'', JStr (fp_broker_state_snapshot_id p)),
      (''instructions'', JArr (map (instruction_dump sl) (fp_instructions p)))]"

text \<open>
  \<^verbatim>\<open>FlattenInstruction.model_validate\<close> on a dumped instruction: the fields of the dump,
  each of the type pydantic accepts there, then the model's own checks. Any other document is
  a \<open>ValidationError\<close>; pydantic's coercions of other spellings are not modelled.
\<close>

definition read_str :: "json \<Rightarrow> py_exn + string" where
  "read_str j = (case j of JStr s \<Rightarrow> Inr s | _ \<Rightarrow> Inl ValidationError)"

definition read_int :: "json \<Rightarrow> py_exn + int" where
  "read_int j = (case j of JInt i \<Rightarrow> Inr i | _ \<Rightarrow> Inl ValidationError)"

definition read_bool :: "json \<Rightarrow> py_exn + bool" where
  "read_bool j = (case j of JBool b \<Rightarrow> Inr b | _ \<Rightarrow> Inl ValidationError)"

definition read_opt_int :: "json \<Rightarrow> py_exn + int option" where
  "read_opt_int j = (case j of JNull \<Rightarrow> Inr None | JInt i \<Rightarrow> Inr (Some i) | _ \<Rightarrow> Inl ValidationError)"

definition read_dec :: "stdlib \<Rightarrow> json \<Rightarrow> py_exn + decimal" where
  "read_dec sl j =
     (case j of JStr s \<Rightarrow> (case dec_of_text sl s of None \<Rightarrow> Inl ValidationError | Some d \<Rightarrow> Inr d)
              | _ \<Rightarrow> Inl ValidationError)"

definition read_when :: "stdlib \<Rightarrow> json \<Rightarrow> py_exn + utc" where
  "read_when sl j =
     (case j of JStr s \<Rightarrow> (case time_of_json sl s of None \<Rightarrow> Inl ValidationError | Some t \<Rightarrow> Inr t)
              | _ \<Rightarrow> Inl ValidationError)"

definition read_side :: "json \<Rightarrow> py_exn + side" where
  "read_side j =
     (case j of JStr s \<Rightarrow> (case find_first (\<lambda>d. side_value d = s) [BUY, SELL, FLAT] of
                             None \<Rightarrow> Inl ValidationError | Some d \<Rightarrow> Inr d)
              | _ \<Rightarrow> Inl ValidationError)"

definition read_instruction :: "stdlib \<Rightarrow> json \<Rightarrow> py_exn + flatten_instruction" where
  "read_instruction sl j =
     (case j of JObj kvs \<Rightarrow>
        bindE (read_str (py_get kvs ''flatten_request_id'')) (\<lambda>frid.
        bindE (read_int (py_get kvs ''ticket'')) (\<lambda>ticket.
        bindE (read_str (py_get kvs ''broker_symbol'')) (\<lambda>symbol.
        bindE (read_side (py_get kvs ''position_side'')) (\<lambda>pside.
        bindE (read_side (py_get kvs ''close_side'')) (\<lambda>cside.
        bindE (read_dec sl (py_get kvs ''volume'')) (\<lambda>volume.
        bindE (read_dec sl (py_get kvs ''open_price'')) (\<lambda>open_price.
        bindE (read_when sl (py_get kvs ''opened_at_utc'')) (\<lambda>opened.
        bindE (read_opt_int (py_get kvs ''magic'')) (\<lambda>magic.
        bindE (read_bool (py_get kvs ''crossed_weekly_close'')) (\<lambda>crossed.
        bindE (read_when sl (py_get kvs ''observed_at_utc'')) (\<lambda>observed.
        contract flatten_instruction_valid
          \<lparr>fi_flatten_request_id = frid, fi_ticket = ticket, fi_broker_symbol = symbol,
           fi_position_side = pside, fi_close_side = cside, fi_volume = volume, fi_open_price = open_price,
           fi_opened_at = opened, fi_magic = magic, fi_crossed_weekly_close = crossed,
           fi_observed_at = observed\<rparr>)))))))))))
      | _ \<Rightarrow> Inl ValidationError)"


subsection \<open>Outcomes and halts\<close>

record flatten_outcome =
  fo_flatten_request_id :: uuid
  fo_event_type :: flatten_event_type
  fo_reason_codes :: "reason_code list"
  fo_target_count :: nat
  fo_closed_count :: nat

definition trip_overnight_exposure ::
  "'s orchestrator \<Rightarrow> outside \<Rightarrow> position_state list \<Rightarrow> utc \<Rightarrow> ('s world, unit) prog" where
  "trip_overnight_exposure oc out positions now =
     whenM (positions \<noteq> [])
       (trip_unless_halted oc out [OVERNIGHT_EXPOSURE] ''flatten_driver'' now
          (JStr ''position(s) still open past the flatten deadline or the weekly close''))"

definition trip_flatten_state_unknown :: "'s orchestrator \<Rightarrow> outside \<Rightarrow> utc \<Rightarrow> ('s world, unit) prog" where
  "trip_flatten_state_unknown oc out now =
     trip_unless_halted oc out [FLATTEN_STATE_UNKNOWN] ''flatten_driver'' now
       (JStr ''position book could not be confirmed flat by the Friday deadline'')"

definition trip_flatten_close_failed :: "'s orchestrator \<Rightarrow> outside \<Rightarrow> utc \<Rightarrow> ('s world, unit) prog" where
  "trip_flatten_close_failed oc out now =
     trip_unless_halted oc out [FLATTEN_CLOSE_FAILED] ''flatten_driver'' now
       (JStr ''a real close attempt left position(s) still open'')"


subsection \<open>Acting on a commitment\<close>

definition close_one :: "outside \<Rightarrow> flatten_instruction \<Rightarrow> ('s world, unit) prog" where
  \<comment> \<open>the outcome is only logged: a raising or partial close is not acted on here\<close>
  "close_one out i =
     catchM
       (bindM (ask out (\<lambda>n. Inr n)) (\<lambda>n.
        bindM (modifyM (\<lambda>w. w\<lparr>w_closes := w_closes w @ [i]\<rparr>)) (\<lambda>_.
        bindM (liftM (out_close_position out n i)) (\<lambda>_. returnM ()))))
       (\<lambda>e. if e = Crashed then None else Some (returnM ()))"

definition still_open_of :: "position_state list \<Rightarrow> flatten_instruction list \<Rightarrow> flatten_instruction list" where
  "still_open_of positions = filter (\<lambda>i. fi_ticket i \<in> ps_ticket ` set positions)"

definition resolution_payload :: "int list \<Rightarrow> int list \<Rightarrow> bool \<Rightarrow> payload" where
  "resolution_payload targets still_open flattened =
     [(''target_tickets'', JArr (map JInt targets)),
      (''still_open_tickets'', JArr (map JInt still_open)),
      (''closed_tickets'', JArr (map JInt (filter (\<lambda>t. t \<notin> set still_open) targets))),
      (''flattened'', JBool flattened)]"

definition finish_flatten ::
  "'s orchestrator \<Rightarrow> outside \<Rightarrow> uuid \<Rightarrow> flatten_instruction list \<Rightarrow> bool \<Rightarrow> flatten_instruction list \<Rightarrow> utc \<Rightarrow>
     ('s world, flatten_outcome) prog" where
  "finish_flatten oc out frid instructions attempted still_open now =
     (let targets = map fi_ticket instructions;
          open_tickets = map fi_ticket still_open;
          n_closed = length (filter (\<lambda>t. t \<notin> set open_tickets) targets);
          result = (\<lambda>t reasons. \<lparr>fo_flatten_request_id = frid, fo_event_type = t, fo_reason_codes = reasons,
                                 fo_target_count = length targets, fo_closed_count = n_closed\<rparr>)
      in if still_open = []
         then bindM (log_flatten oc out frid FLATTEN_OUTCOME_RESOLVED now []
                       (Some (resolution_payload targets [] True)))
                (\<lambda>_. returnM (result FLATTEN_OUTCOME_RESOLVED []))
         else if attempted
         then bindM (trip_flatten_close_failed oc out now)
                (\<lambda>_. returnM (result FLATTEN_SUBMISSION_STARTED [FLATTEN_CLOSE_FAILED]))
         else bindM (log_flatten oc out frid FLATTEN_OUTCOME_RESOLVED now []
                       (Some (resolution_payload targets open_tickets False)))
                (\<lambda>_. returnM (result FLATTEN_OUTCOME_RESOLVED [])))"

definition attempt_and_resolve_flatten ::
  "'s orchestrator \<Rightarrow> outside \<Rightarrow> uuid \<Rightarrow> position_state list \<Rightarrow> flatten_instruction list \<Rightarrow> utc \<Rightarrow>
     ('s world, flatten_outcome) prog" where
  "attempt_and_resolve_flatten oc out frid positions instructions now =
     (let still_open = still_open_of positions instructions in
      if still_open \<noteq> [] \<and> oc_close_adapter oc \<and> ec_flatten_submission_enabled (oc_execution oc)
      then
        bindM (forM (close_one out) still_open) (\<lambda>_.
        bindM (observe oc out (pc_environment (oc_config oc))) (\<lambda>ob.
        bindM (clock out) (\<lambda>later.
        finish_flatten oc out frid instructions True
          (still_open_of (ob_position_states ob) instructions) later)))
      else finish_flatten oc out frid instructions False still_open now)"

definition committed_instructions :: "stdlib \<Rightarrow> payload option \<Rightarrow> py_exn + flatten_instruction list" where
  "committed_instructions sl payload =
     bindE (get_list (case payload of None \<Rightarrow> [] | Some kvs \<Rightarrow> kvs) ''instructions'')
       (traverseE (read_instruction sl))"

definition resolve_flatten_outcome ::
  "'s orchestrator \<Rightarrow> outside \<Rightarrow> uuid \<Rightarrow> position_state list \<Rightarrow> flatten_event_record list \<Rightarrow> utc \<Rightarrow>
     ('s world, flatten_outcome option) prog" where
  "resolve_flatten_outcome oc out frid positions events now =
     (case last_opt events of
        None \<Rightarrow> returnM None
      | Some e \<Rightarrow>
          if ev_event_type e \<noteq> FLATTEN_SUBMISSION_STARTED then returnM None
          else
            bindM (liftM (committed_instructions (oc_stdlib oc) (ev_payload e))) (\<lambda>instructions.
            bindM (attempt_and_resolve_flatten oc out frid positions instructions now) (\<lambda>r.
            returnM (Some r))))"


subsection \<open>Committing\<close>

definition flatten_context_for ::
  "'s orchestrator \<Rightarrow> string \<Rightarrow> kill_switch \<Rightarrow> observation \<Rightarrow> reconciliation_status \<Rightarrow> bool \<Rightarrow> utc \<Rightarrow>
     flatten_context" where
  "flatten_context_for oc version switch ob status required now =
     \<lparr>fg_environment = pc_environment (oc_config oc), fg_account = ob_account_state ob,
      fg_terminal_trade_allowed = (bas_terminal_trade_allowed (ob_account ob) = Some True),
      fg_position_book_complete = (bas_position_set_state (ob_account ob) = COMPLETE),
      fg_reconciliation_status = status, fg_kill_switch = switch, fg_flatten_required = required,
      fg_risk_config_version = version,
      fg_approved_risk_config_version = rc_approved_config_version (oc_risk oc),
      fg_flatten_submission_enabled = ec_flatten_submission_enabled (oc_execution oc),
      fg_feedback_2_0_approved = ec_feedback_2_0_approved (oc_execution oc), fg_now = now\<rparr>"

fun recon_status_value :: "reconciliation_status \<Rightarrow> string" where
  "recon_status_value MATCHED = ''MATCHED''"
| "recon_status_value MISMATCHED = ''MISMATCHED''"
| "recon_status_value RS_UNKNOWN = ''UNKNOWN''"

definition flatten_payload_of :: "flatten_context \<Rightarrow> payload" where
  "flatten_payload_of ctx =
     [(''environment'', JStr (environment_value (fg_environment ctx))),
      (''terminal_trade_allowed'', JBool (fg_terminal_trade_allowed ctx)),
      (''position_book_complete'', JBool (fg_position_book_complete ctx)),
      (''reconciliation_status'', JStr (recon_status_value (fg_reconciliation_status ctx))),
      (''flatten_required'', JBool (fg_flatten_required ctx)),
      (''risk_config_version'', JStr (fg_risk_config_version ctx)),
      (''approved_risk_config_version'', json_opt JStr (fg_approved_risk_config_version ctx)),
      (''flatten_submission_enabled'', JBool (fg_flatten_submission_enabled ctx)),
      (''feedback_2_0_approved'', JBool (fg_feedback_2_0_approved ctx))]"

definition commit_flatten ::
  "'s orchestrator \<Rightarrow> outside \<Rightarrow> uuid \<Rightarrow> observation \<Rightarrow> int \<Rightarrow> utc \<Rightarrow> utc \<Rightarrow> bool \<Rightarrow> bool \<Rightarrow> utc \<Rightarrow>
     ('s world, flatten_outcome) prog" where
  "commit_flatten oc out frid ob day session_close deadline past_deadline crossed now =
     (let result = (\<lambda>t reasons n. \<lparr>fo_flatten_request_id = frid, fo_event_type = t, fo_reason_codes = reasons,
                                   fo_target_count = n, fo_closed_count = 0\<rparr>) in
     bindM (log_flatten oc out frid FLATTEN_REQUEST_CLAIMED now [] None) (\<lambda>_.
     bindM (reconcile_flat oc out now) (\<lambda>r.
     bindM (liftM (worker_config_version oc)) (\<lambda>version.
     bindM (getM (\<lambda>w. flatten_context_for oc version (w_switch w) ob (rr_status r)
                     (past_deadline \<or> crossed) now)) (\<lambda>ctx.
     bindM (liftM (evaluate_flatten_gate ctx)) (\<lambda>g.
     if \<not> gd_open g
     then bindM (log_flatten oc out frid FLATTEN_GATE_BLOCKED now (gd_reason_codes g)
                   (Some (flatten_payload_of ctx)))
            (\<lambda>_. returnM (result FLATTEN_GATE_BLOCKED (gd_reason_codes g) 0))
     else
       bindM (log_flatten oc out frid FLATTEN_GATE_PASSED now [] (Some (flatten_payload_of ctx))) (\<lambda>_.
       bindM (liftM (build_flatten_plan (oc_calendar oc) (ob_position_states ob) frid
                       (pc_environment (oc_config oc)) (oc_symbol oc) day session_close deadline past_deadline
                       (bas_snapshot_id (ob_account ob)) now)) (\<lambda>plan.
       bindM (log_flatten oc out frid FLATTEN_SUBMISSION_STARTED now []
                (Some (plan_dump (oc_stdlib oc) plan))) (\<lambda>_.
       returnM (result FLATTEN_SUBMISSION_STARTED [] (length (fp_instructions plan))))))))))))"

definition flatten_fingerprint ::
  "'s orchestrator \<Rightarrow> int \<Rightarrow> utc \<Rightarrow> utc \<Rightarrow> intraday_policy \<Rightarrow> py_exn + string" where
  "flatten_fingerprint oc day session_close deadline policy =
     (let sl = oc_stdlib oc in
      fingerprint sl
        [(''environment'', PStr (environment_value (pc_environment (oc_config oc)))),
         (''canonical_symbol'', PStr (oc_symbol oc)),
         (''trading_day'', PStr (date_iso sl day)),
         (''session_close_utc'', PStr (iso_format sl session_close)),
         (''flatten_deadline_utc'', PStr (iso_format sl deadline)),
         (''intraday_policy'', PDict
            [(''enabled'', PBool (ip_enabled policy)),
             (''last_entry_offset_seconds'', PInt (ip_last_entry_offset policy div 1000000)),
             (''flatten_offset_seconds'', PInt (ip_flatten_offset policy div 1000000))])])"

definition first_flatten ::
  "'s orchestrator \<Rightarrow> outside \<Rightarrow> intraday_policy \<Rightarrow> uuid \<Rightarrow> int \<Rightarrow> utc \<Rightarrow> utc \<Rightarrow> utc \<Rightarrow>
     ('s world, flatten_outcome option) prog" where
  \<comment> \<open>no event is recorded for today's occurrence yet\<close>
  "first_flatten oc out policy frid day session_close deadline now =
     bindM (observe oc out (pc_environment (oc_config oc))) (\<lambda>ob.
     let positions = ob_position_states ob; cal = oc_calendar oc in
     bindM (whenM (phase_at cal policy now = FLATTEN_REQUIRED \<and>
                   bas_position_set_state (ob_account ob) \<noteq> COMPLETE)
              (trip_flatten_state_unknown oc out now)) (\<lambda>_.
     if positions = [] then returnM None
     else
       let past_deadline = requires_flat cal policy now;
           crossed = list_ex (\<lambda>p. has_crossed_weekly_close cal (ps_opened_at p) now) positions in
       if \<not> (past_deadline \<or> crossed) then returnM None
       else
         bindM (liftM (flatten_fingerprint oc day session_close deadline policy)) (\<lambda>fp.
         bindM (transaction out (put_flatten_request
                  \<lparr>fr_flatten_request_id = frid, fr_environment = pc_environment (oc_config oc),
                   fr_canonical_symbol = oc_symbol oc, fr_trading_day = day, fr_session_close = session_close,
                   fr_flatten_deadline = deadline, fr_fingerprint = fp, fr_claimed_by = oc_worker oc,
                   fr_claimed_at = now\<rparr>)) (\<lambda>claimed.
         bindM (trip_overnight_exposure oc out positions now) (\<lambda>_.
         if \<not> claimed
         then bindM (getM (\<lambda>w. events_for (w_flatten_events w) frid)) (\<lambda>events.
              resolve_flatten_outcome oc out frid positions events now)
         else bindM (commit_flatten oc out frid ob day session_close deadline past_deadline crossed now)
                (\<lambda>r. returnM (Some r)))))))"

definition flatten_once :: "'s orchestrator \<Rightarrow> outside \<Rightarrow> ('s world, flatten_outcome option) prog" where
  "flatten_once oc out =
     bindM (clock out) (\<lambda>now.
     bindM (liftM (policy_from_config (pc_intraday (oc_config oc)))) (\<lambda>policy.
     if \<not> ip_enabled policy then returnM None
     else (case cal_weekly_close (oc_calendar oc) now of
       None \<Rightarrow> returnM None
     | Some session_close \<Rightarrow>
         let day = trading_day (oc_zone oc) now;
             deadline = session_close - ip_flatten_offset policy;
             frid = flatten_request_id_for (oc_stdlib oc) (pc_environment (oc_config oc)) (oc_symbol oc) day in
         bindM (getM (\<lambda>w. events_for (w_flatten_events w) frid)) (\<lambda>prior.
         case last_opt prior of
           None \<Rightarrow> first_flatten oc out policy frid day session_close deadline now
         | Some e \<Rightarrow>
             if ev_event_type e \<noteq> FLATTEN_SUBMISSION_STARTED then returnM None
             else
               bindM (observe oc out (pc_environment (oc_config oc))) (\<lambda>ob.
               bindM (trip_overnight_exposure oc out (ob_position_states ob) now) (\<lambda>_.
               resolve_flatten_outcome oc out frid (ob_position_states ob) prior now))))))"


subsection \<open>What a plan is\<close>

definition closes_position :: "calendar \<Rightarrow> uuid \<Rightarrow> utc \<Rightarrow> position_state \<Rightarrow> flatten_instruction \<Rightarrow> bool" where
  "closes_position cal frid now p i \<longleftrightarrow>
     fi_ticket i = ps_ticket p \<and> fi_volume i = ps_volume p \<and> fi_broker_symbol i = ps_broker_symbol p \<and>
     fi_position_side i = ps_side p \<and> fi_close_side i \<noteq> ps_side p \<and> fi_close_side i \<noteq> FLAT \<and>
     fi_flatten_request_id i = frid \<and>
     (fi_crossed_weekly_close i \<longleftrightarrow> has_crossed_weekly_close cal (ps_opened_at p) now)"

lemma instruction_closes:
  "flatten_instruction_for cal frid now p = Inr i \<Longrightarrow> closes_position cal frid now p i \<and> flatten_instruction_valid i"
  by (auto simp: flatten_instruction_for_def contract_def closes_position_def flatten_instruction_valid_def
      split: if_splits)

lemma instruction_total: "position_state_valid p \<Longrightarrow> \<exists>i. flatten_instruction_for cal frid now p = Inr i"
  by (simp add: flatten_instruction_for_def contract_def flatten_instruction_valid_def position_state_valid_def)

lemma instructions_close:
  "traverseE (flatten_instruction_for cal frid now) ps = Inr is \<Longrightarrow>
     list_all2 (closes_position cal frid now) ps is \<and> list_all flatten_instruction_valid is"
  by (induction ps arbitrary: "is") (auto simp: bindE_eq_Inr dest: instruction_closes)

lemma instructions_crossed:
  "list_all2 (closes_position cal frid now) ps is \<Longrightarrow>
     list_ex fi_crossed_weekly_close is \<longleftrightarrow> list_ex (\<lambda>p. has_crossed_weekly_close cal (ps_opened_at p) now) ps"
  by (induction rule: list_all2_induct) (auto simp: closes_position_def)

text \<open>
  C34. A flatten plan is exactly the observed book, closed: for validated positions the plan
  exists precisely when the book is not empty and the deadline has passed or some position
  has crossed a weekly close, and then it is a valid plan with one instruction per position,
  in order, closing that ticket's whole volume on the opposite side.
\<close>

theorem flatten_plan_is_the_book:
  assumes "list_all position_state_valid ps" "symbol_ok symbol"
  shows "(ps = [] \<or> \<not> (past \<or> list_ex (\<lambda>p. has_crossed_weekly_close cal (ps_opened_at p) now) ps)) \<and>
       build_flatten_plan cal ps frid env symbol day sc dl past sid now = Inl ValidationError \<or>
     ps \<noteq> [] \<and> (past \<or> list_ex (\<lambda>p. has_crossed_weekly_close cal (ps_opened_at p) now) ps) \<and>
       (\<exists>plan. build_flatten_plan cal ps frid env symbol day sc dl past sid now = Inr plan \<and> flatten_plan_valid plan \<and>
          list_all2 (closes_position cal frid now) ps (fp_instructions plan))"
proof -
  from assms(1) obtain "is" where plan: "traverseE (flatten_instruction_for cal frid now) ps = Inr is"
    using traverseE_Inr_iff [of "flatten_instruction_for cal frid now" ps] instruction_total
    by (auto simp: list_all_iff)
  note closes = instructions_close [OF plan]
  have empty: "is = [] \<longleftrightarrow> ps = []" using closes by (auto dest: list_all2_lengthD)
  have "list_ex fi_crossed_weekly_close is \<longleftrightarrow> list_ex (\<lambda>p. has_crossed_weekly_close cal (ps_opened_at p) now) ps"
    using closes instructions_crossed by blast
  with plan closes empty assms(2) show ?thesis
    by (auto simp: build_flatten_plan_def contract_def flatten_plan_valid_def)
qed

lemma flatten_plan_is_the_book_witness:
  "\<exists>plan. build_flatten_plan (AlwaysOpenCalendar True) [long_position None] ''f1'' PAPER ''EUR/USD'' 0 0 0 True ''s1'' 0 =
     Inr plan \<and> flatten_plan_valid plan"
proof -
  have "list_all position_state_valid [long_position None]" "symbol_ok ''EUR/USD''"
    by (simp_all add: long_position_def position_state_valid_def text_ok_def)
  from flatten_plan_is_the_book [OF this, of True] show ?thesis by blast
qed

end
