(* ===== verification/Execution.thy ===== *)
theory Execution
  imports Flatten_Driver
begin

text \<open>
  The reconciliation driver, the resolver of resting orders and one full pass of the
  execution worker (\<^verbatim>\<open>reconcile_once\<close>, \<^verbatim>\<open>resolve_pending_once\<close> and
  \<^verbatim>\<open>run_once\<close> of \<^verbatim>\<open>application/execution.py\<close>), and the life of a worker over
  many passes, restarts and crashes.
\<close>

subsection \<open>Reconciling committed requests\<close>

record reconciliation_outcome =
  ro_order_request_id :: uuid
  ro_book_status :: reconciliation_status
  ro_accounted_ticket_count :: nat

definition started_ids :: "'s orchestrator \<Rightarrow> execution_event_type \<Rightarrow> 's world \<Rightarrow> uuid list" where
  "started_ids oc t w =
     request_ids_with_event t None
       (market_events (w_requests w) (w_capsules w) (Some (pc_environment (oc_config oc))) (Some (oc_symbol oc))
          (w_events w))"

definition is_reconciled :: "execution_event_record list \<Rightarrow> bool" where
  "is_reconciled events \<longleftrightarrow> list_ex (\<lambda>e. ev_event_type e = EV_RECONCILED) events"

definition raw_matching :: "stdlib \<Rightarrow> execution_event_record list \<Rightarrow> py_exn + int set" where
  \<comment> \<open>the tickets of the last resolved outcome with a non-empty payload\<close>
  "raw_matching sl events =
     foldl (\<lambda>acc e. bindE acc (\<lambda>ts.
              case ev_payload e of
                Some (kv # kvs) \<Rightarrow>
                  if ev_event_type e = AMBIGUOUS_OUTCOME_RESOLVED
                  then mapE set (ticket_list sl (kv # kvs) ''matching_tickets'') else Inr ts
              | _ \<Rightarrow> Inr ts)) (Inr {}) events"

definition int_set_json :: "int set \<Rightarrow> json" where
  "int_set_json A = JArr (map JInt (sorted_list_of_set A))"

definition stop_issue_json :: "stdlib \<Rightarrow> protective_stop_issue \<Rightarrow> json" where
  "stop_issue_json sl i = JObj
     [(''ticket'', JInt (psi_ticket i)), (''reason'', JStr (reason_value (psi_reason i))),
      (''expected'', json_opt (json_dec sl) (psi_expected i)),
      (''observed'', json_opt (json_dec sl) (psi_observed i))]"

definition reconciled_payload ::
  "stdlib \<Rightarrow> int set \<Rightarrow> int set \<Rightarrow> int set \<Rightarrow> reconciliation_status \<Rightarrow> protective_stop_issue list \<Rightarrow> payload" where
  "reconciled_payload sl attributed open_tickets closed_by_flatten status issues =
     [(''expected_position_tickets'', int_set_json attributed),
      (''observed_open_tickets'', int_set_json (attributed \<inter> open_tickets)),
      (''closed_tickets'', int_set_json closed_by_flatten),
      (''expected_pending_order_ids'', JArr []),
      (''book_status'', JStr (recon_status_value status)),
      (''protective_stop_issues'', JArr (map (stop_issue_json sl) issues))]"

definition stop_issue_reasons :: "protective_stop_issue list \<Rightarrow> reason_code list" where
  \<comment> \<open>\<^verbatim>\<open>sorted\<close> by value of the set of reasons; MISMATCH sorts before MISSING\<close>
  "stop_issue_reasons issues =
     reason_if (\<exists>i \<in> set issues. psi_reason i = PROTECTIVE_STOP_MISMATCH) PROTECTIVE_STOP_MISMATCH @
     reason_if (\<exists>i \<in> set issues. psi_reason i = PROTECTIVE_STOP_MISSING) PROTECTIVE_STOP_MISSING"

definition trip_protective_stop_issue ::
  "'s orchestrator \<Rightarrow> outside \<Rightarrow> protective_stop_issue list \<Rightarrow> utc \<Rightarrow> ('s world, unit) prog" where
  "trip_protective_stop_issue oc out issues now =
     trip_unless_halted oc out (stop_issue_reasons issues) ''reconciliation_driver'' now
       (JStr ''protective-stop verification failed'')"

definition reconcile_request ::
  "'s orchestrator \<Rightarrow> outside \<Rightarrow> derived_exposure \<Rightarrow> recon_result \<Rightarrow> observation \<Rightarrow> utc \<Rightarrow>
     uuid \<times> execution_event_record list \<Rightarrow> ('s world, reconciliation_outcome option) prog" where
  "reconcile_request oc out exposure r ob now history =
     (case history of (rid, events) \<Rightarrow>
        let open_tickets = ps_ticket ` set (ob_position_states ob);
            attributed = (case de_tickets_by_request exposure rid of None \<Rightarrow> {} | Some ts \<Rightarrow> ts) in
        if is_reconciled events \<or> rid \<notin> de_determined_requests exposure \<or> attributed - open_tickets \<noteq> {}
        then returnM None
        else
          bindM (liftM (raw_matching (oc_stdlib oc) events)) (\<lambda>raw.
          bindM (liftM (verify_protective_stops (ob_position_states ob) attributed
                          (de_stop_loss_by_request exposure rid))) (\<lambda>issues.
          bindM (whenM (issues \<noteq> []) (trip_protective_stop_issue oc out issues now)) (\<lambda>_.
          bindM (log_event oc out rid EV_RECONCILED now [] None
                   (Some (reconciled_payload (oc_stdlib oc) attributed open_tickets (raw - attributed)
                            (rr_status r) issues))) (\<lambda>_.
          returnM (Some \<lparr>ro_order_request_id = rid, ro_book_status = rr_status r,
                         ro_accounted_ticket_count = card attributed\<rparr>))))))"

definition reconcile_histories ::
  "'s orchestrator \<Rightarrow> outside \<Rightarrow> (uuid \<times> execution_event_record list) list \<Rightarrow> derived_exposure \<Rightarrow>
     ('s world, reconciliation_outcome list) prog" where
  \<comment> \<open>one fresh observation for the whole book, then every request in turn\<close>
  "reconcile_histories oc out histories exposure =
     bindM (liftM (from_durable_exposure (oc_stdlib oc) (pc_account_guard (oc_config oc)) exposure (oc_symbol oc)
                     (expectation_pin oc))) (\<lambda>ex.
     bindM (clock out) (\<lambda>now.
     bindM (observe oc out (pc_environment (oc_config oc))) (\<lambda>ob.
     bindM (ask out (out_spec out)) (\<lambda>latest.
     bindM (getM w_broker) (\<lambda>t.
     bindM (liftM (reconcile (oc_stdlib oc) t ex latest now DEFAULT_MAX_SNAPSHOT_AGE)) (\<lambda>r.
     if rr_status r = RS_UNKNOWN then returnM []
     else bindM (forM (reconcile_request oc out exposure r ob now) histories) (\<lambda>rs.
          returnM (map the (filter (\<lambda>x. x \<noteq> None) rs)))))))))"

definition reconcile_once :: "'s orchestrator \<Rightarrow> outside \<Rightarrow> ('s world, reconciliation_outcome list) prog" where
  "reconcile_once oc out =
     bindM (getM (\<lambda>w. map (\<lambda>rid. (rid, events_for (w_events w) rid)) (started_ids oc SUBMISSION_STARTED w)))
       (\<lambda>histories.
     if list_all (\<lambda>h. is_reconciled (snd h)) histories then returnM []
     else
       bindM (getM (\<lambda>w. occurrence_histories (w_flatten_requests w) (pc_environment (oc_config oc)) (oc_symbol oc)
                       (w_flatten_events w))) (\<lambda>flattens.
       bindM (liftM (derive_expected_exposure (oc_stdlib oc) histories flattens))
         (reconcile_histories oc out histories)))"


subsection \<open>Resolving resting orders\<close>

record pending_resolution =
  pr_order_request_id :: uuid
  pr_event_type :: execution_event_type
  pr_ticket :: "int option"

definition filled_payload :: "stdlib \<Rightarrow> int \<Rightarrow> int \<Rightarrow> position_state \<Rightarrow> payload" where
  "filled_payload sl magic submitted_ticket p =
     [(''resolved_from'', JStr ''SUBMITTED''),
      (''submitted_pending_order_id'', JInt submitted_ticket),
      (''ticket'', JInt (ps_ticket p)),
      (''broker_symbol'', JStr (ps_broker_symbol p)),
      (''side'', JStr (side_value (ps_side p))),
      (''volume'', json_dec sl (ps_volume p)),
      (''open_price'', json_dec sl (ps_open_price p)),
      (''opened_at_utc'', JStr (iso_format sl (ps_opened_at p))),
      (''magic_number'', JInt magic)]"

definition resolve_pending_request ::
  "'s orchestrator \<Rightarrow> outside \<Rightarrow> position_state list \<Rightarrow> pending_order_state list \<Rightarrow> utc \<Rightarrow> uuid \<Rightarrow>
     ('s world, pending_resolution option) prog" where
  "resolve_pending_request oc out positions orders now rid =
     bindM (getM (\<lambda>w. last_opt (events_for (w_events w) rid))) (\<lambda>last_event.
     case last_event of
       None \<Rightarrow> returnM None
     | Some e \<Rightarrow>
         let raw = (case ev_payload e of None \<Rightarrow> JNull | Some kvs \<Rightarrow> py_get kvs ''mt5_order_ticket'') in
         if ev_event_type e \<noteq> EV_SUBMITTED \<or> raw = JNull then returnM None
         else
           bindM (liftM (json_int (oc_stdlib oc) raw)) (\<lambda>ticket.
           if list_ex (\<lambda>q. po_order_id q = ticket) orders then returnM None
           else
             bindM (liftM (mt5_magic_number (oc_stdlib oc) rid)) (\<lambda>magic.
             case matching_positions magic positions of
               [] \<Rightarrow> returnM None
             | [p] \<Rightarrow>
                 bindM (log_event oc out rid EV_FILLED now [] None
                          (Some (filled_payload (oc_stdlib oc) magic ticket p))) (\<lambda>_.
                 returnM (Some \<lparr>pr_order_request_id = rid, pr_event_type = EV_FILLED,
                                pr_ticket = Some (ps_ticket p)\<rparr>))
             | matches \<Rightarrow>
                 bindM (resolve_ambiguous oc out rid now
                          (integrity_payload magic ''matching_position_count'' ''matching_tickets''
                             (map ps_ticket matches))) (\<lambda>_.
                 bindM (trip_integrity_ambiguous oc out now ''broker positions'') (\<lambda>_.
                 returnM (Some \<lparr>pr_order_request_id = rid, pr_event_type = AMBIGUOUS_OUTCOME_RESOLVED,
                                pr_ticket = None\<rparr>))))))"

definition resolve_pending_once :: "'s orchestrator \<Rightarrow> outside \<Rightarrow> ('s world, pending_resolution list) prog" where
  "resolve_pending_once oc out =
     bindM (getM (started_ids oc EV_SUBMITTED)) (\<lambda>ids.
     if ids = [] then returnM []
     else
       bindM (clock out) (\<lambda>now.
       bindM (ask out (out_positions out)) (\<lambda>positions.
       bindM (ask out (out_pending_orders out)) (\<lambda>orders.
       bindM (forM (resolve_pending_request oc out positions orders now) ids) (\<lambda>rs.
       returnM (map the (filter (\<lambda>x. x \<noteq> None) rs)))))))"


subsection \<open>A pass\<close>

definition market_capsules :: "'s orchestrator \<Rightarrow> 's world \<Rightarrow> decision_capsule list" where
  \<comment> \<open>\<^verbatim>\<open>CapsuleStore.read_all\<close>: oldest first, ties in the order of insertion\<close>
  "market_capsules oc w =
     sort_key dc_occurred_at
       (filter (\<lambda>c. dc_environment c = pc_environment (oc_config oc) \<and> dc_canonical_symbol c = oc_symbol oc)
          (w_capsules w))"

definition run_once :: "'s orchestrator \<Rightarrow> outside \<Rightarrow> ('s world, attempt_outcome list) prog" where
  "run_once oc out =
     bindM (flatten_once oc out) (\<lambda>_.
     bindM (clock out) (\<lambda>now.
     bindM (getM (market_capsules oc)) (\<lambda>capsules.
     bindM (forM (\<lambda>c. process oc out c now) (filter is_intent_time_approved capsules)) (\<lambda>outcomes.
     bindM (reconcile_once oc out) (\<lambda>_.
     returnM (map the (filter (\<lambda>x. x \<noteq> None) outcomes)))))))"


subsection \<open>The life of the workers\<close>

text \<open>
  What happens to the world over time: a worker of any configuration makes a pass or runs
  the resolver, ending however it ends; other processes record decisions, issue permits or
  touch the switch and its store; a restart reads the switch back.
\<close>

inductive life :: "stdlib \<Rightarrow> 's world \<Rightarrow> 's world \<Rightarrow> bool" for sl where
  pass: "oc_stdlib oc = sl \<Longrightarrow> run_once oc out w = (r, w') \<Longrightarrow> life sl w w'"
| pending: "oc_stdlib oc = sl \<Longrightarrow> resolve_pending_once oc out w = (r', w') \<Longrightarrow> life sl w w'"
| decisions: "life sl w (w\<lparr>w_capsules := w_capsules w @ cs\<rparr>)"
| permits: "issue_permit p (w_permits w) = Inr (won, ps) \<Longrightarrow> life sl w (w\<lparr>w_permits := ps\<rparr>)"
| switch: "life sl w (w\<lparr>w_switch := sw, w_store := st\<rparr>)"
| observations: "life sl w (w\<lparr>w_broker := record_observation ob (w_broker w)\<rparr>)"

definition fresh_world :: "kill_switch \<Rightarrow> 's \<Rightarrow> 's world" where
  "fresh_world sw st =
     \<lparr>w_capsules = [], w_requests = [], w_events = [], w_flatten_requests = [], w_flatten_events = [],
      w_permits = [], w_consumptions = [], w_broker = \<lparr>bt_accounts = [], bt_positions = [], bt_pending_orders = []\<rparr>,
      w_switch = sw, w_store = st, w_calls = 0, w_sent = [], w_closes = []\<rparr>"

end
