(* ===== verification/Submission_Safety.thy ===== *)
theory Submission_Safety
  imports Execution
begin

text \<open>
  At most one order per decision and per permit, whatever fails. \<open>calm\<close> relates worlds
  between which nothing was sent and no permit was spent while the request and event tables
  only grew; every part of the worker is calm except the one stage that commits and sends.
\<close>

subsection \<open>The calm parts\<close>

definition calm :: "'s world \<Rightarrow> 's world \<Rightarrow> bool" where
  "calm w w' \<longleftrightarrow> w_sent w' = w_sent w \<and> w_consumptions w' = w_consumptions w \<and> w_permits w' = w_permits w \<and>
     set (w_requests w) \<subseteq> set (w_requests w') \<and> set (w_events w) \<subseteq> set (w_events w')"

interpretation calm: effect_order calm
  by unfold_locales (auto simp: calm_def)

named_theorems calm_intro "calm building blocks"

lemma calm_ask [calm_intro]: "keeps calm (ask out a)"
  by (auto simp: keeps_def ask_def calm_def Let_def split: option.splits)

lemma calm_clock [calm_intro]: "keeps calm (clock out)"
  unfolding clock_def by (rule calm_ask)

lemma calm_transaction:
  fixes body :: "('s world, 'a) prog"
  assumes "keeps calm body"
  shows "keeps calm (transaction out body)"
  unfolding keeps_def
proof
  fix w :: "'s world"
  have body: "\<forall>w. calm w (snd (body w))" using assms by (simp add: keeps_def)
  let ?w = "w\<lparr>w_calls := w_calls w + 1\<rparr>"
  have "calm w ?w" by (simp add: calm_def)
  moreover have "calm ?w (snd (body ?w))" using body by blast
  ultimately have "calm w (snd (body ?w))" by (rule calm.join)
  then show "calm w (snd (transaction out body w))"
    using \<open>calm w ?w\<close> by (auto simp: transaction_def Let_def split: option.splits prod.splits sum.splits)
qed

lemma append_event_grows: "append_event sl row rows = Inr (won, rows') \<Longrightarrow> set rows \<subseteq> set rows'"
  using event_table.put_extends by fastforce

lemma claim_request_grows: "claim_request row rows = Inr (won, rows') \<Longrightarrow> set rows \<subseteq> set rows'"
  using request_table.put_extends by fastforce

lemma calm_put [calm_intro]:
  "keeps calm (put_event sl row)" "keeps calm (put_flatten_event sl frow)"
  "keeps calm (put_request rrow)" "keeps calm (put_flatten_request qrow)"
  by (auto simp: keeps_def put_event_def put_flatten_event_def put_request_def put_flatten_request_def calm_def
      split: sum.splits prod.splits dest: append_event_grows claim_request_grows)

lemma calm_log [calm_intro]:
  "keeps calm (log_event oc out rid t now rs d p)" "keeps calm (log_flatten oc out rid ft now rs p)"
  by (simp_all add: log_event_def log_flatten_def calm_transaction calm_put)

lemma calm_trip_switch [calm_intro]: "keeps calm (trip_switch oc rs who now d)"
  by (auto simp: keeps_def trip_switch_def calm_def split: prod.splits)

lemmas [calm_intro] = calm.keeps_rules calm_transaction

lemma calm_trip [calm_intro]: "keeps calm (trip_unless_halted oc out rs who now d)"
  unfolding trip_unless_halted_def by (intro calm_intro)

lemma calm_read_or_failed: "keeps calm m \<Longrightarrow> keeps calm (read_or_failed m)"
  unfolding read_or_failed_def by (intro calm_intro) (auto split: if_splits)

lemma calm_observe [calm_intro]: "keeps calm (observe oc out env)"
  unfolding observe_def capture_broker_state_def
  by (intro calm_intro calm_read_or_failed calm.keeps_modify) (simp add: calm_def)

lemma calm_refuse [calm_intro]: "keeps calm (refuse_attempt oc out rid c t rs now d p)"
  unfolding refuse_attempt_def by (intro calm_intro)

lemma calm_reconcile_flat [calm_intro]: "keeps calm (reconcile_flat oc out now)"
  unfolding reconcile_flat_def by (intro calm_intro)

lemma calm_readiness [calm_intro]: "keeps calm (evaluate_submission_readiness oc out rid ob tick now)"
  unfolding evaluate_submission_readiness_def Let_def by (intro calm_intro)

lemma calm_start [calm_intro]: "keeps calm (start_submission oc out rid ord now)"
  unfolding start_submission_def by (intro calm_intro)

lemma calm_recover [calm_intro]: "keeps calm (recover_ambiguous_submission oc out rid c)"
  unfolding recover_ambiguous_submission_def resolve_ambiguous_def trip_integrity_ambiguous_def Let_def
  by (intro calm_intro)

lemma calm_recover_session [calm_intro]: "keeps calm (recover_risk_session oc out ob now)"
  unfolding recover_risk_session_def by (intro calm_intro)

lemma calm_trips [calm_intro]:
  "keeps calm (trip_overnight_exposure oc out ps now)"
  "keeps calm (trip_flatten_state_unknown oc out now)"
  "keeps calm (trip_flatten_close_failed oc out now)"
  "keeps calm (trip_protective_stop_issue oc out issues now)"
  "keeps calm (trip_integrity_ambiguous oc out now what)"
  "keeps calm (resolve_ambiguous oc out rid now payload)"
  unfolding trip_overnight_exposure_def trip_flatten_state_unknown_def trip_flatten_close_failed_def
    trip_protective_stop_issue_def trip_integrity_ambiguous_def resolve_ambiguous_def
  by (intro calm_intro)+

lemma calm_close [calm_intro]: "keeps calm (close_one out i)"
  unfolding close_one_def by (intro calm_intro calm.keeps_modify) (auto simp: calm_def split: if_splits)

lemma calm_finish [calm_intro]: "keeps calm (finish_flatten oc out frid is b so now)"
  unfolding finish_flatten_def Let_def by (intro calm_intro)

lemma calm_attempt_flatten [calm_intro]: "keeps calm (attempt_and_resolve_flatten oc out frid ps is now)"
  unfolding attempt_and_resolve_flatten_def Let_def by (intro calm_intro)

lemma calm_resolve_flatten [calm_intro]: "keeps calm (resolve_flatten_outcome oc out frid ps es now)"
  unfolding resolve_flatten_outcome_def by (intro calm_intro)

lemma calm_commit_flatten [calm_intro]: "keeps calm (commit_flatten oc out frid ob day sc dl pd cr now)"
  unfolding commit_flatten_def Let_def by (intro calm_intro)

lemma calm_first_flatten [calm_intro]: "keeps calm (first_flatten oc out policy frid day sc dl now)"
  unfolding first_flatten_def Let_def by (intro calm_intro)

lemma calm_flatten_once: "keeps calm (flatten_once oc out)"
  unfolding flatten_once_def Let_def by (intro calm_intro)

lemma calm_reconcile_request [calm_intro]: "keeps calm (reconcile_request oc out exposure r ob now history)"
  unfolding reconcile_request_def Let_def by (intro calm_intro)

lemma calm_reconcile_once: "keeps calm (reconcile_once oc out)"
  unfolding reconcile_once_def reconcile_histories_def by (intro calm_intro)

lemma calm_resolve_pending_request [calm_intro]: "keeps calm (resolve_pending_request oc out ps qs now rid)"
  unfolding resolve_pending_request_def Let_def by (intro calm_intro)

lemma calm_resolve_pending_once: "keeps calm (resolve_pending_once oc out)"
  unfolding resolve_pending_once_def by (intro calm_intro)


subsection \<open>The invariant of submissions\<close>

definition submissions_ok :: "stdlib \<Rightarrow> 's world \<Rightarrow> bool" where
  "submissions_ok sl w \<longleftrightarrow>
     distinct (map (\<lambda>s. ao_order_request_id (snd s)) (w_sent w)) \<and>
     distinct (map cc_permit_id (w_consumptions w)) \<and>
     (\<forall>(pid, ord) \<in> set (w_sent w).
        (\<exists>rq \<in> set (w_requests w). xr_order_request_id rq = ao_order_request_id ord) \<and>
        (\<exists>k \<in> set (w_consumptions w). cc_permit_id k = pid \<and> cc_order_request_id k = ao_order_request_id ord) \<and>
        (\<exists>e \<in> set (w_events w). ev_event_id e = event_id_for sl (ao_order_request_id ord) SUBMISSION_STARTED))"

definition unsent :: "uuid \<Rightarrow> 's world \<Rightarrow> bool" where
  \<comment> \<open>claimed, and nothing was sent for it yet\<close>
  "unsent rid w \<longleftrightarrow> rid \<notin> (\<lambda>s. ao_order_request_id (snd s)) ` set (w_sent w) \<and>
     (\<exists>rq \<in> set (w_requests w). xr_order_request_id rq = rid)"

lemma calm_submissions_ok: "calm w w' \<Longrightarrow> submissions_ok sl w \<Longrightarrow> submissions_ok sl w'"
  unfolding calm_def submissions_ok_def by (fastforce simp: split_beta)

lemma calm_unsent: "calm w w' \<Longrightarrow> unsent rid w \<Longrightarrow> unsent rid w'"
  by (auto simp: calm_def unsent_def)

text \<open>Programs that keep the invariant when started with a claimed, unsent request.\<close>

definition safe :: "stdlib \<Rightarrow> uuid \<Rightarrow> ('s world, 'a) prog \<Rightarrow> bool" where
  "safe sl rid m \<longleftrightarrow> (\<forall>w. submissions_ok sl w \<and> unsent rid w \<longrightarrow> submissions_ok sl (snd (m w)))"

named_theorems safe_intro "safe building blocks"

lemma safe_calm: "keeps calm m \<Longrightarrow> safe sl rid m"
  unfolding safe_def keeps_def using calm_submissions_ok by blast

lemma safe_bind [safe_intro]:
  fixes m :: "('s world, 'a) prog"
  assumes m: "keeps calm m" and f: "\<And>x. safe sl rid (f x)"
  shows "safe sl rid (bindM m f)"
  unfolding safe_def
proof (intro allI impI)
  fix w :: "'s world"
  assume w: "submissions_ok sl w \<and> unsent rid w"
  obtain r w' where mw: "m w = (r, w')" by (metis surj_pair)
  then have "calm w w'" using keepsD [OF m] by blast
  then have w': "submissions_ok sl w' \<and> unsent rid w'" using w calm_submissions_ok calm_unsent by blast
  with f show "submissions_ok sl (snd (bindM m f w))"
    by (cases r) (auto simp: bindM_def mw safe_def)
qed

lemma safe_then_return: "safe sl rid m \<Longrightarrow> safe sl rid (bindM m (\<lambda>x. returnM (f x)))"
  by (auto simp: safe_def bindM_def split: prod.splits sum.splits)

lemma safe_if [safe_intro]: "(b \<Longrightarrow> safe sl rid m) \<Longrightarrow> (\<not> b \<Longrightarrow> safe sl rid m') \<Longrightarrow> safe sl rid (if b then m else m')"
  by simp

lemma safe_option [safe_intro]:
  "(x = None \<Longrightarrow> safe sl rid m) \<Longrightarrow> (\<And>y. x = Some y \<Longrightarrow> safe sl rid (f y)) \<Longrightarrow>
     safe sl rid (case x of None \<Rightarrow> m | Some y \<Rightarrow> f y)"
  by (cases x) simp_all

lemma safe_pair [safe_intro]: "(\<And>x y. safe sl rid (f x y)) \<Longrightarrow> safe sl rid (case p of (x, y) \<Rightarrow> f x y)"
  by (cases p) simp


subsection \<open>The stage that sends\<close>

definition committed :: "stdlib \<Rightarrow> uuid \<Rightarrow> uuid \<Rightarrow> 's world \<Rightarrow> bool" where
  "committed sl pid rid w \<longleftrightarrow>
     (\<exists>k \<in> set (w_consumptions w). cc_permit_id k = pid \<and> cc_order_request_id k = rid) \<and>
     (\<exists>e \<in> set (w_events w). ev_event_id e = event_id_for sl rid SUBMISSION_STARTED)"

lemma put_event_present:
  "put_event sl row w = (Inr won, w') \<Longrightarrow> \<exists>e \<in> set (w_events w'). ev_event_id e = ev_event_id row"
  using event_table.put_present by (fastforce simp: put_event_def split: sum.splits prod.splits)

lemma consume_frame:
  assumes "consume pid rid now w = (r, w')"
  shows "w_sent w' = w_sent w \<and> w_requests w' = w_requests w \<and> w_events w' = w_events w \<and>
    set (w_consumptions w) \<subseteq> set (w_consumptions w') \<and>
    (distinct (map cc_permit_id (w_consumptions w)) \<longrightarrow> distinct (map cc_permit_id (w_consumptions w'))) \<and>
    (\<forall>res. r = Inr res \<and> cr_outcome res = CONSUMED \<longrightarrow>
       (\<exists>k \<in> set (w_consumptions w'). cc_permit_id k = pid \<and> cc_order_request_id k = rid))"
proof (cases "consume_permit (w_permits w) pid rid now (w_consumptions w)")
  case (Inl e)
  with assms show ?thesis by (auto simp: consume_def)
next
  case (Inr p)
  then obtain res rows where p: "consume_permit (w_permits w) pid rid now (w_consumptions w) = Inr (res, rows)"
    by (cases p) auto
  with assms have w': "r = Inr res" "w' = w\<lparr>w_consumptions := rows\<rparr>" by (auto simp: consume_def)
  show ?thesis
  proof (cases "cr_outcome res = CONSUMED")
    case True
    from consume_permit_CONSUMED [OF p True] show ?thesis by (auto simp: w')
  next
    case False
    from consume_permit_other [OF p False] False show ?thesis by (auto simp: w')
  qed
qed

lemma commit_body_ok:
  assumes run: "commit_body sl pid rid ord now w = (Inr b, w')"
    and ok: "submissions_ok sl w" "unsent rid w"
  shows "submissions_ok sl w' \<and> unsent rid w' \<and> (b \<longrightarrow> committed sl pid rid w')"
proof -
  from run obtain res w1 where c: "consume pid rid now w = (Inr res, w1)"
    and rest: "(if cr_outcome res = CONSUMED
        then bindM (liftM (order_dump sl ord)) (\<lambda>dump.
             bindM (put_event sl (execution_event sl rid SUBMISSION_STARTED now [] None (Some dump)))
               (\<lambda>_. returnM True))
        else returnM False) w1 = (Inr b, w')"
    by (auto simp: commit_body_def bindM_eq_Inr)
  note F = consume_frame [OF c]
  have ok1: "submissions_ok sl w1" "unsent rid w1"
    using ok F unfolding submissions_ok_def unsent_def by (simp_all add: split_beta) blast
  show ?thesis
  proof (cases "cr_outcome res = CONSUMED")
    case True
    with rest obtain dump won where
        p: "put_event sl (execution_event sl rid SUBMISSION_STARTED now [] None (Some dump)) w1 = (Inr won, w')"
      by (auto simp: bindM_eq_Inr)
    have calm: "calm w1 w'" by (rule keepsD [OF calm_put(1) p])
    then have "submissions_ok sl w'" "unsent rid w'" using ok1 calm_submissions_ok calm_unsent by blast+
    moreover have "committed sl pid rid w'"
      using F True calm put_event_present [OF p] by (simp add: committed_def calm_def execution_event_def)
    ultimately show ?thesis by blast
  next
    case False
    with rest ok1 show ?thesis by simp
  qed
qed

lemma commit_submission_ok:
  assumes run: "commit_submission oc out pid rid ord now w = (r, w')"
    and ok: "submissions_ok (oc_stdlib oc) w" "unsent rid w"
  shows "submissions_ok (oc_stdlib oc) w' \<and> unsent rid w' \<and>
    (r = Inr True \<longrightarrow> committed (oc_stdlib oc) pid rid w')"
proof -
  let ?w = "w\<lparr>w_calls := w_calls w + 1\<rparr>"
  have "calm w ?w" by (simp add: calm_def)
  then have start: "submissions_ok (oc_stdlib oc) ?w" "unsent rid ?w"
    using ok calm_submissions_ok calm_unsent by blast+
  show ?thesis
  proof (cases "out_fault out (w_calls w)")
    case (Some e)
    with run start show ?thesis by (auto simp: commit_submission_def transaction_def Let_def)
  next
    case None
    obtain br bw where b: "commit_body (oc_stdlib oc) pid rid ord now ?w = (br, bw)" by (metis surj_pair)
    show ?thesis
    proof (cases br)
      case (Inl e)
      with run None b start show ?thesis by (auto simp: commit_submission_def transaction_def Let_def)
    next
      case (Inr x)
      from commit_body_ok [OF b [unfolded Inr] start] run None b Inr show ?thesis
        by (auto simp: commit_submission_def transaction_def Let_def split: option.splits)
    qed
  qed
qed

lemma try_send_ok:
  assumes run: "try_send out pid ord w = (r, w')"
    and ok: "submissions_ok sl w" "unsent (ao_order_request_id ord) w"
      "committed sl pid (ao_order_request_id ord) w"
  shows "submissions_ok sl w'"
proof -
  have "w_requests w' = w_requests w \<and> w_events w' = w_events w \<and> w_consumptions w' = w_consumptions w \<and>
      (w_sent w' = w_sent w \<or> w_sent w' = w_sent w @ [(pid, ord)])"
    using run
    by (auto simp: try_send_def catchM_def send_order_def bindM_def ask_def Let_def
        split: option.splits sum.splits prod.splits if_splits)
  with ok show ?thesis
    unfolding submissions_ok_def unsent_def committed_def by auto
qed

lemma calm_record_answer: "keeps calm (record_answer oc out rid c answer)"
  unfolding record_answer_def by (intro calm_intro)

lemma submit_committed_ok:
  assumes run: "submit_committed oc out pid rid c ord now consumed w = (r, w')"
    and ok: "submissions_ok sl w" "unsent rid w" "consumed \<longrightarrow> committed sl pid rid w"
    and rid: "ao_order_request_id ord = rid"
  shows "submissions_ok sl w'"
proof (cases consumed)
  case False
  with run have "calm w w'" by (auto simp: submit_committed_def intro: keepsD [OF calm_refuse])
  with ok show ?thesis by (blast intro: calm_submissions_ok)
next
  case True
  obtain s w1 where t: "try_send out pid ord w = (s, w1)" by (metis surj_pair)
  with ok True rid have w1: "submissions_ok sl w1" by (blast intro: try_send_ok)
  show ?thesis
  proof (cases s)
    case (Inl e)
    with run True t w1 show ?thesis by (simp add: submit_committed_def bindM_raise)
  next
    case (Inr a)
    with run True t have "record_answer oc out rid c a w1 = (r, w')"
      by (simp add: submit_committed_def bindM_run)
    from calm_submissions_ok [OF keepsD [OF calm_record_answer this] w1] show ?thesis .
  qed
qed

lemma safe_attempt_real:
  assumes "ao_order_request_id ord = rid"
  shows "safe (oc_stdlib oc) rid (attempt_real_entry_submission oc out cfg rid c ord intent acct now)"
proof -
  let ?pid = "ca_permit_id cfg"
  have "safe (oc_stdlib oc) rid
      (bindM (commit_submission oc out ?pid rid ord now) (submit_committed oc out ?pid rid c ord now))"
    unfolding safe_def
  proof (intro allI impI)
    fix w :: "'a world"
    assume w: "submissions_ok (oc_stdlib oc) w \<and> unsent rid w"
    obtain r w1 where c: "commit_submission oc out ?pid rid ord now w = (r, w1)" by (metis surj_pair)
    with w have ok: "submissions_ok (oc_stdlib oc) w1" "unsent rid w1"
        "r = Inr True \<longrightarrow> committed (oc_stdlib oc) ?pid rid w1"
      using commit_submission_ok by blast+
    show "submissions_ok (oc_stdlib oc)
        (snd (bindM (commit_submission oc out ?pid rid ord now) (submit_committed oc out ?pid rid c ord now) w))"
    proof (cases r)
      case (Inl e)
      with c ok show ?thesis by (simp add: bindM_raise)
    next
      case (Inr b)
      obtain r2 w2 where s: "submit_committed oc out ?pid rid c ord now b w1 = (r2, w2)" by (metis surj_pair)
      from submit_committed_ok [OF s ok(1,2) _ assms] ok(3) Inr have "submissions_ok (oc_stdlib oc) w2" by blast
      with c Inr s show ?thesis by (simp add: bindM_run)
    qed
  qed
  then show ?thesis
    unfolding attempt_real_entry_submission_def
    by (blast intro: safe_if safe_bind safe_calm calm_intro)
qed

lemma approved_order_request:
  "approved_order_for rid c intent prior d sd spec ec now = Inr ord \<Longrightarrow> ao_order_request_id ord = rid"
  by (auto simp: approved_order_for_def split: option.splits)

lemma safe_liftM:
  "(\<And>x. r = Inr x \<Longrightarrow> safe sl rid (f x)) \<Longrightarrow> safe sl rid (bindM (liftM r) f)"
  by (cases r) (simp_all add: safe_def)

lemma safe_submit_stage:
  "ao_order_request_id ord = rid \<Longrightarrow> safe (oc_stdlib oc) rid (submit_stage oc out rid c intent ord ob tick now)"
  unfolding submit_stage_def
  by (rule safe_bind [OF calm_readiness], rule safe_pair, rule safe_if, rule safe_calm, rule calm.keeps_pure(1),
      rule safe_option, rule safe_calm, intro calm_intro, erule safe_attempt_real)

lemma safe_check_stage:
  "ao_order_request_id ord = rid \<Longrightarrow> safe (oc_stdlib oc) rid (check_stage oc out rid c intent d ord ob tick now)"
  unfolding check_stage_def Let_def
  by (intro safe_bind safe_if safe_submit_stage calm_intro safe_calm)

lemma safe_final_risk_stage:
  "safe (oc_stdlib oc) rid (final_risk_stage oc out rid c intent prior sd ctx ob spec tick snap rec now)"
  unfolding final_risk_stage_def Let_def
  by (rule safe_bind, rule calm.keeps_pure, rule safe_bind, rule calm.keeps_pure, rule safe_bind, rule calm.keeps_pure,
      rule safe_bind, rule calm.keeps_pure, rule safe_if, rule safe_calm, rule calm_refuse, rule safe_liftM,
      rule safe_check_stage, erule approved_order_request)

lemma safe_session_stage:
  "safe (oc_stdlib oc) rid (session_stage oc out rid c intent prior sd ctx ob spec tick snap)"
  unfolding session_stage_def
  by (intro safe_bind safe_option safe_if safe_final_risk_stage calm_intro) (auto intro!: safe_calm calm_intro split: if_splits)

lemma safe_market_stage: "safe (oc_stdlib oc) rid (market_stage oc out rid c intent prior sd ctx ob now)"
  unfolding market_stage_def
  by (intro safe_bind safe_option safe_if safe_session_stage calm_intro) (auto intro!: safe_calm calm_intro)

lemma safe_observe_stage: "safe (oc_stdlib oc) rid (observe_stage oc out rid c intent prior sd ctx now)"
  unfolding observe_stage_def
  by (intro safe_bind safe_if safe_market_stage calm_intro) (auto intro!: safe_calm calm_intro)

lemma safe_screen_stage: "safe (oc_stdlib oc) rid (screen_stage oc out rid c intent prior sd now)"
  unfolding screen_stage_def
  by (intro safe_bind safe_if safe_observe_stage calm_intro) (auto intro!: safe_calm calm_intro)


subsection \<open>One decision, one pass, one life\<close>

definition preserves_submissions :: "stdlib \<Rightarrow> 's world \<Rightarrow> 's world \<Rightarrow> bool" where
  "preserves_submissions sl w w' \<longleftrightarrow> (submissions_ok sl w \<longrightarrow> submissions_ok sl w')"

interpretation kept: effect_order "preserves_submissions sl" for sl
  by unfold_locales (simp_all add: preserves_submissions_def)

lemma kept_calm: "keeps calm m \<Longrightarrow> keeps (preserves_submissions sl) m"
  unfolding keeps_def preserves_submissions_def using calm_submissions_ok by blast

lemma sent_backed:
  assumes "submissions_ok sl w" "s \<in> set (w_sent w)"
  shows "\<exists>rq \<in> set (w_requests w). xr_order_request_id rq = ao_order_request_id (snd s)"
    and "\<exists>k \<in> set (w_consumptions w). cc_permit_id k = fst s \<and>
           cc_order_request_id k = ao_order_request_id (snd s)"
  using assms by (simp_all add: submissions_ok_def split_beta)

lemma sent_requests:
  "submissions_ok sl w \<Longrightarrow>
     (\<lambda>s. ao_order_request_id (snd s)) ` set (w_sent w) \<subseteq> xr_order_request_id ` set (w_requests w)"
  using sent_backed(1) by (force simp: image_iff)

lemma claim_fresh:
  assumes run: "transaction out (put_request row) w = (Inr True, w')"
    and ok: "submissions_ok sl w"
  shows "submissions_ok sl w' \<and> unsent (xr_order_request_id row) w'"
proof -
  from run have c: "claim_request row (w_requests w) = Inr (True, w_requests w')" and s: "w_sent w' = w_sent w"
    by (auto simp: transaction_def put_request_def Let_def split: option.splits sum.splits prod.splits)
  have new: "xr_order_request_id row \<notin> xr_order_request_id ` set (w_requests w)"
    using request_table.put_cases [OF c] by simp
  have "calm w w'" by (rule keepsD [OF calm_transaction [OF calm_put(3)] run])
  then have "submissions_ok sl w'" using ok by (rule calm_submissions_ok)
  moreover have "unsent (xr_order_request_id row) w'"
    using new sent_requests [OF ok] request_table.put_present [OF c] by (auto simp: unsent_def s)
  ultimately show ?thesis ..
qed

lemma kept_claim_stage:
  "keeps (preserves_submissions (oc_stdlib oc)) (claim_stage oc out rid c intent prior sd fp now)"
  unfolding keeps_def preserves_submissions_def
proof (intro allI impI)
  fix w :: "'a world"
  assume ok: "submissions_ok (oc_stdlib oc) w"
  let ?row = "\<lparr>xr_order_request_id = rid, xr_capsule_id = dc_capsule_id c, xr_intent_id = ti_intent_id intent,
                xr_fingerprint = fp, xr_claimed_by = oc_worker oc, xr_claimed_at = now\<rparr>"
  obtain r w1 where t: "transaction out (put_request ?row) w = (r, w1)" by (metis surj_pair)
  have ok1: "submissions_ok (oc_stdlib oc) w1"
    using calm_submissions_ok [OF keepsD [OF calm_transaction [OF calm_put(3)] t] ok] .
  have won: "safe (oc_stdlib oc) rid
      (bindM (log_event oc out rid REQUEST_CLAIMED now [] None None)
        (\<lambda>_. bindM (screen_stage oc out rid c intent prior sd now) (\<lambda>a. returnM (Some a))))"
    by (intro safe_bind calm_log safe_then_return safe_screen_stage)
  have recover: "keeps calm (recover_ambiguous_submission oc out rid c :: ('a world, attempt_outcome option) prog)"
    by (rule calm_recover)
  consider e where "r = Inl e" | "r = Inr True" | "r = Inr False" by (cases r) auto
  then show "submissions_ok (oc_stdlib oc) (snd (claim_stage oc out rid c intent prior sd fp now w))"
  proof cases
    case 1
    with t ok1 show ?thesis by (simp add: claim_stage_def bindM_raise)
  next
    case 2
    with claim_fresh [OF _ ok, of out ?row w1] t have "unsent rid w1" by simp
    with t 2 ok1 won show ?thesis by (simp add: claim_stage_def bindM_run safe_def)
  next
    case 3
    from recover have "calm w1 (snd (recover_ambiguous_submission oc out rid c w1 :: (py_exn + attempt_outcome option) \<times> 'a world))"
      by (simp add: keeps_def)
    from calm_submissions_ok [OF this ok1] t 3 show ?thesis by (simp add: claim_stage_def bindM_def)
  qed
qed

lemma kept_process: "keeps (preserves_submissions (oc_stdlib oc)) (process oc out c now)"
  unfolding process_def
  by (auto split: option.splits intro!: kept.keeps_bind kept_claim_stage)

lemma kept_run_once: "keeps (preserves_submissions (oc_stdlib oc)) (run_once oc out)"
  unfolding run_once_def
  by (intro kept.keeps_bind kept.keeps_for kept.keeps_pure kept_process kept_calm [OF calm_flatten_once]
      kept_calm [OF calm_clock] kept_calm [OF calm_reconcile_once])

lemma kept_life: "life sl w w' \<Longrightarrow> preserves_submissions sl w w'"
proof (induction rule: life.induct)
  case (pass oc out w r w')
  then show ?case using keepsD [OF kept_run_once] by metis
next
  case (pending oc out w r' w')
  then show ?case using keepsD [OF kept_calm [OF calm_resolve_pending_once]] by metis
qed (simp_all add: preserves_submissions_def submissions_ok_def)

lemma kept_lives: "(life sl)\<^sup>*\<^sup>* w w' \<Longrightarrow> preserves_submissions sl w w'"
  by (induction rule: rtranclp_induct) (auto dest: kept_life simp: preserves_submissions_def)

lemma submissions_ok_permits:
  assumes "submissions_ok sl w"
  shows "distinct (map fst (w_sent w))"
proof -
  have ids: "distinct (map (\<lambda>s. ao_order_request_id (snd s)) (w_sent w))"
    and ks: "distinct (map cc_permit_id (w_consumptions w))"
    and owner: "\<And>s. s \<in> set (w_sent w) \<Longrightarrow> \<exists>k \<in> set (w_consumptions w).
      cc_permit_id k = fst s \<and> cc_order_request_id k = ao_order_request_id (snd s)"
    using assms sent_backed(2) [OF assms] by (auto simp: submissions_ok_def)
  have "inj_on fst (set (w_sent w))"
  proof (rule inj_onI)
    fix s t
    assume s: "s \<in> set (w_sent w)" and t: "t \<in> set (w_sent w)" and eq: "fst s = fst t"
    from owner [OF s] owner [OF t] eq ks have "ao_order_request_id (snd s) = ao_order_request_id (snd t)"
      by (metis (mono_tags, lifting) distinct_map inj_onD)
    with s t ids show "s = t" by (metis (mono_tags, lifting) distinct_map inj_onD)
  qed
  with ids show ?thesis by (simp add: distinct_map)
qed

lemma fresh_submissions_ok: "submissions_ok sl (fresh_world sw st)"
  by (simp add: submissions_ok_def fresh_world_def)

text \<open>
  C3. At most one order per decision and per permit. Over any history of passes by workers
  of any configuration, each ending however it ends (a crash before or after a commit, a
  failed send whose answer was lost, a restart), interleaved with decisions, permits, halts
  and observations by others: no two orders were ever sent for one request identity, no two
  under one permit, and every order sent has its claimed request, its permit's consumption
  by that same request, and its \<open>SUBMISSION_STARTED\<close> event durably recorded.
\<close>

theorem at_most_one_submission:
  assumes "(life sl)\<^sup>*\<^sup>* (fresh_world sw st) w"
  shows "distinct (map (\<lambda>s. ao_order_request_id (snd s)) (w_sent w)) \<and> distinct (map fst (w_sent w)) \<and>
    (\<forall>(pid, ord) \<in> set (w_sent w).
       (\<exists>rq \<in> set (w_requests w). xr_order_request_id rq = ao_order_request_id ord) \<and>
       (\<exists>k \<in> set (w_consumptions w). cc_permit_id k = pid \<and> cc_order_request_id k = ao_order_request_id ord) \<and>
       (\<exists>e \<in> set (w_events w). ev_event_id e = event_id_for sl (ao_order_request_id ord) SUBMISSION_STARTED))"
proof -
  have ok: "submissions_ok sl w"
    using kept_lives [OF assms] by (simp add: preserves_submissions_def fresh_submissions_ok)
  from submissions_ok_permits [OF ok] show ?thesis
    using ok unfolding submissions_ok_def by blast
qed

text \<open>
  Only the processing of a freshly claimed decision sends. The flatten driver, the
  reconciliation driver, the resolver of resting orders and the recovery of an ambiguous
  submission never send an order, never spend or issue a permit, and only append to the
  request and event tables, whatever the outside does.
\<close>

theorem drivers_never_send:
  "calm w (snd (flatten_once oc out w)) \<and> calm w (snd (reconcile_once oc out w)) \<and>
   calm w (snd (resolve_pending_once oc out w)) \<and> calm w (snd (recover_ambiguous_submission oc out rid c w))"
  using calm_flatten_once calm_reconcile_once calm_resolve_pending_once calm_recover unfolding keeps_def by blast

end
