(* ===== verification/Submission_Gates.thy ===== *)
theory Submission_Gates
  imports Submission_Safety
begin

text \<open>
  What an order has been through when it reaches the broker. \<open>frame\<close> is the part of the
  world the gates read: the switch, the issued permits and the recorded broker state. No
  step between the last observation and the send changes it, so what the gates established
  still holds of the world in which the order went out.
\<close>

subsection \<open>Sending under conditions\<close>

definition frame :: "'s world \<Rightarrow> kill_switch \<times> canary_permit list \<times> broker_tables" where
  "frame w = (w_switch w, w_permits w, w_broker w)"

definition still :: "'s world \<Rightarrow> 's world \<Rightarrow> bool" where
  "still w w' \<longleftrightarrow> frame w' = frame w \<and> w_sent w' = w_sent w"

interpretation still: effect_order still
  by unfold_locales (simp_all add: still_def)

named_theorems still_intro "steps that neither send nor change what the gates read"

lemmas [still_intro] = still.keeps_rules

lemma still_ask [still_intro]: "keeps still (ask out a)" "keeps still (clock out)"
  by (auto simp: keeps_def ask_def clock_def still_def frame_def Let_def split: option.splits)

lemma still_log [still_intro]: "keeps still (log_event oc out rid t now rs d p)"
  by (auto simp: keeps_def log_event_def transaction_def put_event_def still_def frame_def Let_def
      split: option.splits sum.splits prod.splits)

lemma still_refuse [still_intro]: "keeps still (refuse_attempt oc out rid c t rs now d p)"
  unfolding refuse_attempt_def by (intro still_intro)

lemma still_readiness [still_intro]: "keeps still (evaluate_submission_readiness oc out rid ob tick now)"
  unfolding evaluate_submission_readiness_def Let_def by (intro still_intro)

lemma still_recover [still_intro]: "keeps still (recover_risk_session oc out ob now)"
  unfolding recover_risk_session_def by (intro still_intro)

lemma still_reconcile_flat [still_intro]: "keeps still (reconcile_flat oc out now)"
  unfolding reconcile_flat_def by (intro still_intro)

lemma still_commit [still_intro]: "keeps still (commit_submission oc out pid rid ord now)"
  by (auto simp: keeps_def commit_submission_def commit_body_def transaction_def bindM_def consume_def put_event_def
      still_def frame_def Let_def split: option.splits sum.splits prod.splits if_splits)

lemma still_record_answer [still_intro]: "keeps still (record_answer oc out rid c answer)"
  unfolding record_answer_def by (intro still_intro)

definition sends_only ::
  "kill_switch \<times> canary_permit list \<times> broker_tables \<Rightarrow> (uuid \<Rightarrow> approved_order \<Rightarrow> bool) \<Rightarrow>
     ('s world, 'a) prog \<Rightarrow> bool" where
  "sends_only fr P m \<longleftrightarrow>
     (\<forall>w r w'. m w = (r, w') \<and> frame w = fr \<longrightarrow>
        w_sent w' = w_sent w \<or>
        frame w' = fr \<and> (\<exists>pid ord. w_sent w' = w_sent w @ [(pid, ord)] \<and> P pid ord))"

lemma only_calm: "keeps calm m \<Longrightarrow> sends_only fr P m"
  unfolding sends_only_def by (meson calm_def keepsD)

lemma only_bind_result:
  fixes m :: "('s world, 'a) prog"
  assumes m: "keeps still m"
    and res: "\<And>w x w'. m w = (Inr x, w') \<Longrightarrow> frame w = fr \<Longrightarrow> Q x"
    and f: "\<And>x. Q x \<Longrightarrow> sends_only fr P (f x)"
  shows "sends_only fr P (bindM m f)"
  unfolding sends_only_def
proof (intro allI impI, elim conjE)
  fix w w' :: "'s world" and r
  assume run: "bindM m f w = (r, w')" and fr: "frame w = fr"
  obtain x w1 where mw: "m w = (x, w1)" by (metis surj_pair)
  from keepsD [OF m this] fr have w1: "frame w1 = fr" "w_sent w1 = w_sent w" by (simp_all add: still_def)
  show "w_sent w' = w_sent w \<or> frame w' = fr \<and> (\<exists>pid ord. w_sent w' = w_sent w @ [(pid, ord)] \<and> P pid ord)"
  proof (cases x)
    case (Inl e)
    with run mw w1 show ?thesis by (simp add: bindM_raise)
  next
    case (Inr a)
    with run mw have "f a w1 = (r, w')" by (simp add: bindM_run)
    with f [OF res [OF mw [unfolded Inr] fr]] w1 show ?thesis by (simp add: sends_only_def) metis
  qed
qed

lemma only_bind: "keeps still m \<Longrightarrow> (\<And>x. sends_only fr P (f x)) \<Longrightarrow> sends_only fr P (bindM m f)"
  by (rule only_bind_result [where Q = "\<lambda>_. True"]) simp_all

lemma only_run:
  "sends_only fr P m \<Longrightarrow> m w = (r, w') \<Longrightarrow> frame w = fr \<Longrightarrow>
     w_sent w' = w_sent w \<or> frame w' = fr \<and> (\<exists>pid ord. w_sent w' = w_sent w @ [(pid, ord)] \<and> P pid ord)"
  by (simp add: sends_only_def)

lemma only_get:
  assumes "\<And>w. frame w = fr \<Longrightarrow> sends_only fr P (f (g w))"
  shows "sends_only fr P (bindM (getM g) f)"
  unfolding sends_only_def bindM_basic by (intro allI impI, elim conjE, rule only_run, rule assms)

lemma only_liftM: "(\<And>x. r = Inr x \<Longrightarrow> sends_only fr P (f x)) \<Longrightarrow> sends_only fr P (bindM (liftM r) f)"
  by (cases r) (simp_all add: sends_only_def)

lemma only_if: "(b \<Longrightarrow> sends_only fr P m) \<Longrightarrow> (\<not> b \<Longrightarrow> sends_only fr P m') \<Longrightarrow> sends_only fr P (if b then m else m')"
  by simp

lemma only_option:
  "(x = None \<Longrightarrow> sends_only fr P m) \<Longrightarrow> (\<And>y. x = Some y \<Longrightarrow> sends_only fr P (f y)) \<Longrightarrow>
     sends_only fr P (case x of None \<Rightarrow> m | Some y \<Rightarrow> f y)"
  by (cases x) simp_all

lemma only_pair: "(\<And>x y. p = (x, y) \<Longrightarrow> sends_only fr P (f x y)) \<Longrightarrow> sends_only fr P (case p of (x, y) \<Rightarrow> f x y)"
  by (cases p) simp


subsection \<open>The stages\<close>

lemma try_send_sends:
  assumes "try_send out pid ord w = (r, w')"
  shows "frame w' = frame w \<and> (w_sent w' = w_sent w \<or> w_sent w' = w_sent w @ [(pid, ord)])"
  using assms
  by (auto simp: try_send_def catchM_def send_order_def bindM_def ask_def frame_def Let_def
      split: option.splits sum.splits prod.splits if_splits)

lemma submit_committed_only:
  assumes "P pid ord"
  shows "sends_only fr P (submit_committed oc out pid rid c ord now consumed)"
  unfolding sends_only_def
proof (intro allI impI, elim conjE)
  fix w w' r
  assume run: "submit_committed oc out pid rid c ord now consumed w = (r, w')" and fr: "frame w = fr"
  show "w_sent w' = w_sent w \<or> frame w' = fr \<and> (\<exists>pid ord. w_sent w' = w_sent w @ [(pid, ord)] \<and> P pid ord)"
  proof (cases consumed)
    case False
    with run have "still w w'" by (auto simp: submit_committed_def intro: keepsD [OF still_refuse])
    then show ?thesis by (simp add: still_def)
  next
    case True
    obtain s w1 where t: "try_send out pid ord w = (s, w1)" by (metis surj_pair)
    have "still w1 w'"
    proof (cases s)
      case (Inl e)
      with run True t show ?thesis by (simp add: submit_committed_def bindM_raise still.same)
    next
      case (Inr a)
      with run True t have "record_answer oc out rid c a w1 = (r, w')"
        by (simp add: submit_committed_def bindM_run)
      then show ?thesis by (rule keepsD [OF still_record_answer])
    qed
    with try_send_sends [OF t] fr assms show ?thesis by (auto simp: still_def)
  qed
qed

definition authorised ::
  "'s orchestrator \<Rightarrow> decision_capsule \<Rightarrow> trade_intent \<Rightarrow> account_state \<Rightarrow> utc \<Rightarrow> canary_permit list \<Rightarrow>
     uuid \<Rightarrow> approved_order \<Rightarrow> bool" where
  \<comment> \<open>the permit the worker is configured with is issued and its scope fits the order\<close>
  "authorised oc c intent acct now permits pid ord \<longleftrightarrow>
     (\<exists>cfg. oc_canary oc = Some cfg \<and> pid = ca_permit_id cfg \<and> dc_capsule_id c = ca_capsule_id cfg \<and>
        canary_permit_scope_mismatches (oc_stdlib oc) (permit_for permits pid) acct (oc_symbol oc) ord intent cfg now
          = Inr [])"

lemma attempt_real_only:
  assumes "oc_canary oc = Some cfg"
    and "\<And>pid. authorised oc c intent acct now (fst (snd fr)) pid ord \<Longrightarrow> P pid ord"
  shows "sends_only fr P (attempt_real_entry_submission oc out cfg rid c ord intent acct now)"
  unfolding attempt_real_entry_submission_def
proof (rule only_if, rule only_calm, rule calm_refuse, rule only_get, rule only_liftM, rule only_if,
    rule only_calm, rule calm_refuse, rule only_bind, rule still_commit, rule submit_committed_only)
  fix w :: "'a world" and mm
  assume "frame w = fr" "\<not> dc_capsule_id c \<noteq> ca_capsule_id cfg" "\<not> mm \<noteq> []"
    "canary_permit_scope_mismatches (oc_stdlib oc) (permit_for (w_permits w) (ca_permit_id cfg)) acct
       (oc_symbol oc) ord intent cfg now = Inr mm"
  then have "authorised oc c intent acct now (fst (snd fr)) (ca_permit_id cfg) ord"
    using assms(1) by (auto simp: authorised_def frame_def)
  then show "P (ca_permit_id cfg) ord" by (rule assms(2))
qed

definition gate_open :: "'s orchestrator \<Rightarrow> kill_switch \<Rightarrow> observation \<Rightarrow> market_tick \<Rightarrow> utc \<Rightarrow> bool" where
  "gate_open oc switch ob tick now \<longleftrightarrow>
     (\<exists>version. worker_config_version oc = Inr version \<and>
        submission_legs (oc_stdlib oc) (submission_context_for oc version switch ob tick now) = [])"

lemma readiness_passed:
  assumes "evaluate_submission_readiness oc out rid ob tick now w = (Inr (SUBMISSION_GATE_PASSED, rs), w')"
  shows "gate_open oc (w_switch w) ob tick now"
  using assms
  by (auto simp: evaluate_submission_readiness_def gate_open_def bindM_eq_Inr Let_def submission.eval_result
      split: if_splits)

lemma submit_stage_only:
  assumes "\<And>pid. gate_open oc (fst fr) ob tick now \<Longrightarrow>
    authorised oc c intent (ob_account_state ob) now (fst (snd fr)) pid ord \<Longrightarrow> P pid ord"
  shows "sends_only fr P (submit_stage oc out rid c intent ord ob tick now)"
  unfolding submit_stage_def
proof (rule only_bind_result [where Q = "\<lambda>p. fst p = SUBMISSION_GATE_PASSED \<longrightarrow> gate_open oc (fst fr) ob tick now"])
  fix w :: "'a world" and x w'
  assume "evaluate_submission_readiness oc out rid ob tick now w = (Inr x, w')" "frame w = fr"
  then show "fst x = SUBMISSION_GATE_PASSED \<longrightarrow> gate_open oc (fst fr) ob tick now"
    using readiness_passed [of oc out rid ob tick now w "snd x" w'] by (cases x) (auto simp: frame_def)
next
  fix x :: "execution_event_type \<times> reason_code list"
  assume Q: "fst x = SUBMISSION_GATE_PASSED \<longrightarrow> gate_open oc (fst fr) ob tick now"
  show "sends_only fr P
      (case x of (t, reasons) \<Rightarrow>
         if t \<noteq> SUBMISSION_GATE_PASSED then returnM (outcome rid c t reasons)
         else case oc_canary oc of
           None \<Rightarrow> bindM (start_submission oc out rid ord now) (\<lambda>t'. returnM (outcome rid c t' []))
         | Some cfg \<Rightarrow> attempt_real_entry_submission oc out cfg rid c ord intent (ob_account_state ob) now)"
    by (rule only_pair, rule only_if, rule only_calm, rule calm.keeps_pure, rule only_option, rule only_calm,
        intro calm_intro, rule attempt_real_only, assumption) (use Q assms in auto)
qed (rule still_readiness)

lemma check_stage_only:
  assumes "\<And>pid. gate_open oc (fst fr) ob tick now \<Longrightarrow>
    authorised oc c intent (ob_account_state ob) now (fst (snd fr)) pid ord \<Longrightarrow> P pid ord"
  shows "sends_only fr P (check_stage oc out rid c intent d ord ob tick now)"
  unfolding check_stage_def Let_def
  by (rule only_liftM, rule only_liftM, rule only_bind, rule still_log, rule only_bind, rule still_ask,
      rule only_bind, rule still_log, rule only_if, rule only_calm, rule calm.keeps_pure, rule submit_stage_only)
     (use assms in blast)

definition risk_passed ::
  "'s orchestrator \<Rightarrow> uuid \<Rightarrow> decision_capsule \<Rightarrow> trade_intent \<Rightarrow> risk_decision \<Rightarrow> supervisor_decision \<Rightarrow>
     kill_switch \<Rightarrow> observation \<Rightarrow> utc \<Rightarrow> approved_order \<Rightarrow> bool" where
  \<comment> \<open>revalidated at execution time, against the observed account and book\<close>
  "risk_passed oc rid c intent prior sd switch ob now ord \<longleftrightarrow>
     (\<exists>snap spec pf ctx d. pf_account pf = ob_account_state ob \<and> pf_open_positions pf = ob_position_states ob \<and>
        revalidate (oc_stdlib oc) intent prior snap spec pf ctx switch now = Inr d \<and> rd_verdict d = PASS \<and>
        approved_order_for rid c intent prior d sd spec (oc_execution oc) now = Inr ord)"

definition cleared ::
  "'s orchestrator \<Rightarrow> uuid \<Rightarrow> decision_capsule \<Rightarrow> trade_intent \<Rightarrow> risk_decision \<Rightarrow> supervisor_decision \<Rightarrow>
     kill_switch \<times> canary_permit list \<times> broker_tables \<Rightarrow> uuid \<Rightarrow> approved_order \<Rightarrow> bool" where
  "cleared oc rid c intent prior sd fr pid ord \<longleftrightarrow>
     (\<exists>ob tick now. risk_passed oc rid c intent prior sd (fst fr) ob now ord \<and>
        gate_open oc (fst fr) ob tick now \<and>
        authorised oc c intent (ob_account_state ob) now (fst (snd fr)) pid ord)"

lemma final_risk_stage_only:
  "sends_only fr (cleared oc rid c intent prior sd fr)
     (final_risk_stage oc out rid c intent prior sd ctx ob spec tick snap recovery now)"
  unfolding final_risk_stage_def Let_def
proof (rule only_get, rule only_liftM, rule only_get, rule only_liftM, rule only_if,
    rule only_calm, rule calm_refuse, rule only_liftM, rule check_stage_only)
  fix w wa :: "'a world" and open_risk d ord pid
  assume "frame wa = fr" "\<not> rd_verdict d \<noteq> PASS"
    "revalidate (oc_stdlib oc) intent prior snap spec
        \<lparr>pf_account = ob_account_state ob, pf_open_positions = ob_position_states ob,
         pf_ledger = rec_ledger recovery,
         pf_orders_in_last_hour =
           int (count_events_since SUBMISSION_STARTED (now - hours_us 1)
             (market_events (w_requests w) (w_capsules w) (Some (pc_environment (oc_config oc)))
               (Some (oc_symbol oc)) (w_events w))),
         pf_seen_decision_hashes = {}, pf_open_risk_fraction = ora_fraction open_risk\<rparr>
        ctx (w_switch wa) now = Inr d"
    and ord: "approved_order_for rid c intent prior d sd spec (oc_execution oc) now = Inr ord"
    and "gate_open oc (fst fr) ob tick now" "authorised oc c intent (ob_account_state ob) now (fst (snd fr)) pid ord"
  moreover from this have "risk_passed oc rid c intent prior sd (fst fr) ob now ord"
    unfolding risk_passed_def by (intro exI conjI) (auto simp: frame_def)
  ultimately show "cleared oc rid c intent prior sd fr pid ord" unfolding cleared_def by blast
qed

lemma session_stage_only:
  "sends_only fr (cleared oc rid c intent prior sd fr)
     (session_stage oc out rid c intent prior sd ctx ob spec tick snap)"
  unfolding session_stage_def
proof (rule only_bind, rule still_ask, rule only_bind)
  fix x :: "session_recovery option" and final_now
  show "sends_only fr (cleared oc rid c intent prior sd fr)
     (case x of
        None \<Rightarrow>
          bindM (trip_unless_halted oc out [RISK_LEDGER_LOCK_UNAVAILABLE] ''execution_orchestrator'' final_now
                   (JStr ''risk-ledger lock unavailable'')) (\<lambda>_.
          refuse_attempt oc out rid c FINAL_RISK_BLOCKED [RISK_LEDGER_LOCK_UNAVAILABLE] final_now
            (Some ''risk-ledger lock unavailable'') None)
      | Some recovery \<Rightarrow>
          if must_halt recovery
          then bindM (trip_unless_halted oc out (rec_reason_codes recovery) ''execution_orchestrator'' final_now
                        (json_opt JStr (rec_detail recovery))) (\<lambda>_.
               refuse_attempt oc out rid c FINAL_RISK_BLOCKED (rec_reason_codes recovery) final_now
                 (rec_detail recovery) None)
          else final_risk_stage oc out rid c intent prior sd ctx ob spec tick snap recovery final_now)"
    by (rule only_option, rule only_calm, intro calm_intro, rule only_if, rule only_calm, intro calm_intro,
        rule final_risk_stage_only)
qed (intro still_intro, auto intro: still_intro split: if_splits)

lemma market_stage_only:
  "sends_only fr (cleared oc rid c intent prior sd fr) (market_stage oc out rid c intent prior sd ctx ob now)"
  unfolding market_stage_def
  by (rule only_bind, rule still_ask, rule only_option, rule only_calm, rule calm_refuse,
      rule only_bind, rule still_ask, rule only_option, rule only_calm, rule calm_refuse,
      rule only_liftM, rule session_stage_only)

definition flat_matched :: "'s orchestrator \<Rightarrow> broker_tables \<Rightarrow> bool" where
  \<comment> \<open>the recorded broker state is the flat one, as reconciliation sees it\<close>
  "flat_matched oc broker \<longleftrightarrow>
     (\<exists>ex latest now r.
        expect_flat (oc_stdlib oc) (pc_account_guard (oc_config oc)) (oc_symbol oc) (expectation_pin oc) = Inr ex \<and>
        reconcile (oc_stdlib oc) broker ex latest now DEFAULT_MAX_SNAPSHOT_AGE = Inr r \<and> rr_status r = MATCHED)"

lemma reconcile_flat_result:
  assumes "reconcile_flat oc out now w = (Inr r, w')" "rr_status r = MATCHED"
  shows "flat_matched oc (w_broker w)"
proof -
  have "w_broker w' = w_broker w" using keepsD [OF still_reconcile_flat assms(1)] by (simp add: still_def frame_def)
  with assms show ?thesis
    unfolding flat_matched_def
    by (auto simp: reconcile_flat_def bindM_eq_Inr ask_def Let_def split: option.splits)
qed

definition sends_when :: "(kill_switch \<times> canary_permit list \<times> broker_tables \<Rightarrow> uuid \<Rightarrow> approved_order \<Rightarrow> bool) \<Rightarrow>
    ('s world, 'a) prog \<Rightarrow> bool" where
  "sends_when P m \<longleftrightarrow>
     (\<forall>w r w'. m w = (r, w') \<longrightarrow>
        w_sent w' = w_sent w \<or> (\<exists>pid ord. w_sent w' = w_sent w @ [(pid, ord)] \<and> P (frame w') pid ord))"

lemma when_only:
  assumes "\<And>fr. sends_only fr (P fr) m"
  shows "sends_when P m"
  unfolding sends_when_def
proof (intro allI impI)
  fix w r w'
  assume "m w = (r, w')"
  from only_run [OF assms this refl]
  show "w_sent w' = w_sent w \<or> (\<exists>pid ord. w_sent w' = w_sent w @ [(pid, ord)] \<and> P (frame w') pid ord)"
    by auto
qed

lemma when_calm: "keeps calm m \<Longrightarrow> sends_when P m"
  unfolding sends_when_def by (meson calm_def keepsD)

lemma when_bind:
  fixes m :: "('s world, 'a) prog"
  assumes m: "keeps calm m" and f: "\<And>x. sends_when P (f x)"
  shows "sends_when P (bindM m f)"
  unfolding sends_when_def
proof (intro allI impI)
  fix w w' :: "'s world" and r
  assume run: "bindM m f w = (r, w')"
  obtain x w1 where mw: "m w = (x, w1)" by (metis surj_pair)
  from keepsD [OF m this] have s: "w_sent w1 = w_sent w" by (simp add: calm_def)
  show "w_sent w' = w_sent w \<or> (\<exists>pid ord. w_sent w' = w_sent w @ [(pid, ord)] \<and> P (frame w') pid ord)"
  proof (cases x)
    case (Inl e)
    with run mw s show ?thesis by (simp add: bindM_raise)
  next
    case (Inr a)
    with run mw have "f a w1 = (r, w')" by (simp add: bindM_run)
    with f [of a] s show ?thesis by (simp add: sends_when_def) metis
  qed
qed

lemma when_if: "(b \<Longrightarrow> sends_when P m) \<Longrightarrow> (\<not> b \<Longrightarrow> sends_when P m') \<Longrightarrow> sends_when P (if b then m else m')"
  by simp

lemma when_then_return: "sends_when P m \<Longrightarrow> sends_when P (bindM m (\<lambda>x. returnM (f x)))"
  by (fastforce simp: sends_when_def bindM_def split: prod.splits sum.splits)

definition cleared_flat ::
  "'s orchestrator \<Rightarrow> uuid \<Rightarrow> decision_capsule \<Rightarrow> trade_intent \<Rightarrow> risk_decision \<Rightarrow> supervisor_decision \<Rightarrow>
     kill_switch \<times> canary_permit list \<times> broker_tables \<Rightarrow> uuid \<Rightarrow> approved_order \<Rightarrow> bool" where
  "cleared_flat oc rid c intent prior sd fr pid ord \<longleftrightarrow>
     cleared oc rid c intent prior sd fr pid ord \<and> flat_matched oc (snd (snd fr))"

lemma only_strengthen:
  assumes "sends_only fr P m" and imp: "\<And>pid ord. P pid ord \<Longrightarrow> P' pid ord"
  shows "sends_only fr P' m"
  unfolding sends_only_def
proof (intro allI impI, elim conjE)
  fix w r w'
  assume "m w = (r, w')" "frame w = fr"
  from only_run [OF assms(1) this] imp
  show "w_sent w' = w_sent w \<or> frame w' = fr \<and> (\<exists>pid ord. w_sent w' = w_sent w @ [(pid, ord)] \<and> P' pid ord)"
    by auto
qed

lemma observe_stage_when:
  "sends_when (cleared_flat oc rid c intent prior sd) (observe_stage oc out rid c intent prior sd ctx now)"
  unfolding observe_stage_def
proof (rule when_bind, rule calm_observe, rule when_only)
  fix ob :: observation and fr
  show "sends_only fr (cleared_flat oc rid c intent prior sd fr)
      (bindM (reconcile_flat oc out now :: ('a world, recon_result) prog) (\<lambda>r.
         if rr_status r \<noteq> MATCHED
         then refuse_attempt oc out rid c RECONCILIATION_BLOCKED
                [if rr_status r = MISMATCHED then RECONCILIATION_MISMATCH else RECONCILIATION_UNKNOWN] now
                (recon_text r) None
         else market_stage oc out rid c intent prior sd ctx ob now))"
  proof (rule only_bind_result [where Q = "\<lambda>r. rr_status r = MATCHED \<longrightarrow> flat_matched oc (snd (snd fr))"])
    fix w :: "'a world" and r w'
    assume "reconcile_flat oc out now w = (Inr r, w')" "frame w = fr"
    then show "rr_status r = MATCHED \<longrightarrow> flat_matched oc (snd (snd fr))"
      using reconcile_flat_result by (auto simp: frame_def)
  next
    fix r :: recon_result
    assume "rr_status r = MATCHED \<longrightarrow> flat_matched oc (snd (snd fr))"
    then show "sends_only fr (cleared_flat oc rid c intent prior sd fr)
        (if rr_status r \<noteq> MATCHED
         then refuse_attempt oc out rid c RECONCILIATION_BLOCKED
                [if rr_status r = MISMATCHED then RECONCILIATION_MISMATCH else RECONCILIATION_UNKNOWN] now
                (recon_text r) None
         else market_stage oc out rid c intent prior sd ctx ob now)"
      by (intro only_if only_calm calm_refuse only_strengthen [OF market_stage_only]) (simp_all add: cleared_flat_def)
  qed (rule still_reconcile_flat)
qed

lemma process_when:
  "sends_when (\<lambda>fr pid ord. \<exists>intent prior sd.
       dc_trade_intent c = Some intent \<and> dc_risk_decision c = Some prior \<and>
       cleared_flat oc (order_request_id_for (oc_stdlib oc) intent) c intent prior sd fr pid ord)
     (process oc out c now)"
  (is "sends_when ?P _")
proof (cases "dc_trade_intent c = None \<or> dc_risk_decision c = None \<or> dc_supervisor_decision c = None")
  case True
  then show ?thesis
    by (auto simp: process_def sends_when_def split: option.splits)
next
  case False
  then obtain intent prior sd where c: "dc_trade_intent c = Some intent" "dc_risk_decision c = Some prior"
      "dc_supervisor_decision c = Some sd"
    by auto
  let ?rid = "order_request_id_for (oc_stdlib oc) intent"
  have "sends_when ?P (observe_stage oc out ?rid c intent prior sd ctx t)" for ctx and t
    using observe_stage_when [of oc ?rid c intent prior sd out ctx t] unfolding sends_when_def
    by (metis c(1,2))
  then show ?thesis
    unfolding process_def claim_stage_def screen_stage_def c option.case prod.case
    by (intro when_if when_bind when_then_return) (auto intro!: when_calm calm_intro)
qed


subsection \<open>What every sent order satisfies\<close>

lemma refuse_at_execution_not_pass:
  "refuse_at_execution_time sl intent rs ctx now = Inr d \<Longrightarrow> rd_verdict d \<noteq> PASS"
  by (auto simp: refuse_at_execution_time_def mapE_eq_Inr dest: refuse_Inr)

lemma revalidate_pass_cases:
  assumes "revalidate sl intent prior snap spec pf ctx sw now = Inr d" "rd_verdict d = PASS"
  shows "rd_verdict prior = PASS \<and> rd_approved_volume d = rd_approved_volume prior \<and>
    (\<exists>fresh. evaluate sl intent snap spec pf ctx sw now = Inr fresh \<and> rd_verdict fresh = PASS)"
  using assms
  by (auto simp: revalidate_def bindE_eq_Inr Let_def dest: refuse_at_execution_not_pass
      split: risk_verdict.splits option.splits if_splits)

lemma approved_order_fields:
  assumes "approved_order_for rid c intent prior d sd spec ec now = Inr ord"
  shows "ao_order_request_id ord = rid \<and> rd_approved_volume d = Some (ao_volume ord) \<and>
    ti_stop_loss_price intent = Some (ao_stop_loss_price ord) \<and> ao_side ord = ti_side intent \<and>
    ao_entry_type ord = ti_entry_type intent \<and> ao_environment ord = dc_environment c"
  using assms by (auto simp: approved_order_for_def split: option.splits)

lemma gate_open_facts:
  "gate_open oc switch ob tick now \<Longrightarrow>
     \<not> is_halted switch \<and> ec_submission_enabled (oc_execution oc) \<and> ec_feedback_2_0_approved (oc_execution oc) \<and>
     pc_environment (oc_config oc) \<in> {PAPER, SHADOW} \<and> as_is_demo (ob_account_state ob)"
  by (auto simp: gate_open_def submission_legs_def submission_context_for_def DEMO_ONLY_ENVIRONMENTS_def)

lemma authorised_facts:
  "authorised oc c intent acct now permits pid ord \<Longrightarrow>
     \<exists>cfg permit. oc_canary oc = Some cfg \<and> pid = ca_permit_id cfg \<and> dc_capsule_id c = ca_capsule_id cfg \<and>
       permit_for permits pid = Some permit \<and> cp_canonical_symbol permit = oc_symbol oc \<and>
       cp_entry_type permit = ao_entry_type ord \<and> now \<le> cp_valid_until permit"
  by (auto simp: authorised_def canary_permit_scope_mismatches_def bindE_eq_Inr split: option.splits)


lemma approved_order_market:
  "approved_order_for rid c intent prior d sd spec ec now = Inr ord \<Longrightarrow> ti_entry_type intent = MARKET"
  by (auto simp: approved_order_for_def contract_def approved_order_valid_def split: option.splits if_splits)

text \<open>
  C40. A decision that is not a market order never reaches the broker, though permits for
  limit orders exist: the worker prices no order, so when such a decision has passed every
  gate the order contract refuses it with an error nothing on the path catches, and whatever
  happens nothing is sent.
\<close>

theorem limit_decision_never_sent:
  assumes "dc_trade_intent c = Some intent" "ti_entry_type intent \<noteq> MARKET"
    and "rd_approved_volume d = Some volume" "ti_stop_loss_price intent = Some stop"
  shows "w_sent (snd (process oc out c now w)) = w_sent w \<and>
    approved_order_for rid c intent prior d sd spec ec t = Inl ValidationError"
proof
  show "w_sent (snd (process oc out c now w)) = w_sent w"
  proof (rule ccontr)
    assume sent: "w_sent (snd (process oc out c now w)) \<noteq> w_sent w"
    obtain r w' where "process oc out c now w = (r, w')" by (metis surj_pair)
    with sent process_when [of c oc out now] obtain pid ord prior sd where
        "cleared_flat oc (order_request_id_for (oc_stdlib oc) intent) c intent prior sd (frame w') pid ord"
      using assms(1) unfolding sends_when_def by fastforce
    then show False
      using approved_order_market assms(2) unfolding cleared_flat_def cleared_def risk_passed_def by blast
  qed
  show "approved_order_for rid c intent prior d sd spec ec t = Inl ValidationError"
    using assms(2-4) by (simp add: approved_order_for_def contract_def approved_order_valid_def)
qed

end
