(* ===== verification/Flatten_Safety.thy ===== *)
theory Flatten_Safety
  imports Execution
begin

text \<open>
  What the automatic flatten may close, and what it leaves undone. A program is
  \<open>closing\<close> from a table of flatten events if it only appends to that table, and every
  close it attempts is an instruction committed there, on a ticket the terminal reported
  open, by a worker that was given a close adapter and whose configuration enables it.
\<close>

subsection \<open>Legitimate closes\<close>

definition legit_close ::
  "'s orchestrator \<Rightarrow> outside \<Rightarrow> flatten_event_record list \<Rightarrow> flatten_instruction \<Rightarrow> bool" where
  "legit_close oc out rows i \<longleftrightarrow>
     oc_close_adapter oc \<and> ec_flatten_submission_enabled (oc_execution oc) \<and>
     (\<exists>e is. e \<in> set rows \<and> ev_event_type e = FLATTEN_SUBMISSION_STARTED \<and>
        committed_instructions (oc_stdlib oc) (ev_payload e) = Inr is \<and> i \<in> set is) \<and>
     (\<exists>n ps p. out_positions out n = Inr ps \<and> p \<in> set ps \<and> ps_ticket p = fi_ticket i)"

lemma legit_mono: "legit_close oc out rows i \<Longrightarrow> set rows \<subseteq> set rows' \<Longrightarrow> legit_close oc out rows' i"
  unfolding legit_close_def by blast

definition closing ::
  "'s orchestrator \<Rightarrow> outside \<Rightarrow> flatten_event_record list \<Rightarrow> ('s world, 'a) prog \<Rightarrow> bool" where
  "closing oc out E m \<longleftrightarrow>
     (\<forall>w r w'. m w = (r, w') \<and> set E \<subseteq> set (w_flatten_events w) \<longrightarrow>
        set (w_flatten_events w) \<subseteq> set (w_flatten_events w') \<and>
        (\<exists>new. w_closes w' = w_closes w @ new \<and> list_all (legit_close oc out (w_flatten_events w')) new))"

lemma closing_run:
  assumes "closing oc out E m" "m w = (r, w')" "set E \<subseteq> set (w_flatten_events w)"
  obtains new where "set (w_flatten_events w) \<subseteq> set (w_flatten_events w')" "w_closes w' = w_closes w @ new"
    "list_all (legit_close oc out (w_flatten_events w')) new"
  using assms unfolding closing_def by blast

text \<open>Steps that close nothing and only append flatten events.\<close>

definition quiet :: "'s world \<Rightarrow> 's world \<Rightarrow> bool" where
  "quiet w w' \<longleftrightarrow> w_closes w' = w_closes w \<and> set (w_flatten_events w) \<subseteq> set (w_flatten_events w')"

interpretation quiet: effect_order quiet
  by unfold_locales (auto simp: quiet_def)

named_theorems quiet_intro "steps that close nothing"

lemmas [quiet_intro] = quiet.keeps_rules

lemma quiet_ask [quiet_intro]: "keeps quiet (ask out a)" "keeps quiet (clock out)"
  by (auto simp: keeps_def ask_def clock_def quiet_def Let_def split: option.splits)

lemma append_flatten_grows: "append_event sl row rows = Inr (won, rows') \<Longrightarrow> set rows \<subseteq> set rows'"
  using event_table.put_extends by fastforce

lemma quiet_log [quiet_intro]:
  "keeps quiet (log_event oc out rid t now rs d p)" "keeps quiet (log_flatten oc out rid ft now rs p)"
  by (auto simp: keeps_def log_event_def log_flatten_def transaction_def put_event_def put_flatten_event_def quiet_def
      Let_def split: option.splits sum.splits prod.splits dest: append_flatten_grows)

lemma quiet_claim [quiet_intro]: "keeps quiet (transaction out (put_flatten_request row))"
  by (auto simp: keeps_def transaction_def put_flatten_request_def quiet_def Let_def
      split: option.splits sum.splits prod.splits)

lemma quiet_trip [quiet_intro]: "keeps quiet (trip_unless_halted oc out rs who now d)"
proof -
  have "keeps quiet (trip_switch oc rs who now d)"
    by (auto simp: keeps_def trip_switch_def quiet_def split: prod.splits)
  then show ?thesis unfolding trip_unless_halted_def by (intro quiet_intro)
qed

lemma quiet_trips [quiet_intro]:
  "keeps quiet (trip_overnight_exposure oc out ps now)"
  "keeps quiet (trip_flatten_state_unknown oc out now)"
  "keeps quiet (trip_flatten_close_failed oc out now)"
  unfolding trip_overnight_exposure_def trip_flatten_state_unknown_def trip_flatten_close_failed_def
  by (intro quiet_intro)+

lemma quiet_record [quiet_intro]:
  "keeps quiet (transaction out (modifyM (\<lambda>w. w\<lparr>w_broker := f (w_broker w)\<rparr>)))"
  by (auto simp: keeps_def transaction_def quiet_def Let_def split: option.splits)

lemma quiet_read_or_failed: "keeps quiet m \<Longrightarrow> keeps quiet (read_or_failed m)"
  unfolding read_or_failed_def by (intro quiet_intro) (auto split: if_splits)

lemma quiet_observe [quiet_intro]: "keeps quiet (observe oc out env)"
  unfolding observe_def capture_broker_state_def by (intro quiet_intro quiet_read_or_failed)

lemma quiet_finish [quiet_intro]: "keeps quiet (finish_flatten oc out frid is b so now)"
  unfolding finish_flatten_def Let_def by (intro quiet_intro)

lemma quiet_reconcile_flat [quiet_intro]: "keeps quiet (reconcile_flat oc out now)"
  unfolding reconcile_flat_def by (intro quiet_intro)

lemma quiet_commit [quiet_intro]: "keeps quiet (commit_flatten oc out frid ob day sc dl pd cr now)"
  unfolding commit_flatten_def Let_def by (intro quiet_intro)


subsection \<open>Composing closing programs\<close>

lemma closing_quiet: "keeps quiet m \<Longrightarrow> closing oc out E m"
  unfolding closing_def
proof (intro allI impI, elim conjE)
  fix w w' r
  assume "keeps quiet m" "m w = (r, w')"
  then have "quiet w w'" by (rule keepsD)
  then show "set (w_flatten_events w) \<subseteq> set (w_flatten_events w') \<and>
      (\<exists>new. w_closes w' = w_closes w @ new \<and> list_all (legit_close oc out (w_flatten_events w')) new)"
    by (auto simp: quiet_def)
qed

lemma closing_bind:
  fixes m :: "('s world, 'a) prog"
  assumes m: "closing oc out E m" and f: "\<And>x w w'. m w = (Inr x, w') \<Longrightarrow> closing oc out E (f x)"
  shows "closing oc out E (bindM m f)"
  unfolding closing_def
proof (intro allI impI, elim conjE)
  fix w w' :: "'s world" and r
  assume run: "bindM m f w = (r, w')" and E: "set E \<subseteq> set (w_flatten_events w)"
  obtain x w1 where mw: "m w = (x, w1)" by (metis surj_pair)
  from closing_run [OF m mw E] obtain new where 1: "set (w_flatten_events w) \<subseteq> set (w_flatten_events w1)"
      "w_closes w1 = w_closes w @ new" "list_all (legit_close oc out (w_flatten_events w1)) new" .
  show "set (w_flatten_events w) \<subseteq> set (w_flatten_events w') \<and>
      (\<exists>new. w_closes w' = w_closes w @ new \<and> list_all (legit_close oc out (w_flatten_events w')) new)"
  proof (cases x)
    case (Inl e)
    with run mw 1 show ?thesis by (auto simp: bindM_raise)
  next
    case (Inr a)
    with run mw have fa: "f a w1 = (r, w')" by (simp add: bindM_run)
    have "set E \<subseteq> set (w_flatten_events w1)" using E 1 by blast
    from closing_run [OF f [OF mw [unfolded Inr]] fa this] obtain new' where
        2: "set (w_flatten_events w1) \<subseteq> set (w_flatten_events w')" "w_closes w' = w_closes w1 @ new'"
          "list_all (legit_close oc out (w_flatten_events w')) new'" .
    have "legit_close oc out (w_flatten_events w') i" if "i \<in> set new" for i
      using legit_mono [of oc out _ i, OF _ 2(1)] 1(3) that by (simp add: list_all_iff)
    with 2(3) have "list_all (legit_close oc out (w_flatten_events w')) (new @ new')"
      by (auto simp: list_all_iff)
    with 1 2 show ?thesis by auto
  qed
qed

lemma closing_then: "closing oc out E m \<Longrightarrow> (\<And>x. closing oc out E (f x)) \<Longrightarrow> closing oc out E (bindM m f)"
  by (rule closing_bind)

lemma closing_if:
  "(b \<Longrightarrow> closing oc out E m) \<Longrightarrow> (\<not> b \<Longrightarrow> closing oc out E m') \<Longrightarrow> closing oc out E (if b then m else m')"
  by simp

lemma closing_option:
  "(x = None \<Longrightarrow> closing oc out E m) \<Longrightarrow> (\<And>y. x = Some y \<Longrightarrow> closing oc out E (f y)) \<Longrightarrow>
     closing oc out E (case x of None \<Rightarrow> m | Some y \<Rightarrow> f y)"
  by (cases x) simp_all

lemma closing_return: "closing oc out E (returnM x)"
  by (rule closing_quiet, rule quiet.keeps_pure)

lemma closing_get_events:
  assumes "\<And>rows. closing oc out rows (f (g rows))"
  shows "closing oc out E (bindM (getM (\<lambda>w. g (w_flatten_events w))) f)"
  unfolding closing_def bindM_basic
proof (intro allI impI, elim conjE)
  fix w w' r
  assume "f (g (w_flatten_events w)) w = (r, w')"
  from closing_run [OF assms this] show "set (w_flatten_events w) \<subseteq> set (w_flatten_events w') \<and>
      (\<exists>new. w_closes w' = w_closes w @ new \<and> list_all (legit_close oc out (w_flatten_events w')) new)" by blast
qed

lemma closing_liftM: "(\<And>x. r = Inr x \<Longrightarrow> closing oc out E (f x)) \<Longrightarrow> closing oc out E (bindM (liftM r) f)"
  by (rule closing_bind) (auto intro: closing_quiet)

lemma closing_for: "(\<And>x. x \<in> set xs \<Longrightarrow> closing oc out E (f x)) \<Longrightarrow> closing oc out E (forM f xs)"
proof (induction xs)
  case Nil
  show ?case unfolding forM.simps by (rule closing_quiet, rule quiet.keeps_pure)
next
  case (Cons x xs)
  then show ?case
    unfolding forM.simps by (intro closing_then closing_return) simp_all
qed


subsection \<open>The driver\<close>

lemma closing_one:
  assumes "legit_close oc out E i"
  shows "closing oc out E (close_one out i)"
  unfolding closing_def
proof (intro allI impI, elim conjE)
  fix w w' r
  assume run: "close_one out i w = (r, w')" and E: "set E \<subseteq> set (w_flatten_events w)"
  then have "w_flatten_events w' = w_flatten_events w \<and> (w_closes w' = w_closes w \<or> w_closes w' = w_closes w @ [i])"
    by (auto simp: close_one_def catchM_def bindM_def ask_def Let_def
        split: option.splits sum.splits prod.splits if_splits)
  with legit_mono [OF assms E] show "set (w_flatten_events w) \<subseteq> set (w_flatten_events w') \<and>
      (\<exists>new. w_closes w' = w_closes w @ new \<and> list_all (legit_close oc out (w_flatten_events w')) new)"
    by auto
qed

lemma observed_positions:
  assumes "observe oc out env w = (Inr ob, w')"
  shows "ob_position_states ob = [] \<or> (\<exists>n. out_positions out n = Inr (ob_position_states ob))"
  using assms
  by (auto simp: observe_def capture_broker_state_def bindM_eq_Inr read_or_failed_def catchM_eq_Inr ask_def Let_def
      split: option.splits prod.splits if_splits)

lemma closing_attempt:
  assumes committed: "e \<in> set E" "ev_event_type e = FLATTEN_SUBMISSION_STARTED"
      "committed_instructions (oc_stdlib oc) (ev_payload e) = Inr is"
    and observed: "ps = [] \<or> (\<exists>n. out_positions out n = Inr ps)"
  shows "closing oc out E (attempt_and_resolve_flatten oc out frid ps is now)"
proof -
  have "closing oc out E (forM (close_one out) (still_open_of ps is))"
    if "oc_close_adapter oc \<and> ec_flatten_submission_enabled (oc_execution oc)"
  proof (rule closing_for, rule closing_one)
    fix i
    assume "i \<in> set (still_open_of ps is)"
    then obtain p where "i \<in> set is" "p \<in> set ps" "ps_ticket p = fi_ticket i"
      by (auto simp: still_open_of_def)
    with that committed observed show "legit_close oc out E i" unfolding legit_close_def by fastforce
  qed
  then show ?thesis
    unfolding attempt_and_resolve_flatten_def Let_def
    by (intro closing_if closing_then closing_quiet [OF quiet_observe] closing_quiet [OF quiet_ask(2)]
        closing_quiet [OF quiet_finish]) blast+
qed

lemma closing_resolve:
  assumes "set es \<subseteq> set E" and "ps = [] \<or> (\<exists>n. out_positions out n = Inr ps)"
  shows "closing oc out E (resolve_flatten_outcome oc out frid ps es now)"
proof (cases "last_opt es")
  case None
  then show ?thesis by (simp add: resolve_flatten_outcome_def closing_quiet)
next
  case (Some e)
  have e: "e \<in> set E" by (rule subsetD [OF assms(1) last_opt_Some [OF Some]])
  show ?thesis
    unfolding resolve_flatten_outcome_def Some option.case
    by (rule closing_if, rule closing_return, rule closing_liftM, rule closing_then,
        rule closing_attempt [OF e _ _ assms(2)], simp, assumption, rule closing_return)
qed

lemma closing_first:
  "closing oc out E (first_flatten oc out policy frid day sc dl now)"
  unfolding first_flatten_def Let_def
proof (rule closing_bind, rule closing_quiet, rule quiet_observe)
  fix ob and w w' :: "'a world"
  assume "observe oc out (pc_environment (oc_config oc)) w = (Inr ob, w')"
  note ps = observed_positions [OF this]
  have lost: "closing oc out E
      (bindM (getM (\<lambda>w. events_for (w_flatten_events w) frid)) (\<lambda>events.
         resolve_flatten_outcome oc out frid (ob_position_states ob) events now))"
    by (rule closing_get_events, rule closing_resolve) (use ps in \<open>auto simp: events_for_def\<close>)
  show "closing oc out E
      (bindM (whenM (phase_at (oc_calendar oc) policy now = FLATTEN_REQUIRED \<and>
                   bas_position_set_state (ob_account ob) \<noteq> COMPLETE)
              (trip_flatten_state_unknown oc out now)) (\<lambda>_.
       if ob_position_states ob = [] then returnM None
       else if \<not> (requires_flat (oc_calendar oc) policy now \<or>
                 list_ex (\<lambda>p. has_crossed_weekly_close (oc_calendar oc) (ps_opened_at p) now) (ob_position_states ob))
       then returnM None
       else
         bindM (liftM (flatten_fingerprint oc day sc dl policy)) (\<lambda>fp.
         bindM (transaction out (put_flatten_request
                  \<lparr>fr_flatten_request_id = frid, fr_environment = pc_environment (oc_config oc),
                   fr_canonical_symbol = oc_symbol oc, fr_trading_day = day, fr_session_close = sc,
                   fr_flatten_deadline = dl, fr_fingerprint = fp, fr_claimed_by = oc_worker oc,
                   fr_claimed_at = now\<rparr>)) (\<lambda>claimed.
         bindM (trip_overnight_exposure oc out (ob_position_states ob) now) (\<lambda>_.
         if \<not> claimed
         then bindM (getM (\<lambda>w. events_for (w_flatten_events w) frid)) (\<lambda>events.
              resolve_flatten_outcome oc out frid (ob_position_states ob) events now)
         else bindM (commit_flatten oc out frid ob day sc dl
                       (requires_flat (oc_calendar oc) policy now)
                       (list_ex (\<lambda>p. has_crossed_weekly_close (oc_calendar oc) (ps_opened_at p) now)
                          (ob_position_states ob)) now)
                (\<lambda>r. returnM (Some r)))))))"
    by (rule closing_then, rule closing_quiet, intro quiet_intro, rule closing_if, rule closing_return,
        rule closing_if, rule closing_return, rule closing_liftM, rule closing_then, rule closing_quiet,
        rule quiet_claim, rule closing_then, rule closing_quiet, rule quiet_trips, rule closing_if, rule lost,
        rule closing_then, rule closing_quiet, rule quiet_commit, rule closing_return)
qed

lemma closing_flatten_once: "closing oc out E (flatten_once oc out)"
proof -
  have resume: "closing oc out rows
      (bindM (observe oc out (pc_environment (oc_config oc))) (\<lambda>ob.
       bindM (trip_overnight_exposure oc out (ob_position_states ob) now) (\<lambda>_.
       resolve_flatten_outcome oc out frid (ob_position_states ob) (events_for rows frid) now)))" for rows frid now
  proof (rule closing_bind, rule closing_quiet, rule quiet_observe)
    fix ob and w w' :: "'a world"
    assume "observe oc out (pc_environment (oc_config oc)) w = (Inr ob, w')"
    note ps = observed_positions [OF this]
    show "closing oc out rows
       (bindM (trip_overnight_exposure oc out (ob_position_states ob) now) (\<lambda>_.
       resolve_flatten_outcome oc out frid (ob_position_states ob) (events_for rows frid) now))"
      by (rule closing_bind, rule closing_quiet, rule quiet_trips, rule closing_resolve)
         (use ps in \<open>auto simp: events_for_def\<close>)
  qed
  show ?thesis
    unfolding flatten_once_def Let_def
    by (rule closing_then, rule closing_quiet, rule quiet_ask, rule closing_liftM, rule closing_if,
        rule closing_return, rule closing_option, rule closing_return, rule closing_get_events,
        rule closing_option, rule closing_first, rule closing_if, rule closing_return, rule resume)
qed

text \<open>
  C14. What the automatic flatten may close. However a pass ends and whatever the outside
  does, the only closes it attempts are instructions committed in the durable event table
  under a \<open>FLATTEN_SUBMISSION_STARTED\<close> row, on tickets the terminal reported open, and a
  worker without a close adapter, or whose configuration does not enable real flattening,
  attempts none; the table only grows.
\<close>

theorem flatten_closes_only_committed:
  "set (w_flatten_events w) \<subseteq> set (w_flatten_events (snd (flatten_once oc out w))) \<and>
   (w_closes (snd (flatten_once oc out w)) = w_closes w \<or>
    oc_close_adapter oc \<and> ec_flatten_submission_enabled (oc_execution oc) \<and>
    (\<exists>new. w_closes (snd (flatten_once oc out w)) = w_closes w @ new \<and>
       list_all (\<lambda>i.
         (\<exists>e is. e \<in> set (w_flatten_events (snd (flatten_once oc out w))) \<and>
            ev_event_type e = FLATTEN_SUBMISSION_STARTED \<and>
            committed_instructions (oc_stdlib oc) (ev_payload e) = Inr is \<and> i \<in> set is) \<and>
         (\<exists>n ps p. out_positions out n = Inr ps \<and> p \<in> set ps \<and> ps_ticket p = fi_ticket i)) new))"
proof -
  obtain r w' where run: "flatten_once oc out w = (r, w')" by (metis surj_pair)
  from closing_run [OF closing_flatten_once run, of "[]"] obtain new where
      "set (w_flatten_events w) \<subseteq> set (w_flatten_events w')" "w_closes w' = w_closes w @ new"
      "list_all (legit_close oc out (w_flatten_events w')) new"
    by auto
  then show ?thesis
    unfolding run snd_conv by (cases new) (auto simp: legit_close_def list_all_iff)
qed

end
