(* ===== verification/Flatten_Faults.thy ===== *)
theory Flatten_Faults
  imports Flatten_Safety
begin

text \<open>
  Two ways the automatic flatten ends without a flat book: a pass interrupted between the
  claim and the commitment, and a recovery pass whose read of the positions fails.
\<close>

subsection \<open>Runs without faults\<close>

definition faultless :: "outside \<Rightarrow> bool" where
  "faultless out \<longleftrightarrow> out_fault out = (\<lambda>_. None) \<and> out_commit_lost out = (\<lambda>_. None)"

lemma ask_run: "faultless out \<Longrightarrow> ask out a w = (a (w_calls w), w\<lparr>w_calls := w_calls w + 1\<rparr>)"
  by (simp add: ask_def faultless_def Let_def)

lemma clock_run: "faultless out \<Longrightarrow> clock out w = (Inr (out_now out (w_calls w)), w\<lparr>w_calls := w_calls w + 1\<rparr>)"
  by (simp add: clock_def ask_run)

lemma transaction_run:
  "faultless out \<Longrightarrow> body (w\<lparr>w_calls := w_calls w + 1\<rparr>) = (Inr x, w') \<Longrightarrow> transaction out body w = (Inr x, w')"
  by (simp add: transaction_def faultless_def Let_def)

lemmas runs = ask_run clock_run transaction_run

lemma log_flatten_new:
  assumes "faultless out"
    and "flatten_event_id_for (oc_stdlib oc) rid t \<notin> ev_event_id ` set (w_flatten_events w)"
  shows "log_flatten oc out rid t now reasons p w =
    (Inr True, w\<lparr>w_calls := w_calls w + 1,
        w_flatten_events := w_flatten_events w @ [flatten_event (oc_stdlib oc) rid t now reasons None p]\<rparr>)"
proof -
  have "append_event (oc_stdlib oc) (flatten_event (oc_stdlib oc) rid t now reasons None p) (w_flatten_events w) =
      Inr (True, w_flatten_events w @ [flatten_event (oc_stdlib oc) rid t now reasons None p])"
    using assms(2) by (intro event_table.put_new) (simp add: flatten_event_def)
  then show ?thesis
    unfolding log_flatten_def by (intro transaction_run assms(1)) (simp add: put_flatten_event_def)
qed

lemma account_snapshot_ok:
  assumes "account_state_valid acct"
  shows "\<exists>s. account_snapshot sl sid obs rec env acct extras terminal ps qs = Inr s \<and>
    bas_position_set_state s = ps \<and> bas_pending_order_set_state s = qs \<and> bas_snapshot_id s = sid \<and>
    bas_observed_at s = obs \<and> bas_terminal_trade_allowed s = terminal"
proof -
  obtain h where "login_hash sl acct = Inr h" using login_hash_total by blast
  with assms show ?thesis
    by (simp add: account_snapshot_def contract_def broker_account_snapshot_valid_def account_state_valid_def)
qed

lemma observe_failed_positions:
  fixes w :: "'s world"
  assumes "faultless out" "n = w_calls w"
    and "out_account out (n + 2) = Inr (acct, extras)" "account_state_valid acct"
    and "out_terminal_trade_allowed out (n + 3) = Inr terminal"
    and "out_positions out (n + 4) = Inl Mt5CallFailed" "out_pending_orders out (n + 5) = Inr qs"
  shows "\<exists>ob w'. observe oc out env w = (Inr ob, w') \<and> ob_position_states ob = [] \<and>
    w_flatten_events w' = w_flatten_events w \<and> w_closes w' = w_closes w \<and> w_switch w' = w_switch w"
proof -
  obtain s where s: "account_snapshot (oc_stdlib oc) (out_uuid out n) (out_now out (n + 1)) (out_now out (n + 6)) env
      acct extras terminal FAILED COMPLETE = Inr s"
    using account_snapshot_ok [OF assms(4)] by blast
  have read: "read_or_failed (ask out (out_positions out)) (w\<lparr>w_calls := n + 4\<rparr>) = (Inr ([], FAILED), w\<lparr>w_calls := n + 5\<rparr>)"
    "read_or_failed (ask out (out_pending_orders out)) (w\<lparr>w_calls := n + 5\<rparr>) = (Inr (qs, COMPLETE), w\<lparr>w_calls := n + 6\<rparr>)"
    using assms by (simp_all add: read_or_failed_def catchM_def bindM_def ask_run)
  let ?ob = "\<lparr>ob_account = s, ob_positions = [],
       ob_pending_orders = map (order_snapshot (out_uuid out n) (out_now out (n + 1)) (oc_symbol oc)) qs,
       ob_account_state = acct, ob_position_states = []\<rparr>"
  have capture: "capture_broker_state oc out env w = (Inr ?ob, w\<lparr>w_calls := n + 7\<rparr>)"
    using assms(1-3,5) read s
    by (simp add: capture_broker_state_def bindM_def ask_run clock_run numeral_eq_Suc)
  have "transaction out (modifyM (\<lambda>w. w\<lparr>w_broker := record_observation ?ob (w_broker w)\<rparr>)) (w\<lparr>w_calls := n + 7\<rparr>) =
      (Inr (), w\<lparr>w_calls := n + 8, w_broker := record_observation ?ob (w_broker w)\<rparr>)"
    by (rule transaction_run [OF assms(1)]) (simp add: numeral_eq_Suc)
  with capture have "observe oc out env w = (Inr ?ob, w\<lparr>w_calls := n + 8, w_broker := record_observation ?ob (w_broker w)\<rparr>)"
    by (simp add: observe_def bindM_def)
  then show ?thesis by (intro exI conjI) (assumption, simp_all)
qed

text \<open>
  C39. A failed read is taken for a flat book: when the pass that should act on a committed
  flatten cannot read the positions, everything else working, the occurrence is durably
  recorded as resolved and flattened with every committed ticket "closed", although nothing
  was closed, and the kill switch is left as it was.
\<close>

theorem failed_read_resolves_flatten:
  assumes "faultless out" "n = w_calls w"
    and "policy_from_config (pc_intraday (oc_config oc)) = Inr policy" "ip_enabled policy"
    and "cal_weekly_close (oc_calendar oc) (out_now out n) = Some session_close"
    and "frid = flatten_request_id_for (oc_stdlib oc) (pc_environment (oc_config oc)) (oc_symbol oc)
                  (trading_day (oc_zone oc) (out_now out n))"
    and "last_opt (events_for (w_flatten_events w) frid) = Some e"
    and "ev_event_type e = FLATTEN_SUBMISSION_STARTED"
    and "committed_instructions (oc_stdlib oc) (ev_payload e) = Inr is"
    and "flatten_event_id_for (oc_stdlib oc) frid FLATTEN_OUTCOME_RESOLVED \<notin> ev_event_id ` set (w_flatten_events w)"
    and "out_account out (n + 3) = Inr (acct, extras)" "account_state_valid acct"
    and "out_terminal_trade_allowed out (n + 4) = Inr terminal"
    and "out_positions out (n + 5) = Inl Mt5CallFailed" "out_pending_orders out (n + 6) = Inr qs"
  shows "\<exists>w' ev. flatten_once oc out w =
      (Inr (Some \<lparr>fo_flatten_request_id = frid, fo_event_type = FLATTEN_OUTCOME_RESOLVED, fo_reason_codes = [],
                  fo_target_count = length is, fo_closed_count = length is\<rparr>), w') \<and>
    w_closes w' = w_closes w \<and> w_switch w' = w_switch w \<and> w_flatten_events w' = w_flatten_events w @ [ev] \<and>
    ev_event_type ev = FLATTEN_OUTCOME_RESOLVED \<and> ev_request_id ev = frid \<and>
    ev_payload ev = Some (resolution_payload (map fi_ticket is) [] True)"
proof -
  let ?w = "w\<lparr>w_calls := n + 1\<rparr>" and ?now = "out_now out n"
  from observe_failed_positions [OF assms(1), of "n + 1" ?w acct extras terminal qs oc "pc_environment (oc_config oc)"]
  obtain ob w1 where ob: "observe oc out (pc_environment (oc_config oc)) ?w = (Inr ob, w1)" "ob_position_states ob = []"
      "w_flatten_events w1 = w_flatten_events w" "w_closes w1 = w_closes w" "w_switch w1 = w_switch w"
    using assms by (auto simp: numeral_eq_Suc)
  have trip: "trip_overnight_exposure oc out [] ?now w1 = (Inr (), w1)"
    by (simp add: trip_overnight_exposure_def whenM_def)
  let ?payload = "Some (resolution_payload (map fi_ticket is) [] True)"
  have log: "log_flatten oc out frid FLATTEN_OUTCOME_RESOLVED ?now [] ?payload w1 =
      (Inr True, w1\<lparr>w_calls := w_calls w1 + 1, w_flatten_events := w_flatten_events w1 @
        [flatten_event (oc_stdlib oc) frid FLATTEN_OUTCOME_RESOLVED ?now [] None ?payload]\<rparr>)"
    using assms(1,10) ob(3) by (intro log_flatten_new) simp_all
  have "resolve_flatten_outcome oc out frid [] (events_for (w_flatten_events w) frid) ?now w1 =
      (Inr (Some \<lparr>fo_flatten_request_id = frid, fo_event_type = FLATTEN_OUTCOME_RESOLVED, fo_reason_codes = [],
                  fo_target_count = length is, fo_closed_count = length is\<rparr>),
       w1\<lparr>w_calls := w_calls w1 + 1, w_flatten_events := w_flatten_events w1 @
        [flatten_event (oc_stdlib oc) frid FLATTEN_OUTCOME_RESOLVED ?now [] None ?payload]\<rparr>)"
    using assms(7-9) log
    by (simp add: resolve_flatten_outcome_def attempt_and_resolve_flatten_def still_open_of_def finish_flatten_def
        Let_def bindM_def)
  then have "flatten_once oc out w =
      (Inr (Some \<lparr>fo_flatten_request_id = frid, fo_event_type = FLATTEN_OUTCOME_RESOLVED, fo_reason_codes = [],
                  fo_target_count = length is, fo_closed_count = length is\<rparr>),
       w1\<lparr>w_calls := w_calls w1 + 1, w_flatten_events := w_flatten_events w1 @
        [flatten_event (oc_stdlib oc) frid FLATTEN_OUTCOME_RESOLVED ?now [] None ?payload]\<rparr>)"
    using assms(2-8) ob trip clock_run [OF assms(1), of w]
    by (simp add: flatten_once_def bindM_run Let_def)
  with ob show ?thesis by (auto simp: flatten_event_def)
qed

text \<open>
  An interrupted flatten is abandoned for the day: once any event other than a
  commitment is the last of the occurrence, as after a crash between the claim, or the open
  gate, and the commitment, every later pass of that trading day returns without reading the
  broker or changing anything but the clock.
\<close>

theorem interrupted_flatten_is_abandoned:
  assumes "out_fault out (w_calls w) = None"
    and "policy_from_config (pc_intraday (oc_config oc)) = Inr policy"
    and "last_opt (events_for (w_flatten_events w)
           (flatten_request_id_for (oc_stdlib oc) (pc_environment (oc_config oc)) (oc_symbol oc)
              (trading_day (oc_zone oc) (out_now out (w_calls w))))) = Some e"
    and "ev_event_type e \<in> {FLATTEN_REQUEST_CLAIMED, FLATTEN_GATE_PASSED}"
  shows "flatten_once oc out w = (Inr None, w\<lparr>w_calls := w_calls w + 1\<rparr>)"
proof -
  have "clock out w = (Inr (out_now out (w_calls w)), w\<lparr>w_calls := w_calls w + 1\<rparr>)"
    using assms(1) by (simp add: clock_def ask_def Let_def)
  with assms(2-4) show ?thesis
    by (auto simp: flatten_once_def bindM_run Let_def split: option.splits)
qed

end
