(* ===== verification/Reconcile_Safety.thy ===== *)
theory Reconcile_Safety
  imports Flatten_Safety
begin

text \<open>
  What the reconciliation driver may record: only \<open>RECONCILED\<close> rows, only for committed
  requests whose outcome the durable ledger determines and whose tickets the terminal still
  reports open.
\<close>

definition adds :: "(execution_event_record \<Rightarrow> bool) \<Rightarrow> 's world \<Rightarrow> 's world \<Rightarrow> bool" where
  "adds P w w' \<longleftrightarrow> (\<exists>new. w_events w' = w_events w @ new \<and> list_all P new)"

interpretation adds: effect_order "adds P" for P
  by unfold_locales (auto simp: adds_def)

lemma adds_same: "w_events w' = w_events w \<Longrightarrow> adds P w w'"
  by (simp add: adds_def)

lemma adds_mono: "keeps (adds P) m \<Longrightarrow> (\<And>e. P e \<Longrightarrow> Q e) \<Longrightarrow> keeps (adds Q) m"
  unfolding keeps_def adds_def list_all_iff by meson

lemma adds_ask: "keeps (adds P) (ask out a)" "keeps (adds P) (clock out)"
  by (auto simp: keeps_def ask_def clock_def Let_def intro: adds_same split: option.splits)

lemma adds_record: "keeps (adds P) (transaction out (modifyM (\<lambda>w. w\<lparr>w_broker := f (w_broker w)\<rparr>)))"
  by (auto simp: keeps_def transaction_def Let_def intro: adds_same split: option.splits)

lemma adds_read_or_failed: "keeps (adds P) m \<Longrightarrow> keeps (adds P) (read_or_failed m)"
  unfolding read_or_failed_def by (intro adds.keeps_rules) (auto split: if_splits)

lemma adds_observe: "keeps (adds P) (observe oc out env)"
  unfolding observe_def capture_broker_state_def
  by (intro adds.keeps_rules adds_ask adds_record adds_read_or_failed)

lemma adds_trip: "keeps (adds P) (trip_unless_halted oc out rs who now d)"
proof -
  have "keeps (adds P) (trip_switch oc rs who now d)"
    by (auto simp: keeps_def trip_switch_def intro: adds_same split: prod.splits)
  then show ?thesis unfolding trip_unless_halted_def by (intro adds.keeps_rules adds_ask)
qed

lemma adds_log:
  assumes "P (execution_event (oc_stdlib oc) rid t now rs d p)"
  shows "keeps (adds P) (log_event oc out rid t now rs d p)"
  using assms
  by (auto simp: keeps_def log_event_def transaction_def put_event_def adds_def Let_def
      split: option.splits sum.splits prod.splits dest!: event_table.put_cases)

definition accountable ::
  "derived_exposure \<Rightarrow> (uuid \<times> execution_event_record list) list \<Rightarrow> int set \<Rightarrow> execution_event_record \<Rightarrow> bool" where
  "accountable exposure histories open_tickets e \<longleftrightarrow>
     ev_event_type e = EV_RECONCILED \<and> ev_request_id e \<in> de_determined_requests exposure \<and>
     (\<exists>events. (ev_request_id e, events) \<in> set histories \<and> \<not> is_reconciled events) \<and>
     (case de_tickets_by_request exposure (ev_request_id e) of None \<Rightarrow> {} | Some ts \<Rightarrow> ts) \<subseteq> open_tickets"

lemma adds_reconcile_request:
  assumes "(rid, events) \<in> set histories"
  shows "keeps (adds (accountable exposure histories (ps_ticket ` set (ob_position_states ob))))
    (reconcile_request oc out exposure r ob now (rid, events))"
proof -
  let ?P = "accountable exposure histories (ps_ticket ` set (ob_position_states ob))"
  let ?att = "case de_tickets_by_request exposure rid of None \<Rightarrow> {} | Some ts \<Rightarrow> ts"
  have log: "keeps (adds ?P) (log_event oc out rid EV_RECONCILED now [] None p)"
    if "\<not> is_reconciled events" "rid \<in> de_determined_requests exposure"
      "?att - ps_ticket ` set (ob_position_states ob) = {}" for p
    using that assms by (intro adds_log) (auto simp: accountable_def execution_event_def)
  show ?thesis
    unfolding reconcile_request_def prod.case Let_def trip_protective_stop_issue_def
    by (rule adds.keeps_if, rule adds.keeps_pure,
        intro adds.keeps_bind adds.keeps_pure adds.keeps_when adds_trip log) auto
qed

text \<open>
  C25. What a reconciliation pass records. Whatever the outside does, it appends to the event
  table only \<open>RECONCILED\<close> rows, each for a committed request not reconciled before, whose
  outcome the durable exposure determines, and whose attributed tickets are all among the
  positions the terminal reported, or none are attributed.
\<close>

theorem reconcile_pass_accounts:
  "\<exists>new. w_events (snd (reconcile_once oc out w)) = w_events w @ new \<and>
     list_all (\<lambda>e. ev_event_type e = EV_RECONCILED \<and>
       ev_request_id e \<in> set (started_ids oc SUBMISSION_STARTED w) \<and>
       \<not> is_reconciled (events_for (w_events w) (ev_request_id e)) \<and>
       (\<exists>exposure. derive_expected_exposure (oc_stdlib oc)
             (map (\<lambda>rid. (rid, events_for (w_events w) rid)) (started_ids oc SUBMISSION_STARTED w))
             (occurrence_histories (w_flatten_requests w) (pc_environment (oc_config oc)) (oc_symbol oc)
                (w_flatten_events w)) = Inr exposure \<and>
          ev_request_id e \<in> de_determined_requests exposure \<and>
          ((case de_tickets_by_request exposure (ev_request_id e) of None \<Rightarrow> {} | Some ts \<Rightarrow> ts) = {} \<or>
           (\<exists>n ps. out_positions out n = Inr ps \<and>
              (case de_tickets_by_request exposure (ev_request_id e) of None \<Rightarrow> {} | Some ts \<Rightarrow> ts) \<subseteq>
                ps_ticket ` set ps)))) new"
  (is "\<exists>new. _ \<and> list_all ?Q new")
proof -
  let ?hs = "map (\<lambda>rid. (rid, events_for (w_events w) rid)) (started_ids oc SUBMISSION_STARTED w)"
  let ?fl = "occurrence_histories (w_flatten_requests w) (pc_environment (oc_config oc)) (oc_symbol oc) (w_flatten_events w)"
  have acc: "?Q e" if "derive_expected_exposure (oc_stdlib oc) ?hs ?fl = Inr exposure"
      "accountable exposure ?hs (ps_ticket ` set ps) e" "ps = [] \<or> (\<exists>n. out_positions out n = Inr ps)" for exposure e ps
    using that unfolding accountable_def by fastforce
  have requests: "keeps (adds ?Q) (forM (reconcile_request oc out exposure r ob now) ?hs)"
    if "derive_expected_exposure (oc_stdlib oc) ?hs ?fl = Inr exposure"
      "ob_position_states ob = [] \<or> (\<exists>n. out_positions out n = Inr (ob_position_states ob))" for exposure r ob now
  proof (rule adds.keeps_for_in)
    fix h
    assume "h \<in> set ?hs"
    then obtain rid events where h: "h = (rid, events)" "(rid, events) \<in> set ?hs" by fastforce
    show "keeps (adds ?Q) (reconcile_request oc out exposure r ob now h)"
      unfolding h(1) by (rule adds_mono [OF adds_reconcile_request [OF h(2)] acc [OF that(1) _ that(2)]])
  qed
  have "keeps (adds ?Q) (reconcile_histories oc out ?hs exposure)" if "derive_expected_exposure (oc_stdlib oc) ?hs ?fl = Inr exposure" for exposure
    unfolding reconcile_histories_def
    by (rule adds.keeps_liftM, rule adds.keeps_bind, rule adds_ask, rule adds.keeps_bind_result, rule adds_observe,
        drule observed_positions, rule adds.keeps_bind, rule adds_ask, rule adds.keeps_bind, rule adds.keeps_pure,
        rule adds.keeps_liftM, rule adds.keeps_if, rule adds.keeps_pure, rule adds.keeps_bind,
        rule requests [OF that], assumption, rule adds.keeps_pure)
  then have main: "keeps (adds ?Q) (bindM (liftM (derive_expected_exposure (oc_stdlib oc) ?hs ?fl)) (reconcile_histories oc out ?hs))"
    by (rule adds.keeps_liftM)
  have "adds ?Q w (snd (reconcile_once oc out w))"
  proof (cases "list_all (\<lambda>h. is_reconciled (snd h)) ?hs")
    case True
    then show ?thesis by (simp add: reconcile_once_def adds_same)
  next
    case False
    then have "reconcile_once oc out w = bindM (liftM (derive_expected_exposure (oc_stdlib oc) ?hs ?fl)) (reconcile_histories oc out ?hs) w"
      by (simp add: reconcile_once_def)
    with main show ?thesis by (simp add: keeps_def)
  qed
  then show ?thesis by (simp add: adds_def)
qed

end
