(* ===== verification/Canary_Run.thy ===== *)
theory Canary_Run
  imports Submission_Gates Flatten_Faults Reconcile_Safety
begin

text \<open>
  One concrete pass of the execution worker from start to end: an approved decision to buy,
  a permit issued for it, an outside that answers and never fails. The pass sends exactly
  one order, so what the other theories say of sent orders is not said of nothing.
\<close>

subsection \<open>The set-up\<close>

abbreviation DIGEST :: string where "DIGEST \<equiv> ''e3b0c44298fc1c149afbf4c8996fb924''"
abbreviation ACCOUNT_REF :: string where "ACCOUNT_REF \<equiv> ''e3b0c44298fc1c14''"

definition run_market :: market_config where
  "run_market =
     \<lparr>mc_canonical_symbol = ''EUR/USD'', mc_enabled = True, mc_asset_class = CRYPTO,
      mc_broker_symbol = ''EURUSD'', mc_expected_spec_version = Some DIGEST, mc_session_policy_approved = True,
      mc_risk_overrides = None, mc_execution_overrides = None\<rparr>"

definition run_risk :: risk_config where
  "run_risk = paper_risk\<lparr>rc_approved_config_version := Some DIGEST\<rparr>"

definition run_execution :: execution_config where
  "run_execution = paper_execution\<lparr>ec_submission_enabled := True, ec_feedback_2_0_approved := True,
     ec_approved_canary_account_ref := Some ACCOUNT_REF\<rparr>"

definition run_guard :: account_guard_config where
  "run_guard = \<lparr>ag_expected_server = ''demo'', ag_expected_login = Some 1, ag_require_demo_account = True,
     ag_expected_currency = Some ''USD'', ag_expected_leverage = Some 30, ag_broker_account_ref = None\<rparr>"

definition run_config :: platform_config where
  "run_config = paper_config\<lparr>pc_markets := [run_market], pc_risk := run_risk, pc_execution := run_execution,
     pc_account_guard := run_guard\<rparr>"

definition run_canary :: canary_config where
  "run_canary = \<lparr>ca_permit_id = ''p1'', ca_capsule_id = ''c1'', ca_agent_id = None, ca_assignment_id = None,
     ca_strategy_artifact_hash = None\<rparr>"

definition run_worker :: "safety_state option orchestrator" where
  "run_worker =
     \<lparr>oc_stdlib = sample_stdlib, oc_store = InMemorySafetyStateStore, oc_zone = (\<lambda>_. False),
      oc_config = run_config, oc_symbol = ''EUR/USD'', oc_watermark = Some 0, oc_worker = ''w1'',
      oc_strategy_version = ''1'', oc_risk = run_risk, oc_execution = run_execution,
      oc_calendar = AlwaysOpenCalendar True, oc_close_adapter = False, oc_canary = Some run_canary\<rparr>"

lemma run_config_valid: "platform_config_valid run_config"
  by (simp add: run_config_def run_market_def run_risk_def run_execution_def run_guard_def paper_config_def
      paper_risk_def paper_execution_def checks text_ok_def DEMO_ONLY_ENVIRONMENTS_def)

lemma run_worker_constructed:
  "new_orchestrator sample_stdlib InMemorySafetyStateStore (\<lambda>_. False) run_config ''EUR/USD'' (Some 0) ''w1''
     False True True (Some run_canary) None = Inr run_worker"
  by (simp add: new_orchestrator_def run_worker_def run_config_def run_market_def paper_config_def risk_for_def
      execution_for_def market_for_def calendar_for_def)

definition run_permit :: canary_permit where
  "run_permit =
     \<lparr>cp_permit_id = ''p1'', cp_approved_account_ref = ACCOUNT_REF, cp_expected_server = ''demo'',
      cp_canonical_symbol = ''EUR/USD'', cp_entry_type = MARKET, cp_agent_id = None, cp_assignment_id = None,
      cp_strategy_artifact_hash = None, cp_max_requested_risk_fraction = 1 / 100, cp_issued_by = ''owner'',
      cp_reason = ''first canary'', cp_issued_at = 0, cp_valid_until = 60000000\<rparr>"

definition run_decision :: risk_decision where
  "run_decision = buy_decision sample_stdlib ''pass'' 200 50\<lparr>rd_risk_config_version := DIGEST\<rparr>"

definition run_supervision :: supervisor_decision where
  "run_supervision =
     \<lparr>sd_decision_id = ''s1'', sd_intent_id = ''i1'', sd_verdict = APPROVE, sd_reason_codes = [],
      sd_decided_at = 0, sd_policy_version = ''1'', sd_statistical_monitor_version = None,
      sd_observed_regime = TREND, sd_notes = None, sd_uncalibrated_checks = []\<rparr>"

definition run_capsule :: decision_capsule where
  "run_capsule =
     \<lparr>dc_capsule_id = ''c1'', dc_occurred_at = 0, dc_correlation_id = ''k1'',
      dc_canonical_symbol = ''EUR/USD'', dc_broker_symbol = ''EURUSD'', dc_market_snapshot_id = ''m1'',
      dc_feature_set_version = ''1'', dc_feature_values_hash = DIGEST, dc_strategy_version = ''1'',
      dc_model_version = None, dc_model_output = None, dc_trade_intent = Some buy_intent,
      dc_risk_config_version = DIGEST, dc_risk_decision = Some run_decision,
      dc_supervisor_decision = Some run_supervision, dc_execution_result = None,
      dc_position_state_before = [], dc_position_state_after = [], dc_code_commit = ''0'',
      dc_environment = PAPER\<rparr>"

definition run_tick :: market_tick where
  "run_tick =
     \<lparr>mt_tick_id = ''t1'', mt_source = ''mt5'', mt_canonical_symbol = ''EUR/USD'', mt_broker_symbol = ''EURUSD'',
      mt_event_time = 0, mt_received_time = 0, mt_bid = 11 / 10, mt_ask = 11 / 10, mt_last = None,
      mt_volume = None, mt_flags = None, mt_data_quality = GOOD, mt_anomalies = []\<rparr>"

definition run_fill :: "approved_order \<Rightarrow> execution_result" where
  "run_fill ord =
     \<lparr>er_execution_id = ''x1'', er_order_request_id = ao_order_request_id ord, er_intent_id = Some (ao_intent_id ord),
      er_state = OS_FILLED, er_mt5_order_ticket = Some 7, er_mt5_deal_ticket = Some 8,
      er_mt5_position_ticket = Some 9, er_retcode = Some 10009, er_retcode_comment = None,
      er_requested_price = None, er_executed_price = Some (11 / 10), er_requested_volume = Some (ao_volume ord),
      er_executed_volume = Some (ao_volume ord), er_slippage_points = Some 0, er_submitted_at = Some 0,
      er_broker_time = Some 0, er_completed_at = Some 0, er_latency_ms = Some 0, er_order_check_payload = None,
      er_order_send_payload = None, er_request_payload = None, er_error_detail = None\<rparr>"

definition run_outside :: outside where
  "run_outside =
     \<lparr>out_fault = (\<lambda>_. None), out_commit_lost = (\<lambda>_. None), out_now = (\<lambda>_. 0), out_uuid = (\<lambda>_. ''u1''),
      out_account = (\<lambda>_. Inr (demo_account, \<lparr>ax_profit = 0, ax_margin_mode = None\<rparr>)),
      out_terminal_trade_allowed = (\<lambda>_. Inr (Some True)), out_positions = (\<lambda>_. Inr []),
      out_pending_orders = (\<lambda>_. Inr []), out_ticks = (\<lambda>_. Inr [run_tick]), out_spec = (\<lambda>_. Inr (Some eurusd)),
      out_session = (\<lambda>_. Inr \<lparr>sr_state = None, sr_unreadable = None\<rparr>),
      out_order_check = (\<lambda>_ ord. Inr \<lparr>ok_order_request_id = ao_order_request_id ord,
         ok_intent_id = ao_intent_id ord, ok_accepted = True, ok_retcode = Some 0, ok_comment = None,
         ok_margin_required = None, ok_payload = None\<rparr>),
      out_order_send = (\<lambda>_ ord. Inr (run_fill ord)),
      out_close_position = (\<lambda>_ i. Inl Mt5CallFailed)\<rparr>"

definition run_start :: "safety_state option world" where
  "run_start = (fresh_world new_kill_switch None)\<lparr>w_capsules := [run_capsule], w_permits := [run_permit]\<rparr>"


subsection \<open>The pure parts\<close>

lemma run_faultless [simp]: "faultless run_outside"
  by (simp add: faultless_def run_outside_def)

lemma run_ask: "ask run_outside a w = (a (w_calls w), w\<lparr>w_calls := w_calls w + 1\<rparr>)"
  by (rule ask_run) simp

lemma run_clock: "clock run_outside w = (Inr 0, w\<lparr>w_calls := w_calls w + 1\<rparr>)"
  by (simp add: clock_def run_ask) (simp add: run_outside_def)

lemma sample_uuid [simp]: "uuid5_url sample_stdlib s = s"
  by (simp add: sample_stdlib_def)

lemma sample_decision_hash: "decision_hash sample_stdlib i = DIGEST"
  by (simp add: decision_hash_def sample_fingerprint decision_payload_encodable)

definition run_rid :: uuid where
  "run_rid = ''crumblr:order:'' @ DIGEST"

lemma run_request_id: "order_request_id_for sample_stdlib buy_intent = run_rid"
  by (simp add: order_request_id_for_def sample_decision_hash run_rid_def)

lemma run_event_id: "event_id_for sample_stdlib r t = event_id_for sample_stdlib r t' \<longleftrightarrow> t = t'"
  by (auto simp: event_id_for_def simp: execution_event_value_inj)

lemma run_login_hash: "login_hash sample_stdlib a = Inr ACCOUNT_REF"
  by (simp add: login_hash_def sample_fingerprint list_all_iff)

lemma encodable_opt [simp]:
  "encodable (opt_val f x) \<longleftrightarrow> opt_ok (\<lambda>v. encodable (f v)) x"
  "encodable (json_pyval (json_opt g y)) \<longleftrightarrow> opt_ok (\<lambda>v. encodable (json_pyval (g v))) y"
  "encodable (json_pyval (json_dec sl d))"
  by (simp_all add: opt_val_def json_opt_def json_dec_def opt_ok_def split: option.split)

lemma opt_ok_trivial [simp]: "opt_ok (\<lambda>_. True) x"
  by (simp add: opt_ok_def split: option.split)

lemma encodable_list [simp]: "encodable (json_pyval (reasons_json rs))"
  by (simp add: reasons_json_def list_all_iff)

lemma run_version: "worker_config_version run_worker = Inr DIGEST"
  by (simp add: worker_config_version_def run_worker_def config_version_def sample_fingerprint config_payload_def
      run_config_def paper_config_def run_market_def market_payload_def risk_payload_def execution_payload_def
      run_guard_def)

definition run_context :: risk_context where
  "run_context =
     \<lparr>rx_risk = run_risk, rx_execution = run_execution, rx_allowed_symbols = {''EUR/USD''},
      rx_require_demo_account = True, rx_expected_server = ''demo'', rx_expected_login = None,
      rx_risk_config_version = DIGEST, rx_expected_currency = Some ''USD'', rx_expected_leverage = Some 30,
      rx_intraday = \<lparr>ip_enabled = True, ip_last_entry_offset = 3600000000, ip_flatten_offset = 900000000\<rparr>,
      rx_calendar = AlwaysOpenCalendar True\<rparr>"

lemma run_symbols: "enabled_symbols run_config = [''EUR/USD'']"
  by (simp add: enabled_symbols_def run_config_def run_market_def)

lemma run_context: "worker_risk_context run_worker = Inr run_context"
  unfolding worker_risk_context_def run_version
  by (simp add: run_worker_def run_symbols run_context_def, simp add: run_config_def paper_config_def run_guard_def
      policy_from_config_def intraday_policy_def intraday_policy_ok_def Let_def)

definition run_snapshot :: market_snapshot where
  "run_snapshot = (quote_at (11 / 10) (11 / 10))
     \<lparr>ms_snapshot_id := ''crumblr:snapshot:EUR/USD:1970-01-01T00:00:00+00:00'', ms_spread_points := 0,
      ms_symbol_spec_version := DIGEST\<rparr>"

lemma run_snapshot: "snapshot_of_tick sample_stdlib ''EUR/USD'' run_tick eurusd = Inr run_snapshot"
proof -
  have points: "price_to_points (dsub (11 / 10) (11 / 10)) (1 / 100000) = Inr 0"
    by (simp add: decimal_ops rnd_exact price_to_points_def quantize_def round_half_up_def round_down_def Let_def
        floor_eq_iff)
  have iso: "iso_format sample_stdlib 0 = ''1970-01-01T00:00:00+00:00''" by (simp add: sample_stdlib_def)
  show ?thesis
    by (simp add: snapshot_of_tick_def run_tick_def points sample_spec_version iso run_snapshot_def quote_at_def
        contract_def market_snapshot_valid_def checks text_ok_def)
qed

definition run_ledger :: equity_ledger where
  "run_ledger = fresh_ledger\<lparr>el_starting_equity := 10000, el_peak_equity := 10000, el_current_equity := 10000,
     el_session_start_equity := 10000\<rparr>"

definition run_portfolio :: portfolio_state where
  "run_portfolio =
     \<lparr>pf_account = demo_account, pf_open_positions = [], pf_ledger = run_ledger, pf_orders_in_last_hour = 0,
      pf_seen_decision_hashes = {}, pf_open_risk_fraction = Some 0\<rparr>"

lemma run_recovery:
  "recover_session \<lparr>sr_state = None, sr_unreadable = None\<rparr> 10000 0 day l d =
     Inr \<lparr>rec_ledger = run_ledger, rec_trading_day = Some day, rec_resumed = False, rec_reason_codes = [],
          rec_detail = None\<rparr>"
  by (simp add: recover_session_def is_known_def EquityLedger_def run_ledger_def fresh_ledger_def)

lemma run_checklist:
  "checklist sl buy_intent run_snapshot eurusd run_portfolio run_context new_kill_switch 0 (1 / 500) 200 = []"
  by (simp add: checklist_defs stop_reasons_def buy_intent_def run_snapshot_def quote_at_def run_portfolio_def
      run_context_def demo_account_def run_risk_def run_execution_def paper_risk_def paper_execution_def
      new_kill_switch_def is_halted_def is_expired_def overnight_breach_def dadd_def rnd_exact run_ledger_def
      fresh_ledger_def session_loss_fraction_def drawdown_fraction_def dsub_def ddiv_def)

definition run_final :: risk_decision where
  "run_final = buy_decision sample_stdlib ''execution-pass'' 200 50\<lparr>rd_risk_config_version := DIGEST\<rparr>"

lemma run_revalidates:
  "revalidate sample_stdlib buy_intent run_decision run_snapshot eurusd run_portfolio run_context new_kill_switch 0 =
     Inr run_final"
proof -
  have s: "stop_distance buy_intent = Inr (1 / 500)" by (simp add: stop_distance_def buy_intent_def points_eval)
  have rr: "realised_risk (1 / 4) (1 / 500) eurusd = Inr 50"
    by (simp add: realised_risk_def loss_per_lot_def decimal_ops rnd_exact)
  have i: "ti_requested_risk_fraction buy_intent = Some (1 / 200)" "ti_intent_id buy_intent = ''i1''"
    "ti_stop_loss_price buy_intent = Some (549 / 500)" by (simp_all add: buy_intent_def)
  have q: "as_equity (pf_account run_portfolio) = 10000" "rx_risk_config_version run_context = DIGEST"
    by (simp_all add: run_portfolio_def demo_account_def run_context_def)
  have e: "evaluate sample_stdlib buy_intent run_snapshot eurusd run_portfolio run_context new_kill_switch 0 =
      Inr (buy_decision sample_stdlib ''pass'' 200 50\<lparr>rd_risk_config_version := DIGEST\<rparr>)"
    using run_checklist [of sample_stdlib] size_position_example
    by (simp add: evaluate_def s rr i q points_eval Let_def contract_def risk_decision_valid_def text_ok_def buy_decision_def)
  have x: "executable_price buy_intent run_snapshot = 11 / 10"
    by (simp add: executable_price_def buy_intent_def run_snapshot_def quote_at_def)
  have st: "stop_reasons (1 / 500) 200 eurusd run_context = []"
    by (simp add: stop_reasons_def run_context_def run_risk_def paper_risk_def)
  have m: "dmul 10000 (1 / 200) = 50" by (simp add: dmul_def rnd_exact)
  show ?thesis
    by (simp add: revalidate_def run_decision_def e x st rr m i q points_eval Let_def contract_def
        risk_decision_valid_def text_ok_def) (simp add: run_final_def buy_decision_def)
qed

definition run_order :: approved_order where
  "run_order =
     \<lparr>ao_order_request_id = run_rid, ao_intent_id = ''i1'', ao_intent_risk_decision_id = rd_decision_id run_decision,
      ao_final_risk_decision_id = Some (rd_decision_id run_final), ao_supervisor_decision_id = ''s1'',
      ao_broker_symbol = ''EURUSD'', ao_side = BUY, ao_entry_type = MARKET, ao_volume = 1 / 4, ao_price = None,
      ao_stop_loss_price = 549 / 500, ao_take_profit_price = None, ao_max_slippage_points = 10,
      ao_created_at = 0, ao_expires_at = 60000000, ao_environment = PAPER\<rparr>"

lemma run_approved:
  "approved_order_for run_rid run_capsule buy_intent run_decision run_final run_supervision eurusd run_execution 0 =
     Inr run_order"
  by (simp add: approved_order_for_def run_final_def buy_intent_def run_order_def contract_def approved_order_valid_def
      run_execution_def paper_execution_def run_supervision_def run_capsule_def text_ok_def)

lemma run_chain: "approval_chain_fingerprint sample_stdlib run_capsule buy_intent run_decision run_supervision = Inr DIGEST"
  by (simp add: approval_chain_fingerprint_def provenance_fingerprint_def sample_fingerprint risk_decision_dump_def
      supervisor_decision_dump_def run_capsule_def run_supervision_def)

lemma run_eligible:
  "evaluate_execution_eligibility
     \<lparr>eg_capsule = run_capsule, eg_activation_watermark = Some 0, eg_now = 0, eg_current_strategy_version = ''1'',
      eg_current_risk_config_version = DIGEST, eg_intraday = rx_intraday run_context,
      eg_calendar = AlwaysOpenCalendar True\<rparr> = Inr \<lparr>gd_open = True, gd_reason_codes = []\<rparr>"
  by (simp add: evaluate_execution_eligibility_def run_capsule_def run_decision_def eligibility_legs_def
      is_expired_def buy_intent_def decide_gate_def gate_decision_def gate_decision_ok_def)

lemma run_preflight:
  "evaluate_preflight_gate
     \<lparr>pg_environment = PAPER, pg_canonical_symbol = ''EUR/USD'', pg_allowed_symbols = {''EUR/USD''},
      pg_kill_switch = new_kill_switch\<rparr> = Inr \<lparr>gd_open = True, gd_reason_codes = []\<rparr>"
  by (simp add: evaluate_preflight_gate_def preflight_legs_def new_kill_switch_def is_halted_def decide_gate_def
      gate_decision_def gate_decision_ok_def)


subsection \<open>The stages\<close>

lemma run_worker_fields [simp]:
  "oc_stdlib run_worker = sample_stdlib" "oc_config run_worker = run_config" "oc_symbol run_worker = ''EUR/USD''"
  "oc_execution run_worker = run_execution" "oc_risk run_worker = run_risk" "oc_canary run_worker = Some run_canary"
  "oc_calendar run_worker = AlwaysOpenCalendar True" "oc_watermark run_worker = Some 0"
  "oc_strategy_version run_worker = ''1''"
  by (simp_all add: run_worker_def)

lemma run_config_fields [simp]:
  "pc_environment run_config = PAPER" "pc_account_guard run_config = run_guard"
  "market_for run_config ''EUR/USD'' = Some run_market"
  by (simp_all add: run_config_def paper_config_def market_for_def run_market_def)

definition run_logged :: "execution_event_type set \<Rightarrow> execution_event_record \<Rightarrow> bool" where
  "run_logged ts e \<longleftrightarrow> ev_event_type e \<in> ts \<and> ev_event_id e = event_id_for sample_stdlib run_rid (ev_event_type e)"

definition ready :: "execution_event_type set \<Rightarrow> 's world \<Rightarrow> bool" where
  \<comment> \<open>under way: the events so far are of the types \<open>ts\<close>, and nothing was spent or halted\<close>
  "ready ts w \<longleftrightarrow> w_switch w = new_kill_switch \<and> w_permits w = [run_permit] \<and> w_consumptions w = [] \<and>
     w_sent w = [] \<and> list_all (run_logged ts) (w_events w)"

lemma logged_new:
  "list_all (run_logged ts) rows \<Longrightarrow> t \<notin> ts \<Longrightarrow> event_id_for sample_stdlib run_rid t \<notin> ev_event_id ` set rows"
  by (auto simp: run_logged_def list_all_iff run_event_id)

lemma logged_more:
  "list_all (run_logged ts) rows \<Longrightarrow>
     list_all (run_logged (insert t ts)) (rows @ [execution_event sample_stdlib run_rid t now rs d p])"
  by (auto simp: run_logged_def list_all_iff execution_event_def)

lemma run_append:
  assumes "list_all (run_logged ts) rows" "t \<notin> ts"
  shows "append_event sample_stdlib (execution_event sample_stdlib run_rid t now rs d p) rows =
    Inr (True, rows @ [execution_event sample_stdlib run_rid t now rs d p])"
  using logged_new [OF assms] by (intro event_table.put_new) (simp add: execution_event_def)

lemma run_log_event:
  assumes "list_all (run_logged ts) (w_events w)" "t \<notin> ts"
  shows "log_event run_worker run_outside run_rid t now rs d p w =
    (Inr True, w\<lparr>w_calls := w_calls w + 1,
       w_events := w_events w @ [execution_event sample_stdlib run_rid t now rs d p]\<rparr>)"
  unfolding log_event_def run_worker_fields
  by (rule transaction_run) (simp_all add: put_event_def run_append [OF assms])

lemma ready_calls [simp]: "ready ts (w\<lparr>w_calls := n\<rparr>) = ready ts w"
  by (simp add: ready_def)

lemma run_log:
  assumes "ready ts w" "t \<notin> ts"
  obtains w' where "log_event run_worker run_outside run_rid t now rs d p w = (Inr True, w')" "ready (insert t ts) w'"
    "w_broker w' = w_broker w"
proof -
  have rows: "list_all (run_logged ts) (w_events w)" using assms(1) by (simp add: ready_def)
  show thesis
    by (rule that [OF run_log_event [OF rows assms(2)]]) (use assms(1) logged_more [OF rows] in \<open>simp_all add: ready_def\<close>)
qed

lemma run_scope:
  "canary_permit_scope_mismatches sample_stdlib (Some run_permit) demo_account ''EUR/USD'' run_order buy_intent
     run_canary 0 = Inr []"
  by (simp add: canary_permit_scope_mismatches_def run_login_hash buy_intent_def run_permit_def demo_account_def
      run_order_def run_canary_def)

lemma run_dump: "\<exists>kvs. order_dump sample_stdlib run_order = Inr kvs"
  by (simp add: order_dump_def order_magic_number_def sample_magic)

lemma run_commit:
  assumes "ready ts w" "SUBMISSION_STARTED \<notin> ts"
  obtains w' where "commit_submission run_worker run_outside ''p1'' run_rid run_order 0 w = (Inr True, w')"
    "w_sent w' = []" "list_all (run_logged (insert SUBMISSION_STARTED ts)) (w_events w')"
proof -
  obtain kvs where dump: "order_dump sample_stdlib run_order = Inr kvs" using run_dump by blast
  let ?w = "w\<lparr>w_calls := w_calls w + 1\<rparr>"
  let ?row = "\<lparr>cc_permit_id = ''p1'', cc_order_request_id = run_rid, cc_consumed_at = 0\<rparr>"
  let ?e = "execution_event sample_stdlib run_rid SUBMISSION_STARTED 0 [] None (Some kvs)"
  have c: "consume ''p1'' run_rid 0 ?w =
      (Inr \<lparr>cr_outcome = CONSUMED, cr_consumption = Some ?row\<rparr>, ?w\<lparr>w_consumptions := [?row]\<rparr>)"
    using assms(1)
    by (simp add: consume_def consume_permit_def permit_for_def run_permit_def ready_def put_consumption_def
        insert_once_def Let_def)
  have rows: "list_all (run_logged ts) (w_events w)" using assms(1) by (simp add: ready_def)
  note run_append [OF this assms(2), of 0 "[]" None "Some kvs"]
  with c dump have "commit_body sample_stdlib ''p1'' run_rid run_order 0 ?w =
      (Inr True, ?w\<lparr>w_consumptions := [?row], w_events := w_events w @ [?e]\<rparr>)"
    by (simp add: commit_body_def bindM_def put_event_def)
  then have "commit_submission run_worker run_outside ''p1'' run_rid run_order 0 w =
      (Inr True, ?w\<lparr>w_consumptions := [?row], w_events := w_events w @ [?e]\<rparr>)"
    by (simp add: commit_submission_def transaction_run)
  then show thesis
    by (rule that) (use assms(1) logged_more [OF rows] in \<open>simp_all add: ready_def\<close>)
qed

lemma run_answer:
  assumes "list_all (run_logged ts) (w_events w)" "EV_FILLED \<notin> ts"
  obtains w' where "record_answer run_worker run_outside run_rid run_capsule (Some (run_fill run_order)) w =
      (Inr (outcome run_rid run_capsule EV_FILLED []), w')" "w_sent w' = w_sent w"
proof -
  have "normalize_execution_result sample_stdlib (run_fill run_order) =
      Inr (EV_FILLED, outcome_payload sample_stdlib (run_fill run_order))"
    by (simp add: normalize_execution_result_def run_fill_def)
  moreover have "list_all (run_logged ts) (w_events (w\<lparr>w_calls := w_calls w + 1\<rparr>))" using assms(1) by simp
  note run_log_event [OF this assms(2)]
  ultimately have "record_answer run_worker run_outside run_rid run_capsule (Some (run_fill run_order)) w =
      (Inr (outcome run_rid run_capsule EV_FILLED []),
       w\<lparr>w_calls := w_calls w + 1 + 1, w_events := w_events w @
          [execution_event sample_stdlib run_rid EV_FILLED 0 [] None
             (Some (outcome_payload sample_stdlib (run_fill run_order)))]\<rparr>)"
    by (simp add: record_answer_def bindM_def run_clock)
  then show thesis by (rule that) simp
qed

lemma run_send:
  "try_send run_outside pid ord w =
     (Inr (Some (run_fill ord)), w\<lparr>w_calls := w_calls w + 1, w_sent := w_sent w @ [(pid, ord)]\<rparr>)"
  by (simp add: try_send_def catchM_def send_order_def bindM_def run_ask) (simp add: run_outside_def)

definition sends_one :: "'s world \<Rightarrow> (py_exn + attempt_outcome) \<times> 's world \<Rightarrow> bool" where
  "sends_one w run \<longleftrightarrow> fst run = Inr (outcome run_rid run_capsule EV_FILLED []) \<and>
     w_sent (snd run) = [(''p1'', run_order)]"

lemma run_attempt:
  assumes "ready ts w" "SUBMISSION_STARTED \<notin> ts" "EV_FILLED \<notin> ts"
  shows "sends_one w (attempt_real_entry_submission run_worker run_outside run_canary run_rid run_capsule run_order
    buy_intent demo_account 0 w)"
proof -
  from run_commit [OF assms(1,2)] obtain w1 where
    c: "commit_submission run_worker run_outside ''p1'' run_rid run_order 0 w = (Inr True, w1)" "w_sent w1 = []"
      "list_all (run_logged (insert SUBMISSION_STARTED ts)) (w_events w1)" by blast
  let ?w = "w1\<lparr>w_calls := w_calls w1 + 1, w_sent := [(''p1'', run_order)]\<rparr>"
  from c(3) have "list_all (run_logged (insert SUBMISSION_STARTED ts)) (w_events ?w)" by simp
  from run_answer [OF this] assms(3) obtain w2 where
    a: "record_answer run_worker run_outside run_rid run_capsule (Some (run_fill run_order)) ?w =
      (Inr (outcome run_rid run_capsule EV_FILLED []), w2)" "w_sent w2 = [(''p1'', run_order)]" by auto
  have "permit_for (w_permits w) ''p1'' = Some run_permit"
    using assms(1) by (simp add: ready_def permit_for_def run_permit_def)
  then have "attempt_real_entry_submission run_worker run_outside run_canary run_rid run_capsule run_order
      buy_intent demo_account 0 w = (Inr (outcome run_rid run_capsule EV_FILLED []), w2)"
    using c a
    by (simp add: attempt_real_entry_submission_def run_scope bindM_run submit_committed_def run_send)
       (simp add: run_capsule_def run_canary_def run_scope [unfolded run_canary_def] bindM_run submit_committed_def run_send)
  with a show ?thesis by (simp add: sends_one_def)
qed

definition run_observed :: "observation \<Rightarrow> bool" where
  "run_observed ob \<longleftrightarrow> ob_account_state ob = demo_account \<and> ob_position_states ob = [] \<and>
     bas_terminal_trade_allowed (ob_account ob) = Some True"

lemma run_gate:
  assumes "run_observed ob"
  shows "submission_legs sample_stdlib (submission_context_for run_worker DIGEST new_kill_switch ob run_tick 0) = []"
proof -
  have "account_ref sample_stdlib demo_account = ACCOUNT_REF" "as_is_demo demo_account" "as_connected demo_account"
    by (simp_all add: account_ref_def run_login_hash demo_account_def)
  moreover have "total_ms 0 = 0" using round_of_int(2) [of 0] by (simp add: total_ms_def total_seconds_def)
  ultimately show ?thesis
    using assms
    by (simp add: submission_legs_def submission_context_for_def run_observed_def tick_legs_def DEMO_ONLY_ENVIRONMENTS_def
        run_tick_def run_risk_def run_execution_def paper_execution_def new_kill_switch_def
        is_halted_def)
qed

lemma run_submit:
  assumes "ready ts w" "run_observed ob" "{SUBMISSION_GATE_PASSED, SUBMISSION_STARTED, EV_FILLED} \<inter> ts = {}"
  shows "sends_one w (submit_stage run_worker run_outside run_rid run_capsule buy_intent run_order ob run_tick 0 w)"
proof -
  let ?ctx = "submission_context_for run_worker DIGEST new_kill_switch ob run_tick 0"
  have sw: "w_switch w = new_kill_switch" using assms(1) by (simp add: ready_def)
  obtain kvs where p: "submission_payload sample_stdlib ?ctx = Inr kvs"
    by (simp add: submission_payload_def run_login_hash)
  have "SUBMISSION_GATE_PASSED \<notin> ts" using assms(3) by blast
  then obtain w1 where
    l: "log_event run_worker run_outside run_rid SUBMISSION_GATE_PASSED 0 [] None (Some kvs) w = (Inr True, w1)"
      "ready (insert SUBMISSION_GATE_PASSED ts) w1" by (rule run_log [OF assms(1)])
  have "evaluate_submission_readiness run_worker run_outside run_rid ob run_tick 0 w =
      (Inr (SUBMISSION_GATE_PASSED, []), w1)"
    using run_gate [OF assms(2)] l(1)
    by (simp add: evaluate_submission_readiness_def run_version sw p submission.eval_result Let_def bindM_run)
  moreover have "sends_one w1 (attempt_real_entry_submission run_worker run_outside run_canary run_rid run_capsule
      run_order buy_intent demo_account 0 w1)"
    using assms(3) by (intro run_attempt [OF l(2)]) auto
  ultimately show ?thesis
    using assms(2) by (simp add: submit_stage_def bindM_run run_observed_def sends_one_def)
qed

lemma run_check:
  assumes "ready ts w" "run_observed ob"
    "{FINAL_RISK_PASSED, EV_ORDER_CHECKED, SUBMISSION_GATE_PASSED, SUBMISSION_STARTED, EV_FILLED} \<inter> ts = {}"
  shows "sends_one w (check_stage run_worker run_outside run_rid run_capsule buy_intent run_final run_order ob run_tick 0 w)"
proof -
  obtain kvs where dump: "order_dump sample_stdlib run_order = Inr kvs" using run_dump by blast
  obtain fp where fp: "order_fingerprint sample_stdlib run_rid run_final kvs = Inr fp"
  proof -
    have "list_all (\<lambda>kv. encodable (snd kv))
       [(''order_request_id'', PStr run_rid),
        (''final_risk_decision'', json_pyval (JObj (risk_decision_dump sample_stdlib run_final))),
        (''approved_order'', json_pyval (JObj kvs))]"
      using dump by (auto simp: risk_decision_dump_def order_dump_def order_magic_number_def sample_magic)
    from sample_fingerprint [OF this] that show thesis unfolding order_fingerprint_def by blast
  qed
  let ?p = "Some [(''final_risk_decision'', JObj (risk_decision_dump sample_stdlib run_final)), (''order_fingerprint'', JStr fp)]"
  have "FINAL_RISK_PASSED \<notin> ts" using assms(3) by blast
  then obtain w1 where
    l1: "log_event run_worker run_outside run_rid FINAL_RISK_PASSED 0 [] None ?p w = (Inr True, w1)"
      "ready (insert FINAL_RISK_PASSED ts) w1" by (rule run_log [OF assms(1)])
  let ?chk = "\<lparr>ok_order_request_id = run_rid, ok_intent_id = ''i1'', ok_accepted = True, ok_retcode = Some 0,
     ok_comment = None, ok_margin_required = None, ok_payload = None\<rparr>"
  let ?w1 = "w1\<lparr>w_calls := w_calls w1 + 1\<rparr>"
  have chk: "ask run_outside (\<lambda>n. out_order_check run_outside n run_order) w1 = (Inr ?chk, ?w1)"
    by (simp add: run_ask) (simp add: run_outside_def run_order_def)
  have "ready (insert FINAL_RISK_PASSED ts) ?w1" "EV_ORDER_CHECKED \<notin> insert FINAL_RISK_PASSED ts"
    using l1 assms(3) by auto
  then obtain w2 where
    l2: "log_event run_worker run_outside run_rid EV_ORDER_CHECKED 0 [] None
          (Some (order_check_dump sample_stdlib ?chk)) ?w1 = (Inr True, w2)"
      "ready (insert EV_ORDER_CHECKED (insert FINAL_RISK_PASSED ts)) w2" by (rule run_log)
  have "sends_one w2 (submit_stage run_worker run_outside run_rid run_capsule buy_intent run_order ob run_tick 0 w2)"
    using assms(3) by (intro run_submit [OF l2(2) assms(2)]) auto
  then show ?thesis
    using l1(1) l2(1) chk by (simp add: check_stage_def Let_def dump fp bindM_run sends_one_def)
qed

lemma run_orders:
  assumes "list_all (run_logged ts) rows" "SUBMISSION_STARTED \<notin> ts"
  shows "count_events_since SUBMISSION_STARTED since (market_events rqs cs env symbol rows) = 0"
proof -
  have "ev_event_type e \<noteq> SUBMISSION_STARTED" if "e \<in> set (market_events rqs cs env symbol rows)" for e
    using assms that by (auto simp: market_events_def run_logged_def list_all_iff split: if_splits)
  then show ?thesis by (auto simp: count_events_since_def filter_empty_conv)
qed

lemma run_final_risk:
  assumes "ready ts w" "run_observed ob"
    "{FINAL_RISK_PASSED, EV_ORDER_CHECKED, SUBMISSION_GATE_PASSED, SUBMISSION_STARTED, EV_FILLED} \<inter> ts = {}"
    "rec_ledger recovery = run_ledger"
  shows "sends_one w (final_risk_stage run_worker run_outside run_rid run_capsule buy_intent run_decision run_supervision
    run_context ob eurusd run_tick run_snapshot recovery 0 w)"
proof -
  have rows: "list_all (run_logged ts) (w_events w)" and sw: "w_switch w = new_kill_switch"
    using assms(1) by (simp_all add: ready_def)
  have n: "SUBMISSION_STARTED \<notin> ts" using assms(3) by simp
  have ob: "ob_account_state ob = demo_account" "ob_position_states ob = []"
    using assms(2) by (simp_all add: run_observed_def)
  have pass: "rd_verdict run_final = PASS" by (simp add: run_final_def)
  show ?thesis
    using run_check [OF assms(1-3)] run_revalidates pass
    by (simp add: final_risk_stage_def ob assess_open_risk_def run_orders [OF rows n] sw assms(4)
        run_portfolio_def run_approved sends_one_def)
qed

lemma run_session:
  assumes "ready ts w" "run_observed ob"
    "{FINAL_RISK_PASSED, EV_ORDER_CHECKED, SUBMISSION_GATE_PASSED, SUBMISSION_STARTED, EV_FILLED} \<inter> ts = {}"
  shows "sends_one w (session_stage run_worker run_outside run_rid run_capsule buy_intent run_decision run_supervision
    run_context ob eurusd run_tick run_snapshot w)"
proof -
  let ?rec = "\<lparr>rec_ledger = run_ledger, rec_trading_day = Some (trading_day (oc_zone run_worker) 0), rec_resumed = False,
     rec_reason_codes = [], rec_detail = None\<rparr>"
  let ?w = "w\<lparr>w_calls := w_calls w + 2\<rparr>"
  have ob: "ob_account_state ob = demo_account" "ob_position_states ob = []"
    using assms(2) by (simp_all add: run_observed_def)
  have session: "out_session run_outside = (\<lambda>_. Inr \<lparr>sr_state = None, sr_unreadable = None\<rparr>)"
    by (simp add: run_outside_def)
  have equity: "as_equity demo_account = 10000" by (simp add: demo_account_def)
  have rec: "recover_risk_session run_worker run_outside ob 0 (w\<lparr>w_calls := w_calls w + 1\<rparr>) = (Inr ?rec, ?w)"
    by (simp add: recover_risk_session_def bindM_def run_ask session ob equity run_recovery)
  have "sends_one ?w (final_risk_stage run_worker run_outside run_rid run_capsule buy_intent run_decision run_supervision
      run_context ob eurusd run_tick run_snapshot ?rec 0 ?w)"
    using assms by (intro run_final_risk) simp_all
  with rec show ?thesis
    by (simp add: session_stage_def bindM_def run_clock catchM_def must_halt_def sends_one_def)
qed

lemma run_market_data:
  "out_spec run_outside = (\<lambda>_. Inr (Some eurusd))" "out_ticks run_outside = (\<lambda>_. Inr [run_tick])"
  by (simp_all add: run_outside_def)

lemma run_market:
  assumes "ready ts w" "run_observed ob"
    "{FINAL_RISK_PASSED, EV_ORDER_CHECKED, SUBMISSION_GATE_PASSED, SUBMISSION_STARTED, EV_FILLED} \<inter> ts = {}"
  shows "sends_one w (market_stage run_worker run_outside run_rid run_capsule buy_intent run_decision run_supervision
    run_context ob 0 w)"
proof -
  let ?w = "w\<lparr>w_calls := w_calls w + 1 + 1\<rparr>"
  have "ready ts ?w" using assms(1) by simp
  from run_session [OF this assms(2,3)] show ?thesis
    using run_market_data
    by (simp add: market_stage_def bindM_def run_ask run_snapshot sends_one_def last_opt_def)
qed

definition run_account :: broker_account_snapshot where
  "run_account = flat_snapshot\<lparr>bas_snapshot_id := ''u1'', bas_currency := ''USD''\<rparr>"

definition run_observation :: observation where
  "run_observation = \<lparr>ob_account = run_account, ob_positions = [], ob_pending_orders = [],
     ob_account_state = demo_account, ob_position_states = []\<rparr>"

lemma run_observation: "run_observed run_observation"
  by (simp add: run_observed_def run_observation_def run_account_def flat_snapshot_def)

lemma run_observe:
  "observe run_worker run_outside PAPER w =
     (Inr run_observation, w\<lparr>w_calls := w_calls w + 8, w_broker := record_observation run_observation (w_broker w)\<rparr>)"
proof -
  let ?r = "\<lambda>n. w\<lparr>w_calls := w_calls w + n\<rparr>"
  have snap: "account_snapshot sample_stdlib ''u1'' 0 0 PAPER demo_account \<lparr>ax_profit = 0, ax_margin_mode = None\<rparr>
      (Some True) COMPLETE COMPLETE = Inr run_account"
    by (simp add: account_snapshot_def run_login_hash demo_account_def contract_def broker_account_snapshot_valid_def
        text_ok_def run_account_def flat_snapshot_def)
  have reads: "read_or_failed (ask run_outside (out_positions run_outside)) (?r 4) = (Inr ([], COMPLETE), ?r 5)"
    "read_or_failed (ask run_outside (out_pending_orders run_outside)) (?r 5) = (Inr ([], COMPLETE), ?r 6)"
    by (simp_all add: read_or_failed_def catchM_def bindM_def run_ask) (simp_all add: run_outside_def)
  have fields: "out_uuid run_outside = (\<lambda>_. ''u1'')"
    "out_account run_outside = (\<lambda>_. Inr (demo_account, \<lparr>ax_profit = 0, ax_margin_mode = None\<rparr>))"
    "out_terminal_trade_allowed run_outside = (\<lambda>_. Inr (Some True))"
    by (simp_all add: run_outside_def)
  have capture: "capture_broker_state run_worker run_outside PAPER w = (Inr run_observation, ?r 7)"
    using reads
    by (simp add: capture_broker_state_def bindM_def run_ask run_clock fields snap numeral_eq_Suc run_observation_def)
  have "transaction run_outside (modifyM (\<lambda>w. w\<lparr>w_broker := record_observation run_observation (w_broker w)\<rparr>)) (?r 7) =
      (Inr (), w\<lparr>w_calls := w_calls w + 8, w_broker := record_observation run_observation (w_broker w)\<rparr>)"
    by (rule transaction_run) (simp_all add: numeral_eq_Suc)
  with capture show ?thesis by (simp add: observe_def bindM_def)
qed

lemma run_matched:
  "\<exists>ex r. expect_flat sample_stdlib run_guard ''EUR/USD'' (Some DIGEST) = Inr ex \<and>
     reconcile sample_stdlib (record_observation run_observation \<lparr>bt_accounts = [], bt_positions = [], bt_pending_orders = []\<rparr>)
       ex (Some eurusd) 0 DEFAULT_MAX_SNAPSHOT_AGE = Inr r \<and> rr_status r = MATCHED"
  by (simp add: expect_flat_def run_guard_def sample_fingerprint reconcile_def record_observation_def insert_new_def
      run_observation_def latest_account_snapshot_def run_account_def flat_snapshot_def DEFAULT_MAX_SNAPSHOT_AGE_def
      sample_spec_version Let_def recon_mismatches_def account_mismatches_def position_mismatches_def
      pending_order_mismatches_def set_mismatches_def positions_for_def pending_orders_for_def
      instrument_spec_mismatches_def)

definition no_broker_state :: broker_tables where
  "no_broker_state = \<lparr>bt_accounts = [], bt_positions = [], bt_pending_orders = []\<rparr>"

lemma run_reconcile:
  assumes "w_broker w = record_observation run_observation no_broker_state"
  shows "\<exists>r. reconcile_flat run_worker run_outside 0 w = (Inr r, w\<lparr>w_calls := w_calls w + 1\<rparr>) \<and> rr_status r = MATCHED"
proof -
  have "expectation_pin run_worker = Some DIGEST"
    by (simp add: expectation_pin_def) (simp add: run_market_def)
  with run_matched assms show ?thesis
    by (auto simp: reconcile_flat_def bindM_def run_ask run_market_data no_broker_state_def)
qed

lemma run_observe_stage:
  assumes "ready ts w" "w_broker w = no_broker_state"
    "{FINAL_RISK_PASSED, EV_ORDER_CHECKED, SUBMISSION_GATE_PASSED, SUBMISSION_STARTED, EV_FILLED} \<inter> ts = {}"
  shows "sends_one w (observe_stage run_worker run_outside run_rid run_capsule buy_intent run_decision run_supervision
    run_context 0 w)"
proof -
  let ?w = "w\<lparr>w_calls := w_calls w + 8, w_broker := record_observation run_observation (w_broker w)\<rparr>"
  from run_reconcile [of ?w] assms(2) obtain r where
    r: "reconcile_flat run_worker run_outside 0 ?w = (Inr r, ?w\<lparr>w_calls := w_calls ?w + 1\<rparr>)" "rr_status r = MATCHED"
    by auto
  have env: "dc_environment run_capsule = PAPER" by (simp add: run_capsule_def)
  have "ready ts (?w\<lparr>w_calls := w_calls ?w + 1\<rparr>)" using assms(1) by (simp add: ready_def)
  from run_market [OF this run_observation assms(3)] show ?thesis
    using r(2) by (simp add: observe_stage_def bindM_def run_observe r(1) [simplified] env sends_one_def)
qed

lemma run_screen:
  assumes "ready ts w" "w_broker w = no_broker_state"
    "{FINAL_RISK_PASSED, EV_ORDER_CHECKED, SUBMISSION_GATE_PASSED, SUBMISSION_STARTED, EV_FILLED} \<inter> ts = {}"
  shows "sends_one w (screen_stage run_worker run_outside run_rid run_capsule buy_intent run_decision run_supervision 0 w)"
proof -
  have "w_switch w = new_kill_switch" using assms(1) by (simp add: ready_def)
  moreover have "dc_environment run_capsule = PAPER" "rx_calendar run_context = AlwaysOpenCalendar True"
    "rx_risk_config_version run_context = DIGEST"
    by (simp_all add: run_capsule_def run_context_def)
  ultimately show ?thesis
    using run_observe_stage [OF assms]
    by (simp add: screen_stage_def run_context run_eligible run_symbols run_preflight)
qed

lemma run_claim:
  assumes "ready {} w" "w_broker w = no_broker_state" "w_requests w = []"
  shows "\<exists>w'. claim_stage run_worker run_outside run_rid run_capsule buy_intent run_decision run_supervision DIGEST 0 w =
      (Inr (Some (outcome run_rid run_capsule EV_FILLED [])), w') \<and> w_sent w' = [(''p1'', run_order)]"
proof -
  let ?row = "\<lparr>xr_order_request_id = run_rid, xr_capsule_id = dc_capsule_id run_capsule,
     xr_intent_id = ti_intent_id buy_intent, xr_fingerprint = DIGEST, xr_claimed_by = oc_worker run_worker,
     xr_claimed_at = 0\<rparr>"
  let ?w = "w\<lparr>w_calls := w_calls w + 1, w_requests := [?row]\<rparr>"
  have put: "transaction run_outside (put_request ?row) w = (Inr True, ?w)"
    by (rule transaction_run) (simp_all add: put_request_def claim_request_def insert_once_def assms(3))
  have "ready {} ?w" using assms(1) by (simp add: ready_def)
  then obtain w1 where l: "log_event run_worker run_outside run_rid REQUEST_CLAIMED 0 [] None None ?w = (Inr True, w1)"
      "ready {REQUEST_CLAIMED} w1" "w_broker w1 = w_broker ?w" by (rule run_log) simp
  then have "w_broker w1 = no_broker_state" using assms(2) by simp
  from run_screen [OF l(2) this] have
    s: "sends_one w1 (screen_stage run_worker run_outside run_rid run_capsule buy_intent run_decision run_supervision 0 w1)"
    by simp
  then obtain w2 where "screen_stage run_worker run_outside run_rid run_capsule buy_intent run_decision run_supervision 0 w1 =
      (Inr (outcome run_rid run_capsule EV_FILLED []), w2)" "w_sent w2 = [(''p1'', run_order)]"
    unfolding sends_one_def by (metis prod.collapse)
  then show ?thesis
    using put l(1) by (simp add: claim_stage_def bindM_run)
qed

lemma run_process:
  assumes "ready {} w" "w_broker w = no_broker_state" "w_requests w = []"
  obtains w' where "process run_worker run_outside run_capsule 0 w =
      (Inr (Some (outcome run_rid run_capsule EV_FILLED [])), w')" "w_sent w' = [(''p1'', run_order)]"
proof -
  have c: "dc_trade_intent run_capsule = Some buy_intent" "dc_risk_decision run_capsule = Some run_decision"
    "dc_supervisor_decision run_capsule = Some run_supervision" "dc_canonical_symbol run_capsule = ''EUR/USD''"
    "ti_symbol buy_intent = ''EUR/USD''"
    by (simp_all add: run_capsule_def buy_intent_def)
  from run_claim [OF assms] obtain w' where
    "claim_stage run_worker run_outside run_rid run_capsule buy_intent run_decision run_supervision DIGEST 0 w =
      (Inr (Some (outcome run_rid run_capsule EV_FILLED [])), w')" "w_sent w' = [(''p1'', run_order)]" by blast
  then show thesis
    by (intro that) (simp_all add: process_def c run_chain run_request_id)
qed

lemma run_pass_start:
  "ready {} (run_start\<lparr>w_calls := n\<rparr>)" "w_broker (run_start\<lparr>w_calls := n\<rparr>) = no_broker_state"
  "w_requests (run_start\<lparr>w_calls := n\<rparr>) = []"
  by (simp_all add: run_start_def fresh_world_def ready_def no_broker_state_def)

lemma run_pass: "w_sent (snd (run_once run_worker run_outside run_start)) = [(''p1'', run_order)]"
proof -
  have policy: "\<exists>p. policy_from_config (pc_intraday run_config) = Inr p"
    by (simp add: run_config_def paper_config_def policy_from_config_def intraday_policy_def intraday_policy_ok_def Let_def)
  have calls: "w_calls run_start = 0" by (simp add: run_start_def fresh_world_def)
  have flatten: "flatten_once run_worker run_outside run_start = (Inr None, run_start\<lparr>w_calls := 1\<rparr>)"
    using policy by (auto simp: flatten_once_def bindM_def run_clock calls)
  obtain w1 where p: "process run_worker run_outside run_capsule 0 (run_start\<lparr>w_calls := 2\<rparr>) =
      (Inr (Some (outcome run_rid run_capsule EV_FILLED [])), w1)" "w_sent w1 = [(''p1'', run_order)]"
    by (rule run_process [OF run_pass_start])
  have capsules: "market_capsules run_worker (run_start\<lparr>w_calls := n\<rparr>) = [run_capsule]" for n
    by (simp add: market_capsules_def run_start_def run_capsule_def)
  have approved: "is_intent_time_approved run_capsule"
    by (simp add: is_intent_time_approved_def run_capsule_def run_decision_def run_supervision_def)
  obtain r2 w2 where rec: "reconcile_once run_worker run_outside w1 = (r2, w2)" by (metis surj_pair)
  have "w_sent w2 = w_sent w1" using keepsD [OF calm_reconcile_once rec] by (simp add: calm_def)
  moreover have "snd (run_once run_worker run_outside run_start) = w2"
    using p(1) rec
    by (cases r2) (simp_all add: run_once_def bindM_def flatten run_clock capsules approved numeral_2_eq_2)
  ultimately show ?thesis using p by simp
qed

lemma run_life: "\<exists>w. (life sample_stdlib)\<^sup>*\<^sup>* (fresh_world new_kill_switch (None :: safety_state option)) w \<and>
    w_sent w = [(''p1'', run_order)]"
proof -
  let ?w0 = "fresh_world new_kill_switch (None :: safety_state option)"
  let ?w1 = "?w0\<lparr>w_capsules := w_capsules ?w0 @ [run_capsule]\<rparr>"
  have "life sample_stdlib ?w0 ?w1" by (rule life.decisions)
  moreover have "issue_permit run_permit (w_permits ?w1) = Inr (True, [run_permit])"
    by (simp add: issue_permit_def insert_once_def fresh_world_def)
  then have "life sample_stdlib ?w1 (?w1\<lparr>w_permits := [run_permit]\<rparr>)" by (rule life.permits)
  moreover have "?w1\<lparr>w_permits := [run_permit]\<rparr> = run_start" by (simp add: run_start_def fresh_world_def)
  moreover have "life sample_stdlib run_start (snd (run_once run_worker run_outside run_start))"
    by (rule life.pass [of run_worker]) (simp, rule prod.collapse [symmetric])
  ultimately have "(life sample_stdlib)\<^sup>*\<^sup>* ?w0 (snd (run_once run_worker run_outside run_start))"
    by (metis converse_rtranclp_into_rtranclp r_into_rtranclp)
  with run_pass show ?thesis by blast
qed

text \<open>The history of the witness contains a pass that sends.\<close>

lemma at_most_one_submission_witness:
  "\<exists>w. (life sample_stdlib)\<^sup>*\<^sup>* (fresh_world new_kill_switch (None :: safety_state option)) w \<and>
     w_sent w = [(''p1'', run_order)] \<and>
     (\<exists>k \<in> set (w_consumptions w). cc_permit_id k = ''p1'' \<and> cc_order_request_id k = run_rid)"
proof -
  from run_life obtain w where w: "(life sample_stdlib)\<^sup>*\<^sup>* (fresh_world new_kill_switch (None :: safety_state option)) w"
      "w_sent w = [(''p1'', run_order)]" by blast
  from at_most_one_submission [OF w(1)] w show ?thesis by (auto simp: run_order_def)
qed

text \<open>
  The worker does submit: the example worker, built by the constructor from a valid
  configuration, finds the approved decision, passes every gate, spends the permit, and one
  pass hands the broker exactly the order the decision was approved for.
\<close>

theorem canary_pass_sends:
  "platform_config_valid run_config \<and>
   new_orchestrator sample_stdlib InMemorySafetyStateStore (\<lambda>_. False) run_config ''EUR/USD'' (Some 0) ''w1''
     False True True (Some run_canary) None = Inr run_worker \<and>
   w_sent (snd (run_once run_worker run_outside run_start)) = [(''p1'', run_order)] \<and>
   rd_approved_volume run_decision = Some (ao_volume run_order)"
  by (intro conjI run_config_valid run_worker_constructed run_pass) (simp add: run_decision_def run_order_def)


subsection \<open>Other inputs\<close>

lemma limit_decision_never_sent_witness:
  "w_sent (snd (process run_worker run_outside
       (run_capsule\<lparr>dc_trade_intent := Some (buy_intent\<lparr>ti_entry_type := LIMIT\<rparr>)\<rparr>) 0 run_start)) = []"
  using limit_decision_never_sent [of "run_capsule\<lparr>dc_trade_intent := Some (buy_intent\<lparr>ti_entry_type := LIMIT\<rparr>)\<rparr>"
      "buy_intent\<lparr>ti_entry_type := LIMIT\<rparr>" run_final "1 / 4" "549 / 500" run_worker run_outside 0 run_start]
  by (simp add: run_final_def run_start_def fresh_world_def) (simp add: buy_intent_def)

definition weekly_worker :: "safety_state option orchestrator" where
  "weekly_worker = run_worker\<lparr>oc_calendar := FxWeekdayCalendar (\<lambda>_. False), oc_close_adapter := True\<rparr>"

definition weekly_id :: uuid where
  "weekly_id = flatten_request_id_for sample_stdlib PAPER ''EUR/USD'' (trading_day (\<lambda>_. False) 0)"

definition weekly_close_of :: flatten_instruction where
  "weekly_close_of =
     \<lparr>fi_flatten_request_id = weekly_id, fi_ticket = 7, fi_broker_symbol = ''EURUSD'', fi_position_side = BUY,
      fi_close_side = SELL, fi_volume = 1, fi_open_price = 1, fi_opened_at = 0, fi_magic = None,
      fi_crossed_weekly_close = True, fi_observed_at = 0\<rparr>"

definition weekly_event :: "flatten_event_type \<Rightarrow> flatten_event_record" where
  "weekly_event t = flatten_event sample_stdlib weekly_id t 0 [] None
     (Some [(''instructions'', JArr [instruction_dump sample_stdlib weekly_close_of])])"

definition weekly_world :: "flatten_event_type \<Rightarrow> safety_state option world" where
  "weekly_world t = run_start\<lparr>w_flatten_events := [weekly_event t]\<rparr>"

lemma weekly_fields [simp]:
  "oc_stdlib weekly_worker = sample_stdlib" "oc_config weekly_worker = run_config" "oc_symbol weekly_worker = ''EUR/USD''"
  "oc_zone weekly_worker = (\<lambda>_. False)" "oc_calendar weekly_worker = FxWeekdayCalendar (\<lambda>_. False)"
  by (simp_all add: weekly_worker_def) (simp add: run_worker_def)

lemma weekly_events: "events_for (w_flatten_events (weekly_world t)) weekly_id = [weekly_event t]"
  by (simp add: weekly_world_def events_for_def weekly_event_def flatten_event_def)

lemma weekly_policy:
  "policy_from_config (pc_intraday run_config) =
     Inr \<lparr>ip_enabled = True, ip_last_entry_offset = 3600000000, ip_flatten_offset = 900000000\<rparr>"
  by (simp add: run_config_def paper_config_def policy_from_config_def intraday_policy_def intraday_policy_ok_def Let_def)

lemma weekly_instructions:
  "committed_instructions sample_stdlib (ev_payload (weekly_event t)) = Inr [weekly_close_of]"
  by (simp add: committed_instructions_def weekly_event_def flatten_event_def get_list_def json_iter_def instruction_dump_def
      weekly_close_of_def read_instruction_def py_get_def read_str_def read_int_def read_side_def read_dec_def
      read_when_def read_opt_int_def read_bool_def json_dec_def json_opt_def sample_stdlib_def contract_def
      flatten_instruction_valid_def text_ok_def)

lemma interrupted_flatten_is_abandoned_witness:
  "fst (flatten_once weekly_worker run_outside (weekly_world FLATTEN_GATE_PASSED)) = Inr None"
proof -
  have now: "out_now run_outside = (\<lambda>_. 0)" "out_fault run_outside = (\<lambda>_. None)" by (simp_all add: run_outside_def)
  show ?thesis
    by (subst interrupted_flatten_is_abandoned [of run_outside "weekly_world FLATTEN_GATE_PASSED" weekly_worker
          _ "weekly_event FLATTEN_GATE_PASSED", OF _ _ _ _])
       (simp_all add: now weekly_policy weekly_events [unfolded weekly_id_def] last_opt_def,
        simp add: weekly_event_def flatten_event_def)
qed

lemma failed_read_resolves_flatten_witness:
  "\<exists>w'. flatten_once weekly_worker (run_outside\<lparr>out_positions := \<lambda>_. Inl Mt5CallFailed\<rparr>)
        (weekly_world FLATTEN_SUBMISSION_STARTED) =
      (Inr (Some \<lparr>fo_flatten_request_id = weekly_id, fo_event_type = FLATTEN_OUTCOME_RESOLVED, fo_reason_codes = [],
                  fo_target_count = 1, fo_closed_count = 1\<rparr>), w') \<and> w_closes w' = []"
proof -
  let ?out = "run_outside\<lparr>out_positions := \<lambda>_. Inl Mt5CallFailed\<rparr>" and ?w = "weekly_world FLATTEN_SUBMISSION_STARTED"
  obtain sc where close: "cal_weekly_close (FxWeekdayCalendar (\<lambda>_. False)) 0 = Some sc" by simp
  have start: "w_calls ?w = 0" "w_closes ?w = []" by (simp_all add: weekly_world_def run_start_def fresh_world_def)
  have out: "faultless ?out" by (simp add: faultless_def run_outside_def)
  have raw: "out_now run_outside = (\<lambda>_. 0)"
    "out_account run_outside = (\<lambda>_. Inr (demo_account, \<lparr>ax_profit = 0, ax_margin_mode = None\<rparr>))"
    "out_terminal_trade_allowed run_outside = (\<lambda>_. Inr (Some True))" "out_pending_orders run_outside = (\<lambda>_. Inr [])"
    by (simp_all add: run_outside_def)
  have acct: "account_state_valid demo_account" by (simp add: account_state_valid_def demo_account_def text_ok_def)
  have type: "ev_event_type (weekly_event FLATTEN_SUBMISSION_STARTED) = FLATTEN_SUBMISSION_STARTED"
    by (simp add: weekly_event_def flatten_event_def)
  have new: "flatten_event_id_for sample_stdlib weekly_id FLATTEN_OUTCOME_RESOLVED \<notin> ev_event_id ` set (w_flatten_events ?w)"
    by (simp add: weekly_world_def weekly_event_def flatten_event_def flatten_event_id_for_def)
  have frid: "weekly_id = flatten_request_id_for (oc_stdlib weekly_worker) (pc_environment (oc_config weekly_worker))
      (oc_symbol weekly_worker) (trading_day (oc_zone weekly_worker) (out_now ?out 0))"
    by (simp add: weekly_id_def run_outside_def)
  have last: "last_opt (events_for (w_flatten_events ?w) weekly_id) = Some (weekly_event FLATTEN_SUBMISSION_STARTED)"
    by (simp add: weekly_events last_opt_def)
  have "\<exists>w' ev. flatten_once weekly_worker ?out ?w =
      (Inr (Some \<lparr>fo_flatten_request_id = weekly_id, fo_event_type = FLATTEN_OUTCOME_RESOLVED, fo_reason_codes = [],
                  fo_target_count = length [weekly_close_of], fo_closed_count = length [weekly_close_of]\<rparr>), w') \<and>
    w_closes w' = w_closes ?w \<and> w_switch w' = w_switch ?w \<and> w_flatten_events w' = w_flatten_events ?w @ [ev] \<and>
    ev_event_type ev = FLATTEN_OUTCOME_RESOLVED \<and> ev_request_id ev = weekly_id \<and>
    ev_payload ev = Some (resolution_payload (map fi_ticket [weekly_close_of]) [] True)"
    by (rule failed_read_resolves_flatten [where n = 0 and session_close = sc
          and policy = "\<lparr>ip_enabled = True, ip_last_entry_offset = 3600000000, ip_flatten_offset = 900000000\<rparr>" and e = "weekly_event FLATTEN_SUBMISSION_STARTED"
          and acct = demo_account and extras = "\<lparr>ax_profit = 0, ax_margin_mode = None\<rparr>" and terminal = "Some True"
          and qs = "[]", OF out start(1) [symmetric] _ _ _ frid last type])
       (use close in \<open>simp_all add: raw weekly_policy weekly_instructions new acct\<close>)
  with start show ?thesis by fastforce
qed

lemma orchestrator_well_formed_witness:
  "risk_config_valid run_risk \<and> execution_config_valid run_execution \<and> ec_submission_enabled run_execution"
  using orchestrator_well_formed [OF run_config_valid run_worker_constructed]
  by (simp add: run_config_def) (simp add: run_execution_def)

end
