(* ===== verification/Journal.thy ===== *)
theory Journal
  imports World
begin

text \<open>
  The event envelope (\<^verbatim>\<open>domain/events.py\<close>) and the append-only stores a run is
  recorded in: the event journal and the sealed capsules (\<^verbatim>\<open>persistence/journal.py\<close>)
  and the market data (\<^verbatim>\<open>persistence/market_data.py\<close>). A table is the list of its
  rows in the order of the \<^verbatim>\<open>sequence\<close> column; \<^verbatim>\<open>JournalIntegrityError\<close> is a
  \<open>RuntimeError\<close>. A payload stored as JSON is read back as the value that was stored.
\<close>

subsection \<open>Payloads\<close>

datatype event_type =
    MARKET_SNAPSHOT_READY | SIGNAL_GENERATED | TRADE_INTENT_CREATED | RISK_DECISION_MADE
  | SUPERVISOR_DECISION_MADE | ORDER_CHECK_COMPLETED | ORDER_SUBMITTED | ORDER_RESULT_RECEIVED
  | POSITION_CHANGED | RECONCILIATION_COMPLETED | EVALUATION_COMPLETED | INCIDENT_RAISED
  | SYSTEM_HALT_EVENT | DECISION_CAPSULE_SEALED

fun event_type_value :: "event_type \<Rightarrow> string" where
  "event_type_value MARKET_SNAPSHOT_READY = ''MarketSnapshotReady''"
| "event_type_value SIGNAL_GENERATED = ''SignalGenerated''"
| "event_type_value TRADE_INTENT_CREATED = ''TradeIntentCreated''"
| "event_type_value RISK_DECISION_MADE = ''RiskDecisionMade''"
| "event_type_value SUPERVISOR_DECISION_MADE = ''SupervisorDecisionMade''"
| "event_type_value ORDER_CHECK_COMPLETED = ''OrderCheckCompleted''"
| "event_type_value ORDER_SUBMITTED = ''OrderSubmitted''"
| "event_type_value ORDER_RESULT_RECEIVED = ''OrderResultReceived''"
| "event_type_value POSITION_CHANGED = ''PositionChanged''"
| "event_type_value RECONCILIATION_COMPLETED = ''ReconciliationCompleted''"
| "event_type_value EVALUATION_COMPLETED = ''EvaluationCompleted''"
| "event_type_value INCIDENT_RAISED = ''IncidentRaised''"
| "event_type_value SYSTEM_HALT_EVENT = ''SystemHalted''"
| "event_type_value DECISION_CAPSULE_SEALED = ''DecisionCapsuleSealed''"

record signal_generated =
  sg_signal_id :: uuid
  sg_snapshot_id :: uuid
  sg_symbol :: string
  sg_strategy_id :: string
  sg_strategy_version :: string
  sg_model_version :: "string option"
  sg_proposed_side :: side
  sg_confidence :: rat
  sg_regime :: regime
  sg_feature_snapshot_id :: uuid
  sg_feature_set_version :: string
  sg_reason_codes :: "string list"

definition signal_generated_valid :: "signal_generated \<Rightarrow> bool" where [checks]:
  "signal_generated_valid s \<longleftrightarrow>
     symbol_ok (sg_symbol s) \<and> version_tag_ok (sg_strategy_id s) \<and> version_tag_ok (sg_strategy_version s) \<and>
     opt_ok version_tag_ok (sg_model_version s) \<and> 0 \<le> sg_confidence s \<and> sg_confidence s \<le> 1 \<and>
     version_tag_ok (sg_feature_set_version s)"

definition order_check_valid :: "order_check \<Rightarrow> bool" where [checks]:
  "order_check_valid c \<longleftrightarrow>
     opt_ok (text_ok 0 512) (ok_comment c) \<and> opt_ok (\<lambda>m. 0 \<le> m) (ok_margin_required c)"

record order_submitted =
  os_order_request_id :: uuid
  os_intent_id :: uuid
  os_broker_symbol :: string
  os_side :: side
  os_submitted_at :: utc
  os_idempotency_key :: uuid

record order_result_received =
  orr_result :: execution_result
  orr_state :: order_state

record position_changed =
  pcg_before :: "position_state list"
  pcg_after :: "position_state list"
  pcg_trigger :: string

record reconciliation_completed =
  rcc_reconciliation_id :: uuid
  rcc_account :: account_state
  rcc_broker_positions :: "position_state list"
  rcc_local_positions :: "position_state list"
  rcc_matched :: bool
  rcc_mismatch_detail :: "string option"

definition reconciliation_completed_valid :: "reconciliation_completed \<Rightarrow> bool" where [checks]:
  "reconciliation_completed_valid r \<longleftrightarrow>
     opt_ok (text_ok 0 2000) (rcc_mismatch_detail r) \<and>
     \<not> (\<not> rcc_matched r \<and> rcc_mismatch_detail r \<in> {None, Some []})"

record evaluation_completed =
  ecd_evaluation_id :: uuid
  ecd_intent_id :: "uuid option"
  ecd_window_start :: utc
  ecd_window_end :: utc
  ecd_policy_version :: string
  ecd_metrics :: json
  ecd_anomalies :: "string list"

record system_halted =
  sh_state_before :: kill_switch_state
  sh_state_after :: kill_switch_state
  sh_reason_codes :: "reason_code list"
  sh_tripped_by :: string
  sh_detail :: "string option"
  sh_incident_id :: "uuid option"

definition system_halted_valid :: "system_halted \<Rightarrow> bool" where [checks]:
  "system_halted_valid h \<longleftrightarrow>
     text_ok 1 64 (sh_tripped_by h) \<and> opt_ok (text_ok 0 2000) (sh_detail h) \<and> sh_reason_codes h \<noteq> []"

datatype event_payload =
    SnapshotReady market_snapshot
  | Signalled signal_generated
  | IntentCreated trade_intent
  | RiskDecided risk_decision
  | SupervisorDecided supervisor_decision
  | CheckCompleted order_check
  | Submitted order_submitted
  | ResultReceived order_result_received
  | PositionsChanged position_changed
  | Reconciled reconciliation_completed
  | Evaluated evaluation_completed
  | IncidentOpened incident
  | Halted system_halted
  | CapsuleSealed decision_capsule

text \<open>\<^verbatim>\<open>EVENT_PAYLOAD_TYPES\<close>, read from the payload's class to its event type.\<close>

fun event_type_for :: "event_payload \<Rightarrow> event_type" where
  "event_type_for (SnapshotReady _) = MARKET_SNAPSHOT_READY"
| "event_type_for (Signalled _) = SIGNAL_GENERATED"
| "event_type_for (IntentCreated _) = TRADE_INTENT_CREATED"
| "event_type_for (RiskDecided _) = RISK_DECISION_MADE"
| "event_type_for (SupervisorDecided _) = SUPERVISOR_DECISION_MADE"
| "event_type_for (CheckCompleted _) = ORDER_CHECK_COMPLETED"
| "event_type_for (Submitted _) = ORDER_SUBMITTED"
| "event_type_for (ResultReceived _) = ORDER_RESULT_RECEIVED"
| "event_type_for (PositionsChanged _) = POSITION_CHANGED"
| "event_type_for (Reconciled _) = RECONCILIATION_COMPLETED"
| "event_type_for (Evaluated _) = EVALUATION_COMPLETED"
| "event_type_for (IncidentOpened _) = INCIDENT_RAISED"
| "event_type_for (Halted _) = SYSTEM_HALT_EVENT"
| "event_type_for (CapsuleSealed _) = DECISION_CAPSULE_SEALED"


subsection \<open>The envelope\<close>

record journal_event =
  je_event_id :: uuid
  je_event_type :: event_type
  je_occurred_at :: utc
  je_correlation_id :: uuid
  je_causation_id :: "uuid option"
  je_schema_version :: int
  je_environment :: environment
  je_source :: string
  je_payload :: event_payload

definition journal_event_valid :: "journal_event \<Rightarrow> bool" where [checks]:
  "journal_event_valid e \<longleftrightarrow>
     1 \<le> je_schema_version e \<and> text_ok 1 64 (je_source e) \<and> event_type_for (je_payload e) = je_event_type e"

definition build_event ::
  "uuid \<Rightarrow> utc \<Rightarrow> event_payload \<Rightarrow> uuid \<Rightarrow> environment \<Rightarrow> string \<Rightarrow> uuid option \<Rightarrow> int \<Rightarrow> uuid option \<Rightarrow>
     utc option \<Rightarrow> py_exn + journal_event" where
  \<comment> \<open>the first two arguments are what \<^verbatim>\<open>uuid4\<close> and the wall clock would give\<close>
  "build_event fresh_id now payload correlation env source causation version eid occurred =
     contract journal_event_valid
       \<lparr>je_event_id = (case eid of None \<Rightarrow> fresh_id | Some e \<Rightarrow> e),
        je_event_type = event_type_for payload,
        je_occurred_at = (case occurred of None \<Rightarrow> now | Some t \<Rightarrow> t),
        je_correlation_id = correlation, je_causation_id = causation, je_schema_version = version,
        je_environment = env, je_source = source, je_payload = payload\<rparr>"

definition payload_digest :: "stdlib \<Rightarrow> (event_payload \<Rightarrow> json) \<Rightarrow> event_payload \<Rightarrow> string" where
  \<comment> \<open>\<^verbatim>\<open>model_dump\<close> is the library's; the digest is that of the JSON the journal persists\<close>
  "payload_digest sl dump payload = sha256_json sl (dump payload)"

definition event_identity ::
  "stdlib \<Rightarrow> (event_payload \<Rightarrow> json) \<Rightarrow> event_payload \<Rightarrow> uuid \<Rightarrow> uuid" where
  "event_identity sl dump payload correlation =
     uuid5_url sl (''crumblr:event:'' @ event_type_value (event_type_for payload) @ '':'' @ correlation @
       '':'' @ payload_digest sl dump payload)"


subsection \<open>The event journal\<close>

record journal_row =
  jr_event :: journal_event
  jr_schema_version :: int

definition journal_key :: "journal_row \<Rightarrow> uuid" where
  "journal_key r = je_event_id (jr_event r)"

definition journal_append :: "journal_event \<Rightarrow> journal_row list \<Rightarrow> py_exn + bool \<times> journal_row list" where
  "journal_append e rows =
     insert_once journal_key (\<lambda>_ _. Inr True)
       \<lparr>jr_event = e, jr_schema_version = je_schema_version e\<rparr> rows"

fun append_many :: "journal_event list \<Rightarrow> journal_row list \<Rightarrow> py_exn + bool list \<times> journal_row list" where
  "append_many [] rows = Inr ([], rows)"
| "append_many (e # es) rows =
     bindE (journal_append e rows) (\<lambda>(won, rows').
     mapE (\<lambda>(wons, rows''). (won # wons, rows'')) (append_many es rows'))"

definition decode_row :: "journal_row \<Rightarrow> py_exn + journal_event" where
  "decode_row r =
     (if je_schema_version (jr_event r) \<noteq> jr_schema_version r then Inl RuntimeError
      else contract journal_event_valid (jr_event r))"

definition limited :: "nat option \<Rightarrow> 'a list \<Rightarrow> 'a list" where
  "limited n xs = (case n of None \<Rightarrow> xs | Some k \<Rightarrow> take k xs)"

definition journal_order :: "journal_row list \<Rightarrow> journal_row list" where
  \<comment> \<open>\<^verbatim>\<open>ORDER BY occurred_at_utc, sequence\<close>: a stable sort of the insertion order\<close>
  "journal_order rows = sort_key (\<lambda>r. je_occurred_at (jr_event r)) rows"

definition journal_read_all ::
  "uuid option \<Rightarrow> event_type option \<Rightarrow> utc option \<Rightarrow> nat option \<Rightarrow> journal_row list \<Rightarrow> py_exn + journal_event list" where
  "journal_read_all correlation etype since n rows =
     traverseE decode_row
       (limited n (journal_order (filter (\<lambda>r.
          (case correlation of None \<Rightarrow> True | Some c \<Rightarrow> je_correlation_id (jr_event r) = c) \<and>
          (case etype of None \<Rightarrow> True | Some t \<Rightarrow> je_event_type (jr_event r) = t) \<and>
          (case since of None \<Rightarrow> True | Some t \<Rightarrow> t \<le> je_occurred_at (jr_event r))) rows)))"

definition journal_latest :: "event_type \<Rightarrow> journal_row list \<Rightarrow> py_exn + journal_event option" where
  "journal_latest t rows =
     (case last_opt (journal_order (filter (\<lambda>r. je_event_type (jr_event r) = t) rows)) of
        None \<Rightarrow> Inr None
      | Some r \<Rightarrow> mapE Some (decode_row r))"

definition journal_recent :: "nat \<Rightarrow> journal_row list \<Rightarrow> py_exn + journal_event list" where
  "journal_recent n rows = traverseE decode_row (last_n n (journal_order rows))"


subsection \<open>Sealed capsules\<close>

record capsule_row =
  cr_capsule :: decision_capsule
  cr_fingerprint :: string

definition capsule_key :: "capsule_row \<Rightarrow> uuid" where
  "capsule_key r = dc_capsule_id (cr_capsule r)"

definition capsule_seal :: "stdlib \<Rightarrow> decision_capsule \<Rightarrow> capsule_row list \<Rightarrow> py_exn + bool \<times> capsule_row list" where
  "capsule_seal sl c rows =
     bindE (provenance_fingerprint sl c) (\<lambda>f.
     insert_once capsule_key (\<lambda>_ _. Inr True) \<lparr>cr_capsule = c, cr_fingerprint = f\<rparr> rows)"

definition decode_capsule :: "stdlib \<Rightarrow> capsule_row \<Rightarrow> py_exn + decision_capsule" where
  "decode_capsule sl r =
     bindE (provenance_fingerprint sl (cr_capsule r)) (\<lambda>f.
     if f \<noteq> cr_fingerprint r then Inl RuntimeError else Inr (cr_capsule r))"

definition capsules_read_all ::
  "stdlib \<Rightarrow> environment option \<Rightarrow> string option \<Rightarrow> capsule_row list \<Rightarrow> py_exn + decision_capsule list" where
  "capsules_read_all sl env symbol rows =
     traverseE (decode_capsule sl)
       (sort_key (\<lambda>r. dc_occurred_at (cr_capsule r)) (filter (\<lambda>r.
          (case env of None \<Rightarrow> True | Some v \<Rightarrow> dc_environment (cr_capsule r) = v) \<and>
          (case symbol of None \<Rightarrow> True | Some s \<Rightarrow> dc_canonical_symbol (cr_capsule r) = s)) rows))"

definition capsule_get :: "stdlib \<Rightarrow> uuid \<Rightarrow> capsule_row list \<Rightarrow> py_exn + decision_capsule option" where
  "capsule_get sl cid rows =
     (case find_first (\<lambda>r. capsule_key r = cid) rows of
        None \<Rightarrow> Inr None
      | Some r \<Rightarrow> mapE Some (decode_capsule sl r))"


subsection \<open>Market data\<close>

definition canonical_json :: "stdlib \<Rightarrow> (string \<times> pyval) list \<Rightarrow> py_exn + string" where
  "canonical_json sl payload = mapE (json_text sl) (canonical sl (PDict payload))"

definition tick_identity ::
  "stdlib \<Rightarrow> string \<Rightarrow> string \<Rightarrow> utc \<Rightarrow> decimal \<Rightarrow> decimal \<Rightarrow> decimal option \<Rightarrow> py_exn + uuid" where
  "tick_identity sl source symbol event_time b a last_price =
     mapE (uuid5_url sl) (canonical_json sl
       [(''kind'', PStr ''crumblr:tick''), (''source'', PStr source), (''symbol'', PStr symbol),
        (''event_time'', PTime event_time), (''bid'', PDec b), (''ask'', PDec a),
        (''last'', opt_val PDec last_price)])"

definition bar_identity :: "stdlib \<Rightarrow> string \<Rightarrow> string \<Rightarrow> string \<Rightarrow> utc \<Rightarrow> py_exn + uuid" where
  "bar_identity sl source symbol timeframe open_at =
     mapE (uuid5_url sl) (canonical_json sl
       [(''kind'', PStr ''crumblr:bar''), (''source'', PStr source), (''symbol'', PStr symbol),
        (''timeframe'', PStr timeframe), (''open_time'', PTime open_at)])"

definition put_tick :: "market_tick \<Rightarrow> market_tick list \<Rightarrow> py_exn + bool \<times> market_tick list" where
  "put_tick t rows = insert_once mt_tick_id (\<lambda>_ _. Inr True) t rows"

definition put_bar :: "market_bar \<Rightarrow> market_bar list \<Rightarrow> py_exn + bool \<times> market_bar list" where
  \<comment> \<open>a stored interval must hold the same bar: \<^verbatim>\<open>_assert_unchanged\<close>\<close>
  "put_bar b rows =
     insert_once mb_bar_id (\<lambda>new old. if mb_bar old \<noteq> mb_bar new then Inl RuntimeError else Inr True) b rows"

fun record_rows :: "('r \<Rightarrow> 'r list \<Rightarrow> py_exn + bool \<times> 'r list) \<Rightarrow> 'r list \<Rightarrow> 'r list \<Rightarrow> py_exn + nat \<times> 'r list" where
  \<comment> \<open>the number of rows this call inserted\<close>
  "record_rows put [] rows = Inr (0, rows)"
| "record_rows put (r # rs) rows =
     bindE (put r rows) (\<lambda>(won, rows').
     mapE (\<lambda>(n, rows''). (if won then Suc n else n, rows'')) (record_rows put rs rows'))"

definition record_ticks :: "market_tick list \<Rightarrow> market_tick list \<Rightarrow> py_exn + nat \<times> market_tick list" where
  \<comment> \<open>the chunks of one call share a transaction, so they act as one batch\<close>
  "record_ticks ticks rows = record_rows put_tick ticks rows"

definition record_bars :: "market_bar list \<Rightarrow> market_bar list \<Rightarrow> py_exn + nat \<times> market_bar list" where
  "record_bars bars rows = record_rows put_bar bars rows"

definition read_ticks :: "string option \<Rightarrow> string option \<Rightarrow> nat option \<Rightarrow> market_tick list \<Rightarrow> market_tick list" where
  "read_ticks symbol source n rows =
     limited n (sort_key mt_event_time (filter (\<lambda>t.
       (case symbol of None \<Rightarrow> True | Some s \<Rightarrow> mt_canonical_symbol t = s) \<and>
       (case source of None \<Rightarrow> True | Some s \<Rightarrow> mt_source t = s)) rows))"

definition latest_tick :: "string \<Rightarrow> market_tick list \<Rightarrow> market_tick option" where
  "latest_tick symbol rows =
     last_opt (sort_key mt_event_time (filter (\<lambda>t. mt_canonical_symbol t = symbol) rows))"

definition bars_of :: "string \<Rightarrow> string \<Rightarrow> market_bar list \<Rightarrow> market_bar list" where
  "bars_of symbol timeframe rows =
     sort_key (\<lambda>b. open_time (mb_bar b))
       (filter (\<lambda>b. mb_canonical_symbol b = symbol \<and> mb_timeframe b = timeframe) rows)"

definition read_bars ::
  "string option \<Rightarrow> string option \<Rightarrow> string option \<Rightarrow> nat option \<Rightarrow> market_bar list \<Rightarrow> market_bar list" where
  "read_bars symbol timeframe source n rows =
     limited n (sort_key (\<lambda>b. open_time (mb_bar b)) (filter (\<lambda>b.
       (case symbol of None \<Rightarrow> True | Some s \<Rightarrow> mb_canonical_symbol b = s) \<and>
       (case timeframe of None \<Rightarrow> True | Some t \<Rightarrow> mb_timeframe b = t) \<and>
       (case source of None \<Rightarrow> True | Some s \<Rightarrow> mb_source b = s)) rows))"

definition recent_bars :: "string \<Rightarrow> string \<Rightarrow> nat \<Rightarrow> market_bar list \<Rightarrow> market_bar list" where
  \<comment> \<open>the newest \<^verbatim>\<open>limit\<close>, handed back oldest first\<close>
  "recent_bars symbol timeframe n rows = last_n n (bars_of symbol timeframe rows)"

definition latest_bar :: "string \<Rightarrow> string \<Rightarrow> market_bar list \<Rightarrow> market_bar option" where
  "latest_bar symbol timeframe rows = last_opt (bars_of symbol timeframe rows)"


subsection \<open>What the stores promise\<close>

interpretation journal_table: append_only journal_key "insert_once journal_key (\<lambda>_ _. Inr True)"
  by (rule insert_once_append_only)

interpretation capsule_table: append_only capsule_key "insert_once capsule_key (\<lambda>_ _. Inr True)"
  by (rule insert_once_append_only)

interpretation tick_table: append_only mt_tick_id put_tick
  unfolding put_tick_def by (rule insert_once_append_only)

interpretation bar_table: append_only mb_bar_id put_bar
  unfolding put_bar_def by (rule insert_once_append_only)

lemma record_rows_append_only:
  assumes "append_only key put" "record_rows put rs rows = Inr (n, rows')" "distinct (map key rows)"
  shows "distinct (map key rows') \<and> (\<exists>new. rows' = rows @ new \<and> length new = n) \<and>
         key ` set rs \<subseteq> key ` set rows'"
  using assms(2,3)
proof (induction rs arbitrary: rows n rows')
  case (Cons r rs)
  then obtain won mid m where
    p: "put r rows = Inr (won, mid)" and q: "record_rows put rs mid = Inr (m, rows')" and
    n: "n = (if won then Suc m else m)"
    by (auto simp: bindE_eq_Inr mapE_eq_Inr split: prod.splits)
  note step = append_only.put_cases [OF assms(1) p]
  have "distinct (map key mid)" using step Cons.prems(2) by auto
  from Cons.IH [OF q this] step n show ?case by auto
qed simp

lemma sorted_map_drop: "sorted (map f xs) \<Longrightarrow> sorted (map f (drop n xs))"
  by (simp add: drop_map [symmetric] sorted_wrt_drop)

lemma recent_bars_sound:
  "sorted (map (\<lambda>b. open_time (mb_bar b)) (recent_bars symbol timeframe n rows)) \<and>
   length (recent_bars symbol timeframe n rows) \<le> n \<and>
   set (recent_bars symbol timeframe n rows)
     \<subseteq> {b \<in> set rows. mb_canonical_symbol b = symbol \<and> mb_timeframe b = timeframe}"
proof -
  have "set (recent_bars symbol timeframe n rows) \<subseteq> set (bars_of symbol timeframe rows)"
    by (simp add: recent_bars_def set_last_n_subset)
  then show ?thesis
    by (auto simp: recent_bars_def bars_of_def last_n_def sorted_map_drop)
qed

end
