(* ===== verification/Baseline.thy ===== *)
theory Baseline
  imports Agent Structure
begin

text \<open>
  Causal features and the deterministic baseline strategy
  (\<^verbatim>\<open>trading_agent/features.py\<close>, \<^verbatim>\<open>trading_agent/baseline.py\<close>). The
  parameter \<open>dec_str\<close> is \<^verbatim>\<open>str\<close> of a decimal, which only reason codes show.
\<close>

subsection \<open>Features\<close>

definition FEATURE_SET_VERSION :: string where "FEATURE_SET_VERSION = ''features-v1''"
definition EMA_FAST_PERIOD :: nat where "EMA_FAST_PERIOD = 12"
definition EMA_SLOW_PERIOD :: nat where "EMA_SLOW_PERIOD = 26"
definition ATR_PERIOD :: nat where "ATR_PERIOD = 14"
definition ATR_BASELINE_PERIOD :: nat where "ATR_BASELINE_PERIOD = 50"
definition HIGH_VOLATILITY_RATIO :: decimal where "HIGH_VOLATILITY_RATIO = 8 / 5"
definition LOW_VOLATILITY_RATIO :: decimal where "LOW_VOLATILITY_RATIO = 3 / 5"
definition TREND_SCORE_THRESHOLD :: decimal where "TREND_SCORE_THRESHOLD = 1 / 2"
definition MINIMUM_BARS :: nat where "MINIMUM_BARS = ATR_BASELINE_PERIOD + ATR_PERIOD + 1"

record feature_snapshot =
  fs_feature_snapshot_id :: uuid
  fs_feature_set_version :: string
  fs_symbol :: string
  fs_computed_at :: utc
  fs_bars_used :: nat
  fs_ema_fast :: decimal
  fs_ema_slow :: decimal
  fs_atr :: decimal
  fs_atr_baseline :: decimal
  fs_volatility_ratio :: decimal
  fs_trend_score :: decimal
  fs_regime :: regime

definition feature_snapshot_valid :: "feature_snapshot \<Rightarrow> bool" where [checks]:
  "feature_snapshot_valid f \<longleftrightarrow> version_tag_ok (fs_feature_set_version f) \<and> symbol_ok (fs_symbol f)"

definition feature_values_hash :: "stdlib \<Rightarrow> feature_snapshot \<Rightarrow> py_exn + string" where
  "feature_values_hash sl f = fingerprint sl
     [(''feature_set_version'', PStr (fs_feature_set_version f)), (''ema_fast'', PDec (fs_ema_fast f)),
      (''ema_slow'', PDec (fs_ema_slow f)), (''atr'', PDec (fs_atr f)),
      (''atr_baseline'', PDec (fs_atr_baseline f)), (''volatility_ratio'', PDec (fs_volatility_ratio f)),
      (''trend_score'', PDec (fs_trend_score f)), (''regime'', PEnum (regime_value (fs_regime f)))]"

definition mean :: "decimal list \<Rightarrow> decimal" where
  "mean values = ddiv (dsum values) (of_nat (length values))"

definition ema_step :: "decimal \<Rightarrow> decimal \<Rightarrow> decimal \<Rightarrow> decimal" where
  "ema_step alpha ema value = dadd (dmul alpha value) (dmul (dsub 1 alpha) ema)"

definition ema :: "decimal list \<Rightarrow> nat \<Rightarrow> decimal option" where
  "ema values period =
     (if length values < period then None
      else Some (foldl (ema_step (ddiv 2 (of_nat (period + 1))))
                   (ddiv (dsum (take period values)) (of_nat period)) (drop period values)))"

definition true_ranges :: "bar list \<Rightarrow> decimal list" where
  "true_ranges bars = map true_range (pairwise bars)"

definition classify :: "decimal \<Rightarrow> decimal \<Rightarrow> regime" where
  "classify volatility_ratio trend_score =
     (if HIGH_VOLATILITY_RATIO \<le> volatility_ratio then HIGH_VOLATILITY
      else if volatility_ratio \<le> LOW_VOLATILITY_RATIO then LOW_VOLATILITY
      else if TREND_SCORE_THRESHOLD \<le> dabs trend_score then TREND
      else RANGE)"

definition feature_id :: "stdlib \<Rightarrow> string \<Rightarrow> utc \<Rightarrow> uuid" where
  "feature_id sl symbol computed_at =
     uuid5_url sl (''crumblr:features:'' @ symbol @ '':'' @ iso_format sl computed_at)"

definition compute_features ::
  "stdlib \<Rightarrow> bar list \<Rightarrow> string \<Rightarrow> utc \<Rightarrow> py_exn + feature_snapshot option" where
  "compute_features sl bars symbol computed_at =
     (if length bars < MINIMUM_BARS then Inr None
      else let closes = map b_close bars in
        case (ema closes EMA_FAST_PERIOD, ema closes EMA_SLOW_PERIOD) of
          (Some ema_fast, Some ema_slow) \<Rightarrow>
            (let ranges = true_ranges bars in
             if length ranges < ATR_BASELINE_PERIOD then Inr None
             else let atr = mean (last_n ATR_PERIOD ranges);
                      atr_baseline = mean (last_n ATR_BASELINE_PERIOD ranges) in
               if atr_baseline \<le> 0 then Inr None
               else let volatility_ratio = ddiv atr atr_baseline;
                        trend_score = (if 0 < atr then ddiv (dsub ema_fast ema_slow) atr else 0)
                    in mapE Some (contract feature_snapshot_valid
                      \<lparr>fs_feature_snapshot_id = feature_id sl symbol computed_at,
                       fs_feature_set_version = FEATURE_SET_VERSION, fs_symbol = symbol,
                       fs_computed_at = computed_at, fs_bars_used = length bars,
                       fs_ema_fast = ema_fast, fs_ema_slow = ema_slow, fs_atr = atr,
                       fs_atr_baseline = atr_baseline, fs_volatility_ratio = volatility_ratio,
                       fs_trend_score = trend_score, fs_regime = classify volatility_ratio trend_score\<rparr>))
        | _ \<Rightarrow> Inr None)"


subsection \<open>The strategy\<close>

definition BASELINE_ID :: string where "BASELINE_ID = ''baseline_v1''"
definition BASELINE_VERSION :: string where "BASELINE_VERSION = ''1.0.0''"
definition TRADEABLE_REGIMES :: "regime set" where "TRADEABLE_REGIMES = {TREND}"

record strategy_config =
  sc_stop_atr_multiple :: decimal
  sc_reward_multiple :: decimal
  sc_intent_lifetime_seconds :: int
  sc_min_trend_score :: decimal
  sc_max_trend_score :: decimal

definition StrategyConfig :: strategy_config where
  "StrategyConfig =
     \<lparr>sc_stop_atr_multiple = 3 / 2, sc_reward_multiple = 2, sc_intent_lifetime_seconds = 60,
      sc_min_trend_score = 1 / 2, sc_max_trend_score = 6\<rparr>"

definition confidence_from :: "decimal \<Rightarrow> strategy_config \<Rightarrow> rat" where
  "confidence_from trend_score config =
     (let magnitude = min (dabs trend_score) (sc_max_trend_score config);
          span = dsub (sc_max_trend_score config) (sc_min_trend_score config)
      in if span \<le> 0 then 0
         else let scaled = ddiv (dsub magnitude (sc_min_trend_score config)) span
              in fl (max 0 (min 1 scaled)))"

definition stop_distance_for ::
  "feature_snapshot \<Rightarrow> instrument_spec \<Rightarrow> agent_context \<Rightarrow> strategy_config \<Rightarrow> decimal" where
  "stop_distance_for features spec ctx config =
     max (dmul (fs_atr features) (sc_stop_atr_multiple config))
         (dmul (point spec) (of_int (max (ac_min_stop_distance_points ctx) (stops_level spec))))"

text \<open>Entry, stop and target, the stop rounded away from the entry and the target outwards.\<close>

definition price_levels ::
  "side \<Rightarrow> market_snapshot \<Rightarrow> decimal \<Rightarrow> decimal \<Rightarrow> int \<Rightarrow> py_exn + decimal \<times> decimal \<times> decimal" where
  "price_levels direction snap stop_dist target_dist ds =
     (if direction = BUY
      then bindE (quantize_price (dsub (ms_ask snap) stop_dist) ds ROUND_DOWN) (\<lambda>stop.
           bindE (quantize_price (dadd (ms_ask snap) target_dist) ds ROUND_UP) (\<lambda>target.
           Inr (ms_ask snap, stop, target)))
      else bindE (quantize_price (dadd (ms_bid snap) stop_dist) ds ROUND_UP) (\<lambda>stop.
           bindE (quantize_price (dsub (ms_bid snap) target_dist) ds ROUND_DOWN) (\<lambda>target.
           Inr (ms_bid snap, stop, target))))"

definition baseline_intent_id :: "stdlib \<Rightarrow> feature_snapshot \<Rightarrow> uuid" where
  "baseline_intent_id sl features =
     uuid5_url sl (''crumblr:intent:'' @ BASELINE_ID @ '':'' @ BASELINE_VERSION @ '':'' @
                   fs_feature_snapshot_id features)"

definition decide ::
  "stdlib \<Rightarrow> (decimal \<Rightarrow> string) \<Rightarrow> market_snapshot \<Rightarrow> feature_snapshot \<Rightarrow> instrument_spec \<Rightarrow>
   agent_context \<Rightarrow> strategy_config \<Rightarrow> py_exn + strategy_decision" where
  "decide sl dec_str snap features spec ctx config =
     (if fs_regime features \<notin> TRADEABLE_REGIMES
      then Inr (flat_decision (''regime_not_traded:'' @ lower (regime_value (fs_regime features))))
      else let direction = (if 0 < fs_trend_score features then BUY else SELL) in
      if direction \<in> set (ac_open_position_sides ctx) then Inr (flat_decision ''already_positioned'')
      else if sc_max_trend_score config < dabs (fs_trend_score features)
      then Inr (flat_decision ''trend_overextended'')
      else if fs_atr features \<le> 0 then Inr (flat_decision ''atr_unavailable'')
      else let stop_dist = stop_distance_for features spec ctx config;
               target_dist = dmul stop_dist (sc_reward_multiple config)
      in bindE (price_levels direction snap stop_dist target_dist (digits spec)) (\<lambda>(entry, stop, target).
      if stop \<le> 0 \<or> target \<le> 0 then Inr (flat_decision ''degenerate_price_levels'')
      else let confidence = confidence_from (fs_trend_score features) config
      in bindE (quantize (fs_trend_score features) (1 / 100) ROUND_HALF_EVEN) (\<lambda>score.
      let reason_codes =
            [''regime:'' @ lower (regime_value (fs_regime features)), ''ema_separation'',
             ''trend_score:'' @ dec_str score]
      in bindE (contract trade_intent_valid
           \<lparr>ti_intent_id = baseline_intent_id sl features, ti_strategy_id = BASELINE_ID,
            ti_strategy_version = BASELINE_VERSION, ti_model_version = None, ti_symbol = ms_symbol snap,
            ti_side = direction, ti_created_at = ms_event_time snap,
            ti_expires_at = ms_event_time snap + sc_intent_lifetime_seconds config * 1000000,
            ti_entry_type = MARKET, ti_reference_price = entry, ti_stop_loss_price = Some stop,
            ti_take_profit_price = Some target, ti_confidence = confidence,
            ti_reason_codes = reason_codes,
            ti_requested_risk_fraction = Some (ac_requested_risk_fraction ctx),
            ti_feature_snapshot_id = fs_feature_snapshot_id features\<rparr>) (\<lambda>intent.
         Inr \<lparr>sn_side = direction, sn_confidence = confidence, sn_reason_codes = reason_codes,
              sn_intent = Some intent\<rparr>))))"

definition baseline_evaluate ::
  "stdlib \<Rightarrow> (decimal \<Rightarrow> string) \<Rightarrow> strategy_config \<Rightarrow> market_snapshot \<Rightarrow> bar list \<Rightarrow>
   instrument_spec \<Rightarrow> agent_context \<Rightarrow> py_exn + feature_snapshot strategy_outcome" where
  "baseline_evaluate sl dec_str config snap bars spec ctx =
     (if length bars < MINIMUM_BARS then Inr warming_up
      else bindE (compute_features sl bars (ms_symbol snap) (ms_event_time snap)) (\<lambda>fs.
        case fs of
          None \<Rightarrow> Inr warming_up
        | Some features \<Rightarrow>
            bindE (decide sl dec_str snap features spec ctx config) (\<lambda>d.
            Inr \<lparr>so_decision = d, so_features = Some features\<rparr>)))"


subsection \<open>What the strategy proposes\<close>

lemma decide_intent:
  assumes "decide sl dec_str snap features spec ctx config = Inr d" "sn_intent d = Some i"
  shows "fs_regime features = TREND \<and> 0 < fs_atr features \<and>
    ti_side i = (if 0 < fs_trend_score features then BUY else SELL) \<and>
    dabs (fs_trend_score features) \<le> sc_max_trend_score config \<and>
    proposal_ok snap ctx d i \<and> ti_confidence i = confidence_from (fs_trend_score features) config \<and>
    (\<exists>stop target. ti_stop_loss_price i = Some stop \<and> ti_take_profit_price i = Some target \<and>
       0 < stop \<and> 0 < target \<and>
       price_levels (ti_side i) snap (stop_distance_for features spec ctx config)
         (dmul (stop_distance_for features spec ctx config) (sc_reward_multiple config)) (digits spec)
         = Inr (ti_reference_price i, stop, target))"
  using assms
  by (auto simp: decide_def Let_def bindE_eq_Inr TRADEABLE_REGIMES_def proposal_ok_def price_levels_def not_le
      split: if_splits)

lemma compute_features_facts:
  assumes "compute_features sl bars symbol t = Inr (Some f)"
  shows "MINIMUM_BARS \<le> length bars \<and> fs_symbol f = symbol \<and> fs_computed_at f = t \<and>
    fs_regime f = classify (fs_volatility_ratio f) (fs_trend_score f) \<and> 0 < fs_atr_baseline f \<and>
    fs_atr f = mean (last_n ATR_PERIOD (true_ranges bars)) \<and>
    fs_volatility_ratio f = ddiv (fs_atr f) (fs_atr_baseline f)"
  using assms
  by (auto simp: compute_features_def Let_def mapE_eq_Inr not_less split: if_splits option.splits)

lemma baseline_intent:
  assumes "baseline_evaluate sl dec_str config snap bars spec ctx = Inr out"
    and "sn_intent (so_decision out) = Some i"
  obtains f where "so_features out = Some f" "MINIMUM_BARS \<le> length bars"
    "compute_features sl bars (ms_symbol snap) (ms_event_time snap) = Inr (Some f)"
    "decide sl dec_str snap f spec ctx config = Inr (so_decision out)"
  using assms by (auto simp: baseline_evaluate_def bindE_eq_Inr split: if_splits option.splits)

interpretation baseline: strategy "baseline_evaluate sl dec_str config" MINIMUM_BARS
  for sl dec_str config
proof
  fix snap bars spec ctx out i
  assume "baseline_evaluate sl dec_str config snap bars spec ctx = Inr out" "sn_intent (so_decision out) = Some i"
  then show "so_features out \<noteq> None \<and> proposal_ok snap ctx (so_decision out) i"
    using decide_intent by (auto elim!: baseline_intent)
qed (simp add: baseline_evaluate_def)

text \<open>
  C31. What the baseline strategy proposes: an intent comes only after 65 bars, in a trending
  regime with a volatility ratio strictly between its limits, a trend score of at least the
  threshold and at most the configured maximum, on the side of the trend and never on a side
  already held; it is a valid directional intent with the context's risk fraction, entered at
  the ask or the bid; rounding to the symbol's digits moves the stop away from the entry and
  the target outwards, so the distances asked for (the wider of the volatility stop and the
  policy floor, and its reward multiple) are never tightened.
\<close>

theorem baseline_proposal_sound:
  assumes "baseline_evaluate sl dec_str config snap bars spec ctx = Inr out"
    and "sn_intent (so_decision out) = Some i"
  shows "65 \<le> length bars \<and> proposal_ok snap ctx (so_decision out) i \<and>
    (\<exists>f stop target dist. so_features out = Some f \<and> fs_regime f = TREND \<and>
       LOW_VOLATILITY_RATIO < fs_volatility_ratio f \<and> fs_volatility_ratio f < HIGH_VOLATILITY_RATIO \<and>
       TREND_SCORE_THRESHOLD \<le> dabs (fs_trend_score f) \<and>
       dabs (fs_trend_score f) \<le> sc_max_trend_score config \<and>
       (ti_side i = BUY \<longleftrightarrow> 0 < fs_trend_score f) \<and>
       dmul (fs_atr f) (sc_stop_atr_multiple config) \<le> dist \<and>
       dmul (point spec) (of_int (max (ac_min_stop_distance_points ctx) (stops_level spec))) \<le> dist \<and>
       ti_stop_loss_price i = Some stop \<and> ti_take_profit_price i = Some target \<and>
       (if ti_side i = BUY
        then stop \<le> dsub (ms_ask snap) dist \<and>
             dadd (ms_ask snap) (dmul dist (sc_reward_multiple config)) \<le> target
        else dadd (ms_bid snap) dist \<le> stop \<and>
             target \<le> dsub (ms_bid snap) (dmul dist (sc_reward_multiple config))))"
proof -
  obtain f where f: "so_features out = Some f" "MINIMUM_BARS \<le> length bars"
      "compute_features sl bars (ms_symbol snap) (ms_event_time snap) = Inr (Some f)"
      "decide sl dec_str snap f spec ctx config = Inr (so_decision out)"
    by (rule baseline_intent [OF assms])
  note d = decide_intent [OF f(4) assms(2)]
  let ?dist = "stop_distance_for f spec ctx config"
  obtain stop target where st: "ti_stop_loss_price i = Some stop" "ti_take_profit_price i = Some target"
      "0 < stop" "0 < target"
      "price_levels (ti_side i) snap ?dist (dmul ?dist (sc_reward_multiple config)) (digits spec)
         = Inr (ti_reference_price i, stop, target)"
    using d by blast
  have "classify (fs_volatility_ratio f) (fs_trend_score f) = TREND"
    using d compute_features_facts [OF f(3)] by simp
  then have "LOW_VOLATILITY_RATIO < fs_volatility_ratio f" "fs_volatility_ratio f < HIGH_VOLATILITY_RATIO"
    "TREND_SCORE_THRESHOLD \<le> dabs (fs_trend_score f)"
    by (simp_all add: classify_def not_le split: if_splits)
  moreover have "if ti_side i = BUY
      then stop \<le> dsub (ms_ask snap) ?dist \<and> dadd (ms_ask snap) (dmul ?dist (sc_reward_multiple config)) \<le> target
      else dadd (ms_bid snap) ?dist \<le> stop \<and> target \<le> dsub (ms_bid snap) (dmul ?dist (sc_reward_multiple config))"
    using st(3-5) by (auto simp: price_levels_def bindE_eq_Inr split: if_splits
        intro: quantized_below quantized_above)
  moreover have "dmul (fs_atr f) (sc_stop_atr_multiple config) \<le> ?dist"
    "dmul (point spec) (of_int (max (ac_min_stop_distance_points ctx) (stops_level spec))) \<le> ?dist"
    by (simp_all add: stop_distance_for_def)
  moreover have "65 \<le> length bars" using f(2) by (simp add: MINIMUM_BARS_def ATR_BASELINE_PERIOD_def ATR_PERIOD_def)
  ultimately show ?thesis using d f(1) st(1,2) by (cases "0 < fs_trend_score f") auto
qed


subsection \<open>A trending series\<close>

text \<open>
  Sixty-four quiet bars at 1 and one that closes at 2: the series the strategy's statement
  is instantiated at.
\<close>

definition quiet_bar :: bar where
  "quiet_bar =
     \<lparr>open_time = 0, b_open = 1, b_high = 1, b_low = 91 / 100, b_close = 1, b_tick_volume = 1,
      b_real_volume = None, b_spread_points = None\<rparr>"

definition jump_bar :: bar where
  "jump_bar = quiet_bar\<lparr>open_time := 60000000, b_open := 2, b_high := 2, b_low := 191 / 100, b_close := 2\<rparr>"

definition jump_series :: "bar list" where
  "jump_series = replicate 64 quiet_bar @ [jump_bar]"

lemma rnd_near:
  assumes "10 powi a \<le> x" "x < 10 powi (a + 1)" "\<bar>x / 10 powi (a - 27) - of_int k\<bar> < 1 / 2"
  shows "rnd x = of_int k * 10 powi (a - 27)"
proof -
  have "(0::rat) < 10 powi a" by (rule zero_less_power_int) simp
  with assms have "0 < x" by linarith
  with assms have "adjusted 10 x = a" by (intro dec28.adjusted_unique) simp_all
  moreover have "round_half_even (x / 10 powi (a - 27)) = k"
  proof -
    have "\<bar>of_int (round_half_even (x / 10 powi (a - 27)) - k)\<bar> < (1 :: rat)"
      using assms(3) round_half_even_error [of "x / 10 powi (a - 27)"] unfolding of_int_diff by linarith
    then show ?thesis by linarith
  qed
  ultimately show ?thesis using \<open>0 < x\<close> by (simp add: round_sig_def Let_def)
qed

lemma pairwise_jump: "pairwise (replicate (Suc n) x @ [y]) = replicate n (x, x) @ [(x, y)]"
proof (induction n)
  case (Suc n)
  then show ?case by (cases n) auto
qed simp

lemma foldl_dadd_replicate:
  assumes "\<And>k. k \<le> n \<Longrightarrow> rnd (of_nat k * x) = of_nat k * x"
  shows "foldl dadd 0 (replicate n x) = of_nat n * x"
  using assms
proof (induction n)
  case (Suc n)
  have "foldl dadd 0 (replicate (Suc n) x) = dadd (foldl dadd 0 (replicate n x)) x"
    by (simp flip: replicate_append_same)
  also have "foldl dadd 0 (replicate n x) = of_nat n * x" using Suc by simp
  also have "dadd (of_nat n * x) x = rnd (of_nat n * x + x)" by (simp add: dadd_def)
  also have "of_nat n * x + x = of_nat (Suc n) * x" by (simp add: algebra_simps)
  finally show ?case using Suc.prems [of "Suc n"] by simp
qed simp

lemma rnd_cents:
  "k \<le> 1000000 \<Longrightarrow> m \<le> 100 \<Longrightarrow> rnd (of_nat k * (of_nat m / 100)) = of_nat k * (of_nat m / 100)"
proof -
  assume km: "k \<le> 1000000" "m \<le> 100"
  have "(of_nat k * (of_nat m / 100) :: rat) = of_int (int (k * m)) * of_nat 10 powi (- 2)"
    by (simp add: power_int_minus)
  moreover have "k * m \<le> 1000000 * 100" using km by (rule mult_le_mono)
  then have "int (k * m) \<le> 100000000" by linarith
  then have "\<bar>int (k * m)\<bar> < int 10 ^ 28" by simp
  ultimately show ?thesis by (rule dec28.round_sig_exact_less)
qed

lemma dsum_flat: "n \<le> 1000000 \<Longrightarrow> m \<le> 100 \<Longrightarrow> dsum (replicate n (of_nat m / 100)) = of_nat n * (of_nat m / 100)"
  unfolding dsum_def by (rule foldl_dadd_replicate, rule rnd_cents) simp_all

lemma foldl_fixed: "f a x = a \<Longrightarrow> foldl f a (replicate n x) = a"
  by (induction n) simp_all

lemma alphas:
  "ddiv 2 13 = 1538461538461538461538461538 / 10 ^ 28"
  "ddiv 2 27 = 7407407407407407407407407407 / 10 ^ 29"
  "dsub 1 (1538461538461538461538461538 / 10 ^ 28) = 8461538461538461538461538462 / 10 ^ 28"
  "dsub 1 (7407407407407407407407407407 / 10 ^ 29) = 9259259259259259259259259259 / 10 ^ 28"
  unfolding ddiv_def dsub_def
  by (subst rnd_near [where a = "-1" and k = 1538461538461538461538461538] rnd_near [where a = "-2" and k = 7407407407407407407407407407]
      rnd_near [where a = "-1" and k = 8461538461538461538461538462] rnd_near [where a = "-1" and k = 9259259259259259259259259259];
      simp add: power_int_minus)+

lemma jump_closes: "map b_close jump_series = replicate 64 1 @ [2]"
  by (simp add: jump_series_def quiet_bar_def jump_bar_def)

lemma jump_ranges: "true_ranges jump_series = replicate 63 (9 / 100) @ [1]"
proof -
  have "pairwise jump_series = replicate 63 (quiet_bar, quiet_bar) @ [(quiet_bar, jump_bar)]"
    using pairwise_jump [of 63 quiet_bar jump_bar] by (simp add: jump_series_def)
  moreover have "true_range (quiet_bar, quiet_bar) = 9 / 100" "true_range (quiet_bar, jump_bar) = 1"
    by (simp_all add: true_range_def quiet_bar_def jump_bar_def decimal_eval)
  ultimately show ?thesis by (simp add: true_ranges_def)
qed

lemma ema_jump:
  assumes "p \<le> 64" "0 < p" "p \<le> 100" "alpha = ddiv 2 (of_nat (p + 1))" "rnd (alpha + dsub 1 alpha) = 1"
  shows "ema (replicate 64 1 @ [2]) p = Some (dadd (dmul alpha 2) (dsub 1 alpha))"
proof -
  have seed: "ddiv (dsum (replicate p 1)) (of_nat p) = 1"
    using dsum_flat [of p 100] assms by (simp add: ddiv_def rnd_exact)
  have "ema_step alpha 1 1 = 1"
    using assms(4,5) by (simp add: ema_step_def dadd_def dmul_def dsub_def ddiv_def)
  then have "foldl (ema_step alpha) 1 (replicate (64 - p) 1) = 1" by (rule foldl_fixed)
  moreover have "ema_step alpha 1 2 = dadd (dmul alpha 2) (dsub 1 alpha)"
    by (simp add: ema_step_def dmul_def dsub_def)
  ultimately show ?thesis using assms seed by (simp add: ema_def)
qed

lemma jump_emas:
  "ema (replicate 64 1 @ [2]) 12 = Some (1153846153846153846153846154 / 10 ^ 27)"
  "ema (replicate 64 1 @ [2]) 26 = Some (1074074074074074074074074074 / 10 ^ 27)"
proof -
  let ?a = "1538461538461538461538461538 / 10 ^ 28 :: rat" and ?b = "7407407407407407407407407407 / 10 ^ 29 :: rat"
  have r: "rnd (?a + dsub 1 ?a) = 1" "rnd (?b + dsub 1 ?b) = 1"
    using rnd_exact [of 1] rnd_near [of "-1" "?b + 9259259259259259259259259259 / 10 ^ 28" "10 ^ 28"]
    unfolding alphas by (simp_all add: power_int_minus)
  have a: "dmul ?a 2 = 3076923076923076923076923076 / 10 ^ 28"
    unfolding dmul_def by (subst rnd_near [where a = "-1" and k = 3076923076923076923076923076]) (simp_all add: power_int_minus)
  have b: "dmul ?b 2 = 1481481481481481481481481481 / 10 ^ 28"
    unfolding dmul_def by (subst rnd_near [where a = "-1" and k = 1481481481481481481481481481]) (simp_all add: power_int_minus)
  have "dadd (dmul ?a 2) (dsub 1 ?a) = 1153846153846153846153846154 / 10 ^ 27"
    unfolding a alphas dadd_def
    by (subst rnd_near [where a = 0 and k = 1153846153846153846153846154]) (simp_all add: power_int_minus)
  moreover have "dadd (dmul ?b 2) (dsub 1 ?b) = 1074074074074074074074074074 / 10 ^ 27"
    unfolding b alphas dadd_def
    by (subst rnd_near [where a = 0 and k = 1074074074074074074074074074]) (simp_all add: power_int_minus)
  ultimately show "ema (replicate 64 1 @ [2]) 12 = Some (1153846153846153846153846154 / 10 ^ 27)"
    "ema (replicate 64 1 @ [2]) 26 = Some (1074074074074074074074074074 / 10 ^ 27)"
    using ema_jump [of 12 ?a] ema_jump [of 26 ?b] r alphas(1,2) by simp_all
qed

lemma jump_means:
  "mean (last_n 14 (true_ranges jump_series)) = 31 / 200"
  "mean (last_n 50 (true_ranges jump_series)) = 541 / 5000"
proof -
  have e: "dsum (replicate 13 (9 / 100)) = 117 / 100" "dsum (replicate 49 (9 / 100)) = 441 / 100"
    using dsum_flat [of 13 9] dsum_flat [of 49 9] by simp_all
  have snoc: "dsum (xs @ [1]) = rnd (dsum xs + 1)" for xs by (simp add: dsum_def dadd_def)
  have m: "dsum (replicate 13 (9 / 100) @ [1]) = 217 / 100" "dsum (replicate 49 (9 / 100) @ [1]) = 541 / 100"
    unfolding snoc e by (simp_all add: rnd_exact)
  show "mean (last_n 14 (true_ranges jump_series)) = 31 / 200"
    "mean (last_n 50 (true_ranges jump_series)) = 541 / 5000"
    unfolding jump_ranges by (simp_all add: mean_def last_n_def m ddiv_def rnd_exact)
qed

lemma rnd_between: "rnd l = l \<Longrightarrow> rnd u = u \<Longrightarrow> l \<le> x \<Longrightarrow> x \<le> u \<Longrightarrow> l \<le> rnd x \<and> rnd x \<le> u"
  by (metis dec28.round_sig_mono)

lemma jump_features:
  "\<exists>f. compute_features sl jump_series ''EUR/USD'' t = Inr (Some f) \<and> fs_regime f = TREND \<and>
     fs_atr f = 31 / 200 \<and> 1 / 2 \<le> fs_trend_score f \<and> fs_trend_score f \<le> 1"
proof -
  let ?d = "dsub (1153846153846153846153846154 / 10 ^ 27) (1074074074074074074074074074 / 10 ^ 27)"
  have d: "3 / 40 \<le> ?d \<and> ?d \<le> 2 / 25"
    unfolding dsub_def by (rule rnd_between) (simp_all add: rnd_exact)
  have trend: "1 / 2 \<le> ddiv ?d (31 / 200)"
  proof -
    have "?d = 7977207977207977207977208 / 10 ^ 26"
      unfolding dsub_def by (subst rnd_near [where a = "-2" and k = 7977207977207977207977208000]) (simp_all add: power_int_minus)
    then show ?thesis
      unfolding ddiv_def using rnd_between [of "1 / 2" 1 "?d / (31 / 200)"] by (simp add: rnd_exact)
  qed
  have trend': "ddiv ?d (31 / 200) \<le> 1" using d unfolding ddiv_def
    using rnd_between [of "-1" 1 "?d / (31 / 200)"] trend by (simp add: rnd_exact)
  have ratio: "1 \<le> ddiv (31 / 200) (541 / 5000) \<and> ddiv (31 / 200) (541 / 5000) \<le> 3 / 2"
    unfolding ddiv_def by (rule rnd_between) (simp_all add: rnd_exact)
  have idem: "rnd (ddiv a b) = ddiv a b" for a b by (simp add: ddiv_def)
  have c: "classify (ddiv (31 / 200) (541 / 5000)) (ddiv ?d (31 / 200)) = TREND"
    using ratio trend by (simp add: classify_def HIGH_VOLATILITY_RATIO_def LOW_VOLATILITY_RATIO_def
        TREND_SCORE_THRESHOLD_def dabs_def idem)
  have len: "length jump_series = 65" "length (true_ranges jump_series) = 64"
    by (simp_all add: jump_series_def true_ranges_def)
  show ?thesis
    using trend trend' c
    by (simp add: compute_features_def len jump_means jump_emas jump_closes MINIMUM_BARS_def ATR_BASELINE_PERIOD_def
        ATR_PERIOD_def EMA_FAST_PERIOD_def EMA_SLOW_PERIOD_def contract_def feature_snapshot_valid_def
        text_ok_def FEATURE_SET_VERSION_def Let_def)
qed


lemma confidence_range: "0 \<le> confidence_from t config \<and> confidence_from t config \<le> 1"
proof -
  have "0 \<le> max 0 (min 1 x) \<and> max 0 (min 1 x) \<le> 1" for x :: rat by simp
  then have "fl 0 \<le> fl (max 0 (min 1 x)) \<and> fl (max 0 (min 1 x)) \<le> fl 1" for x :: rat
    by (intro conjI bin64.round_sig_mono) auto
  moreover have "fl 1 = 1" using bin64.round_sig_powi [of 0] by simp
  ultimately show ?thesis by (simp add: confidence_from_def Let_def)
qed

definition jump_quote :: market_snapshot where
  "jump_quote =
     \<lparr>ms_snapshot_id = ''s1'', ms_symbol = ''EUR/USD'', ms_event_time = 0, ms_received_time = 0,
      ms_bid = 199 / 100, ms_ask = 2, ms_spread_points = 10, ms_timeframe = ''M5'', ms_bars = [],
      ms_session_state = OPEN, ms_symbol_spec_version = ''v1'', ms_data_quality = GOOD\<rparr>"

lemma jump_fields [simp]:
  "ms_symbol jump_quote = ''EUR/USD''" "ms_event_time jump_quote = 0" "ms_bid jump_quote = 199 / 100"
  "ms_ask jump_quote = 2" "ac_open_position_sides AgentContext = []"
  "ac_requested_risk_fraction AgentContext = 1 / 200" "ac_min_stop_distance_points AgentContext = 0"
  "sc_stop_atr_multiple StrategyConfig = 3 / 2" "sc_reward_multiple StrategyConfig = 2"
  "sc_intent_lifetime_seconds StrategyConfig = 60" "sc_min_trend_score StrategyConfig = 1 / 2"
  "sc_max_trend_score StrategyConfig = 6"
  by (simp_all add: jump_quote_def AgentContext_def StrategyConfig_def)

lemma baseline_proposal_sound_witness:
  "\<exists>out i. baseline_evaluate sample_stdlib (\<lambda>d. ''0.51'') StrategyConfig jump_quote jump_series eurusd AgentContext = Inr out \<and>
     sn_intent (so_decision out) = Some i \<and> ti_side i = BUY \<and> proposal_ok jump_quote AgentContext (so_decision out) i"
proof -
  obtain f where f: "compute_features sample_stdlib jump_series ''EUR/USD'' 0 = Inr (Some f)" "fs_regime f = TREND"
      "fs_atr f = 31 / 200" "1 / 2 \<le> fs_trend_score f" "fs_trend_score f \<le> 1"
    using jump_features by blast
  have len: "length jump_series = 65" by (simp add: jump_series_def)
  have dist: "stop_distance_for f eurusd AgentContext StrategyConfig = 93 / 400"
    by (simp add: stop_distance_for_def f AgentContext_def StrategyConfig_def dmul_def rnd_exact)
  have levels: "price_levels BUY jump_quote (93 / 400) (dmul (93 / 400) 2) 5 = Inr (2, 707 / 400, 493 / 200)"
    by (simp add: price_levels_def jump_quote_def decimal_eval quantize_price_def tick_size_for_digits_def
        quantize_def power_int_minus round_up_def Let_def)
  have "dabs (fs_trend_score f) \<le> 6" using f(4,5) rnd_between [of 0 1 "fs_trend_score f"]
    by (simp add: dabs_def rnd_exact)
  have "\<bar>fs_trend_score f * 100\<bar> \<le> 100" using f(4,5) by simp
  have q: "\<exists>q. quantize (fs_trend_score f) (1 / 100) ROUND_HALF_EVEN = Inr q"
  proof -
    have "round_half_even (fs_trend_score f * 100) \<le> round_half_even (of_int 100)"
      "round_half_even (of_int 0) \<le> round_half_even (fs_trend_score f * 100)"
      using f(4,5) by (intro round_half_even_mono; simp)+
    then have "\<bar>round_half_even (fs_trend_score f * 100)\<bar> \<le> 100" unfolding round_half_even_of_int by simp
    then show ?thesis by (simp add: quantize_def Let_def del: divide_const_simps)
  qed
  then obtain q where q: "quantize (fs_trend_score f) (1 / 100) ROUND_HALF_EVEN = Inr q" by blast
  have "\<exists>d i. decide sample_stdlib (\<lambda>d. ''0.51'') jump_quote f eurusd AgentContext StrategyConfig = Inr d \<and>
      sn_intent d = Some i \<and> ti_side i = BUY"
    using f(4) \<open>dabs (fs_trend_score f) \<le> 6\<close> confidence_range [of "fs_trend_score f" StrategyConfig]
    by (simp add: decide_def Let_def TRADEABLE_REGIMES_def f(2,3) dist levels q contract_def
        trade_intent_valid_def check_lifetime_def check_directional_requirements_def DIRECTIONAL_SIDES_def
        check_stop_direction_def text_ok_def BASELINE_ID_def BASELINE_VERSION_def)
  then obtain d i where d: "decide sample_stdlib (\<lambda>d. ''0.51'') jump_quote f eurusd AgentContext StrategyConfig = Inr d"
      "sn_intent d = Some i" "ti_side i = BUY" by blast
  have e: "baseline_evaluate sample_stdlib (\<lambda>d. ''0.51'') StrategyConfig jump_quote jump_series eurusd AgentContext
      = Inr \<lparr>so_decision = d, so_features = Some f\<rparr>"
    using f(1) d(1) by (simp add: baseline_evaluate_def len MINIMUM_BARS_def ATR_BASELINE_PERIOD_def ATR_PERIOD_def
        jump_quote_def)
  with baseline_proposal_sound [OF e] d(2,3) show ?thesis by fastforce
qed

end
