(* ===== verification/Strategies.thy ===== *)
theory Strategies
  imports Baseline Ict
begin

text \<open>
  Which strategy a configured id resolves to (\<^verbatim>\<open>trading_agent/registry.py\<close>). The two
  strategies return evidence of their own; \<open>evidence\<close> is the protocol
  \<^verbatim>\<open>FeatureEvidence\<close> the orchestrators read it through. Every registered entry meets
  the strategy contract, so what is proved from the contract holds of whatever the
  configuration selects.
\<close>

datatype evidence = BaselineEvidence feature_snapshot | IctEvidence ict_feature_snapshot

fun evidence_id :: "evidence \<Rightarrow> uuid" where
  "evidence_id (BaselineEvidence f) = fs_feature_snapshot_id f"
| "evidence_id (IctEvidence f) = if_feature_snapshot_id f"

fun evidence_set_version :: "evidence \<Rightarrow> string" where
  "evidence_set_version (BaselineEvidence f) = fs_feature_set_version f"
| "evidence_set_version (IctEvidence f) = if_feature_set_version f"

fun evidence_symbol :: "evidence \<Rightarrow> string" where
  "evidence_symbol (BaselineEvidence f) = fs_symbol f"
| "evidence_symbol (IctEvidence f) = if_symbol f"

fun evidence_regime :: "evidence \<Rightarrow> regime" where
  "evidence_regime (BaselineEvidence f) = fs_regime f"
| "evidence_regime (IctEvidence f) = ict_regime f"

fun evidence_values_hash :: "stdlib \<Rightarrow> evidence \<Rightarrow> py_exn + string" where
  "evidence_values_hash sl (BaselineEvidence f) = feature_values_hash sl f"
| "evidence_values_hash sl (IctEvidence f) = ict_feature_values_hash sl f"

type_synonym strategy_callable =
  "market_snapshot \<Rightarrow> bar list \<Rightarrow> instrument_spec \<Rightarrow> agent_context \<Rightarrow> py_exn + evidence strategy_outcome"

record strategy_entry =
  se_strategy_id :: string
  se_version :: string
  se_minimum_bars :: nat
  se_evaluate :: strategy_callable

definition with_evidence :: "('f \<Rightarrow> evidence) \<Rightarrow> 'f strategy_outcome \<Rightarrow> evidence strategy_outcome" where
  "with_evidence g outcome =
     \<lparr>so_decision = so_decision outcome, so_features = map_option g (so_features outcome)\<rparr>"

definition STRATEGIES ::
  "stdlib \<Rightarrow> (decimal \<Rightarrow> string) \<Rightarrow> zone_data \<Rightarrow> (string \<times> strategy_entry) list" where
  "STRATEGIES sl dec_str zone =
     [(BASELINE_ID,
       \<lparr>se_strategy_id = BASELINE_ID, se_version = BASELINE_VERSION, se_minimum_bars = MINIMUM_BARS,
        se_evaluate = (\<lambda>snap bars spec ctx.
          mapE (with_evidence BaselineEvidence)
            (baseline_evaluate sl dec_str StrategyConfig snap bars spec ctx))\<rparr>),
      (ICT_ID,
       \<lparr>se_strategy_id = ICT_ID, se_version = ICT_VERSION, se_minimum_bars = ICT_MINIMUM_BARS,
        se_evaluate = (\<lambda>snap bars spec ctx.
          mapE (with_evidence IctEvidence)
            (ict_evaluate sl dec_str zone IctConfig snap bars spec ctx))\<rparr>)]"

definition resolve_strategy ::
  "stdlib \<Rightarrow> (decimal \<Rightarrow> string) \<Rightarrow> zone_data \<Rightarrow> string \<Rightarrow> py_exn + strategy_entry" where
  "resolve_strategy sl dec_str zone sid =
     (case map_of (STRATEGIES sl dec_str zone) sid of None \<Rightarrow> Inl KeyError | Some entry \<Rightarrow> Inr entry)"

lemma with_evidence_simps [simp]:
  "so_decision (with_evidence g out) = so_decision out"
  "so_features (with_evidence g out) = map_option g (so_features out)"
  "with_evidence g warming_up = warming_up"
  by (simp_all add: with_evidence_def warming_up_def)

lemma strategy_wrapped:
  fixes run :: "market_snapshot \<Rightarrow> bar list \<Rightarrow> instrument_spec \<Rightarrow> agent_context \<Rightarrow> py_exn + 'f strategy_outcome"
  assumes "strategy run n"
  shows "strategy (\<lambda>snap bars spec ctx. mapE (with_evidence g) (run snap bars spec ctx)) n"
proof
  show "length bars < n \<Longrightarrow> mapE (with_evidence g) (run snap bars spec ctx) = Inr warming_up"
    for bars :: "bar list" and snap spec ctx
    by (simp add: strategy.too_short [OF assms])
next
  fix snap bars spec ctx out i
  assume "mapE (with_evidence g) (run snap bars spec ctx) = Inr out" and i: "sn_intent (so_decision out) = Some i"
  then obtain out' where "run snap bars spec ctx = Inr out'" "out = with_evidence g out'"
    by (auto simp: mapE_eq_Inr)
  with i strategy.proposes [OF assms, of snap bars spec ctx out' i]
  show "so_features out \<noteq> None \<and> proposal_ok snap ctx (so_decision out) i" by auto
qed

lemma resolved_strategy:
  assumes "resolve_strategy sl dec_str zone sid = Inr entry"
  shows "strategy (se_evaluate entry) (se_minimum_bars entry)" "se_strategy_id entry = sid"
    "version_tag_ok (se_version entry)" "version_tag_ok sid"
  using assms
  by (auto simp: resolve_strategy_def STRATEGIES_def strategy_wrapped baseline.strategy_axioms
      ict.strategy_axioms BASELINE_VERSION_def ICT_VERSION_def BASELINE_ID_def ICT_ID_def text_ok_def
      split: if_splits)

end
