(* ===== verification/Recording.thy ===== *)
theory Recording
  imports Journal Strategies
begin

text \<open>
  Writing a run into the journal (\<^verbatim>\<open>application/recording.py\<close>), and the desk both
  orchestrators work at: the kill switch with its store, the recorder and the database it
  writes to. A database transaction may fail before it happens or after it has committed, as
  the two oracles say for the number of transactions made so far; a transaction whose body
  raises leaves the tables as they were, while the recorder's own fields keep what was
  assigned to them.
\<close>

definition MARKET_DATA_BATCH :: nat where "MARKET_DATA_BATCH = 500"

record audit_db =
  au_events :: "journal_row list"
  au_capsules :: "capsule_row list"
  au_ticks :: "market_tick list"
  au_bars :: "market_bar list"
  au_features :: "evidence list"

record journal_recorder =
  rr_environment :: environment
  rr_pending :: "journal_event list"
  rr_pending_ticks :: "market_tick list"
  rr_pending_bars :: "market_bar list"
  rr_ticks_written :: nat
  rr_bars_written :: nat
  rr_chain_correlation :: "uuid option"
  rr_chain_last_event :: "uuid option"
  rr_events_written :: nat
  rr_capsules_written :: nat

definition new_journal_recorder :: "environment \<Rightarrow> journal_recorder" where
  "new_journal_recorder env =
     \<lparr>rr_environment = env, rr_pending = [], rr_pending_ticks = [], rr_pending_bars = [],
      rr_ticks_written = 0, rr_bars_written = 0, rr_chain_correlation = None,
      rr_chain_last_event = None, rr_events_written = 0, rr_capsules_written = 0\<rparr>"

datatype run_recorder = NullRecorder | JournalRecorder journal_recorder

record 's desk =
  dk_switch :: kill_switch
  dk_store :: 's
  dk_recorder :: run_recorder
  dk_db :: audit_db
  dk_calls :: nat

record 's desk_env =
  de_stdlib :: stdlib
  de_ops :: "'s store_ops"
  de_dump :: "event_payload \<Rightarrow> json"
  de_fault :: "nat \<Rightarrow> py_exn option"
  de_commit_lost :: "nat \<Rightarrow> py_exn option"

definition begin_transaction ::
  "'s desk_env \<Rightarrow> (('s, 'm) desk_scheme, 'a) prog \<Rightarrow> (('s, 'm) desk_scheme, 'a) prog" where
  "begin_transaction env body w =
     (let n = dk_calls w; w' = w\<lparr>dk_calls := n + 1\<rparr>
      in case de_fault env n of
           Some e \<Rightarrow> (Inl e, w')
         | None \<Rightarrow>
             (case body w' of
                (Inl e, w'') \<Rightarrow> (Inl e, w''\<lparr>dk_db := dk_db w\<rparr>)
              | (Inr x, w'') \<Rightarrow>
                  (case de_commit_lost env n of Some e \<Rightarrow> (Inl e, w'') | None \<Rightarrow> (Inr x, w''))))"

definition on_recorder :: "(journal_recorder \<Rightarrow> journal_recorder) \<Rightarrow> (('s, 'm) desk_scheme, unit) prog" where
  "on_recorder f = modifyM (\<lambda>w.
     case dk_recorder w of
       NullRecorder \<Rightarrow> w
     | JournalRecorder r \<Rightarrow> w\<lparr>dk_recorder := JournalRecorder (f r)\<rparr>)"

definition recording ::
  "(journal_recorder \<Rightarrow> (('s, 'm) desk_scheme, unit) prog) \<Rightarrow> (('s, 'm) desk_scheme, unit) prog" where
  \<comment> \<open>which implementation is held decides whether anything happens at all\<close>
  "recording k = bindM (getM dk_recorder) (\<lambda>rec.
     case rec of NullRecorder \<Rightarrow> returnM () | JournalRecorder r \<Rightarrow> k r)"


subsection \<open>Buffering\<close>

definition chain_reset :: "uuid \<Rightarrow> journal_recorder \<Rightarrow> journal_recorder" where
  "chain_reset correlation r =
     (if Some correlation \<noteq> rr_chain_correlation r
      then r\<lparr>rr_chain_correlation := Some correlation, rr_chain_last_event := None\<rparr> else r)"

definition record_event ::
  "'s desk_env \<Rightarrow> event_payload \<Rightarrow> uuid \<Rightarrow> utc \<Rightarrow> string \<Rightarrow> (('s, 'm) desk_scheme, unit) prog" where
  "record_event env payload correlation occurred source =
     bindM (on_recorder (chain_reset correlation)) (\<lambda>_.
     recording (\<lambda>r.
       let eid = event_identity (de_stdlib env) (de_dump env) payload correlation in
       bindM (liftM (build_event eid occurred payload correlation (rr_environment r) source
                       (rr_chain_last_event r) 1 (Some eid) (Some occurred))) (\<lambda>e.
       on_recorder (\<lambda>r. r\<lparr>rr_pending := rr_pending r @ [e], rr_chain_last_event := Some eid\<rparr>))))"


subsection \<open>Writing\<close>

definition put_events :: "journal_event list \<Rightarrow> (('s, 'm) desk_scheme, unit) prog" where
  "put_events batch w =
     (case append_many batch (au_events (dk_db w)) of
        Inl e \<Rightarrow> (Inl e, w)
      | Inr (_, rows) \<Rightarrow> (Inr (), w\<lparr>dk_db := (dk_db w)\<lparr>au_events := rows\<rparr>\<rparr>))"

definition put_capsule :: "stdlib \<Rightarrow> decision_capsule \<Rightarrow> (('s, 'm) desk_scheme, unit) prog" where
  "put_capsule sl c w =
     (case capsule_seal sl c (au_capsules (dk_db w)) of
        Inl e \<Rightarrow> (Inl e, w)
      | Inr (_, rows) \<Rightarrow> (Inr (), w\<lparr>dk_db := (dk_db w)\<lparr>au_capsules := rows\<rparr>\<rparr>))"

definition put_ticks :: "market_tick list \<Rightarrow> (('s, 'm) desk_scheme, nat) prog" where
  "put_ticks ts w =
     (case record_ticks ts (au_ticks (dk_db w)) of
        Inl e \<Rightarrow> (Inl e, w)
      | Inr (n, rows) \<Rightarrow> (Inr n, w\<lparr>dk_db := (dk_db w)\<lparr>au_ticks := rows\<rparr>\<rparr>))"

definition put_bars :: "market_bar list \<Rightarrow> (('s, 'm) desk_scheme, nat) prog" where
  "put_bars bs w =
     (case record_bars bs (au_bars (dk_db w)) of
        Inl e \<Rightarrow> (Inl e, w)
      | Inr (n, rows) \<Rightarrow> (Inr n, w\<lparr>dk_db := (dk_db w)\<lparr>au_bars := rows\<rparr>\<rparr>))"

definition flush_market_data :: "'s desk_env \<Rightarrow> (('s, 'm) desk_scheme, unit) prog" where
  "flush_market_data env =
     recording (\<lambda>r.
       if rr_pending_ticks r = [] \<and> rr_pending_bars r = [] then returnM ()
       else
         bindM (on_recorder (\<lambda>r. r\<lparr>rr_pending_ticks := [], rr_pending_bars := []\<rparr>)) (\<lambda>_.
         begin_transaction env
           (bindM (put_ticks (rr_pending_ticks r)) (\<lambda>n.
            bindM (on_recorder (\<lambda>r. r\<lparr>rr_ticks_written := rr_ticks_written r + n\<rparr>)) (\<lambda>_.
            bindM (put_bars (rr_pending_bars r)) (\<lambda>m.
            on_recorder (\<lambda>r. r\<lparr>rr_bars_written := rr_bars_written r + m\<rparr>)))))))"

definition observe_market ::
  "'s desk_env \<Rightarrow> market_tick \<Rightarrow> market_bar option \<Rightarrow> (('s, 'm) desk_scheme, unit) prog" where
  "observe_market env tick b =
     bindM (on_recorder (\<lambda>r. r\<lparr>rr_pending_ticks := rr_pending_ticks r @ [tick],
                               rr_pending_bars := rr_pending_bars r @
                                 (case b of None \<Rightarrow> [] | Some x \<Rightarrow> [x])\<rparr>)) (\<lambda>_.
     recording (\<lambda>r.
       if MARKET_DATA_BATCH \<le> length (rr_pending_ticks r) then flush_market_data env else returnM ()))"

definition record_features :: "'s desk_env \<Rightarrow> evidence \<Rightarrow> (('s, 'm) desk_scheme, unit) prog" where
  \<comment> \<open>one row per evidence identity, written at once\<close>
  "record_features env f =
     recording (\<lambda>r. begin_transaction env (modifyM (\<lambda>w.
       if evidence_id f \<in> evidence_id ` set (au_features (dk_db w)) then w
       else w\<lparr>dk_db := (dk_db w)\<lparr>au_features := au_features (dk_db w) @ [f]\<rparr>\<rparr>)))"

definition write_batch ::
  "'s desk_env \<Rightarrow> journal_event list \<Rightarrow> decision_capsule option \<Rightarrow> (('s, 'm) desk_scheme, unit) prog" where
  \<comment> \<open>the one transaction of a window: its events and, when it is sealed, its capsule\<close>
  "write_batch env batch c =
     begin_transaction env
       (bindM (put_events batch) (\<lambda>_.
        case c of None \<Rightarrow> returnM () | Some capsule \<Rightarrow> put_capsule (de_stdlib env) capsule))"

definition seal :: "'s desk_env \<Rightarrow> decision_capsule \<Rightarrow> (('s, 'm) desk_scheme, unit) prog" where
  "seal env capsule =
     bindM (record_event env (CapsuleSealed capsule) (dc_correlation_id capsule)
              (dc_occurred_at capsule) ''orchestration'') (\<lambda>_.
     recording (\<lambda>r.
       bindM (on_recorder (\<lambda>r. r\<lparr>rr_pending := []\<rparr>)) (\<lambda>_.
       bindM (write_batch env (rr_pending r) (Some capsule)) (\<lambda>_.
       on_recorder (\<lambda>r'. r'\<lparr>rr_events_written := rr_events_written r' + length (rr_pending r),
                            rr_capsules_written := rr_capsules_written r' + 1\<rparr>)))))"

definition flush :: "'s desk_env \<Rightarrow> (('s, 'm) desk_scheme, unit) prog" where
  "flush env =
     bindM (flush_market_data env) (\<lambda>_.
     recording (\<lambda>r.
       if rr_pending r = [] then returnM ()
       else
         bindM (on_recorder (\<lambda>r. r\<lparr>rr_pending := []\<rparr>)) (\<lambda>_.
         bindM (write_batch env (rr_pending r) None) (\<lambda>_.
         on_recorder (\<lambda>r'. r'\<lparr>rr_events_written := rr_events_written r' + length (rr_pending r)\<rparr>)))))"


subsection \<open>Halting\<close>

definition desk_trip_switch ::
  "'s desk_env \<Rightarrow> reason_code list \<Rightarrow> string \<Rightarrow> utc \<Rightarrow> string option \<Rightarrow> (('s, 'm) desk_scheme, unit) prog" where
  "desk_trip_switch env reasons who occurred detail w =
     (case trip (de_ops env) reasons who occurred (case detail of None \<Rightarrow> JNull | Some s \<Rightarrow> JStr s)
             (dk_switch w, dk_store w) of
        (r, (switch, store)) \<Rightarrow> (mapE (\<lambda>_. ()) r, w\<lparr>dk_switch := switch, dk_store := store\<rparr>))"

definition desk_trip ::
  "'s desk_env \<Rightarrow> reason_code list \<Rightarrow> string \<Rightarrow> utc \<Rightarrow> uuid \<Rightarrow> string option \<Rightarrow> (('s, 'm) desk_scheme, unit) prog" where
  \<comment> \<open>\<^verbatim>\<open>_trip\<close>: the durable switch first, then the journal's account of it, at once\<close>
  "desk_trip env reasons who occurred correlation detail =
     bindM (getM dk_switch) (\<lambda>before.
     if is_halted before then returnM ()
     else
       bindM (desk_trip_switch env reasons who occurred detail) (\<lambda>_.
       bindM (getM dk_switch) (\<lambda>after.
       bindM (liftM (contract system_halted_valid
                \<lparr>sh_state_before = ks_state before, sh_state_after = ks_state after,
                 sh_reason_codes = reasons, sh_tripped_by = who, sh_detail = detail,
                 sh_incident_id = None\<rparr>)) (\<lambda>halted.
       bindM (record_event env (Halted halted) correlation occurred ''risk_engine'') (\<lambda>_.
       flush env)))))"

end
