(* ===== verification/Synthetic.thy ===== *)
theory Synthetic
  imports Journal
begin

text \<open>
  The seeded synthetic market (\<^verbatim>\<open>market_data/synthetic.py\<close>). \<^verbatim>\<open>random.Random\<close> is
  a state with two drawing operations, \<open>rng\<close>; a drawn float is the rational it denotes. The
  generator's loop advances a clock and skips the weekend, so it is written with fuel, and
  that it returns is the theorem \<open>generator_returns\<close>.
\<close>

definition REPLAY_EPOCH :: utc where
  \<comment> \<open>2026-01-05T08:00:00Z\<close>
  "REPLAY_EPOCH = 1767600000000000"

record fault_injection =
  fj_spread_spike_every :: int
  fj_stale_tick_every :: int
  fj_suspect_quality_every :: int
  fj_spread_spike_multiplier :: int
  fj_stale_tick_age :: int

definition FaultInjection :: fault_injection where
  "FaultInjection =
     \<lparr>fj_spread_spike_every = 0, fj_stale_tick_every = 0, fj_suspect_quality_every = 0,
      fj_spread_spike_multiplier = 12, fj_stale_tick_age = 45000000\<rparr>"

definition faults_enabled :: "fault_injection \<Rightarrow> bool" where
  "faults_enabled f \<longleftrightarrow>
     fj_spread_spike_every f \<noteq> 0 \<or> fj_stale_tick_every f \<noteq> 0 \<or> fj_suspect_quality_every f \<noteq> 0"

record synthetic_config =
  sy_bar_count :: int
  sy_start_price :: decimal
  sy_timeframe :: string
  sy_bar_interval :: int
  sy_base_spread_points :: int
  sy_calm_volatility_points :: int
  sy_active_volatility_points :: int
  sy_regime_length_bars :: int
  sy_trend_strength_points :: int
  sy_session_profile :: bool
  sy_asian_multiplier :: decimal
  sy_london_multiplier :: decimal
  sy_new_york_multiplier :: decimal
  sy_skip_weekend :: bool
  sy_faults :: fault_injection

definition SyntheticMarketConfig :: synthetic_config where
  \<comment> \<open>the defaults; the seed chooses the state of the generator\<close>
  "SyntheticMarketConfig =
     \<lparr>sy_bar_count = 600, sy_start_price = 217 / 200, sy_timeframe = ''M5'', sy_bar_interval = 300000000,
      sy_base_spread_points = 8, sy_calm_volatility_points = 12, sy_active_volatility_points = 45,
      sy_regime_length_bars = 90, sy_trend_strength_points = 4, sy_session_profile = True,
      sy_asian_multiplier = 1 / 2, sy_london_multiplier = 17 / 10, sy_new_york_multiplier = 3 / 2,
      sy_skip_weekend = True, sy_faults = FaultInjection\<rparr>"

record generated_tick =
  gt_bar :: bar
  gt_bid :: decimal
  gt_ask :: decimal
  gt_spread_points :: int
  gt_event_time :: utc
  gt_received_time :: utc
  gt_data_quality :: data_quality
  gt_injected_fault :: "string option"

record 'g rng =
  rng_gauss :: "rat \<Rightarrow> rat \<Rightarrow> 'g \<Rightarrow> rat \<times> 'g"
  rng_randint :: "int \<Rightarrow> int \<Rightarrow> 'g \<Rightarrow> int \<times> 'g"

definition regime_at :: "int \<Rightarrow> synthetic_config \<Rightarrow> py_exn + int \<times> int" where
  "regime_at index config =
     (if sy_regime_length_bars config = 0 then Inl DivisionByZero
      else
        let stretch = index div sy_regime_length_bars config;
            phase = stretch mod 4;
            volatile = 2 \<le> phase;
            trending = (phase mod 2 = 1);
            volatility = (if volatile then sy_active_volatility_points config
                          else sy_calm_volatility_points config);
            drift = (if trending then sy_trend_strength_points config else 0)
        in Inr (volatility, if trending \<and> 4 \<le> stretch mod 8 then - drift else drift))"

definition session_multiplier :: "zone_data \<Rightarrow> utc \<Rightarrow> synthetic_config \<Rightarrow> decimal" where
  "session_multiplier zone moment config =
     (if \<not> sy_session_profile config then 1
      else
        let hour = local_hour (to_new_york zone moment) in
        if 2 \<le> hour \<and> hour < 5 then sy_london_multiplier config
        else if 7 \<le> hour \<and> hour < 11 then sy_new_york_multiplier config
        else if 11 \<le> hour \<and> hour < 16 then 4 / 5
        else sy_asian_multiplier config)"

fun draw_moves :: "'g rng \<Rightarrow> nat \<Rightarrow> int \<Rightarrow> int \<Rightarrow> decimal \<Rightarrow> 'g \<Rightarrow> decimal list \<times> 'g" where
  "draw_moves r 0 drift volatility pt g = ([], g)"
| "draw_moves r (Suc n) drift volatility pt g =
     (case rng_gauss r (of_int drift) (of_int volatility) g of (x, g') \<Rightarrow>
      case draw_moves r n drift volatility pt g' of (moves, g'') \<Rightarrow>
        (dmul (of_int (round_half_even x)) pt # moves, g''))"

fun walk :: "decimal \<Rightarrow> decimal list \<Rightarrow> decimal \<Rightarrow> decimal list" where
  "walk floor_price [] price = [price]"
| "walk floor_price (move # moves) price =
     price # walk floor_price moves (max (dadd price move) floor_price)"

definition fault_due :: "int \<Rightarrow> int \<Rightarrow> bool" where
  \<comment> \<open>\<^verbatim>\<open>every and index % every == 0 and index\<close>\<close>
  "fault_due every index \<longleftrightarrow> every \<noteq> 0 \<and> index mod every = 0 \<and> index \<noteq> 0"

record window_fault =
  wf_spread_points :: int
  wf_event_time :: utc
  wf_data_quality :: data_quality
  wf_fault :: "string option"

definition inject :: "fault_injection \<Rightarrow> int \<Rightarrow> int \<Rightarrow> utc \<Rightarrow> window_fault" where
  "inject f index spread_points now =
     (let clean = \<lparr>wf_spread_points = spread_points, wf_event_time = now, wf_data_quality = GOOD, wf_fault = None\<rparr> in
      if fault_due (fj_spread_spike_every f) index
      then clean\<lparr>wf_spread_points := spread_points * fj_spread_spike_multiplier f,
                 wf_fault := Some ''spread_spike''\<rparr>
      else if fault_due (fj_stale_tick_every f) index
      then clean\<lparr>wf_event_time := now - fj_stale_tick_age f, wf_fault := Some ''stale_tick''\<rparr>
      else if fault_due (fj_suspect_quality_every f) index
      then clean\<lparr>wf_data_quality := SUSPECT, wf_fault := Some ''suspect_quality''\<rparr>
      else clean)"

text \<open>
  All the draws of one step, in the order the code makes them. A step that raises ends the
  generator, so no later draw can tell how many were made.
\<close>

record 'g window_draws =
  wd_moves :: "decimal list"
  wd_extra_spread :: rat
  wd_latency_ms :: int
  wd_tick_volume :: int
  wd_rng :: 'g

definition draw_window :: "'g rng \<Rightarrow> int \<Rightarrow> int \<Rightarrow> decimal \<Rightarrow> 'g \<Rightarrow> 'g window_draws" where
  "draw_window r drift volatility pt g =
     (case draw_moves r 4 drift volatility pt g of (moves, g1) \<Rightarrow>
      case rng_gauss r 0 (fl (of_int volatility / 6)) g1 of (extra, g2) \<Rightarrow>
      case rng_randint r 3 40 g2 of (latency, g3) \<Rightarrow>
      case rng_randint r 40 400 g3 of (volume, g4) \<Rightarrow>
        \<lparr>wd_moves = moves, wd_extra_spread = extra, wd_latency_ms = latency, wd_tick_volume = volume,
         wd_rng = g4\<rparr>)"

definition window_volatility :: "zone_data \<Rightarrow> utc \<Rightarrow> synthetic_config \<Rightarrow> int \<Rightarrow> int" where
  "window_volatility zone now config volatility =
     max 1 (round_down (dmul (of_int volatility) (session_multiplier zone now config)))"

definition quote_window ::
  "synthetic_config \<Rightarrow> instrument_spec \<Rightarrow> int \<Rightarrow> decimal \<Rightarrow> utc \<Rightarrow> 'g window_draws \<Rightarrow>
     py_exn + (generated_tick \<times> decimal)" where
  "quote_window config spec index price now d =
     (let path = walk (dmul (point spec) 1000) (wd_moves d) price;
          w = inject (sy_faults config) index
                (sy_base_spread_points config + round_down \<bar>wd_extra_spread d\<bar>) now;
          half_spread = ddiv (dmul (of_int (wf_spread_points w)) (point spec)) 2
      in
      bindE (quantize_price price (digits spec) ROUND_HALF_EVEN) (\<lambda>open_price.
      bindE (quantize_price (last path) (digits spec) ROUND_HALF_EVEN) (\<lambda>close_price.
      bindE (quantize_price (Max (set path)) (digits spec) ROUND_HALF_EVEN) (\<lambda>high.
      bindE (quantize_price (Min (set path)) (digits spec) ROUND_HALF_EVEN) (\<lambda>low.
      bindE (quantize_price (dsub close_price half_spread) (digits spec) ROUND_HALF_EVEN) (\<lambda>b.
      bindE (quantize_price (dadd close_price half_spread) (digits spec) ROUND_HALF_EVEN) (\<lambda>a.
      bindE (contract bar_valid
               \<lparr>open_time = now, b_open = open_price, b_high = max high (max open_price close_price),
                b_low = min low (min open_price close_price), b_close = close_price,
                b_tick_volume = wd_tick_volume d, b_real_volume = None,
                b_spread_points = Some (wf_spread_points w)\<rparr>) (\<lambda>closed_bar.
      bindE (price_to_points (dsub a b) (point spec)) (\<lambda>points.
      Inr (\<lparr>gt_bar = closed_bar, gt_bid = b, gt_ask = a, gt_spread_points = points,
            gt_event_time = wf_event_time w, gt_received_time = now + wd_latency_ms d * 1000,
            gt_data_quality = wf_data_quality w, gt_injected_fault = wf_fault w\<rparr>,
           close_price))))))))))"

definition next_tick ::
  "'g rng \<Rightarrow> zone_data \<Rightarrow> synthetic_config \<Rightarrow> instrument_spec \<Rightarrow> int \<Rightarrow> decimal \<Rightarrow> utc \<Rightarrow> 'g \<Rightarrow>
     py_exn + (generated_tick \<times> decimal \<times> 'g)" where
  "next_tick r zone config spec index price now g =
     bindE (regime_at index config) (\<lambda>(volatility, drift).
     let d = draw_window r drift (window_volatility zone now config volatility) (point spec) g in
     mapE (\<lambda>(t, close_price). (t, close_price, wd_rng d)) (quote_window config spec index price now d))"

fun generate_ticks ::
  "nat \<Rightarrow> 'g rng \<Rightarrow> zone_data \<Rightarrow> synthetic_config \<Rightarrow> instrument_spec \<Rightarrow> int \<Rightarrow> decimal \<Rightarrow> utc \<Rightarrow> 'g \<Rightarrow>
     (py_exn + generated_tick list) option" where
  \<comment> \<open>\<open>None\<close> when the fuel runs out: the loop has not returned yet\<close>
  "generate_ticks 0 r zone config spec index price now g = None"
| "generate_ticks (Suc fuel) r zone config spec index price now g =
     (if sy_bar_count config \<le> index then Some (Inr [])
      else if sy_skip_weekend config \<and> \<not> is_market_open zone now
      then generate_ticks fuel r zone config spec index price (now + sy_bar_interval config) g
      else
        case next_tick r zone config spec index price now g of
          Inl e \<Rightarrow> Some (Inl e)
        | Inr (t, close_price, g') \<Rightarrow>
            map_option (mapE (Cons t))
              (generate_ticks fuel r zone config spec (index + 1) close_price
                 (now + sy_bar_interval config) g'))"


subsection \<open>What the platform sees of a step\<close>

definition SYNTHETIC_SOURCE :: string where "SYNTHETIC_SOURCE = ''synthetic:seeded-random-walk-v1''"

definition as_market_tick :: "stdlib \<Rightarrow> generated_tick \<Rightarrow> instrument_spec \<Rightarrow> py_exn + market_tick" where
  "as_market_tick sl t spec =
     bindE (tick_identity sl SYNTHETIC_SOURCE (spec_canonical_symbol spec) (gt_event_time t) (gt_bid t)
              (gt_ask t) None) (\<lambda>tid.
     contract market_tick_valid
       \<lparr>mt_tick_id = tid, mt_source = SYNTHETIC_SOURCE, mt_canonical_symbol = spec_canonical_symbol spec,
        mt_broker_symbol = spec_broker_symbol spec, mt_event_time = gt_event_time t,
        mt_received_time = gt_received_time t, mt_bid = gt_bid t, mt_ask = gt_ask t, mt_last = None,
        mt_volume = None, mt_flags = None, mt_data_quality = gt_data_quality t, mt_anomalies = []\<rparr>)"

definition as_market_bar ::
  "stdlib \<Rightarrow> generated_tick \<Rightarrow> instrument_spec \<Rightarrow> string \<Rightarrow> py_exn + market_bar" where
  "as_market_bar sl t spec timeframe =
     bindE (bar_identity sl SYNTHETIC_SOURCE (spec_canonical_symbol spec) timeframe
              (open_time (gt_bar t))) (\<lambda>bid.
     contract market_bar_valid
       \<lparr>mb_bar_id = bid, mb_source = SYNTHETIC_SOURCE, mb_canonical_symbol = spec_canonical_symbol spec,
        mb_broker_symbol = spec_broker_symbol spec, mb_timeframe = timeframe, mb_bar = gt_bar t,
        mb_origin = SYNTHETIC, mb_pipeline_version = None, mb_tick_count = None,
        mb_received_time = gt_received_time t, mb_data_quality = gt_data_quality t, mb_anomalies = []\<rparr>)"

definition snapshot_id_for :: "stdlib \<Rightarrow> string \<Rightarrow> utc \<Rightarrow> uuid" where
  "snapshot_id_for sl symbol event_time =
     uuid5_url sl (''crumblr:snapshot:'' @ symbol @ '':'' @ iso_format sl event_time)"

definition build_snapshot ::
  "stdlib \<Rightarrow> generated_tick \<Rightarrow> bar list \<Rightarrow> instrument_spec \<Rightarrow> string \<Rightarrow> session_state \<Rightarrow>
     py_exn + market_snapshot" where
  "build_snapshot sl t history spec timeframe session =
     bindE (spec_version sl spec) (\<lambda>version.
     contract market_snapshot_valid
       \<lparr>ms_snapshot_id = snapshot_id_for sl (spec_canonical_symbol spec) (gt_event_time t),
        ms_symbol = spec_canonical_symbol spec, ms_event_time = gt_event_time t,
        ms_received_time = gt_received_time t, ms_bid = gt_bid t, ms_ask = gt_ask t,
        ms_spread_points = gt_spread_points t, ms_timeframe = timeframe, ms_bars = history,
        ms_session_state = session, ms_symbol_spec_version = version,
        ms_data_quality = gt_data_quality t\<rparr>)"


subsection \<open>The open week\<close>

text \<open>The market of week \<open>k\<close> is open for exactly 120 hours, whatever the daylight-saving data says.\<close>

definition week_open :: "zone_data \<Rightarrow> int \<Rightarrow> utc" where
  "week_open zone k = friday_close zone k - 5 * US_DAY"

lemma local_weekday_hour:
  "local_date l = (l div US_DAY)" "local_hour l = (l mod US_DAY) div US_HOUR"
  by (simp_all add: local_date_def local_hour_def local_time_def)

lemma open_after_open:
  assumes "week_open zone k \<le> t" "t < friday_close zone k"
  shows "is_market_open zone t"
proof -
  have b: "(k - 1) * US_WEEK + 3 * US_DAY + 7 * US_HOUR \<le> t"
    "t < (k - 1 + 1) * US_WEEK + 3 * US_DAY + 6 * US_HOUR"
    using assms by (auto simp: week_open_def friday_close_eq friday_wall_def split: if_splits)
  have off: "ny_offset zone t = (if zone (k - 1) then - 4 * US_HOUR else - 5 * US_HOUR)"
    by (rule ny_offset_inside_week [OF b])
  define l where "l = to_new_york zone t"
  have l: "friday_wall k - 5 * US_DAY \<le> l" "l < friday_wall k"
    using assms off by (auto simp: l_def to_new_york_def week_open_def friday_close_eq split: if_splits)
  define d where "d = local_date l"
  have ld: "d * US_DAY \<le> l" "l < (d + 1) * US_DAY" "local_time l = l - d * US_DAY"
    using date_split [of l] by (simp_all add: d_def algebra_simps)
  have lo: "7 * k - 4 \<le> d" and hi: "d \<le> 7 * k + 1"
    using l ld by (simp_all add: friday_wall_def algebra_simps)
  have wd: "weekday d = (d + 3) mod 7" by (simp add: weekday_def)
  have "17 \<le> local_hour l \<and> weekday d = 6" if "d = 7 * k - 4"
  proof
    show "17 \<le> local_hour l"
      using that l ld unfolding local_hour_ge by (simp add: friday_wall_def algebra_simps)
    show "weekday d = 6" using that wd by presburger
  qed
  moreover have "weekday d \<le> 3" if "7 * k - 4 < d" "d < 7 * k + 1"
    using that wd by presburger
  moreover have "\<not> 17 \<le> local_hour l \<and> weekday d = 4" if "d = 7 * k + 1"
  proof
    show "\<not> 17 \<le> local_hour l"
      using that l ld unfolding local_hour_ge by (simp add: friday_wall_def algebra_simps)
    show "weekday d = 4" using that wd by presburger
  qed
  ultimately have "weekday d \<noteq> 5 \<and> \<not> (weekday d = 4 \<and> 17 \<le> local_hour l) \<and> \<not> (weekday d = 6 \<and> local_hour l < 17)"
    using lo hi by (cases "d = 7 * k - 4"; cases "d = 7 * k + 1") force+
  then show ?thesis
    by (simp add: is_market_open_def Let_def d_def l_def WEEK_CLOSE_HOUR_ET_def WEEK_OPEN_HOUR_ET_def)
qed

lemma next_week_open:
  obtains k where "t \<le> week_open zone k"
proof -
  define a where "a = \<bar>t\<bar>"
  have "t \<le> a" "0 \<le> a" by (simp_all add: a_def)
  then have "t \<le> friday_close zone (a + 1) - 5 * US_DAY"
    by (cases "zone a") (simp_all add: friday_close_eq friday_wall_def algebra_simps)
  then show thesis by (intro that) (simp add: week_open_def)
qed

text \<open>A clock that moves forward by at most 120 hours at a time meets an open market.\<close>

lemma clock_reaches_open:
  assumes "0 < step" "step \<le> 5 * US_DAY"
  obtains n :: nat where "is_market_open zone (t + int n * step)"
proof -
  obtain k where k: "t \<le> week_open zone k" by (rule next_week_open)
  define n where "n = nat ((week_open zone k - t + step - 1) div step)"
  have n: "int n = (week_open zone k - t + step - 1) div step"
    using k assms(1) by (simp add: n_def pos_imp_zdiv_nonneg_iff)
  let ?x = "week_open zone k - t + step - 1"
  have "int n * step + ?x mod step = ?x" "0 \<le> ?x mod step" "?x mod step < step"
    unfolding n using assms(1) by simp_all
  then have "week_open zone k \<le> t + int n * step" "t + int n * step < week_open zone k + step"
    by linarith+
  with assms(2) have "is_market_open zone (t + int n * step)"
    by (intro open_after_open [of zone k]) (auto simp: week_open_def)
  then show thesis by (rule that)
qed

subsection \<open>The generator\<close>

definition returns ::
  "'g rng \<Rightarrow> zone_data \<Rightarrow> synthetic_config \<Rightarrow> instrument_spec \<Rightarrow> int \<Rightarrow> decimal \<Rightarrow> utc \<Rightarrow> 'g \<Rightarrow> bool" where
  "returns r zone config spec index price now g \<longleftrightarrow>
     (\<exists>fuel. generate_ticks fuel r zone config spec index price now g \<noteq> None)"

lemma returns_done: "sy_bar_count config \<le> index \<Longrightarrow> returns r zone config spec index price now g"
  unfolding returns_def by (rule exI [of _ "Suc 0"]) simp

lemma returns_step:
  assumes "\<And>g price now. returns r zone config spec (index + 1) price now g"
    and "sy_skip_weekend config \<Longrightarrow> is_market_open zone now"
  shows "returns r zone config spec index price now g"
proof (cases "next_tick r zone config spec index price now g")
  case (Inl e)
  with assms(2) show ?thesis unfolding returns_def by (intro exI [of _ "Suc 0"]) auto
next
  case (Inr x)
  obtain t close_price g' where x: "x = (t, close_price, g')" by (cases x) auto
  from assms(1) obtain fuel where "generate_ticks fuel r zone config spec (index + 1) close_price
      (now + sy_bar_interval config) g' \<noteq> None" unfolding returns_def by blast
  with assms(2) Inr x show ?thesis unfolding returns_def by (intro exI [of _ "Suc fuel"]) auto
qed

lemma returns_skip:
  assumes "returns r zone config spec index price (now + sy_bar_interval config) g"
    and "sy_skip_weekend config" "\<not> is_market_open zone now"
  shows "returns r zone config spec index price now g"
proof -
  from assms(1) obtain fuel where
    "generate_ticks fuel r zone config spec index price (now + sy_bar_interval config) g \<noteq> None"
    unfolding returns_def by blast
  with assms(2,3) show ?thesis unfolding returns_def by (intro exI [of _ "Suc fuel"]) auto
qed

lemma returns_when_open:
  assumes "\<And>g price now. returns r zone config spec (index + 1) price now g"
    and "is_market_open zone (now + int n * sy_bar_interval config)"
  shows "returns r zone config spec index price now g"
  using assms(2)
proof (induction n arbitrary: now)
  case 0
  then show ?case by (intro returns_step [OF assms(1)]) simp
next
  case (Suc n)
  have "is_market_open zone (now + sy_bar_interval config + int n * sy_bar_interval config)"
    using Suc.prems by (simp add: algebra_simps)
  note later = Suc.IH [OF this]
  show ?case
  proof (cases "sy_skip_weekend config \<and> \<not> is_market_open zone now")
    case True
    then show ?thesis by (intro returns_skip [OF later]) auto
  next
    case False
    then show ?thesis by (intro returns_step [OF assms(1)]) auto
  qed
qed

text \<open>
  C28. The generator returns: with a positive bar interval of at most the 120 hours the market
  stays open, the loop that skips closed hours always ends, whatever the daylight-saving data,
  the start, the random draws and the faults.
\<close>

theorem generator_returns:
  assumes "0 < sy_bar_interval config" "sy_bar_interval config \<le> 5 * US_DAY"
  shows "\<exists>fuel res. generate_ticks fuel r zone config spec index price now g = Some res"
proof -
  have "returns r zone config spec index price now g"
  proof (induction "nat (sy_bar_count config - index)" arbitrary: index price now g)
    case 0
    then show ?case by (intro returns_done) simp
  next
    case (Suc m)
    have next_index: "returns r zone config spec (index + 1) price now g" for price now g
      using Suc.hyps(2) by (intro Suc.hyps(1)) simp
    obtain n where "is_market_open zone (now + int n * sy_bar_interval config)"
      by (rule clock_reaches_open [OF assms])
    then show ?case by (rule returns_when_open [OF next_index])
  qed
  then show ?thesis by (auto simp: returns_def)
qed


subsection \<open>The series\<close>

text \<open>A generated bar is a valid one, opened while the market was, and later than the one before.\<close>

lemma next_tick_bar:
  assumes "next_tick r zone config spec index price now g = Inr (t, price', g')"
  shows "bar_valid (gt_bar t) \<and> open_time (gt_bar t) = now \<and> b_close (gt_bar t) = price'"
  using assms by (auto simp: next_tick_def quote_window_def Let_def bindE_eq_Inr mapE_eq_Inr)

lemma generated_series:
  assumes "generate_ticks fuel r zone config spec index price now g = Some (Inr ts)"
    and "0 < sy_bar_interval config"
  shows "int (length ts) = max 0 (sy_bar_count config - index) \<and>
    list_all (\<lambda>t. bar_valid (gt_bar t) \<and> now \<le> open_time (gt_bar t) \<and>
       (sy_skip_weekend config \<longrightarrow> is_market_open zone (open_time (gt_bar t)))) ts \<and>
    sorted_wrt (\<lambda>s t. open_time (gt_bar s) + sy_bar_interval config \<le> open_time (gt_bar t)) ts"
  using assms(1)
proof (induction fuel arbitrary: index price now g ts)
  case (Suc fuel)
  consider (finished) "sy_bar_count config \<le> index" | (skip) "\<not> sy_bar_count config \<le> index"
      "sy_skip_weekend config \<and> \<not> is_market_open zone now"
    | (emit) "\<not> sy_bar_count config \<le> index" "\<not> (sy_skip_weekend config \<and> \<not> is_market_open zone now)"
    by blast
  then show ?case
  proof cases
    case finished
    with Suc.prems show ?thesis by simp
  next
    case skip
    with Suc.prems have "generate_ticks fuel r zone config spec index price (now + sy_bar_interval config) g = Some (Inr ts)"
      by simp
    from Suc.IH [OF this] assms(2) show ?thesis by (auto simp: list_all_iff)
  next
    case emit
    with Suc.prems obtain t price' g' ts' where
      n: "next_tick r zone config spec index price now g = Inr (t, price', g')" and ts: "ts = t # ts'" and
      more: "generate_ticks fuel r zone config spec (index + 1) price' (now + sy_bar_interval config) g' = Some (Inr ts')"
      by (auto simp: mapE_eq_Inr split: sum.splits prod.splits)
    from Suc.IH [OF more] next_tick_bar [OF n] emit assms(2) show ?thesis
      by (auto simp: ts list_all_iff)
  qed
qed simp

end
