(* ===== verification/Simulated_Broker.thy ===== *)
theory Simulated_Broker
  imports Synthetic "HOL-Library.AList"
begin

text \<open>
  The broker a replay trades against (\<^verbatim>\<open>mt5_gateway/simulated.py\<close>): its book, its
  balance, the requests it has answered, and the pessimistic fills. Its dictionaries are
  association lists in insertion order. \<open>sb_quantum\<close> is the power of ten the exponent of the
  specification's tick size stands for, which \<^verbatim>\<open>quantize\<close> reads instead of its value.
\<close>

definition SLIPPAGE_SPREAD_FRACTION :: decimal where "SLIPPAGE_SPREAD_FRACTION = 1 / 4"

record closed_trade =
  ct_ticket :: int
  ct_side :: side
  ct_volume :: decimal
  ct_entry_price :: decimal
  ct_exit_price :: decimal
  ct_opened_at :: utc
  ct_closed_at :: utc
  ct_profit :: decimal
  ct_exit_reason :: string
  ct_entry_slippage_points :: int
  ct_max_adverse_excursion :: decimal
  ct_max_favourable_excursion :: decimal

record open_position =
  xp_ticket :: int
  xp_order_request_id :: uuid
  xp_intent_id :: uuid
  xp_side :: side
  xp_volume :: decimal
  xp_entry_price :: decimal
  xp_stop_loss_price :: decimal
  xp_take_profit_price :: "decimal option"
  xp_opened_at :: utc
  xp_entry_slippage_points :: int
  xp_worst_price :: decimal
  xp_best_price :: decimal

record simulated_broker =
  sb_spec :: instrument_spec
  sb_quantum :: decimal
  sb_balance :: decimal
  sb_currency :: string
  sb_server :: string
  sb_login :: int
  sb_leverage :: int
  sb_open :: "(int \<times> open_position) list"
  sb_closed :: "closed_trade list"
  sb_handled :: "(uuid \<times> execution_result) list"
  sb_next_ticket :: int
  sb_tick :: "generated_tick option"
  sb_now :: "utc option"

definition new_broker ::
  "instrument_spec \<Rightarrow> decimal \<Rightarrow> decimal \<Rightarrow> string \<Rightarrow> string \<Rightarrow> int \<Rightarrow> int \<Rightarrow> simulated_broker" where
  "new_broker spec quantum starting_balance currency server login leverage =
     \<lparr>sb_spec = spec, sb_quantum = quantum, sb_balance = starting_balance, sb_currency = currency,
      sb_server = server, sb_login = login, sb_leverage = leverage, sb_open = [], sb_closed = [],
      sb_handled = [], sb_next_ticket = 500000, sb_tick = None, sb_now = None\<rparr>"

definition require_tick :: "simulated_broker \<Rightarrow> py_exn + generated_tick" where
  "require_tick b = (case sb_tick b of None \<Rightarrow> Inl RuntimeError | Some t \<Rightarrow> Inr t)"

definition require_now :: "simulated_broker \<Rightarrow> py_exn + utc" where
  "require_now b = (case sb_now b of None \<Rightarrow> Inl RuntimeError | Some t \<Rightarrow> Inr t)"

definition position_profit ::
  "instrument_spec \<Rightarrow> side \<Rightarrow> decimal \<Rightarrow> decimal \<Rightarrow> decimal \<Rightarrow> py_exn + decimal" where
  "position_profit spec direction volume entry exit_price =
     (let move = (if direction = BUY then dsub exit_price entry else dsub entry exit_price) in
      mapE (\<lambda>ticks. dmul (dmul ticks (tick_value spec)) volume) (ddivE move (tick_size spec)))"

definition half_spread :: "instrument_spec \<Rightarrow> generated_tick \<Rightarrow> decimal" where
  "half_spread spec t = ddiv (dmul (of_int (gt_spread_points t)) (point spec)) 2"


subsection \<open>Exits\<close>

record exit_scan =
  ex_position :: open_position
  ex_hit_stop :: bool
  ex_hit_target :: bool

definition scan_exit :: "instrument_spec \<Rightarrow> generated_tick \<Rightarrow> open_position \<Rightarrow> exit_scan" where
  \<comment> \<open>a long exits on the bid, below the traded price, a short on the ask, above it\<close>
  "scan_exit spec t p =
     (let h = half_spread spec t in
      if xp_side p = BUY then
        let low = dsub (b_low (gt_bar t)) h; high = dsub (b_high (gt_bar t)) h in
        \<lparr>ex_position = p\<lparr>xp_worst_price := min (xp_worst_price p) low,
                         xp_best_price := max (xp_best_price p) high\<rparr>,
         ex_hit_stop = (low \<le> xp_stop_loss_price p),
         ex_hit_target = (case xp_take_profit_price p of None \<Rightarrow> False | Some target \<Rightarrow> target \<le> high)\<rparr>
      else
        let low = dadd (b_low (gt_bar t)) h; high = dadd (b_high (gt_bar t)) h in
        \<lparr>ex_position = p\<lparr>xp_worst_price := max (xp_worst_price p) high,
                         xp_best_price := min (xp_best_price p) low\<rparr>,
         ex_hit_stop = (xp_stop_loss_price p \<le> high),
         ex_hit_target = (case xp_take_profit_price p of None \<Rightarrow> False | Some target \<Rightarrow> low \<le> target)\<rparr>)"

definition stop_fill :: "instrument_spec \<Rightarrow> generated_tick \<Rightarrow> open_position \<Rightarrow> decimal" where
  "stop_fill spec t p =
     (let slip = dmul (half_spread spec t) SLIPPAGE_SPREAD_FRACTION in
      if xp_side p = BUY then dsub (xp_stop_loss_price p) slip else dadd (xp_stop_loss_price p) slip)"

definition exit_of ::
  "instrument_spec \<Rightarrow> generated_tick \<Rightarrow> exit_scan \<Rightarrow> (decimal \<times> string) option" where
  \<comment> \<open>a bar that touches both is resolved as a stop\<close>
  "exit_of spec t x =
     (if ex_hit_stop x then Some (stop_fill spec t (ex_position x), ''stop_loss'')
      else if ex_hit_target x then
        map_option (\<lambda>target. (target, ''take_profit'')) (xp_take_profit_price (ex_position x))
      else None)"

definition closed_trade_of ::
  "instrument_spec \<Rightarrow> open_position \<Rightarrow> decimal \<Rightarrow> string \<Rightarrow> utc \<Rightarrow> py_exn + closed_trade" where
  "closed_trade_of spec p exit_price reason closed_at =
     bindE (position_profit spec (xp_side p) (xp_volume p) (xp_entry_price p) exit_price) (\<lambda>profit.
     bindE (position_profit spec (xp_side p) (xp_volume p) (xp_entry_price p) (xp_worst_price p)) (\<lambda>worst.
     bindE (position_profit spec (xp_side p) (xp_volume p) (xp_entry_price p) (xp_best_price p)) (\<lambda>best.
     Inr \<lparr>ct_ticket = xp_ticket p, ct_side = xp_side p, ct_volume = xp_volume p,
          ct_entry_price = xp_entry_price p, ct_exit_price = exit_price, ct_opened_at = xp_opened_at p,
          ct_closed_at = closed_at, ct_profit = profit, ct_exit_reason = reason,
          ct_entry_slippage_points = xp_entry_slippage_points p,
          ct_max_adverse_excursion = worst, ct_max_favourable_excursion = best\<rparr>)))"

definition close_ticket ::
  "int \<Rightarrow> decimal \<Rightarrow> string \<Rightarrow> utc \<Rightarrow> (simulated_broker, closed_trade) prog" where
  "close_ticket ticket exit_price reason closed_at =
     bindM (getM (\<lambda>b. map_of (sb_open b) ticket)) (\<lambda>found.
     case found of
       None \<Rightarrow> raiseM KeyError
     | Some p \<Rightarrow>
         bindM (modifyM (\<lambda>b. b\<lparr>sb_open := AList.delete ticket (sb_open b)\<rparr>)) (\<lambda>_.
         bindM (getM sb_spec) (\<lambda>spec.
         bindM (liftM (closed_trade_of spec p exit_price reason closed_at)) (\<lambda>trade.
         bindM (modifyM (\<lambda>b. b\<lparr>sb_balance := dadd (sb_balance b) (ct_profit trade),
                               sb_closed := sb_closed b @ [trade]\<rparr>)) (\<lambda>_.
         returnM trade)))))"

definition replace_position :: "int \<Rightarrow> open_position \<Rightarrow> (int \<times> open_position) list \<Rightarrow> (int \<times> open_position) list" where
  \<comment> \<open>the position object the dictionary holds is updated in place\<close>
  "replace_position k p book = map (\<lambda>tp. if fst tp = k then (k, p) else tp) book"

definition resolve_exit :: "generated_tick \<Rightarrow> int \<times> open_position \<Rightarrow> (simulated_broker, unit) prog" where
  "resolve_exit t tp =
     bindM (getM sb_spec) (\<lambda>spec.
     let x = scan_exit spec t (snd tp) in
     bindM (modifyM (\<lambda>b. b\<lparr>sb_open := replace_position (fst tp) (ex_position x) (sb_open b)\<rparr>)) (\<lambda>_.
     case exit_of spec t x of
       None \<Rightarrow> returnM ()
     | Some (price, reason) \<Rightarrow>
         bindM (close_ticket (fst tp) price reason (gt_event_time t)) (\<lambda>_. returnM ())))"

definition advance :: "generated_tick \<Rightarrow> (simulated_broker, unit) prog" where
  "advance t =
     bindM (modifyM (\<lambda>b. b\<lparr>sb_tick := Some t, sb_now := Some (gt_received_time t)\<rparr>)) (\<lambda>_.
     bindM (getM sb_open) (\<lambda>book.
     bindM (forM (resolve_exit t) book) (\<lambda>_. returnM ())))"


subsection \<open>The broker port\<close>

definition exit_price :: "simulated_broker \<Rightarrow> open_position \<Rightarrow> py_exn + decimal" where
  "exit_price b p = mapE (\<lambda>t. if xp_side p = BUY then gt_bid t else gt_ask t) (require_tick b)"

definition open_profit :: "simulated_broker \<Rightarrow> open_position \<Rightarrow> py_exn + decimal" where
  "open_profit b p =
     bindE (exit_price b p) (\<lambda>price.
     position_profit (sb_spec b) (xp_side p) (xp_volume p) (xp_entry_price p) price)"

definition unrealised_profit :: "simulated_broker \<Rightarrow> py_exn + decimal" where
  "unrealised_profit b = mapE dsum (traverseE (\<lambda>tp. open_profit b (snd tp)) (sb_open b))"

definition broker_equity :: "simulated_broker \<Rightarrow> py_exn + decimal" where
  "broker_equity b = mapE (dadd (sb_balance b)) (unrealised_profit b)"

definition margin_for :: "simulated_broker \<Rightarrow> decimal \<Rightarrow> py_exn + decimal" where
  "margin_for b volume =
     bindE (require_tick b) (\<lambda>t.
     ddivE (dmul (dmul volume (contract_size (sb_spec b))) (gt_ask t)) (of_int (sb_leverage b)))"

definition used_margin :: "simulated_broker \<Rightarrow> py_exn + decimal" where
  "used_margin b = mapE dsum (traverseE (\<lambda>tp. margin_for b (xp_volume (snd tp))) (sb_open b))"

definition broker_account :: "simulated_broker \<Rightarrow> py_exn + account_state" where
  "broker_account b =
     bindE (broker_equity b) (\<lambda>equity.
     bindE (used_margin b) (\<lambda>margin.
     bindE (require_now b) (\<lambda>now.
     contract account_state_valid
       \<lparr>as_login = sb_login b, as_server = sb_server b, as_currency = sb_currency b, as_is_demo = True,
        as_trade_allowed = True, as_expert_allowed = True, as_connected = True,
        as_balance = sb_balance b, as_equity = equity, as_margin = margin,
        as_margin_free = dsub equity margin,
        as_margin_level = (if 0 < margin then Some (dmul (ddiv equity margin) 100) else None),
        as_leverage = sb_leverage b, as_observed_at = now\<rparr>)))"

definition broker_instrument :: "simulated_broker \<Rightarrow> string \<Rightarrow> py_exn + instrument_spec" where
  "broker_instrument b symbol =
     (if symbol \<noteq> spec_canonical_symbol (sb_spec b) then Inl KeyError else Inr (sb_spec b))"

definition simulated_position :: "simulated_broker \<Rightarrow> utc \<Rightarrow> open_position \<Rightarrow> py_exn + position_state" where
  "simulated_position b now p =
     bindE (open_profit b p) (\<lambda>profit.
     contract position_state_valid
       \<lparr>ps_ticket = xp_ticket p, ps_broker_symbol = spec_broker_symbol (sb_spec b), ps_side = xp_side p,
        ps_volume = xp_volume p, ps_open_price = xp_entry_price p, ps_current_price = None,
        ps_stop_loss_price = Some (xp_stop_loss_price p), ps_take_profit_price = xp_take_profit_price p,
        ps_opened_at = xp_opened_at p, ps_profit = profit, ps_swap = 0, ps_magic = None,
        ps_observed_at = now\<rparr>)"

definition broker_positions :: "simulated_broker \<Rightarrow> py_exn + position_state list" where
  "broker_positions b =
     bindE (require_now b) (\<lambda>now. traverseE (\<lambda>tp. simulated_position b now (snd tp)) (sb_open b))"

definition broker_pending_orders :: "simulated_broker \<Rightarrow> 'a list" where
  "broker_pending_orders b = []"

definition broker_order_check :: "simulated_broker \<Rightarrow> approved_order \<Rightarrow> py_exn + order_check" where
  "broker_order_check b ord =
     bindE (margin_for b (ao_volume ord)) (\<lambda>margin_required.
     bindE (broker_account b) (\<lambda>account.
     let outside_limits = (ao_volume ord < volume_min (sb_spec b) \<or> volume_max (sb_spec b) < ao_volume ord);
         short_of_margin = (as_margin_free account < margin_required);
         accepted = (\<not> outside_limits \<and> \<not> short_of_margin)
     in contract order_check_valid
       \<lparr>ok_order_request_id = ao_order_request_id ord, ok_intent_id = ao_intent_id ord,
        ok_accepted = accepted, ok_retcode = Some (if accepted then 0 else 10019),
        ok_comment = Some (if outside_limits then ''volume outside broker limits''
                           else if short_of_margin then ''insufficient free margin'' else ''ok''),
        ok_margin_required = Some margin_required, ok_payload = None\<rparr>))"

definition entry_slip :: "simulated_broker \<Rightarrow> generated_tick \<Rightarrow> py_exn + decimal" where
  "entry_slip b t =
     quantize (dmul (half_spread (sb_spec b) t) SLIPPAGE_SPREAD_FRACTION) (sb_quantum b) ROUND_DOWN"

definition filled_position ::
  "approved_order \<Rightarrow> generated_tick \<Rightarrow> int \<Rightarrow> decimal \<Rightarrow> int \<Rightarrow> open_position" where
  "filled_position ord t ticket fill slippage =
     \<lparr>xp_ticket = ticket, xp_order_request_id = ao_order_request_id ord, xp_intent_id = ao_intent_id ord,
      xp_side = ao_side ord, xp_volume = ao_volume ord, xp_entry_price = fill,
      xp_stop_loss_price = ao_stop_loss_price ord, xp_take_profit_price = ao_take_profit_price ord,
      xp_opened_at = gt_event_time t, xp_entry_slippage_points = slippage,
      xp_worst_price = fill, xp_best_price = fill\<rparr>"

definition fill_result ::
  "stdlib \<Rightarrow> approved_order \<Rightarrow> generated_tick \<Rightarrow> utc \<Rightarrow> int \<Rightarrow> decimal \<Rightarrow> decimal \<Rightarrow> int \<Rightarrow>
     py_exn + execution_result" where
  "fill_result sl ord t now ticket requested fill slippage =
     contract execution_result_valid
       \<lparr>er_execution_id = uuid5_url sl (''crumblr:exec:'' @ ao_order_request_id ord),
        er_order_request_id = ao_order_request_id ord, er_intent_id = Some (ao_intent_id ord),
        er_state = OS_FILLED, er_mt5_order_ticket = Some ticket, er_mt5_deal_ticket = Some ticket,
        er_mt5_position_ticket = Some ticket, er_retcode = Some 10009,
        er_retcode_comment = Some ''simulated fill'', er_requested_price = Some requested,
        er_executed_price = Some fill, er_requested_volume = Some (ao_volume ord),
        er_executed_volume = Some (ao_volume ord), er_slippage_points = Some slippage,
        er_submitted_at = Some now, er_broker_time = Some (gt_event_time t), er_completed_at = Some now,
        er_latency_ms = Some 0, er_order_check_payload = None, er_order_send_payload = None,
        er_request_payload = None, er_error_detail = None\<rparr>"

definition broker_order_send :: "stdlib \<Rightarrow> approved_order \<Rightarrow> (simulated_broker, execution_result) prog" where
  "broker_order_send sl ord =
     bindM (getM (\<lambda>b. b)) (\<lambda>b.
     case map_of (sb_handled b) (ao_order_request_id ord) of
       Some result \<Rightarrow> returnM result
     | None \<Rightarrow>
         bindM (liftM (require_tick b)) (\<lambda>t.
         bindM (liftM (require_now b)) (\<lambda>now.
         bindM (liftM (entry_slip b t)) (\<lambda>slip.
         let requested = (if ao_side ord = BUY then gt_ask t else gt_bid t);
             fill = (if ao_side ord = BUY then dadd requested slip else dsub requested slip)
         in
         bindM (liftM (price_to_points (if ao_side ord = BUY then dsub fill requested else dsub requested fill)
                         (point (sb_spec b)))) (\<lambda>slippage.
         let ticket = sb_next_ticket b in
         bindM (modifyM (\<lambda>b. b\<lparr>sb_next_ticket := ticket + 1,
                  sb_open := AList.update ticket (filled_position ord t ticket fill slippage) (sb_open b)\<rparr>)) (\<lambda>_.
         bindM (liftM (fill_result sl ord t now ticket requested fill slippage)) (\<lambda>result.
         bindM (modifyM (\<lambda>b. b\<lparr>sb_handled := AList.update (ao_order_request_id ord) result (sb_handled b)\<rparr>)) (\<lambda>_.
         returnM result))))))))"

definition broker_cancel_pending :: "(simulated_broker, int list) prog" where
  "broker_cancel_pending = returnM []"

definition close_all_positions :: "string \<Rightarrow> (simulated_broker, int list) prog" where
  "close_all_positions reason =
     bindM (getM (\<lambda>b. b)) (\<lambda>b.
     bindM (liftM (require_tick b)) (\<lambda>t.
     forM (\<lambda>tp.
       bindM (close_ticket (fst tp) (if xp_side (snd tp) = BUY then gt_bid t else gt_ask t) reason
                (gt_event_time t)) (\<lambda>_. returnM (fst tp))) (sb_open b)))"


subsection \<open>A broker over time\<close>

text \<open>The calls a replay makes that change the broker, returning or raising.\<close>

inductive broker_step :: "stdlib \<Rightarrow> simulated_broker \<Rightarrow> simulated_broker \<Rightarrow> bool" for sl where
  step_advance: "broker_step sl b (snd (advance t b))"
| step_send: "broker_step sl b (snd (broker_order_send sl ord b))"
| step_close_all: "broker_step sl b (snd (close_all_positions reason b))"

text \<open>An answer once recorded is never replaced.\<close>

definition answers_kept :: "simulated_broker \<Rightarrow> simulated_broker \<Rightarrow> bool" where
  "answers_kept b b' \<longleftrightarrow>
     (\<forall>k v. map_of (sb_handled b) k = Some v \<longrightarrow> map_of (sb_handled b') k = Some v)"

interpretation answers: effect_order answers_kept
  by unfold_locales (auto simp: answers_kept_def)

lemma answers_same: "sb_handled b' = sb_handled b \<Longrightarrow> answers_kept b b'"
  by (simp add: answers_kept_def)

lemma close_ticket_answers: "keeps answers_kept (close_ticket k price reason closed_at)"
  unfolding close_ticket_def
  by (intro answers.keeps_rules answers.keeps_modify answers_same) (simp_all add: answers_same)

lemma advance_answers: "keeps answers_kept (advance t)"
  unfolding advance_def resolve_exit_def Let_def
  by (intro answers.keeps_rules answers.keeps_modify close_ticket_answers answers_same) simp_all

lemma close_all_answers: "keeps answers_kept (close_all_positions reason)"
  unfolding close_all_positions_def
  by (intro answers.keeps_rules close_ticket_answers)

definition with_position :: "open_position \<Rightarrow> simulated_broker \<Rightarrow> simulated_broker" where
  "with_position p b =
     b\<lparr>sb_next_ticket := sb_next_ticket b + 1, sb_open := AList.update (sb_next_ticket b) p (sb_open b)\<rparr>"

lemma with_position_simps [simp]:
  "sb_handled (with_position p b) = sb_handled b" "sb_closed (with_position p b) = sb_closed b"
  "sb_balance (with_position p b) = sb_balance b" "sb_spec (with_position p b) = sb_spec b"
  "sb_next_ticket (with_position p b) = sb_next_ticket b + 1"
  "sb_open (with_position p b) = AList.update (sb_next_ticket b) p (sb_open b)"
  by (simp_all add: with_position_def)

lemma send_handled:
  "map_of (sb_handled b) (ao_order_request_id ord) = Some res \<Longrightarrow> broker_order_send sl ord b = (Inr res, b)"
  by (simp add: broker_order_send_def)

lemma send_new:
  assumes "broker_order_send sl ord b = (r, b')" "map_of (sb_handled b) (ao_order_request_id ord) = None"
  shows "(\<exists>e. r = Inl e) \<and> b' = b \<or>
    (\<exists>t fill slippage. let p = filled_position ord t (sb_next_ticket b) fill slippage in
       (\<exists>e. r = Inl e) \<and> b' = with_position p b \<or>
       (\<exists>res. r = Inr res \<and>
          b' = with_position p b\<lparr>sb_handled := AList.update (ao_order_request_id ord) res (sb_handled b)\<rparr>))"
proof (cases "bindE (require_tick b) (\<lambda>t. bindE (require_now b) (\<lambda>now. mapE (\<lambda>slip. (t, now, slip)) (entry_slip b t)))")
  case (Inl e)
  with assms have "r = Inl e \<and> b' = b"
    by (auto simp: broker_order_send_def bindM_def bindE_def mapE_def split: sum.splits)
  then show ?thesis by auto
next
  case (Inr x)
  then obtain t now slip where *: "require_tick b = Inr t" "require_now b = Inr now" "entry_slip b t = Inr slip"
    by (auto simp: bindE_eq_Inr mapE_eq_Inr)
  define requested where "requested = (if ao_side ord = BUY then gt_ask t else gt_bid t)"
  define fill where "fill = (if ao_side ord = BUY then dadd requested slip else dsub requested slip)"
  let ?points = "price_to_points (if ao_side ord = BUY then dsub fill requested else dsub requested fill) (point (sb_spec b))"
  note run = assms(1) [unfolded broker_order_send_def Let_def, simplified assms(2) * bindM_basic option.case,
      folded requested_def, folded fill_def]
  show ?thesis
  proof (cases ?points)
    case (Inl e)
    with run have "r = Inl e \<and> b' = b" by (auto simp: assms(2) *)
    then show ?thesis by auto
  next
    case (Inr slippage)
    let ?p = "filled_position ord t (sb_next_ticket b) fill slippage"
    have "(\<exists>e. r = Inl e) \<and> b' = with_position ?p b \<or>
       (\<exists>res. r = Inr res \<and>
          b' = with_position ?p b\<lparr>sb_handled := AList.update (ao_order_request_id ord) res (sb_handled b)\<rparr>)"
    proof (cases "fill_result sl ord t now (sb_next_ticket b) requested fill slippage")
      case (Inl e)
      with run Inr have "r = Inl e \<and> b' = with_position ?p b" by (auto simp: assms(2) * with_position_def)
      then show ?thesis by simp
    next
      case (Inr res)
      with run \<open>?points = Inr slippage\<close>
      have "r = Inr res \<and> b' = with_position ?p b\<lparr>sb_handled := AList.update (ao_order_request_id ord) res (sb_handled b)\<rparr>"
        by (auto simp: assms(2) * with_position_def)
      then show ?thesis by simp
    qed
    then show ?thesis by (metis (no_types, lifting))
  qed
qed

lemma send_answers: "keeps answers_kept (broker_order_send sl ord)"
  unfolding keeps_def
proof
  fix b
  obtain r b' where run: "broker_order_send sl ord b = (r, b')" by fastforce
  show "answers_kept b (snd (broker_order_send sl ord b))"
  proof (cases "map_of (sb_handled b) (ao_order_request_id ord)")
    case None
    with send_new [OF run] run show ?thesis
      by (auto simp: answers_kept_def Let_def update_conv')
  next
    case (Some res)
    with send_handled [OF Some] show ?thesis by (simp add: answers.same)
  qed
qed

lemma step_answers: "broker_step sl b b' \<Longrightarrow> answers_kept b b'"
  by (induction rule: broker_step.induct)
     (use advance_answers send_answers close_all_answers in \<open>simp_all add: keeps_def\<close>)

lemma steps_answers: "(broker_step sl)\<^sup>*\<^sup>* b b' \<Longrightarrow> answers_kept b b'"
  by (induction rule: rtranclp_induct) (auto intro: answers.same answers.join step_answers)

text \<open>
  C21. Submission to the simulated broker is idempotent: once an order request has been
  answered, then after any further calls, returning or raising, submitting the request again,
  whatever the rest of the order says by then, gives the recorded answer and leaves the broker
  exactly as it is, so no second position is opened and no price is paid twice.
\<close>

theorem resubmission_is_idempotent:
  assumes "broker_order_send sl ord b = (Inr result, b1)" "(broker_step sl)\<^sup>*\<^sup>* b1 b2"
    and "ao_order_request_id ord' = ao_order_request_id ord"
  shows "broker_order_send sl ord' b2 = (Inr result, b2)"
proof -
  have "map_of (sb_handled b1) (ao_order_request_id ord) = Some result"
  proof (cases "map_of (sb_handled b) (ao_order_request_id ord)")
    case None
    with send_new [OF assms(1)] show ?thesis by (auto simp: Let_def update_conv')
  next
    case (Some res)
    with send_handled [OF Some] assms(1) show ?thesis by auto
  qed
  with steps_answers [OF assms(2)] have "map_of (sb_handled b2) (ao_order_request_id ord') = Some result"
    by (simp add: answers_kept_def assms(3))
  then show ?thesis by (rule send_handled)
qed



subsection \<open>The account\<close>

text \<open>
  The book of a broker that started with a balance: every ticket it ever issued is below the
  next one, no ticket is both open and closed or twice either, and the balance is the starting
  balance with the profits of the closed trades added in order.
\<close>

definition book_ok :: "decimal \<Rightarrow> simulated_broker \<Rightarrow> bool" where
  "book_ok start b \<longleftrightarrow>
     distinct (map fst (sb_open b) @ map ct_ticket (sb_closed b)) \<and>
     list_all (\<lambda>tp. xp_ticket (snd tp) = fst tp) (sb_open b) \<and>
     list_all (\<lambda>tp. 500000 \<le> fst tp \<and> fst tp < sb_next_ticket b) (sb_open b) \<and>
     list_all (\<lambda>c. 500000 \<le> ct_ticket c \<and> ct_ticket c < sb_next_ticket b) (sb_closed b) \<and>
     500000 \<le> sb_next_ticket b \<and>
     sb_balance b = foldl dadd start (map ct_profit (sb_closed b))"

definition book_kept :: "simulated_broker \<Rightarrow> simulated_broker \<Rightarrow> bool" where
  "book_kept b b' \<longleftrightarrow> (\<forall>start. book_ok start b \<longrightarrow> book_ok start b')"

interpretation book: effect_order book_kept
  by unfold_locales (auto simp: book_kept_def)

lemma book_ok_cong:
  "sb_open b' = sb_open b \<Longrightarrow> sb_closed b' = sb_closed b \<Longrightarrow> sb_next_ticket b' = sb_next_ticket b \<Longrightarrow>
   sb_balance b' = sb_balance b \<Longrightarrow> book_ok start b' = book_ok start b"
  by (simp add: book_ok_def)

lemma trade_ticket: "closed_trade_of spec p price reason closed_at = Inr trade \<Longrightarrow> ct_ticket trade = xp_ticket p"
  by (auto simp: closed_trade_of_def bindE_eq_Inr)

lemma set_delete: "set (AList.delete k xs) = {x \<in> set xs. fst x \<noteq> k}"
  by (auto simp: AList.delete_eq)

lemma close_ticket_book: "keeps book_kept (close_ticket k price reason closed_at)"
  unfolding keeps_def book_kept_def
proof (intro allI impI)
  fix b start assume ok: "book_ok start b"
  show "book_ok start (snd (close_ticket k price reason closed_at b))"
  proof (cases "map_of (sb_open b) k")
    case None
    with ok show ?thesis by (simp add: close_ticket_def)
  next
    case (Some p)
    let ?b = "b\<lparr>sb_open := AList.delete k (sb_open b)\<rparr>"
    have p: "(k, p) \<in> set (sb_open b)" using Some by (rule map_of_SomeD)
    then have k: "xp_ticket p = k" "500000 \<le> k" "k < sb_next_ticket b"
      using ok by (force simp: book_ok_def list_all_iff)+
    have fresh: "k \<notin> ct_ticket ` set (sb_closed b)" using ok p by (force simp: book_ok_def)
    have popped: "book_ok start ?b"
      using ok by (auto simp: book_ok_def list_all_iff set_delete distinct_delete)
    show ?thesis
    proof (cases "closed_trade_of (sb_spec b) p price reason closed_at")
      case (Inl e)
      with Some popped show ?thesis by (simp add: close_ticket_def)
    next
      case (Inr trade)
      with Some popped k fresh trade_ticket [OF Inr] show ?thesis
        by (auto simp: close_ticket_def book_ok_def list_all_iff set_delete)
    qed
  qed
qed

lemma update_fresh: "k \<notin> fst ` set xs \<Longrightarrow> AList.update k v xs = xs @ [(k, v)]"
  by (induction xs) auto

lemma replace_keys [simp]: "map fst (replace_position k p xs) = map fst xs"
  by (simp add: replace_position_def)

lemma replace_key_set [simp]: "fst ` set (replace_position k p xs) = fst ` set xs"
  by (metis list.set_map replace_keys)

lemma replace_in: "tp \<in> set (replace_position k p xs) \<Longrightarrow> tp \<in> set xs \<or> tp = (k, p) \<and> k \<in> fst ` set xs"
  by (auto simp: replace_position_def split: if_splits)

lemma book_touch:
  "xp_ticket p = k \<Longrightarrow> book_ok start b \<Longrightarrow>
     book_ok start (b\<lparr>sb_open := replace_position k p (sb_open b)\<rparr>)"
  by (auto simp: book_ok_def list_all_iff dest!: replace_in)

lemma book_open:
  assumes "book_ok start b" "xp_ticket p = sb_next_ticket b"
  shows "book_ok start (with_position p b)"
proof -
  have "sb_next_ticket b \<notin> fst ` set (sb_open b)" "sb_next_ticket b \<notin> ct_ticket ` set (sb_closed b)"
    using assms(1) by (auto simp: book_ok_def list_all_iff)
  with assms update_fresh [OF this(1), of p] show ?thesis
    by (auto simp: book_ok_def list_all_iff)
qed

lemma scan_ticket [simp]: "xp_ticket (ex_position (scan_exit spec t p)) = xp_ticket p"
  by (simp add: scan_exit_def Let_def)

lemma resolve_exit_book: "xp_ticket (snd tp) = fst tp \<Longrightarrow> keeps book_kept (resolve_exit t tp)"
  unfolding resolve_exit_def Let_def
  by (intro book.keeps_rules book.keeps_modify close_ticket_book)
     (simp_all add: book_kept_def book_touch)

lemma book_now: "book_ok start (b\<lparr>sb_tick := t, sb_now := n\<rparr>) = book_ok start b"
  by (rule book_ok_cong) simp_all

lemma book_handled: "book_ok start (b\<lparr>sb_handled := h\<rparr>) = book_ok start b"
  by (rule book_ok_cong) simp_all

lemma advance_book: "keeps book_kept (advance t)"
proof -
  have "book_ok start (snd (advance t b))" if ok: "book_ok start b" for start b
  proof -
    let ?b = "b\<lparr>sb_tick := Some t, sb_now := Some (gt_received_time t)\<rparr>"
    have "keeps book_kept (bindM (forM (resolve_exit t) (sb_open b)) (\<lambda>_. returnM ()))"
      using ok by (intro book.keeps_bind book.keeps_for_in resolve_exit_book book.keeps_pure)
        (auto simp: book_ok_def list_all_iff)
    with ok book_now show ?thesis by (simp add: advance_def keeps_def book_kept_def)
  qed
  then show ?thesis by (simp add: keeps_def book_kept_def)
qed

lemma send_book: "keeps book_kept (broker_order_send sl ord)"
proof -
  have "book_ok start b'" if ok: "book_ok start b" and run: "broker_order_send sl ord b = (r, b')" for start b r b'
  proof (cases "map_of (sb_handled b) (ao_order_request_id ord)")
    case None
    have opened: "book_ok start (with_position (filled_position ord t (sb_next_ticket b) fill slippage) b)"
      for t fill slippage
      by (rule book_open [OF ok]) (simp add: filled_position_def)
    from send_new [OF run None] ok show ?thesis
    proof (elim disjE exE)
      fix t fill slippage
      assume "let p = filled_position ord t (sb_next_ticket b) fill slippage in
         (\<exists>e. r = Inl e) \<and> b' = with_position p b \<or>
         (\<exists>res. r = Inr res \<and>
            b' = with_position p b\<lparr>sb_handled := AList.update (ao_order_request_id ord) res (sb_handled b)\<rparr>)"
      with opened [of t fill slippage] show ?thesis
        by (auto simp: Let_def book_handled)
    qed simp
  next
    case (Some res)
    from send_handled [OF Some] run ok show ?thesis by auto
  qed
  then show ?thesis by (metis keeps_def book_kept_def prod.collapse)
qed

lemma close_all_book: "keeps book_kept (close_all_positions reason)"
  unfolding close_all_positions_def
  by (intro book.keeps_rules close_ticket_book)

lemma step_book: "broker_step sl b b' \<Longrightarrow> book_kept b b'"
  by (induction rule: broker_step.induct)
     (use advance_book send_book close_all_book in \<open>simp_all add: keeps_def\<close>)

text \<open>
  C23. The simulated account is always the sum of its trades: over any sequence of market
  steps, submissions and closes, returning or raising, no ticket is reused or both open and
  closed, every ticket was issued, and the balance is exactly the starting balance plus the
  profits of the closed trades, added in the order they closed.
\<close>

theorem balance_is_the_closed_trades:
  assumes "(broker_step sl)\<^sup>*\<^sup>* (new_broker spec quantum start currency server login leverage) b"
  shows "sb_balance b = foldl dadd start (map ct_profit (sb_closed b)) \<and>
    distinct (map fst (sb_open b) @ map ct_ticket (sb_closed b)) \<and>
    int (length (sb_open b) + length (sb_closed b)) \<le> sb_next_ticket b - 500000"
proof -
  from assms have "book_ok start b"
  proof (induction rule: rtranclp_induct)
    case base
    show ?case by (simp add: new_broker_def book_ok_def)
  next
    case (step y z)
    with step_book show ?case by (auto simp: book_kept_def)
  qed
  then have b: "sb_balance b = foldl dadd start (map ct_profit (sb_closed b))"
    "distinct (map fst (sb_open b) @ map ct_ticket (sb_closed b))"
    "set (map fst (sb_open b) @ map ct_ticket (sb_closed b)) \<subseteq> {500000..<sb_next_ticket b}"
    "500000 \<le> sb_next_ticket b"
    by (auto simp: book_ok_def list_all_iff)
  from distinct_card [OF b(2)] card_mono [OF _ b(3)] b(4)
  have "length (sb_open b) + length (sb_closed b) \<le> nat (sb_next_ticket b - 500000)" by simp
  with b(1,2,4) show ?thesis by linarith
qed


subsection \<open>Pessimism\<close>

text \<open>
  The fill model is pessimistic, as documented: whenever a bar's range reaches the stop of
  a position, the exit is the stop, even when the target was reached too, and at a price no
  better than the stop; a target is taken only when the stop was not touched; a position
  neither touched is not closed.
\<close>

theorem exits_are_pessimistic:
  assumes "0 \<le> gt_spread_points t" "0 < point spec" "rnd (xp_stop_loss_price p) = xp_stop_loss_price p"
  defines "x \<equiv> scan_exit spec t p"
  shows "(ex_hit_stop x \<longrightarrow> (\<exists>price. exit_of spec t x = Some (price, ''stop_loss'') \<and>
            (if xp_side p = BUY then price \<le> xp_stop_loss_price p else xp_stop_loss_price p \<le> price))) \<and>
    (\<not> ex_hit_stop x \<and> ex_hit_target x \<longrightarrow>
       (\<exists>target. xp_take_profit_price p = Some target \<and> exit_of spec t x = Some (target, ''take_profit''))) \<and>
    (\<not> ex_hit_stop x \<and> \<not> ex_hit_target x \<longrightarrow> exit_of spec t x = None)"
proof -
  have slip: "0 \<le> dmul (half_spread spec t) SLIPPAGE_SPREAD_FRACTION"
    using assms(1,2) by (simp add: half_spread_def SLIPPAGE_SPREAD_FRACTION_def decimal_nonneg)
  have "dsub (xp_stop_loss_price p) s \<le> xp_stop_loss_price p \<and> xp_stop_loss_price p \<le> dadd (xp_stop_loss_price p) s"
    if "0 \<le> s" for s
    using that decimal_mono(2) [of "xp_stop_loss_price p" "xp_stop_loss_price p" 0 s]
      decimal_mono(1) [of "xp_stop_loss_price p" "xp_stop_loss_price p" 0 s] assms(3) by simp
  from this [OF slip] show ?thesis
    by (auto simp: exit_of_def stop_fill_def x_def Let_def scan_exit_def split: option.splits)
qed

end
