(* ===== verification/Replay.thy ===== *)
theory Replay
  imports Recording Simulated_Broker
begin

text \<open>
  The replay (\<^verbatim>\<open>application/orchestration.py\<close>): the transaction flow of one decision
  window, driven over a series against the simulated broker. The replay's state extends the
  desk (\<open>Recording\<close>) with the broker, the equity ledger, the session store and the run's
  counters; the session store is the in-memory one the constructor defaults to. How numbers
  are printed in a halt's detail is the two formatting arguments of the environment.
\<close>

definition MAX_HISTORY_BARS :: nat where "MAX_HISTORY_BARS = 400"
definition CODE_COMMIT :: string where "CODE_COMMIT = ''uncommitted-prototype''"

type_synonym bucket = "(string \<times> int) list"

definition bump :: "string \<Rightarrow> bucket \<Rightarrow> bucket" where
  "bump key b = AList.update key ((case map_of b key of None \<Rightarrow> 0 | Some n \<Rightarrow> n) + 1) b"

definition bump_all :: "string list \<Rightarrow> bucket \<Rightarrow> bucket" where
  "bump_all keys b = fold bump keys b"

record run_tally =
  tl_windows :: int
  tl_features_unavailable :: int
  tl_no_trade :: int
  tl_intents :: int
  tl_risk_passed :: int
  tl_risk_blocked :: int
  tl_risk_halted :: int
  tl_supervisor_approved :: int
  tl_supervisor_vetoed :: int
  tl_supervisor_halted :: int
  tl_order_check_rejected :: int
  tl_orders_filled :: int
  tl_no_trade_reasons :: bucket
  tl_risk_reasons :: bucket
  tl_supervisor_reasons :: bucket
  tl_injected_faults :: bucket

definition RunTally :: run_tally where
  "RunTally =
     \<lparr>tl_windows = 0, tl_features_unavailable = 0, tl_no_trade = 0, tl_intents = 0, tl_risk_passed = 0,
      tl_risk_blocked = 0, tl_risk_halted = 0, tl_supervisor_approved = 0, tl_supervisor_vetoed = 0,
      tl_supervisor_halted = 0, tl_order_check_rejected = 0, tl_orders_filled = 0,
      tl_no_trade_reasons = [], tl_risk_reasons = [], tl_supervisor_reasons = [], tl_injected_faults = []\<rparr>"

type_synonym session_key = "int \<times> decimal \<times> decimal \<times> decimal \<times> int \<times> bool"

record 's replay = "'s desk" +
  rp_broker :: simulated_broker
  rp_ledger :: equity_ledger
  rp_sessions :: memory_sessions
  rp_session_key :: "session_key option"
  rp_session_resumed :: bool
  rp_history :: "bar list"
  rp_seen_hashes :: "string set"
  rp_order_times :: "utc list"
  rp_recent_intents :: "utc list"
  rp_trading_day :: "int option"
  rp_tally :: run_tally

record 's replay_env =
  re_desk :: "'s desk_env"
  re_zone :: zone_data
  re_config :: platform_config
  re_version :: string
  re_spec :: instrument_spec
  re_strategy :: strategy_entry
  re_risk :: risk_config
  re_execution :: execution_config
  re_calendar :: calendar
  re_context :: risk_context
  re_policy :: supervisor_policy
  re_fixed4 :: "decimal \<Rightarrow> string"
  re_int_text :: "int \<Rightarrow> string"

abbreviation re_stdlib :: "'s replay_env \<Rightarrow> stdlib" where
  "re_stdlib env \<equiv> de_stdlib (re_desk env)"


subsection \<open>Construction\<close>

definition calendar_of_market :: "zone_data \<Rightarrow> platform_config \<Rightarrow> string \<Rightarrow> calendar" where
  "calendar_of_market zone config symbol =
     (case market_for config symbol of
        Some m \<Rightarrow> calendar_for zone (mc_asset_class m) (mc_session_policy_approved m)
      | None \<Rightarrow> FxWeekdayCalendar zone)"

definition risk_context_for ::
  "platform_config \<Rightarrow> string \<Rightarrow> risk_config \<Rightarrow> execution_config \<Rightarrow> calendar \<Rightarrow> int option \<Rightarrow> py_exn + risk_context" where
  "risk_context_for config version risk execution cal login =
     (let g = pc_account_guard config in
      mapE (\<lambda>policy.
        \<lparr>rx_risk = risk, rx_execution = execution, rx_allowed_symbols = set (enabled_symbols config),
         rx_require_demo_account = ag_require_demo_account g, rx_expected_server = ag_expected_server g,
         rx_expected_login = login, rx_risk_config_version = version,
         rx_expected_currency = ag_expected_currency g, rx_expected_leverage = ag_expected_leverage g,
         rx_intraday = policy, rx_calendar = cal\<rparr>) (policy_from_config (pc_intraday config)))"

definition supervisor_policy_for :: "platform_config \<Rightarrow> supervisor_policy" where
  "supervisor_policy_for config =
     \<lparr>sp_enabled = sc_enabled (pc_supervisor config),
      sp_veto_on_unknown_regime = sc_veto_on_unknown_regime (pc_supervisor config),
      sp_allowed_strategy_ids = {ta_strategy_id (pc_trading_agent config)},
      sp_allowed_model_versions = None, sp_min_confidence = 0, sp_max_confidence = 1,
      sp_max_intents_per_hour = sc_max_intents_per_hour (pc_supervisor config)\<rparr>"

definition new_replay_env ::
  "'s desk_env \<Rightarrow> (decimal \<Rightarrow> string) \<Rightarrow> zone_data \<Rightarrow> platform_config \<Rightarrow> instrument_spec \<Rightarrow>
     (decimal \<Rightarrow> string) \<Rightarrow> (int \<Rightarrow> string) \<Rightarrow> py_exn + 's replay_env" where
  "new_replay_env desk dec_str zone config spec fixed4 int_text =
     (let symbol = spec_canonical_symbol spec; cal = calendar_of_market zone config symbol in
      bindE (resolve_strategy (de_stdlib desk) dec_str zone (ta_strategy_id (pc_trading_agent config))) (\<lambda>strategy.
      bindE (risk_for config symbol) (\<lambda>risk.
      bindE (execution_for config symbol) (\<lambda>execution.
      bindE (config_version (de_stdlib desk) dec_str config) (\<lambda>version.
      bindE (risk_context_for config version risk execution cal
               (ag_expected_login (pc_account_guard config))) (\<lambda>ctx.
      Inr \<lparr>re_desk = desk, re_zone = zone, re_config = config, re_version = version, re_spec = spec,
           re_strategy = strategy, re_risk = risk, re_execution = execution, re_calendar = cal,
           re_context = ctx, re_policy = supervisor_policy_for config, re_fixed4 = fixed4,
           re_int_text = int_text\<rparr>))))))"

definition new_replay ::
  "kill_switch \<Rightarrow> 's \<Rightarrow> run_recorder \<Rightarrow> audit_db \<Rightarrow> nat \<Rightarrow> simulated_broker \<Rightarrow> decimal \<Rightarrow> memory_sessions \<Rightarrow>
     py_exn + 's replay" where
  "new_replay switch store recorder db calls broker starting_equity sessions =
     mapE (\<lambda>ledger.
       \<lparr>dk_switch = switch, dk_store = store, dk_recorder = recorder, dk_db = db, dk_calls = calls,
        rp_broker = broker, rp_ledger = ledger, rp_sessions = sessions, rp_session_key = None,
        rp_session_resumed = False, rp_history = [], rp_seen_hashes = {}, rp_order_times = [],
        rp_recent_intents = [], rp_trading_day = None, rp_tally = RunTally\<rparr>) (EquityLedger starting_equity)"


subsection \<open>Reaching the broker and the counters\<close>

definition on_broker :: "(simulated_broker, 'a) prog \<Rightarrow> ('s replay, 'a) prog" where
  "on_broker m w = (case m (rp_broker w) of (r, b) \<Rightarrow> (r, w\<lparr>rp_broker := b\<rparr>))"

definition ask_broker :: "(simulated_broker \<Rightarrow> py_exn + 'a) \<Rightarrow> ('s replay, 'a) prog" where
  "ask_broker f = bindM (getM (\<lambda>w. f (rp_broker w))) liftM"

definition tally :: "(run_tally \<Rightarrow> run_tally) \<Rightarrow> ('s replay, unit) prog" where
  "tally f = modifyM (\<lambda>w. w\<lparr>rp_tally := f (rp_tally w)\<rparr>)"

definition trim_window :: "utc \<Rightarrow> int \<Rightarrow> utc list \<Rightarrow> utc list" where
  \<comment> \<open>\<^verbatim>\<open>while entries and now - entries[0] > window: popleft\<close>\<close>
  "trim_window now window entries = dropWhile (\<lambda>t. window < now - t) entries"

definition portfolio_of ::
  "'s replay_env \<Rightarrow> position_state list \<Rightarrow> ('s replay, portfolio_state) prog" where
  "portfolio_of env positions =
     bindM (ask_broker broker_account) (\<lambda>account.
     bindM (liftM (assess_open_risk positions [spec_broker_symbol (re_spec env) \<mapsto> re_spec env]
                     (as_equity account))) (\<lambda>open_risk.
     getM (\<lambda>w. \<lparr>pf_account = account, pf_open_positions = positions, pf_ledger = rp_ledger w,
                pf_orders_in_last_hour = int (length (rp_order_times w)),
                pf_seen_decision_hashes = rp_seen_hashes w,
                pf_open_risk_fraction = ora_fraction open_risk\<rparr>)))"


subsection \<open>The stages of one window\<close>

record window =
  wn_snapshot :: market_snapshot
  wn_evidence :: evidence
  wn_positions :: "position_state list"

definition decision_capsule_valid :: "decision_capsule \<Rightarrow> bool" where [checks]:
  "decision_capsule_valid c \<longleftrightarrow>
     symbol_ok (dc_canonical_symbol c) \<and> symbol_ok (dc_broker_symbol c) \<and>
     version_tag_ok (dc_feature_set_version c) \<and> version_tag_ok (dc_feature_values_hash c) \<and>
     version_tag_ok (dc_strategy_version c) \<and> opt_ok version_tag_ok (dc_model_version c) \<and>
     version_tag_ok (dc_risk_config_version c) \<and> version_tag_ok (dc_code_commit c)"

definition capsule_of ::
  "stdlib \<Rightarrow> string \<Rightarrow> string \<Rightarrow> string \<Rightarrow> string \<Rightarrow> environment \<Rightarrow> market_snapshot \<Rightarrow> evidence \<Rightarrow>
     trade_intent option \<Rightarrow> risk_decision option \<Rightarrow> supervisor_decision option \<Rightarrow> execution_result option \<Rightarrow>
     position_state list \<Rightarrow> position_state list \<Rightarrow> py_exn + decision_capsule" where
  "capsule_of sl kind broker_symbol strategy_version version environment snap f intent risk supervisor
       execution before after =
     bindE (evidence_values_hash sl f) (\<lambda>values_hash.
     contract decision_capsule_valid
       \<lparr>dc_capsule_id = uuid5_url sl (kind @ ms_snapshot_id snap), dc_occurred_at = ms_event_time snap,
        dc_correlation_id = ms_snapshot_id snap, dc_canonical_symbol = ms_symbol snap,
        dc_broker_symbol = broker_symbol, dc_market_snapshot_id = ms_snapshot_id snap,
        dc_feature_set_version = evidence_set_version f, dc_feature_values_hash = values_hash,
        dc_strategy_version = strategy_version, dc_model_version = None, dc_model_output = None,
        dc_trade_intent = intent, dc_risk_config_version = version, dc_risk_decision = risk,
        dc_supervisor_decision = supervisor, dc_execution_result = execution,
        dc_position_state_before = before, dc_position_state_after = after,
        dc_code_commit = CODE_COMMIT, dc_environment = environment\<rparr>)"

definition seal_window ::
  "'s replay_env \<Rightarrow> window \<Rightarrow> trade_intent option \<Rightarrow> risk_decision option \<Rightarrow> supervisor_decision option \<Rightarrow>
     execution_result option \<Rightarrow> ('s replay, decision_capsule) prog" where
  "seal_window env wd intent risk supervisor execution =
     bindM (ask_broker broker_positions) (\<lambda>after.
     bindM (liftM (capsule_of (re_stdlib env) ''crumblr:capsule:'' (spec_broker_symbol (re_spec env))
                     (se_version (re_strategy env)) (re_version env) (pc_environment (re_config env))
                     (wn_snapshot wd) (wn_evidence wd) intent risk supervisor execution
                     (wn_positions wd) after)) (\<lambda>capsule.
     bindM (seal (re_desk env) capsule) (\<lambda>_.
     returnM capsule)))"

definition note_stage ::
  "'s replay_env \<Rightarrow> market_snapshot \<Rightarrow> event_payload \<Rightarrow> string \<Rightarrow> ('s replay, unit) prog" where
  "note_stage env snap payload source =
     record_event (re_desk env) payload (ms_snapshot_id snap) (ms_event_time snap) source"

definition signal_of ::
  "stdlib \<Rightarrow> platform_config \<Rightarrow> strategy_entry \<Rightarrow> market_snapshot \<Rightarrow> evidence \<Rightarrow> strategy_decision \<Rightarrow>
     py_exn + signal_generated" where
  "signal_of sl config entry snap f d =
     contract signal_generated_valid
       \<lparr>sg_signal_id = uuid5_url sl (''crumblr:signal:'' @ ms_snapshot_id snap @ '':'' @ se_strategy_id entry),
        sg_snapshot_id = ms_snapshot_id snap, sg_symbol = ms_symbol snap,
        sg_strategy_id = se_strategy_id entry, sg_strategy_version = se_version entry,
        sg_model_version = ta_model_version (pc_trading_agent config), sg_proposed_side = sn_side d,
        sg_confidence = sn_confidence d, sg_regime = evidence_regime f,
        sg_feature_snapshot_id = evidence_id f, sg_feature_set_version = evidence_set_version f,
        sg_reason_codes = sn_reason_codes d\<rparr>"

definition count_risk :: "risk_decision \<Rightarrow> run_tally \<Rightarrow> run_tally" where
  "count_risk d t =
     (let t = t\<lparr>tl_risk_reasons := bump_all (map reason_value (rd_reason_codes d)) (tl_risk_reasons t)\<rparr> in
      case rd_verdict d of
        PASS \<Rightarrow> t\<lparr>tl_risk_passed := tl_risk_passed t + 1\<rparr>
      | BLOCK \<Rightarrow> t\<lparr>tl_risk_blocked := tl_risk_blocked t + 1\<rparr>
      | RV_HALT \<Rightarrow> t\<lparr>tl_risk_halted := tl_risk_halted t + 1\<rparr>)"

definition count_supervisor :: "supervisor_decision \<Rightarrow> run_tally \<Rightarrow> run_tally" where
  "count_supervisor d t =
     (let t = t\<lparr>tl_supervisor_reasons :=
                  bump_all (map reason_value (sd_reason_codes d)) (tl_supervisor_reasons t)\<rparr> in
      case sd_verdict d of
        APPROVE \<Rightarrow> t\<lparr>tl_supervisor_approved := tl_supervisor_approved t + 1\<rparr>
      | VETO \<Rightarrow> t\<lparr>tl_supervisor_vetoed := tl_supervisor_vetoed t + 1\<rparr>
      | SV_HALT \<Rightarrow> t\<lparr>tl_supervisor_halted := tl_supervisor_halted t + 1\<rparr>)"

definition record_risk :: "'s replay_env \<Rightarrow> market_snapshot \<Rightarrow> risk_decision \<Rightarrow> ('s replay, unit) prog" where
  "record_risk env snap d =
     bindM (tally (count_risk d)) (\<lambda>_.
     whenM (rd_verdict d = RV_HALT)
       (desk_trip (re_desk env) (rd_reason_codes d) ''risk_engine'' (ms_received_time snap)
          (ms_snapshot_id snap) None))"

definition record_supervisor ::
  "'s replay_env \<Rightarrow> market_snapshot \<Rightarrow> supervisor_decision \<Rightarrow> ('s replay, unit) prog" where
  "record_supervisor env snap d =
     bindM (tally (count_supervisor d)) (\<lambda>_.
     whenM (sd_verdict d = SV_HALT)
       (desk_trip (re_desk env) (sd_reason_codes d) ''supervisor'' (ms_received_time snap)
          (ms_snapshot_id snap) None))"


subsection \<open>Execution\<close>

definition replay_order ::
  "'s replay_env \<Rightarrow> market_snapshot \<Rightarrow> trade_intent \<Rightarrow> risk_decision \<Rightarrow> supervisor_decision \<Rightarrow>
     py_exn + approved_order" where
  "replay_order env snap intent risk supervisor =
     (case (rd_approved_volume risk, ti_stop_loss_price intent) of
        (Some volume, Some stop) \<Rightarrow>
          contract approved_order_valid
            \<lparr>ao_order_request_id =
               uuid5_url (re_stdlib env) (''crumblr:order:'' @ decision_hash (re_stdlib env) intent),
             ao_intent_id = ti_intent_id intent, ao_intent_risk_decision_id = rd_decision_id risk,
             ao_final_risk_decision_id = None, ao_supervisor_decision_id = sd_decision_id supervisor,
             ao_broker_symbol = spec_broker_symbol (re_spec env), ao_side = ti_side intent,
             ao_entry_type = ti_entry_type intent, ao_volume = volume, ao_price = None,
             ao_stop_loss_price = stop, ao_take_profit_price = ti_take_profit_price intent,
             ao_max_slippage_points = ec_max_slippage_points (re_execution env),
             ao_created_at = ms_received_time snap, ao_expires_at = ti_expires_at intent,
             ao_environment = pc_environment (re_config env)\<rparr>
      | _ \<Rightarrow> Inl AssertionError)"

definition submit_order :: "'s replay_env \<Rightarrow> market_snapshot \<Rightarrow> approved_order \<Rightarrow> ('s replay, execution_result) prog" where
  "submit_order env snap ord =
     bindM (ask_broker broker_positions) (\<lambda>before.
     bindM (note_stage env snap
              (Submitted \<lparr>os_order_request_id = ao_order_request_id ord, os_intent_id = ao_intent_id ord,
                          os_broker_symbol = ao_broker_symbol ord, os_side = ao_side ord,
                          os_submitted_at = ao_created_at ord,
                          os_idempotency_key = ao_order_request_id ord\<rparr>) ''mt5_gateway'') (\<lambda>_.
     bindM (on_broker (broker_order_send (re_stdlib env) ord)) (\<lambda>result.
     bindM (note_stage env snap (ResultReceived \<lparr>orr_result = result, orr_state = er_state result\<rparr>)
              ''mt5_gateway'') (\<lambda>_.
     bindM (ask_broker broker_positions) (\<lambda>after.
     bindM (note_stage env snap
              (PositionsChanged \<lparr>pcg_before = before, pcg_after = after, pcg_trigger = ''order_send''\<rparr>)
              ''mt5_gateway'') (\<lambda>_.
     bindM (tally (\<lambda>t. t\<lparr>tl_orders_filled := tl_orders_filled t + 1\<rparr>)) (\<lambda>_.
     bindM (modifyM (\<lambda>w. w\<lparr>rp_order_times :=
              trim_window (ms_event_time snap) US_HOUR (rp_order_times w @ [ms_event_time snap])\<rparr>)) (\<lambda>_.
     returnM result))))))))"

definition execute ::
  "'s replay_env \<Rightarrow> market_snapshot \<Rightarrow> trade_intent \<Rightarrow> risk_decision \<Rightarrow> supervisor_decision \<Rightarrow>
     ('s replay, execution_result option) prog" where
  "execute env snap intent risk supervisor =
     bindM (liftM (replay_order env snap intent risk supervisor)) (\<lambda>ord.
     bindM (ask_broker (\<lambda>b. broker_order_check b ord)) (\<lambda>chk.
     bindM (note_stage env snap (CheckCompleted chk) ''mt5_gateway'') (\<lambda>_.
     if \<not> ok_accepted chk
     then bindM (tally (\<lambda>t. t\<lparr>tl_order_check_rejected := tl_order_check_rejected t + 1\<rparr>)) (\<lambda>_. returnM None)
     else bindM (submit_order env snap ord) (\<lambda>result. returnM (Some result)))))"


subsection \<open>One decision window\<close>

definition supervise_stage ::
  "'s replay_env \<Rightarrow> window \<Rightarrow> trade_intent \<Rightarrow> risk_decision \<Rightarrow> ('s replay, decision_capsule) prog" where
  "supervise_stage env wd intent risk =
     (let snap = wn_snapshot wd in
      bindM (getM (\<lambda>w. int (length (rp_recent_intents w)))) (\<lambda>recent.
      bindM (liftM (supervise (re_stdlib env) intent (evidence_regime (wn_evidence wd)) (re_policy env)
               \<lparr>sx_intents_in_last_hour = recent, sx_incident_status = CLEAR,
                sx_reconciliation_status = MATCHED\<rparr> (ms_received_time snap))) (\<lambda>sup.
      bindM (note_stage env snap (SupervisorDecided sup) ''supervisor'') (\<lambda>_.
      bindM (record_supervisor env snap sup) (\<lambda>_.
      if sd_verdict sup \<noteq> APPROVE
      then seal_window env wd (Some intent) (Some risk) (Some sup) None
      else
        bindM (execute env snap intent risk sup) (\<lambda>execution.
        bindM (modifyM (\<lambda>w. w\<lparr>rp_seen_hashes :=
                 insert (decision_hash (re_stdlib env) intent) (rp_seen_hashes w)\<rparr>)) (\<lambda>_.
        seal_window env wd (Some intent) (Some risk) (Some sup) execution)))))))"

definition judge_stage ::
  "'s replay_env \<Rightarrow> window \<Rightarrow> trade_intent \<Rightarrow> portfolio_state \<Rightarrow> kill_switch \<Rightarrow> ('s replay, decision_capsule) prog" where
  "judge_stage env wd intent pf switch =
     (let snap = wn_snapshot wd in
      bindM (liftM (evaluate (re_stdlib env) intent snap (re_spec env) pf (re_context env) switch
                      (ms_received_time snap))) (\<lambda>risk.
      bindM (note_stage env snap (RiskDecided risk) ''risk_engine'') (\<lambda>_.
      bindM (record_risk env snap risk) (\<lambda>_.
      if rd_verdict risk \<noteq> PASS then seal_window env wd (Some intent) (Some risk) None None
      else supervise_stage env wd intent risk))))"

definition risk_stage :: "'s replay_env \<Rightarrow> window \<Rightarrow> trade_intent \<Rightarrow> ('s replay, decision_capsule) prog" where
  "risk_stage env wd intent =
     bindM (portfolio_of env (wn_positions wd)) (\<lambda>pf.
     bindM (getM dk_switch) (\<lambda>switch. judge_stage env wd intent pf switch))"

definition decision_stage ::
  "'s replay_env \<Rightarrow> window \<Rightarrow> strategy_decision \<Rightarrow> ('s replay, decision_capsule) prog" where
  "decision_stage env wd d =
     (let snap = wn_snapshot wd in
      bindM (record_features (re_desk env) (wn_evidence wd)) (\<lambda>_.
      bindM (liftM (signal_of (re_stdlib env) (re_config env) (re_strategy env) snap (wn_evidence wd) d)) (\<lambda>signal.
      bindM (note_stage env snap (Signalled signal) ''trading_agent'') (\<lambda>_.
      case sn_intent d of
        None \<Rightarrow>
          bindM (tally (\<lambda>t. t\<lparr>tl_no_trade := tl_no_trade t + 1,
                              tl_no_trade_reasons := bump_all (sn_reason_codes d) (tl_no_trade_reasons t)\<rparr>)) (\<lambda>_.
          seal_window env wd None None None None)
      | Some intent \<Rightarrow>
          bindM (tally (\<lambda>t. t\<lparr>tl_intents := tl_intents t + 1\<rparr>)) (\<lambda>_.
          bindM (note_stage env snap (IntentCreated intent) ''trading_agent'') (\<lambda>_.
          bindM (modifyM (\<lambda>w. w\<lparr>rp_recent_intents :=
                   trim_window (ms_event_time snap) US_HOUR (rp_recent_intents w @ [ms_event_time snap])\<rparr>)) (\<lambda>_.
          risk_stage env wd intent)))))))"

definition agent_context_for :: "risk_config \<Rightarrow> position_state list \<Rightarrow> agent_context" where
  "agent_context_for risk positions =
     \<lparr>ac_open_position_sides = map ps_side positions, ac_requested_risk_fraction = rc_max_risk_per_trade risk,
      ac_min_stop_distance_points = rc_min_stop_distance_points risk\<rparr>"

definition count_unavailable :: "('s replay, unit) prog" where
  "count_unavailable = tally (\<lambda>t. t\<lparr>tl_features_unavailable := tl_features_unavailable t + 1\<rparr>)"

definition process_window :: "'s replay_env \<Rightarrow> generated_tick \<Rightarrow> ('s replay, decision_capsule option) prog" where
  "process_window env t =
     bindM (getM rp_history) (\<lambda>history.
     if length history < se_minimum_bars (re_strategy env)
     then bindM count_unavailable (\<lambda>_. returnM None)
     else
       bindM (liftM (build_snapshot (re_stdlib env) t history (re_spec env) ''M5'' OPEN)) (\<lambda>snap.
       bindM (ask_broker broker_positions) (\<lambda>positions.
       bindM (liftM (se_evaluate (re_strategy env) snap history (re_spec env)
                       (agent_context_for (re_risk env) positions))) (\<lambda>result.
       case so_features result of
         None \<Rightarrow> bindM count_unavailable (\<lambda>_. returnM None)
       | Some f \<Rightarrow>
           bindM (decision_stage env \<lparr>wn_snapshot = snap, wn_evidence = f, wn_positions = positions\<rparr>
                    (so_decision result)) (\<lambda>capsule.
           returnM (Some capsule))))))"


subsection \<open>The session\<close>

definition recover_replay_session :: "'s replay_env \<Rightarrow> generated_tick \<Rightarrow> ('s replay, unit) prog" where
  "recover_replay_session env t =
     (let symbol = spec_canonical_symbol (re_spec env) in
      bindM (getM (\<lambda>w. load_latest (rp_sessions w) symbol)) (\<lambda>rec.
      bindM (ask_broker broker_equity) (\<lambda>equity.
      bindM (ask_broker broker_positions) (\<lambda>positions.
      bindM (liftM (recover_session rec equity (int (length positions))
                      (trading_day (re_zone env) (gt_event_time t)) (rc_max_daily_loss (re_risk env))
                      (rc_max_drawdown (re_risk env)))) (\<lambda>recovery.
      bindM (modifyM (\<lambda>w. w\<lparr>rp_ledger := rec_ledger recovery, rp_trading_day := rec_trading_day recovery,
                            rp_session_resumed := rec_resumed recovery\<rparr>)) (\<lambda>_.
      whenM (must_halt recovery)
        (desk_trip (re_desk env) (rec_reason_codes recovery) ''risk_session_recovery'' (gt_received_time t)
           (snapshot_id_for (re_stdlib env) symbol (gt_event_time t)) (rec_detail recovery))))))))"

definition roll_session :: "'s replay_env \<Rightarrow> generated_tick \<Rightarrow> ('s replay, unit) prog" where
  "roll_session env t =
     modifyM (\<lambda>w. let day = trading_day (re_zone env) (gt_event_time t) in
       case rp_trading_day w of
         None \<Rightarrow> w\<lparr>rp_trading_day := Some day\<rparr>
       | Some current \<Rightarrow>
           if day \<noteq> current
           then w\<lparr>rp_trading_day := Some day, rp_ledger := start_new_session (rp_ledger w)\<rparr>
           else w)"

definition session_key_of :: "risk_session_state \<Rightarrow> session_key" where
  "session_key_of st =
     (rss_trading_day st, rss_session_start_equity st, rss_max_drawdown_fraction st,
      rss_max_session_loss_fraction st, rss_open_position_count st, rss_open_risk_fraction st = None)"

definition persist_session :: "'s replay_env \<Rightarrow> generated_tick \<Rightarrow> ('s replay, unit) prog" where
  "persist_session env t =
     bindM (getM rp_trading_day) (\<lambda>current.
     case current of
       None \<Rightarrow> returnM ()
     | Some day \<Rightarrow>
         bindM (ask_broker broker_positions) (\<lambda>positions.
         bindM (ask_broker broker_equity) (\<lambda>equity.
         bindM (liftM (assess_open_risk positions [spec_broker_symbol (re_spec env) \<mapsto> re_spec env] equity)) (\<lambda>open_risk.
         modifyM (\<lambda>w.
           let st = session_snapshot (rp_ledger w) (spec_canonical_symbol (re_spec env)) day
                      (dsub (sb_balance (rp_broker w)) (el_starting_equity (rp_ledger w)))
                      (ora_fraction open_risk) (int (length positions)) (gt_received_time t)
           in if rp_session_key w = Some (session_key_of st) then w
              else w\<lparr>rp_session_key := Some (session_key_of st),
                     rp_sessions := save_session (rp_sessions w) st\<rparr>)))))"

definition boundary_detail :: "'s replay_env \<Rightarrow> position_state list \<Rightarrow> utc \<Rightarrow> string" where
  "boundary_detail env positions moment =
     re_int_text env (int (length positions)) @ '' position(s) still open at '' @
     iso_format (re_stdlib env) moment @ '', past the flatten deadline for the '' @
     (case cal_weekly_close (re_calendar env) moment of
        Some closes_at \<Rightarrow> ''trading week ending '' @ iso_format (re_stdlib env) closes_at
      | None \<Rightarrow> ''this calendar's own deadline (no owner-approved weekly close exists for it)'')"

definition check_session_boundary :: "'s replay_env \<Rightarrow> generated_tick \<Rightarrow> ('s replay, unit) prog" where
  "check_session_boundary env t =
     bindM (getM dk_switch) (\<lambda>switch.
     if is_halted switch then returnM ()
     else
       bindM (ask_broker broker_positions) (\<lambda>positions.
       whenM (overnight_breach (re_calendar env) positions (gt_event_time t) (rx_intraday (re_context env)))
         (desk_trip (re_desk env) [OVERNIGHT_EXPOSURE] ''risk_engine'' (gt_received_time t)
            (snapshot_id_for (re_stdlib env) (spec_canonical_symbol (re_spec env)) (gt_event_time t))
            (Some (boundary_detail env positions (gt_event_time t))))))"

definition breached_limits :: "risk_config \<Rightarrow> equity_ledger \<Rightarrow> reason_code list" where
  "breached_limits risk ledger =
     reason_if (rc_max_drawdown risk \<le> drawdown_fraction ledger) MAX_DRAWDOWN @
     reason_if (rc_max_daily_loss risk \<le> session_loss_fraction ledger) DAILY_LOSS_LIMIT"

definition loss_detail :: "(decimal \<Rightarrow> string) \<Rightarrow> equity_ledger \<Rightarrow> string" where
  "loss_detail fixed4 ledger =
     ''drawdown='' @ fixed4 (drawdown_fraction ledger) @ '' session_loss='' @
     fixed4 (session_loss_fraction ledger)"

definition check_loss_gates :: "'s replay_env \<Rightarrow> generated_tick \<Rightarrow> ('s replay, unit) prog" where
  "check_loss_gates env t =
     bindM (getM (\<lambda>w. w)) (\<lambda>w.
     if is_halted (dk_switch w) then returnM ()
     else
       let breached = breached_limits (re_risk env) (rp_ledger w) in
       whenM (breached \<noteq> [])
         (desk_trip (re_desk env) breached ''risk_engine'' (gt_received_time t)
            (snapshot_id_for (re_stdlib env) (spec_canonical_symbol (re_spec env)) (gt_event_time t))
            (Some (loss_detail (re_fixed4 env) (rp_ledger w)))))"


subsection \<open>The run\<close>

definition update_ledger :: "('s replay, unit) prog" where
  "update_ledger =
     bindM (ask_broker broker_equity) (\<lambda>equity.
     modifyM (\<lambda>w. w\<lparr>rp_ledger := ledger_update (rp_ledger w) equity\<rparr>))"

definition observe_step :: "'s replay_env \<Rightarrow> generated_tick \<Rightarrow> ('s replay, unit) prog" where
  "observe_step env t =
     bindM (whenM (gt_injected_fault t \<notin> {None, Some []})
              (tally (\<lambda>tl. tl\<lparr>tl_injected_faults :=
                 bump (the (gt_injected_fault t)) (tl_injected_faults tl)\<rparr>))) (\<lambda>_.
     bindM (liftM (as_market_tick (re_stdlib env) t (re_spec env))) (\<lambda>tick.
     bindM (liftM (as_market_bar (re_stdlib env) t (re_spec env) ''M5'')) (\<lambda>b.
     bindM (observe_market (re_desk env) tick (Some b)) (\<lambda>_.
     modifyM (\<lambda>w. w\<lparr>rp_history := last_n MAX_HISTORY_BARS (rp_history w @ [gt_bar t]),
                    rp_tally := (rp_tally w)\<lparr>tl_windows := tl_windows (rp_tally w) + 1\<rparr>\<rparr>)))))"

definition replay_step ::
  "'s replay_env \<Rightarrow> bool \<Rightarrow> generated_tick \<Rightarrow> ('s replay, decision_capsule option) prog" where
  "replay_step env first t =
     bindM (on_broker (advance t)) (\<lambda>_.
     bindM (whenM first (recover_replay_session env t)) (\<lambda>_.
     bindM (roll_session env t) (\<lambda>_.
     bindM update_ledger (\<lambda>_.
     bindM (observe_step env t) (\<lambda>_.
     bindM (process_window env t) (\<lambda>capsule.
     bindM (check_loss_gates env t) (\<lambda>_.
     bindM (check_session_boundary env t) (\<lambda>_.
     bindM (persist_session env t) (\<lambda>_.
     returnM capsule)))))))))"

fun replay_steps ::
  "'s replay_env \<Rightarrow> bool \<Rightarrow> generated_tick list \<Rightarrow> ('s replay, decision_capsule list) prog" where
  "replay_steps env first [] = returnM []"
| "replay_steps env first (t # ts) =
     bindM (replay_step env first t) (\<lambda>capsule.
     bindM (replay_steps env False ts) (\<lambda>capsules.
     returnM ((case capsule of None \<Rightarrow> capsules | Some c \<Rightarrow> c # capsules))))"

record run_result =
  rn_tally :: run_tally
  rn_capsules :: "decision_capsule list"
  rn_closed_trades :: "closed_trade list"
  rn_starting_equity :: decimal
  rn_final_equity :: decimal
  rn_peak_equity :: decimal
  rn_max_drawdown_fraction :: decimal
  rn_halted :: bool
  rn_halt_reasons :: "reason_code list"
  rn_session_start_equity :: decimal
  rn_session_resumed :: bool
  rn_uncalibrated_checks :: "string list"
  rn_halt_detail :: json

definition run_result_of :: "'s replay_env \<Rightarrow> decision_capsule list \<Rightarrow> decimal \<Rightarrow> 's replay \<Rightarrow> run_result" where
  "run_result_of env capsules equity w =
     \<lparr>rn_tally = rp_tally w, rn_capsules = capsules, rn_closed_trades = sb_closed (rp_broker w),
      rn_starting_equity = el_starting_equity (rp_ledger w),
      rn_final_equity = equity, rn_peak_equity = el_peak_equity (rp_ledger w),
      rn_max_drawdown_fraction = el_max_drawdown_fraction (rp_ledger w),
      rn_halted = is_halted (dk_switch w), rn_halt_reasons = active_reasons (dk_switch w),
      rn_session_start_equity = el_session_start_equity (rp_ledger w),
      rn_session_resumed = rp_session_resumed w,
      rn_uncalibrated_checks = uncalibrated_checks (re_policy env),
      rn_halt_detail =
        (if is_halted (dk_switch w) \<and> ks_history (dk_switch w) \<noteq> []
         then hr_detail (last (ks_history (dk_switch w))) else JNull)\<rparr>"

definition run_replay :: "'s replay_env \<Rightarrow> generated_tick list \<Rightarrow> ('s replay, run_result) prog" where
  \<comment> \<open>the tally is the run's own: it starts from zero\<close>
  "run_replay env ts =
     bindM (tally (\<lambda>_. RunTally)) (\<lambda>_.
     bindM (replay_steps env True ts) (\<lambda>capsules.
     bindM update_ledger (\<lambda>_.
     bindM (flush (re_desk env)) (\<lambda>_.
     bindM (ask_broker broker_equity) (\<lambda>equity.
     getM (run_result_of env capsules equity))))))"

end
