(* ===== verification/Desk_Safety.thy ===== *)
theory Desk_Safety
  imports Recording
begin

text \<open>
  What the programs of a decision desk guarantee whatever fails: they touch nothing but the
  desk, never lift a halt, only ever append to the journal, keep its event identities
  distinct, and never leave a sealed capsule whose sealing the journal does not record.
\<close>

definition event_ids :: "journal_row list \<Rightarrow> uuid set" where
  "event_ids rows = journal_key ` set rows"

definition audited :: "'s desk_env \<Rightarrow> audit_db \<Rightarrow> bool" where
  "audited env db \<longleftrightarrow>
     distinct (map journal_key (au_events db)) \<and>
     (\<forall>r \<in> set (au_capsules db).
        event_identity (de_stdlib env) (de_dump env) (CapsuleSealed (cr_capsule r))
          (dc_correlation_id (cr_capsule r)) \<in> event_ids (au_events db))"

definition db_kept :: "'s desk_env \<Rightarrow> audit_db \<Rightarrow> audit_db \<Rightarrow> bool" where
  "db_kept env db db' \<longleftrightarrow>
     (\<exists>new. au_events db' = au_events db @ new) \<and> (\<exists>new. au_capsules db' = au_capsules db @ new) \<and>
     (audited env db \<longrightarrow> audited env db')"

definition desk_kept :: "'s desk_env \<Rightarrow> ('s, 'm) desk_scheme \<Rightarrow> ('s, 'm) desk_scheme \<Rightarrow> bool" where
  "desk_kept env w w' \<longleftrightarrow>
     desk.more w' = desk.more w \<and> (is_halted (dk_switch w) \<longrightarrow> is_halted (dk_switch w')) \<and>
     db_kept env (dk_db w) (dk_db w')"

lemma db_kept_refl [simp]: "db_kept env db db"
  by (simp add: db_kept_def)

lemma db_kept_trans: "db_kept env db db' \<Longrightarrow> db_kept env db' db'' \<Longrightarrow> db_kept env db db''"
  by (auto simp: db_kept_def)

interpretation desk: effect_order "desk_kept env :: ('s, 'm) desk_scheme \<Rightarrow> ('s, 'm) desk_scheme \<Rightarrow> bool" for env
  by unfold_locales (auto simp: desk_kept_def intro: db_kept_trans)


subsection \<open>Buffering and writing\<close>

lemma desk_begin:
  assumes "keeps (desk_kept env) body"
  shows "keeps (desk_kept env) (begin_transaction env body)"
  unfolding keeps_def
proof
  fix w
  obtain r w'' where run: "body (w\<lparr>dk_calls := dk_calls w + 1\<rparr>) = (r, w'')" by fastforce
  with keepsD [OF assms run] show "desk_kept env w (snd (begin_transaction env body w))"
    by (auto simp: desk_kept_def begin_transaction_def Let_def split: option.split sum.split)
qed

lemma desk_on_recorder: "keeps (desk_kept env) (on_recorder f)"
  unfolding on_recorder_def by (rule desk.keeps_modify) (simp add: desk_kept_def split: run_recorder.split)

lemma desk_recording: "(\<And>r. keeps (desk_kept env) (k r)) \<Longrightarrow> keeps (desk_kept env) (recording k)"
  unfolding recording_def by (rule desk.keeps_bind) (auto split: run_recorder.split)

lemma desk_record_event: "keeps (desk_kept env) (record_event env' payload c occ src)"
  unfolding record_event_def Let_def
  by (intro desk.keeps_bind desk_on_recorder desk_recording desk.keeps_pure)

lemma append_many_grows:
  assumes "append_many es rows = Inr (wons, rows')"
  shows "(\<exists>new. rows' = rows @ new) \<and> event_ids rows' = event_ids rows \<union> je_event_id ` set es \<and>
    (distinct (map journal_key rows) \<longrightarrow> distinct (map journal_key rows'))"
  using assms
proof (induction es arbitrary: rows wons)
  case (Cons e es)
  then obtain won mid wons' where
    p: "journal_append e rows = Inr (won, mid)" and q: "append_many es mid = Inr (wons', rows')"
    by (auto simp: bindE_eq_Inr mapE_eq_Inr split: prod.splits)
  have key: "journal_key \<lparr>jr_event = e, jr_schema_version = v\<rparr> = je_event_id e" for v
    by (simp add: journal_key_def)
  from p [unfolded journal_append_def] journal_table.put_cases
  have "(\<exists>new. mid = rows @ new) \<and> event_ids mid = insert (je_event_id e) (event_ids rows) \<and>
      (distinct (map journal_key rows) \<longrightarrow> distinct (map journal_key mid))"
    by (fastforce simp: key event_ids_def)
  with Cons.IH [OF q] show ?case by auto
qed simp

lemma desk_puts:
  "keeps (desk_kept env) (put_events batch)" "keeps (desk_kept env) (put_ticks ts)"
  "keeps (desk_kept env) (put_bars bs)"
  by (auto simp: keeps_def put_events_def put_ticks_def put_bars_def desk_kept_def db_kept_def audited_def
      dest!: append_many_grows split: sum.splits prod.splits)

lemma desk_flush_market: "keeps (desk_kept env) (flush_market_data env)"
  unfolding flush_market_data_def
  by (intro desk_recording desk.keeps_if desk.keeps_pure desk.keeps_bind desk_on_recorder desk_begin desk_puts)

lemma desk_observe: "keeps (desk_kept env) (observe_market env t b)"
  unfolding observe_market_def
  by (intro desk.keeps_bind desk_on_recorder desk_recording desk.keeps_if desk_flush_market desk.keeps_pure)

lemma desk_features: "keeps (desk_kept env) (record_features env f)"
  unfolding record_features_def
  by (intro desk_recording desk_begin desk.keeps_modify) (simp add: desk_kept_def db_kept_def audited_def)

lemma capsule_seal_grows:
  "capsule_seal sl c rows = Inr (won, rows') \<Longrightarrow>
     (\<exists>new. rows' = rows @ new) \<and> cr_capsule ` set rows' \<subseteq> insert c (cr_capsule ` set rows)"
  by (auto simp: capsule_seal_def bindE_eq_Inr dest!: capsule_table.put_cases)

lemma put_capsule_kept:
  assumes "put_capsule (de_stdlib env) c w = (r, w')"
    and "event_identity (de_stdlib env) (de_dump env) (CapsuleSealed c) (dc_correlation_id c)
      \<in> event_ids (au_events (dk_db w))"
  shows "desk_kept env w w'"
proof (cases "capsule_seal (de_stdlib env) c (au_capsules (dk_db w))")
  case (Inl e)
  with assms(1) show ?thesis by (simp add: put_capsule_def desk.same)
next
  case (Inr x)
  obtain won rows where x: "x = (won, rows)" by (cases x)
  with capsule_seal_grows [of "de_stdlib env" c "au_capsules (dk_db w)" won rows] Inr assms
  show ?thesis
    by (fastforce simp: put_capsule_def desk_kept_def db_kept_def audited_def)
qed

lemma desk_write_batch:
  assumes "\<And>c. capsule = Some c \<Longrightarrow>
    event_identity (de_stdlib env) (de_dump env) (CapsuleSealed c) (dc_correlation_id c) \<in> je_event_id ` set batch"
  shows "keeps (desk_kept env) (write_batch env batch capsule)"
  unfolding write_batch_def
proof (rule desk_begin)
  show "keeps (desk_kept env) (bindM (put_events batch) (\<lambda>_. case capsule of None \<Rightarrow> returnM ()
      | Some c \<Rightarrow> put_capsule (de_stdlib env) c))" (is "keeps _ ?m")
    unfolding keeps_def
  proof
    fix w
    show "desk_kept env w (snd (?m w))"
    proof (cases "append_many batch (au_events (dk_db w))")
      case (Inl e)
      then show ?thesis by (simp add: bindM_def put_events_def desk.same)
    next
      case (Inr x)
      obtain wons rows where x: "x = (wons, rows)" by (cases x)
      let ?w = "w\<lparr>dk_db := (dk_db w)\<lparr>au_events := rows\<rparr>\<rparr>"
      have put: "put_events batch w = (Inr (), ?w)" using Inr x by (simp add: put_events_def)
      have "desk_kept env w ?w" using keepsD [OF desk_puts(1) put] .
      moreover have "desk_kept env ?w (snd (case capsule of None \<Rightarrow> returnM () ?w
          | Some c \<Rightarrow> put_capsule (de_stdlib env) c ?w))"
      proof (cases capsule)
        case (Some c)
        obtain r w' where run: "put_capsule (de_stdlib env) c ?w = (r, w')" by fastforce
        have "event_identity (de_stdlib env) (de_dump env) (CapsuleSealed c) (dc_correlation_id c)
            \<in> event_ids (au_events (dk_db ?w))"
          using assms [OF Some] append_many_grows [OF Inr [unfolded x]] by auto
        from put_capsule_kept [OF run this] run Some show ?thesis by simp
      qed (simp add: desk.same)
      ultimately show ?thesis
        by (simp add: bindM_def put split: option.splits) (metis desk.join)
    qed
  qed
qed

lemma desk_flush: "keeps (desk_kept env) (flush env)"
  unfolding flush_def
  by (intro desk.keeps_bind desk_flush_market desk_recording desk.keeps_if desk.keeps_pure desk_on_recorder
      desk_write_batch) simp


subsection \<open>Sealing and halting\<close>

text \<open>After a successful \<^verbatim>\<open>record\<close> the event is pending under its identity.\<close>

lemma record_event_pending:
  assumes "record_event env payload correlation occ src w = (Inr u, w')" "dk_recorder w' = JournalRecorder r"
  shows "event_identity (de_stdlib env) (de_dump env) payload correlation \<in> je_event_id ` set (rr_pending r)"
  using assms
  by (auto simp: record_event_def recording_def on_recorder_def Let_def bindM_eq_Inr build_event_def
      split: run_recorder.splits)

lemma desk_seal:
  fixes env :: "'s desk_env"
  shows "keeps (desk_kept env) (seal env capsule :: (('s, 'm) desk_scheme, unit) prog)"
  unfolding keeps_def
proof
  fix w :: "('s, 'm) desk_scheme"
  let ?id = "event_identity (de_stdlib env) (de_dump env) (CapsuleSealed capsule) (dc_correlation_id capsule)"
  let ?k = "\<lambda>r. bindM (on_recorder (\<lambda>r. r\<lparr>rr_pending := []\<rparr>)) (\<lambda>_.
       bindM (write_batch env (rr_pending r) (Some capsule)) (\<lambda>_.
       on_recorder (\<lambda>r'. r'\<lparr>rr_events_written := rr_events_written r' + length (rr_pending r),
                            rr_capsules_written := rr_capsules_written r' + 1\<rparr>) ::
         (('s, 'm) desk_scheme, unit) prog))"
  obtain r w1 where run: "record_event env (CapsuleSealed capsule) (dc_correlation_id capsule)
      (dc_occurred_at capsule) ''orchestration'' w = (r, w1)" by fastforce
  have first: "desk_kept env w w1" by (rule keepsD [OF desk_record_event run])
  show "desk_kept env w (snd (seal env capsule w))"
  proof (cases r)
    case (Inl e)
    with run first show ?thesis by (simp add: seal_def bindM_def)
  next
    case (Inr u)
    have "desk_kept env w1 (snd (recording ?k w1))"
    proof (cases "dk_recorder w1")
      case NullRecorder
      then show ?thesis by (simp add: recording_def desk.same)
    next
      case (JournalRecorder j)
      have "?id \<in> je_event_id ` set (rr_pending j)"
        by (rule record_event_pending [OF run [unfolded Inr] JournalRecorder])
      then have "keeps (desk_kept env) (?k j)"
        by (intro desk.keeps_bind desk_on_recorder desk_write_batch) simp
      with JournalRecorder show ?thesis by (simp add: recording_def keeps_def)
    qed
    from desk.join [OF first this] show ?thesis
      by (simp add: seal_def bindM_def run Inr)
  qed
qed

lemma trip_halts: "trip ops reasons who occ detail st = (Inr r, (sw, store)) \<Longrightarrow> is_halted sw"
  by (cases st) (auto simp: trip_def Let_def is_halted_def split: if_splits prod.splits sum.splits)

lemma trip_keeps_halt:
  "trip ops reasons who occ detail (sw, store) = (r, (sw', store')) \<Longrightarrow> is_halted sw \<Longrightarrow> is_halted sw'"
  by (auto simp: trip_def Let_def is_halted_def split: if_splits prod.splits sum.splits)

lemma desk_trip_switch_kept: "keeps (desk_kept env) (desk_trip_switch env' reasons who occ detail)"
  by (auto simp: keeps_def desk_trip_switch_def desk_kept_def dest: trip_keeps_halt split: prod.splits)

lemma desk_trip_kept: "keeps (desk_kept env) (desk_trip env reasons who occ c detail)"
  unfolding desk_trip_def
  by (intro desk.keeps_bind desk.keeps_if desk.keeps_pure desk_record_event desk_flush desk_trip_switch_kept)

text \<open>A trip that returns leaves a halted switch, and one already halted is left as it is.\<close>

lemma desk_trip_halts:
  fixes w :: "('s, 'm) desk_scheme"
  assumes "desk_trip env reasons who occ c detail w = (Inr u, w')"
  shows "is_halted (dk_switch w')"
proof (cases "is_halted (dk_switch w)")
  case True
  with keepsD [OF desk_trip_kept assms] show ?thesis by (simp add: desk_kept_def)
next
  case False
  with assms obtain w1 h w2 where
    t: "desk_trip_switch env reasons who occ detail w = (Inr (), w1)" and
    rest: "bindM (record_event env (Halted h) c occ ''risk_engine'') (\<lambda>_. flush env) w1 = (Inr u, w')"
    by (auto simp: desk_trip_def bindM_eq_Inr)
  from t have "is_halted (dk_switch w1)"
    by (auto simp: desk_trip_switch_def mapE_eq_Inr dest: trip_halts split: prod.splits)
  have "keeps (desk_kept env)
      (bindM (record_event env (Halted h) c occ ''risk_engine'') (\<lambda>_. flush env) :: (('s, 'm) desk_scheme, unit) prog)"
    by (intro desk.keeps_bind desk_record_event desk_flush)
  then have "desk_kept env w1 w'" using rest unfolding keeps_def by (metis snd_conv)
  with \<open>is_halted (dk_switch w1)\<close> show ?thesis by (simp add: desk_kept_def)
qed

text \<open>A halted switch passes no intent.\<close>

lemma halted_never_passes:
  "evaluate sl intent snap spec pf ctx sw now = Inr d \<Longrightarrow> is_halted sw \<Longrightarrow> rd_verdict d \<noteq> PASS"
  by (auto simp: checklist_def account_reasons_def elim: evaluate_pass)

end
