(* ===== verification/Checkpoints.thy ===== *)
theory Checkpoints
  imports RiskSession
begin

text \<open>
  The two checkpoints a live decision worker restarts from: which windows it has decided
  (\<^verbatim>\<open>application/decision_window.py\<close>, \<^verbatim>\<open>persistence/decision_window.py\<close>) and the
  risk session (\<^verbatim>\<open>persistence/risk_session.py\<close>). A table is its rows in the order of the
  \<^verbatim>\<open>sequence\<close> column; a row whose columns do not make a state holds \<open>None\<close>.
\<close>

definition WINDOW_SCHEMA_VERSION :: int where "WINDOW_SCHEMA_VERSION = 1"

record decision_window_state =
  dws_canonical_symbol :: string
  dws_strategy_id :: string
  dws_config_version :: string
  dws_last_decided_open_time :: utc
  dws_seen_decision_hashes :: "string set"
  dws_recorded_at :: utc
  dws_schema_version :: int

record decision_window_record =
  dwr_state :: "decision_window_state option"
  dwr_unreadable :: "string option"

definition window_is_known :: "decision_window_record \<Rightarrow> bool" where
  "window_is_known r \<longleftrightarrow> dwr_unreadable r = None"

abbreviation window_unreadable :: "string \<Rightarrow> decision_window_record" where
  "window_unreadable why \<equiv> \<lparr>dwr_state = None, dwr_unreadable = Some why\<rparr>"

record decision_window_recovery =
  dwy_last_decided_open_time :: "utc option"
  dwy_seen_decision_hashes :: "string set"
  dwy_must_halt :: bool
  dwy_reason_codes :: "reason_code list"
  dwy_detail :: "string option"

definition recover_decision_window :: "decision_window_record \<Rightarrow> decision_window_recovery" where
  "recover_decision_window rec =
     (case dwr_unreadable rec of
        Some why \<Rightarrow>
          \<lparr>dwy_last_decided_open_time = None, dwy_seen_decision_hashes = {}, dwy_must_halt = True,
           dwy_reason_codes = [DECISION_STATE_UNKNOWN],
           dwy_detail = Some (''decision-window state could not be read: '' @ why)\<rparr>
      | None \<Rightarrow>
          (case dwr_state rec of
             None \<Rightarrow>
               \<lparr>dwy_last_decided_open_time = None, dwy_seen_decision_hashes = {}, dwy_must_halt = False,
                dwy_reason_codes = [], dwy_detail = None\<rparr>
           | Some st \<Rightarrow>
               \<lparr>dwy_last_decided_open_time = Some (dws_last_decided_open_time st),
                dwy_seen_decision_hashes = dws_seen_decision_hashes st, dwy_must_halt = False,
                dwy_reason_codes = [], dwy_detail = None\<rparr>))"


subsection \<open>The in-memory store\<close>

record memory_windows =
  mw_state :: "decision_window_state option"
  mw_unreadable :: "string option"
  mw_saves :: nat

definition same_worker :: "string \<Rightarrow> string \<Rightarrow> string \<Rightarrow> decision_window_state \<Rightarrow> bool" where
  "same_worker symbol sid version st \<longleftrightarrow>
     dws_canonical_symbol st = symbol \<and> dws_strategy_id st = sid \<and> dws_config_version st = version"

definition memory_load_window :: "memory_windows \<Rightarrow> string \<Rightarrow> string \<Rightarrow> string \<Rightarrow> decision_window_record" where
  "memory_load_window m symbol sid version =
     (case mw_unreadable m of
        Some why \<Rightarrow> window_unreadable why
      | None \<Rightarrow>
          (case mw_state m of
             Some st \<Rightarrow> if same_worker symbol sid version st
                        then \<lparr>dwr_state = Some st, dwr_unreadable = None\<rparr>
                        else \<lparr>dwr_state = None, dwr_unreadable = None\<rparr>
           | None \<Rightarrow> \<lparr>dwr_state = None, dwr_unreadable = None\<rparr>))"

definition memory_save_window :: "memory_windows \<Rightarrow> decision_window_state \<Rightarrow> memory_windows" where
  "memory_save_window m st = m\<lparr>mw_state := Some st, mw_saves := mw_saves m + 1\<rparr>"


subsection \<open>The tables\<close>

record window_row =
  wr_symbol :: string
  wr_strategy_id :: string
  wr_config_version :: string
  wr_schema_version :: int
  wr_state :: "decision_window_state option"

definition load_window ::
  "bool \<Rightarrow> window_row list \<Rightarrow> string \<Rightarrow> string \<Rightarrow> string \<Rightarrow> decision_window_record" where
  \<comment> \<open>the flag says whether the database could not be reached\<close>
  "load_window unreachable rows symbol sid version =
     (if unreachable then window_unreadable ''decision-window store unreachable''
      else
        case last_opt (filter (\<lambda>r. wr_symbol r = symbol \<and> wr_strategy_id r = sid \<and>
                                   wr_config_version r = version) rows) of
          None \<Rightarrow> \<lparr>dwr_state = None, dwr_unreadable = None\<rparr>
        | Some r \<Rightarrow>
            if wr_schema_version r \<noteq> WINDOW_SCHEMA_VERSION
            then window_unreadable ''decision-window schema is not the expected''
            else case wr_state r of
              None \<Rightarrow> window_unreadable ''decision-window row is malformed''
            | Some st \<Rightarrow> \<lparr>dwr_state = Some st, dwr_unreadable = None\<rparr>)"

definition save_window :: "decision_window_state \<Rightarrow> window_row list \<Rightarrow> window_row list" where
  "save_window st rows =
     rows @ [\<lparr>wr_symbol = dws_canonical_symbol st, wr_strategy_id = dws_strategy_id st,
              wr_config_version = dws_config_version st, wr_schema_version = dws_schema_version st,
              wr_state = Some st\<rparr>]"

record session_row =
  sw_symbol :: string
  sw_schema_version :: int
  sw_state :: "risk_session_state option"

definition load_session :: "bool \<Rightarrow> session_row list \<Rightarrow> string \<Rightarrow> session_record" where
  "load_session unreachable rows symbol =
     (if unreachable then \<lparr>sr_state = None, sr_unreadable = Some ''risk-session journal unreachable''\<rparr>
      else
        case last_opt (filter (\<lambda>r. sw_symbol r = symbol) rows) of
          None \<Rightarrow> \<lparr>sr_state = None, sr_unreadable = None\<rparr>
        | Some r \<Rightarrow>
            if sw_schema_version r \<noteq> SESSION_SCHEMA_VERSION
            then \<lparr>sr_state = None, sr_unreadable = Some ''risk-session schema is not the expected''\<rparr>
            else case sw_state r of
              None \<Rightarrow> \<lparr>sr_state = None, sr_unreadable = Some ''risk-session row is malformed''\<rparr>
            | Some st \<Rightarrow> \<lparr>sr_state = Some (st\<lparr>rss_schema_version := SESSION_SCHEMA_VERSION\<rparr>), sr_unreadable = None\<rparr>)"

definition append_session :: "risk_session_state \<Rightarrow> session_row list \<Rightarrow> session_row list" where
  "append_session st rows =
     rows @ [\<lparr>sw_symbol = rss_canonical_symbol st, sw_schema_version = rss_schema_version st,
              sw_state = Some st\<rparr>]"


subsection \<open>What a checkpoint gives back\<close>

text \<open>
  A saved window is what is read back, for its worker only; a record that cannot be read
  halts and is never taken for an empty one.
\<close>

lemma window_roundtrip:
  assumes "dws_schema_version st = WINDOW_SCHEMA_VERSION"
  shows "load_window False (save_window st rows) symbol sid version =
    (if same_worker symbol sid version st then \<lparr>dwr_state = Some st, dwr_unreadable = None\<rparr>
     else load_window False rows symbol sid version)"
  using assms by (auto simp: load_window_def save_window_def same_worker_def)

lemma window_recovery_iff:
  "dwy_must_halt (recover_decision_window rec) \<longleftrightarrow> \<not> window_is_known rec"
  "dwy_must_halt (recover_decision_window rec) \<Longrightarrow> dwy_reason_codes (recover_decision_window rec) \<noteq> []"
  by (auto simp: recover_decision_window_def window_is_known_def split: option.splits)

lemma session_table_roundtrip:
  assumes "rss_schema_version st = SESSION_SCHEMA_VERSION"
  shows "load_session False (append_session st rows) symbol =
    (if rss_canonical_symbol st = symbol then \<lparr>sr_state = Some st, sr_unreadable = None\<rparr>
     else load_session False rows symbol)"
  using assms by (auto simp: load_session_def append_session_def)

end
