(* ===== verification/Live_Decision.thy ===== *)
theory Live_Decision
  imports Replay Desk_Safety Checkpoints
begin

text \<open>
  The live decision worker (\<^verbatim>\<open>application/live_decision.py\<close>): one window at a time,
  against what other processes have persisted. Those reads, the clock and the reachability of
  the checkpoint tables are functions of the number of interactions made so far. The worker's
  own tables and the ghost list of what it decided are part of its state; a restart keeps them
  and forgets the rest.
\<close>

definition RECENT_BAR_WINDOW :: nat where "RECENT_BAR_WINDOW = 400"

record live_outside =
  lo_now :: "nat \<Rightarrow> utc"
  lo_spec :: "nat \<Rightarrow> py_exn + instrument_spec option"
  lo_bars :: "nat \<Rightarrow> py_exn + market_bar list"
  lo_tick :: "nat \<Rightarrow> py_exn + market_tick option"
  lo_broker :: "nat \<Rightarrow> py_exn + broker_tables"
  lo_windows_unreachable :: "nat \<Rightarrow> bool"
  lo_sessions_unreachable :: "nat \<Rightarrow> bool"
  lo_error_text :: "py_exn \<Rightarrow> string"

record 's live = "'s desk" +
  lv_ledger :: "equity_ledger option"
  lv_trading_day :: "int option"
  lv_seen :: "string set"
  lv_last_open :: "utc option"
  lv_recovered :: bool
  lv_windows :: "window_row list"
  lv_sessions :: "session_row list"
  lv_decided :: "(utc \<times> decision_capsule) list"

record 's live_env =
  le_desk :: "'s desk_env"
  le_zone :: zone_data
  le_config :: platform_config
  le_version :: string
  le_symbol :: string
  le_timeframe :: string
  le_strategy :: strategy_entry
  le_expectation :: expected_state
  le_risk :: risk_config
  le_execution :: execution_config
  le_calendar :: calendar
  le_context :: risk_context
  le_policy :: supervisor_policy
  le_fixed4 :: "decimal \<Rightarrow> string"
  le_int_text :: "int \<Rightarrow> string"

abbreviation le_stdlib :: "'s live_env \<Rightarrow> stdlib" where
  "le_stdlib env \<equiv> de_stdlib (le_desk env)"

datatype live_outcome = Skipped string | Decided decision_capsule

definition new_live_env ::
  "'s desk_env \<Rightarrow> (decimal \<Rightarrow> string) \<Rightarrow> zone_data \<Rightarrow> platform_config \<Rightarrow> string \<Rightarrow> string \<Rightarrow>
     (decimal \<Rightarrow> string) \<Rightarrow> (int \<Rightarrow> string) \<Rightarrow> py_exn + 's live_env" where
  "new_live_env desk dec_str zone config symbol timeframe fixed4 int_text =
     (let cal = calendar_of_market zone config symbol in
      bindE (resolve_strategy (de_stdlib desk) dec_str zone (ta_strategy_id (pc_trading_agent config))) (\<lambda>entry.
      bindE (expect_flat (de_stdlib desk) (pc_account_guard config) symbol
               (case market_for config symbol of None \<Rightarrow> None | Some m \<Rightarrow> mc_expected_spec_version m)) (\<lambda>ex.
      bindE (risk_for config symbol) (\<lambda>risk.
      bindE (execution_for config symbol) (\<lambda>execution.
      bindE (config_version (de_stdlib desk) dec_str config) (\<lambda>version.
      bindE (risk_context_for config version risk execution cal None) (\<lambda>ctx.
      Inr \<lparr>le_desk = desk, le_zone = zone, le_config = config, le_version = version, le_symbol = symbol,
           le_timeframe = timeframe, le_strategy = entry, le_expectation = ex, le_risk = risk,
           le_execution = execution, le_calendar = cal, le_context = ctx,
           le_policy = supervisor_policy_for config, le_fixed4 = fixed4, le_int_text = int_text\<rparr>)))))))"

definition new_live :: "kill_switch \<Rightarrow> 's \<Rightarrow> run_recorder \<Rightarrow> audit_db \<Rightarrow> 's live" where
  "new_live switch store recorder db =
     \<lparr>dk_switch = switch, dk_store = store, dk_recorder = recorder, dk_db = db, dk_calls = 0,
      lv_ledger = None, lv_trading_day = None, lv_seen = {}, lv_last_open = None, lv_recovered = False,
      lv_windows = [], lv_sessions = [], lv_decided = []\<rparr>"


subsection \<open>Reading and checkpointing\<close>

definition consult :: "(nat \<Rightarrow> py_exn + 'a) \<Rightarrow> ('s live, 'a) prog" where
  "consult answer w = (answer (dk_calls w), w\<lparr>dk_calls := dk_calls w + 1\<rparr>)"

definition live_clock :: "live_outside \<Rightarrow> ('s live, utc) prog" where
  "live_clock out = consult (\<lambda>n. Inr (lo_now out n))"

definition save_decision_window :: "'s live_env \<Rightarrow> utc \<Rightarrow> ('s live, unit) prog" where
  "save_decision_window env now =
     bindM (getM (\<lambda>w. w)) (\<lambda>w.
     case lv_last_open w of
       None \<Rightarrow> raiseM AssertionError
     | Some last_open \<Rightarrow>
         begin_transaction (le_desk env) (modifyM (\<lambda>w'. w'\<lparr>lv_windows := save_window
           \<lparr>dws_canonical_symbol = le_symbol env, dws_strategy_id = se_strategy_id (le_strategy env),
            dws_config_version = le_version env, dws_last_decided_open_time = last_open,
            dws_seen_decision_hashes = lv_seen w, dws_recorded_at = now,
            dws_schema_version = WINDOW_SCHEMA_VERSION\<rparr> (lv_windows w')\<rparr>)))"

definition window_halt ::
  "'s live_env \<Rightarrow> live_outside \<Rightarrow> decision_window_recovery \<Rightarrow> ('s live, unit) prog" where
  "window_halt env out recovery =
     whenM (dwy_must_halt recovery)
       (bindM (live_clock out) (\<lambda>now.
        desk_trip (le_desk env) (dwy_reason_codes recovery) ''decision_window_recovery'' now
          (uuid5_url (le_stdlib env) (''crumblr:decision-window-recovery:'' @ le_symbol env @ '':'' @
             se_strategy_id (le_strategy env) @ '':'' @ le_version env @ '':'' @ iso_format (le_stdlib env) now))
          (dwy_detail recovery)))"

definition recover_window :: "'s live_env \<Rightarrow> live_outside \<Rightarrow> ('s live, unit) prog" where
  "recover_window env out =
     bindM (consult (\<lambda>n. Inr (lo_windows_unreachable out n))) (\<lambda>unreachable.
     bindM (getM (\<lambda>w. recover_decision_window (load_window unreachable (lv_windows w) (le_symbol env)
              (se_strategy_id (le_strategy env)) (le_version env)))) (\<lambda>recovery.
     bindM (modifyM (\<lambda>w. w\<lparr>lv_last_open := dwy_last_decided_open_time recovery,
                           lv_seen := dwy_seen_decision_hashes recovery\<rparr>)) (\<lambda>_.
     window_halt env out recovery)))"

definition recover_once :: "'s live_env \<Rightarrow> live_outside \<Rightarrow> ('s live, unit) prog" where
  "recover_once env out =
     bindM (getM lv_recovered) (\<lambda>done.
     if done then returnM ()
     else bindM (recover_window env out) (\<lambda>_. modifyM (\<lambda>w. w\<lparr>lv_recovered := True\<rparr>)))"


subsection \<open>The risk ledger, under its lock\<close>

definition held :: "'s live_env \<Rightarrow> ('s live, 'a) prog \<Rightarrow> ('s live, 'a) prog" where
  \<comment> \<open>the lock's own transaction: a body that raises leaves no session row\<close>
  "held env body w =
     (let n = dk_calls w; w' = w\<lparr>dk_calls := n + 1\<rparr>
      in case de_fault (le_desk env) n of
           Some e \<Rightarrow> (Inl e, w')
         | None \<Rightarrow>
             (case body w' of
                (Inl e, w'') \<Rightarrow> (Inl e, w''\<lparr>lv_sessions := lv_sessions w\<rparr>)
              | (Inr x, w'') \<Rightarrow>
                  (case de_commit_lost (le_desk env) n of Some e \<Rightarrow> (Inl e, w'') | None \<Rightarrow> (Inr x, w''))))"

definition recover_live_session ::
  "'s live_env \<Rightarrow> live_outside \<Rightarrow> broker_account_snapshot \<Rightarrow> int \<Rightarrow> ('s live, unit) prog" where
  "recover_live_session env out snap market_day =
     bindM (consult (\<lambda>n. Inr (lo_sessions_unreachable out n))) (\<lambda>unreachable.
     bindM (getM (\<lambda>w. load_session unreachable (lv_sessions w) (le_symbol env))) (\<lambda>rec.
     bindM (consult (lo_broker out)) (\<lambda>tables.
     bindM (liftM (recover_session rec (bas_equity snap)
                     (int (length (positions_for tables (bas_snapshot_id snap)))) market_day
                     (rc_max_daily_loss (le_risk env)) (rc_max_drawdown (le_risk env)))) (\<lambda>recovery.
     bindM (modifyM (\<lambda>w. w\<lparr>lv_ledger := Some (rec_ledger recovery),
                           lv_trading_day := rec_trading_day recovery\<rparr>)) (\<lambda>_.
     whenM (must_halt recovery)
       (desk_trip (le_desk env) (rec_reason_codes recovery) ''risk_session_recovery'' (bas_observed_at snap)
          (uuid5_url (le_stdlib env) (''crumblr:live-recovery:'' @ bas_snapshot_id snap))
          (rec_detail recovery)))))))"

definition update_live_ledger :: "decimal \<Rightarrow> ('s live, unit) prog" where
  "update_live_ledger equity =
     bindM (getM lv_ledger) (\<lambda>ledger.
     case ledger of
       None \<Rightarrow> raiseM AssertionError
     | Some l \<Rightarrow> modifyM (\<lambda>w. w\<lparr>lv_ledger := Some (ledger_update l equity)\<rparr>))"

definition persist_live_session ::
  "'s live_env \<Rightarrow> position_state list \<Rightarrow> open_risk_assessment \<Rightarrow> utc \<Rightarrow> ('s live, unit) prog" where
  "persist_live_session env positions open_risk now =
     modifyM (\<lambda>w.
       case (lv_ledger w, lv_trading_day w) of
         (Some l, Some day) \<Rightarrow>
           w\<lparr>lv_sessions := append_session
                (session_snapshot l (le_symbol env) day
                   (dsub (el_current_equity l) (el_starting_equity l)) (ora_fraction open_risk)
                   (int (length positions)) now) (lv_sessions w)\<rparr>
       | _ \<Rightarrow> w)"

definition ledger_cycle ::
  "'s live_env \<Rightarrow> live_outside \<Rightarrow> broker_account_snapshot \<Rightarrow> int \<Rightarrow> position_state list \<Rightarrow>
     open_risk_assessment \<Rightarrow> utc \<Rightarrow> ('s live, unit) prog" where
  "ledger_cycle env out snap market_day positions open_risk now =
     held env
       (bindM (recover_live_session env out snap market_day) (\<lambda>_.
        bindM (update_live_ledger (bas_equity snap)) (\<lambda>_.
        persist_live_session env positions open_risk now)))"

definition ledger_failure ::
  "'s live_env \<Rightarrow> live_outside \<Rightarrow> utc \<Rightarrow> py_exn \<Rightarrow> ('s live, string option) prog" where
  "ledger_failure env out now e =
     (let why = ''risk-ledger lock/recover/persist failed: '' @ lo_error_text out e in
      bindM (desk_trip (le_desk env) [RISK_LEDGER_LOCK_UNAVAILABLE] ''risk_ledger_lock'' now
               (uuid5_url (le_stdlib env) (''crumblr:live-lock-failure:'' @ iso_format (le_stdlib env) now))
               (Some why)) (\<lambda>_.
      returnM (Some why)))"

definition guarded_cycle ::
  "'s live_env \<Rightarrow> live_outside \<Rightarrow> broker_account_snapshot \<Rightarrow> int \<Rightarrow> position_state list \<Rightarrow>
     open_risk_assessment \<Rightarrow> utc \<Rightarrow> ('s live, string option) prog" where
  \<comment> \<open>\<^verbatim>\<open>except Exception\<close>: every failure but the death of the process; the reason to skip\<close>
  "guarded_cycle env out snap market_day positions open_risk now =
     catchM (bindM (ledger_cycle env out snap market_day positions open_risk now) (\<lambda>_. returnM None))
       (\<lambda>e. if e = Crashed then None else Some (ledger_failure env out now e))"


subsection \<open>The gates of a cycle\<close>

definition live_loss_gates :: "'s live_env \<Rightarrow> utc \<Rightarrow> ('s live, unit) prog" where
  "live_loss_gates env now =
     bindM (getM (\<lambda>w. w)) (\<lambda>w.
     case lv_ledger w of
       None \<Rightarrow> returnM ()
     | Some l \<Rightarrow>
         if is_halted (dk_switch w) then returnM ()
         else whenM (breached_limits (le_risk env) l \<noteq> [])
           (desk_trip (le_desk env) (breached_limits (le_risk env) l) ''risk_engine'' now
              (uuid5_url (le_stdlib env) (''crumblr:live-loss-gate:'' @ iso_format (le_stdlib env) now))
              (Some (loss_detail (le_fixed4 env) l))))"

definition live_session_boundary :: "'s live_env \<Rightarrow> utc \<Rightarrow> position_state list \<Rightarrow> utc \<Rightarrow> ('s live, unit) prog" where
  "live_session_boundary env moment positions now =
     bindM (getM dk_switch) (\<lambda>switch.
     if is_halted switch then returnM ()
     else whenM (overnight_breach (le_calendar env) positions moment (rx_intraday (le_context env)))
       (desk_trip (le_desk env) [OVERNIGHT_EXPOSURE] ''risk_engine'' now
          (uuid5_url (le_stdlib env) (''crumblr:live-session-boundary:'' @ iso_format (le_stdlib env) moment))
          (Some (le_int_text env (int (length positions)) @ '' position(s) still open at '' @
                 iso_format (le_stdlib env) moment @ '', past the flatten deadline''))))"


subsection \<open>Deciding\<close>

definition account_from_snapshot :: "broker_account_snapshot \<Rightarrow> bool \<Rightarrow> py_exn + account_state" where
  "account_from_snapshot s demo =
     contract account_state_valid
       \<lparr>as_login = 0, as_server = bas_server s, as_currency = bas_currency s, as_is_demo = demo,
        as_trade_allowed = bas_account_trade_allowed s, as_expert_allowed = bas_account_trade_allowed s,
        as_connected = True, as_balance = bas_balance s, as_equity = bas_equity s,
        as_margin = bas_margin s, as_margin_free = bas_margin_free s,
        as_margin_level = bas_margin_level s, as_leverage = bas_leverage s,
        as_observed_at = bas_observed_at s\<rparr>"

definition position_from_snapshot :: "broker_position_snapshot \<Rightarrow> py_exn + position_state" where
  "position_from_snapshot p =
     contract position_state_valid
       \<lparr>ps_ticket = bps_ticket p, ps_broker_symbol = bps_broker_symbol p, ps_side = bps_side p,
        ps_volume = bps_volume p, ps_open_price = bps_open_price p,
        ps_current_price = bps_current_price p, ps_stop_loss_price = bps_stop_loss_price p,
        ps_take_profit_price = bps_take_profit_price p, ps_opened_at = bps_opened_at p,
        ps_profit = bps_profit p, ps_swap = bps_swap p, ps_magic = bps_magic p,
        ps_observed_at = bps_observed_at p\<rparr>"

definition live_snapshot ::
  "stdlib \<Rightarrow> market_tick \<Rightarrow> bar list \<Rightarrow> instrument_spec \<Rightarrow> string \<Rightarrow> py_exn + market_snapshot" where
  "live_snapshot sl t history spec timeframe =
     bindE (price_to_points (dsub (mt_ask t) (mt_bid t)) (point spec)) (\<lambda>spread.
     bindE (spec_version sl spec) (\<lambda>version.
     contract market_snapshot_valid
       \<lparr>ms_snapshot_id = snapshot_id_for sl (spec_canonical_symbol spec) (mt_event_time t),
        ms_symbol = spec_canonical_symbol spec, ms_event_time = mt_event_time t,
        ms_received_time = mt_received_time t, ms_bid = mt_bid t, ms_ask = mt_ask t,
        ms_spread_points = spread, ms_timeframe = timeframe, ms_bars = history,
        ms_session_state = OPEN, ms_symbol_spec_version = version, ms_data_quality = mt_data_quality t\<rparr>))"

record live_window =
  lw_spec :: instrument_spec
  lw_snapshot :: market_snapshot
  lw_evidence :: evidence
  lw_account :: account_state
  lw_positions :: "position_state list"
  lw_open_risk :: open_risk_assessment
  lw_open_time :: utc
  lw_now :: utc

definition live_note ::
  "'s live_env \<Rightarrow> live_window \<Rightarrow> event_payload \<Rightarrow> string \<Rightarrow> ('s live, unit) prog" where
  "live_note env lw payload source =
     record_event (le_desk env) payload (ms_snapshot_id (lw_snapshot lw)) (ms_event_time (lw_snapshot lw)) source"

definition live_seal ::
  "'s live_env \<Rightarrow> live_window \<Rightarrow> trade_intent option \<Rightarrow> risk_decision option \<Rightarrow> supervisor_decision option \<Rightarrow>
     ('s live, live_outcome) prog" where
  "live_seal env lw intent risk supervisor =
     bindM (liftM (capsule_of (le_stdlib env) ''crumblr:live-capsule:'' (spec_broker_symbol (lw_spec lw))
                     (se_version (le_strategy env)) (le_version env) (pc_environment (le_config env))
                     (lw_snapshot lw) (lw_evidence lw) intent risk supervisor None
                     (lw_positions lw) (lw_positions lw))) (\<lambda>capsule.
     bindM (seal (le_desk env) capsule) (\<lambda>_.
     bindM (modifyM (\<lambda>w. w\<lparr>lv_decided := lv_decided w @ [(lw_open_time lw, capsule)]\<rparr>)) (\<lambda>_.
     returnM (Decided capsule))))"

definition live_supervise ::
  "'s live_env \<Rightarrow> live_window \<Rightarrow> trade_intent \<Rightarrow> reconciliation_status \<Rightarrow> risk_decision \<Rightarrow>
     ('s live, live_outcome) prog" where
  "live_supervise env lw intent status risk =
     bindM (liftM (supervise (le_stdlib env) intent (evidence_regime (lw_evidence lw)) (le_policy env)
              \<lparr>sx_intents_in_last_hour = 0, sx_incident_status = CLEAR, sx_reconciliation_status = status\<rparr>
              (lw_now lw))) (\<lambda>sup.
     bindM (live_note env lw (SupervisorDecided sup) ''supervisor'') (\<lambda>_.
     bindM (whenM (sd_verdict sup = SV_HALT)
              (desk_trip (le_desk env) (sd_reason_codes sup) ''supervisor'' (lw_now lw)
                 (ms_snapshot_id (lw_snapshot lw)) None)) (\<lambda>_.
     bindM (modifyM (\<lambda>w. w\<lparr>lv_seen := insert (decision_hash (le_stdlib env) intent) (lv_seen w)\<rparr>)) (\<lambda>_.
     bindM (save_decision_window env (lw_now lw)) (\<lambda>_.
     live_seal env lw (Some intent) (Some risk) (Some sup))))))"

definition live_portfolio :: "live_window \<Rightarrow> ('s live, portfolio_state) prog" where
  "live_portfolio lw =
     bindM (getM (\<lambda>w. w)) (\<lambda>w.
     case lv_ledger w of
       None \<Rightarrow> raiseM TypeError
     | Some l \<Rightarrow>
         returnM \<lparr>pf_account = lw_account lw, pf_open_positions = lw_positions lw, pf_ledger = l,
                  pf_orders_in_last_hour = 0, pf_seen_decision_hashes = lv_seen w,
                  pf_open_risk_fraction = ora_fraction (lw_open_risk lw)\<rparr>)"

definition live_judge ::
  "'s live_env \<Rightarrow> live_window \<Rightarrow> trade_intent \<Rightarrow> reconciliation_status \<Rightarrow> portfolio_state \<Rightarrow> kill_switch \<Rightarrow>
     ('s live, live_outcome) prog" where
  "live_judge env lw intent status pf switch =
     bindM (liftM (evaluate (le_stdlib env) intent (lw_snapshot lw) (lw_spec lw) pf (le_context env) switch
                     (lw_now lw))) (\<lambda>risk.
     bindM (live_note env lw (RiskDecided risk) ''risk_engine'') (\<lambda>_.
     bindM (whenM (rd_verdict risk = RV_HALT)
              (desk_trip (le_desk env) (rd_reason_codes risk) ''risk_engine'' (lw_now lw)
                 (ms_snapshot_id (lw_snapshot lw)) None)) (\<lambda>_.
     if rd_verdict risk \<noteq> PASS then live_seal env lw (Some intent) (Some risk) None
     else live_supervise env lw intent status risk)))"

definition live_intent ::
  "'s live_env \<Rightarrow> live_outside \<Rightarrow> live_window \<Rightarrow> trade_intent \<Rightarrow> ('s live, live_outcome) prog" where
  "live_intent env out lw intent =
     bindM (live_note env lw (IntentCreated intent) ''trading_agent'') (\<lambda>_.
     bindM (consult (lo_broker out)) (\<lambda>tables.
     bindM (consult (lo_spec out)) (\<lambda>latest.
     bindM (liftM (reconcile (le_stdlib env) tables (le_expectation env) latest (lw_now lw)
                     DEFAULT_MAX_SNAPSHOT_AGE)) (\<lambda>reconciliation.
     bindM (live_portfolio lw) (\<lambda>pf.
     bindM (getM dk_switch) (\<lambda>switch.
     live_judge env lw intent (rr_status reconciliation) pf switch))))))"

definition live_decide ::
  "'s live_env \<Rightarrow> live_outside \<Rightarrow> live_window \<Rightarrow> strategy_decision \<Rightarrow> ('s live, live_outcome) prog" where
  "live_decide env out lw d =
     bindM (record_features (le_desk env) (lw_evidence lw)) (\<lambda>_.
     bindM (liftM (signal_of (le_stdlib env) (le_config env) (le_strategy env) (lw_snapshot lw)
                     (lw_evidence lw) d)) (\<lambda>signal.
     bindM (live_note env lw (Signalled signal) ''trading_agent'') (\<lambda>_.
     case sn_intent d of
       None \<Rightarrow> live_seal env lw None None None
     | Some intent \<Rightarrow> live_intent env out lw intent)))"


subsection \<open>One cycle\<close>

record cycle_inputs =
  cy_spec :: instrument_spec
  cy_history :: "bar list"
  cy_open_time :: utc
  cy_tick :: market_tick
  cy_account :: account_state
  cy_positions :: "position_state list"
  cy_open_risk :: open_risk_assessment
  cy_now :: utc

definition live_claim ::
  "'s live_env \<Rightarrow> live_outside \<Rightarrow> cycle_inputs \<Rightarrow> ('s live, live_outcome) prog" where
  \<comment> \<open>the window is claimed, durably, before the strategy sees it\<close>
  "live_claim env out cy =
     bindM (liftM (live_snapshot (le_stdlib env) (cy_tick cy) (cy_history cy) (cy_spec cy) (le_timeframe env))) (\<lambda>snap.
     bindM (modifyM (\<lambda>w. w\<lparr>lv_last_open := Some (cy_open_time cy)\<rparr>)) (\<lambda>_.
     bindM (save_decision_window env (cy_now cy)) (\<lambda>_.
     bindM (liftM (se_evaluate (le_strategy env) snap (cy_history cy) (cy_spec cy)
                     (agent_context_for (le_risk env) (cy_positions cy)))) (\<lambda>result.
     case so_features result of
       None \<Rightarrow> returnM (Skipped ''strategy has too little history to say anything'')
     | Some f \<Rightarrow>
         live_decide env out
           \<lparr>lw_spec = cy_spec cy, lw_snapshot = snap, lw_evidence = f, lw_account = cy_account cy,
            lw_positions = cy_positions cy, lw_open_risk = cy_open_risk cy,
            lw_open_time = cy_open_time cy, lw_now = cy_now cy\<rparr> (so_decision result)))))"

definition live_cycle ::
  "'s live_env \<Rightarrow> live_outside \<Rightarrow> broker_account_snapshot \<Rightarrow> cycle_inputs \<Rightarrow> ('s live, live_outcome) prog" where
  "live_cycle env out snap cy =
     bindM (guarded_cycle env out snap (trading_day (le_zone env) (mt_event_time (cy_tick cy))) (cy_positions cy)
              (cy_open_risk cy) (cy_now cy)) (\<lambda>failed.
     case failed of
       Some why \<Rightarrow> returnM (Skipped why)
     | None \<Rightarrow>
         bindM (live_loss_gates env (cy_now cy)) (\<lambda>_.
         bindM (live_session_boundary env (mt_event_time (cy_tick cy)) (cy_positions cy) (cy_now cy)) (\<lambda>_.
         live_claim env out cy)))"

definition live_account ::
  "'s live_env \<Rightarrow> live_outside \<Rightarrow> instrument_spec \<Rightarrow> market_bar list \<Rightarrow> utc \<Rightarrow> market_tick \<Rightarrow>
     ('s live, live_outcome) prog" where
  "live_account env out spec bars open_at tick =
     bindM (consult (lo_broker out)) (\<lambda>tables.
     case latest_account_snapshot tables of
       None \<Rightarrow> returnM (Skipped ''no broker-state snapshot has ever been captured'')
     | Some snap \<Rightarrow>
         bindM (live_clock out) (\<lambda>now.
         bindM (consult (lo_broker out)) (\<lambda>tables'.
         bindM (liftM (traverseE position_from_snapshot (positions_for tables' (bas_snapshot_id snap)))) (\<lambda>positions.
         bindM (liftM (account_from_snapshot snap
                         (ag_require_demo_account (pc_account_guard (le_config env))))) (\<lambda>account.
         bindM (liftM (assess_open_risk positions [spec_broker_symbol spec \<mapsto> spec] (as_equity account))) (\<lambda>open_risk.
         live_cycle env out snap
           \<lparr>cy_spec = spec, cy_history = map mb_bar bars, cy_open_time = open_at, cy_tick = tick,
            cy_account = account, cy_positions = positions, cy_open_risk = open_risk, cy_now = now\<rparr>))))))"

definition market_pass :: "'s live_env \<Rightarrow> live_outside \<Rightarrow> ('s live, live_outcome) prog" where
  \<comment> \<open>\<^verbatim>\<open>decide_once\<close> after its recovery\<close>
  "market_pass env out =
     bindM (consult (lo_spec out)) (\<lambda>latest.
     case latest of
       None \<Rightarrow> returnM (Skipped ''no instrument spec has been observed yet'')
     | Some spec \<Rightarrow>
         bindM (consult (lo_bars out)) (\<lambda>bars.
         if length bars < se_minimum_bars (le_strategy env)
         then returnM (Skipped (''only '' @ le_int_text env (int (length bars)) @
                '' bars stored, strategy needs '' @
                le_int_text env (int (se_minimum_bars (le_strategy env)))))
         else if bars = [] then raiseM IndexError
         else
           let open_at = open_time (mb_bar (last bars)) in
           bindM (getM lv_last_open) (\<lambda>last_open.
           if (case last_open of None \<Rightarrow> False | Some t \<Rightarrow> open_at \<le> t)
           then returnM (Skipped ''no new closed bar since the last decision'')
           else
             bindM (consult (lo_tick out)) (\<lambda>tick.
             case tick of
               None \<Rightarrow> returnM (Skipped ''no tick has been observed yet'')
             | Some t \<Rightarrow> live_account env out spec bars open_at t))))"

definition decide_once :: "'s live_env \<Rightarrow> live_outside \<Rightarrow> ('s live, live_outcome) prog" where
  "decide_once env out = bindM (recover_once env out) (\<lambda>_. market_pass env out)"

end
