(* ===== verification/Live_Safety.thy ===== *)
theory Live_Safety
  imports Live_Decision
begin

text \<open>
  What the live decision worker guarantees over any history of cycles, failures and restarts:
  a closed bar is decided at most once, and what it approves is backed by the risk engine,
  the reconciliation of that moment and a running kill switch.
\<close>

subsection \<open>From one predicate to another\<close>

definition leads :: "('w \<Rightarrow> bool) \<Rightarrow> ('w \<Rightarrow> bool) \<Rightarrow> ('w, 'a) prog \<Rightarrow> bool" where
  \<comment> \<open>every run from \<open>P\<close>, normal or exceptional, ends in \<open>Q\<close>\<close>
  "leads P Q m \<longleftrightarrow> (\<forall>w. P w \<longrightarrow> Q (snd (m w)))"

lemma leadsD: "leads P Q m \<Longrightarrow> P w \<Longrightarrow> m w = (r, w') \<Longrightarrow> Q w'"
  by (metis leads_def snd_conv)

lemma leads_keeps: "keeps R m \<Longrightarrow> (\<And>w w'. R w w' \<Longrightarrow> P w \<Longrightarrow> Q w') \<Longrightarrow> leads P Q m"
  unfolding leads_def keeps_def by blast

lemma leads_pure [simp, intro]:
  "leads P P (returnM x)" "leads P P (raiseM e)" "leads P P (liftM r)" "leads P P (getM g)"
  by (simp_all add: leads_def)

lemma leads_modify: "(\<And>w. P w \<Longrightarrow> Q (h w)) \<Longrightarrow> leads P Q (modifyM h)"
  by (simp add: leads_def)

lemma leads_bind:
  assumes "leads P P' m" "\<And>x. leads P' Q (f x)" "\<And>w. P' w \<Longrightarrow> Q w"
  shows "leads P Q (bindM m f)"
  using assms unfolding leads_def bindM_def
  by (metis (no_types, lifting) prod.case_eq_if snd_conv sum.case_eq_if)

lemma leads_seq:
  assumes "leads P Q m" "\<And>x w w'. P w \<Longrightarrow> m w = (Inr x, w') \<Longrightarrow> P' x w'" "\<And>x. leads (P' x) Q (f x)"
  shows "leads P Q (bindM m f)"
  unfolding leads_def
proof (intro allI impI)
  fix w assume p: "P w"
  obtain r w' where run: "m w = (r, w')" by fastforce
  with leadsD [OF assms(1) p run] assms(2) [OF p] assms(3) show "Q (snd (bindM m f w))"
    by (auto simp: bindM_def leads_def split: sum.split)
qed

lemma leads_get:
  assumes "\<And>x. leads (\<lambda>w. P w \<and> g w = x) Q (f x)" "\<And>w. P w \<Longrightarrow> Q w"
  shows "leads P Q (bindM (getM g) f)"
  using assms by (auto simp: leads_def)

lemma leads_weaken: "leads P Q m \<Longrightarrow> (\<And>w. P' w \<Longrightarrow> P w) \<Longrightarrow> (\<And>w. Q w \<Longrightarrow> Q' w) \<Longrightarrow> leads P' Q' m"
  by (simp add: leads_def)

lemma leads_returnM: "(\<And>w. P w \<Longrightarrow> Q w) \<Longrightarrow> leads P Q (returnM x)"
  and leads_raiseM: "(\<And>w. P w \<Longrightarrow> Q w) \<Longrightarrow> leads P Q (raiseM e)"
  by (simp_all add: leads_def)


lemma capsule_of_parts:
  assumes "capsule_of sl kind b v version environment snap f i r s execution before after = Inr c"
  shows "dc_trade_intent c = i" "dc_risk_decision c = r" "dc_supervisor_decision c = s"
    "dc_execution_result c = execution"
  using assms by (auto simp: capsule_of_def bindE_eq_Inr contract_def split: if_splits)

lemma live_seal_capsule:
  assumes "live_seal env lw i r s w = (Inr (Decided c), w')"
  shows "dc_trade_intent c = i \<and> dc_risk_decision c = r \<and> dc_supervisor_decision c = s \<and>
    dc_execution_result c = None"
  using assms by (auto simp: live_seal_def bindM_eq_Inr dest: capsule_of_parts)

definition approved :: "decision_capsule \<Rightarrow> bool" where
  "approved c \<longleftrightarrow> (\<exists>s. dc_supervisor_decision c = Some s \<and> sd_verdict s = APPROVE)"


subsection \<open>The windows a worker has claimed\<close>

abbreviation stored :: "'s live_env \<Rightarrow> window_row list \<Rightarrow> decision_window_recovery" where
  "stored env rows \<equiv> recover_decision_window
     (load_window False rows (le_symbol env) (se_strategy_id (le_strategy env)) (le_version env))"

definition stored_mark :: "'s live_env \<Rightarrow> window_row list \<Rightarrow> utc option" where
  "stored_mark env rows = dwy_last_decided_open_time (stored env rows)"

definition stored_seen :: "'s live_env \<Rightarrow> window_row list \<Rightarrow> string set" where
  "stored_seen env rows = dwy_seen_decision_hashes (stored env rows)"

definition intent_hash :: "'s live_env \<Rightarrow> decision_capsule \<Rightarrow> string" where
  "intent_hash env c = (case dc_trade_intent c of None \<Rightarrow> [] | Some i \<Rightarrow> decision_hash (le_stdlib env) i)"

definition approved_hashes :: "'s live_env \<Rightarrow> 's live \<Rightarrow> string list" where
  "approved_hashes env w = map (intent_hash env) (filter approved (map snd (lv_decided w)))"

definition seen_ok :: "'s live_env \<Rightarrow> 's live \<Rightarrow> bool" where
  "seen_ok env w \<longleftrightarrow>
     distinct (approved_hashes env w) \<and> set (approved_hashes env w) \<subseteq> stored_seen env (lv_windows w) \<and>
     (lv_recovered w \<longrightarrow> stored_seen env (lv_windows w) \<subseteq> lv_seen w)"

definition windows_ok :: "'s live_env \<Rightarrow> 's live \<Rightarrow> bool" where
  "windows_ok env w \<longleftrightarrow> seen_ok env w \<and>
     sorted_wrt (<) (map fst (lv_decided w)) \<and>
     (\<forall>d \<in> set (lv_decided w). \<exists>m. stored_mark env (lv_windows w) = Some m \<and> fst d \<le> m) \<and>
     (lv_recovered w \<longrightarrow>
        (\<forall>m. stored_mark env (lv_windows w) = Some m \<longrightarrow> (\<exists>l. lv_last_open w = Some l \<and> m \<le> l)))"

definition past :: "'s live_env \<Rightarrow> utc \<Rightarrow> 's live \<Rightarrow> bool" where
  \<comment> \<open>recovered, and everything decided or stored is before \<open>t\<close>\<close>
  "past env t w \<longleftrightarrow> windows_ok env w \<and> lv_recovered w \<and> (\<forall>l. lv_last_open w = Some l \<longrightarrow> l < t)"

definition taken :: "'s live_env \<Rightarrow> utc \<Rightarrow> 's live \<Rightarrow> bool" where
  \<comment> \<open>\<open>t\<close> is claimed in memory, and not yet decided\<close>
  "taken env t w \<longleftrightarrow> windows_ok env w \<and> lv_recovered w \<and> lv_last_open w = Some t \<and>
     (\<forall>d \<in> set (lv_decided w). fst d < t)"

definition claimed_at :: "'s live_env \<Rightarrow> utc \<Rightarrow> 's live \<Rightarrow> bool" where
  "claimed_at env t w \<longleftrightarrow> taken env t w \<and> stored_mark env (lv_windows w) = Some t"

lemma past_ok: "past env t w \<Longrightarrow> windows_ok env w"
  and taken_ok: "taken env t w \<Longrightarrow> windows_ok env w"
  and claimed_taken: "claimed_at env t w \<Longrightarrow> taken env t w"
  and claimed_ok: "claimed_at env t w \<Longrightarrow> windows_ok env w"
  by (simp_all add: past_def taken_def claimed_at_def)

definition view_kept :: "'s live \<Rightarrow> 's live \<Rightarrow> bool" where
  "view_kept w w' \<longleftrightarrow>
     lv_recovered w' = lv_recovered w \<and> lv_last_open w' = lv_last_open w \<and>
     lv_windows w' = lv_windows w \<and> lv_decided w' = lv_decided w \<and> lv_seen w' = lv_seen w"

interpretation viewed: effect_order "view_kept :: 's live \<Rightarrow> 's live \<Rightarrow> bool"
  by unfold_locales (auto simp: view_kept_def)

lemma view_windows: "view_kept w w' \<Longrightarrow> windows_ok env w' = windows_ok env w"
  by (simp add: view_kept_def windows_ok_def seen_ok_def approved_hashes_def)

lemma view_hashes: "view_kept w w' \<Longrightarrow> approved_hashes env w' = approved_hashes env w"
  by (simp add: view_kept_def approved_hashes_def)

lemma view_past: "view_kept w w' \<Longrightarrow> past env t w' = past env t w"
  and view_taken: "view_kept w w' \<Longrightarrow> taken env t w' = taken env t w"
  and view_claimed: "view_kept w w' \<Longrightarrow> claimed_at env t w' = claimed_at env t w"
  by (simp_all add: past_def taken_def claimed_at_def view_windows) (simp_all add: view_kept_def)

lemma viewed_desk:
  assumes "keeps (desk_kept env) (m :: ('s live, 'a) prog)"
  shows "keeps view_kept m"
  unfolding keeps_def
proof
  fix w
  from assms have "desk.more (snd (m w)) = desk.more w" by (simp add: keeps_def desk_kept_def)
  then show "view_kept w (snd (m w))" by (cases w; cases "snd (m w)"; simp add: view_kept_def)
qed

lemma viewed_modify:
  "(\<And>w. lv_recovered (h w) = lv_recovered w \<and> lv_last_open (h w) = lv_last_open w \<and>
     lv_windows (h w) = lv_windows w \<and> lv_decided (h w) = lv_decided w \<and> lv_seen (h w) = lv_seen w) \<Longrightarrow> keeps view_kept (modifyM h)"
  by (rule viewed.keeps_modify) (simp add: view_kept_def)

lemma viewed_consult: "keeps view_kept (consult answer)"
  by (simp add: keeps_def consult_def view_kept_def)

lemma viewed_clock: "keeps view_kept (live_clock out)"
  unfolding live_clock_def by (rule viewed_consult)

lemma viewed_trip: "keeps view_kept (desk_trip env reasons who occ c detail :: ('s live, unit) prog)"
  by (rule viewed_desk [OF desk_trip_kept])

lemma viewed_note: "keeps view_kept (live_note env lw payload source)"
  unfolding live_note_def by (rule viewed_desk [OF desk_record_event])

lemma viewed_seal: "keeps view_kept (seal env c :: ('s live, unit) prog)"
  by (rule viewed_desk [OF desk_seal])

lemma viewed_held:
  assumes "keeps view_kept body"
  shows "keeps view_kept (held env body)"
  unfolding keeps_def
proof
  fix w
  obtain r w'' where run: "body (w\<lparr>dk_calls := dk_calls w + 1\<rparr>) = (r, w'')" by fastforce
  with keepsD [OF assms run] show "view_kept w (snd (held env body w))"
    by (auto simp: held_def view_kept_def Let_def split: option.split sum.split)
qed

lemma viewed_cycle: "keeps view_kept (guarded_cycle env out snap day positions open_risk now)"
  unfolding guarded_cycle_def ledger_cycle_def recover_live_session_def update_live_ledger_def
    persist_live_session_def ledger_failure_def Let_def
  by (intro viewed.keeps_catch viewed.keeps_bind viewed_held viewed.keeps_pure viewed.keeps_when
      viewed.keeps_option viewed_consult viewed_trip viewed_modify)
     (auto split: if_splits option.split intro!: viewed.keeps_bind viewed_trip)

lemma viewed_gates:
  "keeps view_kept (live_loss_gates env now)" "keeps view_kept (live_session_boundary env t positions now)"
  unfolding live_loss_gates_def live_session_boundary_def
  by (intro viewed.keeps_bind viewed.keeps_pure viewed.keeps_if viewed.keeps_option viewed.keeps_when viewed_trip)+

lemma viewed_portfolio: "keeps view_kept (live_portfolio lw)"
  unfolding live_portfolio_def by (intro viewed.keeps_bind viewed.keeps_pure viewed.keeps_option)

lemmas leads_viewed = leads_keeps [where R = view_kept]

lemma leads_past: "keeps view_kept m \<Longrightarrow> leads (past env t) (past env t) m"
  and leads_taken: "keeps view_kept m \<Longrightarrow> leads (taken env t) (taken env t) m"
  and leads_claimed: "keeps view_kept m \<Longrightarrow> leads (claimed_at env t) (claimed_at env t) m"
  and leads_ok: "keeps view_kept m \<Longrightarrow> leads (windows_ok env) (windows_ok env) m"
  by (auto elim!: leads_viewed simp: view_past view_taken view_claimed view_windows)


subsection \<open>Claiming a window\<close>

definition saved_rows :: "'s live_env \<Rightarrow> utc \<Rightarrow> string set \<Rightarrow> utc \<Rightarrow> window_row list \<Rightarrow> window_row list" where
  "saved_rows env t seen now rows = save_window
     \<lparr>dws_canonical_symbol = le_symbol env, dws_strategy_id = se_strategy_id (le_strategy env),
      dws_config_version = le_version env, dws_last_decided_open_time = t,
      dws_seen_decision_hashes = seen, dws_recorded_at = now,
      dws_schema_version = WINDOW_SCHEMA_VERSION\<rparr> rows"

lemma saved [simp]:
  "stored_mark env (saved_rows env t seen now rows) = Some t"
  "stored_seen env (saved_rows env t seen now rows) = seen"
  by (simp_all add: stored_mark_def stored_seen_def saved_rows_def window_roundtrip same_worker_def
      recover_decision_window_def)

lemma save_cases:
  assumes "lv_last_open w = Some t" "save_decision_window env now w = (r, w')"
  shows "(view_kept w w' \<and> (\<exists>e. r = Inl e)) \<or>
    (lv_windows w' = saved_rows env t (lv_seen w) now (lv_windows w) \<and> lv_recovered w' = lv_recovered w \<and>
     lv_last_open w' = lv_last_open w \<and> lv_decided w' = lv_decided w \<and> lv_seen w' = lv_seen w)"
  using assms
  by (auto simp: save_decision_window_def begin_transaction_def Let_def view_kept_def saved_rows_def
      split: option.splits)

lemma save_taken: "leads (taken env t) (taken env t) (save_decision_window env now)"
  unfolding leads_def
proof (intro allI impI)
  fix w assume t: "taken env t w"
  obtain r w' where run: "save_decision_window env now w = (r, w')" by fastforce
  from t have "lv_last_open w = Some t" by (simp add: taken_def)
  from save_cases [OF this run] show "taken env t (snd (save_decision_window env now w))"
  proof
    assume "view_kept w w' \<and> (\<exists>e. r = Inl e)"
    with t view_taken [of w w' env t] show ?thesis by (simp add: run)
  next
    assume "lv_windows w' = saved_rows env t (lv_seen w) now (lv_windows w) \<and> lv_recovered w' = lv_recovered w \<and>
      lv_last_open w' = lv_last_open w \<and> lv_decided w' = lv_decided w \<and> lv_seen w' = lv_seen w"
    moreover from this have "approved_hashes env w' = approved_hashes env w" by (simp add: approved_hashes_def)
    moreover from t have "\<forall>d \<in> set (lv_decided w). fst d \<le> t" by (auto simp: taken_def dest!: bspec)
    ultimately show ?thesis using t by (auto simp: run taken_def windows_ok_def seen_ok_def)
  qed
qed

lemma save_claims:
  assumes "taken env t w" "save_decision_window env now w = (Inr u, w')"
  shows "claimed_at env t w'"
proof -
  from assms(1) have "lv_last_open w = Some t" by (simp add: taken_def)
  from save_cases [OF this assms(2)] leadsD [OF save_taken assms] show ?thesis
    by (simp add: claimed_at_def)
qed

lemma save_claimed: "leads (claimed_at env t) (claimed_at env t) (save_decision_window env now)"
  unfolding leads_def
proof (intro allI impI)
  fix w assume c: "claimed_at env t w"
  obtain r w' where run: "save_decision_window env now w = (r, w')" by fastforce
  from c have t: "taken env t w" "lv_last_open w = Some t" "stored_mark env (lv_windows w) = Some t"
    by (simp_all add: claimed_at_def taken_def)
  from save_cases [OF t(2) run] leadsD [OF save_taken t(1) run] t(3)
  show "claimed_at env t (snd (save_decision_window env now w))"
    by (auto simp: run claimed_at_def view_kept_def)
qed


subsection \<open>Deciding it\<close>

abbreviation decides :: "'s live_env \<Rightarrow> utc \<Rightarrow> ('s live, 'a) prog \<Rightarrow> bool" where
  "decides env t m \<equiv> leads (claimed_at env t) (windows_ok env) m"

lemma decides_bind:
  "leads (claimed_at env t) (claimed_at env t) m \<Longrightarrow> (\<And>x. decides env t (f x)) \<Longrightarrow> decides env t (bindM m f)"
  by (rule leads_bind [where P' = "claimed_at env t"]) (auto dest: claimed_ok)

lemma decides_pure: "decides env t (returnM x)" "decides env t (raiseM e)"
  by (auto simp: leads_def dest: claimed_ok)

text \<open>What is not an approval adds no hash; an approval's hash must be stored already, and new.\<close>

definition armed :: "'s live_env \<Rightarrow> utc \<Rightarrow> string \<Rightarrow> 's live \<Rightarrow> bool" where
  "armed env t h w \<longleftrightarrow> claimed_at env t w \<and> h \<notin> set (approved_hashes env w) \<and> h \<in> lv_seen w"

lemma seal_ok:
  assumes "lw_open_time lw = t" "claimed_at env t w" "live_seal env lw i r s w = (q, w')"
    and "\<And>d. s = Some d \<Longrightarrow> sd_verdict d = APPROVE \<Longrightarrow>
      (\<exists>x. i = Some x \<and> decision_hash (le_stdlib env) x \<in> stored_seen env (lv_windows w) \<and>
         decision_hash (le_stdlib env) x \<notin> set (approved_hashes env w))"
  shows "windows_ok env w'"
proof (cases "capsule_of (le_stdlib env) ''crumblr:live-capsule:'' (spec_broker_symbol (lw_spec lw))
    (se_version (le_strategy env)) (le_version env) (pc_environment (le_config env))
    (lw_snapshot lw) (lw_evidence lw) i r s None (lw_positions lw) (lw_positions lw)")
  case (Inl e)
  with assms show ?thesis by (auto simp: live_seal_def claimed_ok)
next
  case (Inr c)
  obtain z w1 where run: "seal (le_desk env) c w = (z, w1)" by fastforce
  have v: "view_kept w w1" by (rule keepsD [OF viewed_seal run])
  have w1: "claimed_at env t w1" using assms(2) view_claimed [OF v] by simp
  have fresh: "intent_hash env c \<in> stored_seen env (lv_windows w1) \<and>
      intent_hash env c \<notin> set (approved_hashes env w1)" if a: "approved c"
  proof -
    from a obtain d where "s = Some d" "sd_verdict d = APPROVE"
      using capsule_of_parts(3) [OF Inr] by (auto simp: approved_def)
    from assms(4) [OF this] obtain x where "i = Some x"
      "decision_hash (le_stdlib env) x \<in> stored_seen env (lv_windows w)"
      "decision_hash (le_stdlib env) x \<notin> set (approved_hashes env w)" by blast
    with capsule_of_parts(1) [OF Inr] view_hashes [OF v, of env] v show ?thesis
      by (simp add: intent_hash_def view_kept_def)
  qed
  have "live_seal env lw i r s w = (case z of Inl e \<Rightarrow> (Inl e, w1)
      | Inr u \<Rightarrow> (Inr (Decided c), w1\<lparr>lv_decided := lv_decided w1 @ [(t, c)]\<rparr>))"
    by (simp add: live_seal_def Inr run bindM_def assms(1) split: sum.split)
  moreover have "windows_ok env (w1\<lparr>lv_decided := lv_decided w1 @ [(t, c)]\<rparr>)"
    using w1 fresh
    by (fastforce simp: claimed_at_def taken_def windows_ok_def seen_ok_def approved_hashes_def sorted_wrt_append
        intro: less_imp_le)
  ultimately show ?thesis using assms(3) w1 by (auto simp: claimed_ok split: sum.splits)
qed

lemma decides_seal: "lw_open_time lw = t \<Longrightarrow> decides env t (live_seal env lw i r None)"
  unfolding leads_def
proof (intro allI impI)
  fix w assume "lw_open_time lw = t" "claimed_at env t w"
  moreover obtain q w' where "live_seal env lw i r None w = (q, w')" by fastforce
  ultimately show "windows_ok env (snd (live_seal env lw i r None w))" using seal_ok by fastforce
qed

lemma armed_save:
  assumes "armed env t h w" "save_decision_window env now w = (Inr u, w')"
  shows "armed env t h w' \<and> h \<in> stored_seen env (lv_windows w')"
proof -
  from assms(1) have c: "claimed_at env t w" "lv_last_open w = Some t"
    by (simp_all add: armed_def claimed_at_def taken_def)
  from save_cases [OF c(2) assms(2)] leadsD [OF save_claimed c(1) assms(2)] assms(1) show ?thesis
    by (auto simp: armed_def approved_hashes_def)
qed

lemma supervise_ok:
  assumes "lw_open_time lw = t"
  shows "leads (\<lambda>w. claimed_at env t w \<and> decision_hash (le_stdlib env) i \<notin> set (approved_hashes env w))
    (windows_ok env) (live_supervise env lw i st r)"
proof -
  let ?h = "decision_hash (le_stdlib env) i"
  let ?P = "\<lambda>w. claimed_at env t w \<and> ?h \<notin> set (approved_hashes env w)"
  have keep: "leads ?P ?P (m :: ('a live, 'b) prog)" if "keeps view_kept m" for m :: "('a live, 'b) prog"
    using that by (rule leads_viewed) (metis view_claimed view_hashes)
  have arm: "leads ?P (armed env t ?h) (modifyM (\<lambda>w. w\<lparr>lv_seen := insert ?h (lv_seen w)\<rparr>))"
    by (rule leads_modify)
       (auto simp: armed_def claimed_at_def taken_def windows_ok_def seen_ok_def approved_hashes_def)
  have seal: "leads (\<lambda>w. armed env t ?h w \<and> ?h \<in> stored_seen env (lv_windows w)) (windows_ok env)
      (live_seal env lw (Some i) (Some r) (Some d))" for d
    unfolding leads_def
  proof (intro allI impI)
    fix w assume "armed env t ?h w \<and> ?h \<in> stored_seen env (lv_windows w)"
    moreover obtain q w' where "live_seal env lw (Some i) (Some r) (Some d) w = (q, w')" by fastforce
    ultimately show "windows_ok env (snd (live_seal env lw (Some i) (Some r) (Some d) w))"
      using seal_ok [OF assms, of env w "Some i" "Some r" "Some d" q w'] by (simp add: armed_def)
  qed
  have save: "leads (armed env t ?h) (windows_ok env) (save_decision_window env now)" for now
    by (rule leads_weaken [where Q = "claimed_at env t", OF save_claimed]) (auto simp: armed_def dest: claimed_ok)
  have ends: "leads ?P (windows_ok env) (bindM (modifyM (\<lambda>w. w\<lparr>lv_seen := insert ?h (lv_seen w)\<rparr>)) (\<lambda>_.
      bindM (save_decision_window env (lw_now lw)) (\<lambda>_. live_seal env lw (Some i) (Some r) (Some d))))" for d
    by (rule leads_bind [OF arm leads_seq [OF save armed_save seal]]) (auto simp: armed_def dest: claimed_ok)
  show ?thesis
    unfolding live_supervise_def
    by (intro leads_bind [where P = ?P and P' = ?P] keep viewed.keeps_pure viewed_note viewed.keeps_when
        viewed_trip ends) (auto simp: claimed_ok)
qed

lemma decides_judge:
  assumes "lw_open_time lw = t"
  shows "leads (\<lambda>w. claimed_at env t w \<and> lv_seen w = pf_seen_decision_hashes pf) (windows_ok env)
    (live_judge env lw i st pf sw)"
proof -
  let ?P = "\<lambda>w. claimed_at env t w \<and> lv_seen w = pf_seen_decision_hashes pf"
  have keep: "leads ?P ?P (m :: ('a live, 'b) prog)" if "keeps view_kept m" for m :: "('a live, 'b) prog"
    using that by (rule leads_viewed) (metis view_claimed view_kept_def)
  have seal: "leads ?P (windows_ok env) (live_seal env lw (Some i) r None)" for r
    by (rule leads_weaken [OF decides_seal [OF assms]]) simp_all
  have pass: "leads ?P (windows_ok env) (live_supervise env lw i st r)"
    if "evaluate (le_stdlib env) i (lw_snapshot lw) (lw_spec lw) pf (le_context env) sw (lw_now lw) = Inr r"
      "rd_verdict r = PASS" for r
  proof (rule leads_weaken [OF supervise_ok [OF assms]])
    have new: "decision_hash (le_stdlib env) i \<notin> pf_seen_decision_hashes pf"
      by (rule evaluate_pass [OF that]) (auto simp: checklist_def intent_reasons_def)
    show "claimed_at env t w \<and> decision_hash (le_stdlib env) i \<notin> set (approved_hashes env w)" if "?P w" for w
      using that new by (auto simp: claimed_at_def taken_def windows_ok_def seen_ok_def)
  qed simp
  show ?thesis
  proof (cases "evaluate (le_stdlib env) i (lw_snapshot lw) (lw_spec lw) pf (le_context env) sw (lw_now lw)")
    case (Inl e)
    then show ?thesis by (auto simp: live_judge_def leads_def claimed_ok)
  next
    case (Inr r)
    have "leads ?P (windows_ok env) (if rd_verdict r \<noteq> PASS then live_seal env lw (Some i) (Some r) None
        else live_supervise env lw i st r)"
      using pass [OF Inr] seal by simp
    then have "leads ?P (windows_ok env) (bindM (live_note env lw (RiskDecided r) ''risk_engine'') (\<lambda>_.
        bindM (whenM (rd_verdict r = RV_HALT)
              (desk_trip (le_desk env) (rd_reason_codes r) ''risk_engine'' (lw_now lw)
                 (ms_snapshot_id (lw_snapshot lw)) None)) (\<lambda>_.
        if rd_verdict r \<noteq> PASS then live_seal env lw (Some i) (Some r) None
        else live_supervise env lw i st r)))"
      by (intro leads_bind [where P = ?P and P' = ?P] keep viewed_note viewed.keeps_when viewed_trip)
         (auto simp: claimed_ok)
    with Inr show ?thesis by (simp add: live_judge_def leads_def)
  qed
qed

lemma portfolio_seen:
  "live_portfolio lw w = (Inr pf, w') \<Longrightarrow> w' = w \<and> pf_seen_decision_hashes pf = lv_seen w"
  by (auto simp: live_portfolio_def split: option.splits)

lemma decides_intent:
  assumes "lw_open_time lw = t"
  shows "decides env t (live_intent env out lw i)"
proof -
  let ?P = "\<lambda>pf w. claimed_at env t w \<and> lv_seen w = pf_seen_decision_hashes pf"
  have judge: "leads (?P pf) (windows_ok env) (bindM (getM dk_switch) (\<lambda>sw. live_judge env lw i st pf sw))" for pf st
    by (rule leads_bind [where P' = "?P pf"]) (auto simp: claimed_ok decides_judge assms)
  have read: "decides env t (live_portfolio lw)"
    by (rule leads_weaken [where Q = "claimed_at env t", OF leads_claimed [OF viewed_portfolio]]) (auto dest: claimed_ok)
  have seen: "?P pf w'" if "claimed_at env t w" "live_portfolio lw w = (Inr pf, w')" for pf w w'
    using portfolio_seen [OF that(2)] that(1) by simp
  show ?thesis
    unfolding live_intent_def
    by (intro decides_bind leads_claimed viewed.keeps_pure viewed_note viewed_consult
        leads_seq [OF read seen judge])
qed

lemma decides_live: "lw_open_time lw = t \<Longrightarrow> decides env t (live_decide env out lw d)"
  unfolding live_decide_def
  by (intro decides_bind leads_claimed viewed.keeps_pure viewed_note viewed_desk [OF desk_features])
     (simp add: decides_seal decides_intent split: option.split)

lemma claim_ok: "cy_open_time cy = t \<Longrightarrow> leads (past env t) (windows_ok env) (live_claim env out cy)"
  unfolding leads_def
proof (intro allI impI)
  fix w assume t: "cy_open_time cy = t" and p: "past env t w"
  let ?k = "\<lambda>snap. bindM (liftM (se_evaluate (le_strategy env) snap (cy_history cy) (cy_spec cy)
      (agent_context_for (le_risk env) (cy_positions cy)))) (\<lambda>result.
     case so_features result of
       None \<Rightarrow> returnM (Skipped ''strategy has too little history to say anything'')
     | Some f \<Rightarrow>
         live_decide env out
           \<lparr>lw_spec = cy_spec cy, lw_snapshot = snap, lw_evidence = f, lw_account = cy_account cy,
            lw_positions = cy_positions cy, lw_open_risk = cy_open_risk cy,
            lw_open_time = cy_open_time cy, lw_now = cy_now cy\<rparr> (so_decision result))"
  have k: "decides env t (?k snap)" for snap
    by (intro decides_bind leads_claimed viewed.keeps_pure)
       (auto simp: t intro: decides_pure decides_live split: option.split)
  let ?w = "w\<lparr>lv_last_open := Some t\<rparr>"
  have taken: "taken env t ?w"
    using p by (fastforce simp: past_def taken_def windows_ok_def seen_ok_def approved_hashes_def)
  show "windows_ok env (snd (live_claim env out cy w))"
  proof (cases "live_snapshot (le_stdlib env) (cy_tick cy) (cy_history cy) (cy_spec cy) (le_timeframe env)")
    case (Inl e)
    with p show ?thesis by (simp add: live_claim_def past_ok)
  next
    case (Inr snap)
    obtain r w' where run: "save_decision_window env (cy_now cy) ?w = (r, w')" by fastforce
    then have claim: "live_claim env out cy w = (case r of Inl e \<Rightarrow> (Inl e, w') | Inr u \<Rightarrow> ?k snap w')"
      by (simp add: live_claim_def Inr t bindM_def)
    show ?thesis
    proof (cases r)
      case (Inl e)
      with claim leadsD [OF save_taken taken run] show ?thesis by (simp add: taken_ok)
    next
      case (Inr u)
      from save_claims [OF taken run [unfolded Inr]] k [of snap] show ?thesis
        by (simp add: claim Inr leads_def)
    qed
  qed
qed

lemma cycle_ok: "cy_open_time cy = t \<Longrightarrow> leads (past env t) (windows_ok env) (live_cycle env out snap cy)"
  unfolding live_cycle_def
  by (intro leads_bind [where P' = "past env t"] leads_past viewed_cycle viewed_gates)
     (auto simp: past_ok split: option.split
        intro!: leads_returnM leads_bind [where P' = "past env t"] leads_past viewed_gates claim_ok)

lemma account_ok: "leads (past env t) (windows_ok env) (live_account env out spec bars t tick)"
  unfolding live_account_def
  by (intro leads_bind [where P' = "past env t"] leads_past viewed_consult past_ok)
     (auto simp: past_ok split: option.split
        intro!: leads_returnM leads_bind [where P' = "past env t"] leads_past viewed_consult viewed_clock
          viewed.keeps_pure cycle_ok)

text \<open>The cycle as it starts: recovered, and past whatever was stored.\<close>

lemma recover_once_ok:
  assumes "windows_ok env w" "\<And>n. \<not> lo_windows_unreachable out n" "recover_once env out w = (r, w')"
  shows "windows_ok env w'" "r = Inr u \<Longrightarrow> lv_recovered w'"
proof -
  let ?rec = "recover_decision_window (load_window False (lv_windows w) (le_symbol env)
      (se_strategy_id (le_strategy env)) (le_version env))"
  let ?w = "w\<lparr>dk_calls := dk_calls w + 1, lv_last_open := dwy_last_decided_open_time ?rec,
      lv_seen := dwy_seen_decision_hashes ?rec\<rparr>"
  have "windows_ok env w' \<and> (r = Inr u \<longrightarrow> lv_recovered w')"
  proof (cases "lv_recovered w")
    case True
    with assms(1,3) show ?thesis by (auto simp: recover_once_def)
  next
    case False
    obtain q w1 where t: "window_halt env out ?rec ?w = (q, w1)" by fastforce
    have "keeps view_kept (window_halt env out ?rec :: ('a live, unit) prog)"
      unfolding window_halt_def by (intro viewed.keeps_when viewed.keeps_bind viewed_clock viewed_trip)
    from keepsD [OF this t] have v: "view_kept ?w w1" .
    have "recover_once env out w = (case q of Inl e \<Rightarrow> (Inl e, w1) | Inr x \<Rightarrow> (Inr (), w1\<lparr>lv_recovered := True\<rparr>))"
      using False t assms(2) by (simp add: recover_once_def recover_window_def consult_def bindM_def split: sum.split)
    moreover have "windows_ok env ?w" using assms(1) False by (simp add: windows_ok_def seen_ok_def approved_hashes_def)
    with view_windows [OF v] have ok: "windows_ok env w1" by simp
    moreover have "windows_ok env (w1\<lparr>lv_recovered := True\<rparr>)"
      using ok v by (simp add: windows_ok_def seen_ok_def approved_hashes_def view_kept_def stored_mark_def stored_seen_def)
    ultimately show ?thesis using assms(3) by (auto split: sum.splits)
  qed
  then show "windows_ok env w'" "r = Inr u \<Longrightarrow> lv_recovered w'" by auto
qed

lemma tick_pass_ok:
  assumes "\<And>t. l = Some t \<Longrightarrow> t < open_at"
  shows "leads (\<lambda>w. windows_ok env w \<and> lv_recovered w \<and> lv_last_open w = l) (windows_ok env)
    (bindM (consult (lo_tick out)) (\<lambda>tick. case tick of
       None \<Rightarrow> returnM (Skipped ''no tick has been observed yet'')
     | Some t \<Rightarrow> live_account env out spec bars open_at t))"
proof (rule leads_weaken [where P = "past env open_at" and Q = "windows_ok env"])
  show "leads (past env open_at) (windows_ok env) (bindM (consult (lo_tick out)) (\<lambda>tick. case tick of
       None \<Rightarrow> returnM (Skipped ''no tick has been observed yet'')
     | Some t \<Rightarrow> live_account env out spec bars open_at t))"
    by (rule leads_bind [where P' = "past env open_at", OF leads_past [OF viewed_consult]])
       (auto simp: past_ok account_ok intro!: leads_returnM split: option.split)
qed (use assms in \<open>auto simp: past_def\<close>)

lemma market_pass_ok: "leads (\<lambda>w. windows_ok env w \<and> lv_recovered w) (windows_ok env) (market_pass env out)"
proof -
  let ?P = "\<lambda>w. windows_ok env w \<and> lv_recovered w"
  have keep: "leads ?P ?P (m :: ('a live, 'b) prog)" if "keeps view_kept m" for m :: "('a live, 'b) prog"
    using that by (rule leads_viewed) (metis view_windows view_kept_def)
  note step = leads_bind [where P = ?P and P' = ?P, OF keep [OF viewed_consult]]
  show ?thesis
    unfolding market_pass_def Let_def
    by (rule step)
       (auto split: option.split if_split intro!: step leads_returnM leads_raiseM leads_get tick_pass_ok)
qed

lemma decide_once_ok:
  assumes "windows_ok env w" "\<And>n. \<not> lo_windows_unreachable out n" "decide_once env out w = (r, w')"
  shows "windows_ok env w'"
proof -
  obtain q w1 where rec: "recover_once env out w = (q, w1)" by fastforce
  show ?thesis
  proof (cases q)
    case (Inl e)
    with recover_once_ok(1) [OF assms(1,2) rec] assms(3) rec show ?thesis
      by (simp add: decide_once_def bindM_def)
  next
    case (Inr u)
    with assms(3) rec have run: "market_pass env out w1 = (r, w')"
      by (simp add: decide_once_def bindM_def)
    from leadsD [OF market_pass_ok _ run] recover_once_ok [OF assms(1,2) rec] Inr show ?thesis by simp
  qed
qed


subsection \<open>The life of a worker\<close>

definition restarted :: "kill_switch \<Rightarrow> run_recorder \<Rightarrow> 's live \<Rightarrow> 's live" where
  \<comment> \<open>a new process on the same database: the tables stay, the memory does not\<close>
  "restarted switch recorder w =
     (new_live switch (dk_store w) recorder (dk_db w))
       \<lparr>lv_windows := lv_windows w, lv_sessions := lv_sessions w, lv_decided := lv_decided w\<rparr>"

inductive worker_life :: "'s live_env \<Rightarrow> 's live \<Rightarrow> 's live \<Rightarrow> bool" for env where
  cycle: "(\<And>n. \<not> lo_windows_unreachable out n) \<Longrightarrow> decide_once env out w = (r, w') \<Longrightarrow> worker_life env w w'"
| restart: "worker_life env w (restarted switch recorder w)"
| operator: "worker_life env w (w\<lparr>dk_switch := switch, dk_store := store\<rparr>)"

lemma worker_life_ok: "worker_life env w w' \<Longrightarrow> windows_ok env w \<Longrightarrow> windows_ok env w'"
proof (induction rule: worker_life.induct)
  case (cycle out w r w')
  then show ?case using decide_once_ok by blast
qed (simp_all add: restarted_def new_live_def windows_ok_def seen_ok_def approved_hashes_def)


subsection \<open>What an approval rests on\<close>

lemma judge_approved:
  assumes "live_judge env lw i st pf sw w = (Inr (Decided c), w')" "approved c"
  obtains risk s where "evaluate (le_stdlib env) i (lw_snapshot lw) (lw_spec lw) pf (le_context env) sw (lw_now lw) = Inr risk"
    "rd_verdict risk = PASS"
    "supervise (le_stdlib env) i (evidence_regime (lw_evidence lw)) (le_policy env)
       \<lparr>sx_intents_in_last_hour = 0, sx_incident_status = CLEAR, sx_reconciliation_status = st\<rparr> (lw_now lw) = Inr s"
    "sd_verdict s = APPROVE" "dc_trade_intent c = Some i" "dc_risk_decision c = Some risk"
    "dc_execution_result c = None"
proof -
  from assms(1) obtain risk w1 where
    e: "evaluate (le_stdlib env) i (lw_snapshot lw) (lw_spec lw) pf (le_context env) sw (lw_now lw) = Inr risk" and
    rest: "(if rd_verdict risk \<noteq> PASS then live_seal env lw (Some i) (Some risk) None
            else live_supervise env lw i st risk) w1 = (Inr (Decided c), w')"
    by (auto simp: live_judge_def bindM_eq_Inr)
  have pass: "rd_verdict risk = PASS"
    using rest assms(2) by (auto simp: approved_def dest: live_seal_capsule split: if_splits)
  with rest obtain s w2 where
    s: "supervise (le_stdlib env) i (evidence_regime (lw_evidence lw)) (le_policy env)
       \<lparr>sx_intents_in_last_hour = 0, sx_incident_status = CLEAR, sx_reconciliation_status = st\<rparr> (lw_now lw) = Inr s" and
    seal: "live_seal env lw (Some i) (Some risk) (Some s) w2 = (Inr (Decided c), w')"
    by (auto simp: live_supervise_def bindM_eq_Inr)
  from live_seal_capsule [OF seal] assms(2) that [OF e pass s] show thesis by (simp add: approved_def)
qed


text \<open>A halt is never lifted on the way to the risk engine, which passes nothing under it.\<close>

definition halt_kept :: "'s live \<Rightarrow> 's live \<Rightarrow> bool" where
  "halt_kept w w' \<longleftrightarrow> (is_halted (dk_switch w) \<longrightarrow> is_halted (dk_switch w'))"

interpretation halting: effect_order "halt_kept :: 's live \<Rightarrow> 's live \<Rightarrow> bool"
  by unfold_locales (auto simp: halt_kept_def)

lemma halting_desk: "keeps (desk_kept env) (m :: ('s live, 'a) prog) \<Longrightarrow> keeps halt_kept m"
  by (simp add: keeps_def desk_kept_def halt_kept_def)

lemma halting_modify: "(\<And>w. dk_switch (h w) = dk_switch w) \<Longrightarrow> keeps halt_kept (modifyM h)"
  by (rule halting.keeps_modify) (simp add: halt_kept_def)

lemma halting_consult: "keeps halt_kept (consult answer)"
  by (simp add: keeps_def consult_def halt_kept_def)

lemma halting_trip: "keeps halt_kept (desk_trip env reasons who occ c detail :: ('s live, unit) prog)"
  by (rule halting_desk [OF desk_trip_kept])

lemma halting_save: "keeps halt_kept (save_decision_window env now)"
  by (auto simp: keeps_def save_decision_window_def begin_transaction_def halt_kept_def Let_def split: option.split)

lemma halting_held:
  assumes "keeps halt_kept body"
  shows "keeps halt_kept (held env body)"
  unfolding keeps_def
proof
  fix w
  obtain r w'' where run: "body (w\<lparr>dk_calls := dk_calls w + 1\<rparr>) = (r, w'')" by fastforce
  with keepsD [OF assms run] show "halt_kept w (snd (held env body w))"
    by (auto simp: held_def halt_kept_def Let_def split: option.split sum.split)
qed

lemma halting_cycle: "keeps halt_kept (guarded_cycle env out snap day positions open_risk now)"
  unfolding guarded_cycle_def ledger_cycle_def recover_live_session_def update_live_ledger_def
    persist_live_session_def ledger_failure_def Let_def
  by (intro halting.keeps_catch halting.keeps_bind halting_held halting.keeps_pure halting.keeps_when
      halting.keeps_option halting_consult halting_trip halting_modify)
     (auto split: if_splits option.split intro!: halting.keeps_bind halting_trip)

lemma halting_gates:
  "keeps halt_kept (live_loss_gates env now)" "keeps halt_kept (live_session_boundary env t positions now)"
  unfolding live_loss_gates_def live_session_boundary_def
  by (intro halting.keeps_bind halting.keeps_pure halting.keeps_if halting.keeps_option halting.keeps_when halting_trip)+

lemma halting_recover: "keeps halt_kept (recover_once env out)"
  unfolding recover_once_def recover_window_def window_halt_def live_clock_def
  by (intro halting.keeps_bind halting.keeps_if halting.keeps_pure halting_consult halting_modify
      halting.keeps_when halting_trip) simp_all


text \<open>What the record of an approval must be backed by.\<close>

definition backed :: "'s live_env \<Rightarrow> live_outside \<Rightarrow> bool \<Rightarrow> decision_capsule \<Rightarrow> bool" where
  "backed env out halted c \<longleftrightarrow> \<not> halted \<and> dc_execution_result c = None \<and>
     (\<exists>intent risk. dc_trade_intent c = Some intent \<and> dc_risk_decision c = Some risk \<and> rd_verdict risk = PASS) \<and>
     (\<exists>n m now tables latest result. lo_broker out n = Inr tables \<and> lo_spec out m = Inr latest \<and>
        reconcile (le_stdlib env) tables (le_expectation env) latest now DEFAULT_MAX_SNAPSHOT_AGE = Inr result \<and>
        rr_status result = MATCHED)"

definition backs :: "'s live_env \<Rightarrow> live_outside \<Rightarrow> ('s live, live_outcome) prog \<Rightarrow> bool" where
  "backs env out m \<longleftrightarrow> (\<forall>w c w'. m w = (Inr (Decided c), w') \<longrightarrow> approved c \<longrightarrow>
     backed env out (is_halted (dk_switch w)) c)"

lemma backs_bind:
  assumes "keeps halt_kept m" "\<And>x. backs env out (f x)"
  shows "backs env out (bindM m f)"
  unfolding backs_def
proof (intro allI impI)
  fix w c w'
  assume "bindM m f w = (Inr (Decided c), w')" and a: "approved c"
  then obtain x w1 where m: "m w = (Inr x, w1)" and f: "f x w1 = (Inr (Decided c), w')"
    by (auto simp: bindM_eq_Inr)
  from assms(2) [of x] f a have "backed env out (is_halted (dk_switch w1)) c" unfolding backs_def by blast
  with keepsD [OF assms(1) m] show "backed env out (is_halted (dk_switch w)) c"
    unfolding backed_def halt_kept_def by blast
qed

lemma backs_skip: "backs env out (returnM (Skipped why))" "backs env out (raiseM e)"
  by (simp_all add: backs_def)

lemma backs_seal: "backs env out (live_seal env lw i r None)"
  by (auto simp: backs_def approved_def dest: live_seal_capsule)

lemma backs_intent: "backs env out (live_intent env out lw i)"
  unfolding backs_def
proof (intro allI impI)
  fix w c w'
  assume run: "live_intent env out lw i w = (Inr (Decided c), w')" and a: "approved c"
  then obtain w1 tables w2 latest w3 rec pf w4 where
    note1: "live_note env lw (IntentCreated i) ''trading_agent'' w = (Inr (), w1)" and
    b: "consult (lo_broker out) w1 = (Inr tables, w2)" and sp: "consult (lo_spec out) w2 = (Inr latest, w3)" and
    rec: "reconcile (le_stdlib env) tables (le_expectation env) latest (lw_now lw) DEFAULT_MAX_SNAPSHOT_AGE = Inr rec" and
    pf: "live_portfolio lw w3 = (Inr pf, w4)" and
    judge: "live_judge env lw i (rr_status rec) pf (dk_switch w4) w4 = (Inr (Decided c), w')"
    unfolding live_intent_def bindM_eq_Inr by auto
  from keepsD [OF halting_desk [OF desk_record_event] note1 [unfolded live_note_def]]
    keepsD [OF halting_consult b] keepsD [OF halting_consult sp] portfolio_seen [OF pf]
  have halted: "is_halted (dk_switch w) \<longrightarrow> is_halted (dk_switch w4)" by (simp add: halt_kept_def)
  from b sp have out: "lo_broker out (dk_calls w1) = Inr tables" "lo_spec out (dk_calls w2) = Inr latest"
    by (simp_all add: consult_def)
  show "backed env out (is_halted (dk_switch w)) c"
  proof (rule judge_approved [OF judge a])
    fix risk s
    assume e: "evaluate (le_stdlib env) i (lw_snapshot lw) (lw_spec lw) pf (le_context env) (dk_switch w4) (lw_now lw) = Inr risk"
      and p: "rd_verdict risk = PASS"
      and s: "supervise (le_stdlib env) i (evidence_regime (lw_evidence lw)) (le_policy env)
         \<lparr>sx_intents_in_last_hour = 0, sx_incident_status = CLEAR, sx_reconciliation_status = rr_status rec\<rparr> (lw_now lw) = Inr s"
        "sd_verdict s = APPROVE"
      and c: "dc_trade_intent c = Some i" "dc_risk_decision c = Some risk" "dc_execution_result c = None"
    have "\<not> is_halted (dk_switch w4)" using halted_never_passes [OF e] p by blast
    moreover have "rr_status rec = MATCHED"
    proof (cases "rr_status rec")
      case MISMATCHED
      with s supervisor_decide_Inr [of SV_HALT "[RECONCILIATION_MISMATCH]" "[]" "le_stdlib env" i
          "lw_now lw" "evidence_regime (lw_evidence lw)"] show ?thesis
        by (auto simp: supervise_def)
    next
      case RS_UNKNOWN
      with s supervisor_decide_Inr [of SV_HALT "[RECONCILIATION_UNKNOWN]" "[]" "le_stdlib env" i
          "lw_now lw" "evidence_regime (lw_evidence lw)"] show ?thesis
        by (auto simp: supervise_def)
    qed simp
    ultimately show ?thesis unfolding backed_def using c p halted out rec by blast
  qed
qed

lemma backs_claim: "backs env out (live_claim env out cy)"
  unfolding live_claim_def live_decide_def
  by (intro backs_bind halting.keeps_pure halting_modify halting_save)
     (auto split: option.split intro!: backs_skip backs_bind backs_seal backs_intent halting.keeps_pure
        halting_desk [OF desk_features] halting_desk [OF desk_record_event] simp: live_note_def)

lemma backs_cycle: "backs env out (live_cycle env out snap cy)"
  unfolding live_cycle_def
  by (intro backs_bind halting_cycle)
     (auto split: option.split intro!: backs_skip backs_bind backs_claim halting_gates)

lemma backs_market: "backs env out (market_pass env out)"
  unfolding market_pass_def live_account_def live_clock_def Let_def
  by (intro backs_bind halting_consult)
     (auto split: option.split if_split intro!: backs_skip backs_bind backs_cycle halting_consult halting.keeps_pure)


end
