(* ===== verification/Reconstruction.thy ===== *)
theory Reconstruction
  imports Replay Desk_Safety
begin

text \<open>
  Rebuilding a run from what it recorded (\<^verbatim>\<open>application/reconstruction.py\<close>), and the
  equivalence it exists for: the counters a replay kept while it ran are those recounted from
  the capsules it sealed. 
\<close>

subsection \<open>Reconstruction\<close>

definition decision_fingerprint :: "stdlib \<Rightarrow> decision_capsule list \<Rightarrow> py_exn + string" where
  "decision_fingerprint sl capsules =
     bindE (traverseE (provenance_fingerprint sl) capsules) (\<lambda>prints.
     fingerprint sl [(''decisions'', PList (map PStr prints))])"

definition count_execution :: "execution_result option \<Rightarrow> run_tally \<Rightarrow> run_tally" where
  "count_execution e t =
     (case e of
        None \<Rightarrow> t\<lparr>tl_order_check_rejected := tl_order_check_rejected t + 1\<rparr>
      | Some _ \<Rightarrow> t\<lparr>tl_orders_filled := tl_orders_filled t + 1\<rparr>)"

definition count_capsule :: "decision_capsule \<Rightarrow> run_tally \<Rightarrow> run_tally" where
  "count_capsule c t =
     (if dc_trade_intent c = None then t\<lparr>tl_no_trade := tl_no_trade t + 1\<rparr>
      else
        let t1 = t\<lparr>tl_intents := tl_intents t + 1\<rparr>;
            t2 = (case dc_risk_decision c of None \<Rightarrow> t1 | Some d \<Rightarrow> count_risk d t1)
        in case dc_supervisor_decision c of
             None \<Rightarrow> t2
           | Some d \<Rightarrow>
               if sd_verdict d = APPROVE then count_execution (dc_execution_result c) (count_supervisor d t2)
               else count_supervisor d t2)"

definition tally_from_capsules :: "decision_capsule list \<Rightarrow> signal_generated list \<Rightarrow> run_tally" where
  "tally_from_capsules capsules signals =
     (let t = fold count_capsule capsules RunTally;
          intent_free = dc_correlation_id ` {c \<in> set capsules. dc_trade_intent c = None}
      in t\<lparr>tl_no_trade_reasons :=
             fold (\<lambda>s b. if sg_snapshot_id s \<in> intent_free then bump_all (sg_reason_codes s) b else b)
               signals (tl_no_trade_reasons t)\<rparr>)"

record reconstructed_run =
  rcr_capsules :: "decision_capsule list"
  rcr_signals :: "signal_generated list"
  rcr_halts :: "system_halted list"

definition reconstruct_event :: "journal_event \<Rightarrow> reconstructed_run \<Rightarrow> reconstructed_run" where
  "reconstruct_event e r =
     (case je_payload e of
        CapsuleSealed c \<Rightarrow> r\<lparr>rcr_capsules := rcr_capsules r @ [c]\<rparr>
      | Signalled s \<Rightarrow> r\<lparr>rcr_signals := rcr_signals r @ [s]\<rparr>
      | Halted h \<Rightarrow> r\<lparr>rcr_halts := rcr_halts r @ [h]\<rparr>
      | _ \<Rightarrow> r)"

definition reconstruct_from_journal ::
  "environment option \<Rightarrow> journal_row list \<Rightarrow> py_exn + reconstructed_run" where
  "reconstruct_from_journal env rows =
     mapE (\<lambda>events. fold reconstruct_event
             (filter (\<lambda>e. case env of None \<Rightarrow> True | Some v \<Rightarrow> je_environment e = v) events)
             \<lparr>rcr_capsules = [], rcr_signals = [], rcr_halts = []\<rparr>)
       (journal_read_all None None None None rows)"


subsection \<open>What a run counts\<close>

lemma desk_kept_frame:
  fixes w w' :: "'s replay"
  assumes "desk_kept env w w'"
  shows "rp_tally w' = rp_tally w" "rp_broker w' = rp_broker w" "rp_ledger w' = rp_ledger w"
  using assms by (cases w; cases w'; simp add: desk_kept_def)+

definition same_tally :: "'s replay \<Rightarrow> 's replay \<Rightarrow> bool" where
  "same_tally w w' \<longleftrightarrow> rp_tally w' = rp_tally w"

interpretation counts: effect_order "same_tally :: 's replay \<Rightarrow> 's replay \<Rightarrow> bool"
  by unfold_locales (auto simp: same_tally_def)

lemma uncounted: "keeps (desk_kept env) m \<Longrightarrow> keeps same_tally m"
  unfolding keeps_def same_tally_def by (blast intro: desk_kept_frame(1))

lemma uncounted_broker: "keeps same_tally (on_broker m)"
  by (auto simp: keeps_def same_tally_def on_broker_def split: prod.splits)

lemma uncounted_ask: "keeps same_tally (ask_broker f)"
  unfolding ask_broker_def by (intro counts.keeps_bind counts.keeps_pure)

lemma ask_broker_run [simp]: "ask_broker f w = (f (rp_broker w), w)"
  by (simp add: ask_broker_def)

lemma uncounted_note: "keeps same_tally (note_stage env snap payload src)"
  unfolding note_stage_def by (intro uncounted desk_record_event)

lemma tally_run [simp]: "tally f w = (Inr (), w\<lparr>rp_tally := f (rp_tally w)\<rparr>)"
  by (simp add: tally_def)

lemma counted:
  \<comment> \<open>a program that leaves the counters alone, run to its end inside another\<close>
  "keeps same_tally m \<Longrightarrow> m w = (r, w') \<Longrightarrow> rp_tally w' = rp_tally w"
  by (auto simp: same_tally_def dest: keepsD)

lemmas uncounted_intro = counts.keeps_bind counts.keeps_pure counts.keeps_if counts.keeps_when
  uncounted_ask uncounted_note uncounted_broker uncounted

lemma seal_window_result:
  assumes "seal_window env wd i r s e w = (Inr c, w')"
  shows "dc_trade_intent c = i \<and> dc_risk_decision c = r \<and> dc_supervisor_decision c = s \<and>
    dc_execution_result c = e \<and> rp_tally w' = rp_tally w"
  using assms
  by (auto simp: seal_window_def capsule_of_def progE bindE_eq_Inr dest: counted [OF uncounted [OF desk_seal]])

lemma record_risk_counts: "record_risk env snap d w = (Inr u, w') \<Longrightarrow> rp_tally w' = count_risk d (rp_tally w)"
  by (auto simp: record_risk_def progE dest!: counted [OF uncounted [OF desk_trip_kept]] split: if_splits)

lemma record_supervisor_counts:
  "record_supervisor env snap d w = (Inr u, w') \<Longrightarrow> rp_tally w' = count_supervisor d (rp_tally w)"
  by (auto simp: record_supervisor_def progE dest!: counted [OF uncounted [OF desk_trip_kept]] split: if_splits)

lemma submit_counts:
  "submit_order env snap ord w = (Inr e, w') \<Longrightarrow> rp_tally w' = count_execution (Some e) (rp_tally w)"
  by (auto simp: submit_order_def progE count_execution_def
      dest!: counted [OF uncounted_note] counted [OF uncounted_broker])

lemma execute_counts:
  "execute env snap i r s w = (Inr e, w') \<Longrightarrow> rp_tally w' = count_execution e (rp_tally w)"
  by (auto simp: execute_def progE dest!: counted [OF uncounted_note] submit_counts split: if_splits)
     (simp_all add: count_execution_def)

lemma supervise_counts:
  assumes "supervise_stage env wd i r w = (Inr c, w')"
  shows "dc_trade_intent c = Some i \<and> dc_risk_decision c = Some r \<and>
    (\<exists>d. dc_supervisor_decision c = Some d \<and>
       (sd_verdict d \<noteq> APPROVE \<longrightarrow> dc_execution_result c = None) \<and>
       rp_tally w' = (if sd_verdict d = APPROVE
         then count_execution (dc_execution_result c) (count_supervisor d (rp_tally w))
         else count_supervisor d (rp_tally w)))"
proof -
  from assms obtain d w1 w2 where
    note1: "note_stage env (wn_snapshot wd) (SupervisorDecided d) ''supervisor'' w = (Inr (), w1)" and
    rec: "record_supervisor env (wn_snapshot wd) d w1 = (Inr (), w2)" and
    rest: "(if sd_verdict d \<noteq> APPROVE then seal_window env wd (Some i) (Some r) (Some d) None
      else bindM (execute env (wn_snapshot wd) i r d) (\<lambda>execution.
        bindM (modifyM (\<lambda>w. w\<lparr>rp_seen_hashes :=
                 insert (decision_hash (re_stdlib env) i) (rp_seen_hashes w)\<rparr>)) (\<lambda>_.
        seal_window env wd (Some i) (Some r) (Some d) execution))) w2 = (Inr c, w')"
    unfolding supervise_stage_def Let_def bindM_eq_Inr by auto
  have t: "rp_tally w2 = count_supervisor d (rp_tally w)"
    using record_supervisor_counts [OF rec] counted [OF uncounted_note note1] by simp
  show ?thesis
  proof (cases "sd_verdict d = APPROVE")
    case True
    with rest obtain e w3 where "execute env (wn_snapshot wd) i r d w2 = (Inr e, w3)"
        "seal_window env wd (Some i) (Some r) (Some d) e
           (w3\<lparr>rp_seen_hashes := insert (decision_hash (re_stdlib env) i) (rp_seen_hashes w3)\<rparr>) = (Inr c, w')"
      by (auto simp: bindM_eq_Inr)
    with True t execute_counts seal_window_result show ?thesis by fastforce
  next
    case False
    with rest t seal_window_result show ?thesis by fastforce
  qed
qed

text \<open>
  No stage is skipped: a capsule holds a risk decision exactly when it holds an intent, a
  supervisor decision exactly when the risk decision passed, and an execution only when the
  supervisor approved.
\<close>

definition in_order :: "decision_capsule \<Rightarrow> bool" where
  "in_order c \<longleftrightarrow>
     (case dc_trade_intent c of
        None \<Rightarrow> dc_risk_decision c = None \<and> dc_supervisor_decision c = None \<and> dc_execution_result c = None
      | Some _ \<Rightarrow>
          (case dc_risk_decision c of
             None \<Rightarrow> False
           | Some d \<Rightarrow>
               (case dc_supervisor_decision c of
                  None \<Rightarrow> rd_verdict d \<noteq> PASS \<and> dc_execution_result c = None
                | Some s \<Rightarrow> rd_verdict d = PASS \<and> (sd_verdict s = APPROVE \<or> dc_execution_result c = None))))"

lemma risk_counts:
  assumes "risk_stage env wd i w = (Inr c, w')"
  shows "dc_trade_intent c = Some i \<and> in_order c \<and> (\<exists>d. dc_risk_decision c = Some d \<and>
    rp_tally w' = (case dc_supervisor_decision c of
        None \<Rightarrow> count_risk d (rp_tally w)
      | Some s \<Rightarrow> if sd_verdict s = APPROVE
          then count_execution (dc_execution_result c) (count_supervisor s (count_risk d (rp_tally w)))
          else count_supervisor s (count_risk d (rp_tally w))))"
proof -
  from assms obtain pf w0 d w1 w2 where
    pf: "portfolio_of env (wn_positions wd) w = (Inr pf, w0)" and
    note1: "note_stage env (wn_snapshot wd) (RiskDecided d) ''risk_engine'' w0 = (Inr (), w1)" and
    rec: "record_risk env (wn_snapshot wd) d w1 = (Inr (), w2)" and
    rest: "(if rd_verdict d \<noteq> PASS then seal_window env wd (Some i) (Some d) None None
            else supervise_stage env wd i d) w2 = (Inr c, w')"
    unfolding risk_stage_def judge_stage_def Let_def bindM_eq_Inr by auto
  have "keeps same_tally (portfolio_of env (wn_positions wd))"
    unfolding portfolio_of_def by (intro uncounted_intro)
  from counted [OF this pf] counted [OF uncounted_note note1] record_risk_counts [OF rec]
  have t: "rp_tally w2 = count_risk d (rp_tally w)" by simp
  show ?thesis
  proof (cases "rd_verdict d = PASS")
    case True
    with rest have "supervise_stage env wd i d w2 = (Inr c, w')" by simp
    from supervise_counts [OF this] t True show ?thesis by (auto simp: in_order_def)
  next
    case False
    with rest have "seal_window env wd (Some i) (Some d) None None w2 = (Inr c, w')" by simp
    from seal_window_result [OF this] t False show ?thesis by (simp add: in_order_def)
  qed
qed

text \<open>
  The counters the journal accounts for: everything but the windows themselves, those without
  evidence, the injected faults and the strategies' own reasons.
\<close>

definition accounted :: "run_tally \<Rightarrow> run_tally" where
  "accounted t =
     t\<lparr>tl_windows := 0, tl_features_unavailable := 0, tl_no_trade_reasons := [], tl_injected_faults := []\<rparr>"

lemma accounted_counts [simp]:
  "accounted (count_risk d t) = count_risk d (accounted t)"
  "accounted (count_supervisor s t) = count_supervisor s (accounted t)"
  "accounted (count_execution e t) = count_execution e (accounted t)"
  by (simp_all add: accounted_def count_risk_def count_supervisor_def count_execution_def Let_def
      split: risk_verdict.split supervisor_verdict.split option.split)

lemma accounted_frame [simp]:
  "accounted (t\<lparr>tl_intents := n\<rparr>) = accounted t\<lparr>tl_intents := n\<rparr>"
  "accounted (t\<lparr>tl_no_trade := n\<rparr>) = accounted t\<lparr>tl_no_trade := n\<rparr>"
  "accounted (t\<lparr>tl_no_trade_reasons := b\<rparr>) = accounted t"
  "accounted (t\<lparr>tl_windows := n\<rparr>) = accounted t"
  "accounted (t\<lparr>tl_features_unavailable := n\<rparr>) = accounted t"
  "accounted (t\<lparr>tl_injected_faults := b\<rparr>) = accounted t"
  "tl_intents (accounted t) = tl_intents t" "tl_no_trade (accounted t) = tl_no_trade t"
  by (simp_all add: accounted_def)

lemma unaccounted_frame [simp]:
  "tl_windows (count_risk d t) = tl_windows t" "tl_windows (count_supervisor s t) = tl_windows t"
  "tl_windows (count_execution e t) = tl_windows t"
  "tl_features_unavailable (count_risk d t) = tl_features_unavailable t"
  "tl_features_unavailable (count_supervisor s t) = tl_features_unavailable t"
  "tl_features_unavailable (count_execution e t) = tl_features_unavailable t"
  by (simp_all add: count_risk_def count_supervisor_def count_execution_def Let_def
      split: risk_verdict.split supervisor_verdict.split option.split)

lemma decision_counts:
  assumes "decision_stage env wd d w = (Inr c, w')"
  shows "in_order c \<and> accounted (rp_tally w') = count_capsule c (accounted (rp_tally w)) \<and>
    tl_windows (rp_tally w') = tl_windows (rp_tally w) \<and>
    tl_features_unavailable (rp_tally w') = tl_features_unavailable (rp_tally w)"
proof -
  let ?snap = "wn_snapshot wd"
  from assms obtain signal w1 w2 where
    f: "record_features (re_desk env) (wn_evidence wd) w = (Inr (), w1)" and
    n: "note_stage env ?snap (Signalled signal) ''trading_agent'' w1 = (Inr (), w2)" and
    rest: "(case sn_intent d of
        None \<Rightarrow>
          bindM (tally (\<lambda>t. t\<lparr>tl_no_trade := tl_no_trade t + 1,
                              tl_no_trade_reasons := bump_all (sn_reason_codes d) (tl_no_trade_reasons t)\<rparr>)) (\<lambda>_.
          seal_window env wd None None None None)
      | Some intent \<Rightarrow>
          bindM (tally (\<lambda>t. t\<lparr>tl_intents := tl_intents t + 1\<rparr>)) (\<lambda>_.
          bindM (note_stage env ?snap (IntentCreated intent) ''trading_agent'') (\<lambda>_.
          bindM (modifyM (\<lambda>w. w\<lparr>rp_recent_intents :=
                   trim_window (ms_event_time ?snap) US_HOUR (rp_recent_intents w @ [ms_event_time ?snap])\<rparr>)) (\<lambda>_.
          risk_stage env wd intent)))) w2 = (Inr c, w')"
    unfolding decision_stage_def Let_def bindM_eq_Inr by auto
  have t: "rp_tally w2 = rp_tally w"
    using counted [OF uncounted [OF desk_features] f] counted [OF uncounted_note n] by simp
  show ?thesis
  proof (cases "sn_intent d")
    case None
    with rest have "seal_window env wd None None None None
        (w2\<lparr>rp_tally := (rp_tally w2)\<lparr>tl_no_trade := tl_no_trade (rp_tally w2) + 1,
           tl_no_trade_reasons := bump_all (sn_reason_codes d) (tl_no_trade_reasons (rp_tally w2))\<rparr>\<rparr>) = (Inr c, w')"
      by (simp add: bindM_run)
    from seal_window_result [OF this] t show ?thesis by (simp add: in_order_def count_capsule_def)
  next
    case (Some i)
    with rest obtain w3 where
      n3: "note_stage env ?snap (IntentCreated i) ''trading_agent''
         (w2\<lparr>rp_tally := (rp_tally w2)\<lparr>tl_intents := tl_intents (rp_tally w2) + 1\<rparr>\<rparr>) = (Inr (), w3)" and
      r: "risk_stage env wd i (w3\<lparr>rp_recent_intents :=
            trim_window (ms_event_time ?snap) US_HOUR (rp_recent_intents w3 @ [ms_event_time ?snap])\<rparr>) = (Inr c, w')"
      by (auto simp: bindM_eq_Inr)
    from counted [OF uncounted_note n3] t
    have "rp_tally w3 = (rp_tally w)\<lparr>tl_intents := tl_intents (rp_tally w) + 1\<rparr>" by simp
    with risk_counts [OF r] show ?thesis
      by (auto simp: count_capsule_def Let_def split: option.splits)
  qed
qed


definition counted_by :: "decision_capsule list \<Rightarrow> int \<Rightarrow> run_tally \<Rightarrow> run_tally \<Rightarrow> bool" where
  \<comment> \<open>what a stretch of a run that sealed these capsules and was handed so many windows did to the counters\<close>
  "counted_by cs n t t' \<longleftrightarrow>
     accounted t' = fold count_capsule cs (accounted t) \<and> list_all in_order cs \<and>
     tl_windows t' = tl_windows t + n \<and>
     tl_windows t' - tl_features_unavailable t' - int (length cs) =
       tl_windows t - tl_features_unavailable t"

lemma counted_by_append:
  "counted_by cs n t t' \<Longrightarrow> counted_by ds m t' t'' \<Longrightarrow> counted_by (cs @ ds) (n + m) t t''"
  by (auto simp: counted_by_def)

definition capsules_of :: "decision_capsule option \<Rightarrow> decision_capsule list" where
  "capsules_of c = (case c of None \<Rightarrow> [] | Some x \<Rightarrow> [x])"

lemma process_counts:
  assumes "process_window env t w = (Inr c, w')"
  shows "accounted (rp_tally w') = fold count_capsule (capsules_of c) (accounted (rp_tally w)) \<and>
    list_all in_order (capsules_of c) \<and> tl_windows (rp_tally w') = tl_windows (rp_tally w) \<and>
    tl_features_unavailable (rp_tally w') + int (length (capsules_of c)) =
      tl_features_unavailable (rp_tally w) + 1"
proof -
  from assms consider
      (short) "c = None" "w' = snd (count_unavailable w)"
    | (decided) f snap positions d x where "c = Some x"
        "decision_stage env \<lparr>wn_snapshot = snap, wn_evidence = f, wn_positions = positions\<rparr> d w = (Inr x, w')"
    by (auto simp: process_window_def count_unavailable_def bindM_eq_Inr bindM_run split: if_splits option.splits)
  then show ?thesis
  proof cases
    case short
    then show ?thesis by (simp add: count_unavailable_def capsules_of_def)
  next
    case decided
    from decision_counts [OF decided(2)] decided(1) show ?thesis by (simp add: capsules_of_def)
  qed
qed

lemma uncounted_trip: "keeps same_tally (desk_trip env reasons who occ c detail :: ('s replay, unit) prog)"
  by (rule uncounted [OF desk_trip_kept])

lemma uncounted_recover: "keeps same_tally (recover_replay_session env t)"
  unfolding recover_replay_session_def Let_def
  by (intro counts.keeps_bind counts.keeps_pure counts.keeps_when uncounted_ask uncounted_trip counts.keeps_modify)
     (simp add: same_tally_def)

lemma uncounted_roll: "keeps same_tally (roll_session env t)"
  unfolding roll_session_def
  by (rule counts.keeps_modify) (simp add: same_tally_def Let_def split: option.split)

lemma uncounted_update: "keeps same_tally update_ledger"
  unfolding update_ledger_def
  by (intro counts.keeps_bind uncounted_ask counts.keeps_modify) (simp add: same_tally_def)

lemma uncounted_loss_gates: "keeps same_tally (check_loss_gates env t)"
  unfolding check_loss_gates_def Let_def
  by (intro counts.keeps_bind counts.keeps_pure counts.keeps_if counts.keeps_when uncounted_trip)

lemma uncounted_boundary: "keeps same_tally (check_session_boundary env t)"
  unfolding check_session_boundary_def
  by (intro counts.keeps_bind counts.keeps_pure counts.keeps_if counts.keeps_when uncounted_trip uncounted_ask)

lemma uncounted_persist: "keeps same_tally (persist_session env t)"
  unfolding persist_session_def
  by (intro counts.keeps_bind counts.keeps_pure counts.keeps_option uncounted_ask counts.keeps_modify)
     (simp add: same_tally_def Let_def)

lemma observe_counts:
  assumes "observe_step env t w = (Inr u, w')"
  shows "accounted (rp_tally w') = accounted (rp_tally w) \<and>
    tl_windows (rp_tally w') = tl_windows (rp_tally w) + 1 \<and>
    tl_features_unavailable (rp_tally w') = tl_features_unavailable (rp_tally w)"
proof -
  from assms obtain w1 tick b w2 where
    f: "whenM (gt_injected_fault t \<notin> {None, Some []}) (tally (\<lambda>tl. tl\<lparr>tl_injected_faults :=
          bump (the (gt_injected_fault t)) (tl_injected_faults tl)\<rparr>)) w = (Inr (), w1)" and
    o: "observe_market (re_desk env) tick (Some b) w1 = (Inr (), w2)" and
    w': "w' = w2\<lparr>rp_history := last_n MAX_HISTORY_BARS (rp_history w2 @ [gt_bar t]),
                 rp_tally := (rp_tally w2)\<lparr>tl_windows := tl_windows (rp_tally w2) + 1\<rparr>\<rparr>"
    unfolding observe_step_def bindM_eq_Inr by auto
  have "accounted (rp_tally w1) = accounted (rp_tally w) \<and> tl_windows (rp_tally w1) = tl_windows (rp_tally w) \<and>
      tl_features_unavailable (rp_tally w1) = tl_features_unavailable (rp_tally w)"
    using f by (auto simp: whenM_eq_Inr split: if_splits)
  with counted [OF uncounted [OF desk_observe] o] w' show ?thesis by simp
qed

lemma step_counts:
  assumes "replay_step env first t w = (Inr c, w')"
  shows "counted_by (capsules_of c) 1 (rp_tally w) (rp_tally w')"
proof -
  from assms obtain w1 w2 w3 w4 w5 w6 w7 w8 where
    "on_broker (advance t) w = (Inr (), w1)" "whenM first (recover_replay_session env t) w1 = (Inr (), w2)"
    "roll_session env t w2 = (Inr (), w3)" "update_ledger w3 = (Inr (), w4)" and
    o: "observe_step env t w4 = (Inr (), w5)" and p: "process_window env t w5 = (Inr c, w6)" and
    "check_loss_gates env t w6 = (Inr (), w7)" "check_session_boundary env t w7 = (Inr (), w8)"
    "persist_session env t w8 = (Inr (), w')"
    unfolding replay_step_def bindM_eq_Inr by auto
  then have "rp_tally w4 = rp_tally w" "rp_tally w' = rp_tally w6"
    by (simp_all add: counted [OF uncounted_broker] counted [OF counts.keeps_when [OF uncounted_recover]]
        counted [OF uncounted_roll] counted [OF uncounted_update] counted [OF uncounted_loss_gates]
        counted [OF uncounted_boundary] counted [OF uncounted_persist])
  with observe_counts [OF o] process_counts [OF p] show ?thesis
    by (simp add: counted_by_def)
qed

lemma steps_counts:
  "replay_steps env first ts w = (Inr cs, w') \<Longrightarrow> counted_by cs (int (length ts)) (rp_tally w) (rp_tally w')"
proof (induction ts arbitrary: first w cs)
  case Nil
  then show ?case by (simp add: counted_by_def)
next
  case (Cons t ts)
  then obtain c ds w1 where s: "replay_step env first t w = (Inr c, w1)"
      "replay_steps env False ts w1 = (Inr ds, w')" "cs = capsules_of c @ ds"
    by (auto simp: bindM_eq_Inr capsules_of_def split: option.splits)
  from counted_by_append [OF step_counts [OF s(1)] Cons.IH [OF s(2)]] s(3)
  show ?case by (simp add: add.commute)
qed

text \<open>
  C13. The audit trail accounts for the run: whenever a replay returns, the counters it kept
  while it ran are exactly those recounted from the capsules it sealed, for every counter a
  capsule can carry, and the windows it was handed are those without evidence plus one capsule
  each. Every capsule has its stages in order: a risk decision for every intent, a supervisor
  decision exactly for the passes, an execution only after an approval.
\<close>

theorem run_is_its_capsules:
  assumes "run_replay env ts w = (Inr res, w')"
  shows "accounted (rn_tally res) = accounted (tally_from_capsules (rn_capsules res) signals) \<and>
    tl_windows (rn_tally res) = int (length ts) \<and>
    tl_windows (rn_tally res) =
      tl_features_unavailable (rn_tally res) + int (length (rn_capsules res)) \<and>
    list_all in_order (rn_capsules res)"
proof -
  from assms obtain cs w1 w2 w3 equity where
    steps: "replay_steps env True ts (w\<lparr>rp_tally := RunTally\<rparr>) = (Inr cs, w1)" and
    u: "update_ledger w1 = (Inr (), w2)" and f: "flush (re_desk env) w2 = (Inr (), w3)" and
    res: "res = run_result_of env cs equity w3"
    by (auto simp: run_replay_def bindM_eq_Inr)
  from counted [OF uncounted_update u] counted [OF uncounted [OF desk_flush] f]
  have t: "rp_tally w3 = rp_tally w1" by simp
  have zero: "accounted RunTally = RunTally" by (simp add: accounted_def RunTally_def)
  have recount: "accounted (fold count_capsule ds RunTally) = fold count_capsule ds RunTally" for ds
  proof (induction ds rule: rev_induct)
    case (snoc c ds)
    have "accounted (count_capsule c x) = count_capsule c (accounted x)" for x
      by (auto simp: count_capsule_def Let_def split: option.split)
    with snoc show ?case by simp
  qed (simp add: zero)
  from steps_counts [OF steps] show ?thesis
    by (simp add: res run_result_of_def t counted_by_def tally_from_capsules_def Let_def zero recount)
       (simp add: RunTally_def)
qed

end
