(* ===== verification/Replay_Safety.thy ===== *)
theory Replay_Safety
  imports Reconstruction
begin

text \<open>
  What a replay guarantees whatever fails: a halt stops its trading for good, its audit trail
  only grows and never holds a capsule without its event, and a loss limit reached or a
  weekly deadline crossed leaves it halted by the end of the step that saw it.
\<close>

definition replay_kept :: "'s replay_env \<Rightarrow> 's replay \<Rightarrow> 's replay \<Rightarrow> bool" where
  "replay_kept env w w' \<longleftrightarrow>
     db_kept (re_desk env) (dk_db w) (dk_db w') \<and>
     (is_halted (dk_switch w) \<longrightarrow>
        is_halted (dk_switch w') \<and> sb_handled (rp_broker w') = sb_handled (rp_broker w))"

interpretation replay: effect_order "replay_kept env :: 's replay \<Rightarrow> 's replay \<Rightarrow> bool" for env
  by unfold_locales (auto simp: replay_kept_def intro: db_kept_trans)

lemma replay_desk: "keeps (desk_kept (re_desk env)) m \<Longrightarrow> keeps (replay_kept env) m"
  unfolding keeps_def replay_kept_def
  by (metis desk_kept_def desk_kept_frame(2))

lemma replay_modify:
  "(\<And>w. dk_db (h w) = dk_db w \<and> dk_switch (h w) = dk_switch w \<and> rp_broker (h w) = rp_broker w) \<Longrightarrow>
     keeps (replay_kept env) (modifyM h)"
  by (rule replay.keeps_modify) (simp add: replay_kept_def)

lemma replay_tally: "keeps (replay_kept env) (tally f)"
  unfolding tally_def by (rule replay_modify) simp

lemma replay_ask: "keeps (replay_kept env) (ask_broker f)"
  by (simp add: keeps_def replay.same)

lemma replay_note: "keeps (replay_kept env) (note_stage env snap payload src)"
  unfolding note_stage_def by (intro replay_desk desk_record_event)

lemma replay_trip: "keeps (replay_kept env) (desk_trip (re_desk env) reasons who occ c detail)"
  by (intro replay_desk desk_trip_kept)

text \<open>Marching the broker on answers no order.\<close>

abbreviation no_answer :: "simulated_broker \<Rightarrow> simulated_broker \<Rightarrow> bool" where
  "no_answer b b' \<equiv> sb_handled b' = sb_handled b"

interpretation unanswered: effect_order no_answer
  by unfold_locales auto

lemma advance_unanswered: "keeps no_answer (advance t)"
  unfolding advance_def resolve_exit_def close_ticket_def Let_def
  by (intro unanswered.keeps_rules unanswered.keeps_modify) simp_all

lemma replay_advance: "keeps (replay_kept env) (on_broker (advance t))"
  using advance_unanswered
  by (auto simp: keeps_def on_broker_def replay_kept_def split: prod.splits) (metis snd_conv)

lemmas replay_intro = replay.keeps_bind replay.keeps_pure replay.keeps_when replay.keeps_if replay_ask
  replay_tally replay_note replay_trip replay_advance

lemma replay_seal: "keeps (replay_kept env) (seal_window env wd i r s e)"
  unfolding seal_window_def by (intro replay_intro replay_desk desk_seal)

lemma replay_record_risk: "keeps (replay_kept env) (record_risk env snap d)"
  unfolding record_risk_def by (intro replay_intro)

lemma replay_record_supervisor: "keeps (replay_kept env) (record_supervisor env snap d)"
  unfolding record_supervisor_def by (intro replay_intro)

text \<open>
  The stages behind the risk engine do answer orders; of them only the database matters.
\<close>

definition trail_kept :: "'s replay_env \<Rightarrow> 's replay \<Rightarrow> 's replay \<Rightarrow> bool" where
  "trail_kept env w w' \<longleftrightarrow> db_kept (re_desk env) (dk_db w) (dk_db w')"

interpretation trail: effect_order "trail_kept env :: 's replay \<Rightarrow> 's replay \<Rightarrow> bool" for env
  by unfold_locales (auto simp: trail_kept_def intro: db_kept_trans)

lemma trail_replay: "keeps (replay_kept env) m \<Longrightarrow> keeps (trail_kept env) m"
  by (simp add: keeps_def replay_kept_def trail_kept_def)

lemma trail_broker: "keeps (trail_kept env) (on_broker m)"
  by (auto simp: keeps_def on_broker_def trail_kept_def split: prod.splits)

lemma trail_modify: "(\<And>w. dk_db (h w) = dk_db w) \<Longrightarrow> keeps (trail_kept env) (modifyM h)"
  by (rule trail.keeps_modify) (simp add: trail_kept_def)

lemma trail_supervise: "keeps (trail_kept env) (supervise_stage env wd i r)"
  unfolding supervise_stage_def execute_def submit_order_def Let_def
  by (intro trail.keeps_bind trail.keeps_pure trail.keeps_if trail_broker trail_modify
      trail_replay [OF replay_note] trail_replay [OF replay_record_supervisor] trail_replay [OF replay_seal]
      trail_replay [OF replay_ask] trail_replay [OF replay_tally]) simp_all

lemma judge_halted: "is_halted sw \<Longrightarrow> keeps (replay_kept env) (judge_stage env wd i pf sw)"
  unfolding judge_stage_def Let_def
  by (intro replay.keeps_liftM replay.keeps_bind replay_note replay_record_risk)
     (simp add: halted_never_passes replay_seal)

lemma portfolio_reads: "snd (portfolio_of env positions w) = w"
  by (simp add: portfolio_of_def bindM_def split: sum.split)

lemma risk_stage_kept: "keeps (replay_kept env) (risk_stage env wd i)"
  unfolding keeps_def
proof
  fix w :: "'a replay"
  obtain res w' where run: "risk_stage env wd i w = (res, w')" by fastforce
  have trail: "keeps (trail_kept env) (risk_stage env wd i)"
    unfolding risk_stage_def judge_stage_def portfolio_of_def Let_def
    by (intro trail.keeps_bind trail.keeps_pure trail.keeps_if trail_supervise
        trail_replay [OF replay_note] trail_replay [OF replay_record_risk] trail_replay [OF replay_seal]
        trail_replay [OF replay_ask])
  show "replay_kept env w (snd (risk_stage env wd i w))"
  proof (cases "is_halted (dk_switch w)")
    case False
    with keepsD [OF trail run] run show ?thesis by (simp add: replay_kept_def trail_kept_def)
  next
    case halted: True
    obtain r where pf: "portfolio_of env (wn_positions wd) w = (r, w)"
      using portfolio_reads [of env "wn_positions wd" w] by (metis prod.collapse)
    show ?thesis
    proof (cases r)
      case (Inl e)
      with pf show ?thesis by (simp add: risk_stage_def bindM_def replay.same)
    next
      case (Inr x)
      with pf judge_halted [OF halted, of env wd i x] show ?thesis
        by (simp add: risk_stage_def bindM_def keeps_def)
    qed
  qed
qed

lemma process_window_kept: "keeps (replay_kept env) (process_window env t)"
  unfolding process_window_def decision_stage_def count_unavailable_def Let_def
  by (intro replay.keeps_bind replay.keeps_pure replay.keeps_if replay.keeps_option replay_tally replay_ask
      replay_note replay_seal risk_stage_kept replay_modify replay_desk [OF desk_features]) simp_all

lemma replay_step_kept: "keeps (replay_kept env) (replay_step env first t)"
proof -
  have "keeps (replay_kept env) (recover_replay_session env t)"
    unfolding recover_replay_session_def Let_def
    by (intro replay_intro replay_modify) simp_all
  moreover have "keeps (replay_kept env) (roll_session env t)"
    unfolding roll_session_def by (rule replay_modify) (simp add: Let_def split: option.split)
  moreover have "keeps (replay_kept env) update_ledger"
    unfolding update_ledger_def by (intro replay_intro replay_modify) simp_all
  moreover have "keeps (replay_kept env) (observe_step env t)"
    unfolding observe_step_def by (intro replay_intro replay_desk [OF desk_observe] replay_modify) simp_all
  moreover have "keeps (replay_kept env) (check_loss_gates env t)"
    unfolding check_loss_gates_def Let_def by (intro replay_intro)
  moreover have "keeps (replay_kept env) (check_session_boundary env t)"
    unfolding check_session_boundary_def by (intro replay_intro)
  moreover have "keeps (replay_kept env) (persist_session env t)"
    unfolding persist_session_def
    by (intro replay.keeps_bind replay.keeps_pure replay.keeps_option replay_ask replay_modify)
       (simp_all add: Let_def)
  ultimately show ?thesis
    unfolding replay_step_def
    by (intro replay.keeps_bind replay.keeps_when replay_advance process_window_kept replay.keeps_pure)
qed

lemma replay_steps_kept: "keeps (replay_kept env) (replay_steps env first ts)"
  by (induction ts arbitrary: first)
     (auto intro!: replay.keeps_bind replay_step_kept split: option.split)

lemma replay_update_ledger: "keeps (replay_kept env) update_ledger"
  unfolding update_ledger_def by (intro replay_intro replay_modify) simp_all




subsection \<open>The gates after every step\<close>

definition settled :: "'s replay \<Rightarrow> 's replay \<Rightarrow> bool" where
  "settled w w' \<longleftrightarrow>
     rp_ledger w' = rp_ledger w \<and> rp_broker w' = rp_broker w \<and>
     (is_halted (dk_switch w) \<longrightarrow> is_halted (dk_switch w'))"

interpretation settled: effect_order "settled :: 's replay \<Rightarrow> 's replay \<Rightarrow> bool"
  by unfold_locales (auto simp: settled_def)

lemma settled_desk:
  assumes "keeps (desk_kept env) (m :: ('s replay, 'a) prog)"
  shows "keeps settled m"
  using assms unfolding keeps_def settled_def
  by (metis desk_kept_def desk_kept_frame(2) desk_kept_frame(3))

lemma settled_trip: "keeps settled (desk_trip env reasons who occ c detail :: ('s replay, unit) prog)"
  by (rule settled_desk [OF desk_trip_kept])

lemma settled_ask: "keeps settled (ask_broker f)"
  by (simp add: keeps_def settled.same)

lemma settled_boundary: "keeps settled (check_session_boundary env t)"
  unfolding check_session_boundary_def
  by (intro settled.keeps_bind settled.keeps_pure settled.keeps_if settled.keeps_when settled_trip settled_ask)

lemma settled_persist: "keeps settled (persist_session env t)"
  unfolding persist_session_def
  by (intro settled.keeps_bind settled.keeps_pure settled.keeps_option settled_ask settled.keeps_modify)
     (simp add: settled_def Let_def)

lemma loss_gates_enforced:
  assumes "check_loss_gates env t w = (Inr u, w')"
  shows "is_halted (dk_switch w') \<or> breached_limits (re_risk env) (rp_ledger w') = []"
  using assms by (auto simp: check_loss_gates_def Let_def whenM_def dest: desk_trip_halts split: if_splits)

lemma boundary_enforced:
  assumes "check_session_boundary env t w = (Inr u, w')"
  shows "is_halted (dk_switch w') \<or>
    (\<exists>positions. broker_positions (rp_broker w') = Inr positions \<and>
       \<not> overnight_breach (re_calendar env) positions (gt_event_time t) (rx_intraday (re_context env)))"
  using assms
  by (auto simp: check_session_boundary_def bindM_eq_Inr whenM_def dest: desk_trip_halts split: if_splits)


end
