(* ===== verification/Desk_Run.thy ===== *)
theory Desk_Run
  imports Canary_Run Live_Safety Replay_Safety
begin

text \<open>
  Concrete runs of the desk: a live cycle that approves a decision to buy, a replay of one
  window, and a simulated position opened and stopped out. They show that the hypotheses of
  the theorems on those components are met.
\<close>

subsection \<open>A live cycle\<close>

definition desk_features :: evidence where
  "desk_features = BaselineEvidence
     \<lparr>fs_feature_snapshot_id = ''f1'', fs_feature_set_version = ''1'', fs_symbol = ''EUR/USD'', fs_computed_at = 0,
      fs_bars_used = 1, fs_ema_fast = 0, fs_ema_slow = 0, fs_atr = 0, fs_atr_baseline = 0,
      fs_volatility_ratio = 0, fs_trend_score = 0, fs_regime = TREND\<rparr>"

definition desk_strategy :: strategy_entry where
  "desk_strategy =
     \<lparr>se_strategy_id = ''baseline'', se_version = ''1'', se_minimum_bars = 1,
      se_evaluate = (\<lambda>_ _ _ _. Inr
        \<lparr>so_decision = \<lparr>sn_side = BUY, sn_confidence = 1 / 2, sn_reason_codes = [''breakout''],
                         sn_intent = Some buy_intent\<rparr>, so_features = Some desk_features\<rparr>)\<rparr>"

definition desk_bar :: bar where
  "desk_bar = \<lparr>open_time = 0, b_open = 11 / 10, b_high = 11 / 10, b_low = 11 / 10, b_close = 11 / 10,
     b_tick_volume = 1, b_real_volume = None, b_spread_points = None\<rparr>"

definition desk_market_bar :: market_bar where
  "desk_market_bar =
     \<lparr>mb_bar_id = ''b1'', mb_source = ''mt5'', mb_canonical_symbol = ''EUR/USD'', mb_broker_symbol = ''EURUSD'',
      mb_timeframe = ''M5'', mb_bar = desk_bar, mb_origin = BROKER, mb_pipeline_version = None,
      mb_tick_count = None, mb_received_time = 0, mb_data_quality = GOOD, mb_anomalies = []\<rparr>"

definition desk_env :: "safety_state option desk_env" where
  "desk_env =
     \<lparr>de_stdlib = sample_stdlib, de_ops = InMemorySafetyStateStore, de_dump = (\<lambda>_. JNull),
      de_fault = (\<lambda>_. None), de_commit_lost = (\<lambda>_. None)\<rparr>"

definition desk_policy :: supervisor_policy where
  "desk_policy = \<lparr>sp_enabled = True, sp_veto_on_unknown_regime = True, sp_allowed_strategy_ids = {''baseline''},
     sp_allowed_model_versions = None, sp_min_confidence = 0, sp_max_confidence = 1, sp_max_intents_per_hour = None\<rparr>"

definition live_env :: "safety_state option live_env" where
  "live_env =
     \<lparr>le_desk = desk_env, le_zone = (\<lambda>_. False), le_config = run_config, le_version = DIGEST,
      le_symbol = ''EUR/USD'', le_timeframe = ''M5'', le_strategy = desk_strategy,
      le_expectation = projr (expect_flat sample_stdlib run_guard ''EUR/USD'' (Some DIGEST)),
      le_risk = run_risk, le_execution = run_execution, le_calendar = AlwaysOpenCalendar True,
      le_context = run_context, le_policy = desk_policy, le_fixed4 = (\<lambda>_. ''0''), le_int_text = (\<lambda>_. ''0'')\<rparr>"

definition live_out :: live_outside where
  "live_out =
     \<lparr>lo_now = (\<lambda>_. 0), lo_spec = (\<lambda>_. Inr (Some eurusd)), lo_bars = (\<lambda>_. Inr [desk_market_bar]),
      lo_tick = (\<lambda>_. Inr (Some run_tick)),
      lo_broker = (\<lambda>_. Inr (record_observation run_observation no_broker_state)),
      lo_windows_unreachable = (\<lambda>_. False), lo_sessions_unreachable = (\<lambda>_. False),
      lo_error_text = (\<lambda>_. '''')\<rparr>"

definition live_start :: "safety_state option live" where
  "live_start = new_live new_kill_switch None NullRecorder
     \<lparr>au_events = [], au_capsules = [], au_ticks = [], au_bars = [], au_features = []\<rparr>"

lemma desk_env_fields [simp]:
  "de_stdlib desk_env = sample_stdlib" "de_fault desk_env = (\<lambda>_. None)" "de_commit_lost desk_env = (\<lambda>_. None)"
  by (simp_all add: desk_env_def)

lemma live_env_fields [simp]:
  "le_desk live_env = desk_env" "le_strategy live_env = desk_strategy" "le_context live_env = run_context"
  "le_risk live_env = run_risk" "le_policy live_env = desk_policy" "le_config live_env = run_config"
  "le_symbol live_env = ''EUR/USD''" "le_version live_env = DIGEST" "le_timeframe live_env = ''M5''"
  "le_calendar live_env = AlwaysOpenCalendar True"
  "le_expectation live_env = projr (expect_flat sample_stdlib run_guard ''EUR/USD'' (Some DIGEST))"
  by (simp_all add: live_env_def)

lemma desk_strategy_fields [simp]:
  "se_strategy_id desk_strategy = ''baseline''" "se_version desk_strategy = ''1''" "se_minimum_bars desk_strategy = 1"
  "se_evaluate desk_strategy a b c d = Inr
     \<lparr>so_decision = \<lparr>sn_side = BUY, sn_confidence = 1 / 2, sn_reason_codes = [''breakout''],
                      sn_intent = Some buy_intent\<rparr>, so_features = Some desk_features\<rparr>"
  by (simp_all add: desk_strategy_def)

lemma live_out_fields [simp]:
  "lo_now live_out n = 0" "lo_spec live_out n = Inr (Some eurusd)" "lo_bars live_out n = Inr [desk_market_bar]"
  "lo_tick live_out n = Inr (Some run_tick)"
  "lo_broker live_out n = Inr (record_observation run_observation no_broker_state)"
  "lo_windows_unreachable live_out n = False" "lo_sessions_unreachable live_out n = False"
  by (simp_all add: live_out_def)

text \<open>With nothing to record to, recording leaves the worker as it was.\<close>

definition quiet :: "('s, 'm) desk_scheme \<Rightarrow> bool" where
  "quiet w \<longleftrightarrow> dk_recorder w = NullRecorder \<and> dk_switch w = new_kill_switch"

lemma idle_record: "dk_recorder w = NullRecorder \<Longrightarrow> record_event env p c occ src w = (Inr (), w)"
  by (simp add: record_event_def on_recorder_def recording_def)

lemma idle_seal: "dk_recorder w = NullRecorder \<Longrightarrow> seal env c w = (Inr (), w)"
  by (simp add: seal_def bindM_def idle_record) (simp add: recording_def)

lemma idle_features: "dk_recorder w = NullRecorder \<Longrightarrow> record_features env f w = (Inr (), w)"
  by (simp add: record_features_def recording_def)

definition live_run_snapshot :: market_snapshot where
  "live_run_snapshot = run_snapshot\<lparr>ms_bars := [desk_bar]\<rparr>"

lemma eurusd_symbol [simp]: "spec_canonical_symbol eurusd = ''EUR/USD''"
  by (simp add: eurusd_def)

lemma live_run_snapshot: "live_snapshot sample_stdlib run_tick [desk_bar] eurusd ''M5'' = Inr live_run_snapshot"
proof -
  have points: "price_to_points (dsub (11 / 10) (11 / 10)) (1 / 100000) = Inr 0"
    by (simp add: decimal_ops rnd_exact price_to_points_def quantize_def round_half_up_def round_down_def Let_def
        floor_eq_iff)
  have iso: "iso_format sample_stdlib 0 = ''1970-01-01T00:00:00+00:00''" by (simp add: sample_stdlib_def)
  show ?thesis
    by (simp add: live_snapshot_def run_tick_def points sample_spec_version iso live_run_snapshot_def run_snapshot_def
        quote_at_def contract_def market_snapshot_valid_def checks text_ok_def snapshot_id_for_def desk_bar_def)
qed

text \<open>The stages, each from any worker that is quiet.\<close>

definition live_account_state :: account_state where
  "live_account_state = demo_account\<lparr>as_login := 0\<rparr>"

lemma live_account_state: "account_from_snapshot run_account True = Inr live_account_state"
  by (simp add: account_from_snapshot_def run_account_def flat_snapshot_def contract_def live_account_state_def
      demo_account_def account_state_valid_def text_ok_def)

definition no_open_risk :: open_risk_assessment where
  "no_open_risk = \<lparr>ora_fraction = Some 0, ora_risk_amount = Some 0, ora_valued_tickets = [],
     ora_untrusted = [], ora_detail = None\<rparr>"

lemma no_open_risk: "assess_open_risk [] specs equity = Inr no_open_risk"
  by (simp add: assess_open_risk_def no_open_risk_def)

lemma run_ledger_update: "ledger_update run_ledger 10000 = run_ledger"
  by (simp add: ledger_update_def run_ledger_def fresh_ledger_def drawdown_fraction_def session_loss_fraction_def
      Let_def dsub_def ddiv_def)

lemma run_positions: "positions_for (record_observation run_observation no_broker_state) x = []"
  by (simp add: positions_for_def record_observation_def no_broker_state_def run_observation_def insert_new_def)

lemma run_latest: "latest_account_snapshot (record_observation run_observation no_broker_state) = Some run_account"
  by (simp add: latest_account_snapshot_def record_observation_def no_broker_state_def run_observation_def
      insert_new_def Let_def)

lemma live_ledger_cycle:
  assumes "lv_sessions w = []"
  shows "\<exists>rows. guarded_cycle live_env live_out run_account day [] no_open_risk 0 w =
    (Inr None, w\<lparr>dk_calls := Suc (Suc (Suc (dk_calls w))), lv_trading_day := Some day, lv_ledger := Some run_ledger,
       lv_sessions := rows\<rparr>)"
proof -
  have eq: "bas_equity run_account = 10000" "bas_snapshot_id run_account = ''u1''"
    by (simp_all add: run_account_def flat_snapshot_def)
  have "load_session False [] s = \<lparr>sr_state = None, sr_unreadable = None\<rparr>" for s
    by (simp add: load_session_def)
  then show ?thesis
    using assms
    by (simp add: guarded_cycle_def catchM_def bindM_def ledger_cycle_def held_def Let_def recover_live_session_def
        consult_def run_positions run_recovery eq must_halt_def whenM_def update_live_ledger_def run_ledger_update
        persist_live_session_def) (rule exI, rule refl)
qed

lemma live_gates:
  assumes "lv_ledger w = Some run_ledger" "dk_switch w = new_kill_switch"
  shows "live_loss_gates live_env 0 w = (Inr (), w)" "live_session_boundary live_env t [] 0 w = (Inr (), w)"
  using assms
  by (simp_all add: live_loss_gates_def live_session_boundary_def bindM_def whenM_def breached_limits_def run_risk_def
      paper_risk_def run_ledger_def fresh_ledger_def drawdown_fraction_def session_loss_fraction_def overnight_breach_def
      dsub_def ddiv_def)

definition live_portfolio_state :: portfolio_state where
  "live_portfolio_state = run_portfolio\<lparr>pf_account := live_account_state\<rparr>"

definition live_run_decision :: risk_decision where
  "live_run_decision = buy_decision sample_stdlib ''pass'' 200 50\<lparr>rd_risk_config_version := DIGEST\<rparr>"

lemma live_evaluates:
  "evaluate sample_stdlib buy_intent live_run_snapshot eurusd live_portfolio_state run_context new_kill_switch 0 =
     Inr live_run_decision"
proof -
  have s: "stop_distance buy_intent = Inr (1 / 500)" by (simp add: stop_distance_def buy_intent_def points_eval)
  have rr: "realised_risk (1 / 4) (1 / 500) eurusd = Inr 50"
    by (simp add: realised_risk_def loss_per_lot_def decimal_ops rnd_exact)
  have i: "ti_requested_risk_fraction buy_intent = Some (1 / 200)" "ti_intent_id buy_intent = ''i1''"
    by (simp_all add: buy_intent_def)
  have q: "as_equity (pf_account live_portfolio_state) = 10000" "rx_risk_config_version run_context = DIGEST"
    by (simp_all add: live_portfolio_state_def live_account_state_def demo_account_def run_context_def)
  have "checklist sample_stdlib buy_intent live_run_snapshot eurusd live_portfolio_state run_context new_kill_switch 0
      (1 / 500) 200 = []"
    by (simp add: checklist_defs stop_reasons_def buy_intent_def live_run_snapshot_def run_snapshot_def quote_at_def
        live_portfolio_state_def live_account_state_def run_portfolio_def run_context_def demo_account_def run_risk_def
        run_execution_def paper_risk_def paper_execution_def new_kill_switch_def is_halted_def is_expired_def
        overnight_breach_def dadd_def rnd_exact run_ledger_def fresh_ledger_def session_loss_fraction_def
        drawdown_fraction_def dsub_def ddiv_def)
  then show ?thesis
    using size_position_example
    by (simp add: evaluate_def s rr i q points_eval Let_def contract_def risk_decision_valid_def text_ok_def
        live_run_decision_def buy_decision_def)
qed

lemma live_supervises:
  "\<exists>s. supervise sample_stdlib buy_intent (evidence_regime desk_features) desk_policy
     \<lparr>sx_intents_in_last_hour = 0, sx_incident_status = CLEAR, sx_reconciliation_status = MATCHED\<rparr> 0 = Inr s \<and>
     sd_verdict s = APPROVE"
proof -
  have "supervisor_reasons buy_intent TREND desk_policy
      \<lparr>sx_intents_in_last_hour = 0, sx_incident_status = CLEAR, sx_reconciliation_status = MATCHED\<rparr> = []"
    by (simp add: supervisor_reasons_def desk_policy_def buy_intent_def KNOWN_REGIMES_def uncalibrated_checks_def)
  with supervisor_decide_Inr [of APPROVE "[]" "uncalibrated_checks desk_policy" sample_stdlib buy_intent 0 TREND]
    uncalibrated_names [of desk_policy]
  show ?thesis by (auto simp: supervise_def desk_features_def Let_def) (auto simp: desk_policy_def)
qed

lemma live_capsule:
  "\<exists>c. capsule_of sample_stdlib kind (spec_broker_symbol eurusd) ''1'' DIGEST PAPER live_run_snapshot desk_features
     i r s None [] [] = Inr c"
  by (simp add: capsule_of_def desk_features_def feature_values_hash_def sample_fingerprint contract_def
      decision_capsule_valid_def live_run_snapshot_def run_snapshot_def quote_at_def checks text_ok_def CODE_COMMIT_def)

lemma live_saves:
  assumes "lv_last_open w = Some t"
  shows "\<exists>rows n. save_decision_window live_env 0 w = (Inr (), w\<lparr>dk_calls := n, lv_windows := rows\<rparr>)"
  using assms by (simp add: save_decision_window_def begin_transaction_def Let_def) blast

definition desk_window :: live_window where
  "desk_window =
     \<lparr>lw_spec = eurusd, lw_snapshot = live_run_snapshot, lw_evidence = desk_features,
      lw_account = live_account_state, lw_positions = [], lw_open_risk = no_open_risk, lw_open_time = 0, lw_now = 0\<rparr>"

lemma desk_window_fields [simp]:
  "lw_spec desk_window = eurusd" "lw_snapshot desk_window = live_run_snapshot"
  "lw_evidence desk_window = desk_features" "lw_positions desk_window = []" "lw_open_time desk_window = 0"
  "lw_now desk_window = 0"
  by (simp_all add: desk_window_def)

definition approves :: "safety_state option live \<Rightarrow> (py_exn + live_outcome) \<times> safety_state option live \<Rightarrow> bool" where
  "approves w q \<longleftrightarrow> (\<exists>c w' s. q = (Inr (Decided c), w') \<and> dc_supervisor_decision c = Some s \<and>
     sd_verdict s = APPROVE \<and> lv_decided w' = lv_decided w @ [(0, c)])"

lemma live_seals:
  assumes "dk_recorder w = NullRecorder" "sd_verdict s = APPROVE"
  shows "approves w (live_seal live_env desk_window i r (Some s) w)"
proof -
  have env: "pc_environment run_config = PAPER" by simp
  from live_capsule [of "''crumblr:live-capsule:''" i r "Some s"] obtain c where c:
    "capsule_of sample_stdlib ''crumblr:live-capsule:'' ''EURUSD'' ''1'' DIGEST PAPER live_run_snapshot desk_features
       i r (Some s) None [] [] = Inr c" by auto
  from capsule_of_parts(3) [OF this] assms c show ?thesis
    by (simp add: approves_def live_seal_def bindM_def idle_seal)
qed

lemma live_supervise_approves:
  assumes "dk_recorder w = NullRecorder" "lv_last_open w = Some t"
  shows "approves w (live_supervise live_env desk_window buy_intent MATCHED r w)"
proof -
  obtain s where s: "supervise sample_stdlib buy_intent (evidence_regime desk_features) desk_policy
     \<lparr>sx_intents_in_last_hour = 0, sx_incident_status = CLEAR, sx_reconciliation_status = MATCHED\<rparr> 0 = Inr s"
    "sd_verdict s = APPROVE" using live_supervises by auto
  let ?w = "w\<lparr>lv_seen := insert (decision_hash sample_stdlib buy_intent) (lv_seen w)\<rparr>"
  obtain rows n where save: "save_decision_window live_env 0 ?w = (Inr (), ?w\<lparr>dk_calls := n, lv_windows := rows\<rparr>)"
    using live_saves [of ?w t] assms(2) by auto
  have "approves (?w\<lparr>dk_calls := n, lv_windows := rows\<rparr>)
      (live_seal live_env desk_window (Some buy_intent) (Some r) (Some s) (?w\<lparr>dk_calls := n, lv_windows := rows\<rparr>))"
    by (rule live_seals) (simp_all add: assms s)
  then show ?thesis
    by (simp add: live_supervise_def s whenM_def live_note_def bindM_def idle_record assms(1) save approves_def)
qed

lemma live_intent_approves:
  assumes "quiet w" "lv_ledger w = Some run_ledger" "lv_seen w = {}" "lv_last_open w = Some t"
  shows "approves w (live_intent live_env live_out desk_window buy_intent w)"
proof -
  let ?w = "w\<lparr>dk_calls := Suc (Suc (dk_calls w))\<rparr>"
  obtain rec where rec: "reconcile sample_stdlib (record_observation run_observation no_broker_state)
       (le_expectation live_env) (Some eurusd) 0 DEFAULT_MAX_SNAPSHOT_AGE = Inr rec" "rr_status rec = MATCHED"
    using run_matched by (auto simp: no_broker_state_def)
  have q: "dk_recorder w = NullRecorder" "dk_switch w = new_kill_switch" using assms(1) by (simp_all add: quiet_def)
  have pf: "live_portfolio desk_window ?w = (Inr live_portfolio_state, ?w)"
    using assms(2,3)
    by (simp add: live_portfolio_def live_portfolio_state_def run_portfolio_def desk_window_def no_open_risk_def)
  have "approves ?w (live_supervise live_env desk_window buy_intent MATCHED live_run_decision ?w)"
    by (rule live_supervise_approves) (simp_all add: q assms(4))
  then have "approves w (live_judge live_env desk_window buy_intent MATCHED live_portfolio_state new_kill_switch ?w)"
    by (simp add: live_judge_def live_evaluates live_note_def bindM_def idle_record q whenM_def approves_def)
       (simp add: live_run_decision_def)
  then show ?thesis
    using pf rec by (simp add: live_intent_def live_note_def bindM_def idle_record q consult_def)
qed

lemma live_claim_approves:
  assumes "quiet w" "lv_ledger w = Some run_ledger" "lv_seen w = {}"
  shows "approves w (live_claim live_env live_out
    \<lparr>cy_spec = eurusd, cy_history = [desk_bar], cy_open_time = 0, cy_tick = run_tick,
     cy_account = live_account_state, cy_positions = [], cy_open_risk = no_open_risk, cy_now = 0\<rparr> w)"
proof -
  let ?w = "w\<lparr>lv_last_open := Some 0\<rparr>"
  obtain rows n where save: "save_decision_window live_env 0 ?w = (Inr (), ?w\<lparr>dk_calls := n, lv_windows := rows\<rparr>)"
    using live_saves [of ?w 0] by auto
  let ?w1 = "?w\<lparr>dk_calls := n, lv_windows := rows\<rparr>"
  have "approves ?w1 (live_intent live_env live_out desk_window buy_intent ?w1)"
    by (rule live_intent_approves) (use assms in \<open>simp_all add: quiet_def\<close>)
  moreover have "\<exists>sg. signal_of sample_stdlib run_config desk_strategy live_run_snapshot desk_features
      \<lparr>sn_side = BUY, sn_confidence = 1 / 2, sn_reason_codes = [''breakout''], sn_intent = Some buy_intent\<rparr> = Inr sg"
    by (simp add: signal_of_def contract_def signal_generated_valid_def live_run_snapshot_def run_snapshot_def
        quote_at_def text_ok_def desk_features_def run_config_def paper_config_def)
  ultimately show ?thesis
    using assms(1)
    by (auto simp: live_claim_def live_run_snapshot save bindM_def live_decide_def idle_features idle_record
        live_note_def quiet_def approves_def simp flip: desk_window_def)
qed

lemma live_run: "approves live_start (decide_once live_env live_out live_start)"
proof -
  let ?day = "trading_day (le_zone live_env) 0"
  let ?w = "live_start\<lparr>dk_calls := 7, lv_last_open := None, lv_seen := {}, lv_recovered := True\<rparr>"
  obtain rows where cycle: "guarded_cycle live_env live_out run_account ?day [] no_open_risk 0 ?w =
    (Inr None, ?w\<lparr>dk_calls := Suc (Suc (Suc 7)), lv_trading_day := Some ?day, lv_ledger := Some run_ledger,
       lv_sessions := rows\<rparr>)"
    using live_ledger_cycle [of ?w ?day] by (auto simp: live_start_def new_live_def)
  let ?w1 = "?w\<lparr>dk_calls := Suc (Suc (Suc 7)), lv_trading_day := Some ?day, lv_ledger := Some run_ledger,
       lv_sessions := rows\<rparr>"
  have gates: "live_loss_gates live_env 0 ?w1 = (Inr (), ?w1)"
    "live_session_boundary live_env 0 [] 0 ?w1 = (Inr (), ?w1)"
    by (rule live_gates, simp_all add: live_start_def new_live_def)+
  have "approves ?w1 (live_claim live_env live_out
    \<lparr>cy_spec = eurusd, cy_history = [desk_bar], cy_open_time = 0, cy_tick = run_tick,
     cy_account = live_account_state, cy_positions = [], cy_open_risk = no_open_risk, cy_now = 0\<rparr> ?w1)"
    by (rule live_claim_approves) (simp_all add: quiet_def live_start_def new_live_def)
  then have claim: "approves live_start (live_cycle live_env live_out run_account
    \<lparr>cy_spec = eurusd, cy_history = [desk_bar], cy_open_time = 0, cy_tick = run_tick,
     cy_account = live_account_state, cy_positions = [], cy_open_risk = no_open_risk, cy_now = 0\<rparr> ?w)"
    using cycle gates
    by (simp add: live_cycle_def bindM_def run_tick_def) (simp add: approves_def live_start_def new_live_def)
  have demo: "ag_require_demo_account run_guard" by (simp add: run_guard_def)
  have bars: "open_time desk_bar = 0" "mb_bar desk_market_bar = desk_bar"
    by (simp_all add: desk_bar_def desk_market_bar_def)
  have fresh: "load_window False (lv_windows live_start) s i v = \<lparr>dwr_state = None, dwr_unreadable = None\<rparr>" for s i v
    by (simp add: load_window_def live_start_def new_live_def)
  have recover: "recover_once live_env live_out live_start = (Inr (), ?w\<lparr>dk_calls := 1\<rparr>)"
    by (simp add: recover_once_def recover_window_def window_halt_def consult_def bindM_def fresh
        recover_decision_window_def whenM_def) (simp add: live_start_def new_live_def)
  have same: "?w\<lparr>dk_calls := Suc (Suc (Suc (Suc (Suc (Suc (Suc 0))))))\<rparr> = ?w"
    by (simp add: live_start_def new_live_def)
  have pass: "market_pass live_env live_out (?w\<lparr>dk_calls := 1\<rparr>) =
      live_cycle live_env live_out run_account
    \<lparr>cy_spec = eurusd, cy_history = [desk_bar], cy_open_time = 0, cy_tick = run_tick,
     cy_account = live_account_state, cy_positions = [], cy_open_risk = no_open_risk, cy_now = 0\<rparr>
     (?w\<lparr>dk_calls := Suc (Suc (Suc (Suc (Suc (Suc (Suc 0))))))\<rparr>)"
    by (simp add: market_pass_def bindM_def consult_def bars live_account_def live_clock_def run_latest run_positions
        live_account_state demo no_open_risk)
  have "decide_once live_env live_out live_start = market_pass live_env live_out (?w\<lparr>dk_calls := 1\<rparr>)"
    by (simp only: decide_once_def bindM_def recover prod.case sum.case)
  with claim show ?thesis by (simp only: pass same)
qed


lemma live_run_life:
  obtains w c where "worker_life live_env live_start w" "lv_decided w = [(0, c)]"
proof -
  from live_run obtain c w' s where run: "decide_once live_env live_out live_start = (Inr (Decided c), w')"
    "lv_decided w' = lv_decided live_start @ [(0, c)]" unfolding approves_def by blast
  have "lv_decided live_start = []" by (simp add: live_start_def new_live_def)
  with run(2) have "lv_decided w' = [(0, c)]" by simp
  moreover have "worker_life live_env live_start w'"
    by (rule worker_life.cycle [OF _ run(1)]) simp
  ultimately show thesis by (rule that [rotated])
qed


subsection \<open>A simulated trade\<close>

definition desk_tick :: generated_tick where
  "desk_tick = \<lparr>gt_bar = desk_bar, gt_bid = 11 / 10, gt_ask = 11 / 10, gt_spread_points = 0, gt_event_time = 0,
     gt_received_time = 0, gt_data_quality = GOOD, gt_injected_fault = None\<rparr>"

definition desk_broker :: simulated_broker where
  "desk_broker = new_broker eurusd (1 / 100000) 10000 ''USD'' ''demo'' 1 30"

lemma desk_tick_fields [simp]:
  "gt_bar desk_tick = desk_bar" "gt_bid desk_tick = 11 / 10" "gt_ask desk_tick = 11 / 10"
  "gt_spread_points desk_tick = 0" "gt_event_time desk_tick = 0" "gt_received_time desk_tick = 0"
  "gt_data_quality desk_tick = GOOD" "gt_injected_fault desk_tick = None"
  by (simp_all add: desk_tick_def)

definition quoted_broker :: simulated_broker where
  "quoted_broker = desk_broker\<lparr>sb_tick := Some desk_tick, sb_now := Some 0\<rparr>"

lemma quoted_broker_fields [simp]:
  "sb_spec quoted_broker = eurusd" "sb_quantum quoted_broker = 1 / 100000" "sb_balance quoted_broker = 10000"
  "sb_open quoted_broker = []" "sb_handled quoted_broker = []" "sb_next_ticket quoted_broker = 500000"
  "sb_tick quoted_broker = Some desk_tick" "sb_now quoted_broker = Some 0" "sb_closed quoted_broker = []"
  by (simp_all add: quoted_broker_def desk_broker_def new_broker_def)

lemma desk_advance: "advance desk_tick desk_broker = (Inr (), quoted_broker)"
  by (simp add: advance_def bindM_def desk_broker_def new_broker_def quoted_broker_def)

lemma desk_slip: "entry_slip quoted_broker desk_tick = Inr 0"
  by (simp add: entry_slip_def half_spread_def dmul_def ddiv_def quantize_def round_down_def Let_def)

lemma desk_points: "price_to_points (dsub (dadd (11 / 10) 0) (11 / 10)) (1 / 100000) = Inr 0"
  by (simp add: decimal_ops rnd_exact price_to_points_def quantize_def round_half_up_def round_down_def Let_def
      floor_eq_iff)

lemma run_order_fields [simp]:
  "ao_order_request_id run_order = run_rid" "ao_side run_order = BUY" "ao_volume run_order = 1 / 4"
  "ao_intent_id run_order = ''i1''" "ao_stop_loss_price run_order = 549 / 500" "ao_take_profit_price run_order = None"
  by (simp_all add: run_order_def)

lemma desk_fill: obtains r b where "broker_order_send sample_stdlib run_order quoted_broker = (Inr r, b)"
  "sb_open b = [(500000, filled_position run_order desk_tick 500000 (dadd (11 / 10) 0) 0)]"
proof -
  have "dadd (11 / 10) 0 = 11 / 10" by (simp add: dadd_def rnd_exact)
  then have "\<exists>r. fill_result sample_stdlib run_order desk_tick 0 500000 (11 / 10) (dadd (11 / 10) 0) 0 = Inr r"
    by (simp add: fill_result_def contract_def execution_result_valid_def text_ok_def)
  then show thesis
    using that
    by (auto simp: broker_order_send_def bindM_def require_tick_def require_now_def desk_slip desk_points Let_def)
qed

lemma resubmission_is_idempotent_witness:
  "\<exists>r b. broker_order_send sample_stdlib run_order quoted_broker = (Inr r, b) \<and> sb_open b \<noteq> [] \<and>
     broker_order_send sample_stdlib (run_order\<lparr>ao_volume := 7\<rparr>) (snd (advance desk_tick b)) =
       (Inr r, snd (advance desk_tick b))"
proof -
  obtain r b where send: "broker_order_send sample_stdlib run_order quoted_broker = (Inr r, b)" "sb_open b \<noteq> []"
    by (rule desk_fill) simp
  have "(broker_step sample_stdlib)\<^sup>*\<^sup>* b (snd (advance desk_tick b))"
    by (intro r_into_rtranclp broker_step.step_advance)
  from resubmission_is_idempotent [OF send(1) this, of "run_order\<lparr>ao_volume := 7\<rparr>"] send show ?thesis by auto
qed

lemma balance_is_the_closed_trades_witness:
  "\<exists>b. (broker_step sample_stdlib)\<^sup>*\<^sup>* desk_broker b \<and> length (sb_open b) = 1 \<and>
     distinct (map fst (sb_open b) @ map ct_ticket (sb_closed b)) \<and> 500001 \<le> sb_next_ticket b"
proof -
  obtain r b where send: "broker_order_send sample_stdlib run_order quoted_broker = (Inr r, b)"
    and b: "sb_open b = [(500000, filled_position run_order desk_tick 500000 (dadd (11 / 10) 0) 0)]"
    by (rule desk_fill)
  have "broker_step sample_stdlib desk_broker quoted_broker"
    using broker_step.step_advance [of sample_stdlib desk_broker desk_tick] by (simp add: desk_advance)
  moreover have "broker_step sample_stdlib quoted_broker b"
    using broker_step.step_send [of sample_stdlib quoted_broker run_order] by (simp add: send)
  ultimately have steps: "(broker_step sample_stdlib)\<^sup>*\<^sup>* desk_broker b" by (meson converse_rtranclp_into_rtranclp r_into_rtranclp)
  from balance_is_the_closed_trades [OF steps [unfolded desk_broker_def]] steps b show ?thesis by auto
qed

definition swept_bar :: bar where
  "swept_bar = desk_bar\<lparr>b_high := 111 / 100, b_low := 109 / 100\<rparr>"

definition swept_position :: open_position where
  "swept_position = (filled_position run_order desk_tick 500000 (11 / 10) 0)\<lparr>xp_take_profit_price := Some (551 / 500)\<rparr>"

lemma exits_are_pessimistic_witness:
  "ex_hit_target (scan_exit eurusd (desk_tick\<lparr>gt_bar := swept_bar\<rparr>) swept_position) \<and>
   (\<exists>price. exit_of eurusd (desk_tick\<lparr>gt_bar := swept_bar\<rparr>)
       (scan_exit eurusd (desk_tick\<lparr>gt_bar := swept_bar\<rparr>) swept_position) = Some (price, ''stop_loss'') \<and>
     price \<le> 549 / 500)"
proof -
  have p: "xp_stop_loss_price swept_position = 549 / 500" "xp_side swept_position = BUY"
    "xp_take_profit_price swept_position = Some (551 / 500)"
    by (simp_all add: swept_position_def filled_position_def)
  have b: "dsub (109 / 100) 0 = 109 / 100" "dsub (111 / 100) 0 = 111 / 100"
    by (simp_all add: dsub_def rnd_exact)
  have "ex_hit_stop (scan_exit eurusd (desk_tick\<lparr>gt_bar := swept_bar\<rparr>) swept_position)"
    "ex_hit_target (scan_exit eurusd (desk_tick\<lparr>gt_bar := swept_bar\<rparr>) swept_position)"
    by (simp_all add: scan_exit_def p half_spread_def dmul_def ddiv_def swept_bar_def Let_def b)
  moreover have "rnd (549 / 500) = 549 / 500" by (simp add: rnd_exact)
  ultimately show ?thesis
    using exits_are_pessimistic [of "desk_tick\<lparr>gt_bar := swept_bar\<rparr>" eurusd swept_position] by (simp add: p)
qed

subsection \<open>A replayed window\<close>

definition idle_strategy :: strategy_entry where
  "idle_strategy = desk_strategy\<lparr>se_evaluate := (\<lambda>_ _ _ _. Inr
     \<lparr>so_decision = flat_decision ''no_setup'', so_features = Some desk_features\<rparr>)\<rparr>"

definition desk_replay_env :: "safety_state option replay_env" where
  "desk_replay_env =
     \<lparr>re_desk = desk_env, re_zone = (\<lambda>_. False), re_config = run_config, re_version = DIGEST, re_spec = eurusd,
      re_strategy = idle_strategy, re_risk = run_risk, re_execution = run_execution,
      re_calendar = AlwaysOpenCalendar True, re_context = run_context, re_policy = desk_policy,
      re_fixed4 = (\<lambda>_. ''0''), re_int_text = (\<lambda>_. ''0'')\<rparr>"

definition replay_start :: "safety_state option replay" where
  "replay_start =
     \<lparr>dk_switch = new_kill_switch, dk_store = None, dk_recorder = NullRecorder,
      dk_db = \<lparr>au_events = [], au_capsules = [], au_ticks = [], au_bars = [], au_features = []\<rparr>, dk_calls = 0,
      rp_broker = desk_broker, rp_ledger = run_ledger, rp_sessions = in_memory_sessions None,
      rp_session_key = None, rp_session_resumed = False, rp_history = [], rp_seen_hashes = {},
      rp_order_times = [], rp_recent_intents = [], rp_trading_day = None, rp_tally = RunTally\<rparr>"

lemma desk_replay_env_fields [simp]:
  "re_desk desk_replay_env = desk_env" "re_config desk_replay_env = run_config" "re_version desk_replay_env = DIGEST"
  "re_spec desk_replay_env = eurusd" "re_strategy desk_replay_env = idle_strategy"
  "re_risk desk_replay_env = run_risk" "re_calendar desk_replay_env = AlwaysOpenCalendar True"
  "re_context desk_replay_env = run_context" "re_policy desk_replay_env = desk_policy"
  by (simp_all add: desk_replay_env_def)

lemma idle_strategy_fields [simp]:
  "se_strategy_id idle_strategy = ''baseline''" "se_version idle_strategy = ''1''" "se_minimum_bars idle_strategy = 1"
  "se_evaluate idle_strategy a b c d = Inr
     \<lparr>so_decision = flat_decision ''no_setup'', so_features = Some desk_features\<rparr>"
  by (simp_all add: idle_strategy_def desk_strategy_def)

lemma quoted_broker_reads:
  "broker_equity quoted_broker = Inr 10000" "broker_positions quoted_broker = Inr []"
  by (simp_all add: broker_equity_def unrealised_profit_def broker_positions_def require_now_def dsum_def dadd_def rnd_exact)

lemma replay_run_snapshot: "build_snapshot sample_stdlib desk_tick [desk_bar] eurusd ''M5'' OPEN = Inr live_run_snapshot"
proof -
  have iso: "iso_format sample_stdlib 0 = ''1970-01-01T00:00:00+00:00''" by (simp add: sample_stdlib_def)
  show ?thesis
    by (simp add: build_snapshot_def sample_spec_version iso live_run_snapshot_def run_snapshot_def
        quote_at_def contract_def market_snapshot_valid_def checks text_ok_def snapshot_id_for_def desk_bar_def)
qed

lemma canonical_json_total: "list_all (\<lambda>kv. encodable (snd kv)) kvs \<Longrightarrow> \<exists>s. canonical_json sl kvs = Inr s"
  using canonical_total [of sl "PDict kvs"] by (auto simp: canonical_json_def)

lemma replay_observes:
  obtains x b where "as_market_tick sample_stdlib desk_tick eurusd = Inr x"
    "as_market_bar sample_stdlib desk_tick eurusd ''M5'' = Inr b"
proof -
  have "\<exists>i. tick_identity sample_stdlib SYNTHETIC_SOURCE ''EUR/USD'' 0 (11 / 10) (11 / 10) None = Inr i"
    unfolding tick_identity_def mapE_Inr_iff by (rule canonical_json_total) simp
  moreover have "\<exists>i. bar_identity sample_stdlib SYNTHETIC_SOURCE ''EUR/USD'' ''M5'' 0 = Inr i"
    unfolding bar_identity_def mapE_Inr_iff by (rule canonical_json_total) simp
  ultimately have "\<exists>x. as_market_tick sample_stdlib desk_tick eurusd = Inr x"
    "\<exists>b. as_market_bar sample_stdlib desk_tick eurusd ''M5'' = Inr b"
    by (auto simp: as_market_tick_def as_market_bar_def contract_def checks text_ok_def SYNTHETIC_SOURCE_def desk_bar_def)
  then show thesis using that by auto
qed

lemma replay_window:
  assumes "dk_recorder w = NullRecorder" "dk_switch w = new_kill_switch" "rp_history w = [desk_bar]"
    "rp_broker w = quoted_broker"
  shows "\<exists>c t. process_window desk_replay_env desk_tick w = (Inr (Some c), w\<lparr>rp_tally := t\<rparr>)"
proof -
  have sg: "\<exists>sg. signal_of sample_stdlib run_config idle_strategy live_run_snapshot desk_features (flat_decision ''no_setup'') =
      Inr sg"
    by (simp add: signal_of_def contract_def signal_generated_valid_def live_run_snapshot_def run_snapshot_def
        quote_at_def text_ok_def desk_features_def run_config_def paper_config_def flat_decision_def)
  obtain c where c: "capsule_of sample_stdlib ''crumblr:capsule:'' ''EURUSD'' ''1'' DIGEST PAPER live_run_snapshot
      desk_features None None None None [] [] = Inr c"
    using live_capsule [of "''crumblr:capsule:''" None None None] by auto
  show ?thesis
    using assms sg c
    by (auto simp: process_window_def bindM_def ask_broker_def quoted_broker_reads replay_run_snapshot decision_stage_def
        Let_def idle_features note_stage_def idle_record flat_decision_def tally_def seal_window_def idle_seal)
qed

lemma replay_gates:
  assumes "rp_ledger w = run_ledger" "dk_switch w = new_kill_switch" "rp_broker w = quoted_broker"
  shows "check_loss_gates desk_replay_env desk_tick w = (Inr (), w)"
    "check_session_boundary desk_replay_env desk_tick w = (Inr (), w)"
    "\<exists>k s. persist_session desk_replay_env desk_tick w = (Inr (), w\<lparr>rp_session_key := k, rp_sessions := s\<rparr>)"
proof -
  show "check_loss_gates desk_replay_env desk_tick w = (Inr (), w)"
    using assms
    by (simp add: check_loss_gates_def whenM_def breached_limits_def run_risk_def paper_risk_def run_ledger_def
        fresh_ledger_def drawdown_fraction_def session_loss_fraction_def dsub_def ddiv_def)
  show "check_session_boundary desk_replay_env desk_tick w = (Inr (), w)"
    using assms
    by (simp add: check_session_boundary_def bindM_def ask_broker_def quoted_broker_reads whenM_def overnight_breach_def)
  have same: "w = w\<lparr>rp_session_key := rp_session_key w, rp_sessions := rp_sessions w\<rparr>" by simp
  show "\<exists>k s. persist_session desk_replay_env desk_tick w = (Inr (), w\<lparr>rp_session_key := k, rp_sessions := s\<rparr>)"
  proof (cases "rp_trading_day w")
    case None
    then have "persist_session desk_replay_env desk_tick w = (Inr (), w)" by (simp add: persist_session_def)
    with same show ?thesis by metis
  next
    case (Some day)
    with assms have "persist_session desk_replay_env desk_tick w = (Inr (), w) \<or>
        (\<exists>k s. persist_session desk_replay_env desk_tick w = (Inr (), w\<lparr>rp_session_key := k, rp_sessions := s\<rparr>))"
      by (auto simp: persist_session_def bindM_def ask_broker_def quoted_broker_reads no_open_risk Let_def)
    with same show ?thesis by metis
  qed
qed

lemma replay_opening:
  "\<exists>d. bindM (on_broker (advance desk_tick)) (\<lambda>_.
     bindM (recover_replay_session desk_replay_env desk_tick) (\<lambda>_.
     bindM (roll_session desk_replay_env desk_tick) (\<lambda>_. update_ledger))) (replay_start\<lparr>rp_tally := RunTally\<rparr>) =
   (Inr (), replay_start\<lparr>rp_broker := quoted_broker, rp_trading_day := d\<rparr>)"
proof -
  have rec: "load_latest (in_memory_sessions None) s = \<lparr>sr_state = None, sr_unreadable = None\<rparr>" for s
    by (simp add: load_latest_def in_memory_sessions_def)
  show ?thesis
    by (simp add: bindM_def on_broker_def replay_start_def desk_advance recover_replay_session_def Let_def ask_broker_def
        quoted_broker_reads rec run_recovery must_halt_def whenM_def roll_session_def update_ledger_def
        run_ledger_update)
qed

lemma replay_run:
  obtains res w' where "run_replay desk_replay_env [desk_tick] replay_start = (Inr res, w')"
    "length (rn_capsules res) = 1"
proof -
  let ?e = desk_replay_env
  obtain d where start: "bindM (on_broker (advance desk_tick)) (\<lambda>_. bindM (recover_replay_session ?e desk_tick) (\<lambda>_.
     bindM (roll_session ?e desk_tick) (\<lambda>_. update_ledger))) (replay_start\<lparr>rp_tally := RunTally\<rparr>) =
     (Inr (), replay_start\<lparr>rp_broker := quoted_broker, rp_trading_day := d\<rparr>)" using replay_opening by blast
  let ?w1 = "replay_start\<lparr>rp_broker := quoted_broker, rp_trading_day := d\<rparr>"
  obtain t1 where observe: "observe_step ?e desk_tick ?w1 =
      (Inr (), ?w1\<lparr>rp_history := [desk_bar], rp_tally := t1\<rparr>)"
  proof (rule replay_observes)
    fix x b assume "as_market_tick sample_stdlib desk_tick eurusd = Inr x"
      "as_market_bar sample_stdlib desk_tick eurusd ''M5'' = Inr b"
    then have "\<exists>t. observe_step ?e desk_tick ?w1 = (Inr (), ?w1\<lparr>rp_history := [desk_bar], rp_tally := t\<rparr>)"
      by (simp add: observe_step_def bindM_def whenM_def observe_market_def on_recorder_def recording_def replay_start_def
          last_n_def MAX_HISTORY_BARS_def)
    with that show thesis by blast
  qed
  let ?w2 = "?w1\<lparr>rp_history := [desk_bar], rp_tally := t1\<rparr>"
  obtain c t2 where window: "process_window ?e desk_tick ?w2 = (Inr (Some c), ?w2\<lparr>rp_tally := t2\<rparr>)"
    using replay_window [of ?w2] by (auto simp: replay_start_def)
  let ?w3 = "?w1\<lparr>rp_history := [desk_bar], rp_tally := t2\<rparr>"
  have w3: "rp_ledger ?w3 = run_ledger" "dk_switch ?w3 = new_kill_switch" "rp_broker ?w3 = quoted_broker"
    by (simp_all add: replay_start_def)
  obtain k s where persist: "persist_session ?e desk_tick ?w3 = (Inr (), ?w3\<lparr>rp_session_key := k, rp_sessions := s\<rparr>)"
    using replay_gates(3) [OF w3] by blast
  let ?w4 = "?w3\<lparr>rp_session_key := k, rp_sessions := s\<rparr>"
  have step: "replay_step ?e True desk_tick (replay_start\<lparr>rp_tally := RunTally\<rparr>) = (Inr (Some c), ?w4)"
  proof -
    have "replay_step ?e True desk_tick = bindM (bindM (on_broker (advance desk_tick)) (\<lambda>_.
        bindM (recover_replay_session ?e desk_tick) (\<lambda>_. bindM (roll_session ?e desk_tick) (\<lambda>_. update_ledger)))) (\<lambda>_.
        bindM (observe_step ?e desk_tick) (\<lambda>_. bindM (process_window ?e desk_tick) (\<lambda>capsule.
        bindM (check_loss_gates ?e desk_tick) (\<lambda>_. bindM (check_session_boundary ?e desk_tick) (\<lambda>_.
        bindM (persist_session ?e desk_tick) (\<lambda>_. returnM capsule))))))"
      by (rule ext) (simp add: replay_step_def bindM_def whenM_def split: prod.split sum.split)
    then show ?thesis
      by (simp only: bindM_def [of "bindM (on_broker _) _"] start prod.case sum.case)
         (simp add: bindM_def observe window replay_gates(1,2) [OF w3] persist)
  qed
  have rest: "\<exists>res w'. bindM update_ledger (\<lambda>_. bindM (flush desk_env) (\<lambda>_. bindM (ask_broker broker_equity)
      (\<lambda>equity. getM (run_result_of ?e [c] equity)))) ?w4 = (Inr res, w') \<and> rn_capsules res = [c]"
    by (simp add: update_ledger_def bindM_def ask_broker_def quoted_broker_reads flush_def flush_market_data_def
        recording_def replay_start_def run_result_of_def)
  then obtain res w' where "run_replay ?e [desk_tick] replay_start = (Inr res, w')" "rn_capsules res = [c]"
    using step by (auto simp: run_replay_def tally_def bindM_def)
  then show thesis using that by simp
qed

lemma run_is_its_capsules_witness:
  "\<exists>res w'. run_replay desk_replay_env [desk_tick] replay_start = (Inr res, w') \<and>
     tl_windows (rn_tally res) = 1 \<and> tl_features_unavailable (rn_tally res) = 0 \<and>
     accounted (rn_tally res) = accounted (tally_from_capsules (rn_capsules res) [])"
proof -
  obtain res w' where run: "run_replay desk_replay_env [desk_tick] replay_start = (Inr res, w')"
    "length (rn_capsules res) = 1" by (rule replay_run)
  from run_is_its_capsules [OF run(1), of "[]"] run show ?thesis by auto
qed



lemma generator_returns_witness:
  "\<exists>fuel res. generate_ticks fuel \<lparr>rng_gauss = \<lambda>m s g. (m, g), rng_randint = \<lambda>lo hi g. (lo, g)\<rparr> (\<lambda>_. False)
     SyntheticMarketConfig eurusd 0 (217 / 200) 0 (0::nat) = Some res"
  by (rule generator_returns) (simp_all add: SyntheticMarketConfig_def)

end
