(* ===== verification/Agent_Stores.thy ===== *)
theory Agent_Stores
  imports Agent_Contracts Effects Sessions "HOL-Library.AList"
begin

text \<open>
  What the agent gateway remembers (\<^verbatim>\<open>agent_gateway/stores.py\<close>) and how an agent proves
  who it is (\<^verbatim>\<open>auth.py\<close>). The in-memory stores are association lists in the order of
  Python's dictionaries: an updated key keeps its place, a new one is appended. SHA-256 of a
  byte string and the UTF-8 encoding of a secret are parameters; the random salt is an argument.
\<close>

subsection \<open>Credentials\<close>

record credential_ops =
  co_sha256 :: "int list \<Rightarrow> int list"
  co_utf8 :: "string \<Rightarrow> int list"

definition hex_char :: "int \<Rightarrow> char" where
  "hex_char n = ''0123456789abcdef'' ! nat n"

definition hex_text :: "int list \<Rightarrow> string" where
  "hex_text bs = concat (map (\<lambda>b. [hex_char (b div 16), hex_char (b mod 16)]) bs)"

definition hex_space :: "char \<Rightarrow> bool" where
  "hex_space c \<longleftrightarrow> (let n = of_char c :: nat in n = 32 \<or> (9 \<le> n \<and> n \<le> 13))"

fun from_hex :: "string \<Rightarrow> int list option" where
  \<comment> \<open>\<^verbatim>\<open>bytes.fromhex\<close>: pairs of digits, white space between pairs\<close>
  "from_hex [] = Some []"
| "from_hex (c # cs) =
     (if hex_space c then from_hex cs
      else case cs of
             [] \<Rightarrow> None
           | d # ds \<Rightarrow>
               (case (hex_digit c, hex_digit d) of
                  (Some hi, Some lo) \<Rightarrow> map_option ((#) (16 * hi + lo)) (from_hex ds)
                | _ \<Rightarrow> None))"

fun split_colon :: "string \<Rightarrow> (string \<times> string) option" where
  \<comment> \<open>\<^verbatim>\<open>salt_hex, digest_hex = stored.split(":", 1)\<close>\<close>
  "split_colon [] = None"
| "split_colon (c # cs) =
     (if c = CHR '':'' then Some ([], cs) else map_option (\<lambda>(a, b). (c # a, b)) (split_colon cs))"

definition is_ascii :: "string \<Rightarrow> bool" where
  "is_ascii s \<longleftrightarrow> list_all (\<lambda>c. (of_char c :: nat) < 128) s"

definition hash_credential :: "credential_ops \<Rightarrow> int list \<Rightarrow> string \<Rightarrow> string" where
  "hash_credential co salt secret =
     hex_text salt @ '':'' @ hex_text (co_sha256 co (salt @ co_utf8 co secret))"

definition verify_credential :: "credential_ops \<Rightarrow> string \<Rightarrow> string \<Rightarrow> py_exn + bool" where
  \<comment> \<open>\<^verbatim>\<open>compare_digest\<close> raises on text that is not ASCII\<close>
  "verify_credential co secret stored =
     (case split_colon stored of
        None \<Rightarrow> Inr False
      | Some (salt_hex, digest_hex) \<Rightarrow>
          (case from_hex salt_hex of
             None \<Rightarrow> Inr False
           | Some salt \<Rightarrow>
               if \<not> is_ascii digest_hex then Inl TypeError
               else Inr (hex_text (co_sha256 co (salt @ co_utf8 co secret)) = digest_hex)))"


subsection \<open>State\<close>

record agent_event =
  av_outcome_id :: uuid
  av_event_type :: agent_event_type
  av_occurred_at :: utc
  av_reason_codes :: "string list"
  av_detail :: "string option"

record stored_outcome =
  st_outcome_type :: agent_outcome_type
  st_agent_id :: uuid
  st_assignment_id :: uuid
  st_fingerprint :: string
  st_claimed_at :: utc
  st_events :: "agent_event list"

record gateway_stores =
  gs_identities :: "(uuid \<times> agent_identity) list"
  gs_credentials :: "(uuid \<times> string) list"
  gs_assignments :: "(uuid \<times> trading_assignment) list"
  gs_contexts :: "(uuid \<times> context_bundle) list"
  gs_by_hash :: "(string \<times> context_bundle) list"
  gs_evidence :: "(uuid \<times> agent_evidence) list"
  gs_outcomes :: "(uuid \<times> stored_outcome) list"

definition empty_stores :: gateway_stores where
  "empty_stores =
     \<lparr>gs_identities = [], gs_credentials = [], gs_assignments = [], gs_contexts = [], gs_by_hash = [],
      gs_evidence = [], gs_outcomes = []\<rparr>"

definition put_identity :: "agent_identity \<Rightarrow> gateway_stores \<Rightarrow> gateway_stores" where
  "put_identity i g = g\<lparr>gs_identities := AList.update (ai_agent_id i) i (gs_identities g)\<rparr>"

definition put_credential :: "uuid \<Rightarrow> string \<Rightarrow> gateway_stores \<Rightarrow> gateway_stores" where
  "put_credential agent h g = g\<lparr>gs_credentials := AList.update agent h (gs_credentials g)\<rparr>"

definition register_assignment :: "stdlib \<Rightarrow> trading_assignment \<Rightarrow> (gateway_stores, unit) prog" where
  "register_assignment sl a g =
     (case map_of (gs_assignments g) (tg_assignment_id a) of
        Some existing \<Rightarrow>
          (if assignment_fingerprint sl existing \<noteq> assignment_fingerprint sl a
           then Inl AssignmentConflictError else Inr (), g)
      | None \<Rightarrow> (Inr (), g\<lparr>gs_assignments := AList.update (tg_assignment_id a) a (gs_assignments g)\<rparr>))"

definition issue_bundle :: "stdlib \<Rightarrow> context_bundle \<Rightarrow> (gateway_stores, unit) prog" where
  "issue_bundle sl b g =
     (case map_of (gs_contexts g) (cb_context_id b) of
        Some existing \<Rightarrow>
          (if content_hash sl existing \<noteq> content_hash sl b then Inl ContextConflictError else Inr (), g)
      | None \<Rightarrow>
          (Inr (), g\<lparr>gs_contexts := AList.update (cb_context_id b) b (gs_contexts g),
                    gs_by_hash := AList.update (content_hash sl b) b (gs_by_hash g)\<rparr>))"

fun max_by :: "('a \<Rightarrow> int) \<Rightarrow> 'a list \<Rightarrow> 'a option" where
  \<comment> \<open>\<^verbatim>\<open>max(candidates, key=...)\<close>: the first of the largest\<close>
  "max_by f [] = None"
| "max_by f (x # xs) =
     (case max_by f xs of None \<Rightarrow> Some x | Some y \<Rightarrow> Some (if f x < f y then y else x))"

definition latest_for :: "uuid \<Rightarrow> gateway_stores \<Rightarrow> context_bundle option" where
  "latest_for aid g =
     max_by cb_issued_at (filter (\<lambda>b. cb_assignment_id b = aid) (map snd (gs_contexts g)))"

definition put_evidence :: "agent_evidence \<Rightarrow> gateway_stores \<Rightarrow> gateway_stores" where
  \<comment> \<open>\<^verbatim>\<open>setdefault\<close>: the first recording wins\<close>
  "put_evidence e g =
     (case map_of (gs_evidence g) (ae_feature_snapshot_id e) of
        Some _ \<Rightarrow> g
      | None \<Rightarrow> g\<lparr>gs_evidence := AList.update (ae_feature_snapshot_id e) e (gs_evidence g)\<rparr>)"


subsection \<open>Outcomes\<close>

definition claim_outcome ::
  "uuid \<Rightarrow> agent_outcome_type \<Rightarrow> uuid \<Rightarrow> uuid \<Rightarrow> string \<Rightarrow> utc \<Rightarrow> (gateway_stores, bool) prog" where
  "claim_outcome oid otype agent assignment fp now g =
     (case map_of (gs_outcomes g) oid of
        Some existing \<Rightarrow> (if st_fingerprint existing \<noteq> fp then Inl DecisionConflictError else Inr False, g)
      | None \<Rightarrow>
          (Inr True, g\<lparr>gs_outcomes := AList.update oid
             \<lparr>st_outcome_type = otype, st_agent_id = agent, st_assignment_id = assignment,
              st_fingerprint = fp, st_claimed_at = now, st_events = []\<rparr> (gs_outcomes g)\<rparr>))"

definition claim_trade_proposal :: "stdlib \<Rightarrow> trade_proposal \<Rightarrow> utc \<Rightarrow> (gateway_stores, bool) prog" where
  "claim_trade_proposal sl p now =
     claim_outcome (tp_proposal_id p) TRADE_PROPOSAL (tp_agent_id p) (tp_assignment_id p)
       (proposal_fingerprint sl p) now"

definition claim_no_trade :: "stdlib \<Rightarrow> no_trade_decision \<Rightarrow> utc \<Rightarrow> (gateway_stores, bool) prog" where
  "claim_no_trade sl d now =
     claim_outcome (nd_decision_id d) NO_TRADE (nd_agent_id d) (nd_assignment_id d)
       (no_trade_fingerprint sl d) now"

definition outcome_type :: "uuid \<Rightarrow> gateway_stores \<Rightarrow> agent_outcome_type option" where
  "outcome_type oid g = map_option st_outcome_type (map_of (gs_outcomes g) oid)"

definition count_claimed_since :: "uuid \<Rightarrow> utc \<Rightarrow> gateway_stores \<Rightarrow> int" where
  "count_claimed_since aid since g =
     int (length (filter (\<lambda>r. st_assignment_id r = aid \<and> since \<le> st_claimed_at r) (map snd (gs_outcomes g))))"

definition append_agent_event ::
  "uuid \<Rightarrow> agent_event_type \<Rightarrow> utc \<Rightarrow> string list \<Rightarrow> string option \<Rightarrow> (gateway_stores, unit) prog" where
  "append_agent_event oid kind occurred reasons detail g =
     (case map_of (gs_outcomes g) oid of
        None \<Rightarrow> (Inl KeyError, g)
      | Some stored \<Rightarrow>
          (case find_first (\<lambda>e. av_event_type e = kind) (st_events stored) of
             Some e \<Rightarrow>
               (if (av_reason_codes e, av_detail e) \<noteq> (reasons, detail) then Inl EventConflictError else Inr (), g)
           | None \<Rightarrow>
               (Inr (), g\<lparr>gs_outcomes := AList.update oid
                  (stored\<lparr>st_events := st_events stored @
                     [\<lparr>av_outcome_id = oid, av_event_type = kind, av_occurred_at = occurred,
                       av_reason_codes = reasons, av_detail = detail\<rparr>]\<rparr>) (gs_outcomes g)\<rparr>)))"

definition agent_events_for :: "uuid \<Rightarrow> gateway_stores \<Rightarrow> agent_event list" where
  "agent_events_for oid g = (case map_of (gs_outcomes g) oid of None \<Rightarrow> [] | Some r \<Rightarrow> st_events r)"

definition settling :: "agent_event \<Rightarrow> bool" where
  "settling e \<longleftrightarrow> av_event_type e \<in> {AE_ACCEPTED, AE_REJECTED}"

definition settlement_for :: "uuid \<Rightarrow> gateway_stores \<Rightarrow> agent_event option" where
  "settlement_for oid g =
     (case map_of (gs_outcomes g) oid of None \<Rightarrow> None | Some r \<Rightarrow> find_first settling (st_events r))"

definition latest_outcome_id_for :: "uuid \<Rightarrow> gateway_stores \<Rightarrow> uuid option" where
  "latest_outcome_id_for aid g =
     map_option fst (max_by (\<lambda>kv. st_claimed_at (snd kv))
       (filter (\<lambda>kv. st_assignment_id (snd kv) = aid) (gs_outcomes g)))"


subsection \<open>Facts\<close>

definition byte :: "int \<Rightarrow> bool" where
  "byte b \<longleftrightarrow> 0 \<le> b \<and> b < 256"

lemma nibble_cases:
  "0 \<le> n \<Longrightarrow> n < 16 \<Longrightarrow> n \<in> {0, 1, 2, 3, 4, 5, 6, 7, 8, 9, 10, 11, 12, 13, 14, 15 :: int}"
  by (simp, presburger)

lemma hex_char_digit: "0 \<le> n \<Longrightarrow> n < 16 \<Longrightarrow> hex_digit (hex_char n) = Some n"
  by (drule (1) nibble_cases) (auto simp: hex_char_def Let_def hex_digit.simps)

lemma hex_char_plain:
  "0 \<le> n \<Longrightarrow> n < 16 \<Longrightarrow>
     \<not> hex_space (hex_char n) \<and> (of_char (hex_char n) :: nat) < 128 \<and> CHR '':'' \<noteq> hex_char n"
  by (drule (1) nibble_cases) (auto simp: hex_char_def hex_space_def Let_def)

lemma nibbles: "byte b \<Longrightarrow> 0 \<le> b div 16 \<and> b div 16 < 16 \<and> 0 \<le> b mod 16 \<and> b mod 16 < 16"
  by (auto simp: byte_def)

lemma hex_text_roundtrip: "list_all byte bs \<Longrightarrow> from_hex (hex_text bs) = Some bs"
proof (induction bs)
  case (Cons b bs)
  then show ?case
    using hex_char_plain [of "b div 16"] hex_char_digit [of "b div 16"] hex_char_digit [of "b mod 16"] nibbles [of b]
    by (simp add: hex_text_def del: hex_digit.simps)
qed (simp add: hex_text_def)

lemma hex_text_plain: "list_all byte bs \<Longrightarrow> is_ascii (hex_text bs) \<and> CHR '':'' \<notin> set (hex_text bs)"
proof (induction bs)
  case (Cons b bs)
  then show ?case
    using hex_char_plain [of "b div 16"] hex_char_plain [of "b mod 16"] nibbles [of b]
    by (simp add: hex_text_def is_ascii_def)
qed (simp add: hex_text_def is_ascii_def)

lemma split_colon_append: "CHR '':'' \<notin> set a \<Longrightarrow> split_colon (a @ CHR '':'' # b) = Some (a, b)"
  by (induction a) auto

lemma hex_text_inject: "list_all byte bs \<Longrightarrow> list_all byte cs \<Longrightarrow> hex_text bs = hex_text cs \<longleftrightarrow> bs = cs"
  using hex_text_roundtrip by (metis option.inject)

lemma verify_hashed:
  assumes "list_all byte salt" "\<And>bs. list_all byte (co_sha256 co bs)"
  shows "verify_credential co secret' (hash_credential co salt secret) =
    Inr (co_sha256 co (salt @ co_utf8 co secret') = co_sha256 co (salt @ co_utf8 co secret))"
proof -
  let ?d = "hex_text (co_sha256 co (salt @ co_utf8 co secret))"
  have "split_colon (hash_credential co salt secret) = Some (hex_text salt, ?d)"
    using split_colon_append hex_text_plain [OF assms(1)] by (simp add: hash_credential_def)
  then show ?thesis
    using hex_text_plain [OF assms(2)]
    by (simp add: verify_credential_def hex_text_roundtrip [OF assms(1)] hex_text_inject [OF assms(2) assms(2)])
qed

lemma map_of_update [simp]: "map_of (AList.update k v xs) = (map_of xs)(k \<mapsto> v)"
  by (rule AList.update_conv')

lemma update_new: "map_of xs k = None \<Longrightarrow> AList.update k v xs = xs @ [(k, v)]"
  by (induction xs) (auto split: if_splits)

lemma update_last: "map_of xs k = None \<Longrightarrow> AList.update k v (xs @ [(k, u)]) = xs @ [(k, v)]"
  by (induction xs) (auto split: if_splits)

end
