(* ===== verification/Agent_Gateway.thy ===== *)
theory Agent_Gateway
  imports Agent_Stores
begin

text \<open>
  The agent gateway (\<^verbatim>\<open>agent_gateway/gateway.py\<close>): registration, the publication of a
  context, authentication, and the submission of a proposal or of a decision not to trade,
  from the durable claim over the checks to the recorded verdict. \<open>ge_durable\<close> says whether
  the store's transaction is PostgreSQL's, which undoes the outcome tables when its body
  raises, or the in-memory one, which does nothing; \<^verbatim>\<open>lock_assignment\<close> serialises
  submissions of one assignment and has no other effect, so a run is a sequence of calls.
\<close>

record gateway_env =
  ge_stdlib :: stdlib
  ge_credentials :: credential_ops
  ge_durable :: bool

record outcome_result =
  res_outcome_id :: uuid
  res_outcome_type :: agent_outcome_type
  res_accepted :: bool
  res_reason :: "rejection_reason option"
  res_trade_intent :: "trade_intent option"

definition RATE_LIMIT_WINDOW :: int where "RATE_LIMIT_WINDOW = US_HOUR"
definition DEFAULT_CONTEXT_VALIDITY :: int where "DEFAULT_CONTEXT_VALIDITY = 300000000"

definition derive_trade_intent_id :: "stdlib \<Rightarrow> uuid \<Rightarrow> uuid" where
  "derive_trade_intent_id sl pid = uuid5_dns sl (''crumblr:agent_trade_intent:'' @ pid)"


subsection \<open>Administration\<close>

definition register_identity ::
  "gateway_env \<Rightarrow> int list \<Rightarrow> agent_identity \<Rightarrow> string \<Rightarrow> (gateway_stores, unit) prog" where
  "register_identity env salt i secret =
     bindM (modifyM (put_identity i)) (\<lambda>_.
     modifyM (put_credential (ai_agent_id i) (hash_credential (ge_credentials env) salt secret)))"

definition issue_assignment :: "gateway_env \<Rightarrow> trading_assignment \<Rightarrow> (gateway_stores, unit) prog" where
  "issue_assignment env a = register_assignment (ge_stdlib env) a"

definition issue_context_bundle :: "gateway_env \<Rightarrow> context_bundle \<Rightarrow> (gateway_stores, context_bundle) prog" where
  "issue_context_bundle env b =
     bindM (getM (\<lambda>g. map_of (gs_evidence g) (cb_feature_snapshot_id b))) (\<lambda>evidence.
     case evidence of
       None \<Rightarrow> raiseM UnknownFeatureSnapshotError
     | Some _ \<Rightarrow> bindM (issue_bundle (ge_stdlib env) b) (\<lambda>_. returnM b))"

record context_request =
  cq_assignment_id :: uuid
  cq_symbol :: string
  cq_market_snapshot_id :: uuid
  cq_instrument_spec_version :: string
  cq_portfolio_summary_hash :: string
  cq_session_state :: session_state
  cq_data_quality :: data_quality
  cq_now :: utc
  cq_policy_hints :: "policy_hints option"
  cq_news_snapshot_id :: "uuid option"
  cq_validity :: int

definition publish_context ::
  "gateway_env \<Rightarrow> uuid \<Rightarrow> context_request \<Rightarrow> (gateway_stores, context_bundle) prog" where
  \<comment> \<open>the first argument is what \<^verbatim>\<open>uuid4\<close> returned\<close>
  "publish_context env fresh q =
     bindM (liftM (build_agent_context_evidence (ge_stdlib env) (cq_symbol q) (cq_now q)
                     (cq_market_snapshot_id q) (cq_instrument_spec_version q) (cq_session_state q)
                     (cq_data_quality q))) (\<lambda>evidence.
     bindM (modifyM (put_evidence evidence)) (\<lambda>_.
     bindM (liftM (contract context_bundle_valid
       \<lparr>cb_context_id = fresh, cb_assignment_id = cq_assignment_id q,
        cb_market_snapshot_id = cq_market_snapshot_id q,
        cb_instrument_spec_version = cq_instrument_spec_version q,
        cb_portfolio_summary_hash = cq_portfolio_summary_hash q, cb_session_state = cq_session_state q,
        cb_data_quality = cq_data_quality q, cb_feature_snapshot_id = ae_feature_snapshot_id evidence,
        cb_policy_hints = cq_policy_hints q, cb_news_snapshot_id = cq_news_snapshot_id q,
        cb_issued_at = cq_now q, cb_expires_at = cq_now q + cq_validity q\<rparr>)) (\<lambda>b.
     issue_context_bundle env b)))"

definition authenticate :: "gateway_env \<Rightarrow> uuid \<Rightarrow> string \<Rightarrow> (gateway_stores, agent_identity) prog" where
  "authenticate env agent secret g =
     (case map_of (gs_identities g) agent of
        None \<Rightarrow> (Inl UnknownAgentError, g)
      | Some i \<Rightarrow>
          (case map_of (gs_credentials g) agent of
             None \<Rightarrow> (Inl AuthenticationError, g)
           | Some h \<Rightarrow>
               (bindE (verify_credential (ge_credentials env) secret h) (\<lambda>ok.
                  if \<not> ok then Inl AuthenticationError
                  else if ai_status i \<noteq> AS_ACTIVE then Inl AgentNotActiveError
                  else Inr i), g)))"


subsection \<open>Checks\<close>

definition assignment_scope_reason ::
  "agent_identity \<Rightarrow> trading_assignment option \<Rightarrow> utc \<Rightarrow> rejection_reason option" where
  "assignment_scope_reason i assignment now =
     (case assignment of
        None \<Rightarrow> Some UNKNOWN_ASSIGNMENT
      | Some a \<Rightarrow>
          if tg_allowed_agent_id a \<noteq> ai_agent_id i then Some ASSIGNMENT_NOT_OWNED
          else if \<not> (tg_valid_from a \<le> now \<and> now \<le> tg_valid_until a) then Some ASSIGNMENT_NOT_VALID_AT_TIME
          else None)"

definition context_reason ::
  "gateway_stores \<Rightarrow> trading_assignment \<Rightarrow> string \<Rightarrow> utc \<Rightarrow> rejection_reason option" where
  "context_reason g a h now =
     (case map_of (gs_by_hash g) h of
        None \<Rightarrow> Some UNKNOWN_CONTEXT
      | Some b \<Rightarrow>
          if cb_assignment_id b \<noteq> tg_assignment_id a then Some CONTEXT_ASSIGNMENT_MISMATCH
          else if cb_expires_at b \<le> now then Some CONTEXT_EXPIRED
          else None)"

definition evaluate_proposal ::
  "gateway_stores \<Rightarrow> agent_identity \<Rightarrow> trade_proposal \<Rightarrow> trading_assignment option \<Rightarrow> int option \<Rightarrow> utc \<Rightarrow>
     py_exn + rejection_reason option" where
  "evaluate_proposal g i p assignment claimed now =
     (case assignment_scope_reason i assignment now of
        Some r \<Rightarrow> Inr (Some r)
      | None \<Rightarrow>
          (case assignment of
             None \<Rightarrow> Inl AssertionError
           | Some a \<Rightarrow> Inr
               (if tp_strategy_artifact_hash p \<noteq> tg_strategy_artifact_hash a then Some STRATEGY_ARTIFACT_MISMATCH
                else if (case claimed of None \<Rightarrow> False | Some n \<Rightarrow> tg_max_proposals_per_hour a < n)
                  then Some RATE_LIMIT_EXCEEDED
                else if \<not> (tg_risk_fraction_min a \<le> tp_requested_risk_fraction p \<and>
                          tp_requested_risk_fraction p \<le> tg_risk_fraction_max a)
                  then Some RISK_FRACTION_OUT_OF_BAND
                else if tp_reason_codes p = [] then Some MISSING_REASON_CODES
                else if tg_required_evidence_fields a \<noteq> [] \<and> tp_evidence_refs p = []
                  then Some MISSING_REQUIRED_EVIDENCE
                else if tp_expires_at p \<le> now then Some PROPOSAL_EXPIRED
                else context_reason g a (tp_context_hash p) now)))"

definition evaluate_no_trade ::
  "gateway_stores \<Rightarrow> agent_identity \<Rightarrow> no_trade_decision \<Rightarrow> trading_assignment option \<Rightarrow> utc \<Rightarrow>
     py_exn + rejection_reason option" where
  "evaluate_no_trade g i d assignment now =
     (case assignment_scope_reason i assignment now of
        Some r \<Rightarrow> Inr (Some r)
      | None \<Rightarrow>
          (case assignment of
             None \<Rightarrow> Inl AssertionError
           | Some a \<Rightarrow> Inr (context_reason g a (nd_context_hash d) now)))"


subsection \<open>The platform's own intent\<close>

definition mapped_intent :: "stdlib \<Rightarrow> trade_proposal \<Rightarrow> trading_assignment \<Rightarrow> context_bundle \<Rightarrow> trade_intent" where
  "mapped_intent sl p a b =
     \<lparr>ti_intent_id = derive_trade_intent_id sl (tp_proposal_id p), ti_strategy_id = ''external_agent'',
      ti_strategy_version = tg_strategy_artifact_hash a, ti_model_version = None,
      ti_symbol = tg_canonical_symbol a, ti_side = tp_side p, ti_created_at = tp_submitted_at p,
      ti_expires_at = tp_expires_at p, ti_entry_type = tp_entry_type p,
      ti_reference_price = tp_reference_price p, ti_stop_loss_price = Some (tp_stop_loss_price p),
      ti_take_profit_price = Some (tp_take_profit_price p), ti_confidence = tp_confidence p,
      ti_reason_codes = tp_reason_codes p, ti_requested_risk_fraction = Some (tp_requested_risk_fraction p),
      ti_feature_snapshot_id = cb_feature_snapshot_id b\<rparr>"

definition build_trade_intent ::
  "gateway_env \<Rightarrow> gateway_stores \<Rightarrow> trade_proposal \<Rightarrow> trading_assignment \<Rightarrow> py_exn + trade_intent" where
  "build_trade_intent env g p a =
     (case map_of (gs_by_hash g) (tp_context_hash p) of
        None \<Rightarrow> Inl AssertionError
      | Some b \<Rightarrow> contract trade_intent_valid (mapped_intent (ge_stdlib env) p a b))"


subsection \<open>Settlement\<close>

definition settle ::
  "uuid \<Rightarrow> agent_outcome_type \<Rightarrow> rejection_reason option \<Rightarrow> utc \<Rightarrow> trade_intent option \<Rightarrow>
     (gateway_stores, outcome_result) prog" where
  "settle oid otype reason now intent =
     (case reason of
        Some r \<Rightarrow>
          bindM (append_agent_event oid AE_REJECTED now [rejection_value r] None) (\<lambda>_.
          returnM \<lparr>res_outcome_id = oid, res_outcome_type = otype, res_accepted = False,
                   res_reason = Some r, res_trade_intent = None\<rparr>)
      | None \<Rightarrow>
          bindM (append_agent_event oid AE_ACCEPTED now [] None) (\<lambda>_.
          returnM \<lparr>res_outcome_id = oid, res_outcome_type = otype, res_accepted = True,
                   res_reason = None, res_trade_intent = intent\<rparr>))"

definition result_from_settlement ::
  "gateway_env \<Rightarrow> agent_event \<Rightarrow> agent_outcome_type \<Rightarrow> trade_proposal option \<Rightarrow>
     (gateway_stores, outcome_result) prog" where
  "result_from_settlement env ev otype proposal g =
     (if av_event_type ev = AE_REJECTED
      then mapE (\<lambda>reason. \<lparr>res_outcome_id = av_outcome_id ev, res_outcome_type = otype, res_accepted = False,
                           res_reason = reason, res_trade_intent = None\<rparr>)
             (case av_reason_codes ev of [] \<Rightarrow> Inr None | r # _ \<Rightarrow> mapE Some (rejection_of_value r))
      else mapE (\<lambda>intent. \<lparr>res_outcome_id = av_outcome_id ev, res_outcome_type = otype, res_accepted = True,
                           res_reason = None, res_trade_intent = intent\<rparr>)
             (if otype \<noteq> TRADE_PROPOSAL then Inr None
              else case proposal of
                     None \<Rightarrow> Inl AssertionError
                   | Some p \<Rightarrow>
                       (case map_of (gs_assignments g) (tp_assignment_id p) of
                          None \<Rightarrow> Inl AssertionError
                        | Some a \<Rightarrow> mapE Some (build_trade_intent env g p a))), g)"

definition outcome_transaction :: "gateway_env \<Rightarrow> (gateway_stores, 'a) prog \<Rightarrow> (gateway_stores, 'a) prog" where
  "outcome_transaction env body g =
     (case body g of
        (Inl e, g') \<Rightarrow> (Inl e, if ge_durable env then g'\<lparr>gs_outcomes := gs_outcomes g\<rparr> else g')
      | (Inr x, g') \<Rightarrow> (Inr x, g'))"


subsection \<open>Submission\<close>

definition judge_proposal ::
  "gateway_env \<Rightarrow> agent_identity \<Rightarrow> trade_proposal \<Rightarrow> utc \<Rightarrow> (gateway_stores, outcome_result) prog" where
  "judge_proposal env i p now =
     bindM (append_agent_event (tp_proposal_id p) AE_RECEIVED now [] None) (\<lambda>_.
     bindM (getM (\<lambda>g. map_of (gs_assignments g) (tp_assignment_id p))) (\<lambda>assignment.
     bindM (getM (\<lambda>g. map_option (\<lambda>a. count_claimed_since (tg_assignment_id a) (now - RATE_LIMIT_WINDOW) g) assignment)) (\<lambda>count.
     bindM (bindM (getM (\<lambda>g. evaluate_proposal g i p assignment count now)) liftM) (\<lambda>reason.
     case reason of
       Some r \<Rightarrow> settle (tp_proposal_id p) TRADE_PROPOSAL (Some r) now None
     | None \<Rightarrow>
         (case assignment of
            None \<Rightarrow> raiseM AssertionError
          | Some a \<Rightarrow>
              bindM (bindM (getM (\<lambda>g. build_trade_intent env g p a)) liftM) (\<lambda>intent.
              settle (tp_proposal_id p) TRADE_PROPOSAL None now (Some intent)))))))"

definition submit_trade_proposal ::
  "gateway_env \<Rightarrow> uuid \<Rightarrow> string \<Rightarrow> trade_proposal \<Rightarrow> utc \<Rightarrow> (gateway_stores, outcome_result) prog" where
  "submit_trade_proposal env agent secret p now =
     bindM (authenticate env agent secret) (\<lambda>i.
     if tp_agent_id p \<noteq> ai_agent_id i then raiseM ImpersonationError
     else outcome_transaction env
       (bindM (claim_trade_proposal (ge_stdlib env) p now) (\<lambda>claimed.
        bindM (getM (\<lambda>g. if claimed then None else settlement_for (tp_proposal_id p) g)) (\<lambda>settled.
        case settled of
          Some ev \<Rightarrow> result_from_settlement env ev TRADE_PROPOSAL (Some p)
        | None \<Rightarrow> judge_proposal env i p now))))"

definition judge_no_trade ::
  "gateway_env \<Rightarrow> agent_identity \<Rightarrow> no_trade_decision \<Rightarrow> utc \<Rightarrow> (gateway_stores, outcome_result) prog" where
  "judge_no_trade env i d now =
     bindM (append_agent_event (nd_decision_id d) AE_RECEIVED now [] None) (\<lambda>_.
     bindM (getM (\<lambda>g. map_of (gs_assignments g) (nd_assignment_id d))) (\<lambda>assignment.
     bindM (bindM (getM (\<lambda>g. evaluate_no_trade g i d assignment now)) liftM) (\<lambda>reason.
     settle (nd_decision_id d) NO_TRADE reason now None)))"

definition submit_no_trade ::
  "gateway_env \<Rightarrow> uuid \<Rightarrow> string \<Rightarrow> no_trade_decision \<Rightarrow> utc \<Rightarrow> (gateway_stores, outcome_result) prog" where
  "submit_no_trade env agent secret d now =
     bindM (authenticate env agent secret) (\<lambda>i.
     if nd_agent_id d \<noteq> ai_agent_id i then raiseM ImpersonationError
     else outcome_transaction env
       (bindM (claim_no_trade (ge_stdlib env) d now) (\<lambda>claimed.
        bindM (getM (\<lambda>g. if claimed then None else settlement_for (nd_decision_id d) g)) (\<lambda>settled.
        case settled of
          Some ev \<Rightarrow> result_from_settlement env ev NO_TRADE None
        | None \<Rightarrow> judge_no_trade env i d now))))"

end
