(* ===== verification/Agent_Safety.thy ===== *)
theory Agent_Safety
  imports Agent_Gateway
begin

text \<open>
  What the agent gateway guarantees over any history of calls: every submission has one of
  three closed forms (a fresh verdict, the recorded verdict again, a conflict), every claimed
  outcome has exactly one verdict on record, a verdict never changes, and the rate limit of an
  assignment holds for every hour.
\<close>

subsection \<open>The verdict on a proposal, as one expression\<close>

definition proposal_verdict ::
  "gateway_stores \<Rightarrow> agent_identity \<Rightarrow> trade_proposal \<Rightarrow> utc \<Rightarrow> rejection_reason option" where
  "proposal_verdict g i p now =
     (case map_of (gs_assignments g) (tp_assignment_id p) of
        None \<Rightarrow> Some UNKNOWN_ASSIGNMENT
      | Some a \<Rightarrow>
          if tg_allowed_agent_id a \<noteq> ai_agent_id i then Some ASSIGNMENT_NOT_OWNED
          else if \<not> (tg_valid_from a \<le> now \<and> now \<le> tg_valid_until a) then Some ASSIGNMENT_NOT_VALID_AT_TIME
          else if tp_strategy_artifact_hash p \<noteq> tg_strategy_artifact_hash a then Some STRATEGY_ARTIFACT_MISMATCH
          else if tg_max_proposals_per_hour a \<le>
              count_claimed_since (tp_assignment_id p) (now - RATE_LIMIT_WINDOW) g then Some RATE_LIMIT_EXCEEDED
          else if \<not> (tg_risk_fraction_min a \<le> tp_requested_risk_fraction p \<and>
                    tp_requested_risk_fraction p \<le> tg_risk_fraction_max a) then Some RISK_FRACTION_OUT_OF_BAND
          else if tp_reason_codes p = [] then Some MISSING_REASON_CODES
          else if tg_required_evidence_fields a \<noteq> [] \<and> tp_evidence_refs p = [] then Some MISSING_REQUIRED_EVIDENCE
          else if tp_expires_at p \<le> now then Some PROPOSAL_EXPIRED
          else context_reason g a (tp_context_hash p) now)"

definition no_trade_verdict ::
  "gateway_stores \<Rightarrow> agent_identity \<Rightarrow> no_trade_decision \<Rightarrow> utc \<Rightarrow> rejection_reason option" where
  "no_trade_verdict g i d now =
     (let assignment = map_of (gs_assignments g) (nd_assignment_id d) in
      case assignment_scope_reason i assignment now of
        Some r \<Rightarrow> Some r
      | None \<Rightarrow> context_reason g (the assignment) (nd_context_hash d) now)"

definition verdict_event :: "uuid \<Rightarrow> utc \<Rightarrow> rejection_reason option \<Rightarrow> agent_event" where
  "verdict_event oid now v =
     \<lparr>av_outcome_id = oid, av_event_type = (if v = None then AE_ACCEPTED else AE_REJECTED),
      av_occurred_at = now, av_reason_codes = (case v of None \<Rightarrow> [] | Some r \<Rightarrow> [rejection_value r]),
      av_detail = None\<rparr>"

definition received_event :: "uuid \<Rightarrow> utc \<Rightarrow> agent_event" where
  "received_event oid now =
     \<lparr>av_outcome_id = oid, av_event_type = AE_RECEIVED, av_occurred_at = now, av_reason_codes = [],
      av_detail = None\<rparr>"

definition claim_row :: "agent_outcome_type \<Rightarrow> uuid \<Rightarrow> uuid \<Rightarrow> string \<Rightarrow> utc \<Rightarrow> agent_event list \<Rightarrow> stored_outcome" where
  "claim_row otype agent assignment fp now es =
     \<lparr>st_outcome_type = otype, st_agent_id = agent, st_assignment_id = assignment, st_fingerprint = fp,
      st_claimed_at = now, st_events = es\<rparr>"

lemma claim_row_simps [simp]:
  "st_outcome_type (claim_row t ag asg fp c es) = t" "st_agent_id (claim_row t ag asg fp c es) = ag"
  "st_assignment_id (claim_row t ag asg fp c es) = asg" "st_fingerprint (claim_row t ag asg fp c es) = fp"
  "st_claimed_at (claim_row t ag asg fp c es) = c" "st_events (claim_row t ag asg fp c es) = es"
  "(claim_row t ag asg fp c es)\<lparr>st_events := fs\<rparr> = claim_row t ag asg fp c fs"
  by (simp_all add: claim_row_def)

definition settled_outcome ::
  "uuid \<Rightarrow> agent_outcome_type \<Rightarrow> uuid \<Rightarrow> uuid \<Rightarrow> string \<Rightarrow> utc \<Rightarrow> rejection_reason option \<Rightarrow> stored_outcome" where
  "settled_outcome oid otype agent assignment fp now v =
     claim_row otype agent assignment fp now [received_event oid now, verdict_event oid now v]"

definition verdict_result ::
  "uuid \<Rightarrow> agent_outcome_type \<Rightarrow> rejection_reason option \<Rightarrow> trade_intent option \<Rightarrow> outcome_result" where
  "verdict_result oid otype v intent =
     \<lparr>res_outcome_id = oid, res_outcome_type = otype, res_accepted = (v = None), res_reason = v,
      res_trade_intent = (if v = None then intent else None)\<rparr>"


subsection \<open>Well-formed stores\<close>

definition outcome_ok :: "uuid \<Rightarrow> stored_outcome \<Rightarrow> bool" where
  "outcome_ok oid r \<longleftrightarrow>
     (\<exists>v. st_events r = [received_event oid (st_claimed_at r), verdict_event oid (st_claimed_at r) v])"

definition accepted_proposal :: "stored_outcome \<Rightarrow> bool" where
  "accepted_proposal r \<longleftrightarrow>
     st_outcome_type r = TRADE_PROPOSAL \<and> AE_ACCEPTED \<in> av_event_type ` set (st_events r)"

definition accepted_between :: "uuid \<Rightarrow> utc \<Rightarrow> utc \<Rightarrow> gateway_stores \<Rightarrow> stored_outcome list" where
  "accepted_between aid lo hi g =
     filter (\<lambda>r. accepted_proposal r \<and> st_assignment_id r = aid \<and> lo \<le> st_claimed_at r \<and> st_claimed_at r \<le> hi)
       (map snd (gs_outcomes g))"

definition gateway_ok :: "gateway_env \<Rightarrow> gateway_stores \<Rightarrow> bool" where
  "gateway_ok env g \<longleftrightarrow>
     distinct (map fst (gs_outcomes g)) \<and>
     (\<forall>(oid, r) \<in> set (gs_outcomes g). outcome_ok oid r) \<and>
     (\<forall>aid a. map_of (gs_assignments g) aid = Some a \<longrightarrow> tg_assignment_id a = aid \<and> trading_assignment_valid a) \<and>
     (\<forall>agent i. map_of (gs_identities g) agent = Some i \<longrightarrow> ai_agent_id i = agent) \<and>
     (\<forall>h b. map_of (gs_by_hash g) h = Some b \<longrightarrow>
        content_hash (ge_stdlib env) b = h \<and> (\<exists>cid. map_of (gs_contexts g) cid = Some b)) \<and>
     (\<forall>cid b. map_of (gs_contexts g) cid = Some b \<longrightarrow> map_of (gs_evidence g) (cb_feature_snapshot_id b) \<noteq> None)"

definition rate_ok :: "gateway_stores \<Rightarrow> bool" where
  "rate_ok g \<longleftrightarrow>
     (\<forall>(oid, r) \<in> set (gs_outcomes g). accepted_proposal r \<longrightarrow>
        (\<exists>a. map_of (gs_assignments g) (st_assignment_id r) = Some a \<and> tg_allowed_agent_id a = st_agent_id r)) \<and>
     (\<forall>aid a lo. map_of (gs_assignments g) aid = Some a \<longrightarrow>
        int (length (accepted_between aid lo (lo + RATE_LIMIT_WINDOW) g)) \<le> tg_max_proposals_per_hour a)"


subsection \<open>One submission\<close>

lemma authenticate_same [simp]: "snd (authenticate env agent secret g) = g"
  by (simp add: authenticate_def split: option.split)

lemma authenticate_agent:
  "gateway_ok env g \<Longrightarrow> authenticate env agent secret g = (Inr i, g') \<Longrightarrow>
     ai_agent_id i = agent \<and> map_of (gs_identities g) agent = Some i \<and> ai_status i = AS_ACTIVE \<and> g' = g"
  by (auto simp: authenticate_def gateway_ok_def bindE_eq_Inr split: option.splits if_splits)

lemma append_new_event:
  assumes "map_of (gs_outcomes g) oid = None" "kind \<notin> av_event_type ` set es"
  shows "append_agent_event oid kind now reasons detail (g\<lparr>gs_outcomes := gs_outcomes g @ [(oid, claim_row t ag asg fp c es)]\<rparr>) =
    (Inr (), g\<lparr>gs_outcomes := gs_outcomes g @ [(oid, claim_row t ag asg fp c
       (es @ [\<lparr>av_outcome_id = oid, av_event_type = kind, av_occurred_at = now, av_reason_codes = reasons,
               av_detail = detail\<rparr>]))]\<rparr>)"
proof -
  have none: "find_first (\<lambda>e. av_event_type e = kind) es = None" using assms(2) by (simp add: image_iff) metis
  have row: "map_of (gs_outcomes g @ [(oid, claim_row t ag asg fp c es)]) oid = Some (claim_row t ag asg fp c es)"
    using assms(1) by (simp add: map_add_def)
  show ?thesis
    using assms(1)
    by (simp add: append_agent_event_def row del: map_of_append) (simp add: none update_last)
qed

lemma settle_new:
  assumes "map_of (gs_outcomes g) oid = None"
  shows "settle oid otype v now intent
      (g\<lparr>gs_outcomes := gs_outcomes g @ [(oid, claim_row t ag asg fp c [received_event oid c])]\<rparr>) =
    (Inr (verdict_result oid otype v intent),
     g\<lparr>gs_outcomes := gs_outcomes g @ [(oid, claim_row t ag asg fp c [received_event oid c, verdict_event oid now v])]\<rparr>)"
  using append_new_event [OF assms, of _ "[received_event oid c]" now _ _ t ag asg fp c]
  by (simp add: settle_def verdict_event_def verdict_result_def received_event_def bindM_def split: option.split)

lemma scope_known: "assignment_scope_reason i assignment now = None \<Longrightarrow> assignment \<noteq> None"
  by (auto simp: assignment_scope_reason_def split: option.splits)

lemma bindM_asked [simp]:
  "bindM (bindM (getM f) liftM) k w = (case f w of Inl e \<Rightarrow> (Inl e, w) | Inr x \<Rightarrow> k x w)"
  by (simp add: bindM_def split: sum.split)

lemma context_reason_outcomes [simp]: "context_reason (g\<lparr>gs_outcomes := x\<rparr>) a h now = context_reason g a h now"
  by (simp add: context_reason_def)

lemma build_intent_outcomes [simp]: "build_trade_intent env (g\<lparr>gs_outcomes := x\<rparr>) p a = build_trade_intent env g p a"
  by (simp add: build_trade_intent_def)

lemma count_with_claim:
  "st_assignment_id r = aid \<Longrightarrow> since \<le> st_claimed_at r \<Longrightarrow>
     count_claimed_since aid since (g\<lparr>gs_outcomes := gs_outcomes g @ [(oid, r)]\<rparr>) = count_claimed_since aid since g + 1"
  by (simp add: count_claimed_since_def)

lemma evaluate_is_verdict:
  assumes "gateway_ok env g" "st_assignment_id r = tp_assignment_id p" "now \<le> st_claimed_at r"
  shows "evaluate_proposal (g\<lparr>gs_outcomes := gs_outcomes g @ [(oid, r)]\<rparr>) i p
      (map_of (gs_assignments g) (tp_assignment_id p))
      (map_option (\<lambda>a. count_claimed_since (tg_assignment_id a) (now - RATE_LIMIT_WINDOW)
         (g\<lparr>gs_outcomes := gs_outcomes g @ [(oid, r)]\<rparr>)) (map_of (gs_assignments g) (tp_assignment_id p))) now =
    Inr (proposal_verdict g i p now)"
proof (cases "map_of (gs_assignments g) (tp_assignment_id p)")
  case (Some a)
  with assms(1) have "tg_assignment_id a = tp_assignment_id p" by (simp add: gateway_ok_def)
  moreover have "now - RATE_LIMIT_WINDOW \<le> st_claimed_at r" using assms(3) by (simp add: RATE_LIMIT_WINDOW_def)
  ultimately show ?thesis
    using assms(2) Some
    by (auto simp: evaluate_proposal_def proposal_verdict_def assignment_scope_reason_def count_with_claim)
qed (simp add: evaluate_proposal_def proposal_verdict_def assignment_scope_reason_def)

lemma verdict_accepts:
  "proposal_verdict g i p now = None \<longleftrightarrow>
     (\<exists>a b. map_of (gs_assignments g) (tp_assignment_id p) = Some a \<and>
        map_of (gs_by_hash g) (tp_context_hash p) = Some b \<and>
        tg_allowed_agent_id a = ai_agent_id i \<and> tg_valid_from a \<le> now \<and> now \<le> tg_valid_until a \<and>
        tp_strategy_artifact_hash p = tg_strategy_artifact_hash a \<and>
        count_claimed_since (tp_assignment_id p) (now - RATE_LIMIT_WINDOW) g < tg_max_proposals_per_hour a \<and>
        tg_risk_fraction_min a \<le> tp_requested_risk_fraction p \<and>
        tp_requested_risk_fraction p \<le> tg_risk_fraction_max a \<and> tp_reason_codes p \<noteq> [] \<and>
        (tg_required_evidence_fields a \<noteq> [] \<longrightarrow> tp_evidence_refs p \<noteq> []) \<and> now < tp_expires_at p \<and>
        cb_assignment_id b = tg_assignment_id a \<and> now < cb_expires_at b)"
  by (auto simp: proposal_verdict_def context_reason_def split: option.splits)

lemma registered_assignment:
  "gateway_ok env g \<Longrightarrow> map_of (gs_assignments g) aid = Some a \<Longrightarrow>
     tg_assignment_id a = aid \<and> trading_assignment_valid a"
  by (simp add: gateway_ok_def)

lemma hashed_context:
  "gateway_ok env g \<Longrightarrow> map_of (gs_by_hash g) h = Some b \<Longrightarrow>
     content_hash (ge_stdlib env) b = h \<and> (\<exists>cid. map_of (gs_contexts g) cid = Some b)"
  by (simp add: gateway_ok_def)

text \<open>An accepted proposal always satisfies the platform's own contract.\<close>

lemma mapped_intent_valid:
  assumes "trade_proposal_valid p" "trading_assignment_valid a" "tp_reason_codes p \<noteq> []"
  shows "trade_intent_valid (mapped_intent sl p a b)"
  using assms
  by (cases "tp_side p")
     (auto simp: trade_intent_valid_def mapped_intent_def trade_proposal_valid_def trading_assignment_valid_def
       check_lifetime_def check_directional_requirements_def check_stop_direction_def
       stop_and_target_direction_def text_ok_def DIRECTIONAL_SIDES_def)

definition intent_of_proposal :: "gateway_env \<Rightarrow> gateway_stores \<Rightarrow> trade_proposal \<Rightarrow> trade_intent" where
  "intent_of_proposal env g p =
     mapped_intent (ge_stdlib env) p (the (map_of (gs_assignments g) (tp_assignment_id p)))
       (the (map_of (gs_by_hash g) (tp_context_hash p)))"

lemma build_accepted:
  assumes "gateway_ok env g" "trade_proposal_valid p" "proposal_verdict g i p now = None"
    "map_of (gs_assignments g) (tp_assignment_id p) = Some a"
  shows "build_trade_intent env g p a = Inr (intent_of_proposal env g p)"
  using assms mapped_intent_valid [OF assms(2), of a "ge_stdlib env"]
  by (auto simp: verdict_accepts build_trade_intent_def intent_of_proposal_def gateway_ok_def)

lemma judge_fresh:
  assumes "gateway_ok env g" "trade_proposal_valid p" "map_of (gs_outcomes g) (tp_proposal_id p) = None"
  shows "judge_proposal env i p now
      (g\<lparr>gs_outcomes := gs_outcomes g @
         [(tp_proposal_id p, claim_row TRADE_PROPOSAL ag (tp_assignment_id p) fp now [])]\<rparr>) =
    (Inr (verdict_result (tp_proposal_id p) TRADE_PROPOSAL (proposal_verdict g i p now)
            (Some (intent_of_proposal env g p))),
     g\<lparr>gs_outcomes := gs_outcomes g @
         [(tp_proposal_id p, settled_outcome (tp_proposal_id p) TRADE_PROPOSAL ag (tp_assignment_id p) fp now
             (proposal_verdict g i p now))]\<rparr>)"
proof -
  let ?oid = "tp_proposal_id p" and ?v = "proposal_verdict g i p now"
  let ?row = "claim_row TRADE_PROPOSAL ag (tp_assignment_id p) fp now [received_event ?oid now]"
  let ?g = "g\<lparr>gs_outcomes := gs_outcomes g @ [(?oid, ?row)]\<rparr>"
  have received: "append_agent_event ?oid AE_RECEIVED now [] None
      (g\<lparr>gs_outcomes := gs_outcomes g @ [(?oid, claim_row TRADE_PROPOSAL ag (tp_assignment_id p) fp now [])]\<rparr>) =
    (Inr (), ?g)"
    using append_new_event [OF assms(3), of AE_RECEIVED "[]"] by (simp add: received_event_def)
  then have step: "bindM (append_agent_event ?oid AE_RECEIVED now [] None) f
      (g\<lparr>gs_outcomes := gs_outcomes g @ [(?oid, claim_row TRADE_PROPOSAL ag (tp_assignment_id p) fp now [])]\<rparr>) =
    f () ?g" for f :: "unit \<Rightarrow> (gateway_stores, outcome_result) prog"
    by (simp add: bindM_def)
  note verdict = evaluate_is_verdict [OF assms(1), of ?row p now ?oid i]
  note settled = settle_new [OF assms(3), of TRADE_PROPOSAL _ now _ TRADE_PROPOSAL ag "tp_assignment_id p" fp now]
  show ?thesis
  proof (cases ?v)
    case (Some r)
    then show ?thesis
      using verdict settled [of ?v]
      by (simp add: judge_proposal_def step settled_outcome_def verdict_result_def)
  next
    case None
    then obtain a where a: "map_of (gs_assignments g) (tp_assignment_id p) = Some a" by (auto simp: verdict_accepts)
    from None show ?thesis
      using verdict settled [of None] a build_accepted [OF assms(1,2) None a]
      by (simp add: judge_proposal_def step settled_outcome_def)
  qed
qed

lemma judge_no_trade_fresh:
  assumes "map_of (gs_outcomes g) (nd_decision_id d) = None"
  shows "judge_no_trade env i d now
      (g\<lparr>gs_outcomes := gs_outcomes g @
         [(nd_decision_id d, claim_row NO_TRADE ag (nd_assignment_id d) fp now [])]\<rparr>) =
    (Inr (verdict_result (nd_decision_id d) NO_TRADE (no_trade_verdict g i d now) None),
     g\<lparr>gs_outcomes := gs_outcomes g @
         [(nd_decision_id d, settled_outcome (nd_decision_id d) NO_TRADE ag (nd_assignment_id d) fp now
             (no_trade_verdict g i d now))]\<rparr>)"
proof -
  let ?oid = "nd_decision_id d"
  let ?g = "g\<lparr>gs_outcomes := gs_outcomes g @
    [(?oid, claim_row NO_TRADE ag (nd_assignment_id d) fp now [received_event ?oid now])]\<rparr>"
  have "append_agent_event ?oid AE_RECEIVED now [] None
      (g\<lparr>gs_outcomes := gs_outcomes g @ [(?oid, claim_row NO_TRADE ag (nd_assignment_id d) fp now [])]\<rparr>) =
    (Inr (), ?g)"
    using append_new_event [OF assms, of AE_RECEIVED "[]"] by (simp add: received_event_def)
  then have step: "bindM (append_agent_event ?oid AE_RECEIVED now [] None) f
      (g\<lparr>gs_outcomes := gs_outcomes g @ [(?oid, claim_row NO_TRADE ag (nd_assignment_id d) fp now [])]\<rparr>) =
    f () ?g" for f :: "unit \<Rightarrow> (gateway_stores, outcome_result) prog"
    by (simp add: bindM_def)
  have "evaluate_no_trade ?g i d (map_of (gs_assignments g) (nd_assignment_id d)) now =
      Inr (no_trade_verdict g i d now)"
    using scope_known [of i "map_of (gs_assignments g) (nd_assignment_id d)" now]
    by (cases "assignment_scope_reason i (map_of (gs_assignments g) (nd_assignment_id d)) now")
       (auto simp: evaluate_no_trade_def no_trade_verdict_def)
  then show ?thesis
    using settle_new [OF assms, of NO_TRADE "no_trade_verdict g i d now" now None NO_TRADE ag "nd_assignment_id d" fp now]
    by (simp add: judge_no_trade_def step settled_outcome_def)
qed

lemma claim_new:
  "map_of (gs_outcomes g) oid = None \<Longrightarrow>
     claim_outcome oid otype agent assignment fp now g =
       (Inr True, g\<lparr>gs_outcomes := gs_outcomes g @ [(oid, claim_row otype agent assignment fp now [])]\<rparr>)"
  by (simp add: claim_outcome_def update_new claim_row_def)

lemma claim_old:
  "map_of (gs_outcomes g) oid = Some r \<Longrightarrow>
     claim_outcome oid otype agent assignment fp now g =
       (if st_fingerprint r \<noteq> fp then Inl DecisionConflictError else Inr False, g)"
  by (simp add: claim_outcome_def)

lemma stored_outcome_ok:
  "gateway_ok env g \<Longrightarrow> map_of (gs_outcomes g) oid = Some r \<Longrightarrow> outcome_ok oid r"
  by (auto simp: gateway_ok_def dest!: map_of_SomeD)

definition recorded_verdict :: "stored_outcome \<Rightarrow> agent_event" where
  "recorded_verdict r = st_events r ! 1"

lemma recorded_settlement:
  assumes "gateway_ok env g" "map_of (gs_outcomes g) oid = Some r"
  shows "settlement_for oid g = Some (recorded_verdict r)"
    "\<exists>v. recorded_verdict r = verdict_event oid (st_claimed_at r) v"
  using stored_outcome_ok [OF assms] assms(2)
  by (auto simp: settlement_for_def settling_def outcome_ok_def recorded_verdict_def received_event_def
      verdict_event_def)

lemma transaction_same:
  "body g = (r, g) \<Longrightarrow> outcome_transaction env body g = (r, g)"
  by (simp add: outcome_transaction_def split: sum.split)

lemma transaction_done: "body g = (Inr x, g') \<Longrightarrow> outcome_transaction env body g = (Inr x, g')"
  by (simp add: outcome_transaction_def)


subsubsection \<open>The closed forms of a submission\<close>

lemma submit_unauthenticated:
  assumes "authenticate env agent secret g = (Inl e, g)"
  shows "submit_trade_proposal env agent secret p now g = (Inl e, g)"
    "submit_no_trade env agent secret d now g = (Inl e, g)"
  using assms by (simp_all add: submit_trade_proposal_def submit_no_trade_def bindM_def)

lemma submit_impersonating:
  assumes "authenticate env agent secret g = (Inr i, g)"
  shows "tp_agent_id p \<noteq> ai_agent_id i \<Longrightarrow> submit_trade_proposal env agent secret p now g = (Inl ImpersonationError, g)"
    "nd_agent_id d \<noteq> ai_agent_id i \<Longrightarrow> submit_no_trade env agent secret d now g = (Inl ImpersonationError, g)"
  using assms by (simp_all add: submit_trade_proposal_def submit_no_trade_def bindM_def)

lemma submit_fresh:
  assumes "authenticate env agent secret g = (Inr i, g)" "tp_agent_id p = ai_agent_id i" "gateway_ok env g"
    "trade_proposal_valid p" "map_of (gs_outcomes g) (tp_proposal_id p) = None"
  shows "submit_trade_proposal env agent secret p now g =
    (Inr (verdict_result (tp_proposal_id p) TRADE_PROPOSAL (proposal_verdict g i p now)
            (Some (intent_of_proposal env g p))),
     g\<lparr>gs_outcomes := gs_outcomes g @
         [(tp_proposal_id p, settled_outcome (tp_proposal_id p) TRADE_PROPOSAL (tp_agent_id p)
             (tp_assignment_id p) (proposal_fingerprint (ge_stdlib env) p) now (proposal_verdict g i p now))]\<rparr>)"
  using judge_fresh [OF assms(3-5), of i now "tp_agent_id p" "proposal_fingerprint (ge_stdlib env) p"] assms(1,2)
  by (simp add: submit_trade_proposal_def claim_trade_proposal_def
      outcome_transaction_def bindM_def claim_new [OF assms(5)])

lemma submit_known:
  assumes "authenticate env agent secret g = (Inr i, g)" "tp_agent_id p = ai_agent_id i" "gateway_ok env g"
    "map_of (gs_outcomes g) (tp_proposal_id p) = Some r"
  shows "submit_trade_proposal env agent secret p now g =
    (if st_fingerprint r \<noteq> proposal_fingerprint (ge_stdlib env) p then (Inl DecisionConflictError, g)
     else result_from_settlement env (recorded_verdict r) TRADE_PROPOSAL (Some p) g)"
  using assms(1,2) recorded_settlement [OF assms(3,4)]
  by (auto simp: submit_trade_proposal_def claim_trade_proposal_def outcome_transaction_def
      bindM_def claim_old [OF assms(4)] result_from_settlement_def split: sum.split)

lemma no_trade_fresh:
  assumes "authenticate env agent secret g = (Inr i, g)" "nd_agent_id d = ai_agent_id i"
    "map_of (gs_outcomes g) (nd_decision_id d) = None"
  shows "submit_no_trade env agent secret d now g =
    (Inr (verdict_result (nd_decision_id d) NO_TRADE (no_trade_verdict g i d now) None),
     g\<lparr>gs_outcomes := gs_outcomes g @
         [(nd_decision_id d, settled_outcome (nd_decision_id d) NO_TRADE (nd_agent_id d)
             (nd_assignment_id d) (no_trade_fingerprint (ge_stdlib env) d) now (no_trade_verdict g i d now))]\<rparr>)"
  using judge_no_trade_fresh [OF assms(3), of env i now "nd_agent_id d" "no_trade_fingerprint (ge_stdlib env) d"] assms(1,2)
  by (simp add: submit_no_trade_def claim_no_trade_def
      outcome_transaction_def bindM_def claim_new [OF assms(3)])

lemma no_trade_known:
  assumes "authenticate env agent secret g = (Inr i, g)" "nd_agent_id d = ai_agent_id i" "gateway_ok env g"
    "map_of (gs_outcomes g) (nd_decision_id d) = Some r"
  shows "submit_no_trade env agent secret d now g =
    (if st_fingerprint r \<noteq> no_trade_fingerprint (ge_stdlib env) d then (Inl DecisionConflictError, g)
     else result_from_settlement env (recorded_verdict r) NO_TRADE None g)"
  using assms(1,2) recorded_settlement [OF assms(3,4)]
  by (auto simp: submit_no_trade_def claim_no_trade_def outcome_transaction_def
      bindM_def claim_old [OF assms(4)] result_from_settlement_def split: sum.split)


subsection \<open>Runs of calls\<close>

datatype gateway_call =
    RegisterIdentity "int list" agent_identity string
  | IssueAssignment trading_assignment
  | IssueContext context_bundle
  | PublishContext uuid context_request
  | SubmitProposal uuid string trade_proposal utc
  | SubmitNoTrade uuid string no_trade_decision utc

fun serve :: "gateway_env \<Rightarrow> gateway_call \<Rightarrow> gateway_stores \<Rightarrow> gateway_stores" where
  "serve env (RegisterIdentity salt i secret) g = snd (register_identity env salt i secret g)"
| "serve env (IssueAssignment a) g = snd (issue_assignment env a g)"
| "serve env (IssueContext b) g = snd (issue_context_bundle env b g)"
| "serve env (PublishContext fresh q) g = snd (publish_context env fresh q g)"
| "serve env (SubmitProposal agent secret p now) g = snd (submit_trade_proposal env agent secret p now g)"
| "serve env (SubmitNoTrade agent secret d now) g = snd (submit_no_trade env agent secret d now g)"

fun call_valid :: "gateway_call \<Rightarrow> bool" where
  \<comment> \<open>every argument is a contract, so it passed its validators when it was built\<close>
  "call_valid (RegisterIdentity salt i secret) \<longleftrightarrow> list_all byte salt \<and> agent_identity_valid i"
| "call_valid (IssueAssignment a) \<longleftrightarrow> trading_assignment_valid a"
| "call_valid (IssueContext b) \<longleftrightarrow> context_bundle_valid b \<and> opt_ok policy_hints_valid (cb_policy_hints b)"
| "call_valid (PublishContext fresh q) \<longleftrightarrow> opt_ok policy_hints_valid (cq_policy_hints q)"
| "call_valid (SubmitProposal agent secret p now) \<longleftrightarrow> trade_proposal_valid p"
| "call_valid (SubmitNoTrade agent secret d now) \<longleftrightarrow> no_trade_decision_valid d"

inductive gateway_run :: "gateway_env \<Rightarrow> gateway_stores \<Rightarrow> gateway_stores \<Rightarrow> bool" for env where
  run_start: "gateway_run env g g"
| run_call: "gateway_run env g g' \<Longrightarrow> call_valid c \<Longrightarrow> gateway_run env g (serve env c g')"

lemma gateway_run_trans: "gateway_run env g g' \<Longrightarrow> gateway_run env g' g'' \<Longrightarrow> gateway_run env g g''"
  by (rotate_tac 1, induction rule: gateway_run.induct) (auto intro: gateway_run.intros)

definition extends :: "gateway_stores \<Rightarrow> gateway_stores \<Rightarrow> bool" where
  "extends g g' \<longleftrightarrow>
     map_of (gs_assignments g) \<subseteq>\<^sub>m map_of (gs_assignments g') \<and> map_of (gs_outcomes g) \<subseteq>\<^sub>m map_of (gs_outcomes g') \<and>
     map_of (gs_evidence g) \<subseteq>\<^sub>m map_of (gs_evidence g') \<and> map_of (gs_contexts g) \<subseteq>\<^sub>m map_of (gs_contexts g') \<and>
     dom (map_of (gs_by_hash g)) \<subseteq> dom (map_of (gs_by_hash g'))"

interpretation gateway: effect_order extends
  by unfold_locales (auto simp: extends_def intro: map_le_trans)

text \<open>The effect of the administrative calls.\<close>

lemma issue_bundle_effect:
  "issue_bundle sl b g = (r, g') \<Longrightarrow>
     g' = g \<or> map_of (gs_contexts g) (cb_context_id b) = None \<and>
       g' = g\<lparr>gs_contexts := AList.update (cb_context_id b) b (gs_contexts g),
              gs_by_hash := AList.update (content_hash sl b) b (gs_by_hash g)\<rparr>"
  by (auto simp: issue_bundle_def split: option.splits if_splits)

lemma issue_context_effect:
  "issue_context_bundle env b g = (r, g') \<Longrightarrow>
     g' = g \<or> map_of (gs_contexts g) (cb_context_id b) = None \<and>
       map_of (gs_evidence g) (cb_feature_snapshot_id b) \<noteq> None \<and>
       g' = g\<lparr>gs_contexts := AList.update (cb_context_id b) b (gs_contexts g),
              gs_by_hash := AList.update (content_hash (ge_stdlib env) b) b (gs_by_hash g)\<rparr>"
  by (auto simp: issue_context_bundle_def bindM_def split: option.splits sum.splits prod.splits
      dest!: issue_bundle_effect)

lemma publish_context_effect:
  assumes "publish_context env fresh q g = (r, g')"
  shows "g' = g \<or> (\<exists>e. g' = put_evidence e g) \<or>
    (\<exists>e b r'. issue_context_bundle env b (put_evidence e g) = (r', g') \<and> context_bundle_valid b)"
  using assms
  by (auto simp: publish_context_def bindM_def build_agent_context_evidence_def contract_def
      split: sum.splits prod.splits if_splits)

lemma submit_proposal_effect:
  assumes "gateway_ok env g" "trade_proposal_valid p" "submit_trade_proposal env agent secret p now g = (r, g')"
  shows "g' = g \<or> (\<exists>i. ai_agent_id i = tp_agent_id p \<and> map_of (gs_outcomes g) (tp_proposal_id p) = None \<and>
    g' = g\<lparr>gs_outcomes := gs_outcomes g @
         [(tp_proposal_id p, settled_outcome (tp_proposal_id p) TRADE_PROPOSAL (tp_agent_id p)
             (tp_assignment_id p) (proposal_fingerprint (ge_stdlib env) p) now (proposal_verdict g i p now))]\<rparr>)"
proof -
  obtain a where a: "authenticate env agent secret g = (a, g)"
    using authenticate_same [of env agent secret g] by (metis prod.collapse)
  show ?thesis
  proof (cases a)
    case (Inl e)
    with submit_unauthenticated(1) a assms(3) show ?thesis by fastforce
  next
    case (Inr i)
    note auth = a [unfolded Inr]
    show ?thesis
    proof (cases "tp_agent_id p = ai_agent_id i")
      case True
      show ?thesis
      proof (cases "map_of (gs_outcomes g) (tp_proposal_id p)")
        case None
        with submit_fresh [OF auth True assms(1,2) None, of now] assms(3) True show ?thesis by auto
      next
        case (Some x)
        with submit_known [OF auth True assms(1) Some, of now] assms(3) show ?thesis
          by (auto simp: result_from_settlement_def split: if_splits)
      qed
    next
      case False
      with submit_impersonating(1) [OF auth] assms(3) show ?thesis by fastforce
    qed
  qed
qed

lemma submit_no_trade_effect:
  assumes "gateway_ok env g" "submit_no_trade env agent secret d now g = (r, g')"
  shows "g' = g \<or> (\<exists>i. map_of (gs_outcomes g) (nd_decision_id d) = None \<and>
    g' = g\<lparr>gs_outcomes := gs_outcomes g @
         [(nd_decision_id d, settled_outcome (nd_decision_id d) NO_TRADE (nd_agent_id d)
             (nd_assignment_id d) (no_trade_fingerprint (ge_stdlib env) d) now (no_trade_verdict g i d now))]\<rparr>)"
proof -
  obtain a where a: "authenticate env agent secret g = (a, g)"
    using authenticate_same [of env agent secret g] by (metis prod.collapse)
  show ?thesis
  proof (cases a)
    case (Inl e)
    with submit_unauthenticated(2) a assms(2) show ?thesis by fastforce
  next
    case (Inr i)
    note auth = a [unfolded Inr]
    show ?thesis
    proof (cases "nd_agent_id d = ai_agent_id i")
      case True
      show ?thesis
      proof (cases "map_of (gs_outcomes g) (nd_decision_id d)")
        case None
        with no_trade_fresh [OF auth True None, of now] assms(2) True show ?thesis by auto
      next
        case (Some x)
        with no_trade_known [OF auth True assms(1) Some, of now] assms(2) show ?thesis
          by (auto simp: result_from_settlement_def split: if_splits)
      qed
    next
      case False
      with submit_impersonating(2) [OF auth] assms(2) show ?thesis by fastforce
    qed
  qed
qed


subsection \<open>Every call keeps the stores well-formed\<close>

lemma put_evidence_keeps:
  "gateway_ok env g \<Longrightarrow> gateway_ok env (put_evidence e g)" "rate_ok g \<Longrightarrow> rate_ok (put_evidence e g)"
  "extends g (put_evidence e g)"
  by (auto simp: put_evidence_def gateway_ok_def rate_ok_def extends_def accepted_between_def map_le_def
      split: option.splits)

lemma issue_context_keeps:
  assumes "issue_context_bundle env b g = (r, g')"
  shows "gateway_ok env g \<Longrightarrow> gateway_ok env g'" "rate_ok g \<Longrightarrow> rate_ok g'" "extends g g'"
proof -
  let ?g = "g\<lparr>gs_contexts := AList.update (cb_context_id b) b (gs_contexts g),
              gs_by_hash := AList.update (content_hash (ge_stdlib env) b) b (gs_by_hash g)\<rparr>"
  consider "g' = g" | (new) "map_of (gs_contexts g) (cb_context_id b) = None"
      "map_of (gs_evidence g) (cb_feature_snapshot_id b) \<noteq> None" "g' = ?g"
    using issue_context_effect [OF assms] by (elim disjE conjE) (rule that; assumption)+
  then have "(gateway_ok env g \<longrightarrow> gateway_ok env g') \<and> (rate_ok g \<longrightarrow> rate_ok g') \<and> extends g g'"
  proof cases
    case new
    have "gateway_ok env ?g" if ok: "gateway_ok env g"
    proof -
      have "\<exists>cid. map_of (gs_contexts ?g) cid = Some b'" if h: "map_of (gs_by_hash ?g) h = Some b'" for h b'
      proof (cases "h = content_hash (ge_stdlib env) b")
        case True
        with h show ?thesis by (intro exI [of _ "cb_context_id b"]) simp
      next
        case False
        with h have "map_of (gs_by_hash g) h = Some b'" by simp
        from hashed_context [OF ok this] obtain cid where "map_of (gs_contexts g) cid = Some b'" by blast
        with new(1) show ?thesis by (intro exI [of _ cid]) auto
      qed
      with ok new(2) show ?thesis unfolding gateway_ok_def by (auto split: if_splits)
    qed
    with new show ?thesis
      by (auto simp: rate_ok_def extends_def accepted_between_def map_le_def)
  qed (simp add: gateway.same)
  then show "gateway_ok env g \<Longrightarrow> gateway_ok env g'" "rate_ok g \<Longrightarrow> rate_ok g'" "extends g g'" by blast+
qed

lemma publish_keeps:
  assumes "publish_context env fresh q g = (r, g')"
  shows "gateway_ok env g \<Longrightarrow> gateway_ok env g'" "rate_ok g \<Longrightarrow> rate_ok g'" "extends g g'"
  using publish_context_effect [OF assms] put_evidence_keeps issue_context_keeps
  by (metis gateway.same gateway.join)+

lemma register_keeps:
  "gateway_ok env g \<Longrightarrow> gateway_ok env (serve env (RegisterIdentity salt i secret) g)"
  "rate_ok g \<Longrightarrow> rate_ok (serve env (RegisterIdentity salt i secret) g)"
  "extends g (serve env (RegisterIdentity salt i secret) g)"
  by (auto simp: register_identity_def put_identity_def put_credential_def gateway_ok_def rate_ok_def
      accepted_between_def extends_def)

lemma issue_assignment_keeps:
  assumes "trading_assignment_valid a" "issue_assignment env a g = (r, g')"
  shows "gateway_ok env g \<Longrightarrow> gateway_ok env g'" "extends g g'"
  using assms
  by (auto simp: issue_assignment_def register_assignment_def gateway_ok_def extends_def map_le_def
      split: option.splits if_splits)

lemma issue_assignment_rate:
  assumes "trading_assignment_valid a" "issue_assignment env a g = (r, g')" "rate_ok g"
  shows "rate_ok g'"
proof (cases "g' = g")
  case False
  with assms(2) have new: "map_of (gs_assignments g) (tg_assignment_id a) = None"
    and g': "g' = g\<lparr>gs_assignments := AList.update (tg_assignment_id a) a (gs_assignments g)\<rparr>"
    by (auto simp: issue_assignment_def register_assignment_def split: option.splits if_splits)
  have none: "accepted_between (tg_assignment_id a) lo hi g = []" for lo hi
  proof -
    have "False" if "(oid, r) \<in> set (gs_outcomes g)" "accepted_proposal r" "st_assignment_id r = tg_assignment_id a" for oid r
      using assms(3) that new by (fastforce simp: rate_ok_def)
    then show ?thesis by (fastforce simp: accepted_between_def filter_empty_conv)
  qed
  have "0 \<le> tg_max_proposals_per_hour a" using assms(1) by (simp add: trading_assignment_valid_def)
  with none have "int (length (accepted_between (tg_assignment_id a) lo (lo + RATE_LIMIT_WINDOW) g)) \<le>
      tg_max_proposals_per_hour a" for lo by simp
  with assms(3) new show ?thesis
    unfolding g' rate_ok_def accepted_between_def by (fastforce split: if_splits)
qed (use assms(3) in simp)

lemma outcome_appended:
  assumes "gateway_ok env g" "map_of (gs_outcomes g) oid = None" "outcome_ok oid r"
  shows "gateway_ok env (g\<lparr>gs_outcomes := gs_outcomes g @ [(oid, r)]\<rparr>)"
    "extends g (g\<lparr>gs_outcomes := gs_outcomes g @ [(oid, r)]\<rparr>)"
  using assms by (auto simp: gateway_ok_def extends_def map_le_def map_add_def map_of_eq_None_iff)

lemma settled_outcome_simps [simp]:
  "outcome_ok oid (settled_outcome oid t ag asg fp now v)"
  "accepted_proposal (settled_outcome oid t ag asg fp now v) \<longleftrightarrow> t = TRADE_PROPOSAL \<and> v = None"
  "st_assignment_id (settled_outcome oid t ag asg fp now v) = asg"
  "st_claimed_at (settled_outcome oid t ag asg fp now v) = now"
  "st_agent_id (settled_outcome oid t ag asg fp now v) = ag"
  "st_fingerprint (settled_outcome oid t ag asg fp now v) = fp"
  "recorded_verdict (settled_outcome oid t ag asg fp now v) = verdict_event oid now v"
  by (auto simp: settled_outcome_def outcome_ok_def accepted_proposal_def received_event_def verdict_event_def
      recorded_verdict_def)

lemma rejected_appended:
  assumes "rate_ok g" "\<not> accepted_proposal r"
  shows "rate_ok (g\<lparr>gs_outcomes := gs_outcomes g @ [(oid, r)]\<rparr>)"
  using assms by (auto simp: rate_ok_def accepted_between_def)

lemma length_filter_conv_le: "(\<And>x. P x \<Longrightarrow> Q x) \<Longrightarrow> length (filter P xs) \<le> length (filter Q xs)"
  by (induction xs) auto

text \<open>The hour that ends with an accepted claim holds no more claims than the limit.\<close>

lemma accepted_appended:
  assumes "rate_ok g" "gateway_ok env g" "proposal_verdict g i p now = None" "ai_agent_id i = tp_agent_id p"
  shows "rate_ok (g\<lparr>gs_outcomes := gs_outcomes g @ [(oid, settled_outcome oid TRADE_PROPOSAL (tp_agent_id p)
    (tp_assignment_id p) fp now None)]\<rparr>)" (is "rate_ok ?g")
proof -
  obtain a where a: "map_of (gs_assignments g) (tp_assignment_id p) = Some a" "tg_allowed_agent_id a = ai_agent_id i"
      "count_claimed_since (tp_assignment_id p) (now - RATE_LIMIT_WINDOW) g < tg_max_proposals_per_hour a"
    using assms(3) by (auto simp: verdict_accepts)
  have "int (length (accepted_between aid lo (lo + RATE_LIMIT_WINDOW) ?g)) \<le> tg_max_proposals_per_hour b"
    if b: "map_of (gs_assignments g) aid = Some b" for aid b lo
  proof (cases "aid = tp_assignment_id p \<and> lo \<le> now \<and> now \<le> lo + RATE_LIMIT_WINDOW")
    case True
    let ?claims = "\<lambda>r. st_assignment_id r = aid \<and> now - RATE_LIMIT_WINDOW \<le> st_claimed_at r"
    have "length (accepted_between aid lo (lo + RATE_LIMIT_WINDOW) g)
        \<le> length (filter ?claims (map snd (gs_outcomes g)))"
      unfolding accepted_between_def by (rule length_filter_conv_le) (use True in auto)
    with True a b show ?thesis by (simp add: accepted_between_def count_claimed_since_def)
  next
    case False
    then have "accepted_between aid lo (lo + RATE_LIMIT_WINDOW) ?g = accepted_between aid lo (lo + RATE_LIMIT_WINDOW) g"
      by (auto simp: accepted_between_def)
    with assms(1) b show ?thesis by (auto simp: rate_ok_def)
  qed
  with assms(1,4) a(1,2) show ?thesis by (auto simp: rate_ok_def)
qed


subsection \<open>Every history\<close>

definition stores_ok :: "gateway_env \<Rightarrow> gateway_stores \<Rightarrow> bool" where
  "stores_ok env g \<longleftrightarrow> gateway_ok env g \<and> rate_ok g"

lemma submission_keeps:
  assumes "stores_ok env g"
  shows "trade_proposal_valid p \<Longrightarrow> submit_trade_proposal env agent secret p now g = (r, g') \<Longrightarrow>
      stores_ok env g' \<and> extends g g'"
    and "submit_no_trade env agent secret d now g = (r, g') \<Longrightarrow> stores_ok env g' \<and> extends g g'"
proof -
  have ok: "gateway_ok env g" "rate_ok g" using assms by (simp_all add: stores_ok_def)
  show "stores_ok env g' \<and> extends g g'"
    if "trade_proposal_valid p" "submit_trade_proposal env agent secret p now g = (r, g')"
  proof (cases "g' = g")
    case False
    with submit_proposal_effect [OF ok(1) that] obtain i where i: "ai_agent_id i = tp_agent_id p"
        "map_of (gs_outcomes g) (tp_proposal_id p) = None"
        "g' = g\<lparr>gs_outcomes := gs_outcomes g @ [(tp_proposal_id p, settled_outcome (tp_proposal_id p) TRADE_PROPOSAL
           (tp_agent_id p) (tp_assignment_id p) (proposal_fingerprint (ge_stdlib env) p) now
           (proposal_verdict g i p now))]\<rparr>"
      by auto
    show ?thesis
    proof (cases "proposal_verdict g i p now")
      case None
      with i ok outcome_appended [OF ok(1) i(2)] accepted_appended [OF ok(2,1) None i(1)] show ?thesis
        by (simp add: stores_ok_def)
    next
      case (Some x)
      with i ok outcome_appended [OF ok(1) i(2)] show ?thesis by (simp add: stores_ok_def rejected_appended)
    qed
  qed (use assms in \<open>simp add: gateway.same\<close>)
  show "stores_ok env g' \<and> extends g g'" if "submit_no_trade env agent secret d now g = (r, g')"
    using submit_no_trade_effect [OF ok(1) that] outcome_appended [OF ok(1)] assms
    by (auto simp: stores_ok_def gateway.same intro!: rejected_appended)
qed

lemma serve_keeps:
  assumes "stores_ok env g" "call_valid c"
  shows "stores_ok env (serve env c g) \<and> extends g (serve env c g)"
proof (cases c)
  case (RegisterIdentity salt i secret)
  with assms register_keeps show ?thesis by (auto simp: stores_ok_def simp del: serve.simps)
next
  case (IssueAssignment a)
  obtain r g' where run: "issue_assignment env a g = (r, g')" by fastforce
  with issue_assignment_keeps [OF _ run] issue_assignment_rate [OF _ run] assms IssueAssignment
  show ?thesis by (simp add: stores_ok_def)
next
  case (IssueContext b)
  obtain r g' where run: "issue_context_bundle env b g = (r, g')" by fastforce
  with issue_context_keeps [OF run] assms IssueContext show ?thesis by (simp add: stores_ok_def)
next
  case (PublishContext fresh q)
  obtain r g' where run: "publish_context env fresh q g = (r, g')" by fastforce
  with publish_keeps [OF run] assms PublishContext show ?thesis by (simp add: stores_ok_def)
next
  case (SubmitProposal agent secret p now)
  obtain r g' where run: "submit_trade_proposal env agent secret p now g = (r, g')" by fastforce
  with submission_keeps(1) [OF assms(1) _ run] assms(2) SubmitProposal show ?thesis by simp
next
  case (SubmitNoTrade agent secret d now)
  obtain r g' where run: "submit_no_trade env agent secret d now g = (r, g')" by fastforce
  with submission_keeps(2) [OF assms(1) run] SubmitNoTrade show ?thesis by simp
qed

lemma run_keeps: "gateway_run env g g' \<Longrightarrow> stores_ok env g \<Longrightarrow> stores_ok env g' \<and> extends g g'"
  by (induction rule: gateway_run.induct) (auto simp: gateway.same dest: serve_keeps intro: gateway.join)

lemma empty_stores_ok: "stores_ok env empty_stores"
  by (simp add: stores_ok_def gateway_ok_def rate_ok_def empty_stores_def accepted_between_def)

lemma reachable_ok: "gateway_run env empty_stores g \<Longrightarrow> stores_ok env g"
  using run_keeps empty_stores_ok by blast


subsection \<open>Promises\<close>

text \<open>
  C8. In every history of calls, and whatever the clocks of the callers say, no assignment has
  more accepted proposals with a claim time in any one hour than its limit.
\<close>

theorem hourly_limit_holds:
  assumes "gateway_run env empty_stores g" "map_of (gs_assignments g) aid = Some a"
  shows "int (length (accepted_between aid lo (lo + RATE_LIMIT_WINDOW) g)) \<le> tg_max_proposals_per_hour a"
  using reachable_ok [OF assms(1)] assms(2) by (auto simp: stores_ok_def rate_ok_def)

text \<open>
  A claimed outcome is a settled one: in every reachable state its audit trail is exactly
  one receipt followed by one verdict at the same moment, a refusal naming its one reason.
\<close>

theorem claimed_is_settled:
  assumes "gateway_run env empty_stores g" "map_of (gs_outcomes g) oid = Some r"
  shows "\<exists>v. agent_events_for oid g = [received_event oid (st_claimed_at r), verdict_event oid (st_claimed_at r) v] \<and>
    settlement_for oid g = Some (verdict_event oid (st_claimed_at r) v)"
proof -
  have ok: "gateway_ok env g" using reachable_ok [OF assms(1)] by (simp add: stores_ok_def)
  from stored_outcome_ok [OF ok assms(2)] recorded_settlement(1) [OF ok assms(2)] assms(2) show ?thesis
    by (auto simp: outcome_ok_def agent_events_for_def recorded_verdict_def)
qed



subsubsection \<open>Repeating a submission\<close>

lemma fresh_result_is_recorded:
  assumes "gateway_ok env g" "trade_proposal_valid p" "map_of (gs_outcomes g) (tp_proposal_id p) = None"
    "v = proposal_verdict g i p now" "gs_assignments g' = gs_assignments g" "gs_by_hash g' = gs_by_hash g"
  shows "result_from_settlement env (verdict_event (tp_proposal_id p) now v) TRADE_PROPOSAL (Some p) g' =
    (Inr (verdict_result (tp_proposal_id p) TRADE_PROPOSAL v (Some (intent_of_proposal env g p))), g')"
proof (cases v)
  case None
  then obtain a where a: "map_of (gs_assignments g) (tp_assignment_id p) = Some a"
    using assms(4) by (auto simp: verdict_accepts)
  have "build_trade_intent env g' p a = build_trade_intent env g p a" by (simp add: build_trade_intent_def assms(6))
  with build_accepted [OF assms(1,2) _ a] None a assms(4,5) show ?thesis
    by (simp add: result_from_settlement_def verdict_event_def verdict_result_def)
qed (simp add: result_from_settlement_def verdict_event_def verdict_result_def)

lemma answered_is_recorded:
  assumes "gateway_ok env g" "trade_proposal_valid p" "submit_trade_proposal env agent secret p now g = (Inr res, g')"
  obtains r where "map_of (gs_outcomes g') (tp_proposal_id p) = Some r"
    "st_fingerprint r = proposal_fingerprint (ge_stdlib env) p" "agent = tp_agent_id p"
    "result_from_settlement env (recorded_verdict r) TRADE_PROPOSAL (Some p) g' = (Inr res, g')"
proof -
  obtain a where a: "authenticate env agent secret g = (a, g)"
    using authenticate_same [of env agent secret g] by (metis prod.collapse)
  with submit_unauthenticated(1) assms(3) obtain i where i: "a = Inr i" by (cases a) fastforce+
  note auth = a [unfolded i]
  with submit_impersonating(1) [OF auth] assms(3) have own: "tp_agent_id p = ai_agent_id i" by fastforce
  have agent: "agent = tp_agent_id p" using authenticate_agent [OF assms(1) auth] own by simp
  show thesis
  proof (cases "map_of (gs_outcomes g) (tp_proposal_id p)")
    case None
    let ?r = "settled_outcome (tp_proposal_id p) TRADE_PROPOSAL (tp_agent_id p) (tp_assignment_id p)
      (proposal_fingerprint (ge_stdlib env) p) now (proposal_verdict g i p now)"
    from submit_fresh [OF auth own assms(1,2) None, of now] assms(3)
    have res: "res = verdict_result (tp_proposal_id p) TRADE_PROPOSAL (proposal_verdict g i p now)
        (Some (intent_of_proposal env g p))"
      and g': "g' = g\<lparr>gs_outcomes := gs_outcomes g @ [(tp_proposal_id p, ?r)]\<rparr>" by auto
    have "map_of (gs_outcomes g') (tp_proposal_id p) = Some ?r" using None by (simp add: g' map_add_def)
    moreover have "result_from_settlement env (recorded_verdict ?r) TRADE_PROPOSAL (Some p) g' = (Inr res, g')"
      using fresh_result_is_recorded [OF assms(1,2) None refl, where g' = g' and i = i and now = now]
      by (simp add: g' res)
    ultimately show thesis using that [of ?r] agent by simp
  next
    case (Some r)
    with submit_known [OF auth own assms(1) Some, of now] assms(3)
    have "st_fingerprint r = proposal_fingerprint (ge_stdlib env) p"
      "result_from_settlement env (recorded_verdict r) TRADE_PROPOSAL (Some p) g = (Inr res, g')"
      by (auto split: if_splits)
    moreover from this(2) have "g' = g" by (simp add: result_from_settlement_def)
    ultimately show thesis using that [OF _ _ agent] Some by simp
  qed
qed

lemma recorded_result_lasts:
  assumes "gateway_ok env g1" "gateway_ok env g2" "extends g1 g2"
    "result_from_settlement env ev TRADE_PROPOSAL (Some p) g1 = (Inr res, g1)"
    "\<And>c c' b b'. map_of (gs_contexts g2) c = Some b \<Longrightarrow> map_of (gs_contexts g2) c' = Some b' \<Longrightarrow>
       content_hash (ge_stdlib env) b = content_hash (ge_stdlib env) b' \<Longrightarrow>
       cb_feature_snapshot_id b = cb_feature_snapshot_id b'"
  shows "result_from_settlement env ev TRADE_PROPOSAL (Some p) g2 = (Inr res, g2)"
proof (cases "av_event_type ev = AE_REJECTED")
  case False
  with assms(4) obtain a b where a: "map_of (gs_assignments g1) (tp_assignment_id p) = Some a"
    and b: "map_of (gs_by_hash g1) (tp_context_hash p) = Some b"
    and intent: "trade_intent_valid (mapped_intent (ge_stdlib env) p a b)"
    and res: "res = \<lparr>res_outcome_id = av_outcome_id ev, res_outcome_type = TRADE_PROPOSAL, res_accepted = True,
      res_reason = None, res_trade_intent = Some (mapped_intent (ge_stdlib env) p a b)\<rparr>"
    by (auto simp: result_from_settlement_def build_trade_intent_def mapE_eq_Inr split: option.splits)
  have a2: "map_of (gs_assignments g2) (tp_assignment_id p) = Some a"
    using assms(3) a by (auto simp: extends_def map_le_def dom_def)
  obtain b2 where b2: "map_of (gs_by_hash g2) (tp_context_hash p) = Some b2"
    using assms(3) b unfolding extends_def by blast
  obtain c where c: "map_of (gs_contexts g1) c = Some b" "content_hash (ge_stdlib env) b = tp_context_hash p"
    using hashed_context [OF assms(1) b] by blast
  obtain c2 where c2: "map_of (gs_contexts g2) c2 = Some b2" "content_hash (ge_stdlib env) b2 = tp_context_hash p"
    using hashed_context [OF assms(2) b2] by blast
  have "map_of (gs_contexts g2) c = Some b" using assms(3) c(1) by (auto simp: extends_def map_le_def dom_def)
  from assms(5) [OF c2(1) this] c(2) c2(2) have "cb_feature_snapshot_id b2 = cb_feature_snapshot_id b" by simp
  then have "mapped_intent (ge_stdlib env) p a b2 = mapped_intent (ge_stdlib env) p a b"
    by (simp add: mapped_intent_def)
  with False a2 b2 intent res show ?thesis
    by (simp add: result_from_settlement_def build_trade_intent_def contract_def)
qed (use assms(4) in \<open>simp add: result_from_settlement_def\<close>)


text \<open>
  C9. The verdict on a proposal never changes: once a submission has been answered, the same
  proposal submitted again at any later time, after any calls and with whatever credential its
  agent has by then, gets the same answer, the same intent included, and changes nothing. The
  hypothesis on the contexts says that no two issued ones with different features share their
  SHA-256.
\<close>

theorem verdict_is_final:
  assumes "gateway_run env empty_stores g" "trade_proposal_valid p"
    "submit_trade_proposal env agent secret p now g = (Inr res, g1)" "gateway_run env g1 g2"
    "authenticate env agent secret' g2 = (Inr i, g2)"
    "\<And>c c' b b'. map_of (gs_contexts g2) c = Some b \<Longrightarrow> map_of (gs_contexts g2) c' = Some b' \<Longrightarrow>
       content_hash (ge_stdlib env) b = content_hash (ge_stdlib env) b' \<Longrightarrow>
       cb_feature_snapshot_id b = cb_feature_snapshot_id b'"
  shows "submit_trade_proposal env agent secret' p now' g2 = (Inr res, g2)"
proof -
  have "stores_ok env g1" using submission_keeps(1) [OF reachable_ok [OF assms(1)] assms(2,3)] by blast
  with run_keeps [OF assms(4)] have ok: "gateway_ok env g1" "gateway_ok env g2" and ext: "extends g1 g2"
    by (auto simp: stores_ok_def)
  have "gateway_ok env g" using reachable_ok [OF assms(1)] by (simp add: stores_ok_def)
  from answered_is_recorded [OF this assms(2,3)] obtain r where
    r: "map_of (gs_outcomes g1) (tp_proposal_id p) = Some r" "agent = tp_agent_id p"
      "st_fingerprint r = proposal_fingerprint (ge_stdlib env) p"
      "result_from_settlement env (recorded_verdict r) TRADE_PROPOSAL (Some p) g1 = (Inr res, g1)" by blast
  have r2: "map_of (gs_outcomes g2) (tp_proposal_id p) = Some r"
    using ext r(1) by (auto simp: extends_def map_le_def dom_def)
  have own: "tp_agent_id p = ai_agent_id i" using authenticate_agent [OF ok(2) assms(5)] r(2) by simp
  show ?thesis
    using submit_known [OF assms(5) own ok(2) r2] r(3) recorded_result_lasts [OF ok ext r(4) assms(6)] by simp
qed


text \<open>
  Registering an agent replaces its credential and its status at once: from then on a
  secret is accepted exactly if it hashes to the registered one, and no secret opens the
  account of an agent that is not active.
\<close>

theorem registration_decides_authentication:
  assumes "list_all byte salt" "\<And>bs. list_all byte (co_sha256 (ge_credentials env) bs)"
  shows "fst (authenticate env (ai_agent_id i) secret' (snd (register_identity env salt i secret g))) =
    (if co_sha256 (ge_credentials env) (salt @ co_utf8 (ge_credentials env) secret') \<noteq>
        co_sha256 (ge_credentials env) (salt @ co_utf8 (ge_credentials env) secret) then Inl AuthenticationError
     else if ai_status i \<noteq> AS_ACTIVE then Inl AgentNotActiveError
     else Inr i)"
  by (simp add: register_identity_def put_identity_def put_credential_def authenticate_def
      verify_hashed [OF assms])


subsection \<open>What the code does not promise\<close>

text \<open>
  A proposal that names an assignment its agent does not own is refused, but the claim made
  before the check counts against that assignment's hour all the same.
\<close>

lemma foreign_claim_counts:
  assumes "gateway_run env empty_stores g" "authenticate env (tp_agent_id p) secret g = (Inr i, g)"
    "trade_proposal_valid p" "map_of (gs_outcomes g) (tp_proposal_id p) = None"
    "map_of (gs_assignments g) (tp_assignment_id p) = Some a" "tg_allowed_agent_id a \<noteq> tp_agent_id p"
  shows "\<exists>res g'. submit_trade_proposal env (tp_agent_id p) secret p now g = (Inr res, g') \<and>
    res_reason res = Some ASSIGNMENT_NOT_OWNED \<and>
    count_claimed_since (tp_assignment_id p) (now - RATE_LIMIT_WINDOW) g' =
      count_claimed_since (tp_assignment_id p) (now - RATE_LIMIT_WINDOW) g + 1"
proof -
  have ok: "gateway_ok env g" using reachable_ok [OF assms(1)] by (simp add: stores_ok_def)
  have own: "tp_agent_id p = ai_agent_id i" using authenticate_agent [OF ok assms(2)] by simp
  have "proposal_verdict g i p now = Some ASSIGNMENT_NOT_OWNED"
    using assms(5,6) own by (simp add: proposal_verdict_def)
  with submit_fresh [OF assms(2) own ok assms(3,4), of now] show ?thesis
    by (simp add: verdict_result_def count_with_claim RATE_LIMIT_WINDOW_def)
qed

text \<open>
  The identity of the evidence is made of the symbol and the moment only, and the first
  recording wins: a second, different observation published for the same moment is bound to
  the evidence of the first.
\<close>

lemma second_observation_is_lost:
  assumes "build_agent_context_evidence (ge_stdlib env) (cq_symbol q) (cq_now q) (cq_market_snapshot_id q)
      (cq_instrument_spec_version q) (cq_session_state q) (cq_data_quality q) = Inr e"
    "map_of (gs_evidence g) (ae_feature_snapshot_id e) = Some e0"
    "publish_context env fresh q g = (Inr b, g')"
  shows "map_of (gs_evidence g') (cb_feature_snapshot_id b) = Some e0 \<and>
    cb_feature_snapshot_id b = uuid5_dns (ge_stdlib env)
      (''crumblr:agent_context_evidence:'' @ cq_symbol q @ '':'' @ iso_format (ge_stdlib env) (cq_now q))"
proof -
  have e: "ae_feature_snapshot_id e = uuid5_dns (ge_stdlib env)
      (''crumblr:agent_context_evidence:'' @ cq_symbol q @ '':'' @ iso_format (ge_stdlib env) (cq_now q))"
    using assms(1) by (auto simp: build_agent_context_evidence_def)
  have put: "put_evidence e g = g" using assms(2) by (simp add: put_evidence_def)
  from assms(1,3) have b: "cb_feature_snapshot_id b = ae_feature_snapshot_id e" "issue_context_bundle env b g = (Inr b, g')"
    by (auto simp: publish_context_def bindM_eq_Inr put issue_context_bundle_def split: option.splits)
  have "extends g g'" by (rule issue_context_keeps(3) [OF b(2)])
  then have "map_of (gs_evidence g') (ae_feature_snapshot_id e) = Some e0"
    using assms(2) by (auto simp: extends_def map_le_def dom_def)
  with b(1) e show ?thesis by simp
qed

end
