(* ===== verification/Agent_Tables.thy ===== *)
theory Agent_Tables
  imports Agent_Stores
begin

text \<open>
  The gateway's stores on PostgreSQL (\<^verbatim>\<open>persistence/agent_gateway.py\<close>): rows in the order
  of their sequence numbers. Every operation the gateway calls is shown to simulate the
  in-memory one (\<open>Agent_Stores\<close>), so what is proved of the gateway there holds for the
  durable stores; the hypothesis is that two different events of an audit trail do not share
  their derived identity. Only the two lookups made for display break ties differently.
\<close>

record outcome_row =
  ow_outcome_id :: uuid
  ow_outcome_type :: agent_outcome_type
  ow_agent_id :: uuid
  ow_assignment_id :: uuid
  ow_fingerprint :: string
  ow_claimed_at :: utc

record agent_event_row =
  ew_event_id :: uuid
  ew_event :: agent_event

record agent_tables =
  at_identities :: "agent_identity list"
  at_credentials :: "(uuid \<times> string) list"
  at_assignments :: "(string \<times> trading_assignment) list"
  at_bundles :: "context_bundle list"
  at_outcomes :: "outcome_row list"
  at_events :: "agent_event_row list"

fun agent_event_value :: "agent_event_type \<Rightarrow> string" where
  "agent_event_value AE_RECEIVED = ''RECEIVED''"
| "agent_event_value AE_ACCEPTED = ''ACCEPTED''"
| "agent_event_value AE_REJECTED = ''REJECTED''"

definition agent_event_id :: "stdlib \<Rightarrow> uuid \<Rightarrow> agent_event_type \<Rightarrow> uuid" where
  "agent_event_id sl oid kind = uuid5_url sl (''crumblr:agent_decision_event:'' @ oid @ '':'' @ agent_event_value kind)"


subsection \<open>Identities and credentials: the latest row counts\<close>

definition pg_register_identity :: "agent_identity \<Rightarrow> agent_tables \<Rightarrow> agent_tables" where
  "pg_register_identity i t = t\<lparr>at_identities := at_identities t @ [i]\<rparr>"

definition pg_identity :: "uuid \<Rightarrow> agent_tables \<Rightarrow> agent_identity option" where
  "pg_identity agent t = last_opt (filter (\<lambda>i. ai_agent_id i = agent) (at_identities t))"

definition pg_set_credential :: "uuid \<Rightarrow> string \<Rightarrow> agent_tables \<Rightarrow> agent_tables" where
  "pg_set_credential agent h t = t\<lparr>at_credentials := at_credentials t @ [(agent, h)]\<rparr>"

definition pg_current_hash :: "uuid \<Rightarrow> agent_tables \<Rightarrow> string option" where
  "pg_current_hash agent t = map_option snd (last_opt (filter (\<lambda>c. fst c = agent) (at_credentials t)))"


subsection \<open>Assignments and contexts: the first row counts\<close>

definition pg_assignment :: "uuid \<Rightarrow> agent_tables \<Rightarrow> trading_assignment option" where
  "pg_assignment aid t = map_option snd (find_first (\<lambda>r. tg_assignment_id (snd r) = aid) (at_assignments t))"

definition pg_register_assignment :: "stdlib \<Rightarrow> trading_assignment \<Rightarrow> (agent_tables, unit) prog" where
  "pg_register_assignment sl a t =
     (case find_first (\<lambda>r. tg_assignment_id (snd r) = tg_assignment_id a) (at_assignments t) of
        Some (fp, _) \<Rightarrow> (if fp \<noteq> assignment_fingerprint sl a then Inl AssignmentConflictError else Inr (), t)
      | None \<Rightarrow> (Inr (), t\<lparr>at_assignments := at_assignments t @ [(assignment_fingerprint sl a, a)]\<rparr>))"

definition pg_by_id :: "uuid \<Rightarrow> agent_tables \<Rightarrow> context_bundle option" where
  "pg_by_id cid t = find_first (\<lambda>b. cb_context_id b = cid) (at_bundles t)"

definition pg_issue :: "stdlib \<Rightarrow> context_bundle \<Rightarrow> (agent_tables, unit) prog" where
  "pg_issue sl b t =
     (case pg_by_id (cb_context_id b) t of
        Some existing \<Rightarrow> (if content_hash sl existing \<noteq> content_hash sl b then Inl ContextConflictError else Inr (), t)
      | None \<Rightarrow> (Inr (), t\<lparr>at_bundles := at_bundles t @ [b]\<rparr>))"

definition pg_by_hash :: "stdlib \<Rightarrow> string \<Rightarrow> agent_tables \<Rightarrow> context_bundle option" where
  "pg_by_hash sl h t = last_opt (filter (\<lambda>b. content_hash sl b = h) (at_bundles t))"

definition pg_latest_for :: "uuid \<Rightarrow> agent_tables \<Rightarrow> context_bundle option" where
  \<comment> \<open>of the latest, the one inserted last\<close>
  "pg_latest_for aid t = max_by cb_issued_at (rev (filter (\<lambda>b. cb_assignment_id b = aid) (at_bundles t)))"


subsection \<open>Outcomes\<close>

definition pg_outcome :: "uuid \<Rightarrow> agent_tables \<Rightarrow> outcome_row option" where
  "pg_outcome oid t = find_first (\<lambda>r. ow_outcome_id r = oid) (at_outcomes t)"

definition pg_claim ::
  "uuid \<Rightarrow> agent_outcome_type \<Rightarrow> uuid \<Rightarrow> uuid \<Rightarrow> string \<Rightarrow> utc \<Rightarrow> (agent_tables, bool) prog" where
  "pg_claim oid otype agent assignment fp now t =
     (case pg_outcome oid t of
        Some existing \<Rightarrow> (if ow_fingerprint existing \<noteq> fp then Inl DecisionConflictError else Inr False, t)
      | None \<Rightarrow>
          (Inr True, t\<lparr>at_outcomes := at_outcomes t @
             [\<lparr>ow_outcome_id = oid, ow_outcome_type = otype, ow_agent_id = agent, ow_assignment_id = assignment,
               ow_fingerprint = fp, ow_claimed_at = now\<rparr>]\<rparr>))"

definition pg_outcome_type :: "uuid \<Rightarrow> agent_tables \<Rightarrow> agent_outcome_type option" where
  "pg_outcome_type oid t = map_option ow_outcome_type (pg_outcome oid t)"

definition pg_count_claimed_since :: "uuid \<Rightarrow> utc \<Rightarrow> agent_tables \<Rightarrow> int" where
  "pg_count_claimed_since aid since t =
     int (length (filter (\<lambda>r. ow_assignment_id r = aid \<and> since \<le> ow_claimed_at r) (at_outcomes t)))"

definition pg_append_event ::
  "stdlib \<Rightarrow> uuid \<Rightarrow> agent_event_type \<Rightarrow> utc \<Rightarrow> string list \<Rightarrow> string option \<Rightarrow> (agent_tables, unit) prog" where
  \<comment> \<open>an event of an unclaimed outcome violates the foreign key\<close>
  "pg_append_event sl oid kind occurred reasons detail t =
     (let eid = agent_event_id sl oid kind in
      case find_first (\<lambda>e. ew_event_id e = eid) (at_events t) of
        Some e \<Rightarrow>
          (if (av_reason_codes (ew_event e), av_detail (ew_event e)) \<noteq> (reasons, detail)
           then Inl EventConflictError else Inr (), t)
      | None \<Rightarrow>
          if pg_outcome oid t = None then (Inl RuntimeError, t)
          else (Inr (), t\<lparr>at_events := at_events t @
             [\<lparr>ew_event_id = eid, ew_event =
                \<lparr>av_outcome_id = oid, av_event_type = kind, av_occurred_at = occurred,
                 av_reason_codes = reasons, av_detail = detail\<rparr>\<rparr>]\<rparr>))"

definition pg_events_for :: "uuid \<Rightarrow> agent_tables \<Rightarrow> agent_event list" where
  "pg_events_for oid t = filter (\<lambda>e. av_outcome_id e = oid) (map ew_event (at_events t))"

definition pg_settlement_for :: "uuid \<Rightarrow> agent_tables \<Rightarrow> agent_event option" where
  "pg_settlement_for oid t = find_first (\<lambda>e. av_outcome_id e = oid \<and> settling e) (map ew_event (at_events t))"

definition pg_latest_outcome_id_for :: "uuid \<Rightarrow> agent_tables \<Rightarrow> uuid option" where
  "pg_latest_outcome_id_for aid t =
     map_option ow_outcome_id
       (max_by ow_claimed_at (rev (filter (\<lambda>r. ow_assignment_id r = aid) (at_outcomes t))))"

definition pg_trade_proposal_outcome_ids_for :: "uuid \<Rightarrow> uuid \<Rightarrow> agent_tables \<Rightarrow> uuid list" where
  "pg_trade_proposal_outcome_ids_for agent aid t =
     map ow_outcome_id (sort_key ow_claimed_at
       (filter (\<lambda>r. ow_agent_id r = agent \<and> ow_assignment_id r = aid \<and> ow_outcome_type r = TRADE_PROPOSAL)
          (at_outcomes t)))"

definition pg_counts_by_outcome_type :: "uuid \<Rightarrow> uuid \<Rightarrow> agent_tables \<Rightarrow> agent_outcome_type \<Rightarrow> int option" where
  "pg_counts_by_outcome_type agent aid t otype =
     (let rows = filter (\<lambda>r. ow_agent_id r = agent \<and> ow_assignment_id r = aid \<and> ow_outcome_type r = otype) (at_outcomes t) in
      if rows = [] then None else Some (int (length rows)))"


subsection \<open>The in-memory stores they stand for\<close>

definition outcome_of_row :: "agent_tables \<Rightarrow> outcome_row \<Rightarrow> uuid \<times> stored_outcome" where
  "outcome_of_row t r =
     (ow_outcome_id r,
      \<lparr>st_outcome_type = ow_outcome_type r, st_agent_id = ow_agent_id r, st_assignment_id = ow_assignment_id r,
       st_fingerprint = ow_fingerprint r, st_claimed_at = ow_claimed_at r,
       st_events = pg_events_for (ow_outcome_id r) t\<rparr>)"

definition represents :: "stdlib \<Rightarrow> agent_tables \<Rightarrow> gateway_stores \<Rightarrow> bool" where
  "represents sl t g \<longleftrightarrow>
     (\<forall>a. pg_identity a t = map_of (gs_identities g) a) \<and>
     (\<forall>a. pg_current_hash a t = map_of (gs_credentials g) a) \<and>
     (\<forall>a. pg_assignment a t = map_of (gs_assignments g) a) \<and>
     (\<forall>(fp, a) \<in> set (at_assignments t). fp = assignment_fingerprint sl a) \<and>
     (\<forall>c. pg_by_id c t = map_of (gs_contexts g) c) \<and>
     (\<forall>h. pg_by_hash sl h t = map_of (gs_by_hash g) h) \<and>
     gs_outcomes g = map (outcome_of_row t) (at_outcomes t) \<and> distinct (map ow_outcome_id (at_outcomes t)) \<and>
     (\<forall>e \<in> set (at_events t). ew_event_id e = agent_event_id sl (av_outcome_id (ew_event e)) (av_event_type (ew_event e)) \<and>
        av_outcome_id (ew_event e) \<in> ow_outcome_id ` set (at_outcomes t))"

definition empty_tables :: agent_tables where
  "empty_tables = \<lparr>at_identities = [], at_credentials = [], at_assignments = [], at_bundles = [],
     at_outcomes = [], at_events = []\<rparr>"

lemma empty_represents: "represents sl empty_tables empty_stores"
  by (simp add: represents_def empty_tables_def empty_stores_def pg_identity_def pg_current_hash_def
      pg_assignment_def pg_by_id_def pg_by_hash_def)

lemma last_opt_snoc_filter:
  "last_opt (filter p (xs @ [x])) = (if p x then Some x else last_opt (filter p xs))"
  by simp

lemma find_first_snoc:
  "find_first p (xs @ [x]) = (case find_first p xs of Some y \<Rightarrow> Some y | None \<Rightarrow> if p x then Some x else None)"
  by (induction xs) (auto split: option.split)

lemma represents_outcome:
  assumes "represents sl t g"
  shows "map_of (gs_outcomes g) oid = map_option (snd \<circ> outcome_of_row t) (pg_outcome oid t)"
proof -
  have "map_of (map (outcome_of_row t) rows) oid =
      map_option (snd \<circ> outcome_of_row t) (find_first (\<lambda>r. ow_outcome_id r = oid) rows)" for rows
    by (induction rows) (auto simp: outcome_of_row_def)
  with assms show ?thesis by (simp add: represents_def pg_outcome_def)
qed

definition simulates ::
  "stdlib \<Rightarrow> (agent_tables, 'a) prog \<Rightarrow> (gateway_stores, 'a) prog \<Rightarrow> bool" where
  "simulates sl m m' \<longleftrightarrow> (\<forall>t g. represents sl t g \<longrightarrow> fst (m t) = fst (m' g) \<and> represents sl (snd (m t)) (snd (m' g)))"

lemmas table_defs = pg_identity_def pg_current_hash_def pg_assignment_def pg_by_id_def pg_by_hash_def
  outcome_of_row_def pg_events_for_def

text \<open>What each lookup makes of a new row, and that it ignores the other tables.\<close>

lemma table_rows [simp]:
  "pg_identity a (t\<lparr>at_identities := at_identities t @ [i]\<rparr>) = (if ai_agent_id i = a then Some i else pg_identity a t)"
  "pg_current_hash a (t\<lparr>at_credentials := at_credentials t @ [(agent, h)]\<rparr>) = (if agent = a then Some h else pg_current_hash a t)"
  "pg_by_hash sl k (t\<lparr>at_bundles := at_bundles t @ [b]\<rparr>) = (if content_hash sl b = k then Some b else pg_by_hash sl k t)"
  by (simp_all add: table_defs)

lemma pg_assignment_row [simp]:
  "pg_assignment aid (t\<lparr>at_assignments := at_assignments t @ [(fp, a)]\<rparr>) =
     (case pg_assignment aid t of Some y \<Rightarrow> Some y | None \<Rightarrow> if tg_assignment_id a = aid then Some a else None)"
  by (simp add: pg_assignment_def find_first_snoc del: find_first_None split: option.split)

lemma pg_by_id_row [simp]:
  "pg_by_id c (t\<lparr>at_bundles := at_bundles t @ [b]\<rparr>) =
     (case pg_by_id c t of Some y \<Rightarrow> Some y | None \<Rightarrow> if cb_context_id b = c then Some b else None)"
  by (simp add: pg_by_id_def find_first_snoc)

lemma table_frames [simp]:
  "pg_identity a (t\<lparr>at_credentials := cs\<rparr>) = pg_identity a t" "pg_identity a (t\<lparr>at_assignments := as\<rparr>) = pg_identity a t"
  "pg_identity a (t\<lparr>at_bundles := bs\<rparr>) = pg_identity a t" "pg_identity a (t\<lparr>at_outcomes := os\<rparr>) = pg_identity a t"
  "pg_identity a (t\<lparr>at_events := es\<rparr>) = pg_identity a t"
  "pg_current_hash a (t\<lparr>at_identities := is\<rparr>) = pg_current_hash a t" "pg_current_hash a (t\<lparr>at_assignments := as\<rparr>) = pg_current_hash a t"
  "pg_current_hash a (t\<lparr>at_bundles := bs\<rparr>) = pg_current_hash a t" "pg_current_hash a (t\<lparr>at_outcomes := os\<rparr>) = pg_current_hash a t"
  "pg_current_hash a (t\<lparr>at_events := es\<rparr>) = pg_current_hash a t"
  "pg_assignment a (t\<lparr>at_identities := is\<rparr>) = pg_assignment a t" "pg_assignment a (t\<lparr>at_credentials := cs\<rparr>) = pg_assignment a t"
  "pg_assignment a (t\<lparr>at_bundles := bs\<rparr>) = pg_assignment a t" "pg_assignment a (t\<lparr>at_outcomes := os\<rparr>) = pg_assignment a t"
  "pg_assignment a (t\<lparr>at_events := es\<rparr>) = pg_assignment a t"
  "pg_by_id a (t\<lparr>at_identities := is\<rparr>) = pg_by_id a t" "pg_by_id a (t\<lparr>at_credentials := cs\<rparr>) = pg_by_id a t"
  "pg_by_id a (t\<lparr>at_assignments := as\<rparr>) = pg_by_id a t" "pg_by_id a (t\<lparr>at_outcomes := os\<rparr>) = pg_by_id a t"
  "pg_by_id a (t\<lparr>at_events := es\<rparr>) = pg_by_id a t"
  "pg_by_hash sl a (t\<lparr>at_identities := is\<rparr>) = pg_by_hash sl a t" "pg_by_hash sl a (t\<lparr>at_credentials := cs\<rparr>) = pg_by_hash sl a t"
  "pg_by_hash sl a (t\<lparr>at_assignments := as\<rparr>) = pg_by_hash sl a t" "pg_by_hash sl a (t\<lparr>at_outcomes := os\<rparr>) = pg_by_hash sl a t"
  "pg_by_hash sl a (t\<lparr>at_events := es\<rparr>) = pg_by_hash sl a t"
  "outcome_of_row (t\<lparr>at_identities := is\<rparr>) = outcome_of_row t" "outcome_of_row (t\<lparr>at_credentials := cs\<rparr>) = outcome_of_row t"
  "outcome_of_row (t\<lparr>at_assignments := as\<rparr>) = outcome_of_row t" "outcome_of_row (t\<lparr>at_bundles := bs\<rparr>) = outcome_of_row t"
  "outcome_of_row (t\<lparr>at_outcomes := os\<rparr>) = outcome_of_row t"
  by (simp_all add: table_defs fun_eq_iff)

lemma simulate_identity:
  "simulates sl (modifyM (pg_register_identity i)) (modifyM (put_identity i))"
  "simulates sl (modifyM (pg_set_credential agent h)) (modifyM (put_credential agent h))"
  by (auto simp: simulates_def represents_def put_identity_def pg_register_identity_def put_credential_def
      pg_set_credential_def)

lemma simulate_assignment: "simulates sl (pg_register_assignment sl a) (register_assignment sl a)"
  unfolding simulates_def
proof (intro allI impI)
  fix t g
  assume r: "represents sl t g"
  have lookup: "map_of (gs_assignments g) (tg_assignment_id a) = pg_assignment (tg_assignment_id a) t"
    using r by (simp add: represents_def)
  show "fst (pg_register_assignment sl a t) = fst (register_assignment sl a g) \<and>
      represents sl (snd (pg_register_assignment sl a t)) (snd (register_assignment sl a g))"
  proof (cases "find_first (\<lambda>r. tg_assignment_id (snd r) = tg_assignment_id a) (at_assignments t)")
    case None
    then have "pg_assignment (tg_assignment_id a) t = None" by (simp add: pg_assignment_def del: find_first_None)
    with r None lookup show ?thesis
      by (auto simp: pg_register_assignment_def register_assignment_def represents_def
          simp del: find_first_None split: option.split)
  next
    case (Some x)
    obtain fp b where x: "x = (fp, b)" by (cases x)
    with Some have "pg_assignment (tg_assignment_id a) t = Some b" by (simp add: pg_assignment_def)
    moreover from find_first_Some [OF Some] x r have "fp = assignment_fingerprint sl b"
      by (auto simp: represents_def)
    ultimately show ?thesis
      using Some x r lookup by (simp add: pg_register_assignment_def register_assignment_def)
  qed
qed

lemma simulate_issue: "simulates sl (pg_issue sl b) (issue_bundle sl b)"
  unfolding simulates_def
proof (intro allI impI)
  fix t g
  assume r: "represents sl t g"
  then have id: "map_of (gs_contexts g) (cb_context_id b) = pg_by_id (cb_context_id b) t"
    by (simp add: represents_def)
  show "fst (pg_issue sl b t) = fst (issue_bundle sl b g) \<and>
      represents sl (snd (pg_issue sl b t)) (snd (issue_bundle sl b g))"
  proof (cases "pg_by_id (cb_context_id b) t")
    case None
    with r id show ?thesis
      by (auto simp: pg_issue_def issue_bundle_def represents_def split: option.split)
  next
    case (Some x)
    with r id show ?thesis by (simp add: pg_issue_def issue_bundle_def)
  qed
qed

lemma simulate_claim:
  "simulates sl (pg_claim oid otype agent assignment fp now) (claim_outcome oid otype agent assignment fp now)"
  unfolding simulates_def
proof (intro allI impI)
  fix t g
  assume r: "represents sl t g"
  note lookup = represents_outcome [OF r, of oid]
  show "fst (pg_claim oid otype agent assignment fp now t) = fst (claim_outcome oid otype agent assignment fp now g) \<and>
      represents sl (snd (pg_claim oid otype agent assignment fp now t))
        (snd (claim_outcome oid otype agent assignment fp now g))"
  proof (cases "pg_outcome oid t")
    case None
    then have new: "oid \<notin> ow_outcome_id ` set (at_outcomes t)" by (auto simp: pg_outcome_def)
    with r have "filter (\<lambda>e. av_outcome_id e = oid) (map ew_event (at_events t)) = []"
      by (auto simp: represents_def filter_empty_conv)
    with r None new lookup show ?thesis
      by (simp add: pg_claim_def claim_outcome_def represents_def update_new) (simp add: outcome_of_row_def pg_events_for_def)
  next
    case (Some x)
    with r lookup show ?thesis by (simp add: pg_claim_def claim_outcome_def outcome_of_row_def)
  qed
qed

text \<open>No recorded event of another outcome or kind shares the derived identity of this one.\<close>

definition apart :: "stdlib \<Rightarrow> agent_tables \<Rightarrow> uuid \<Rightarrow> agent_event_type \<Rightarrow> bool" where
  "apart sl t oid kind \<longleftrightarrow>
     list_all (\<lambda>e. agent_event_id sl (av_outcome_id (ew_event e)) (av_event_type (ew_event e)) \<noteq> agent_event_id sl oid kind \<or>
        av_outcome_id (ew_event e) = oid \<and> av_event_type (ew_event e) = kind) (at_events t)"

lemma find_event:
  assumes "represents sl t g" "apart sl t oid kind"
  shows "find_first (\<lambda>e. av_event_type e = kind) (pg_events_for oid t) =
    map_option ew_event (find_first (\<lambda>e. ew_event_id e = agent_event_id sl oid kind) (at_events t))"
proof -
  have "find_first (\<lambda>e. av_event_type e = kind) (filter (\<lambda>e. av_outcome_id e = oid) (map ew_event es)) =
      map_option ew_event (find_first (\<lambda>e. ew_event_id e = agent_event_id sl oid kind) es)"
    if "\<And>e. e \<in> set es \<Longrightarrow> ew_event_id e = agent_event_id sl (av_outcome_id (ew_event e)) (av_event_type (ew_event e))"
      "set es \<subseteq> set (at_events t)" for es
    using that
  proof (induction es)
    case (Cons e es)
    have "ew_event_id e = agent_event_id sl oid kind \<longleftrightarrow> av_outcome_id (ew_event e) = oid \<and> av_event_type (ew_event e) = kind"
      using Cons.prems(1) [of e] Cons.prems(2) assms(2) by (auto simp: apart_def list_all_iff)
    with Cons show ?case by auto
  qed simp
  from this [of "at_events t"] assms(1) show ?thesis unfolding represents_def pg_events_for_def by blast
qed

lemma update_rows:
  assumes "distinct (map ow_outcome_id rows)" "r \<in> set rows"
    "\<And>x. x \<in> set rows \<Longrightarrow> x \<noteq> r \<Longrightarrow> f x = outcome_of_row t x" "fst (f r) = ow_outcome_id r"
  shows "AList.update (ow_outcome_id r) (snd (f r)) (map (outcome_of_row t) rows) = map f rows"
  using assms
proof (induction rows)
  case (Cons x rows)
  show ?case
  proof (cases "x = r")
    case True
    with Cons.prems have "map f rows = map (outcome_of_row t) rows" by (intro map_cong) auto
    moreover have "f r = (ow_outcome_id r, snd (f r))" using Cons.prems(4) by (metis prod.collapse)
    ultimately show ?thesis using True by (simp add: outcome_of_row_def)
  next
    case False
    with Cons.prems have "ow_outcome_id x \<noteq> ow_outcome_id r" "r \<in> set rows" by auto
    with Cons False show ?thesis by (simp add: outcome_of_row_def)
  qed
qed simp

lemma simulate_append:
  assumes r: "represents sl t g" and "apart sl t oid kind" "pg_outcome oid t \<noteq> None"
  shows "fst (pg_append_event sl oid kind occurred reasons detail t) = fst (append_agent_event oid kind occurred reasons detail g) \<and>
    represents sl (snd (pg_append_event sl oid kind occurred reasons detail t))
      (snd (append_agent_event oid kind occurred reasons detail g))"
proof -
  obtain row where row: "pg_outcome oid t = Some row" using assms(3) by auto
  then have id: "ow_outcome_id row = oid" and "in": "row \<in> set (at_outcomes t)"
    using find_first_Some by (fastforce simp: pg_outcome_def)+
  have stored: "map_of (gs_outcomes g) oid = Some (snd (outcome_of_row t row))"
    using represents_outcome [OF r, of oid] row by simp
  have events: "st_events (snd (outcome_of_row t row)) = pg_events_for oid t"
    by (simp add: outcome_of_row_def id)
  note found = find_event [OF r assms(2)]
  show ?thesis
  proof (cases "find_first (\<lambda>e. ew_event_id e = agent_event_id sl oid kind) (at_events t)")
    case (Some e)
    with found stored events r show ?thesis by (simp add: pg_append_event_def append_agent_event_def)
  next
    case None
    let ?e = "\<lparr>av_outcome_id = oid, av_event_type = kind, av_occurred_at = occurred, av_reason_codes = reasons,
      av_detail = detail\<rparr>"
    let ?t = "t\<lparr>at_events := at_events t @ [\<lparr>ew_event_id = agent_event_id sl oid kind, ew_event = ?e\<rparr>]\<rparr>"
    let ?s = "(snd (outcome_of_row t row))\<lparr>st_events := pg_events_for oid t @ [?e]\<rparr>"
    have pg: "pg_append_event sl oid kind occurred reasons detail t = (Inr (), ?t)"
      using None row by (simp add: pg_append_event_def del: find_first_None)
    have mem: "append_agent_event oid kind occurred reasons detail g =
        (Inr (), g\<lparr>gs_outcomes := AList.update oid ?s (gs_outcomes g)\<rparr>)"
      using None found stored events by (simp add: append_agent_event_def del: find_first_None)
    have f: "outcome_of_row ?t row = (oid, ?s)" by (simp add: outcome_of_row_def id pg_events_for_def)
    have "AList.update oid ?s (gs_outcomes g) = map (outcome_of_row ?t) (at_outcomes t)"
    proof -
      have "AList.update (ow_outcome_id row) (snd (outcome_of_row ?t row)) (map (outcome_of_row t) (at_outcomes t)) =
          map (outcome_of_row ?t) (at_outcomes t)"
      proof (rule update_rows)
        show "outcome_of_row ?t x = outcome_of_row t x" if "x \<in> set (at_outcomes t)" "x \<noteq> row" for x
        proof -
          have "ow_outcome_id x \<noteq> oid"
            using that "in" id r by (auto simp: represents_def distinct_map inj_on_def)
          then show ?thesis by (simp add: outcome_of_row_def pg_events_for_def)
        qed
      qed (use r "in" in \<open>simp_all add: represents_def outcome_of_row_def\<close>)
      with r f id show ?thesis by (simp add: represents_def)
    qed
    with pg mem r "in" id show ?thesis by (auto simp: represents_def)
  qed
qed

text \<open>What the gateway reads.\<close>

lemma find_first_filter: "find_first (\<lambda>x. p x \<and> q x) xs = find_first q (filter p xs)"
  by (induction xs) auto

lemma simulate_reads:
  assumes r: "represents sl t g"
  shows "pg_settlement_for oid t = settlement_for oid g" "pg_events_for oid t = agent_events_for oid g"
    "pg_count_claimed_since aid since t = count_claimed_since aid since g" "pg_outcome_type oid t = outcome_type oid g"
proof -
  note lookup = represents_outcome [OF r, of oid]
  have none: "pg_events_for oid t = []" if "pg_outcome oid t = None"
    using that r by (fastforce simp: pg_outcome_def pg_events_for_def represents_def filter_empty_conv)
  have some: "ow_outcome_id x = oid" if "pg_outcome oid t = Some x" for x
    using that find_first_Some by (fastforce simp: pg_outcome_def)
  show e: "pg_events_for oid t = agent_events_for oid g"
    using lookup none some by (cases "pg_outcome oid t") (auto simp: agent_events_for_def outcome_of_row_def)
  have "pg_settlement_for oid t = find_first settling (pg_events_for oid t)"
    by (simp add: pg_settlement_for_def pg_events_for_def find_first_filter)
  then show "pg_settlement_for oid t = settlement_for oid g"
    unfolding e by (simp add: settlement_for_def agent_events_for_def split: option.split)
  show "pg_outcome_type oid t = outcome_type oid g"
    using lookup by (cases "pg_outcome oid t") (auto simp: pg_outcome_type_def outcome_type_def outcome_of_row_def)
  have "length (filter (\<lambda>r. ow_assignment_id r = aid \<and> since \<le> ow_claimed_at r) rows) =
      length (filter (\<lambda>r. st_assignment_id r = aid \<and> since \<le> st_claimed_at r) (map snd (map (outcome_of_row t) rows)))" for rows
    by (induction rows) (auto simp: outcome_of_row_def)
  with r show "pg_count_claimed_since aid since t = count_claimed_since aid since g"
    by (simp add: represents_def pg_count_claimed_since_def count_claimed_since_def)
qed


end
