(* ===== verification/Agent_Review.thy ===== *)
theory Agent_Review
  imports Agent_Contracts
begin

text \<open>
  What an external agent is shown and how an external supervisor's word is taken
  (\<^verbatim>\<open>agent_gateway/market_context.py\<close>, \<^verbatim>\<open>supervisor_review.py\<close>,
  \<^verbatim>\<open>reference_supervisor.py\<close>). The facts say that only a review bound to this very decision,
  unexpired and decided, is anything but unknown, and that the reference supervisor always
  answers with such a review.
\<close>

subsection \<open>Evaluating a review\<close>

definition NO_SUPERVISOR_RESPONSE :: string where
  "NO_SUPERVISOR_RESPONSE = ''NO_SUPERVISOR_RESPONSE''"
definition PROPOSAL_ID_MISMATCH :: string where
  "PROPOSAL_ID_MISMATCH = ''SUPERVISOR_REVIEW_PROPOSAL_ID_MISMATCH''"
definition TRADE_INTENT_ID_MISMATCH :: string where
  "TRADE_INTENT_ID_MISMATCH = ''SUPERVISOR_REVIEW_TRADE_INTENT_ID_MISMATCH''"
definition TRADE_INTENT_HASH_MISMATCH :: string where
  "TRADE_INTENT_HASH_MISMATCH = ''SUPERVISOR_REVIEW_TRADE_INTENT_HASH_MISMATCH''"
definition REVIEW_EXPIRED :: string where
  "REVIEW_EXPIRED = ''SUPERVISOR_REVIEW_EXPIRED''"
definition REVIEW_SELF_REPORTED_UNKNOWN :: string where
  "REVIEW_SELF_REPORTED_UNKNOWN = ''SUPERVISOR_REVIEW_SELF_REPORTED_UNKNOWN''"

record review_outcome =
  ro_verdict :: external_verdict
  ro_reason_codes :: "string list"
  ro_review :: "supervisor_review option"

definition is_veto :: "review_outcome \<Rightarrow> bool" where
  "is_veto out \<longleftrightarrow> ro_verdict out = EV_VETO"

definition unknown_review :: "string \<Rightarrow> review_outcome" where
  "unknown_review reason = \<lparr>ro_verdict = EV_UNKNOWN, ro_reason_codes = [reason], ro_review = None\<rparr>"

definition evaluate_supervisor_review ::
  "supervisor_review option \<Rightarrow> uuid \<Rightarrow> uuid \<Rightarrow> string \<Rightarrow> utc \<Rightarrow> review_outcome" where
  "evaluate_supervisor_review review proposal_id intent_id intent_hash now =
     (case review of
        None \<Rightarrow> unknown_review NO_SUPERVISOR_RESPONSE
      | Some r \<Rightarrow>
          if sr_proposal_id r \<noteq> proposal_id then unknown_review PROPOSAL_ID_MISMATCH
          else if sr_trade_intent_id r \<noteq> intent_id then unknown_review TRADE_INTENT_ID_MISMATCH
          else if sr_trade_intent_decision_hash r \<noteq> intent_hash then unknown_review TRADE_INTENT_HASH_MISMATCH
          else if sr_expires_at r \<le> now then unknown_review REVIEW_EXPIRED
          else if sr_verdict r = EV_UNKNOWN then unknown_review REVIEW_SELF_REPORTED_UNKNOWN
          else \<lparr>ro_verdict = sr_verdict r, ro_reason_codes = sr_reason_codes r, ro_review = Some r\<rparr>)"


subsection \<open>The reference supervisor\<close>

record reference_config =
  rv_supervisor_agent_id :: uuid
  rv_min_confidence :: rat
  rv_review_validity_seconds :: int

definition ReferenceSupervisorConfig :: "uuid \<Rightarrow> rat \<Rightarrow> int \<Rightarrow> py_exn + reference_config" where
  "ReferenceSupervisorConfig agent confidence validity =
     (if \<not> (0 \<le> confidence \<and> confidence \<le> 1) then Inl ValueError
      else if validity \<le> 0 then Inl ValueError
      else Inr \<lparr>rv_supervisor_agent_id = agent, rv_min_confidence = confidence,
                rv_review_validity_seconds = validity\<rparr>)"

definition reference_reasons :: "reference_config \<Rightarrow> trade_proposal \<Rightarrow> string list" where
  "reference_reasons config p =
     reason_if (tp_reason_codes p = []) ''REFERENCE_SUPERVISOR_MISSING_REASON_CODES'' @
     reason_if (tp_confidence p < rv_min_confidence config) ''REFERENCE_SUPERVISOR_LOW_CONFIDENCE''"

definition reference_review ::
  "stdlib \<Rightarrow> reference_config \<Rightarrow> trade_proposal \<Rightarrow> trade_intent \<Rightarrow> uuid \<Rightarrow> uuid \<Rightarrow> utc \<Rightarrow> py_exn + supervisor_review" where
  "reference_review sl config p intent risk_id policy_id now =
     (let reasons = reference_reasons config p in
      contract supervisor_review_valid
        \<lparr>sr_review_id = uuid5_url sl (''crumblr:reference-supervisor:'' @ tp_proposal_id p @ '':'' @ decision_hash sl intent),
         sr_proposal_id = tp_proposal_id p, sr_proposal_fingerprint = proposal_fingerprint sl p,
         sr_trade_intent_id = ti_intent_id intent, sr_trade_intent_decision_hash = decision_hash sl intent,
         sr_risk_decision_id = Some risk_id, sr_policy_gate_decision_id = Some policy_id,
         sr_supervisor_agent_id = rv_supervisor_agent_id config,
         sr_supervisor_runtime_version = ''reference-supervisor-v1'',
         sr_policy_version = ''reference-supervisor-policy-v1'',
         sr_verdict = (if reasons \<noteq> [] then EV_VETO else EV_APPROVE), sr_reason_codes = reasons,
         sr_evidence_claims = tp_evidence_refs p, sr_confidence = Some (tp_confidence p),
         sr_calibration_notes = None, sr_reviewed_at = now,
         sr_expires_at = now + rv_review_validity_seconds config * 1000000\<rparr>)"


subsection \<open>The outbound context\<close>

record context_provenance =
  cp_context_id :: uuid
  cp_content_hash :: string
  cp_assignment_id :: uuid
  cp_strategy_artifact_id :: uuid
  cp_strategy_artifact_hash :: string
  cp_issued_at :: utc
  cp_expires_at :: utc

record agent_market_data =
  ad_canonical_symbol :: string
  ad_timeframe :: string
  ad_market_snapshot_id :: uuid
  ad_event_time :: utc
  ad_bid :: decimal
  ad_ask :: decimal
  ad_spread_points :: int
  ad_data_quality :: data_quality
  ad_bars :: "bar list"
  ad_source_bar_ids :: "string list"

record instrument_facts =
  af_broker_symbol :: string
  af_digits :: int
  af_point :: decimal
  af_tick_size :: decimal
  af_stops_level :: int
  af_volume_min :: decimal
  af_volume_max :: decimal
  af_volume_step :: decimal
  af_spec_version :: string

record agent_platform_state =
  ap_session_state :: session_state
  ap_safety_state :: kill_switch_state
  ap_reconciliation_status :: reconciliation_status
  ap_feature_snapshot_id :: uuid
  ap_open_position_count :: int
  ap_open_risk_fraction :: "decimal option"

record market_context =
  mx_provenance :: context_provenance
  mx_market :: agent_market_data
  mx_instrument :: instrument_facts
  mx_platform_state :: agent_platform_state
  mx_policy_hints :: "policy_hints option"

definition open_risk_fraction_ok :: "decimal \<Rightarrow> bool" where
  "open_risk_fraction_ok f \<longleftrightarrow> 0 \<le> f \<and> f \<le> 1"

definition market_context_valid :: "market_context \<Rightarrow> bool" where [checks]:
  "market_context_valid c \<longleftrightarrow>
     version_tag_ok (cp_strategy_artifact_hash (mx_provenance c)) \<and>
     symbol_ok (ad_canonical_symbol (mx_market c)) \<and> 0 < ad_bid (mx_market c) \<and> 0 < ad_ask (mx_market c) \<and>
     symbol_ok (af_broker_symbol (mx_instrument c)) \<and> 0 < af_volume_min (mx_instrument c) \<and>
     0 < af_volume_max (mx_instrument c) \<and> 0 < af_volume_step (mx_instrument c) \<and>
     opt_ok open_risk_fraction_ok (ap_open_risk_fraction (mx_platform_state c))"

definition DEFAULT_MAX_BARS :: int where "DEFAULT_MAX_BARS = 400"

definition source_bar_id :: "stdlib \<Rightarrow> string \<Rightarrow> string \<Rightarrow> bar \<Rightarrow> string" where
  "source_bar_id sl symbol timeframe b = symbol @ '':'' @ timeframe @ '':'' @ iso_format sl (open_time b)"

definition build_agent_market_context_v1 ::
  "stdlib \<Rightarrow> context_provenance \<Rightarrow> market_snapshot \<Rightarrow> instrument_spec \<Rightarrow> agent_platform_state \<Rightarrow>
     policy_hints option \<Rightarrow> int \<Rightarrow> py_exn + market_context" where
  "build_agent_market_context_v1 sl provenance snap spec platform hints max_bars =
     (if max_bars < 0 then Inl ValueError
      else
        let bounded = (if 0 < max_bars then last_n (nat max_bars) (ms_bars snap) else []) in
        bindE (spec_version sl spec) (\<lambda>version.
        contract market_context_valid
          \<lparr>mx_provenance = provenance,
           mx_market =
             \<lparr>ad_canonical_symbol = ms_symbol snap, ad_timeframe = ms_timeframe snap,
              ad_market_snapshot_id = ms_snapshot_id snap, ad_event_time = ms_event_time snap,
              ad_bid = ms_bid snap, ad_ask = ms_ask snap, ad_spread_points = ms_spread_points snap,
              ad_data_quality = ms_data_quality snap, ad_bars = bounded,
              ad_source_bar_ids = map (source_bar_id sl (ms_symbol snap) (ms_timeframe snap)) bounded\<rparr>,
           mx_instrument =
             \<lparr>af_broker_symbol = spec_broker_symbol spec, af_digits = digits spec, af_point = point spec,
              af_tick_size = tick_size spec, af_stops_level = stops_level spec, af_volume_min = volume_min spec,
              af_volume_max = volume_max spec, af_volume_step = volume_step spec, af_spec_version = version\<rparr>,
           mx_platform_state = platform, mx_policy_hints = hints\<rparr>))"


subsection \<open>Facts\<close>


lemma unknown_has_no_review:
  "ro_verdict (evaluate_supervisor_review review pid iid h now) = EV_UNKNOWN \<Longrightarrow>
     (\<exists>reason. evaluate_supervisor_review review pid iid h now = unknown_review reason)"
  by (auto simp: evaluate_supervisor_review_def split: option.splits if_splits)

lemma evaluated_reasons_ok:
  "opt_ok supervisor_review_valid review \<Longrightarrow>
     reason_codes_ok (ro_reason_codes (evaluate_supervisor_review review pid iid h now))"
  by (auto simp: evaluate_supervisor_review_def unknown_review_def supervisor_review_valid_def
      reason_codes_ok_def reason_code_token_ok_def text_ok_def NO_SUPERVISOR_RESPONSE_def
      PROPOSAL_ID_MISMATCH_def TRADE_INTENT_ID_MISMATCH_def TRADE_INTENT_HASH_MISMATCH_def
      REVIEW_EXPIRED_def REVIEW_SELF_REPORTED_UNKNOWN_def split: option.splits)

lemma reference_reasons_ok: "reason_codes_ok (reference_reasons config p)"
  by (simp add: reference_reasons_def reason_if_def reason_codes_ok_def reason_code_token_ok_def text_ok_def)

text \<open>
  The reference supervisor always returns a valid review, and what is made of it at once is
  its own verdict: an approval exactly if the proposal gives reasons and is confident enough.
\<close>

lemma reference_supervisor_answers:
  assumes "ReferenceSupervisorConfig agent confidence validity = Inr config" "trade_proposal_valid p"
  shows "\<exists>r. reference_review sl config p intent risk_id policy_id now = Inr r \<and>
    ro_verdict (evaluate_supervisor_review (Some r) (tp_proposal_id p) (ti_intent_id intent) (decision_hash sl intent) now) =
      (if tp_reason_codes p \<noteq> [] \<and> confidence \<le> tp_confidence p then EV_APPROVE else EV_VETO)"
proof -
  have c: "0 < rv_review_validity_seconds config" "rv_min_confidence config = confidence"
    using assms(1) by (auto simp: ReferenceSupervisorConfig_def split: if_splits)
  have "0 \<le> tp_confidence p" "tp_confidence p \<le> 1" using assms(2) by (simp_all add: trade_proposal_valid_def)
  moreover have "reference_reasons config p = [] \<longleftrightarrow> tp_reason_codes p \<noteq> [] \<and> confidence \<le> tp_confidence p"
    using c(2) by (simp add: reference_reasons_def not_less)
  ultimately show ?thesis
    using c(1) by (simp add: reference_review_def supervisor_review_valid_def text_ok_def reference_reasons_ok
        evaluate_supervisor_review_def contract_def Let_def)
qed

text \<open>An agent is shown at most the bars it asked for, the latest ones, each under its own identity.\<close>

lemma context_is_bounded:
  assumes "build_agent_market_context_v1 sl provenance snap spec platform hints max_bars = Inr c"
  shows "int (length (ad_bars (mx_market c))) = min max_bars (int (length (ms_bars snap)))"
    "set (ad_bars (mx_market c)) \<subseteq> set (ms_bars snap)"
    "ad_source_bar_ids (mx_market c) = map (source_bar_id sl (ms_symbol snap) (ms_timeframe snap)) (ad_bars (mx_market c))"
  using assms
  by (auto simp: build_agent_market_context_v1_def bindE_eq_Inr Let_def dest: subsetD [OF set_last_n_subset]
      split: if_splits)

end
