(* ===== verification/Agent_Path.thy ===== *)
theory Agent_Path
  imports Agent_Gateway Agent_Review Replay Desk_Safety
begin

text \<open>
  From an accepted proposal to a sealed capsule (\<^verbatim>\<open>agent_gateway/decision_path.py\<close>):
  the same risk engine as an internal strategy's, a policy gate that knows no strategy, an
  optional external supervisor, and the desk's journal and switch (\<open>Recording\<close>). The
  portfolio, the recorded session and the external supervisor's answers come from outside;
  the ledger lock is a transaction without writes.
\<close>

definition AGENT_POLICY_VERSION :: string where
  "AGENT_POLICY_VERSION = ''external-agent-policy-v1''"

record portfolio_snapshot =
  pp_account :: account_state
  pp_open_positions :: "position_state list"
  pp_reconciliation_status :: reconciliation_status

type_synonym supervisor_provider =
  "trade_proposal \<Rightarrow> trade_intent \<Rightarrow> uuid \<Rightarrow> uuid \<Rightarrow> utc \<Rightarrow> py_exn + supervisor_review option"

record agent_outside =
  xo_portfolio :: "nat \<Rightarrow> py_exn + portfolio_snapshot"
  xo_session :: "nat \<Rightarrow> py_exn + session_record"

record 's agent_env =
  an_desk :: "'s desk_env"
  an_zone :: zone_data
  an_config :: platform_config
  an_dec_text :: "decimal \<Rightarrow> string"
  an_environment :: environment
  an_code_commit :: string
  an_error_text :: "py_exn \<Rightarrow> string"

abbreviation an_stdlib :: "'s agent_env \<Rightarrow> stdlib" where
  "an_stdlib env \<equiv> de_stdlib (an_desk env)"

record agent_request =
  aq_outcome_id :: uuid
  aq_strategy_version :: string
  aq_snapshot :: market_snapshot
  aq_spec :: instrument_spec
  aq_feature_set_version :: string
  aq_feature_values_hash :: "py_exn + string"
  aq_now :: utc
  aq_seen_decision_hashes :: "string set"
  aq_orders_in_last_hour :: int
  aq_incident_status :: incident_status
  aq_proposal :: "trade_proposal option"
  aq_external_supervisor :: "supervisor_provider option"

record agent_path_result =
  pr_capsule :: decision_capsule
  pr_risk_decision :: "risk_decision option"
  pr_supervisor_decision :: "supervisor_decision option"
  pr_external_outcome :: "review_outcome option"
  pr_external_record :: "review_record option"

definition from_outside :: "(nat \<Rightarrow> py_exn + 'a) \<Rightarrow> (('s, 'm) desk_scheme, 'a) prog" where
  "from_outside answer w = (answer (dk_calls w), w\<lparr>dk_calls := dk_calls w + 1\<rparr>)"


subsection \<open>The strategy-neutral policy gate\<close>

definition platform_policy_decision ::
  "stdlib \<Rightarrow> trade_intent \<Rightarrow> supervisor_verdict \<Rightarrow> reason_code list \<Rightarrow> utc \<Rightarrow> py_exn + supervisor_decision" where
  "platform_policy_decision sl intent verdict reasons now =
     contract supervisor_decision_valid
       \<lparr>sd_decision_id = uuid5_url sl (''crumblr:agent-policy:'' @ decision_hash sl intent @ '':'' @
          supervisor_verdict_value verdict),
        sd_intent_id = ti_intent_id intent, sd_verdict = verdict, sd_reason_codes = reasons,
        sd_decided_at = now, sd_policy_version = AGENT_POLICY_VERSION, sd_statistical_monitor_version = None,
        sd_observed_regime = RG_UNKNOWN, sd_notes = None, sd_uncalibrated_checks = []\<rparr>"

definition evaluate_platform_policy ::
  "stdlib \<Rightarrow> trade_intent \<Rightarrow> incident_status \<Rightarrow> reconciliation_status \<Rightarrow> utc \<Rightarrow> py_exn + supervisor_decision" where
  "evaluate_platform_policy sl intent incident reconciliation now =
     (if reconciliation = MISMATCHED
      then platform_policy_decision sl intent SV_HALT [RECONCILIATION_MISMATCH] now
      else if reconciliation = RS_UNKNOWN
      then platform_policy_decision sl intent SV_HALT [RECONCILIATION_UNKNOWN] now
      else
        let reasons = (case incident of ACTIVE \<Rightarrow> [ACTIVE_INCIDENT] | IS_UNKNOWN \<Rightarrow> [INCIDENT_STATE_UNKNOWN]
                       | CLEAR \<Rightarrow> []) in
        if reasons \<noteq> [] then platform_policy_decision sl intent VETO reasons now
        else platform_policy_decision sl intent APPROVE [] now)"

definition agent_risk_context :: "'s agent_env \<Rightarrow> string \<Rightarrow> py_exn + risk_context" where
  \<comment> \<open>the expected login is never set here\<close>
  "agent_risk_context env symbol =
     bindE (risk_for (an_config env) symbol) (\<lambda>risk.
     bindE (execution_for (an_config env) symbol) (\<lambda>execution.
     bindE (config_version (an_stdlib env) (an_dec_text env) (an_config env)) (\<lambda>version.
     risk_context_for (an_config env) version risk execution
       (calendar_of_market (an_zone env) (an_config env) symbol) None)))"

definition external_supervisor_record ::
  "stdlib \<Rightarrow> review_outcome \<Rightarrow> uuid \<Rightarrow> uuid \<Rightarrow> string \<Rightarrow> utc \<Rightarrow> py_exn + review_record" where
  "external_supervisor_record sl out pid iid h now =
     (let review_id = map_option sr_review_id (ro_review out) in
      contract review_record_valid
        \<lparr>xr_record_id = uuid5_url sl (''crumblr:external-supervisor-record:'' @ pid @ '':'' @ h @ '':'' @
           external_verdict_value (ro_verdict out) @ '':'' @
           (case review_id of None \<Rightarrow> ''None'' | Some u \<Rightarrow> u) @ '':'' @
           (case ro_reason_codes out of [] \<Rightarrow> [] | r # rs \<Rightarrow> r @ concat (map (\<lambda>x. '','' @ x) rs))),
         xr_proposal_id = pid, xr_trade_intent_id = iid, xr_trade_intent_decision_hash = h,
         xr_verdict = ro_verdict out, xr_reason_codes = ro_reason_codes out, xr_review_id = review_id,
         xr_evaluated_at = now\<rparr>)"


subsection \<open>Sealing\<close>

definition agent_capsule ::
  "'s agent_env \<Rightarrow> agent_request \<Rightarrow> string \<Rightarrow> position_state list \<Rightarrow> trade_intent option \<Rightarrow> risk_decision option \<Rightarrow>
     supervisor_decision option \<Rightarrow> py_exn + decision_capsule" where
  "agent_capsule env q version positions intent risk supervisor =
     bindE (aq_feature_values_hash q) (\<lambda>values_hash.
     contract decision_capsule_valid
       \<lparr>dc_capsule_id = uuid5_url (an_stdlib env) (''crumblr:agent-capsule:'' @ aq_outcome_id q),
        dc_occurred_at = ms_event_time (aq_snapshot q), dc_correlation_id = ms_snapshot_id (aq_snapshot q),
        dc_canonical_symbol = ms_symbol (aq_snapshot q), dc_broker_symbol = spec_broker_symbol (aq_spec q),
        dc_market_snapshot_id = ms_snapshot_id (aq_snapshot q),
        dc_feature_set_version = aq_feature_set_version q, dc_feature_values_hash = values_hash,
        dc_strategy_version = aq_strategy_version q, dc_model_version = None, dc_model_output = None,
        dc_trade_intent = intent, dc_risk_config_version = version, dc_risk_decision = risk,
        dc_supervisor_decision = supervisor, dc_execution_result = None,
        dc_position_state_before = positions, dc_position_state_after = positions,
        dc_code_commit = an_code_commit env, dc_environment = an_environment env\<rparr>)"

definition agent_seal ::
  "'s agent_env \<Rightarrow> agent_request \<Rightarrow> position_state list \<Rightarrow> trade_intent option \<Rightarrow> risk_decision option \<Rightarrow>
     supervisor_decision option \<Rightarrow> (('s, 'm) desk_scheme, decision_capsule) prog" where
  "agent_seal env q positions intent risk supervisor =
     bindM (liftM (config_version (an_stdlib env) (an_dec_text env) (an_config env))) (\<lambda>version.
     bindM (liftM (agent_capsule env q version positions intent risk supervisor)) (\<lambda>capsule.
     bindM (seal (an_desk env) capsule) (\<lambda>_. returnM capsule)))"

definition agent_note ::
  "'s agent_env \<Rightarrow> agent_request \<Rightarrow> event_payload \<Rightarrow> string \<Rightarrow> (('s, 'm) desk_scheme, unit) prog" where
  "agent_note env q payload source =
     record_event (an_desk env) payload (ms_snapshot_id (aq_snapshot q)) (ms_event_time (aq_snapshot q)) source"

definition agent_trip ::
  "'s agent_env \<Rightarrow> agent_request \<Rightarrow> reason_code list \<Rightarrow> string \<Rightarrow> string option \<Rightarrow> (('s, 'm) desk_scheme, unit) prog" where
  "agent_trip env q reasons who detail =
     desk_trip (an_desk env) reasons who (aq_now q) (ms_snapshot_id (aq_snapshot q)) detail"


subsection \<open>The stages\<close>

definition agent_recovery ::
  "'s agent_env \<Rightarrow> agent_outside \<Rightarrow> agent_request \<Rightarrow> portfolio_snapshot \<Rightarrow> (('s, 'm) desk_scheme, session_recovery) prog" where
  \<comment> \<open>the limits are the platform's, not the market's\<close>
  "agent_recovery env out q pp =
     (let equity = as_equity (pp_account pp); day = trading_day (an_zone env) (aq_now q);
          risk = pc_risk (an_config env) in
      catchM
        (begin_transaction (an_desk env)
           (bindM (from_outside (xo_session out)) (\<lambda>rec.
            liftM (recover_session rec equity (int (length (pp_open_positions pp))) day
                     (rc_max_daily_loss risk) (rc_max_drawdown risk)))))
        (\<lambda>e. if e = Crashed then None
             else Some (liftM (mapE (\<lambda>l.
               \<lparr>rec_ledger = l, rec_trading_day = Some day, rec_resumed = False,
                rec_reason_codes = [RISK_LEDGER_LOCK_UNAVAILABLE],
                rec_detail = Some (''risk-ledger lock/recover failed: '' @ an_error_text env e)\<rparr>)
               (EquityLedger equity)))))"

definition agent_portfolio :: "agent_request \<Rightarrow> portfolio_snapshot \<Rightarrow> equity_ledger \<Rightarrow> py_exn + portfolio_state" where
  "agent_portfolio q pp ledger =
     mapE (\<lambda>open_risk.
        \<lparr>pf_account = pp_account pp, pf_open_positions = pp_open_positions pp, pf_ledger = ledger,
         pf_orders_in_last_hour = aq_orders_in_last_hour q,
         pf_seen_decision_hashes = aq_seen_decision_hashes q,
         pf_open_risk_fraction = ora_fraction open_risk\<rparr>)
       (assess_open_risk (pp_open_positions pp) [spec_broker_symbol (aq_spec q) \<mapsto> aq_spec q]
          (as_equity (pp_account pp)))"

definition ask_external ::
  "'s agent_env \<Rightarrow> agent_request \<Rightarrow> trade_intent \<Rightarrow> risk_decision \<Rightarrow> supervisor_decision \<Rightarrow>
     (('s, 'm) desk_scheme, (review_outcome \<times> review_record) option) prog" where
  "ask_external env q intent risk policy =
     (case (aq_proposal q, aq_external_supervisor q) of
        (Some p, Some provider) \<Rightarrow>
          if sd_verdict policy \<noteq> APPROVE then returnM None
          else
            bindM (liftM (provider p intent (rd_decision_id risk) (sd_decision_id policy) (aq_now q))) (\<lambda>review.
            let h = decision_hash (an_stdlib env) intent;
                out = evaluate_supervisor_review review (tp_proposal_id p) (ti_intent_id intent) h (aq_now q) in
            bindM (liftM (external_supervisor_record (an_stdlib env) out (tp_proposal_id p) (ti_intent_id intent) h
                            (aq_now q))) (\<lambda>record.
            returnM (Some (out, record))))
      | _ \<Rightarrow> returnM None)"

definition agent_supervise ::
  "'s agent_env \<Rightarrow> agent_request \<Rightarrow> portfolio_snapshot \<Rightarrow> trade_intent \<Rightarrow> risk_decision \<Rightarrow>
     (('s, 'm) desk_scheme, agent_path_result) prog" where
  "agent_supervise env q pp intent risk =
     bindM (liftM (evaluate_platform_policy (an_stdlib env) intent (aq_incident_status q)
                     (pp_reconciliation_status pp) (aq_now q))) (\<lambda>policy.
     bindM (agent_note env q (SupervisorDecided policy) ''supervisor'') (\<lambda>_.
     bindM (whenM (sd_verdict policy = SV_HALT) (agent_trip env q (sd_reason_codes policy) ''supervisor'' None)) (\<lambda>_.
     bindM (ask_external env q intent risk policy) (\<lambda>external.
     bindM (agent_seal env q (pp_open_positions pp) (Some intent) (Some risk) (Some policy)) (\<lambda>capsule.
     returnM \<lparr>pr_capsule = capsule, pr_risk_decision = Some risk, pr_supervisor_decision = Some policy,
              pr_external_outcome = map_option fst external, pr_external_record = map_option snd external\<rparr>)))))"

definition agent_judge ::
  "'s agent_env \<Rightarrow> agent_request \<Rightarrow> portfolio_snapshot \<Rightarrow> trade_intent \<Rightarrow> equity_ledger \<Rightarrow>
     (('s, 'm) desk_scheme, agent_path_result) prog" where
  "agent_judge env q pp intent ledger =
     bindM (liftM (agent_portfolio q pp ledger)) (\<lambda>pf.
     bindM (liftM (agent_risk_context env (ms_symbol (aq_snapshot q)))) (\<lambda>ctx.
     bindM (getM dk_switch) (\<lambda>switch.
     bindM (liftM (evaluate (an_stdlib env) intent (aq_snapshot q) (aq_spec q) pf ctx switch (aq_now q))) (\<lambda>risk.
     bindM (agent_note env q (RiskDecided risk) ''risk_engine'') (\<lambda>_.
     bindM (whenM (rd_verdict risk = RV_HALT) (agent_trip env q (rd_reason_codes risk) ''risk_engine'' None)) (\<lambda>_.
     if rd_verdict risk \<noteq> PASS
     then
       bindM (agent_seal env q (pp_open_positions pp) (Some intent) (Some risk) None) (\<lambda>capsule.
       returnM \<lparr>pr_capsule = capsule, pr_risk_decision = Some risk, pr_supervisor_decision = None,
                pr_external_outcome = None, pr_external_record = None\<rparr>)
     else agent_supervise env q pp intent risk))))))"

definition evaluate_agent_trade_intent ::
  "'s agent_env \<Rightarrow> agent_outside \<Rightarrow> trade_intent option \<Rightarrow> agent_request \<Rightarrow>
     (('s, 'm) desk_scheme, agent_path_result) prog" where
  "evaluate_agent_trade_intent env out intent q =
     bindM (from_outside (xo_portfolio out)) (\<lambda>pp.
     case intent of
       None \<Rightarrow>
         bindM (agent_seal env q (pp_open_positions pp) None None None) (\<lambda>capsule.
         returnM \<lparr>pr_capsule = capsule, pr_risk_decision = None, pr_supervisor_decision = None,
                  pr_external_outcome = None, pr_external_record = None\<rparr>)
     | Some i \<Rightarrow>
         bindM (agent_note env q (IntentCreated i) ''agent_gateway'') (\<lambda>_.
         bindM (agent_recovery env out q pp) (\<lambda>recovery.
         bindM (whenM (must_halt recovery)
                  (agent_trip env q (rec_reason_codes recovery) ''agent_decision_path_risk_session_recovery''
                     (rec_detail recovery))) (\<lambda>_.
         agent_judge env q pp i (rec_ledger recovery)))))"

end
