(* ===== verification/Agent_Path_Safety.thy ===== *)
theory Agent_Path_Safety
  imports Agent_Path
begin

text \<open>
  What the agent decision path guarantees: the exact verdict of its policy gate, that it only
  appends to the journal and never lifts a halt, what an approved capsule rests on, and that
  the external supervisor's word is reported beside the sealed decision and never changes it.
\<close>

subsection \<open>The policy gate\<close>

lemma platform_policy_decision_Inr:
  "verdict = APPROVE \<or> reasons \<noteq> [] \<Longrightarrow>
     platform_policy_decision sl i verdict reasons now = Inr
       \<lparr>sd_decision_id = uuid5_url sl (''crumblr:agent-policy:'' @ decision_hash sl i @ '':'' @
          supervisor_verdict_value verdict),
        sd_intent_id = ti_intent_id i, sd_verdict = verdict, sd_reason_codes = reasons,
        sd_decided_at = now, sd_policy_version = AGENT_POLICY_VERSION, sd_statistical_monitor_version = None,
        sd_observed_regime = RG_UNKNOWN, sd_notes = None, sd_uncalibrated_checks = []\<rparr>"
  by (simp add: platform_policy_decision_def contract_def supervisor_decision_valid_def AGENT_POLICY_VERSION_def
      text_ok_def)

text \<open>
  The strategy-neutral policy gate always answers and its answer depends on nothing but
  the platform's health: HALT exactly when reconciliation is not matched, APPROVE exactly when
  it is matched and the incident register reads clear, VETO otherwise, with reasons exactly
  when it does not approve. No property of the intent, its strategy or its confidence matters.
\<close>

theorem platform_policy_is_health_only:
  "\<exists>d. evaluate_platform_policy sl i incident reconciliation now = Inr d \<and>
    sd_verdict d = (if reconciliation \<noteq> MATCHED then SV_HALT else if incident = CLEAR then APPROVE else VETO) \<and>
    (sd_reason_codes d = [] \<longleftrightarrow> sd_verdict d = APPROVE) \<and> sd_intent_id d = ti_intent_id i \<and>
    sd_observed_regime d = RG_UNKNOWN"
  by (cases reconciliation; cases incident)
     (simp_all add: evaluate_platform_policy_def platform_policy_decision_Inr)

subsection \<open>Nothing but the desk is touched\<close>

lemma outside_kept: "keeps (desk_kept env) (from_outside answer)"
  by (simp add: keeps_def from_outside_def desk_kept_def)

lemma agent_note_kept: "keeps (desk_kept (an_desk env)) (agent_note env q payload source)"
  unfolding agent_note_def by (rule desk_record_event)

lemma agent_trip_kept: "keeps (desk_kept (an_desk env)) (agent_trip env q reasons who detail)"
  unfolding agent_trip_def by (rule desk_trip_kept)

lemma agent_seal_kept: "keeps (desk_kept (an_desk env)) (agent_seal env q positions i r s)"
  unfolding agent_seal_def by (intro desk.keeps_bind desk.keeps_pure desk_seal)

lemma agent_recovery_kept: "keeps (desk_kept (an_desk env)) (agent_recovery env out q pp)"
  unfolding agent_recovery_def Let_def
  by (intro desk.keeps_catch desk_begin desk.keeps_bind outside_kept desk.keeps_pure)
     (auto split: if_splits)

lemma ask_external_kept: "keeps (desk_kept env') (ask_external env q i r s)"
  unfolding ask_external_def Let_def
  by (auto split: option.split intro!: desk.keeps_bind)

lemma agent_supervise_kept: "keeps (desk_kept (an_desk env)) (agent_supervise env q pp i r)"
  unfolding agent_supervise_def
  by (intro desk.keeps_bind desk.keeps_pure desk.keeps_when agent_note_kept agent_trip_kept ask_external_kept
      agent_seal_kept)

lemma agent_judge_kept: "keeps (desk_kept (an_desk env)) (agent_judge env q pp i l)"
  unfolding agent_judge_def
  by (intro desk.keeps_bind desk.keeps_pure desk.keeps_when desk.keeps_if agent_note_kept agent_trip_kept
      agent_seal_kept agent_supervise_kept)

text \<open>
  Whatever fails on the way, evaluating an agent's intent never lifts a halt, only appends
  to the journal and the capsules, and leaves no sealed capsule the journal does not record.
\<close>

theorem agent_path_keeps_the_desk:
  fixes w :: "('s, 'm) desk_scheme"
  shows "desk_kept (an_desk env) w (snd (evaluate_agent_trade_intent env out intent q w))"
proof -
  have "keeps (desk_kept (an_desk env))
      (evaluate_agent_trade_intent env out intent q :: (('s, 'm) desk_scheme, agent_path_result) prog)"
    unfolding evaluate_agent_trade_intent_def
    by (intro desk.keeps_bind outside_kept desk.keeps_option agent_seal_kept desk.keeps_pure agent_note_kept
        agent_recovery_kept desk.keeps_when agent_trip_kept agent_judge_kept)
  then show ?thesis by (simp add: keeps_def)
qed


subsection \<open>What an approval rests on\<close>

lemma agent_seal_capsule:
  "agent_seal env q positions i r s w = (Inr c, w') \<Longrightarrow>
     dc_trade_intent c = i \<and> dc_risk_decision c = r \<and> dc_supervisor_decision c = s \<and> dc_execution_result c = None \<and>
     dc_capsule_id c = uuid5_url (an_stdlib env) (''crumblr:agent-capsule:'' @ aq_outcome_id q) \<and>
     dc_position_state_before c = positions"
  by (auto simp: agent_seal_def bindM_eq_Inr agent_capsule_def bindE_eq_Inr)

lemma agent_supervise_run:
  fixes w w' :: "('s, 'm) desk_scheme"
  assumes "agent_supervise env q pp i risk w = (Inr res, w')"
  obtains policy external c and w1 w2 w3 :: "('s, 'm) desk_scheme" where
    "evaluate_platform_policy (an_stdlib env) i (aq_incident_status q) (pp_reconciliation_status pp) (aq_now q) = Inr policy"
    "ask_external env q i risk policy w1 = (Inr external, w2)"
    "agent_seal env q (pp_open_positions pp) (Some i) (Some risk) (Some policy) w2 = (Inr c, w3)"
    "res = \<lparr>pr_capsule = c, pr_risk_decision = Some risk, pr_supervisor_decision = Some policy,
            pr_external_outcome = map_option fst external, pr_external_record = map_option snd external\<rparr>"
proof -
  from assms obtain policy external c and wa wb wc wd :: "('s, 'm) desk_scheme" where run:
    "evaluate_platform_policy (an_stdlib env) i (aq_incident_status q) (pp_reconciliation_status pp) (aq_now q) = Inr policy"
    "ask_external env q i risk policy wa = (Inr external, wb)"
    "agent_seal env q (pp_open_positions pp) (Some i) (Some risk) (Some policy) wb = (Inr c, wc)"
    "returnM \<lparr>pr_capsule = c, pr_risk_decision = Some risk, pr_supervisor_decision = Some policy,
       pr_external_outcome = map_option fst external, pr_external_record = map_option snd external\<rparr> wc = (Inr res, wd)"
    by (auto simp: agent_supervise_def bindM_eq_Inr)
  from run(4) have "res = \<lparr>pr_capsule = c, pr_risk_decision = Some risk, pr_supervisor_decision = Some policy,
       pr_external_outcome = map_option fst external, pr_external_record = map_option snd external\<rparr>" by simp
  from that [OF run(1-3) this] show thesis .
qed

text \<open>
  C7. What an approved agent capsule rests on: an intent the engine passed with the portfolio
  observed and the switch as it was at that moment, which was not halted; a reconciliation
  observed as matched, a clear incident register; the very decisions that are returned; and
  no execution.
\<close>

theorem agent_approval_is_backed:
  fixes w w' :: "('s, 'm) desk_scheme"
  assumes "evaluate_agent_trade_intent env out intent q w = (Inr res, w')"
    "dc_supervisor_decision (pr_capsule res) = Some s" "sd_verdict s = APPROVE"
  shows "\<not> is_halted (dk_switch w) \<and> aq_incident_status q = CLEAR \<and>
    dc_execution_result (pr_capsule res) = None \<and> dc_trade_intent (pr_capsule res) = intent \<and>
    dc_risk_decision (pr_capsule res) = pr_risk_decision res \<and>
    dc_capsule_id (pr_capsule res) = uuid5_url (an_stdlib env) (''crumblr:agent-capsule:'' @ aq_outcome_id q) \<and>
    (\<exists>n pp i risk pf ctx sw. xo_portfolio out n = Inr pp \<and> intent = Some i \<and> pr_risk_decision res = Some risk \<and>
       pp_reconciliation_status pp = MATCHED \<and> \<not> is_halted sw \<and>
       pf_account pf = pp_account pp \<and> pf_open_positions pf = pp_open_positions pp \<and>
       agent_risk_context env (ms_symbol (aq_snapshot q)) = Inr ctx \<and>
       evaluate (an_stdlib env) i (aq_snapshot q) (aq_spec q) pf ctx sw (aq_now q) = Inr risk \<and>
       rd_verdict risk = PASS)"
proof -
  from assms(1) obtain pp w1 where pp: "from_outside (xo_portfolio out) w = (Inr pp, w1)" and
    rest: "(case intent of
       None \<Rightarrow>
         bindM (agent_seal env q (pp_open_positions pp) None None None) (\<lambda>capsule.
         returnM \<lparr>pr_capsule = capsule, pr_risk_decision = None, pr_supervisor_decision = None,
                  pr_external_outcome = None, pr_external_record = None\<rparr>)
     | Some i \<Rightarrow>
         bindM (agent_note env q (IntentCreated i) ''agent_gateway'') (\<lambda>_.
         bindM (agent_recovery env out q pp) (\<lambda>recovery.
         bindM (whenM (must_halt recovery)
                  (agent_trip env q (rec_reason_codes recovery) ''agent_decision_path_risk_session_recovery''
                     (rec_detail recovery))) (\<lambda>_.
         agent_judge env q pp i (rec_ledger recovery))))) w1 = (Inr res, w')"
    unfolding evaluate_agent_trade_intent_def bindM_eq_Inr by blast
  obtain i where i: "intent = Some i"
    using rest assms(2) by (cases intent) (auto simp: bindM_eq_Inr dest: agent_seal_capsule)
  with rest obtain w2 recovery w3 w4 where
    n: "agent_note env q (IntentCreated i) ''agent_gateway'' w1 = (Inr (), w2)" and
    r: "agent_recovery env out q pp w2 = (Inr recovery, w3)" and
    t: "whenM (must_halt recovery) (agent_trip env q (rec_reason_codes recovery)
       ''agent_decision_path_risk_session_recovery'' (rec_detail recovery)) w3 = (Inr (), w4)" and
    judge: "agent_judge env q pp i (rec_ledger recovery) w4 = (Inr res, w')"
    by (auto simp: bindM_eq_Inr)
  have kept: "is_halted (dk_switch w) \<longrightarrow> is_halted (dk_switch w4)"
    using keepsD [OF outside_kept pp] keepsD [OF agent_note_kept n] keepsD [OF agent_recovery_kept r]
      keepsD [OF desk.keeps_when [OF agent_trip_kept] t] by (simp add: desk_kept_def)
  from judge obtain pf ctx risk w5 where
    pf: "agent_portfolio q pp (rec_ledger recovery) = Inr pf" and
    ctx: "agent_risk_context env (ms_symbol (aq_snapshot q)) = Inr ctx" and
    risk: "evaluate (an_stdlib env) i (aq_snapshot q) (aq_spec q) pf ctx (dk_switch w4) (aq_now q) = Inr risk" and
    last: "(if rd_verdict risk \<noteq> PASS
      then bindM (agent_seal env q (pp_open_positions pp) (Some i) (Some risk) None) (\<lambda>capsule.
        returnM \<lparr>pr_capsule = capsule, pr_risk_decision = Some risk, pr_supervisor_decision = None,
                 pr_external_outcome = None, pr_external_record = None\<rparr>)
      else agent_supervise env q pp i risk) w5 = (Inr res, w')"
    by (auto simp: agent_judge_def bindM_eq_Inr)
  have pass: "rd_verdict risk = PASS"
    using last assms(2) by (auto simp: bindM_eq_Inr dest: agent_seal_capsule split: if_splits)
  with last have "agent_supervise env q pp i risk w5 = (Inr res, w')" by simp
  then obtain policy external c and wa wb wc :: "('s, 'm) desk_scheme" where
    p: "evaluate_platform_policy (an_stdlib env) i (aq_incident_status q) (pp_reconciliation_status pp) (aq_now q) = Inr policy"
    and c: "agent_seal env q (pp_open_positions pp) (Some i) (Some risk) (Some policy) wb = (Inr c, wc)"
    and res: "res = \<lparr>pr_capsule = c, pr_risk_decision = Some risk, pr_supervisor_decision = Some policy,
            pr_external_outcome = map_option fst external, pr_external_record = map_option snd external\<rparr>"
    by (rule agent_supervise_run)
  note capsule = agent_seal_capsule [OF c]
  with res assms(2,3) have "sd_verdict policy = APPROVE" by simp
  then have "pp_reconciliation_status pp = MATCHED" "aq_incident_status q = CLEAR"
    using platform_policy_is_health_only [of "an_stdlib env" i "aq_incident_status q" "pp_reconciliation_status pp" "aq_now q"] p
    by (auto split: if_splits)
  moreover have "\<not> is_halted (dk_switch w4)" using halted_never_passes [OF risk] pass by blast
  moreover have "xo_portfolio out (dk_calls w) = Inr pp" using pp by (simp add: from_outside_def)
  moreover have "pf_account pf = pp_account pp" "pf_open_positions pf = pp_open_positions pp"
    using pf by (auto simp: agent_portfolio_def mapE_eq_Inr)
  ultimately show ?thesis using capsule res i ctx risk pass kept by auto
qed


subsection \<open>The external supervisor\<close>

abbreviation unsupervised :: "agent_request \<Rightarrow> agent_request" where
  "unsupervised q \<equiv> q\<lparr>aq_proposal := None, aq_external_supervisor := None\<rparr>"

lemma unsupervised_parts:
  "agent_note env (unsupervised q) = agent_note env q" "agent_trip env (unsupervised q) = agent_trip env q"
  "agent_capsule env (unsupervised q) = agent_capsule env q" "agent_recovery env out (unsupervised q) = agent_recovery env out q"
  "agent_portfolio (unsupervised q) = agent_portfolio q"
  by (simp_all add: agent_note_def agent_trip_def agent_capsule_def agent_recovery_def agent_portfolio_def fun_eq_iff)

lemma unsupervised_seal: "agent_seal env (unsupervised q) = agent_seal env q"
  by (simp add: agent_seal_def fun_eq_iff unsupervised_parts)

lemma ask_unsupervised [simp]: "ask_external env (unsupervised q) i r s = returnM None"
  by (simp add: ask_external_def)

lemma ask_external_pure:
  "ask_external env q i risk policy w = (r, w') \<Longrightarrow> w' = w"
  by (auto simp: ask_external_def bindM_def Let_def split: option.splits if_splits sum.splits)

lemma ask_external_asked:
  assumes "ask_external env q i risk policy w = (Inr (Some (out, record)), w')"
  shows "sd_verdict policy = APPROVE \<and> (\<exists>p provider review. aq_proposal q = Some p \<and> aq_external_supervisor q = Some provider \<and>
    provider p i (rd_decision_id risk) (sd_decision_id policy) (aq_now q) = Inr review \<and>
    out = evaluate_supervisor_review review (tp_proposal_id p) (ti_intent_id i) (decision_hash (an_stdlib env) i) (aq_now q) \<and>
    xr_verdict record = ro_verdict out)"
  using assms
  by (auto simp: ask_external_def bindM_eq_Inr Let_def external_supervisor_record_def split: option.splits if_splits)

lemma supervise_unsupervised:
  assumes "agent_supervise env q pp i risk w = (Inr res, w')"
  shows "agent_supervise env (unsupervised q) pp i risk w =
    (Inr (res\<lparr>pr_external_outcome := None, pr_external_record := None\<rparr>), w')"
  using assms
  by (auto simp: agent_supervise_def unsupervised_parts unsupervised_seal bindM_def
      split: sum.splits prod.splits dest!: ask_external_pure)

lemma judge_unsupervised:
  assumes "agent_judge env q pp i l w = (Inr res, w')"
  shows "agent_judge env (unsupervised q) pp i l w =
    (Inr (res\<lparr>pr_external_outcome := None, pr_external_record := None\<rparr>), w')"
proof -
  from assms obtain pf ctx risk w1 w2 where
    steps: "agent_portfolio q pp l = Inr pf" "agent_risk_context env (ms_symbol (aq_snapshot q)) = Inr ctx"
      "evaluate (an_stdlib env) i (aq_snapshot q) (aq_spec q) pf ctx (dk_switch w) (aq_now q) = Inr risk"
      "agent_note env q (RiskDecided risk) ''risk_engine'' w = (Inr (), w1)"
      "whenM (rd_verdict risk = RV_HALT) (agent_trip env q (rd_reason_codes risk) ''risk_engine'' None) w1 = (Inr (), w2)" and
    last: "(if rd_verdict risk \<noteq> PASS
      then bindM (agent_seal env q (pp_open_positions pp) (Some i) (Some risk) None) (\<lambda>capsule.
        returnM \<lparr>pr_capsule = capsule, pr_risk_decision = Some risk, pr_supervisor_decision = None,
                 pr_external_outcome = None, pr_external_record = None\<rparr>)
      else agent_supervise env q pp i risk) w2 = (Inr res, w')"
    by (auto simp: agent_judge_def bindM_eq_Inr)
  have "(if rd_verdict risk \<noteq> PASS
      then bindM (agent_seal env q (pp_open_positions pp) (Some i) (Some risk) None) (\<lambda>capsule.
        returnM \<lparr>pr_capsule = capsule, pr_risk_decision = Some risk, pr_supervisor_decision = None,
                 pr_external_outcome = None, pr_external_record = None\<rparr>)
      else agent_supervise env (unsupervised q) pp i risk) w2 =
    (Inr (res\<lparr>pr_external_outcome := None, pr_external_record := None\<rparr>), w')"
    using last supervise_unsupervised by (auto simp: bindM_eq_Inr split: if_splits)
  with steps show ?thesis
    by (cases "rd_verdict risk = PASS") (simp_all add: agent_judge_def unsupervised_parts unsupervised_seal bindM_def)
qed

text \<open>
  C18. The external supervisor's word changes nothing that is sealed or journaled: the same
  evaluation without a supervisor to ask leaves the same capsule, the same decisions and the
  same desk; only the two fields that report what was asked differ.
\<close>

theorem external_word_is_beside_the_decision:
  fixes w w' :: "('s, 'm) desk_scheme"
  assumes "evaluate_agent_trade_intent env out intent q w = (Inr res, w')"
  shows "evaluate_agent_trade_intent env out intent (q\<lparr>aq_proposal := None, aq_external_supervisor := None\<rparr>) w =
    (Inr (res\<lparr>pr_external_outcome := None, pr_external_record := None\<rparr>), w')"
proof (cases intent)
  case None
  with assms obtain pp w1 c where
    "from_outside (xo_portfolio out) w = (Inr pp, w1)"
    "agent_seal env q (pp_open_positions pp) None None None w1 = (Inr c, w')"
    "res = \<lparr>pr_capsule = c, pr_risk_decision = None, pr_supervisor_decision = None,
       pr_external_outcome = None, pr_external_record = None\<rparr>"
    by (auto simp: evaluate_agent_trade_intent_def bindM_eq_Inr)
  with None show ?thesis
    by (simp add: evaluate_agent_trade_intent_def unsupervised_seal bindM_def)
next
  case (Some i)
  from assms obtain pp w1 w2 recovery w3 w4 where
    "from_outside (xo_portfolio out) w = (Inr pp, w1)"
    "agent_note env q (IntentCreated i) ''agent_gateway'' w1 = (Inr (), w2)"
    "agent_recovery env out q pp w2 = (Inr recovery, w3)"
    "whenM (must_halt recovery) (agent_trip env q (rec_reason_codes recovery)
       ''agent_decision_path_risk_session_recovery'' (rec_detail recovery)) w3 = (Inr (), w4)"
    and judge: "agent_judge env q pp i (rec_ledger recovery) w4 = (Inr res, w')"
    by (auto simp: evaluate_agent_trade_intent_def bindM_eq_Inr Some)
  then show ?thesis
    by (simp add: evaluate_agent_trade_intent_def Some bindM_def unsupervised_parts judge_unsupervised [OF judge])
qed

end
