(* ===== verification/Agent_Example.thy ===== *)
theory Agent_Example
  imports Desk_Run Agent_Safety Agent_Tables Agent_Path_Safety
begin

text \<open>
  A concrete history of the agent gateway, from the registration of an agent to an accepted
  proposal, and a concrete evaluation of an agent's intent with the reference supervisor
  asked. They show that the hypotheses of the theorems on the agent boundary are met.
\<close>

subsection \<open>A gateway with one agent\<close>

definition toy_credentials :: credential_ops where
  "toy_credentials = \<lparr>co_sha256 = (\<lambda>bs. [sum_list bs mod 256]), co_utf8 = map of_char\<rparr>"

definition gateway_one :: gateway_env where
  "gateway_one = \<lparr>ge_stdlib = sample_stdlib, ge_credentials = toy_credentials, ge_durable = True\<rparr>"

definition agent_one :: agent_identity where
  "agent_one = \<lparr>ai_agent_id = ''a1'', ai_role = TRADER, ai_runtime_version = ''1'', ai_model_provider = None,
     ai_model_version = None, ai_service_identity = ''spiffe'', ai_status = AS_ACTIVE, ai_capability_claims = [],
     ai_registered_at = 0\<rparr>"

definition assignment_one :: trading_assignment where
  "assignment_one =
     \<lparr>tg_assignment_id = ''as1'', tg_assignment_version = ''1'', tg_allowed_agent_id = ''a1'',
      tg_canonical_symbol = ''EUR/USD'', tg_timeframe = ''M5'', tg_strategy_artifact_id = ''sa1'',
      tg_strategy_artifact_hash = ''h1'', tg_valid_from = 0, tg_valid_until = 100,
      tg_max_proposals_per_hour = 1, tg_risk_fraction_min = 1 / 1000, tg_risk_fraction_max = 1 / 100,
      tg_required_evidence_fields = [], tg_supervisor_policy_version = ''1'', tg_environment = SHADOW,
      tg_champion_shadow_status = CS_SHADOW\<rparr>"

definition context_one :: context_request where
  "context_one =
     \<lparr>cq_assignment_id = ''as1'', cq_symbol = ''EUR/USD'', cq_market_snapshot_id = ''s1'',
      cq_instrument_spec_version = ''v1'', cq_portfolio_summary_hash = ''p'', cq_session_state = OPEN,
      cq_data_quality = GOOD, cq_now = 0, cq_policy_hints = None, cq_news_snapshot_id = None,
      cq_validity = DEFAULT_CONTEXT_VALIDITY\<rparr>"

definition evidence_one :: agent_evidence where
  "evidence_one =
     \<lparr>ae_feature_snapshot_id = ''crumblr:agent_context_evidence:EUR/USD:1970-01-01T00:00:00+00:00'',
      ae_symbol = ''EUR/USD'', ae_computed_at = 0, ae_market_snapshot_id = ''s1'',
      ae_instrument_spec_version = ''v1'', ae_session_state = OPEN, ae_data_quality = GOOD\<rparr>"

definition bundle_one :: context_bundle where
  "bundle_one =
     \<lparr>cb_context_id = ''c1'', cb_assignment_id = ''as1'', cb_market_snapshot_id = ''s1'',
      cb_instrument_spec_version = ''v1'', cb_portfolio_summary_hash = ''p'', cb_session_state = OPEN,
      cb_data_quality = GOOD, cb_feature_snapshot_id = ae_feature_snapshot_id evidence_one,
      cb_policy_hints = None, cb_news_snapshot_id = None, cb_issued_at = 0,
      cb_expires_at = DEFAULT_CONTEXT_VALIDITY\<rparr>"

definition proposal_one :: trade_proposal where
  "proposal_one =
     \<lparr>tp_proposal_id = ''p1'', tp_agent_id = ''a1'', tp_assignment_id = ''as1'', tp_context_hash = DIGEST,
      tp_strategy_artifact_hash = ''h1'', tp_side = BUY, tp_entry_type = MARKET, tp_reference_price = 11 / 10,
      tp_stop_loss_price = 549 / 500, tp_take_profit_price = 6 / 5, tp_confidence = 1 / 2,
      tp_requested_risk_fraction = 1 / 200, tp_reason_codes = [''breakout''], tp_evidence_refs = [],
      tp_submitted_at = 0, tp_expires_at = 60000000\<rparr>"

definition ready_stores :: gateway_stores where
  "ready_stores =
     \<lparr>gs_identities = [(''a1'', agent_one)],
      gs_credentials = [(''a1'', hash_credential toy_credentials [] ''s3cret'')],
      gs_assignments = [(''as1'', assignment_one)], gs_contexts = [(''c1'', bundle_one)],
      gs_by_hash = [(DIGEST, bundle_one)],
      gs_evidence = [(ae_feature_snapshot_id evidence_one, evidence_one)], gs_outcomes = []\<rparr>"

lemma sample_content_hash: "content_hash sample_stdlib b = DIGEST"
  by (simp add: content_hash_def sample_fingerprint [OF agent_payloads_encodable(2)])

lemma sample_proposal_fingerprint: "proposal_fingerprint sample_stdlib p = DIGEST"
  by (simp add: proposal_fingerprint_def sample_fingerprint [OF agent_payloads_encodable(3)])

lemma toy_bytes: "list_all byte (co_sha256 toy_credentials bs)"
  by (simp add: toy_credentials_def byte_def)

lemma proposal_one_valid: "trade_proposal_valid proposal_one"
  by (simp add: proposal_one_def trade_proposal_valid_def reason_codes_ok_def reason_code_token_ok_def text_ok_def
      DIRECTIONAL_SIDES_def stop_and_target_direction_def)

lemma ready_reachable: "gateway_run gateway_one empty_stores ready_stores"
proof -
  let ?c1 = "RegisterIdentity [] agent_one ''s3cret''" and ?c2 = "IssueAssignment assignment_one"
    and ?c3 = "PublishContext ''c1'' context_one"
  have iso: "iso_format sample_stdlib 0 = ''1970-01-01T00:00:00+00:00''" "uuid5_dns sample_stdlib s = s" for s
    by (simp_all add: sample_stdlib_def)
  have run: "gateway_run gateway_one empty_stores
      (serve gateway_one ?c3 (serve gateway_one ?c2 (serve gateway_one ?c1 empty_stores)))"
    by (intro gateway_run.intros)
       (simp_all add: agent_one_def agent_identity_valid_def assignment_one_def trading_assignment_valid_def
         context_one_def text_ok_def)
  have s2: "serve gateway_one ?c2 (serve gateway_one ?c1 empty_stores) =
    \<lparr>gs_identities = [(''a1'', agent_one)],
      gs_credentials = [(''a1'', hash_credential toy_credentials [] ''s3cret'')],
      gs_assignments = [(''as1'', assignment_one)], gs_contexts = [], gs_by_hash = [], gs_evidence = [], gs_outcomes = []\<rparr>"
    by (simp add: register_identity_def put_identity_def put_credential_def empty_stores_def issue_assignment_def
        register_assignment_def gateway_one_def) (simp add: agent_one_def assignment_one_def)
  have evidence: "build_agent_context_evidence sample_stdlib ''EUR/USD'' 0 ''s1'' ''v1'' OPEN GOOD = Inr evidence_one"
    by (simp add: build_agent_context_evidence_def iso contract_def agent_evidence_valid_def text_ok_def evidence_one_def)
  have "serve gateway_one ?c3 (serve gateway_one ?c2 (serve gateway_one ?c1 empty_stores)) = ready_stores"
    unfolding s2
    by (simp add: publish_context_def context_one_def gateway_one_def evidence put_evidence_def contract_def
        context_bundle_valid_def DEFAULT_CONTEXT_VALIDITY_def issue_context_bundle_def bindM_def issue_bundle_def
        sample_content_hash ready_stores_def bundle_one_def)
  with run show ?thesis by simp
qed

lemma toy_verifies: "verify_credential toy_credentials ''s3cret'' (hash_credential toy_credentials [] ''s3cret'') = Inr True"
  using verify_hashed [of "[]" toy_credentials "''s3cret''" "''s3cret''"] toy_bytes by simp

lemma ready_authenticates: "authenticate gateway_one ''a1'' ''s3cret'' ready_stores = (Inr agent_one, ready_stores)"
  by (simp add: authenticate_def ready_stores_def gateway_one_def toy_verifies) (simp add: agent_one_def)

lemma ready_ok: "gateway_ok gateway_one ready_stores"
  using reachable_ok [OF ready_reachable] by (simp add: stores_ok_def)

lemma ready_accepts: "proposal_verdict ready_stores agent_one proposal_one 10 = None"
  by (simp add: verdict_accepts ready_stores_def proposal_one_def assignment_one_def agent_one_def bundle_one_def
      count_claimed_since_def DEFAULT_CONTEXT_VALIDITY_def)

definition accepted_stores :: gateway_stores where
  "accepted_stores = ready_stores\<lparr>gs_outcomes :=
     [(''p1'', settled_outcome ''p1'' TRADE_PROPOSAL ''a1'' ''as1'' DIGEST 10 None)]\<rparr>"

definition accepted_result :: outcome_result where
  "accepted_result = verdict_result ''p1'' TRADE_PROPOSAL None
     (Some (mapped_intent sample_stdlib proposal_one assignment_one bundle_one))"

lemma proposal_one_fields [simp]:
  "tp_proposal_id proposal_one = ''p1''" "tp_agent_id proposal_one = ''a1''"
  "tp_assignment_id proposal_one = ''as1''" "ai_agent_id agent_one = ''a1''"
  "tp_context_hash proposal_one = DIGEST"
  by (simp_all add: proposal_one_def agent_one_def)

lemma submitted:
  "submit_trade_proposal gateway_one ''a1'' ''s3cret'' proposal_one 10 ready_stores = (Inr accepted_result, accepted_stores)"
proof -
  have "map_of (gs_outcomes ready_stores) (tp_proposal_id proposal_one) = None" by (simp add: ready_stores_def)
  from submit_fresh [OF ready_authenticates _ ready_ok proposal_one_valid this, of 10] show ?thesis
    by (simp add: ready_accepts accepted_result_def accepted_stores_def intent_of_proposal_def gateway_one_def
        sample_proposal_fingerprint) (simp add: ready_stores_def)
qed

lemma accepted_reachable: "gateway_run gateway_one empty_stores accepted_stores"
  using run_call [OF ready_reachable, of "SubmitProposal ''a1'' ''s3cret'' proposal_one 10"] proposal_one_valid
  by (simp add: submitted)

lemma accepted_authenticates:
  "authenticate gateway_one ''a1'' ''s3cret'' accepted_stores = (Inr agent_one, accepted_stores)"
  by (simp add: authenticate_def accepted_stores_def ready_stores_def gateway_one_def toy_verifies)
     (simp add: agent_one_def)


subsection \<open>The hypotheses of the gateway's theorems\<close>

lemma hourly_limit_holds_witness:
  "int (length (accepted_between ''as1'' 0 RATE_LIMIT_WINDOW accepted_stores)) \<le> 1 \<and>
     accepted_between ''as1'' 0 RATE_LIMIT_WINDOW accepted_stores \<noteq> []"
proof
  have "map_of (gs_assignments accepted_stores) ''as1'' = Some assignment_one"
    by (simp add: accepted_stores_def ready_stores_def)
  from hourly_limit_holds [OF accepted_reachable this, of 0]
  show "int (length (accepted_between ''as1'' 0 RATE_LIMIT_WINDOW accepted_stores)) \<le> 1"
    by (simp add: assignment_one_def)
  show "accepted_between ''as1'' 0 RATE_LIMIT_WINDOW accepted_stores \<noteq> []"
    by (simp add: accepted_between_def accepted_stores_def RATE_LIMIT_WINDOW_def)
qed

lemma claimed_is_settled_witness:
  "\<exists>v. agent_events_for ''p1'' accepted_stores = [received_event ''p1'' 10, verdict_event ''p1'' 10 v]"
proof -
  have "map_of (gs_outcomes accepted_stores) ''p1'' =
      Some (settled_outcome ''p1'' TRADE_PROPOSAL ''a1'' ''as1'' DIGEST 10 None)"
    by (simp add: accepted_stores_def)
  from claimed_is_settled [OF accepted_reachable this] show ?thesis by auto
qed


lemma verdict_is_final_witness:
  "submit_trade_proposal gateway_one ''a1'' ''s3cret'' proposal_one 99 accepted_stores = (Inr accepted_result, accepted_stores)"
proof (rule verdict_is_final [OF ready_reachable proposal_one_valid submitted run_start accepted_authenticates])
  fix c c' b b'
  assume "map_of (gs_contexts accepted_stores) c = Some b" "map_of (gs_contexts accepted_stores) c' = Some b'"
  then show "cb_feature_snapshot_id b = cb_feature_snapshot_id b'"
    by (simp add: accepted_stores_def ready_stores_def split: if_splits)
qed

lemma wrong_secret: "submit_trade_proposal gateway_one ''b9'' ''x'' proposal_one 10 ready_stores = (Inl UnknownAgentError, ready_stores)"
proof -
  have "authenticate gateway_one ''b9'' ''x'' ready_stores = (Inl UnknownAgentError, ready_stores)"
    by (simp add: authenticate_def ready_stores_def)
  then show ?thesis by (rule submit_unauthenticated)
qed


lemma registration_decides_authentication_witness:
  "fst (authenticate gateway_one ''a1'' ''s3cret'' (snd (register_identity gateway_one [7] agent_one ''s3cret'' empty_stores))) =
     Inr agent_one"
  using registration_decides_authentication [of "[7]" gateway_one agent_one "''s3cret''" "''s3cret''" empty_stores] toy_bytes
  by (simp add: gateway_one_def byte_def) (simp add: agent_one_def)

definition claimed_tables :: agent_tables where
  "claimed_tables = snd (pg_claim ''p1'' TRADE_PROPOSAL ''a1'' ''as1'' DIGEST 10 empty_tables)"



subsection \<open>An intent judged for an agent\<close>

definition agent_env_one :: "safety_state option agent_env" where
  "agent_env_one =
     \<lparr>an_desk = desk_env, an_zone = (\<lambda>_. False), an_config = run_config, an_dec_text = (\<lambda>_. ''1''),
      an_environment = SHADOW, an_code_commit = ''c'', an_error_text = (\<lambda>_. '''')\<rparr>"

definition flat_portfolio :: portfolio_snapshot where
  "flat_portfolio = \<lparr>pp_account = live_account_state, pp_open_positions = [], pp_reconciliation_status = MATCHED\<rparr>"

definition agent_outside_one :: agent_outside where
  "agent_outside_one =
     \<lparr>xo_portfolio = (\<lambda>_. Inr flat_portfolio), xo_session = (\<lambda>_. Inr \<lparr>sr_state = None, sr_unreadable = None\<rparr>)\<rparr>"

definition supervisor_one :: supervisor_provider where
  "supervisor_one p i r s t = mapE Some (reference_review sample_stdlib
     \<lparr>rv_supervisor_agent_id = ''s1'', rv_min_confidence = 1 / 2, rv_review_validity_seconds = 60\<rparr> p i r s t)"

definition request_one :: agent_request where
  "request_one =
     \<lparr>aq_outcome_id = ''p1'', aq_strategy_version = ''1'', aq_snapshot = live_run_snapshot, aq_spec = eurusd,
      aq_feature_set_version = ''1'', aq_feature_values_hash = Inr DIGEST, aq_now = 0,
      aq_seen_decision_hashes = {}, aq_orders_in_last_hour = 0, aq_incident_status = CLEAR,
      aq_proposal = Some proposal_one, aq_external_supervisor = Some supervisor_one\<rparr>"

definition desk_one :: "safety_state option desk" where
  "desk_one = \<lparr>dk_switch = new_kill_switch, dk_store = None, dk_recorder = NullRecorder,
     dk_db = \<lparr>au_events = [], au_capsules = [], au_ticks = [], au_bars = [], au_features = []\<rparr>, dk_calls = 0\<rparr>"

lemma agent_env_one_fields [simp]:
  "an_desk agent_env_one = desk_env" "an_config agent_env_one = run_config"
  by (simp_all add: agent_env_one_def)

lemma agent_version_one: "config_version sample_stdlib (an_dec_text agent_env_one) run_config = Inr DIGEST"
  by (simp add: config_version_def sample_fingerprint config_payload_def run_config_def paper_config_def run_market_def
      market_payload_def risk_payload_def execution_payload_def run_guard_def)

lemma agent_context_one: "agent_risk_context agent_env_one ''EUR/USD'' = Inr run_context"
  by (simp add: agent_risk_context_def agent_version_one risk_context_for_def run_symbols run_context_def
      calendar_of_market_def market_for_def risk_for_def execution_for_def)
     (simp add: calendar_for_def run_config_def paper_config_def run_market_def run_guard_def policy_from_config_def
      intraday_policy_def intraday_policy_ok_def Let_def)

lemma request_one_fields [simp]:
  "aq_snapshot request_one = live_run_snapshot" "aq_spec request_one = eurusd" "aq_now request_one = 0"
  "aq_incident_status request_one = CLEAR" "aq_proposal request_one = Some proposal_one"
  "aq_external_supervisor request_one = Some supervisor_one" "aq_outcome_id request_one = ''p1''"
  by (simp_all add: request_one_def)

lemma live_run_symbol [simp]: "ms_symbol live_run_snapshot = ''EUR/USD''"
  by (simp add: live_run_snapshot_def run_snapshot_def quote_at_def)

lemma agent_portfolio_one: "agent_portfolio request_one flat_portfolio run_ledger = Inr live_portfolio_state"
  by (simp add: agent_portfolio_def flat_portfolio_def no_open_risk)
     (simp add: live_portfolio_state_def run_portfolio_def request_one_def no_open_risk_def)

lemma agent_recovery_one:
  "\<exists>day. agent_recovery agent_env_one agent_outside_one request_one flat_portfolio w =
     (Inr \<lparr>rec_ledger = run_ledger, rec_trading_day = Some day, rec_resumed = False, rec_reason_codes = [],
           rec_detail = None\<rparr>, w\<lparr>dk_calls := dk_calls w + 2\<rparr>)"
  by (simp add: agent_recovery_def catchM_def begin_transaction_def bindM_def from_outside_def agent_outside_one_def
      flat_portfolio_def Let_def run_recovery live_account_state_def demo_account_def numeral_2_eq_2)

definition policy_one :: supervisor_decision where
  "policy_one = projr (evaluate_platform_policy sample_stdlib buy_intent CLEAR MATCHED 0)"

lemma policy_one:
  "evaluate_platform_policy sample_stdlib buy_intent CLEAR MATCHED 0 = Inr policy_one" "sd_verdict policy_one = APPROVE"
  by (simp_all add: policy_one_def evaluate_platform_policy_def platform_policy_decision_def contract_def
      supervisor_decision_valid_def checks text_ok_def AGENT_POLICY_VERSION_def)

lemma agent_capsule_one:
  "\<exists>c. agent_capsule agent_env_one request_one DIGEST [] i r s = Inr c"
  by (simp add: agent_capsule_def contract_def decision_capsule_valid_def)
     (simp add: request_one_def agent_env_one_def live_run_snapshot_def run_snapshot_def quote_at_def checks text_ok_def)

lemma agent_asked_one:
  "\<exists>x. ask_external agent_env_one request_one buy_intent live_run_decision policy_one w = (Inr (Some x), w)"
proof -
  have "ReferenceSupervisorConfig ''s1'' (1 / 2) 60 =
      Inr \<lparr>rv_supervisor_agent_id = ''s1'', rv_min_confidence = 1 / 2, rv_review_validity_seconds = 60\<rparr>"
    by (simp add: ReferenceSupervisorConfig_def)
  from reference_supervisor_answers [OF this proposal_one_valid, of sample_stdlib buy_intent
      "rd_decision_id live_run_decision" "sd_decision_id policy_one" 0]
  obtain r where r: "supervisor_one proposal_one buy_intent (rd_decision_id live_run_decision)
      (sd_decision_id policy_one) 0 = Inr (Some r)"
    by (auto simp: supervisor_one_def)
  then have "supervisor_review_valid r"
    by (auto simp: supervisor_one_def reference_review_def Let_def mapE_eq_Inr contract_def split: if_splits)
  then have ok: "reason_codes_ok (ro_reason_codes (evaluate_supervisor_review (Some r) p i h t))" for p i h t
    using evaluated_reasons_ok [of "Some r"] by simp
  let ?h = "decision_hash sample_stdlib buy_intent"
  have "\<exists>record. external_supervisor_record sample_stdlib (evaluate_supervisor_review (Some r) ''p1'' (ti_intent_id buy_intent)
      ?h 0) ''p1'' (ti_intent_id buy_intent) ?h 0 = Inr record"
    using ok by (simp add: external_supervisor_record_def contract_def review_record_valid_def Let_def text_ok_def)
  then show ?thesis
    by (auto simp: ask_external_def policy_one r bindM_def Let_def)
qed

definition approves_one ::
  "((py_exn + agent_path_result) \<times> safety_state option desk) \<Rightarrow> bool" where
  "approves_one q \<longleftrightarrow> (\<exists>res w' s. q = (Inr res, w') \<and> dc_supervisor_decision (pr_capsule res) = Some s \<and>
     sd_verdict s = APPROVE \<and> pr_external_outcome res \<noteq> None)"

lemma agent_run_one:
  "approves_one (evaluate_agent_trade_intent agent_env_one agent_outside_one (Some buy_intent) request_one desk_one)"
proof -
  let ?w = "\<lambda>n. desk_one\<lparr>dk_calls := n\<rparr>"
  have idle: "dk_recorder (?w n) = NullRecorder" for n by (simp add: desk_one_def)
  have port: "from_outside (xo_portfolio agent_outside_one) desk_one = (Inr flat_portfolio, ?w 1)"
    by (simp add: from_outside_def agent_outside_one_def desk_one_def)
  obtain day where rec: "agent_recovery agent_env_one agent_outside_one request_one flat_portfolio (?w 1) =
     (Inr \<lparr>rec_ledger = run_ledger, rec_trading_day = Some day, rec_resumed = False, rec_reason_codes = [],
           rec_detail = None\<rparr>, ?w 3)"
    using agent_recovery_one [of "?w 1"] by auto
  obtain x where x: "ask_external agent_env_one request_one buy_intent live_run_decision policy_one (?w 3) =
      (Inr (Some x), ?w 3)" using agent_asked_one [of "?w 3"] by blast
  obtain c where c: "agent_capsule agent_env_one request_one DIGEST [] (Some buy_intent) (Some live_run_decision)
      (Some policy_one) = Inr c" using agent_capsule_one by blast
  then have "dc_supervisor_decision c = Some policy_one"
    by (auto simp: agent_capsule_def bindE_eq_Inr)
  have sup: "agent_supervise agent_env_one request_one flat_portfolio buy_intent live_run_decision (?w 3) =
      (Inr \<lparr>pr_capsule = c, pr_risk_decision = Some live_run_decision, pr_supervisor_decision = Some policy_one,
        pr_external_outcome = Some (fst x), pr_external_record = Some (snd x)\<rparr>, ?w 3)"
    using x c idle
    by (simp add: agent_supervise_def bindM_def policy_one flat_portfolio_def agent_note_def idle_record whenM_def
        agent_seal_def agent_version_one idle_seal)
  have "rd_verdict live_run_decision = PASS" by (simp add: live_run_decision_def buy_decision_def)
  moreover have "dk_switch (?w 3) = new_kill_switch" by (simp add: desk_one_def)
  ultimately have judge: "agent_judge agent_env_one request_one flat_portfolio buy_intent run_ledger (?w 3) =
      agent_supervise agent_env_one request_one flat_portfolio buy_intent live_run_decision (?w 3)"
    using idle
    by (simp add: agent_judge_def bindM_def agent_portfolio_one agent_context_one live_evaluates agent_note_def
        idle_record whenM_def)
  have "evaluate_agent_trade_intent agent_env_one agent_outside_one (Some buy_intent) request_one desk_one =
      agent_supervise agent_env_one request_one flat_portfolio buy_intent live_run_decision (?w 3)"
    using port rec idle judge
    by (simp add: evaluate_agent_trade_intent_def bindM_def agent_note_def idle_record must_halt_def whenM_def)
  with sup \<open>dc_supervisor_decision c = Some policy_one\<close> policy_one(2) show ?thesis
    by (simp add: approves_one_def)
qed


subsection \<open>The hypotheses of the theorems on the path\<close>

lemma agent_approval_is_backed_witness:
  "\<exists>pf ctx sw risk. \<not> is_halted sw \<and> agent_risk_context agent_env_one ''EUR/USD'' = Inr ctx \<and>
     evaluate sample_stdlib buy_intent live_run_snapshot eurusd pf ctx sw 0 = Inr risk \<and> rd_verdict risk = PASS"
proof -
  obtain res w' s where run:
    "evaluate_agent_trade_intent agent_env_one agent_outside_one (Some buy_intent) request_one desk_one = (Inr res, w')"
    "dc_supervisor_decision (pr_capsule res) = Some s" "sd_verdict s = APPROVE"
    using agent_run_one by (auto simp: approves_one_def)
  from agent_approval_is_backed [OF run] show ?thesis by auto
qed

lemma external_word_is_beside_the_decision_witness:
  "\<exists>res res' w'. evaluate_agent_trade_intent agent_env_one agent_outside_one (Some buy_intent) request_one desk_one =
       (Inr res, w') \<and>
     evaluate_agent_trade_intent agent_env_one agent_outside_one (Some buy_intent)
       (request_one\<lparr>aq_proposal := None, aq_external_supervisor := None\<rparr>) desk_one = (Inr res', w') \<and>
     pr_external_outcome res \<noteq> None \<and> pr_external_outcome res' = None \<and> pr_capsule res' = pr_capsule res"
proof -
  obtain res w' where run:
    "evaluate_agent_trade_intent agent_env_one agent_outside_one (Some buy_intent) request_one desk_one = (Inr res, w')"
    "pr_external_outcome res \<noteq> None"
    using agent_run_one by (auto simp: approves_one_def)
  from external_word_is_beside_the_decision [OF run(1)] run show ?thesis by auto
qed

end
