(* ===== verification/Spec2Isabelle.thy ===== *)
theory Spec2Isabelle
  imports Ict_Example Desk_Run Agent_Example
begin

text \<open>
  A verification library of the risk-controlled trading platform under
  \<^verbatim>\<open>src/src/crumblr\<close>. Paths below are relative to that directory.

  \<^bold>\<open>The program.\<close> A market observation becomes a decision, and a decision may become an order.
  A strategy (\<^verbatim>\<open>trading_agent/\<close>) looks at closed bars and proposes an intent; the risk
  gateway (\<^verbatim>\<open>risk/policies.py\<close>) sizes it or refuses it; the supervisor
  (\<^verbatim>\<open>evaluator/pretrade.py\<close>) approves or vetoes; the outcome is sealed into a decision
  capsule and journaled (\<^verbatim>\<open>application/recording.py\<close>). Three desks do this: the replay
  (\<^verbatim>\<open>application/orchestration.py\<close>) against a simulated broker, the live decision worker
  (\<^verbatim>\<open>application/live_decision.py\<close>), which never sends, and the path of an external agent
  (\<^verbatim>\<open>agent_gateway/decision_path.py\<close>) behind an authenticated gateway. A separate
  execution worker (\<^verbatim>\<open>application/execution.py\<close>) takes approved capsules through the gates to
  the broker, closes the book before the weekend, and reconciles what the broker reports with what
  the durable ledger expects. One kill switch with a durable record stands above all of them.

  \<^bold>\<open>Conventions.\<close> Records and datatypes carry the fields and constructors of the code's
  contracts; a contract's validators are one predicate, and constructing it is \<open>contract\<close>, which
  gives \<open>ValidationError\<close> where the predicate fails. A Python exception is a value of \<open>py_exn\<close>
  in the sum \<open>py_exn + 'a\<close>. Effectful code is a program \<open>'w \<Rightarrow> (py_exn + 'a) \<times> 'w\<close>: an exception
  keeps the effects made before it (\<open>Effects\<close>). Decimals are rationals, with the 28-digit
  half-even rounding of the code's context written at every operation, and Python floats are
  rationals rounded to 53 binary digits (\<open>Pynum\<close>); both roundings are interpretations of one
  locale. Moments are integers counting microseconds from the epoch. A table is a list of rows in
  insertion order, with the keys its statements ask for.

  \<^bold>\<open>Parameters.\<close> What the code takes from outside is an argument of the definitions that use
  it: the record \<open>stdlib\<close> (SHA-256 of the canonical JSON, UUIDv5, ISO text, number formatting),
  \<open>credential_ops\<close> (SHA-256 of bytes, UTF-8), \<open>zone_data\<close> (which weeks are on daylight-saving
  time), the random generator of the synthetic market, \<open>de_dump\<close> (Pydantic's dump of a payload),
  and one record of oracles per worker (\<open>outside\<close>, \<open>live_outside\<close>, \<open>agent_outside\<close>) that answers
  the broker, the clock and fresh identifiers. An oracle is indexed by the number of interactions
  so far, so two reads of a clock may differ and nothing is assumed of them. Faults are oracles
  too: a transaction may fail before it begins or lose its commit, a call of the broker may raise
  before or after its effect, a process may crash (\<open>Crashed\<close>) between any two interactions.

  \<^bold>\<open>Foundations.\<close> \<open>Prelude\<close> (exceptions, validation, list idioms), \<open>Effects\<close> (programs, the locale
  \<open>effect_order\<close> with the rules that carry a preorder on worlds through a program), \<open>Pynum\<close>
  (\<^verbatim>\<open>domain/money.py\<close>, \<^verbatim>\<open>timeutils.py\<close>), \<open>Hashing\<close> (\<^verbatim>\<open>domain/hashing.py\<close>),
  \<open>Enums\<close> and \<open>Models\<close> (\<^verbatim>\<open>domain/enums.py\<close>, \<^verbatim>\<open>models.py\<close>), \<open>Config\<close>
  (\<^verbatim>\<open>config.py\<close>: merging, overrides, guardrails and the approved version).

  \<^bold>\<open>Time.\<close> \<open>Sessions\<close> (\<^verbatim>\<open>trading_agent/sessions.py\<close>: wall clocks, the trading week, the
  killzones) and \<open>TradingWindow\<close> (\<^verbatim>\<open>risk/calendars.py\<close>, \<^verbatim>\<open>risk/trading_window.py\<close>:
  weekly phases, the intraday policy), with the locale \<open>weekly_calendar\<close> that both calendars meet.

  \<^bold>\<open>Risk.\<close> \<open>Sizing\<close> (\<^verbatim>\<open>risk/sizing.py\<close>, \<^verbatim>\<open>portfolio_risk.py\<close>), \<open>KillSwitch\<close>
  (\<^verbatim>\<open>risk/safety_state.py\<close>, \<^verbatim>\<open>kill_switch.py\<close>, \<^verbatim>\<open>operator_controls.py\<close>; the locale
  \<open>safety_store\<close> is what a store of the recorded state promises, met by the file store, whose
  every system call may fail, and by the in-memory one), \<open>RiskSession\<close>
  (\<^verbatim>\<open>risk/session.py\<close>), \<open>RiskPolicy\<close> (\<^verbatim>\<open>risk/policies.py\<close>: the checklist, evaluation and the
  revalidation at execution time), \<open>Gates\<close> (\<^verbatim>\<open>risk/submission_gate.py\<close>,
  \<^verbatim>\<open>execution_preflight_gate.py\<close>, \<^verbatim>\<open>execution_eligibility.py\<close>, \<^verbatim>\<open>flatten_gate.py\<close>;
  the locale \<open>gate\<close> is met by three of them) and \<open>Supervisor\<close> (\<^verbatim>\<open>evaluator/pretrade.py\<close>).
  The lemmas give every branch of the checklist, that a pass is inside the budget, that unsafe
  conditions halt, and that a halt outlives trips, restarts, faults and unauthorised resets.

  \<^bold>\<open>Strategies.\<close> \<open>Agent\<close> (\<^verbatim>\<open>trading_agent/base.py\<close>; the locale \<open>strategy\<close>), \<open>Structure\<close>
  (\<^verbatim>\<open>structure.py\<close>, \<^verbatim>\<open>liquidity.py\<close>, \<^verbatim>\<open>imbalance.py\<close>), \<open>Baseline\<close>
  (\<^verbatim>\<open>features.py\<close>, \<^verbatim>\<open>baseline.py\<close>), \<open>Ict\<close> (\<^verbatim>\<open>ict.py\<close>) with a worked setup in
  \<open>Ict_Example\<close>, and \<open>Strategies\<close> (\<^verbatim>\<open>registry.py\<close>). Both strategies interpret the locale;
  the lemmas say what a proposal implies.

  \<^bold>\<open>Execution.\<close> \<open>Ledger\<close> (\<^verbatim>\<open>persistence/execution.py\<close>, \<^verbatim>\<open>flatten.py\<close>,
  \<^verbatim>\<open>canary_permit.py\<close>: insert-once tables, the locale \<open>append_only\<close>), \<open>Exposure\<close>
  (\<^verbatim>\<open>application/expected_state.py\<close>, \<^verbatim>\<open>execution_outcome.py\<close>), \<open>Reconciliation\<close>
  (\<^verbatim>\<open>application/broker_state.py\<close>, \<^verbatim>\<open>reconciliation.py\<close>,
  \<^verbatim>\<open>persistence/broker_state.py\<close>), and the worker \<^verbatim>\<open>application/execution.py\<close> in four
  theories: \<open>World\<close> (its constructor and every effect), \<open>Submission\<close> (one capsule from the claim to
  the recorded answer), \<open>Flatten_Driver\<close> (with \<^verbatim>\<open>application/flatten_plan.py\<close>) and
  \<open>Execution\<close> (reconciliation, resolution, one pass). \<open>Submission_Safety\<close> shows at most one order
  per request and permit over any history with crashes; \<open>Submission_Gates\<close> what a sent order has been
  through; \<open>Flatten_Safety\<close>, \<open>Flatten_Faults\<close> and \<open>Reconcile_Safety\<close> what the other drivers may and
  may not do; \<open>Canary_Run\<close> is one concrete pass that sends an order.

  \<^bold>\<open>Desks.\<close> \<open>Journal\<close> (\<^verbatim>\<open>domain/events.py\<close>, \<^verbatim>\<open>persistence/journal.py\<close>,
  \<^verbatim>\<open>market_data.py\<close>), \<open>Recording\<close> (\<^verbatim>\<open>application/recording.py\<close>), \<open>Synthetic\<close>
  (\<^verbatim>\<open>market_data/synthetic.py\<close>), \<open>Simulated_Broker\<close> (\<^verbatim>\<open>mt5_gateway/simulated.py\<close>),
  \<open>Replay\<close>, \<open>Reconstruction\<close> (\<^verbatim>\<open>application/reconstruction.py\<close>), \<open>Checkpoints\<close>
  (\<^verbatim>\<open>application/decision_window.py\<close>, \<^verbatim>\<open>persistence/decision_window.py\<close>,
  \<^verbatim>\<open>persistence/risk_session.py\<close>) and \<open>Live_Decision\<close>. \<open>Desk_Safety\<close>, \<open>Replay_Safety\<close> and
  \<open>Live_Safety\<close> hold the invariants of any history; \<open>Desk_Run\<close> concrete runs.

  \<^bold>\<open>The external agent.\<close> \<open>Agent_Contracts\<close> (\<^verbatim>\<open>agent_gateway/contracts.py\<close>,
  \<^verbatim>\<open>errors.py\<close>, \<^verbatim>\<open>events.py\<close>, \<^verbatim>\<open>evidence.py\<close>), \<open>Agent_Stores\<close> (\<^verbatim>\<open>stores.py\<close>,
  \<^verbatim>\<open>auth.py\<close>), \<open>Agent_Gateway\<close> (\<^verbatim>\<open>gateway.py\<close>), \<open>Agent_Review\<close>
  (\<^verbatim>\<open>market_context.py\<close>, \<^verbatim>\<open>supervisor_review.py\<close>, \<^verbatim>\<open>reference_supervisor.py\<close>),
  \<open>Agent_Path\<close> (\<^verbatim>\<open>decision_path.py\<close>) and \<open>Agent_Tables\<close>
  (\<^verbatim>\<open>persistence/agent_gateway.py\<close>). The gateway is proved over its in-memory stores, and the
  PostgreSQL stores are shown to simulate them, operation by operation; \<open>ge_durable\<close> says whether
  a failed submission is rolled back, and the theorems hold either way. \<open>Agent_Safety\<close> gives the
  closed form of a submission and the invariants of any history of calls, \<open>Agent_Path_Safety\<close> what
  an approved capsule of an agent rests on, \<open>Agent_Example\<close> a concrete history.

  \<^bold>\<open>Bounds and fuel.\<close> Every loop of the code is structural recursion except the generator of the
  synthetic market, which runs on fuel; \<open>generator_returns\<close> shows the fuel is enough for every bar
  interval of at most 120 hours, and the findings say when the code itself does not return. The
  28-digit rounding is bounded by its relative error where a statement speaks of exact amounts.
  Reads of the database by the execution tier are taken not to fail; its transactions and the
  broker may.

  \<^bold>\<open>Not modelled.\<close> The MetaTrader adapters and the live reader translate to and from the
  MetaTrader5 package, which is not in the repository; the workers take their answers as oracles.
  The HTTP transport of the agent boundary and the trainer bridge exchange messages with processes
  outside the repository. The dashboard and the local administration present or administer tables
  that are modelled where they are written. Schema declarations, migrations, the database engine,
  logging, bootstrap and the scripts wire these parts together. Advisory locks serialise and have
  no other effect, so a run is a sequence of steps. Log lines and derived display properties are
  left out.
\<close>

end
